(* ===== verification/Prelude.thy ===== *)
theory Prelude
  imports Complex_Main "HOL-Library.Word" "HOL-Library.Product_Lexorder" "HOL-Library.Option_ord"
begin

section \<open>Prelude: errors, transactions, instants, tables\<close>

text \<open>
  What every component of the development shares: the exceptions the code raises as
  a datatype, database transactions as state passing with an error (an exception rolls
  the transaction back, so the error carries no state), Python's \<open>datetime\<close>, and
  the few SQL statements the repositories use as list functions.
\<close>

named_theorems tx_simps "unfolding a successful transaction step by step"
named_theorems row_simps "the statements over tables"

subsection \<open>Exceptions\<close>

datatype py_error =
    ApiError string string int
  | RegistrationTransitionError string
  | EventValidationError string
  | ValueError string
  | RuntimeError string
  | IntegrityError string
  | DataError string
  | PermanentDeliveryError string
  | PyException string
  | OutboxDeduplicationConflictError
  | IdempotencyClaimLostError
  | TypeError
  | OutOfFuel

text \<open>
  Python floats as exact rationals with the three special values; rounding is not
  modelled.
\<close>

datatype py_float = Finite rat | PosInf | NegInf | NaN

fun isfinite :: "py_float \<Rightarrow> bool" where
  "isfinite (Finite q) = True"
| "isfinite PosInf = False"
| "isfinite NegInf = False"
| "isfinite NaN = False"

text \<open>Python's \<open>len\<close> is an unbounded integer.\<close>

abbreviation len :: "'a list \<Rightarrow> int" where
  "len xs \<equiv> int (length xs)"

subsection \<open>Results\<close>

text \<open>Sequencing of pure steps that may raise, and a guard.\<close>

definition res_bind :: "py_error + 'a \<Rightarrow> ('a \<Rightarrow> py_error + 'b) \<Rightarrow> py_error + 'b" where
  "res_bind m f = (case m of Inl e \<Rightarrow> Inl e | Inr x \<Rightarrow> f x)"

definition res_guard :: "bool \<Rightarrow> py_error \<Rightarrow> py_error + unit" where
  "res_guard b e = (if b then Inr () else Inl e)"

named_theorems res_simps "when a pure sequence succeeds"

lemma res_bind_Inr [res_simps]: "res_bind m f = Inr y \<longleftrightarrow> (\<exists>x. m = Inr x \<and> f x = Inr y)"
  by (auto simp: res_bind_def split: sum.splits)

lemma res_guard_Inr [res_simps]: "res_guard b e = Inr u \<longleftrightarrow> b"
  by (cases u) (simp add: res_guard_def)

lemma res_bind_run [simp]: "res_bind (Inr x) f = f x" "res_bind (Inl e) f = Inl e"
  by (simp_all add: res_bind_def)

lemma res_guard_run [simp]: "b \<Longrightarrow> res_guard b e = Inr ()" "\<not> b \<Longrightarrow> res_guard b e = Inl e"
  by (simp_all add: res_guard_def)

subsection \<open>Transactions\<close>

type_synonym ('s, 'a) tx = "'s \<Rightarrow> py_error + ('a \<times> 's)"

definition tx_return :: "'a \<Rightarrow> ('s, 'a) tx" where
  "tx_return x = (\<lambda>s. Inr (x, s))"

definition tx_raise :: "py_error \<Rightarrow> ('s, 'a) tx" where
  "tx_raise e = (\<lambda>s. Inl e)"

definition tx_bind :: "('s, 'a) tx \<Rightarrow> ('a \<Rightarrow> ('s, 'b) tx) \<Rightarrow> ('s, 'b) tx" where
  "tx_bind m f = (\<lambda>s. case m s of Inl e \<Rightarrow> Inl e | Inr (x, s') \<Rightarrow> f x s')"

definition tx_query :: "('s \<Rightarrow> 'a) \<Rightarrow> ('s, 'a) tx" where
  "tx_query q = (\<lambda>s. Inr (q s, s))"

definition tx_modify :: "('s \<Rightarrow> 's) \<Rightarrow> ('s, unit) tx" where
  "tx_modify f = (\<lambda>s. Inr ((), f s))"

definition tx_lift :: "py_error + 'a \<Rightarrow> ('s, 'a) tx" where
  "tx_lift r = (\<lambda>s. case r of Inl e \<Rightarrow> Inl e | Inr x \<Rightarrow> Inr (x, s))"

definition tx_guard :: "bool \<Rightarrow> py_error \<Rightarrow> ('s, unit) tx" where
  "tx_guard b e = (if b then tx_return () else tx_raise e)"

fun tx_each :: "('a \<Rightarrow> ('s, unit) tx) \<Rightarrow> 'a list \<Rightarrow> ('s, unit) tx" where
  "tx_each f [] = tx_return ()"
| "tx_each f (x # xs) = tx_bind (f x) (\<lambda>_. tx_each f xs)"

lemma tx_return_eq [tx_simps]: "tx_return x s = Inr r \<longleftrightarrow> r = (x, s)"
  by (auto simp: tx_return_def)

lemma tx_raise_eq [tx_simps]: "tx_raise e s = Inr r \<longleftrightarrow> False"
  by (simp add: tx_raise_def)

lemma tx_bind_eq [tx_simps]:
  "tx_bind m f s = Inr r \<longleftrightarrow> (\<exists>x s'. m s = Inr (x, s') \<and> f x s' = Inr r)"
  by (auto simp: tx_bind_def split: sum.splits)

lemma tx_query_eq [tx_simps]: "tx_query q s = Inr r \<longleftrightarrow> r = (q s, s)"
  by (auto simp: tx_query_def)

lemma tx_modify_eq [tx_simps]: "tx_modify f s = Inr r \<longleftrightarrow> r = ((), f s)"
  by (auto simp: tx_modify_def)

lemma tx_lift_eq [tx_simps]: "tx_lift m s = Inr r \<longleftrightarrow> (\<exists>x. m = Inr x \<and> r = (x, s))"
  by (auto simp: tx_lift_def split: sum.splits)

lemma tx_guard_eq [tx_simps]: "tx_guard b e s = Inr r \<longleftrightarrow> b \<and> r = ((), s)"
  by (auto simp: tx_guard_def tx_return_def tx_raise_def)

lemmas tx_run = tx_return_def tx_raise_def tx_bind_def tx_query_def tx_modify_def
  tx_lift_def tx_guard_def

text \<open>Failing runs: an error is the error of the first step that fails.\<close>

lemma tx_bind_Inl:
  "tx_bind m f s = Inl e \<longleftrightarrow> m s = Inl e \<or> (\<exists>x s'. m s = Inr (x, s') \<and> f x s' = Inl e)"
  by (auto simp: tx_bind_def split: sum.splits)

lemma tx_bindE:
  assumes "tx_bind m f s = Inr r"
  obtains x s' where "m s = Inr (x, s')" "f x s' = Inr r"
  using assms by (auto simp: tx_bind_eq)

lemma tx_bind_assoc: "tx_bind (tx_bind m f) g = tx_bind m (\<lambda>x. tx_bind (f x) g)"
  by (rule ext) (auto simp: tx_bind_def split: sum.splits)

lemma tx_bind_return [simp]: "tx_bind (tx_return x) f = f x"
  by (rule ext) (simp add: tx_bind_def tx_return_def)

lemma tx_bind_cong [fundef_cong]:
  assumes "m s = m' s'" and "s = s'" and "\<And>x t. m' s' = Inr (x, t) \<Longrightarrow> f x t = f' x t"
  shows "tx_bind m f s = tx_bind m' f' s'"
  using assms by (auto simp: tx_bind_def split: sum.splits)

text \<open>Hoare triples for transactions: the postcondition speaks of runs that commit.\<close>

definition tx_valid :: "('s \<Rightarrow> bool) \<Rightarrow> ('s, 'a) tx \<Rightarrow> ('a \<Rightarrow> 's \<Rightarrow> bool) \<Rightarrow> bool" where
  "tx_valid P m Q \<longleftrightarrow> (\<forall>s x t. P s \<longrightarrow> m s = Inr (x, t) \<longrightarrow> Q x t)"

lemma tx_validI: "(\<And>s x t. P s \<Longrightarrow> m s = Inr (x, t) \<Longrightarrow> Q x t) \<Longrightarrow> tx_valid P m Q"
  by (auto simp: tx_valid_def)

lemma tx_validD: "tx_valid P m Q \<Longrightarrow> P s \<Longrightarrow> m s = Inr (x, t) \<Longrightarrow> Q x t"
  by (auto simp: tx_valid_def)

lemma tx_valid_bind:
  assumes "tx_valid P m Q" and "\<And>x. tx_valid (Q x) (f x) R"
  shows "tx_valid P (tx_bind m f) R"
  using assms unfolding tx_valid_def tx_bind_eq by blast

lemma tx_valid_each:
  assumes "\<And>x. x \<in> set xs \<Longrightarrow> tx_valid P (f x) (\<lambda>_. P)"
  shows "tx_valid P (tx_each f xs) (\<lambda>_. P)"
  using assms
proof (induction xs)
  case Nil
  then show ?case by (simp add: tx_valid_def tx_return_eq)
next
  case (Cons x xs)
  have "tx_valid P (f x) (\<lambda>_. P)" using Cons.prems by simp
  moreover have "tx_valid P (tx_each f xs) (\<lambda>_. P)" using Cons by simp
  ultimately show ?case by (auto intro: tx_valid_bind)
qed

subsection \<open>Datetimes\<close>

text \<open>
  A Python \<open>datetime\<close> is naive (no time zone, or one with no offset) or aware; both
  carry the wall clock in microseconds, an aware one its UTC offset too. Aware values
  compare by the instant they denote; the database's \<open>timestamptz\<close> is that instant.
\<close>

type_synonym instant = int

datatype datetime = Naive int | Aware int int

fun utc_instant :: "datetime \<Rightarrow> instant option" where
  "utc_instant (Naive w) = None"
| "utc_instant (Aware w off) = Some (w - off)"

definition to_utc :: "py_error \<Rightarrow> datetime \<Rightarrow> py_error + instant" where
  "to_utc e d = (case utc_instant d of None \<Rightarrow> Inl e | Some t \<Rightarrow> Inr t)"

definition minutes :: "int \<Rightarrow> int" where
  "minutes m = m * 60 * 1000000"

definition days :: "int \<Rightarrow> int" where
  "days d = d * 24 * 60 * 60 * 1000000"

lemma to_utc_Inr [simp]: "to_utc e d = Inr t \<longleftrightarrow> utc_instant d = Some t"
  by (auto simp: to_utc_def split: option.splits)

lemma to_utc_Inl: "to_utc e d = Inl e' \<longleftrightarrow> utc_instant d = None \<and> e' = e"
  by (auto simp: to_utc_def split: option.splits)

lemma minutes_mono: "minutes a \<le> minutes b \<longleftrightarrow> a \<le> b"
  by (simp add: minutes_def)

lemma minutes_pos [simp]: "0 < minutes a \<longleftrightarrow> 0 < a" "0 \<le> minutes a \<longleftrightarrow> 0 \<le> a"
  by (auto simp: minutes_def)

subsection \<open>Statements over tables\<close>

text \<open>
  A table is the list of its rows. \<open>select_where\<close>, \<open>update_where\<close> and
  \<open>delete_where\<close> are the statements with a \<open>WHERE\<close> clause; \<open>one_or_none\<close> is the
  row a unique key finds; \<open>first_by\<close> is \<open>ORDER BY key LIMIT 1\<close>.
\<close>

definition update_where :: "('r \<Rightarrow> bool) \<Rightarrow> ('r \<Rightarrow> 'r) \<Rightarrow> 'r list \<Rightarrow> 'r list" where
  "update_where P f rs = map (\<lambda>r. if P r then f r else r) rs"

definition delete_where :: "('r \<Rightarrow> bool) \<Rightarrow> 'r list \<Rightarrow> 'r list" where
  "delete_where P rs = filter (\<lambda>r. \<not> P r) rs"

definition one_or_none :: "('r \<Rightarrow> bool) \<Rightarrow> 'r list \<Rightarrow> 'r option" where
  "one_or_none P rs = List.find P rs"

definition row_exists :: "('r \<Rightarrow> bool) \<Rightarrow> 'r list \<Rightarrow> bool" where
  "row_exists P rs \<longleftrightarrow> list_ex P rs"

definition count_where :: "('r \<Rightarrow> bool) \<Rightarrow> 'r list \<Rightarrow> int" where
  "count_where P rs = int (length (filter P rs))"

definition select_by :: "('r \<Rightarrow> 'k::linorder) \<Rightarrow> ('r \<Rightarrow> bool) \<Rightarrow> 'r list \<Rightarrow> 'r list" where
  "select_by k P rs = sort_key k (filter P rs)"

definition first_by :: "('r \<Rightarrow> 'k::linorder) \<Rightarrow> ('r \<Rightarrow> bool) \<Rightarrow> 'r list \<Rightarrow> 'r option" where
  "first_by k P rs = (case select_by k P rs of [] \<Rightarrow> None | r # _ \<Rightarrow> Some r)"

lemma one_or_none_Some: "one_or_none P rs = Some r \<Longrightarrow> r \<in> set rs \<and> P r"
  by (auto simp: one_or_none_def find_Some_iff)

lemma one_or_none_None [row_simps]: "one_or_none P rs = None \<longleftrightarrow> (\<forall>r \<in> set rs. \<not> P r)"
  by (auto simp: one_or_none_def find_None_iff)

lemma one_or_none_unique:
  assumes "r \<in> set rs" "P r" "\<And>r'. r' \<in> set rs \<Longrightarrow> P r' \<Longrightarrow> r' = r"
  shows "one_or_none P rs = Some r"
proof (cases "one_or_none P rs")
  case None
  then show ?thesis using assms(1,2) by (simp add: one_or_none_None)
next
  case (Some r')
  from one_or_none_Some [OF Some] have "r' = r" using assms(3) by blast
  with Some show ?thesis by simp
qed

lemma one_or_none_append:
  "one_or_none P (xs @ ys) = (case one_or_none P xs of None \<Rightarrow> one_or_none P ys | Some r \<Rightarrow> Some r)"
  unfolding one_or_none_def
  by (induction xs) (simp_all only: append.simps find.simps option.case split: if_split option.split, blast?)

lemma one_or_none_single [simp]: "one_or_none P [y] = (if P y then Some y else None)"
  by (simp add: one_or_none_def)

lemma row_exists_iff [row_simps]: "row_exists P rs \<longleftrightarrow> (\<exists>r \<in> set rs. P r)"
  by (simp add: row_exists_def list_ex_iff)

lemma set_update_where:
  "set (update_where P f rs) = (\<lambda>r. if P r then f r else r) ` set rs"
  by (simp add: update_where_def)

lemma in_update_where:
  assumes "r \<in> set (update_where P f rs)"
  obtains p where "p \<in> set rs" "r = (if P p then f p else p)"
  using assms unfolding set_update_where by blast

lemma length_update_where [simp]: "length (update_where P f rs) = length rs"
  by (simp add: update_where_def)

lemma update_where_Nil [simp]: "update_where P f [] = []"
  by (simp add: update_where_def)

lemma update_where_Cons [simp]:
  "update_where P f (r # rs) = (if P r then f r else r) # update_where P f rs"
  by (simp add: update_where_def)

lemma update_where_none: "\<forall>r \<in> set rs. \<not> P r \<Longrightarrow> update_where P f rs = rs"
  by (induction rs) auto

lemma map_update_where:
  "(\<And>r. P r \<Longrightarrow> k (f r) = k r) \<Longrightarrow> map k (update_where P f rs) = map k rs"
  by (simp add: update_where_def)

lemma count_where_nonneg [simp]: "0 \<le> count_where P rs"
  by (simp add: count_where_def)

lemma count_where_Nil [simp]: "count_where P [] = 0"
  by (simp add: count_where_def)

lemma count_where_Cons [simp]:
  "count_where P (r # rs) = (if P r then 1 else 0) + count_where P rs"
  by (simp add: count_where_def)

lemma count_where_append [simp]:
  "count_where P (xs @ ys) = count_where P xs + count_where P ys"
  by (simp add: count_where_def)

lemma count_where_0: "count_where P rs = 0 \<longleftrightarrow> (\<forall>r \<in> set rs. \<not> P r)"
  by (simp add: count_where_def filter_empty_conv)

text \<open>Updating the one row with a given key moves a count by what that row contributes.\<close>

lemma count_where_update_one:
  assumes "distinct (map k rs)" "r \<in> set rs"
  shows "count_where P (update_where (\<lambda>x. k x = k r) f rs)
           = count_where P rs - (if P r then 1 else 0) + (if P (f r) then 1 else 0)"
  using assms
proof (induction rs)
  case Nil
  then show ?case by simp
next
  case (Cons x rs)
  show ?case
  proof (cases "x = r")
    case True
    then have "\<forall>y \<in> set rs. k y \<noteq> k r" using Cons.prems(1) by (auto simp: image_iff)
    then have "update_where (\<lambda>x. k x = k r) f rs = rs" by (rule update_where_none)
    then show ?thesis using True by simp
  next
    case False
    then have "r \<in> set rs" using Cons.prems(2) by simp
    moreover from this have "k x \<noteq> k r" using Cons.prems(1) by (auto simp: image_iff)
    ultimately show ?thesis using Cons by simp
  qed
qed

lemma set_select_by [simp]: "set (select_by k P rs) = {r \<in> set rs. P r}"
  by (simp add: select_by_def)

lemma sorted_select_by: "sorted (map k (select_by k P rs))"
  by (simp add: select_by_def)

lemma first_by_Some:
  assumes "first_by k P rs = Some r"
  shows "r \<in> set rs" "P r" "\<And>r'. r' \<in> set rs \<Longrightarrow> P r' \<Longrightarrow> k r \<le> k r'"
proof -
  obtain ys where ys: "select_by k P rs = r # ys"
    using assms by (auto simp: first_by_def split: list.splits)
  have "set (r # ys) = {r \<in> set rs. P r}" using set_select_by [of k P rs] ys by simp
  then show "r \<in> set rs" "P r" by auto
  fix r' assume r': "r' \<in> set rs" "P r'"
  then have "r' \<in> set (r # ys)" using \<open>set (r # ys) = _\<close> by auto
  moreover have "sorted (map k (r # ys))" using sorted_select_by [of k P rs] ys by simp
  ultimately show "k r \<le> k r'" by auto
qed

lemma first_by_None: "first_by k P rs = None \<longleftrightarrow> (\<forall>r \<in> set rs. \<not> P r)"
proof -
  have "first_by k P rs = None \<longleftrightarrow> select_by k P rs = []"
    by (auto simp: first_by_def split: list.splits)
  also have "\<dots> \<longleftrightarrow> set (select_by k P rs) = {}" by (simp only: set_empty)
  also have "\<dots> \<longleftrightarrow> (\<forall>r \<in> set rs. \<not> P r)" by auto
  finally show ?thesis .
qed

lemma distinct_key_eq:
  "distinct (map k rs) \<Longrightarrow> r \<in> set rs \<Longrightarrow> r' \<in> set rs \<Longrightarrow> k r = k r' \<Longrightarrow> r = r'"
  by (auto simp: distinct_map inj_on_def)

lemma one_or_none_key:
  assumes "distinct (map k rs)" "r \<in> set rs"
  shows "one_or_none (\<lambda>x. k x = k r) rs = Some r"
  using assms by (intro one_or_none_unique) (auto dest: distinct_key_eq)

end
