(* ===== verification/Identifiers.thy ===== *)
theory Identifiers
  imports Prelude
begin

unbundle bit_operations_syntax

section \<open>UUIDv7 identifiers (db/identifiers.py, db/time.py)\<close>

text \<open>
  Identifiers are 128-bit UUIDs. \<open>generate_uuid7\<close> takes what the code reads from the
  system, the clock in nanoseconds and the two random fields, as arguments; the fields
  of \<open>secrets.randbits(12)\<close> and \<open>secrets.randbits(62)\<close> are words of these widths.
\<close>

type_synonym uuid = "128 word"

definition generate_uuid7 :: "int \<Rightarrow> 12 word \<Rightarrow> 62 word \<Rightarrow> py_error + uuid" where
  "generate_uuid7 time_ns rand_a rand_b =
     (let milliseconds = time_ns div 1000000 in
      if \<not> (0 \<le> milliseconds \<and> milliseconds \<le> push_bit 48 1 - 1)
      then Inl (RuntimeError ''system time is outside the UUIDv7 timestamp range'')
      else Inr (push_bit 80 (word_of_int milliseconds)
                OR push_bit 76 7
                OR push_bit 64 (ucast rand_a)
                OR push_bit 62 2
                OR ucast rand_b))"

text \<open>\<open>UUID.version\<close> of the standard library: defined for the RFC 4122 variant only.\<close>

definition uuid_version :: "uuid \<Rightarrow> uuid option" where
  "uuid_version u = (if bit u 63 \<and> \<not> bit u 62 then Some (drop_bit 76 u AND 15) else None)"

definition validate_uuid7 :: "uuid \<Rightarrow> py_error + uuid" where
  "validate_uuid7 u =
     (if uuid_version u \<noteq> Some 7 then Inl (ValueError ''identifier must be a UUIDv7 value'')
      else Inr u)"

definition is_uuid7 :: "uuid \<Rightarrow> bool" where
  "is_uuid7 u \<longleftrightarrow> uuid_version u = Some 7"

definition as_utc :: "datetime \<Rightarrow> py_error + instant" where
  "as_utc d = to_utc (ValueError ''persistence datetimes must be timezone-aware'') d"

lemma validate_uuid7_Inr [simp]: "validate_uuid7 u = Inr v \<longleftrightarrow> is_uuid7 u \<and> v = u"
  by (auto simp: validate_uuid7_def is_uuid7_def)

lemma validate_uuid7_Inl:
  "validate_uuid7 u = Inl e \<longleftrightarrow>
     \<not> is_uuid7 u \<and> e = ValueError ''identifier must be a UUIDv7 value''"
  by (auto simp: validate_uuid7_def is_uuid7_def)

subsection \<open>The fields of a generated identifier\<close>

lemma bit_seven: "bit (7 :: uuid) n \<longleftrightarrow> n < 3"
proof -
  have "bit (mask 3 :: uuid) n \<longleftrightarrow> n < 3"
    by (auto simp: bit_mask_iff)
  moreover have "(mask 3 :: uuid) = 7"
    by (simp add: mask_eq_exp_minus_1)
  ultimately show ?thesis by simp
qed

lemma bit_two: "bit (2 :: uuid) n \<longleftrightarrow> n = 1"
proof -
  have "bit (push_bit 1 1 :: uuid) n \<longleftrightarrow> n = 1"
    unfolding bit_push_bit_iff bit_1_iff by auto
  moreover have "(push_bit 1 1 :: uuid) = 2" by simp
  ultimately show ?thesis by simp
qed

lemma bit_generated:
  assumes "generate_uuid7 t a b = Inr u"
  shows "bit u n \<longleftrightarrow> n < 128 \<and>
    (80 \<le> n \<and> bit (t div 1000000) (n - 80) \<or> 76 \<le> n \<and> n < 79 \<or>
     64 \<le> n \<and> bit a (n - 64) \<or> n = 63 \<or> bit b n)"
proof -
  have u: "u = push_bit 80 (word_of_int (t div 1000000)) OR push_bit 76 7
      OR push_bit 64 (ucast a) OR push_bit 62 2 OR ucast b"
    using assms by (auto simp: generate_uuid7_def Let_def split: if_splits)
  have "n < 62" if "bit b n" using that bit_imp_le_length [of b n] by simp
  moreover have "n - 64 < 12" if "bit a (n - 64)" using that bit_imp_le_length [of a "n - 64"] by simp
  ultimately show ?thesis
    unfolding u bit_or_iff bit_push_bit_iff bit_ucast_iff bit_word_of_int_iff bit_seven bit_two
    by auto
qed

text \<open>The fields do not overlap, so the identifier is their sum; the witnesses compute it so.\<close>

lemma generate_uuid7_code [code]:
  "generate_uuid7 time_ns rand_a rand_b =
     (let milliseconds = time_ns div 1000000 in
      if \<not> (0 \<le> milliseconds \<and> milliseconds \<le> 281474976710655)
      then Inl (RuntimeError ''system time is outside the UUIDv7 timestamp range'')
      else Inr (word_of_int (milliseconds * 1208925819614629174706176 + 528914269453437118709760
        + uint rand_a * 18446744073709551616 + uint rand_b)))"
proof -
  let ?m = "word_of_int (time_ns div 1000000) :: uuid"
  have a: "n < 12" if "bit rand_a n" for n using bit_imp_le_length [OF that] by simp
  have b: "n < 62" if "bit rand_b n" for n using bit_imp_le_length [OF that] by simp
  have "push_bit 80 ?m OR push_bit 76 7 = push_bit 80 ?m + push_bit 76 (7 :: uuid)"
    by (rule disjunctive_add [symmetric]) (unfold bit_push_bit_iff bit_seven, auto)
  moreover have "(push_bit 80 ?m OR push_bit 76 7) OR push_bit 64 (ucast rand_a)
      = (push_bit 80 ?m OR push_bit 76 7) + push_bit 64 (ucast rand_a)"
    by (rule disjunctive_add [symmetric])
      (unfold bit_push_bit_iff bit_or_iff bit_ucast_iff bit_seven, auto dest: a)
  moreover have "((push_bit 80 ?m OR push_bit 76 7) OR push_bit 64 (ucast rand_a)) OR push_bit 62 2
      = ((push_bit 80 ?m OR push_bit 76 7) OR push_bit 64 (ucast rand_a)) + push_bit 62 2"
    by (rule disjunctive_add [symmetric])
      (unfold bit_push_bit_iff bit_or_iff bit_ucast_iff bit_seven bit_two, auto dest: a)
  moreover have "(((push_bit 80 ?m OR push_bit 76 7) OR push_bit 64 (ucast rand_a)) OR push_bit 62 2) OR ucast rand_b
      = (((push_bit 80 ?m OR push_bit 76 7) OR push_bit 64 (ucast rand_a)) OR push_bit 62 2) + ucast rand_b"
    by (rule disjunctive_add [symmetric])
      (unfold bit_push_bit_iff bit_or_iff bit_ucast_iff bit_seven bit_two, auto dest: b)
  ultimately have or_sum: "push_bit 80 ?m OR push_bit 76 7 OR push_bit 64 (ucast rand_a)
      OR push_bit 62 2 OR ucast rand_b
    = push_bit 80 ?m + push_bit 76 7 + push_bit 64 (ucast rand_a) + push_bit 62 2 + ucast rand_b"
    unfolding or.assoc [symmetric] by simp
  have p: "push_bit 80 ?m = word_of_int (time_ns div 1000000 * 1208925819614629174706176)"
    "push_bit 76 (7 :: uuid) = word_of_int 528905046081400263933952"
    "push_bit 64 (ucast rand_a) = (word_of_int (uint rand_a * 18446744073709551616) :: uuid)"
    "push_bit 62 (2 :: uuid) = word_of_int 9223372036854775808"
    "ucast rand_b = (word_of_int (uint rand_b) :: uuid)"
    by (simp add: push_bit_eq_mult, simp, simp only: push_bit_eq_mult of_int_mult of_int_numeral ucast_eq,
        simp, simp, simp only: ucast_eq)
  have sum: "push_bit 80 ?m + push_bit 76 7 + push_bit 64 (ucast rand_a) + push_bit 62 2 + ucast rand_b
    = word_of_int (time_ns div 1000000 * 1208925819614629174706176)
      + word_of_int 528905046081400263933952 + word_of_int (uint rand_a * 18446744073709551616)
      + word_of_int 9223372036854775808 + word_of_int (uint rand_b)"
    by (simp only: p)
  note or_sum also note sum
  also have "\<dots> = word_of_int (time_ns div 1000000 * 1208925819614629174706176 + 528914269453437118709760
        + uint rand_a * 18446744073709551616 + uint rand_b)"
    by (simp only: of_int_add [symmetric]) (rule arg_cong [where f = word_of_int], simp)
  finally show ?thesis
    unfolding generate_uuid7_def by (simp add: Let_def push_bit_eq_mult)
qed

text \<open>The three fields of RFC 9562 are read back: version, variant and timestamp.\<close>

lemma generated_timestamp:
  assumes "generate_uuid7 t a b = Inr u"
  shows "uint (drop_bit 80 u) = t div 1000000"
proof -
  have range: "0 \<le> t div 1000000" "t div 1000000 < 2 ^ 48"
    using assms by (auto simp: generate_uuid7_def Let_def split: if_splits)
  have "drop_bit 80 u = word_of_int (t div 1000000)"
  proof (rule bit_word_eqI)
    fix n assume "n < LENGTH(128)"
    show "bit (drop_bit 80 u) n \<longleftrightarrow> bit (word_of_int (t div 1000000) :: uuid) n"
    proof (cases "n < 48")
      case True
      then show ?thesis
        by (auto simp: bit_drop_bit_eq bit_generated [OF assms] bit_word_of_int_iff
            dest: bit_imp_le_length)
    next
      case False
      have "\<not> bit (t div 1000000) n"
      proof -
        have "t div 1000000 div 2 ^ n = 0"
        proof (rule div_pos_pos_trivial)
          have "(2::int) ^ 48 \<le> 2 ^ n" using False by (intro power_increasing) auto
          then show "t div 1000000 < 2 ^ n" using range(2) by linarith
        qed (use range in simp)
        then show ?thesis by (simp add: bit_iff_odd)
      qed
      moreover have "\<not> bit u (80 + n)"
        using False by (subst bit_generated [OF assms]) (auto dest: bit_imp_le_length)
      ultimately show ?thesis
        by (simp add: bit_drop_bit_eq bit_word_of_int_iff)
    qed
  qed
  moreover have "take_bit 128 (t div 1000000) = t div 1000000"
    using range by (intro take_bit_int_eq_self) auto
  ultimately show ?thesis by (simp add: uint_word_of_int_eq)
qed

lemma drop_bit_word_mono: "(u :: uuid) \<le> v \<Longrightarrow> drop_bit n u \<le> drop_bit n v"
  by (simp only: word_le_nat_alt unat_drop_bit_eq) (simp only: drop_bit_eq_div div_le_mono)

lemma generated_low_bits:
  assumes "generate_uuid7 t a b = Inr u" "generate_uuid7 t a b' = Inr u"
  shows "b = b'"
proof (rule bit_word_eqI)
  fix n assume "n < LENGTH(62)"
  then show "bit b n = bit b' n"
    using bit_generated [OF assms(1), of n] bit_generated [OF assms(2), of n] by simp
qed

lemma generated_is_uuid7:
  assumes "generate_uuid7 t a b = Inr u"
  shows "is_uuid7 u"
proof -
  have "drop_bit 76 u AND 15 = 7"
  proof (rule bit_word_eqI)
    fix n assume "n < LENGTH(128)"
    have fifteen: "bit (15 :: uuid) n \<longleftrightarrow> n < 4"
    proof -
      have "bit (mask 4 :: uuid) n \<longleftrightarrow> n < 4" by (auto simp: bit_mask_iff)
      moreover have "(mask 4 :: uuid) = 15" by (simp add: mask_eq_exp_minus_1)
      ultimately show ?thesis by simp
    qed
    have "\<not> bit b (76 + n)" "\<not> bit a (76 + n - 64)"
      by (auto dest: bit_imp_le_length)
    then have "bit u (76 + n) \<longleftrightarrow> n < 3" if "n < 4"
      using that by (subst bit_generated [OF assms]) auto
    then show "bit (drop_bit 76 u AND 15) n \<longleftrightarrow> bit (7 :: uuid) n"
      unfolding bit_and_iff bit_drop_bit_eq o_def fifteen bit_seven by auto
  qed
  moreover have "bit u 63" by (simp add: bit_generated [OF assms])
  moreover have "\<not> bit u 62"
    using bit_imp_le_length [of b 62] by (auto simp: bit_generated [OF assms])
  ultimately show ?thesis by (simp add: is_uuid7_def uuid_version_def)
qed

text \<open>
  Every identifier \<open>generate_uuid7\<close> returns is accepted by \<open>validate_uuid7\<close>, carries the
  millisecond it was made at in its top 48 bits whatever the random fields are, and
  identifiers made in a later millisecond are larger, so that \<open>ORDER BY id\<close> is creation
  order across milliseconds.
\<close>

theorem generate_uuid7_valid_and_ordered:
  assumes "generate_uuid7 t a b = Inr u" "generate_uuid7 t' a' b' = Inr v"
  shows "validate_uuid7 u = Inr u \<and> uint (drop_bit 80 u) = t div 1000000 \<and>
    (t div 1000000 < t' div 1000000 \<longrightarrow> u < v)"
proof (intro conjI impI)
  show "validate_uuid7 u = Inr u" by (simp add: generated_is_uuid7 [OF assms(1)])
  show "uint (drop_bit 80 u) = t div 1000000" by (rule generated_timestamp [OF assms(1)])
  assume "t div 1000000 < t' div 1000000"
  then have "\<not> drop_bit 80 v \<le> drop_bit 80 u"
    by (simp add: word_le_def generated_timestamp [OF assms(1)] generated_timestamp [OF assms(2)])
  then show "u < v" using drop_bit_word_mono by (meson linorder_not_less)
qed

theorem generate_uuid7_valid_and_ordered_witness:
  "\<exists>u v. generate_uuid7 1700000000000000000 5 9 = Inr u \<and>
     generate_uuid7 1700000000001000000 3 4 = Inr v \<and> validate_uuid7 u = Inr u \<and> u < v"
proof -
  obtain u where u: "generate_uuid7 1700000000000000000 5 9 = Inr u"
    by (simp add: generate_uuid7_def Let_def)
  obtain v where v: "generate_uuid7 1700000000001000000 3 4 = Inr v"
    by (simp add: generate_uuid7_def Let_def)
  show ?thesis using generate_uuid7_valid_and_ordered [OF u v] u v by auto
qed

end
