(* ===== verification/Schema.thy ===== *)
theory Schema
  imports Identifiers
begin

section \<open>The database: enums, rows, tables\<close>

text \<open>
  The tables the modelled services read and write, one record per row type with the
  columns the code uses, and the record \<open>db\<close> of all tables. Two more fields are what a
  transaction reads from the system: the entropy of \<open>generate_uuid7\<close> and the readings of
  the database's \<open>clock_timestamp()\<close>, each a stream with the position of the next value.
\<close>

subsection \<open>Enumerations\<close>

datatype user_status = UserActive | UserSuspended | UserDeleted
datatype club_role = RoleOwner | RoleAdmin | RoleMember
datatype club_status = ClubDraft | ClubPublished | ClubUnpublished | ClubSuspended | ClubClosed
datatype ownership_type = ClubOwned | Independent
datatype event_visibility = Public | PrivateLink
datatype event_status = EvDraft | EvPublished | EvCancelled | EvCompleted | EvSuspended
datatype registration_method = Free | CashOrganizerConfirmed
datatype registration_state = Confirmed | CashPending | Waitlisted | Cancelled | Expired
datatype actor_kind = Member | Organizer | Admin | System
datatype membership_policy = OpenMembership | ApprovalRequired
datatype join_request_status = RequestPending | RequestApproved | RequestRejected | RequestCancelled
datatype media_status = MediaPending | MediaVerified | MediaQuarantined | MediaDeleted
datatype notification_channel = InApp | Email
datatype auth_token_kind = EmailVerification | PasswordReset
datatype moderation_target_type = TargetUser | TargetClub | TargetEvent
datatype moderation_status = CaseOpen | CaseInvestigating | CaseActioned | CaseDismissed
datatype moderation_priority = PriorityStandard | PriorityHigh | PriorityEmergency
datatype moderation_action = ActSuspend | ActUnpublish | ActRestore | ActRestrict
datatype delivery_status = Pending | Processing | Delivered | RetryableFailed | PermanentFailed

fun state_name :: "registration_state \<Rightarrow> string" where
  "state_name Confirmed = ''confirmed''"
| "state_name CashPending = ''cash_pending''"
| "state_name Waitlisted = ''waitlisted''"
| "state_name Cancelled = ''cancelled''"
| "state_name Expired = ''expired''"

fun event_status_name :: "event_status \<Rightarrow> string" where
  "event_status_name EvDraft = ''draft''"
| "event_status_name EvPublished = ''published''"
| "event_status_name EvCancelled = ''cancelled''"
| "event_status_name EvCompleted = ''completed''"
| "event_status_name EvSuspended = ''suspended''"

fun visibility_name :: "event_visibility \<Rightarrow> string" where
  "visibility_name Public = ''public''"
| "visibility_name PrivateLink = ''private_link''"

fun actor_kind_name :: "actor_kind \<Rightarrow> string" where
  "actor_kind_name Member = ''member''"
| "actor_kind_name Organizer = ''organizer''"
| "actor_kind_name Admin = ''admin''"
| "actor_kind_name System = ''system''"

lemma state_name_inject [simp]: "state_name a = state_name b \<longleftrightarrow> a = b"
  by (cases a; cases b) auto

subsection \<open>JSON values\<close>

datatype json =
    JNull
  | JBool bool
  | JInt int
  | JStr string
  | JArr "json list"
  | JObj "(string \<times> json) list"

text \<open>
  The text form of an identifier, \<open>str(UUID)\<close> and a \<open>uuid\<close> in \<open>jsonb\<close>: 32 hexadecimal
  digits in groups of 8-4-4-4-12; \<open>parse_uuid\<close> is the cast of such a text to \<open>uuid\<close>.
\<close>

definition hex_digit :: "int \<Rightarrow> char" where
  "hex_digit d = ''0123456789abcdef'' ! nat d"

fun hex_digits :: "nat \<Rightarrow> int \<Rightarrow> string" where
  "hex_digits 0 x = []"
| "hex_digits (Suc n) x = hex_digits n (x div 16) @ [hex_digit (x mod 16)]"

definition uuid_str :: "uuid \<Rightarrow> string" where
  "uuid_str u = (let h = hex_digits 32 (uint u) in
     take 8 h @ ''-'' @ take 4 (drop 8 h) @ ''-'' @ take 4 (drop 12 h) @ ''-''
       @ take 4 (drop 16 h) @ ''-'' @ drop 20 h)"

definition hex_value :: "char \<Rightarrow> int option" where
  "hex_value c = List.find (\<lambda>d. hex_digit d = c) [0..15]"

definition parse_uuid :: "string \<Rightarrow> uuid option" where
  "parse_uuid s =
     (let h = take 8 s @ take 4 (drop 9 s) @ take 4 (drop 14 s) @ take 4 (drop 19 s) @ drop 24 s
      in if length s = 36 \<and> s ! 8 = CHR ''-'' \<and> s ! 13 = CHR ''-'' \<and> s ! 18 = CHR ''-''
            \<and> s ! 23 = CHR ''-'' \<and> list_all (\<lambda>c. hex_value c \<noteq> None) h
         then Some (of_int (foldl (\<lambda>a c. 16 * a + the (hex_value c)) 0 h))
         else None)"

lemma length_hex_digits [simp]: "length (hex_digits n x) = n"
  by (induction n arbitrary: x) auto

lemma hex_value_digit [simp]: "0 \<le> d \<Longrightarrow> d < 16 \<Longrightarrow> hex_value (hex_digit d) = Some d"
proof -
  assume "0 \<le> d" "d < 16"
  then have "d \<in> set [0..15]" by simp
  moreover have "\<forall>d \<in> set [0..15]. hex_value (hex_digit d) = Some d"
    by (simp add: upto_rec1 hex_value_def hex_digit_def)
  ultimately show ?thesis by blast
qed

lemma hex_digits_value:
  "list_all (\<lambda>c. hex_value c \<noteq> None) (hex_digits n x) \<and>
   foldl (\<lambda>a c. 16 * a + the (hex_value c)) 0 (hex_digits n x) = x mod 16 ^ n"
proof (induction n arbitrary: x)
  case 0
  then show ?case by simp
next
  case (Suc n)
  have "x mod 16 ^ Suc n = 16 * (x div 16 mod 16 ^ n) + x mod 16"
    by (simp add: zmod_zmult2_eq)
  then show ?case using Suc by simp
qed

lemma parse_uuid_str [simp]: "parse_uuid (uuid_str u) = Some u"
proof -
  let ?h = "hex_digits 32 (uint u)"
  have "take 8 ?h @ take 4 (drop 8 ?h) @ take 4 (drop 12 ?h) @ take 4 (drop 16 ?h) @ drop 20 ?h = ?h"
  proof -
    have "take 8 ?h @ drop 8 ?h = ?h" by simp
    moreover have "drop 8 ?h = take 4 (drop 8 ?h) @ drop 12 ?h"
      using append_take_drop_id [of 4 "drop 8 ?h"] by simp
    moreover have "drop 12 ?h = take 4 (drop 12 ?h) @ drop 16 ?h"
      using append_take_drop_id [of 4 "drop 12 ?h"] by simp
    moreover have "drop 16 ?h = take 4 (drop 16 ?h) @ drop 20 ?h"
      using append_take_drop_id [of 4 "drop 16 ?h"] by simp
    ultimately show ?thesis by metis
  qed
  moreover have "foldl (\<lambda>a c. 16 * a + the (hex_value c)) 0 ?h = uint u"
  proof -
    have "(16 :: int) ^ 32 = 2 ^ LENGTH(128)" by simp
    then have "uint u < 16 ^ 32" using uint_lt2p [of u] by metis
    then have "uint u mod 16 ^ 32 = uint u" by simp
    then show ?thesis using hex_digits_value [of 32 "uint u"] by simp
  qed
  ultimately show ?thesis
    using hex_digits_value [of 32 "uint u"]
    by (simp add: parse_uuid_def uuid_str_def Let_def nth_append del: hex_digits.simps)
qed

lemma uuid_str_inject [simp]: "uuid_str u = uuid_str v \<longleftrightarrow> u = v"
  by (metis option.inject parse_uuid_str)

subsection \<open>Rows\<close>

record country_row =
  co_id :: uuid
  co_code :: string
  co_default_locale :: string
  co_default_currency :: string
  co_enabled :: bool

record city_row =
  ci_id :: uuid
  ci_country_id :: uuid
  ci_slug :: string
  ci_time_zone :: string
  ci_enabled :: bool
  ci_beta_enabled :: bool

record category_row =
  ca_id :: uuid
  ca_slug :: string
  ca_enabled :: bool

record policy_row =
  po_country_id :: uuid
  po_allowed_registration_methods :: "registration_method list"
  po_cash_expiry_default_minutes :: int
  po_cash_expiry_min_minutes :: int
  po_cash_expiry_max_minutes :: int
  po_cancellation_default_minutes :: int
  po_cancellation_min_minutes :: int
  po_cancellation_max_minutes :: int
  po_default_club_ownership_limit :: int
  po_default_active_independent_event_limit :: int
  po_exact_venue_public_by_default :: bool
  po_revision :: int

record user_row =
  us_id :: uuid
  us_email :: string
  us_password_hash :: string
  us_status :: user_status
  us_email_verified_at :: "instant option"
  us_terms_version :: string
  us_privacy_version :: string
  us_age_attested_at :: instant
  us_organizer_rules_version :: "string option"
  us_community_rules_version :: "string option"
  us_is_platform_admin :: bool
  us_failed_login_count :: int
  us_locked_until :: "instant option"
  us_suspended_at :: "instant option"
  us_suspension_reason :: "string option"
  us_deletion_requested_at :: "instant option"
  us_anonymized_at :: "instant option"

record profile_row =
  pr_user_id :: uuid
  pr_username :: string
  pr_display_name :: string
  pr_country_id :: uuid
  pr_city_id :: uuid
  pr_locale :: string
  pr_time_zone :: string
  pr_preferred_currency :: string
  pr_avatar_media_id :: "uuid option"
  pr_notify_event_email :: bool
  pr_notify_community_email :: bool
  pr_profile_completed_at :: "instant option"

record session_row =
  se_id :: uuid
  se_user_id :: uuid
  se_family_id :: uuid
  se_refresh_token_hash :: string
  se_csrf_secret_hash :: string
  se_expires_at :: instant
  se_revoked_at :: "instant option"
  se_revoke_reason :: "string option"
  se_last_used_at :: "instant option"
  se_rotated_at :: "instant option"
  se_replaced_by_session_id :: "uuid option"
  se_created_at :: instant

record auth_token_row =
  at_id :: uuid
  at_user_id :: uuid
  at_kind :: auth_token_kind
  at_token_hash :: string
  at_expires_at :: instant
  at_used_at :: "instant option"
  at_created_at :: instant

record mfa_row =
  mf_user_id :: uuid
  mf_verified_at :: "instant option"
  mf_disabled_at :: "instant option"

text \<open>Only the boolean feature flags of \<open>platform_settings\<close> are read by the modelled code.\<close>

record setting_row =
  st_key :: string
  st_enabled :: bool
  st_revision :: int

text \<open>A club row refers to its category, country and city by identifier, a \<open>Club\<close> by slug or code.\<close>

record club_core =
  cl_id :: uuid
  cl_owner_user_id :: uuid
  cl_slug :: string
  cl_name :: string
  cl_description :: "string option"
  cl_membership_policy :: membership_policy
  cl_social_links :: "(string \<times> string) list"
  cl_logo_media_id :: "uuid option"
  cl_cover_media_id :: "uuid option"
  cl_revision :: int
  cl_status :: club_status
  cl_published_at :: "instant option"
  cl_suspended_at :: "instant option"
  cl_suspension_reason :: "string option"
  cl_closed_at :: "instant option"
  cl_created_at :: instant
  cl_updated_at :: instant

record club = club_core +
  cl_category_slug :: "string option"
  cl_country_code :: "string option"
  cl_city_slug :: "string option"

record club_row = club_core +
  cl_category_id :: "uuid option"
  cl_country_id :: "uuid option"
  cl_city_id :: "uuid option"

record membership_row =
  me_id :: uuid
  me_club_id :: uuid
  me_user_id :: uuid
  me_role :: club_role
  me_joined_at :: instant

record join_request_row =
  jr_id :: uuid
  jr_club_id :: uuid
  jr_user_id :: uuid
  jr_status :: join_request_status
  jr_message :: "string option"
  jr_decided_by_user_id :: "uuid option"
  jr_decision_reason :: "string option"
  jr_decided_at :: "instant option"
  jr_created_at :: instant
  jr_updated_at :: instant

record media_row =
  ma_id :: uuid
  ma_owner_user_id :: uuid
  ma_status :: media_status
  ma_storage_key :: string
  ma_original_filename :: string
  ma_content_type :: string
  ma_byte_size :: int
  ma_width :: "int option"
  ma_height :: "int option"
  ma_sha256 :: "string option"
  ma_verified_at :: "instant option"
  ma_quarantine_reason :: "string option"
  ma_created_at :: instant
  ma_updated_at :: instant

record moderation_case_row =
  mc_id :: uuid
  mc_reporter_user_id :: "uuid option"
  mc_target_type :: moderation_target_type
  mc_target_user_id :: "uuid option"
  mc_target_club_id :: "uuid option"
  mc_target_event_id :: "uuid option"
  mc_category :: string
  mc_description :: string
  mc_status :: moderation_status
  mc_priority :: moderation_priority
  mc_assigned_admin_user_id :: "uuid option"
  mc_resolution_reason :: "string option"
  mc_acknowledged_at :: "instant option"
  mc_resolved_at :: "instant option"
  mc_created_at :: instant
  mc_updated_at :: instant

record moderation_event_row =
  mh_id :: uuid
  mh_case_id :: uuid
  mh_actor_user_id :: "uuid option"
  mh_action :: "moderation_action option"
  mh_from_status :: "moderation_status option"
  mh_to_status :: moderation_status
  mh_reason :: string
  mh_safe_metadata :: json
  mh_created_at :: instant

text \<open>
  The columns an event row shares with the \<open>Event\<close> the services work on; the row refers to
  its category, country and city by identifier, the \<open>Event\<close> by the joined slug or code.
\<close>

record event_core =
  ev_id :: uuid
  ev_ownership_type :: ownership_type
  ev_club_id :: "uuid option"
  ev_owner_user_id :: "uuid option"
  ev_title :: string
  ev_description :: string
  ev_start_at :: "instant option"
  ev_end_at :: "instant option"
  ev_time_zone :: "string option"
  ev_capacity :: "int option"
  ev_visibility :: event_visibility
  ev_status :: event_status
  ev_registration_method :: "registration_method option"
  ev_cash_expiry_minutes :: "int option"
  ev_cancellation_cutoff_minutes :: "int option"
  ev_district :: "string option"
  ev_public_meeting_area :: "string option"
  ev_exact_address :: "string option"
  ev_latitude :: "py_float option"
  ev_longitude :: "py_float option"
  ev_exact_venue_is_public :: bool
  ev_cover_media_id :: "uuid option"
  ev_revision :: int
  ev_published_at :: "instant option"
  ev_cancelled_at :: "instant option"
  ev_completed_at :: "instant option"
  ev_suspended_at :: "instant option"
  ev_suspension_reason :: "string option"
  ev_created_at :: instant
  ev_updated_at :: instant

record event = event_core +
  ev_category_slug :: "string option"
  ev_country_code :: "string option"
  ev_city_slug :: "string option"

record event_row = event_core +
  ev_category_id :: "uuid option"
  ev_country_id :: "uuid option"
  ev_city_id :: "uuid option"

record invite_row =
  iv_id :: uuid
  iv_event_id :: uuid
  iv_token_hash :: string
  iv_created_by_user_id :: uuid
  iv_expires_at :: "instant option"
  iv_revoked_at :: "instant option"
  iv_last_used_at :: "instant option"
  iv_created_at :: instant

record saved_row =
  sv_user_id :: uuid
  sv_event_id :: uuid

record registration =
  rg_id :: uuid
  rg_event_id :: uuid
  rg_user_id :: uuid
  rg_method :: registration_method
  rg_state :: registration_state
  rg_seat_held :: bool
  rg_waitlist_sequence :: "int option"
  rg_cash_expires_at :: "instant option"
  rg_confirmed_at :: "instant option"
  rg_cancelled_at :: "instant option"
  rg_expired_at :: "instant option"
  rg_cancellation_reason :: "string option"
  rg_created_at :: instant
  rg_updated_at :: instant

record registration_transition =
  rt_id :: uuid
  rt_command_id :: uuid
  rt_command_hash :: string
  rt_registration_id :: uuid
  rt_actor_user_id :: "uuid option"
  rt_actor_kind :: actor_kind
  rt_previous_state :: "registration_state option"
  rt_new_state :: registration_state
  rt_reason_code :: string
  rt_request_id :: "uuid option"
  rt_occurred_at :: instant
  rt_created_at :: instant

record outbox_row =
  ob_id :: uuid
  ob_aggregate_type :: string
  ob_aggregate_id :: uuid
  ob_event_type :: string
  ob_payload :: "(string \<times> json) list"
  ob_deduplication_key :: string
  ob_status :: delivery_status
  ob_attempt_count :: int
  ob_available_at :: instant
  ob_locked_until :: "instant option"
  ob_locked_by :: "string option"
  ob_last_error_code :: "string option"
  ob_processed_at :: "instant option"
  ob_created_at :: instant

record announcement_row =
  an_id :: uuid
  an_club_id :: uuid
  an_author_user_id :: uuid
  an_title :: string
  an_body :: string
  an_audience_key :: string
  an_deduplication_key :: string
  an_published_at :: instant

record event_update_row =
  eu_id :: uuid
  eu_event_id :: uuid
  eu_author_user_id :: uuid
  eu_title :: string
  eu_body :: string
  eu_audience_key :: string
  eu_deduplication_key :: string
  eu_source_revision :: "int option"
  eu_published_at :: instant

record notification_row =
  nt_id :: uuid
  nt_recipient_user_id :: uuid
  nt_type_key :: string
  nt_title_key :: string
  nt_body_key :: string
  nt_parameters :: "(string \<times> json) list"
  nt_action_path :: "string option"
  nt_source_type :: "string option"
  nt_source_id :: "uuid option"
  nt_read_at :: "instant option"
  nt_outbox_event_id :: "uuid option"
  nt_created_at :: instant

record delivery_row =
  dl_id :: uuid
  dl_notification_id :: uuid
  dl_channel :: notification_channel
  dl_status :: delivery_status
  dl_attempt_count :: int
  dl_next_attempt_at :: "instant option"
  dl_provider_message_id :: "string option"
  dl_last_error_code :: "string option"
  dl_processing_started_at :: "instant option"
  dl_delivered_at :: "instant option"
  dl_created_at :: instant

record email_intent_row =
  ei_delivery_id :: uuid
  ei_auth_token_id :: "uuid option"
  ei_locale_hint :: string

record email_quota_row =
  eq_delivery_id :: uuid
  eq_recipient_user_id :: uuid
  eq_quota_date :: int
  eq_slot :: int

record idempotency_row =
  ik_user_id :: uuid
  ik_http_method :: string
  ik_route_fingerprint :: string
  ik_key :: string
  ik_request_hash :: string
  ik_response_status :: "int option"
  ik_response_body :: "json option"
  ik_locked_until :: "instant option"
  ik_completed_at :: "instant option"
  ik_expires_at :: instant
  ik_created_at :: instant

record audit_row =
  au_id :: uuid
  au_actor_user_id :: "uuid option"
  au_actor_kind :: actor_kind
  au_action :: string
  au_target_type :: string
  au_target_id :: "uuid option"
  au_reason :: "string option"
  au_safe_before :: "json option"
  au_safe_after :: "json option"
  au_request_id :: "uuid option"
  au_created_at :: instant

subsection \<open>The database\<close>

text \<open>One reading for a generated identifier: nanoseconds and the two random fields.\<close>

type_synonym entropy = "int \<times> 12 word \<times> 62 word"

record db =
  t_countries :: "country_row list"
  t_cities :: "city_row list"
  t_categories :: "category_row list"
  t_regional_policies :: "policy_row list"
  t_users :: "user_row list"
  t_profiles :: "profile_row list"
  t_sessions :: "session_row list"
  t_auth_tokens :: "auth_token_row list"
  t_user_mfa_factors :: "mfa_row list"
  t_platform_settings :: "setting_row list"
  t_clubs :: "club_row list"
  t_club_memberships :: "membership_row list"
  t_club_join_requests :: "join_request_row list"
  t_media_assets :: "media_row list"
  t_events :: "event_row list"
  t_event_invite_tokens :: "invite_row list"
  t_saved_events :: "saved_row list"
  t_registrations :: "registration list"
  t_registration_transitions :: "registration_transition list"
  t_outbox_events :: "outbox_row list"
  t_audit_events :: "audit_row list"
  t_announcements :: "announcement_row list"
  t_announcement_recipients :: "(uuid \<times> uuid) list"
  t_event_updates :: "event_update_row list"
  t_event_update_recipients :: "(uuid \<times> uuid) list"
  t_notifications :: "notification_row list"
  t_notification_deliveries :: "delivery_row list"
  t_email_delivery_intents :: "email_intent_row list"
  t_email_quota_reservations :: "email_quota_row list"
  t_moderation_cases :: "moderation_case_row list"
  t_moderation_case_events :: "moderation_event_row list"
  entropy_at :: "nat \<Rightarrow> entropy"
  entropy_pos :: nat
  clock_at :: "nat \<Rightarrow> instant"
  clock_pos :: nat

definition empty_db :: "(nat \<Rightarrow> entropy) \<Rightarrow> (nat \<Rightarrow> instant) \<Rightarrow> db" where
  "empty_db ent clk = \<lparr>t_countries = [], t_cities = [], t_categories = [],
     t_regional_policies = [], t_users = [], t_profiles = [], t_sessions = [],
     t_auth_tokens = [], t_user_mfa_factors = [], t_platform_settings = [], t_clubs = [],
     t_club_memberships = [], t_club_join_requests = [], t_media_assets = [], t_events = [], t_event_invite_tokens = [],
     t_saved_events = [], t_registrations = [], t_registration_transitions = [], t_outbox_events = [],
     t_audit_events = [], t_announcements = [], t_announcement_recipients = [], t_event_updates = [],
     t_event_update_recipients = [], t_notifications = [], t_notification_deliveries = [],
     t_email_delivery_intents = [], t_email_quota_reservations = [], t_moderation_cases = [],
     t_moderation_case_events = [], entropy_at = ent, entropy_pos = 0, clock_at = clk, clock_pos = 0\<rparr>"

type_synonym 'a txn = "(db, 'a) tx"

text \<open>\<open>generate_uuid7()\<close> and \<open>clock_timestamp()\<close> within a transaction.\<close>

definition fresh_uuid :: "uuid txn" where
  "fresh_uuid d = (case entropy_at d (entropy_pos d) of (ns, a, b) \<Rightarrow>
     (case generate_uuid7 ns a b of
        Inl e \<Rightarrow> Inl e
      | Inr u \<Rightarrow> Inr (u, d\<lparr>entropy_pos := Suc (entropy_pos d)\<rparr>)))"

definition clock_timestamp :: "instant txn" where
  "clock_timestamp d = Inr (clock_at d (clock_pos d), d\<lparr>clock_pos := Suc (clock_pos d)\<rparr>)"

text \<open>The identifier the stream yields next, and at any later position.\<close>

definition uuid_at :: "db \<Rightarrow> nat \<Rightarrow> uuid option" where
  "uuid_at d n = (case entropy_at d n of (ns, a, b) \<Rightarrow>
     (case generate_uuid7 ns a b of Inl e \<Rightarrow> None | Inr u \<Rightarrow> Some u))"

lemma fresh_uuid_eq [tx_simps]:
  "fresh_uuid d = Inr (u, d') \<longleftrightarrow>
     uuid_at d (entropy_pos d) = Some u \<and> d' = d\<lparr>entropy_pos := Suc (entropy_pos d)\<rparr>"
  by (auto simp: fresh_uuid_def uuid_at_def split: prod.splits sum.splits)

lemma clock_timestamp_eq [tx_simps]:
  "clock_timestamp d = Inr (t, d') \<longleftrightarrow>
     t = clock_at d (clock_pos d) \<and> d' = d\<lparr>clock_pos := Suc (clock_pos d)\<rparr>"
  by (auto simp: clock_timestamp_def)

lemma uuid_at_is_uuid7: "uuid_at d n = Some u \<Longrightarrow> is_uuid7 u"
  by (auto simp: uuid_at_def split: prod.splits sum.splits dest: generated_is_uuid7)

text \<open>
  \<open>ON DELETE\<close>, foreign keys and triggers that the modelled statements cannot fire are left
  out; \<open>db_insert\<close> is an \<open>INSERT\<close> into a table with the constraints given as named
  predicates of the new row: the first that fails raises \<open>IntegrityError\<close>.
\<close>

fun first_violation :: "(string \<times> bool) list \<Rightarrow> string option" where
  "first_violation [] = None"
| "first_violation ((name, ok) # cs) = (if ok then first_violation cs else Some name)"

definition check_constraints :: "(string \<times> bool) list \<Rightarrow> ('s, unit) tx" where
  "check_constraints cs =
     (case first_violation cs of None \<Rightarrow> tx_return () | Some n \<Rightarrow> tx_raise (IntegrityError n))"

lemma first_violation_None: "first_violation cs = None \<longleftrightarrow> (\<forall>(n, ok) \<in> set cs. ok)"
  by (induction cs rule: first_violation.induct) auto

lemma check_constraints_eq [tx_simps]:
  "check_constraints cs d = Inr r \<longleftrightarrow> first_violation cs = None \<and> r = ((), d)"
  by (auto simp: check_constraints_def tx_return_def tx_raise_def split: option.splits)

end
