(* ===== verification/Py_Text.thy ===== *)
theory Py_Text
  imports Schema
begin

section \<open>Text: the string methods, dates and JSON the code uses\<close>

text \<open>
  Python strings as character lists. Case mapping and character classes are those of
  ASCII; white space is what \<open>str.strip\<close> removes among the first 256 code points.
\<close>

definition py_space :: "char \<Rightarrow> bool" where
  "py_space c \<longleftrightarrow> (let n = of_char c :: int in
     9 \<le> n \<and> n \<le> 13 \<or> 28 \<le> n \<and> n \<le> 32 \<or> n = 133 \<or> n = 160)"

definition py_lstrip :: "string \<Rightarrow> string" where
  "py_lstrip s = dropWhile py_space s"

definition py_strip :: "string \<Rightarrow> string" where
  "py_strip s = rev (py_lstrip (rev (py_lstrip s)))"

definition is_lower :: "char \<Rightarrow> bool" where
  "is_lower c \<longleftrightarrow> c \<in> set ''abcdefghijklmnopqrstuvwxyz''"

definition is_upper :: "char \<Rightarrow> bool" where
  "is_upper c \<longleftrightarrow> c \<in> set ''ABCDEFGHIJKLMNOPQRSTUVWXYZ''"

definition is_digit :: "char \<Rightarrow> bool" where
  "is_digit c \<longleftrightarrow> c \<in> set ''0123456789''"

definition char_lower :: "char \<Rightarrow> char" where
  "char_lower c = (if is_upper c then char_of (of_char c + 32 :: int) else c)"

definition char_upper :: "char \<Rightarrow> char" where
  "char_upper c = (if is_lower c then char_of (of_char c - 32 :: int) else c)"

definition py_lower :: "string \<Rightarrow> string" where
  "py_lower s = map char_lower s"

definition py_upper :: "string \<Rightarrow> string" where
  "py_upper s = map char_upper s"

definition py_alpha :: "char \<Rightarrow> bool" where
  "py_alpha c \<longleftrightarrow> is_lower c \<or> is_upper c"

definition py_alnum :: "char \<Rightarrow> bool" where
  "py_alnum c \<longleftrightarrow> py_alpha c \<or> is_digit c"

fun split_on :: "char \<Rightarrow> string \<Rightarrow> string list" where
  "split_on c [] = [[]]"
| "split_on c (x # xs) =
     (if x = c then [] # split_on c xs
      else case split_on c xs of [] \<Rightarrow> [[x]] | w # ws \<Rightarrow> (x # w) # ws)"

fun has_substring :: "string \<Rightarrow> string \<Rightarrow> bool" where
  "has_substring p [] = (p = [])"
| "has_substring p (x # xs) = (take (length p) (x # xs) = p \<or> has_substring p xs)"

text \<open>Decimal numerals.\<close>

function nat_str :: "int \<Rightarrow> string" where
  "nat_str n = (if n < 10 then [hex_digit n] else nat_str (n div 10) @ [hex_digit (n mod 10)])"
  by pat_completeness auto
termination
  by (relation "measure nat") (auto simp: nat_less_eq_zless)

declare nat_str.simps [simp del]

definition int_str :: "int \<Rightarrow> string" where
  "int_str i = (if i < 0 then CHR ''-'' # nat_str (- i) else nat_str i)"

definition pad_left :: "nat \<Rightarrow> string \<Rightarrow> string" where
  "pad_left w s = replicate (w - length s) CHR ''0'' @ s"

text \<open>
  \<open>datetime.isoformat()\<close> of an instant in UTC: proleptic Gregorian date and time of day,
  microseconds only when they are not zero.
\<close>

definition civil_of_days :: "int \<Rightarrow> int \<times> int \<times> int" where
  "civil_of_days z0 =
     (let z = z0 + 719468;
          era = z div 146097;
          doe = z mod 146097;
          yoe = (doe - doe div 1460 + doe div 36524 - doe div 146096) div 365;
          doy = doe - (365 * yoe + yoe div 4 - yoe div 100);
          mp = (5 * doy + 2) div 153;
          d = doy - (153 * mp + 2) div 5 + 1;
          m = (if mp < 10 then mp + 3 else mp - 9);
          y = yoe + era * 400 + (if m \<le> 2 then 1 else 0)
      in (y, m, d))"

definition iso_utc :: "instant \<Rightarrow> string" where
  "iso_utc t =
     (let day = days 1; secs = t mod day div 1000000; us = t mod 1000000;
          num = (\<lambda>w i. pad_left w (nat_str i))
      in case civil_of_days (t div day) of (y, m, d) \<Rightarrow>
        num 4 y @ ''-'' @ num 2 m @ ''-'' @ num 2 d @ ''T''
        @ num 2 (secs div 3600) @ '':'' @ num 2 (secs mod 3600 div 60) @ '':'' @ num 2 (secs mod 60)
        @ (if us = 0 then '''' else ''.'' @ num 6 us) @ ''+00:00'')"

text \<open>\<open>json.dumps\<close> with \<open>separators=(",", ":")\<close> and \<open>sort_keys=True\<close>, all characters escaped to ASCII.\<close>

definition json_escape :: "char \<Rightarrow> string" where
  "json_escape c =
     (let n = of_char c :: int; b = char_of (92 :: int) :: char in
      if c = char_of (34 :: int) then [b, c]
      else if c = b then [b, b]
      else if n = 8 then [b, CHR ''b''] else if n = 9 then [b, CHR ''t'']
      else if n = 10 then [b, CHR ''n''] else if n = 12 then [b, CHR ''f'']
      else if n = 13 then [b, CHR ''r'']
      else if 32 \<le> n \<and> n \<le> 126 then [c]
      else [b, CHR ''u'', CHR ''0'', CHR ''0'', hex_digit (n div 16), hex_digit (n mod 16)])"

text \<open>Lower-case letters and digits are left as they are, a shortcut for evaluation.\<close>

lemma json_escape_code [code]:
  "json_escape (Char b0 b1 b2 b3 b4 b5 b6 b7) =
     (let c = Char b0 b1 b2 b3 b4 b5 b6 b7 in
      if \<not> b7 \<and> b5 \<and> (b6 \<and> \<not> b3 \<or> \<not> b6 \<and> b4 \<or> b6 \<and> \<not> b4) then [c]
      else (let n = of_char c :: int; b = char_of (92 :: int) :: char in
        if c = char_of (34 :: int) then [b, c]
        else if c = b then [b, b]
        else if n = 8 then [b, CHR ''b''] else if n = 9 then [b, CHR ''t'']
        else if n = 10 then [b, CHR ''n''] else if n = 12 then [b, CHR ''f'']
        else if n = 13 then [b, CHR ''r'']
        else if 32 \<le> n \<and> n \<le> 126 then [c]
        else [b, CHR ''u'', CHR ''0'', CHR ''0'', hex_digit (n div 16), hex_digit (n mod 16)]))"
proof (cases "\<not> b7 \<and> b5 \<and> (b6 \<and> \<not> b3 \<or> \<not> b6 \<and> b4 \<or> b6 \<and> \<not> b4)")
  case True
  then show ?thesis
    by (cases b0; cases b1; cases b2; cases b3; cases b4; cases b6)
       (simp_all add: json_escape_def Let_def char_of_def of_char_def)
next
  case False
  then show ?thesis by (simp only: if_False json_escape_def Let_def)
qed

definition json_quote :: "string \<Rightarrow> string" where
  "json_quote s = char_of (34 :: int) # concat (map json_escape s) @ [char_of (34 :: int)]"

fun join_with :: "string \<Rightarrow> string list \<Rightarrow> string" where
  "join_with sep [] = []"
| "join_with sep [s] = s"
| "join_with sep (s # t # ss) = s @ sep @ join_with sep (t # ss)"

text \<open>Keys are compared character by character, as Python compares strings.\<close>

fun str_less :: "string \<Rightarrow> string \<Rightarrow> bool" where
  "str_less xs [] = False"
| "str_less [] (y # ys) = True"
| "str_less (x # xs) (y # ys) =
     (let m = of_char x :: int; n = of_char y in m < n \<or> m = n \<and> str_less xs ys)"

fun insert_key :: "string \<times> 'a \<Rightarrow> (string \<times> 'a) list \<Rightarrow> (string \<times> 'a) list" where
  "insert_key x [] = [x]"
| "insert_key x (y # ys) = (if str_less (fst x) (fst y) then x # y # ys else y # insert_key x ys)"

definition sort_keys :: "(string \<times> 'a) list \<Rightarrow> (string \<times> 'a) list" where
  "sort_keys kvs = foldr insert_key kvs []"

lemma set_insert_key [simp]: "set (insert_key x ys) = insert x (set ys)"
  by (induction ys) auto

lemma set_sort_keys [simp]: "set (sort_keys kvs) = set kvs"
  by (induction kvs) (auto simp: sort_keys_def)

function json_dumps :: "json \<Rightarrow> string" where
  "json_dumps JNull = ''null''"
| "json_dumps (JBool b) = (if b then ''true'' else ''false'')"
| "json_dumps (JInt i) = int_str i"
| "json_dumps (JStr s) = json_quote s"
| "json_dumps (JArr vs) = ''['' @ join_with '','' (map json_dumps vs) @ '']''"
| "json_dumps (JObj kvs) = ''{'' @ join_with '',''
     (map (\<lambda>(k, v). json_quote k @ '':'' @ json_dumps v) (sort_keys kvs)) @ ''}''"
  by pat_completeness auto
termination
proof (relation "measure size")
  fix kvs :: "(string \<times> json) list" and z k v
  assume "z \<in> set (sort_keys kvs)" "(k, v) = z"
  then have "(k, v) \<in> set kvs" by simp
  then show "(v, JObj kvs) \<in> measure size"
    by (induction kvs) auto
next
  fix vs :: "json list" and v
  assume "v \<in> set vs"
  then show "(v, JArr vs) \<in> measure size"
    by (induction vs) auto
qed simp

subsection \<open>Stripping\<close>

lemma py_lstrip_idem [simp]: "py_lstrip (py_lstrip s) = py_lstrip s"
  by (induction s) (auto simp: py_lstrip_def)

lemma length_py_strip: "length (py_strip s) \<le> length s"
  unfolding py_strip_def py_lstrip_def length_rev
  by (metis length_dropWhile_le length_rev order_trans)

lemma py_strip_fixed:
  assumes "s = [] \<or> \<not> py_space (hd s) \<and> \<not> py_space (last s)"
  shows "py_strip s = s"
proof (cases "s = []")
  case True
  then show ?thesis by (simp add: py_strip_def py_lstrip_def)
next
  case False
  then have "py_lstrip s = s" "py_lstrip (rev s) = rev s"
    using assms by (auto simp: py_lstrip_def dropWhile_eq_self_iff hd_rev)
  then show ?thesis by (simp add: py_strip_def)
qed

lemma py_strip_ends: "py_strip s = [] \<or> \<not> py_space (hd (py_strip s)) \<and> \<not> py_space (last (py_strip s))"
proof (cases "py_strip s = []")
  case False
  let ?l = "py_lstrip s"
  have r: "rev (py_strip s) = dropWhile py_space (rev ?l)"
    by (simp add: py_strip_def py_lstrip_def)
  then have "\<not> py_space (last (py_strip s))"
    using False by (metis hd_dropWhile hd_rev rev_is_Nil_conv)
  moreover have "\<not> py_space (hd (py_strip s))"
  proof -
    obtain ys where ys: "rev ?l = ys @ rev (py_strip s)"
      using r by (metis takeWhile_dropWhile_id)
    then have "?l = py_strip s @ rev ys" by (metis rev_append rev_rev_ident)
    then have "?l \<noteq> []" "hd ?l = hd (py_strip s)" using False by auto
    then show ?thesis by (metis hd_dropWhile py_lstrip_def)
  qed
  ultimately show ?thesis by simp
qed simp

lemma py_strip_idem [simp]: "py_strip (py_strip s) = py_strip s"
  by (rule py_strip_fixed) (rule py_strip_ends)

end
