(* ===== verification/Base64.thy ===== *)
theory Base64
  imports Py_Text
begin

section \<open>URL-safe base64 without padding (identity/sessions.py, identity/tokens.py, identity/csrf.py)\<close>

text \<open>
  A \<open>bytes\<close> value is a string of its octets. \<open>_b64_encode\<close> strips the padding and \<open>_b64_decode\<close>
  restores it; \<open>b64decode(..., altchars=b"-_", validate=True)\<close> also accepts \<open>+\<close> and \<open>/\<close>, and
  padding that the text already carries.
\<close>

definition b64_char :: "int \<Rightarrow> char" where
  "b64_char x = ''ABCDEFGHIJKLMNOPQRSTUVWXYZabcdefghijklmnopqrstuvwxyz0123456789-_'' ! nat x"

definition b64_value :: "char \<Rightarrow> nat option" where
  "b64_value c =
     (if is_upper c then Some (of_char c - 65)
      else if is_lower c then Some (of_char c - 71)
      else if is_digit c then Some (of_char c + 4)
      else if c = CHR ''-'' \<or> c = CHR ''+'' then Some 62
      else if c = CHR ''_'' \<or> c = CHR ''/'' then Some 63
      else None)"

fun b64_sextets :: "nat list \<Rightarrow> nat list" where
  "b64_sextets [] = []"
| "b64_sextets [x] = [x div 4, x mod 4 * 16]"
| "b64_sextets [x, y] = [x div 4, x mod 4 * 16 + y div 16, y mod 16 * 4]"
| "b64_sextets (x # y # z # r) =
     x div 4 # (x mod 4 * 16 + y div 16) # (y mod 16 * 4 + z div 64) # z mod 64 # b64_sextets r"

fun b64_octets :: "nat list \<Rightarrow> nat list option" where
  "b64_octets [] = Some []"
| "b64_octets [a] = None"
| "b64_octets [a, b] = Some [a * 4 + b div 16]"
| "b64_octets [a, b, c] = Some [a * 4 + b div 16, b mod 16 * 16 + c div 4]"
| "b64_octets (a # b # c # d # r) = map_option (\<lambda>bytes.
     (a * 4 + b div 16) # (b mod 16 * 16 + c div 4) # (c mod 4 * 64 + d) # bytes) (b64_octets r)"

definition b64_encode :: "string \<Rightarrow> string" where
  "b64_encode bytes = map (\<lambda>n. b64_char (int n)) (b64_sextets (map of_char bytes))"

fun all_values :: "char list \<Rightarrow> nat list option" where
  "all_values [] = Some []"
| "all_values (c # cs) = Option.bind (b64_value c) (\<lambda>v. map_option ((#) v) (all_values cs))"

definition b64_decode :: "string \<Rightarrow> string option" where
  "b64_decode s =
     (let padded = s @ replicate ((4 - length s mod 4) mod 4) (CHR ''='');
          digits = takeWhile (\<lambda>c. c \<noteq> CHR ''='') padded;
          padding = dropWhile (\<lambda>c. c \<noteq> CHR ''='') padded in
      if list_all (\<lambda>c. c = CHR ''='') padding \<and> length padding \<le> 2
      then Option.bind (all_values digits) (\<lambda>values.
        map_option (map char_of) (b64_octets values))
      else None)"

lemma octets_of_sextets:
  "\<forall>x \<in> set xs. x < 256 \<Longrightarrow> b64_octets (b64_sextets xs) = Some xs"
proof (induction xs rule: b64_sextets.induct)
  case (2 x)
  then show ?case by simp
next
  case (3 x y)
  have "(x mod 4 * 16 + y div 16) div 16 = x mod 4" "(x mod 4 * 16 + y div 16) mod 16 = y div 16"
    using 3 by auto
  then show ?case by simp
next
  case (4 x y z r)
  have "(x mod 4 * 16 + y div 16) div 16 = x mod 4" "(x mod 4 * 16 + y div 16) mod 16 = y div 16"
    "(y mod 16 * 4 + z div 64) div 4 = y mod 16" "(y mod 16 * 4 + z div 64) mod 4 = z div 64"
    using "4.prems" by auto
  then show ?case using 4 by simp
qed simp

lemma sextets_bound: "\<forall>x \<in> set xs. x < 256 \<Longrightarrow> \<forall>v \<in> set (b64_sextets xs). v < 64"
proof (induction xs rule: b64_sextets.induct)
  case (3 x y)
  have "x mod 4 * 16 + y div 16 < 64" using 3 by auto
  then show ?case using 3 by auto
next
  case (4 x y z r)
  have "x mod 4 * 16 + y div 16 < 64" "y mod 16 * 4 + z div 64 < 64" using "4.prems" by auto
  then show ?case using 4 by auto
qed auto

lemma value_of_char:
  assumes "n < 64"
  shows "b64_value (b64_char (int n)) = Some n" "b64_char (int n) \<noteq> CHR ''=''" "b64_char (int n) \<noteq> CHR ''.''"
proof -
  have "\<forall>n \<in> set [0..<64]. b64_value (b64_char (int n)) = Some n \<and> b64_char (int n) \<noteq> CHR ''=''
      \<and> b64_char (int n) \<noteq> CHR ''.''" by code_simp
  then show "b64_value (b64_char (int n)) = Some n" "b64_char (int n) \<noteq> CHR ''=''"
    "b64_char (int n) \<noteq> CHR ''.''" using assms by auto
qed

lemma all_values_map:
  "\<forall>v \<in> set vs. v < 64 \<Longrightarrow> all_values (map (\<lambda>n. b64_char (int n)) vs) = Some vs"
  by (induction vs) (auto simp: value_of_char)

lemma length_b64_sextets: "length (b64_sextets xs) mod 4 \<noteq> 1"
  by (induction xs rule: b64_sextets.induct) auto

lemma b64_encode_no_dot: "CHR ''.'' \<notin> set (b64_encode bytes)" "CHR ''='' \<notin> set (b64_encode bytes)"
  using sextets_bound [of "map of_char bytes"] value_of_char(2,3)
  by (fastforce simp: b64_encode_def)+

text \<open>Decoding restores every sequence of bytes.\<close>

lemma b64_decode_encode: "b64_decode (b64_encode bytes) = Some bytes"
proof -
  let ?vs = "b64_sextets (map of_char bytes) :: nat list"
  let ?s = "b64_encode bytes"
  let ?n = "(4 - length ?s mod 4) mod 4"
  have v: "\<forall>v \<in> set ?vs. v < 64" by (rule sextets_bound) auto
  have ne: "\<forall>c \<in> set ?s. c \<noteq> CHR ''=''" using b64_encode_no_dot(2) by metis
  have t: "takeWhile (\<lambda>c. c \<noteq> CHR ''='') (?s @ replicate ?n (CHR ''='')) = ?s"
    using ne by (subst takeWhile_append2) (auto simp: takeWhile_replicate)
  have p: "dropWhile (\<lambda>c. c \<noteq> CHR ''='') (?s @ replicate ?n (CHR ''='')) = replicate ?n (CHR ''='')"
    using ne by (subst dropWhile_append2) (auto simp: dropWhile_replicate)
  have small: "m mod 4 \<noteq> 1 \<Longrightarrow> (4 - m mod 4) mod 4 \<le> 2" for m :: nat
  proof -
    assume "m mod 4 \<noteq> 1"
    moreover have "m mod 4 < 4" by simp
    ultimately have "m mod 4 \<in> {0, 2, 3}" by auto
    then show ?thesis by auto
  qed
  have "length ?s mod 4 \<noteq> 1" unfolding b64_encode_def length_map by (rule length_b64_sextets)
  then have "?n \<le> 2" using small [of "length ?s"] by blast
  moreover have "all_values ?s = Some ?vs" unfolding b64_encode_def by (rule all_values_map [OF v])
  moreover have "b64_octets ?vs = Some (map of_char bytes)" by (rule octets_of_sextets) auto
  ultimately show ?thesis
    unfolding b64_decode_def Let_def t p by (simp add: list_all_iff comp_def)
qed

end
