(* ===== verification/Identity_Codecs.thy ===== *)
theory Identity_Codecs
  imports Base64 Schema
begin

section \<open>Credentials and recovery tokens (identity/sessions.py, csrf.py, tokens.py, passwords.py)\<close>

text \<open>
  \<open>hmac\<close> stands for \<open>hmac.new(key, message, sha256).digest()\<close> under the session secret, the bytes
  that \<open>secrets.token_bytes(32)\<close> yields are arguments, argon2, SHA-256 and the e-mail validator are
  functions of \<open>password_service\<close>. \<open>UUID(text)\<close> is modelled on canonical texts.
\<close>

definition invalid_session :: py_error where
  "invalid_session = ApiError ''invalid_session'' ''errors.invalid_session'' 401"

definition csrf_failed :: py_error where
  "csrf_failed = ApiError ''csrf_failed'' ''errors.csrf_failed'' 403"

definition invalid_recovery_token :: py_error where
  "invalid_recovery_token = ApiError ''invalid_recovery_token'' ''errors.invalid_recovery_token'' 401"

definition nul :: char where
  "nul = char_of (0 :: nat)"

subsection \<open>Refresh tokens and CSRF secrets\<close>

definition issue_secret :: "string \<Rightarrow> string" where
  "issue_secret random = b64_encode random"

definition refresh_hash :: "(string \<Rightarrow> string) \<Rightarrow> string \<Rightarrow> py_error + string" where
  "refresh_hash hmac raw =
     (if length raw \<noteq> 43 \<or> CHR ''='' \<in> set raw then Inl invalid_session
      else case b64_decode raw of
        None \<Rightarrow> Inl invalid_session
      | Some decoded \<Rightarrow>
          if length decoded \<noteq> 32 \<or> b64_encode decoded \<noteq> raw then Inl invalid_session
          else Inr (hmac (''talaqi:refresh:v2'' @ nul # decoded)))"

definition refresh_expiry :: "instant \<Rightarrow> instant" where
  "refresh_expiry now = now + days 30"

definition csrf_hash :: "(string \<Rightarrow> string) \<Rightarrow> string \<Rightarrow> string" where
  "csrf_hash hmac raw = hmac (''talaqi:csrf:v2'' @ nul # raw)"

definition is_ascii :: "string \<Rightarrow> bool" where
  "is_ascii s \<longleftrightarrow> list_all (\<lambda>c. (of_char c :: nat) < 128) s"

definition verify_csrf_secret ::
  "(string \<Rightarrow> string) \<Rightarrow> string option \<Rightarrow> string option \<Rightarrow> string \<Rightarrow> py_error + unit" where
  "verify_csrf_secret hmac cookie header stored_hash =
     (case (cookie, header) of
        (Some c, Some h) \<Rightarrow>
          res_guard (is_ascii c \<and> is_ascii h \<and> c = h \<and> csrf_hash hmac c = stored_hash) csrf_failed
      | _ \<Rightarrow> Inl csrf_failed)"

record session_credentials =
  sc_refresh_token :: string
  sc_csrf_secret :: string
  sc_refresh_hash :: string
  sc_csrf_hash :: string

definition issue_credentials ::
  "(string \<Rightarrow> string) \<Rightarrow> string \<Rightarrow> string \<Rightarrow> py_error + session_credentials" where
  "issue_credentials hmac refresh_bytes csrf_bytes =
     (let refresh = issue_secret refresh_bytes; csrf = issue_secret csrf_bytes in
      res_bind (refresh_hash hmac refresh) (\<lambda>h.
      Inr \<lparr>sc_refresh_token = refresh, sc_csrf_secret = csrf, sc_refresh_hash = h,
        sc_csrf_hash = csrf_hash hmac csrf\<rparr>))"

subsection \<open>Access cookies\<close>

record access_token =
  ac_session_id :: uuid
  ac_user_id :: uuid
  ac_issued_at :: instant

text \<open>\<open>int(value.timestamp())\<close> truncates towards zero.\<close>

definition timestamp_seconds :: "instant \<Rightarrow> int" where
  "timestamp_seconds t = (if 0 \<le> t then t div 1000000 else - ((- t) div 1000000))"

definition access_payload :: "access_token \<Rightarrow> json" where
  "access_payload t =
     (let issued = timestamp_seconds (ac_issued_at t) in
      JObj [(''exp'', JInt (issued + 900)), (''iat'', JInt issued),
        (''sid'', JStr (uuid_str (ac_session_id t))), (''uid'', JStr (uuid_str (ac_user_id t))),
        (''v'', JInt 1)])"

definition encode_access :: "(string \<Rightarrow> string) \<Rightarrow> access_token \<Rightarrow> string" where
  "encode_access hmac t =
     (let encoded = b64_encode (json_dumps (access_payload t)) in
      encoded @ ''.'' @ b64_encode (hmac encoded))"

subsection \<open>Recovery tokens\<close>

definition kind_name :: "auth_token_kind \<Rightarrow> string" where
  "kind_name k = (case k of EmailVerification \<Rightarrow> ''email_verification''
     | PasswordReset \<Rightarrow> ''password_reset'')"

definition uuid_bytes :: "uuid \<Rightarrow> string" where
  "uuid_bytes u = map (\<lambda>i. char_of (nat (uint u div 256 ^ (15 - i) mod 256))) [0..<16]"

definition authenticator :: "(string \<Rightarrow> string) \<Rightarrow> uuid \<Rightarrow> auth_token_kind \<Rightarrow> string" where
  "authenticator hmac token_id kind = hmac (kind_name kind @ nul # uuid_bytes token_id)"

definition public_token :: "(string \<Rightarrow> string) \<Rightarrow> uuid \<Rightarrow> auth_token_kind \<Rightarrow> string" where
  "public_token hmac token_id kind =
     uuid_str token_id @ ''.'' @ b64_encode (authenticator hmac token_id kind)"

text \<open>\<open>token.split(".", maxsplit=1)\<close>\<close>

fun split_first :: "char \<Rightarrow> string \<Rightarrow> (string \<times> string) option" where
  "split_first x [] = None"
| "split_first x (c # cs) =
     (if c = x then Some ([], cs) else map_option (\<lambda>(a, b). (c # a, b)) (split_first x cs))"

definition verify_token :: "(string \<Rightarrow> string) \<Rightarrow> string \<Rightarrow> auth_token_kind \<Rightarrow> py_error + uuid" where
  "verify_token hmac token kind =
     (case split_first CHR ''.'' token of
        None \<Rightarrow> Inl invalid_recovery_token
      | Some (identifier, supplied_text) \<Rightarrow>
          (case (parse_uuid identifier, b64_decode supplied_text) of
             (Some token_id, Some supplied) \<Rightarrow>
               if supplied = authenticator hmac token_id kind then Inr token_id
               else Inl invalid_recovery_token
           | _ \<Rightarrow> Inl invalid_recovery_token))"

definition stored_token_hash :: "(string \<Rightarrow> string) \<Rightarrow> string \<Rightarrow> string" where
  "stored_token_hash hmac token = hmac (''stored'' @ nul # token)"

definition token_expiry :: "auth_token_kind \<Rightarrow> instant \<Rightarrow> instant" where
  "token_expiry kind issued_at =
     issued_at + (case kind of EmailVerification \<Rightarrow> 86400 | PasswordReset \<Rightarrow> 3600) * 1000000"

subsection \<open>Passwords and identifiers\<close>

record password_service =
  pw_sha256_hex :: "string \<Rightarrow> string"
  pw_denied :: "string list"
  pw_argon2 :: "string \<Rightarrow> string"
  pw_argon2_verify :: "string \<Rightarrow> string \<Rightarrow> bool"
  pw_validate_email :: "string \<Rightarrow> string option"

definition invalid_input :: py_error where
  "invalid_input = ApiError ''invalid_credentials_input'' ''errors.invalid_credentials_input'' 422"

definition validate_password :: "password_service \<Rightarrow> string \<Rightarrow> py_error + string" where
  "validate_password ps password =
     res_bind (res_guard (12 \<le> len password \<and> len password \<le> 128 \<and> py_strip password \<noteq> []) invalid_input) (\<lambda>_.
     res_bind (res_guard (\<not> List.member (pw_denied ps) (py_upper (pw_sha256_hex ps password))) invalid_input) (\<lambda>_.
     Inr password))"

definition hash_password :: "password_service \<Rightarrow> string \<Rightarrow> py_error + string" where
  "hash_password ps password =
     res_bind (validate_password ps password) (\<lambda>supplied. Inr (pw_argon2 ps supplied))"

definition normalize_email :: "password_service \<Rightarrow> string \<Rightarrow> py_error + string" where
  "normalize_email ps value = (case pw_validate_email ps (py_strip value) of
     None \<Rightarrow> Inl invalid_input | Some validated \<Rightarrow> Inr (py_lower validated))"

definition normalize_username :: "string \<Rightarrow> py_error + string" where
  "normalize_username value =
     (let normalized = py_lower (py_strip value) in
      if 3 \<le> length normalized \<and> length normalized \<le> 30
        \<and> list_all (\<lambda>c. is_lower c \<or> is_digit c \<or> c = CHR ''_'') normalized
      then Inr normalized else Inl invalid_input)"

definition normalize_login_identifier :: "password_service \<Rightarrow> string \<Rightarrow> string option" where
  "normalize_login_identifier ps value =
     (case (if CHR ''@'' \<in> set value then normalize_email ps value else normalize_username value) of
        Inl _ \<Rightarrow> None | Inr v \<Rightarrow> Some v)"

subsection \<open>Round trips\<close>

lemma split_first_append: "x \<notin> set a \<Longrightarrow> split_first x (a @ x # b) = Some (a, b)"
  by (induction a) auto

lemma hex_digits_set: "set (hex_digits n x) \<subseteq> set ''0123456789abcdef''"
proof (induction n arbitrary: x)
  case (Suc n)
  have "hex_digit (x mod 16) \<in> set ''0123456789abcdef''"
    unfolding hex_digit_def by (rule nth_mem) (simp add: nat_less_iff)
  then show ?case using Suc [of "x div 16"] by simp
qed simp

lemma uuid_str_no_dot: "CHR ''.'' \<notin> set (uuid_str u)"
proof -
  have "set (uuid_str u) \<subseteq> insert CHR ''-'' (set (hex_digits 32 (uint u)))"
    by (auto simp: uuid_str_def Let_def dest: in_set_takeD in_set_dropD)
  then have "set (uuid_str u) \<subseteq> insert CHR ''-'' (set ''0123456789abcdef'')"
    using hex_digits_set by blast
  moreover have "CHR ''.'' \<notin> insert CHR ''-'' (set ''0123456789abcdef'')" by simp
  ultimately show ?thesis by blast
qed

lemma length_sextets: "length (b64_sextets xs) = (length xs * 4 + 2) div 3"
  by (induction xs rule: b64_sextets.induct) auto

lemma refresh_hash_issued:
  assumes "length random = 32"
  shows "refresh_hash hmac (issue_secret random) = Inr (hmac (''talaqi:refresh:v2'' @ nul # random))"
proof -
  have "length (b64_encode random) = 43" using assms by (simp add: b64_encode_def length_sextets)
  then show ?thesis using assms b64_encode_no_dot(2)
    by (simp add: refresh_hash_def issue_secret_def b64_decode_encode)
qed

lemma verify_public_token: "verify_token hmac (public_token hmac i k) k = Inr i"
  by (simp add: verify_token_def public_token_def split_first_append uuid_str_no_dot b64_decode_encode)

text \<open>C33. A recovery token verifies to the identifier it was issued for. It is bound to its kind:
  presented for the other kind it is refused, unless the two authenticators collide.\<close>

theorem recovery_token_roundtrip:
  "verify_token hmac (public_token hmac i k) k = Inr i
    \<and> (authenticator hmac i k' \<noteq> authenticator hmac i k
      \<longrightarrow> verify_token hmac (public_token hmac i k) k' = Inl invalid_recovery_token)"
  by (simp add: verify_token_def public_token_def split_first_append uuid_str_no_dot b64_decode_encode)

theorem recovery_token_roundtrip_witness:
  "verify_token id (public_token id (0x70008000000000000000 :: uuid) PasswordReset) EmailVerification
    = Inl invalid_recovery_token"
proof -
  have "authenticator id 0x70008000000000000000 EmailVerification
      \<noteq> authenticator id (0x70008000000000000000 :: uuid) PasswordReset"
    by (simp add: authenticator_def kind_name_def)
  then show ?thesis
    using recovery_token_roundtrip [of id "0x70008000000000000000" PasswordReset EmailVerification]
    by blast
qed

end
