(* ===== verification/Authorization.thy ===== *)
theory Authorization
  imports Schema
begin

section \<open>Who may do what (security/authorization.py, identity/models.py)\<close>

text \<open>
  The permission checks. Each raises \<open>forbidden\<close> or \<open>admin_mfa_required\<close> or returns
  nothing: \<open>Inl\<close> the error or \<open>Inr ()\<close>. An \<open>EligibilitySubject\<close> is the part of an
  \<open>AuthPrincipal\<close> without the session. Where the code compares an ownership type or a role
  with a string outside its \<open>Literal\<close> type the branch does not exist here.
\<close>

record subject =
  sb_user_id :: uuid
  sb_email_verified :: bool
  sb_status :: user_status
  sb_is_platform_admin :: bool

record principal = subject +
  ap_session_id :: uuid

definition not_found :: py_error where
  "not_found = ApiError ''not_found'' ''errors.not_found'' 404"

definition forbidden :: py_error where
  "forbidden = ApiError ''forbidden'' ''errors.forbidden'' 403"

definition mfa_required :: py_error where
  "mfa_required = ApiError ''admin_mfa_required'' ''errors.admin_mfa_required'' 403"

definition check_active :: "'z subject_scheme \<Rightarrow> py_error + unit" where
  "check_active p = (if sb_status p \<noteq> UserActive then Inl forbidden else Inr ())"

definition is_club_manager :: "'z subject_scheme \<Rightarrow> 'c club_core_scheme \<Rightarrow> membership_row option \<Rightarrow> bool" where
  "is_club_manager p club membership \<longleftrightarrow>
     (if sb_user_id p = cl_owner_user_id club then True
      else case membership of
        None \<Rightarrow> False
      | Some m \<Rightarrow> me_club_id m = cl_id club \<and> me_user_id m = sb_user_id p
          \<and> me_role m \<in> {RoleOwner, RoleAdmin})"

definition can_edit_club ::
  "'z subject_scheme \<Rightarrow> 'c club_core_scheme \<Rightarrow> membership_row option \<Rightarrow> py_error + unit" where
  "can_edit_club p club membership =
     (case check_active p of
        Inl e \<Rightarrow> Inl e
      | Inr _ \<Rightarrow>
          if cl_status club \<in> {ClubSuspended, ClubClosed} then Inl forbidden
          else if is_club_manager p club membership then Inr ()
          else Inl forbidden)"

definition can_manage_members ::
  "'z subject_scheme \<Rightarrow> 'c club_core_scheme \<Rightarrow> membership_row option \<Rightarrow> py_error + unit" where
  "can_manage_members p club membership =
     (case check_active p of
        Inl e \<Rightarrow> Inl e
      | Inr _ \<Rightarrow>
          if cl_status club \<in> {ClubSuspended, ClubClosed} then Inl forbidden
          else if is_club_manager p club membership then Inr ()
          else Inl forbidden)"

definition can_manage_event ::
  "'z subject_scheme \<Rightarrow> 'e event_core_scheme \<Rightarrow> 'c club_core_scheme option \<Rightarrow> membership_row option
     \<Rightarrow> py_error + unit" where
  "can_manage_event p e club membership =
     (case check_active p of
        Inl err \<Rightarrow> Inl err
      | Inr _ \<Rightarrow>
          if ev_status e = EvSuspended then Inl forbidden
          else (case ev_ownership_type e of
              Independent \<Rightarrow>
                if ev_club_id e \<noteq> None \<or> ev_owner_user_id e \<noteq> Some (sb_user_id p)
                then Inl forbidden else Inr ()
            | ClubOwned \<Rightarrow>
                if ev_owner_user_id e \<noteq> None then Inl forbidden
                else (case club of
                    None \<Rightarrow> Inl forbidden
                  | Some c \<Rightarrow>
                      if ev_club_id e \<noteq> Some (cl_id c) then Inl forbidden
                      else if cl_status c \<in> {ClubSuspended, ClubClosed} then Inl forbidden
                      else if is_club_manager p c membership then Inr ()
                      else Inl forbidden)))"

definition can_confirm_cash ::
  "'z subject_scheme \<Rightarrow> 'e event_core_scheme \<Rightarrow> 'c club_core_scheme option \<Rightarrow> membership_row option
     \<Rightarrow> py_error + unit" where
  "can_confirm_cash p e club membership = can_manage_event p e club membership"

definition can_access_admin :: "'z subject_scheme \<Rightarrow> py_error + unit" where
  "can_access_admin p =
     (case check_active p of
        Inl e \<Rightarrow> Inl e
      | Inr _ \<Rightarrow> if \<not> sb_is_platform_admin p then Inl forbidden else Inr ())"

definition can_perform_admin_action :: "'z subject_scheme \<Rightarrow> bool \<Rightarrow> py_error + unit" where
  "can_perform_admin_action p has_active_mfa =
     (case can_access_admin p of
        Inl e \<Rightarrow> Inl e
      | Inr _ \<Rightarrow> if \<not> has_active_mfa then Inl mfa_required else Inr ())"

definition can_moderate :: "'z subject_scheme \<Rightarrow> bool \<Rightarrow> py_error + unit" where
  "can_moderate p has_active_mfa = can_perform_admin_action p has_active_mfa"

text \<open>The query of \<open>has_active_mfa\<close>, which several repositories repeat.\<close>

definition active_mfa :: "db \<Rightarrow> uuid \<Rightarrow> bool" where
  "active_mfa d user_id \<longleftrightarrow> row_exists
     (\<lambda>f. mf_user_id f = user_id \<and> mf_verified_at f \<noteq> None \<and> mf_disabled_at f = None)
     (t_user_mfa_factors d)"

subsection \<open>Facts\<close>

named_theorems auth_simps "when the permission checks succeed"

lemma check_active_Inr [auth_simps]: "check_active p = Inr u \<longleftrightarrow> sb_status p = UserActive"
  by (cases u) (simp add: check_active_def)

lemma is_club_manager_iff [auth_simps]:
  "is_club_manager p club membership \<longleftrightarrow> sb_user_id p = cl_owner_user_id club
     \<or> (\<exists>m. membership = Some m \<and> me_club_id m = cl_id club \<and> me_user_id m = sb_user_id p
          \<and> me_role m \<in> {RoleOwner, RoleAdmin})"
  by (auto simp: is_club_manager_def split: option.splits)

lemma can_edit_club_Inr [auth_simps]:
  "can_edit_club p club membership = Inr u \<longleftrightarrow> sb_status p = UserActive
     \<and> cl_status club \<notin> {ClubSuspended, ClubClosed} \<and> is_club_manager p club membership"
  by (cases u) (auto simp: can_edit_club_def check_active_def)

lemma can_access_admin_Inr [auth_simps]:
  "can_access_admin p = Inr u \<longleftrightarrow> sb_status p = UserActive \<and> sb_is_platform_admin p"
  by (cases u) (auto simp: can_access_admin_def check_active_def)

lemma can_moderate_Inr [auth_simps]:
  "can_moderate p mfa = Inr u \<longleftrightarrow> sb_status p = UserActive \<and> sb_is_platform_admin p \<and> mfa"
  by (cases u) (auto simp: can_moderate_def can_perform_admin_action_def can_access_admin_def check_active_def)

text \<open>
  Managing an event is allowed exactly to an active account that owns an independent event
  or manages the club of a club event (its owner, or a member of that club with the role of owner
  or admin), while neither the event is suspended nor the club suspended or closed.
\<close>

theorem can_manage_event_spec:
  "can_manage_event p e club membership = Inr () \<longleftrightarrow>
     sb_status p = UserActive \<and> ev_status e \<noteq> EvSuspended \<and>
     (ev_ownership_type e = Independent \<and> ev_club_id e = None
        \<and> ev_owner_user_id e = Some (sb_user_id p)
      \<or> ev_ownership_type e = ClubOwned \<and> ev_owner_user_id e = None \<and>
        (\<exists>c. club = Some c \<and> ev_club_id e = Some (cl_id c)
           \<and> cl_status c \<notin> {ClubSuspended, ClubClosed}
           \<and> (cl_owner_user_id c = sb_user_id p
              \<or> (\<exists>m. membership = Some m \<and> me_club_id m = cl_id c \<and> me_user_id m = sb_user_id p
                   \<and> me_role m \<noteq> RoleMember))))"
proof -
  have role: "me_role m \<in> {RoleOwner, RoleAdmin} \<longleftrightarrow> me_role m \<noteq> RoleMember" for m :: membership_row
    by (cases "me_role m") auto
  have nf: "Inl forbidden \<noteq> (Inr () :: py_error + unit)" by simp
  show ?thesis
    unfolding can_manage_event_def
    by (cases "check_active p"; cases "ev_ownership_type e"; cases club)
       (auto simp: check_active_def is_club_manager_iff role split: if_splits, metis club_role.exhaust)
qed

end
