(* ===== verification/Audit_Log.thy ===== *)
theory Audit_Log
  imports Py_Text
begin

section \<open>The audit log (audit/service.py, audit/repository.py, audit/models.py)\<close>

text \<open>
  \<open>AuditService.record\<close> validates an audit event, refuses metadata with sensitive keys and
  appends one row to the append-only table. \<open>ip_prefix\<close> is left out: no modelled caller
  passes it.
\<close>

record audit_entry =
  ae_actor_user_id :: "uuid option"
  ae_actor_kind :: actor_kind
  ae_action :: string
  ae_target_type :: string
  ae_target_id :: "uuid option"
  ae_reason :: "string option"
  ae_safe_before :: "json option"
  ae_safe_after :: "json option"
  ae_request_id :: "uuid option"

definition secret_key_parts :: "string list" where
  "secret_key_parts = [''authorization'', ''cookie'', ''credential'', ''password'', ''secret'', ''token'']"

definition private_keys :: "string list" where
  "private_keys = [''email'', ''exact_address'', ''latitude'', ''longitude'', ''phone'', ''phone_number'']"

definition sensitive_key :: "string \<Rightarrow> bool" where
  "sensitive_key raw =
     (let normalized = map (\<lambda>c. if c = CHR ''-'' then CHR ''_'' else c) (py_lower raw);
          key_parts = filter (\<lambda>p. p \<noteq> []) (split_on CHR ''_'' normalized)
      in List.member private_keys normalized \<or> list_ex (List.member secret_key_parts) key_parts)"

fun sensitive_metadata :: "json \<Rightarrow> bool" where
  "sensitive_metadata (JObj kvs) = list_ex (\<lambda>(k, v). sensitive_key k \<or> sensitive_metadata v) kvs"
| "sensitive_metadata (JArr vs) = list_ex sensitive_metadata vs"
| "sensitive_metadata v = False"

definition snapshot_metadata :: "json option \<Rightarrow> string \<Rightarrow> py_error + json option" where
  "snapshot_metadata value field_name =
     (case value of
        None \<Rightarrow> Inr None
      | Some v \<Rightarrow>
          if sensitive_metadata v then Inl (ValueError ''safe metadata contains a sensitive key'')
          else if len (json_dumps v) > 16384
          then Inl (ValueError (field_name @ '' exceeds 16384 bytes''))
          else case v of JObj _ \<Rightarrow> Inr (Some v)
               | _ \<Rightarrow> Inl (ValueError (field_name @ '' must be a JSON object'')))"

definition validate_actor :: "uuid option \<Rightarrow> actor_kind \<Rightarrow> py_error + unit" where
  "validate_actor actor_user_id actor_kind =
     (if actor_kind = System \<and> actor_user_id \<noteq> None
      then Inl (ValueError ''system audit events cannot have an actor_user_id'')
      else if actor_kind \<noteq> System \<and> actor_user_id = None
      then Inl (ValueError ''non-system audit events require actor_user_id'')
      else Inr ())"

text \<open>\<open>^[a-z0-9_.]+$\<close> and \<open>^[a-z0-9_]+$\<close>\<close>

definition action_pattern :: "string \<Rightarrow> bool" where
  "action_pattern s \<longleftrightarrow> s \<noteq> [] \<and>
     list_all (\<lambda>c. is_lower c \<or> is_digit c \<or> c = CHR ''_'' \<or> c = CHR ''.'') s"

definition target_type_pattern :: "string \<Rightarrow> bool" where
  "target_type_pattern s \<longleftrightarrow> s \<noteq> [] \<and>
     list_all (\<lambda>c. is_lower c \<or> is_digit c \<or> c = CHR ''_'') s"

definition normalize_reason :: "string option \<Rightarrow> py_error + string option" where
  "normalize_reason reason =
     (let r = (case reason of None \<Rightarrow> None | Some s \<Rightarrow> if py_strip s = '''' then None else Some (py_strip s))
      in case r of
           Some s \<Rightarrow> if len s > 2000
             then Inl (ValueError ''audit reason exceeds 2000 characters'') else Inr r
         | None \<Rightarrow> Inr r)"

definition create_audit_event :: "audit_row \<Rightarrow> audit_row txn" where
  "create_audit_event row =
     tx_bind clock_timestamp (\<lambda>created.
     let row = row\<lparr>au_created_at := created\<rparr> in
     tx_bind (tx_query t_audit_events) (\<lambda>rows.
     tx_bind (check_constraints
       [(''audit_events_pkey'', \<not> row_exists (\<lambda>r. au_id r = au_id row) rows)]) (\<lambda>_.
     tx_bind (tx_modify (\<lambda>d. d\<lparr>t_audit_events := t_audit_events d @ [row]\<rparr>)) (\<lambda>_.
     tx_return row))))"

definition audit_record :: "audit_entry \<Rightarrow> audit_row txn" where
  "audit_record e =
     tx_bind (tx_lift (validate_actor (ae_actor_user_id e) (ae_actor_kind e))) (\<lambda>_.
     tx_bind (tx_guard (action_pattern (ae_action e)) (ValueError ''invalid audit action'')) (\<lambda>_.
     tx_bind (tx_guard (target_type_pattern (ae_target_type e))
       (ValueError ''invalid audit target_type'')) (\<lambda>_.
     tx_bind (tx_lift (normalize_reason (ae_reason e))) (\<lambda>reason.
     tx_bind fresh_uuid (\<lambda>audit_id.
     tx_bind (tx_lift (snapshot_metadata (ae_safe_before e) ''safe_before'')) (\<lambda>before.
     tx_bind (tx_lift (snapshot_metadata (ae_safe_after e) ''safe_after'')) (\<lambda>after.
     create_audit_event
       \<lparr>au_id = audit_id, au_actor_user_id = ae_actor_user_id e, au_actor_kind = ae_actor_kind e,
        au_action = ae_action e, au_target_type = ae_target_type e,
        au_target_id = ae_target_id e, au_reason = reason, au_safe_before = before,
        au_safe_after = after, au_request_id = ae_request_id e, au_created_at = 0\<rparr>)))))))"

text \<open>
  What a transaction that only audits, generates identifiers or reads the clock leaves
  alone: every table but the audit log, which only grows.
\<close>

definition audit_frame :: "db \<Rightarrow> db \<Rightarrow> bool" where
  "audit_frame d d' \<longleftrightarrow> (\<exists>rows n m. d' = d\<lparr>t_audit_events := t_audit_events d @ rows,
     entropy_pos := n, clock_pos := m\<rparr> \<and> entropy_pos d \<le> n \<and> clock_pos d \<le> m)"

lemma audit_record_effect:
  assumes "audit_record e d = Inr (row, d')"
  shows "d' = d\<lparr>t_audit_events := t_audit_events d @ [row],
    entropy_pos := Suc (entropy_pos d), clock_pos := Suc (clock_pos d)\<rparr>"
  using assms by (auto simp: audit_record_def create_audit_event_def tx_simps Let_def)

lemma audit_record_frame: "audit_record e d = Inr (row, d') \<Longrightarrow> audit_frame d d'"
  unfolding audit_frame_def using audit_record_effect [of e d row d']
  by (intro exI [of _ "[row]"] exI [of _ "Suc (entropy_pos d)"] exI [of _ "Suc (clock_pos d)"]) auto

text \<open>
  No row of the log carries a sensitive key: the snapshot rejects the event as a whole.
\<close>

definition audit_clean :: "db \<Rightarrow> bool" where
  "audit_clean d \<longleftrightarrow> (\<forall>r \<in> set (t_audit_events d).
     (\<forall>v. au_safe_before r = Some v \<or> au_safe_after r = Some v \<longrightarrow> \<not> sensitive_metadata v))"

lemma snapshot_metadata_clean:
  "snapshot_metadata value f = Inr (Some v) \<Longrightarrow> \<not> sensitive_metadata v"
  by (auto simp: snapshot_metadata_def split: option.splits if_splits json.splits)

lemma audit_record_row:
  assumes "audit_record e d = Inr (row, d')"
  shows "snapshot_metadata (ae_safe_before e) ''safe_before'' = Inr (au_safe_before row)"
    and "snapshot_metadata (ae_safe_after e) ''safe_after'' = Inr (au_safe_after row)"
    and "au_action row = ae_action e" and "au_target_id row = ae_target_id e"
    and "au_actor_user_id row = ae_actor_user_id e" and "au_actor_kind row = ae_actor_kind e"
  using assms by (auto simp: audit_record_def create_audit_event_def tx_simps Let_def)

end
