(* ===== verification/Outbox.thy ===== *)
theory Outbox
  imports Audit_Log
begin

section \<open>The transactional outbox (outbox/repository.py, outbox/models.py)\<close>

text \<open>
  Rows are appended within the transaction of the change they announce, claimed by
  workers under a lease and completed or failed under the lease's fencing values.
  \<open>FOR UPDATE SKIP LOCKED\<close> skips rows that a concurrent transaction has locked; the model
  runs transactions one after the other, so no row is skipped.
\<close>

subsection \<open>Inserting\<close>

definition outbox_constraints :: "outbox_row list \<Rightarrow> outbox_row \<Rightarrow> (string \<times> bool) list" where
  "outbox_constraints rows row =
     [(''outbox_events_aggregate_type_check'', target_type_pattern (ob_aggregate_type row)),
      (''outbox_events_event_type_check'', action_pattern (ob_event_type row)),
      (''ck_outbox_lock_shape'', (ob_locked_until row = None) = (ob_locked_by row = None)),
      (''ck_outbox_processed_shape'', ob_status row \<noteq> Delivered \<or> ob_processed_at row \<noteq> None),
      (''outbox_events_pkey'', \<not> row_exists (\<lambda>r. ob_id r = ob_id row) rows),
      (''outbox_events_deduplication_key_key'',
         \<not> row_exists (\<lambda>r. ob_deduplication_key r = ob_deduplication_key row) rows)]"

definition new_outbox_row ::
  "uuid \<Rightarrow> string \<Rightarrow> uuid \<Rightarrow> string \<Rightarrow> (string \<times> json) list \<Rightarrow> string \<Rightarrow> instant \<Rightarrow> outbox_row" where
  "new_outbox_row i aggregate_type aggregate_id event_type payload key available_at =
     \<lparr>ob_id = i, ob_aggregate_type = aggregate_type, ob_aggregate_id = aggregate_id,
      ob_event_type = event_type, ob_payload = payload, ob_deduplication_key = key,
      ob_status = Pending, ob_attempt_count = 0, ob_available_at = available_at,
      ob_locked_until = None, ob_locked_by = None, ob_last_error_code = None,
      ob_processed_at = None, ob_created_at = 0\<rparr>"

text \<open>\<open>INSERT INTO talaqi.outbox_events\<close>\<close>

definition insert_outbox :: "outbox_row \<Rightarrow> unit txn" where
  "insert_outbox row =
     tx_bind clock_timestamp (\<lambda>created.
     let row = row\<lparr>ob_created_at := created\<rparr> in
     tx_bind (tx_query t_outbox_events) (\<lambda>rows.
     tx_bind (check_constraints (outbox_constraints rows row)) (\<lambda>_.
     tx_modify (\<lambda>d. d\<lparr>t_outbox_events := t_outbox_events d @ [row]\<rparr>))))"

text \<open>\<open>... ON CONFLICT (deduplication_key) DO NOTHING RETURNING id\<close>\<close>

definition insert_outbox_or_ignore :: "outbox_row \<Rightarrow> uuid option txn" where
  "insert_outbox_or_ignore row =
     tx_bind (tx_query t_outbox_events) (\<lambda>rows.
     if row_exists (\<lambda>r. ob_deduplication_key r = ob_deduplication_key row) rows
     then tx_return None
     else tx_bind (insert_outbox row) (\<lambda>_. tx_return (Some (ob_id row))))"

text \<open>Two \<open>jsonb\<close> objects with the same members are equal, whatever their order.\<close>

definition same_object :: "(string \<times> json) list \<Rightarrow> (string \<times> json) list \<Rightarrow> bool" where
  "same_object a b \<longleftrightarrow> list_all (\<lambda>x. List.member b x) a \<and> list_all (\<lambda>x. List.member a x) b"

definition enqueue ::
  "string \<Rightarrow> uuid \<Rightarrow> string \<Rightarrow> (string \<times> json) list \<Rightarrow> string \<Rightarrow> instant \<Rightarrow> bool txn" where
  "enqueue aggregate_type aggregate_id event_type payload key available_at =
     tx_bind fresh_uuid (\<lambda>i.
     tx_bind (insert_outbox_or_ignore
       (new_outbox_row i aggregate_type aggregate_id event_type payload key available_at)) (\<lambda>event_id.
     if event_id \<noteq> None then tx_return True
     else
       tx_bind (tx_query (\<lambda>d. one_or_none (\<lambda>r. ob_deduplication_key r = key) (t_outbox_events d)))
       (\<lambda>existing. case existing of
          None \<Rightarrow> tx_raise (RuntimeError ''NoResultFound'')
        | Some r \<Rightarrow>
            if ob_aggregate_type r = aggregate_type \<and> ob_aggregate_id r = aggregate_id
               \<and> ob_event_type r = event_type \<and> same_object (ob_payload r) payload
               \<and> ob_available_at r = available_at
            then tx_return False
            else tx_raise OutboxDeduplicationConflictError)))"

subsection \<open>Claiming and finishing\<close>

definition claimable :: "instant \<Rightarrow> outbox_row \<Rightarrow> bool" where
  "claimable now r \<longleftrightarrow> ob_available_at r \<le> now
     \<and> ob_status r \<in> {Pending, RetryableFailed, Processing}
     \<and> (case ob_locked_until r of None \<Rightarrow> True | Some l \<Rightarrow> l \<le> now)"

definition blocked_by_earlier :: "instant \<Rightarrow> outbox_row list \<Rightarrow> outbox_row \<Rightarrow> bool" where
  "blocked_by_earlier now rows r \<longleftrightarrow> row_exists (\<lambda>e.
     ob_aggregate_type e = ob_aggregate_type r \<and> ob_aggregate_id e = ob_aggregate_id r
     \<and> ob_available_at e \<le> now \<and> ob_status e \<noteq> Delivered
     \<and> (ob_created_at e, ob_id e) < (ob_created_at r, ob_id r)) rows"

definition due_outbox :: "string list \<Rightarrow> instant \<Rightarrow> int \<Rightarrow> outbox_row list \<Rightarrow> outbox_row list" where
  "due_outbox event_types now limit rows =
     take (nat limit) (select_by (\<lambda>r. (ob_available_at r, ob_created_at r, ob_id r))
       (\<lambda>r. List.member event_types (ob_event_type r) \<and> claimable now r
            \<and> \<not> blocked_by_earlier now rows r) rows)"

definition lease_row :: "string \<Rightarrow> instant \<Rightarrow> outbox_row \<Rightarrow> outbox_row" where
  "lease_row worker_id locked_until r = r\<lparr>ob_status := Processing,
     ob_attempt_count := ob_attempt_count r + 1, ob_locked_by := Some worker_id,
     ob_locked_until := Some locked_until\<rparr>"

text \<open>
  The claim returns the leased rows. The \<open>UPDATE ... RETURNING\<close> promises no order of them; the model
  returns them in the order of the \<open>due\<close> query, and no property depends on it.
\<close>

definition claim ::
  "string \<Rightarrow> string list \<Rightarrow> instant \<Rightarrow> int \<Rightarrow> int \<Rightarrow> outbox_row list txn" where
  "claim worker_id event_types now lease_duration limit =
     (if event_types = [] then tx_return []
      else tx_bind (tx_query t_outbox_events) (\<lambda>rows.
        let due = due_outbox event_types now limit rows; lease = lease_row worker_id (now + lease_duration) in
        tx_bind (tx_modify (\<lambda>d. d\<lparr>t_outbox_events :=
          update_where (\<lambda>r. List.member (map ob_id due) (ob_id r)) lease rows\<rparr>)) (\<lambda>_.
        tx_return (map lease due))))"

definition get_claimed :: "uuid \<Rightarrow> string \<Rightarrow> instant \<Rightarrow> outbox_row option txn" where
  "get_claimed event_id worker_id now =
     tx_query (\<lambda>d. one_or_none (\<lambda>r. ob_id r = event_id \<and> ob_status r = Processing
       \<and> ob_locked_by r = Some worker_id
       \<and> (case ob_locked_until r of None \<Rightarrow> False | Some l \<Rightarrow> l > now)) (t_outbox_events d))"

text \<open>The \<open>WHERE\<close> clause of \<open>complete\<close> and \<open>fail\<close>: the lease is still the claimer's own.\<close>

definition holds_lease :: "uuid \<Rightarrow> string \<Rightarrow> int \<Rightarrow> instant \<Rightarrow> instant \<Rightarrow> outbox_row \<Rightarrow> bool" where
  "holds_lease event_id worker_id attempt_count locked_until moment r \<longleftrightarrow>
     ob_id r = event_id \<and> ob_status r = Processing \<and> ob_locked_by r = Some worker_id
     \<and> ob_attempt_count r = attempt_count \<and> ob_locked_until r = Some locked_until
     \<and> locked_until > moment"

definition update_outbox :: "(outbox_row \<Rightarrow> bool) \<Rightarrow> (outbox_row \<Rightarrow> outbox_row) \<Rightarrow> bool txn" where
  "update_outbox P f =
     tx_bind (tx_query t_outbox_events) (\<lambda>rows.
     tx_bind (tx_modify (\<lambda>d. d\<lparr>t_outbox_events := update_where P f rows\<rparr>)) (\<lambda>_.
     tx_return (row_exists P rows)))"

definition complete ::
  "uuid \<Rightarrow> string \<Rightarrow> int \<Rightarrow> instant \<Rightarrow> instant \<Rightarrow> bool txn" where
  "complete event_id worker_id attempt_count locked_until processed_at =
     update_outbox (holds_lease event_id worker_id attempt_count locked_until processed_at)
       (\<lambda>r. r\<lparr>ob_status := Delivered, ob_processed_at := Some processed_at, ob_locked_by := None,
              ob_locked_until := None, ob_last_error_code := None\<rparr>)"

definition fail ::
  "uuid \<Rightarrow> string \<Rightarrow> int \<Rightarrow> instant \<Rightarrow> string \<Rightarrow> instant \<Rightarrow> instant \<Rightarrow> bool \<Rightarrow> bool txn" where
  "fail event_id worker_id attempt_count locked_until error_code retry_at failed_at permanent =
     update_outbox (holds_lease event_id worker_id attempt_count locked_until failed_at)
       (\<lambda>r. r\<lparr>ob_status := (if permanent then PermanentFailed else RetryableFailed),
              ob_available_at := retry_at, ob_locked_by := None, ob_locked_until := None,
              ob_last_error_code := Some (take 120 error_code)\<rparr>)"

definition list_dead_letters :: "int \<Rightarrow> outbox_row list txn" where
  "list_dead_letters limit = tx_query (\<lambda>d. take (nat limit)
     (select_by (\<lambda>r. (ob_created_at r, ob_id r)) (\<lambda>r. ob_status r = PermanentFailed)
        (t_outbox_events d)))"

definition retry_permanent_failure :: "uuid \<Rightarrow> instant \<Rightarrow> outbox_row option txn" where
  "retry_permanent_failure event_id now =
     tx_bind (update_outbox (\<lambda>r. ob_id r = event_id \<and> ob_status r = PermanentFailed
         \<and> (case ob_locked_until r of None \<Rightarrow> True | Some l \<Rightarrow> l \<le> now))
       (\<lambda>r. r\<lparr>ob_status := Pending, ob_available_at := now, ob_processed_at := None,
              ob_locked_by := None, ob_locked_until := None, ob_last_error_code := None\<rparr>)) (\<lambda>found.
     if found then tx_query (\<lambda>d. one_or_none (\<lambda>r. ob_id r = event_id) (t_outbox_events d))
     else tx_return None)"

text \<open>Deleting an event sets the reference of its notification to \<open>NULL\<close> (migration 0010).\<close>

definition cleanup_delivered :: "instant \<Rightarrow> int \<Rightarrow> int txn" where
  "cleanup_delivered before limit =
     tx_bind (tx_query t_outbox_events) (\<lambda>rows.
     let old = take (nat limit) (select_by (\<lambda>r. (ob_processed_at r, ob_id r))
           (\<lambda>r. ob_status r = Delivered
              \<and> (case ob_processed_at r of None \<Rightarrow> False | Some p \<Rightarrow> p < before)) rows);
         gone = (\<lambda>r. List.member (map ob_id old) (ob_id r));
         orphan = (\<lambda>n. case nt_outbox_event_id n of None \<Rightarrow> False | Some i \<Rightarrow> List.member (map ob_id old) i) in
     tx_bind (tx_modify (\<lambda>d. d\<lparr>t_outbox_events := delete_where gone rows,
       t_notifications := update_where orphan (\<lambda>n. n\<lparr>nt_outbox_event_id := None\<rparr>) (t_notifications d)\<rparr>)) (\<lambda>_.
     tx_return (count_where gone rows)))"

subsection \<open>Leases\<close>

definition outbox_wf :: "db \<Rightarrow> bool" where
  "outbox_wf d \<longleftrightarrow> distinct (map ob_id (t_outbox_events d))
     \<and> distinct (map ob_deduplication_key (t_outbox_events d))"

lemma in_due_outbox:
  assumes "r \<in> set (due_outbox event_types now limit rows)"
  shows "r \<in> set rows" "List.member event_types (ob_event_type r)" "claimable now r"
    "\<not> blocked_by_earlier now rows r"
  using in_set_takeD [OF assms [unfolded due_outbox_def]] by auto

lemma lease_row_simps [simp]:
  "ob_id (lease_row w l r) = ob_id r" "ob_status (lease_row w l r) = Processing"
  "ob_locked_until (lease_row w l r) = Some l" "ob_locked_by (lease_row w l r) = Some w"
  "ob_attempt_count (lease_row w l r) = ob_attempt_count r + 1"
  "ob_event_type (lease_row w l r) = ob_event_type r"
  "ob_deduplication_key (lease_row w l r) = ob_deduplication_key r"
  "ob_aggregate_type (lease_row w l r) = ob_aggregate_type r"
  "ob_aggregate_id (lease_row w l r) = ob_aggregate_id r"
  "ob_created_at (lease_row w l r) = ob_created_at r"
  by (simp_all add: lease_row_def)

lemma claim_result:
  assumes "claim w types now lease limit d = Inr (evs, d')" "types \<noteq> []"
  shows "evs = map (lease_row w (now + lease)) (due_outbox types now limit (t_outbox_events d))"
    and "d' = d\<lparr>t_outbox_events := update_where
      (\<lambda>r. List.member (map ob_id (due_outbox types now limit (t_outbox_events d))) (ob_id r))
      (lease_row w (now + lease)) (t_outbox_events d)\<rparr>"
  using assms by (auto simp: claim_def tx_simps Let_def)

lemma claim_empty: "claim w [] now lease limit d = Inr ([], d)"
  by (simp add: claim_def tx_return_def)

text \<open>After a claim, a claimed identifier is held until the lease ends.\<close>

lemma claimed_row_locked:
  assumes "claim w types now lease limit d = Inr (evs, d')" "e \<in> set evs"
    and "r \<in> set (t_outbox_events d')" "ob_id r = ob_id e"
  shows "ob_locked_until r = Some (now + lease) \<and> ob_locked_by r = Some w"
proof (cases "types = []")
  case True
  then show ?thesis using assms(1,2) by (simp add: claim_empty)
next
  case False
  note res = claim_result [OF assms(1) False]
  from assms(2) res(1) obtain q where
    q: "q \<in> set (due_outbox types now limit (t_outbox_events d))" "ob_id e = ob_id q" by auto
  have "r \<in> set (update_where
      (\<lambda>r. List.member (map ob_id (due_outbox types now limit (t_outbox_events d))) (ob_id r))
      (lease_row w (now + lease)) (t_outbox_events d))"
    using assms(3) by (simp add: res(2))
  then obtain p where p: "r = (if List.member (map ob_id
      (due_outbox types now limit (t_outbox_events d))) (ob_id p)
      then lease_row w (now + lease) p else p)"
    by (rule in_update_where)
  then have "ob_id p = ob_id r" by (auto split: if_splits)
  then have "List.member (map ob_id (due_outbox types now limit (t_outbox_events d))) (ob_id p)"
    using q assms(4) by (auto simp: image_iff)
  then show ?thesis using p by simp
qed

text \<open>
  C24. Leases exclude each other: an outbox row a worker has claimed at \<open>now\<close> is not
  returned by any claim, of any worker for any event types, made before
  \<open>now + lease_duration\<close>.
\<close>

theorem outbox_lease_exclusive:
  assumes "claim w1 types1 now1 lease1 limit1 d = Inr (evs1, d1)"
    and "claim w2 types2 now2 lease2 limit2 d1 = Inr (evs2, d2)"
    and "now2 < now1 + lease1"
  shows "set (map ob_id evs1) \<inter> set (map ob_id evs2) = {}"
proof (rule ccontr)
  assume "\<not> ?thesis"
  then obtain e1 e2 where e: "e1 \<in> set evs1" "e2 \<in> set evs2" "ob_id e1 = ob_id e2" by auto
  have ne: "types2 \<noteq> []" using e(2) assms(2) by (auto simp: claim_empty)
  then obtain q where q: "q \<in> set (due_outbox types2 now2 limit2 (t_outbox_events d1))"
      "ob_id e2 = ob_id q"
    using e(2) claim_result(1) [OF assms(2)] by auto
  have "ob_locked_until q = Some (now1 + lease1)"
    using claimed_row_locked [OF assms(1) e(1) in_due_outbox(1) [OF q(1)]] e(3) q(2) by simp
  then show False using in_due_outbox(3) [OF q(1)] assms(3) by (simp add: claimable_def)
qed

text \<open>A database with one pending event, for the examples below.\<close>

definition example_outbox_db :: db where
  "example_outbox_db = (empty_db (\<lambda>_. (0, 0, 0)) (\<lambda>_. 0))\<lparr>t_outbox_events :=
     [new_outbox_row 7 ''registration'' 2 ''registration.confirmed'' [] ''key'' 0]\<rparr>"

lemma example_claim:
  "claim w [''registration.confirmed''] 0 30 10 example_outbox_db
     = Inr ([lease_row w 30 (new_outbox_row 7 ''registration'' 2 ''registration.confirmed'' [] ''key'' 0)],
        example_outbox_db\<lparr>t_outbox_events :=
          [lease_row w 30 (new_outbox_row 7 ''registration'' 2 ''registration.confirmed'' [] ''key'' 0)]\<rparr>)"
  by (simp add: claim_def tx_run Let_def example_outbox_db_def empty_db_def new_outbox_row_def
      due_outbox_def select_by_def claimable_def blocked_by_earlier_def row_exists_def)

lemma example_reclaim:
  "claim v [''registration.confirmed''] 30 30 10 (example_outbox_db\<lparr>t_outbox_events :=
      [lease_row w 30 (new_outbox_row 7 ''registration'' 2 ''registration.confirmed'' [] ''key'' 0)]\<rparr>)
     = Inr ([lease_row v 60 (lease_row w 30
          (new_outbox_row 7 ''registration'' 2 ''registration.confirmed'' [] ''key'' 0))],
        example_outbox_db\<lparr>t_outbox_events := [lease_row v 60 (lease_row w 30
          (new_outbox_row 7 ''registration'' 2 ''registration.confirmed'' [] ''key'' 0))]\<rparr>)"
  by (simp add: claim_def tx_run Let_def example_outbox_db_def empty_db_def new_outbox_row_def
      due_outbox_def select_by_def claimable_def blocked_by_earlier_def row_exists_def lease_row_def)

lemma claim_total: "\<exists>evs d'. claim w types now lease limit d = Inr (evs, d')"
  by (simp add: claim_def tx_run Let_def)

theorem outbox_lease_exclusive_witness:
  "\<exists>evs1 d1 evs2 d2. claim ''a'' [''registration.confirmed''] 0 30 10 example_outbox_db = Inr (evs1, d1)
     \<and> evs1 \<noteq> [] \<and> claim ''b'' [''registration.confirmed''] 29 30 10 d1 = Inr (evs2, d2)
     \<and> set (map ob_id evs1) \<inter> set (map ob_id evs2) = {}"
proof -
  obtain evs1 d1 where one: "claim ''a'' [''registration.confirmed''] 0 30 10 example_outbox_db
      = Inr (evs1, d1)" "evs1 \<noteq> []"
    by (simp add: example_claim)
  obtain evs2 d2 where two: "claim ''b'' [''registration.confirmed''] 29 30 10 d1 = Inr (evs2, d2)"
    using claim_total by blast
  have "set (map ob_id evs1) \<inter> set (map ob_id evs2) = {}"
    by (rule outbox_lease_exclusive [OF one(1) two]) simp
  then show ?thesis using one two by blast
qed

text \<open>
  C25. Events of one aggregate are delivered in order: a claim returns at most one event per
  aggregate, and when it does, every earlier event of that aggregate that is available
  has been delivered.
\<close>

theorem outbox_aggregate_order:
  assumes wf: "outbox_wf d" and run: "claim w types now lease limit d = Inr (evs, d')"
  shows "distinct (map (\<lambda>e. (ob_aggregate_type e, ob_aggregate_id e)) evs) \<and>
    (\<forall>e \<in> set evs. \<forall>r \<in> set (t_outbox_events d).
       ob_aggregate_type r = ob_aggregate_type e \<and> ob_aggregate_id r = ob_aggregate_id e \<and>
       ob_available_at r \<le> now \<and> (ob_created_at r, ob_id r) < (ob_created_at e, ob_id e)
       \<longrightarrow> ob_status r = Delivered)"
proof (cases "types = []")
  case True
  then show ?thesis using run by (simp add: claim_empty)
next
  case False
  let ?due = "due_outbox types now limit (t_outbox_events d)"
  have evs: "evs = map (lease_row w (now + lease)) ?due" by (rule claim_result(1) [OF run False])
  have free: "\<not> blocked_by_earlier now (t_outbox_events d) q" if "q \<in> set ?due" for q
    by (rule in_due_outbox(4) [OF that])
  have "inj_on (\<lambda>e. (ob_aggregate_type e, ob_aggregate_id e)) (set ?due)"
  proof (rule inj_onI)
    fix p q assume pq: "p \<in> set ?due" "q \<in> set ?due"
      and "(ob_aggregate_type p, ob_aggregate_id p) = (ob_aggregate_type q, ob_aggregate_id q)"
    then have agg: "ob_aggregate_type p = ob_aggregate_type q" "ob_aggregate_id p = ob_aggregate_id q"
      by auto
    have mem: "p \<in> set (t_outbox_events d)" "q \<in> set (t_outbox_events d)"
      and cl: "claimable now p" "claimable now q"
      using pq in_due_outbox by blast+
    have "\<not> (ob_created_at p, ob_id p) < (ob_created_at q, ob_id q)"
      using free [OF pq(2)] mem(1) cl(1) agg
      by (auto simp: blocked_by_earlier_def row_exists_iff claimable_def)
    moreover have "\<not> (ob_created_at q, ob_id q) < (ob_created_at p, ob_id p)"
      using free [OF pq(1)] mem(2) cl(2) agg
      by (auto simp: blocked_by_earlier_def row_exists_iff claimable_def)
    ultimately have "(ob_created_at p, ob_id p) = (ob_created_at q, ob_id q)"
      by (meson linorder_less_linear)
    then show "p = q" using wf mem by (auto simp: outbox_wf_def dest: distinct_key_eq)
  qed
  moreover have "distinct ?due"
    using wf by (auto simp: due_outbox_def select_by_def outbox_wf_def distinct_map)
  ultimately have "distinct (map (\<lambda>e. (ob_aggregate_type e, ob_aggregate_id e)) ?due)"
    by (simp add: distinct_map)
  then have "distinct (map (\<lambda>e. (ob_aggregate_type e, ob_aggregate_id e)) evs)"
    by (simp add: evs comp_def)
  moreover have "ob_status r = Delivered"
    if "e \<in> set evs" "r \<in> set (t_outbox_events d)" "ob_aggregate_type r = ob_aggregate_type e"
      "ob_aggregate_id r = ob_aggregate_id e" "ob_available_at r \<le> now"
      "(ob_created_at r, ob_id r) < (ob_created_at e, ob_id e)" for e r
  proof -
    note h = that
    obtain x where x: "x \<in> set ?due" "e = lease_row w (now + lease) x" using h(1) evs by auto
    have "\<not> blocked_by_earlier now (t_outbox_events d) x" by (rule free [OF x(1)])
    then show ?thesis using h(2-) unfolding blocked_by_earlier_def row_exists_iff x(2)
      by (simp only: lease_row_simps) blast
  qed
  ultimately show ?thesis by blast
qed

theorem outbox_aggregate_order_witness:
  "\<exists>evs d'. claim ''a'' [''registration.confirmed''] 0 30 10 example_outbox_db = Inr (evs, d') \<and>
     distinct (map (\<lambda>e. (ob_aggregate_type e, ob_aggregate_id e)) evs)"
proof -
  have "outbox_wf example_outbox_db" by (simp add: outbox_wf_def example_outbox_db_def)
  then show ?thesis using outbox_aggregate_order example_claim by blast
qed

text \<open>
  Fencing: once a row has been claimed again, by whatever worker, neither \<open>complete\<close>
  nor \<open>fail\<close> under the earlier claim's attempt count and lease does anything: both
  return \<open>False\<close> and leave the database as it was.
\<close>

theorem outbox_stale_claim_fenced:
  assumes wf: "outbox_wf d"
    and first: "claim w1 types1 now1 lease1 limit1 d = Inr (evs1, d1)" "e1 \<in> set evs1"
    and second: "claim w2 types2 now2 lease2 limit2 d1 = Inr (evs2, d2)" "e2 \<in> set evs2"
    and same: "ob_id e1 = ob_id e2"
  shows "complete (ob_id e1) w1 (ob_attempt_count e1) (now1 + lease1) processed_at d2 = Inr (False, d2)
    \<and> fail (ob_id e1) w1 (ob_attempt_count e1) (now1 + lease1) code retry_at failed_at perm d2
        = Inr (False, d2)"
proof -
  have ne: "types1 \<noteq> []" "types2 \<noteq> []" using first second by (auto simp: claim_empty)
  note r1 = claim_result [OF first(1) ne(1)] and r2 = claim_result [OF second(1) ne(2)]
  let ?due1 = "due_outbox types1 now1 limit1 (t_outbox_events d)"
  let ?due2 = "due_outbox types2 now2 limit2 (t_outbox_events d1)"
  obtain q1 where q1: "q1 \<in> set ?due1" "e1 = lease_row w1 (now1 + lease1) q1"
    using first(2) r1(1) by auto
  obtain q2 where q2: "q2 \<in> set ?due2" "e2 = lease_row w2 (now2 + lease2) q2"
    using second(2) r2(1) by auto
  have ids: "map ob_id (t_outbox_events d1) = map ob_id (t_outbox_events d)"
    by (subst r1(2), simp, rule map_update_where) simp
  have keep: "ob_attempt_count r = ob_attempt_count e1 + 1"
    if r: "r \<in> set (t_outbox_events d2)" "ob_id r = ob_id e1" for r
  proof -
    have "r \<in> set (update_where (\<lambda>r. List.member (map ob_id ?due2) (ob_id r))
        (lease_row w2 (now2 + lease2)) (t_outbox_events d1))"
      using r(1) by (simp add: r2(2))
    then obtain p where p: "p \<in> set (t_outbox_events d1)"
        "r = (if List.member (map ob_id ?due2) (ob_id p) then lease_row w2 (now2 + lease2) p else p)"
      by (rule in_update_where)
    then have pid: "ob_id p = ob_id e1" using r(2) by (auto split: if_splits)
    then have "List.member (map ob_id ?due2) (ob_id p)" using q2 same by auto
    then have "ob_attempt_count r = ob_attempt_count p + 1" using p(2) by simp
    moreover have "ob_attempt_count p = ob_attempt_count e1"
    proof -
      have "p \<in> set (update_where (\<lambda>r. List.member (map ob_id ?due1) (ob_id r))
          (lease_row w1 (now1 + lease1)) (t_outbox_events d))"
        using p(1) by (simp add: r1(2))
      then obtain o' where o': "o' \<in> set (t_outbox_events d)"
          "p = (if List.member (map ob_id ?due1) (ob_id o') then lease_row w1 (now1 + lease1) o' else o')"
        by (rule in_update_where)
      then have oid: "ob_id o' = ob_id q1" using pid q1(2) by (auto split: if_splits)
      then have "o' = q1" using wf o'(1) in_due_outbox(1) [OF q1(1)]
        by (auto simp: outbox_wf_def dest: distinct_key_eq)
      then show ?thesis using o'(2) q1 by auto
    qed
    ultimately show ?thesis by simp
  qed
  have none: "\<forall>r \<in> set (t_outbox_events d2).
      \<not> holds_lease (ob_id e1) w1 (ob_attempt_count e1) (now1 + lease1) m r" for m
    using keep by (auto simp: holds_lease_def)
  have "update_outbox (holds_lease (ob_id e1) w1 (ob_attempt_count e1) (now1 + lease1) m) f d2
      = Inr (False, d2)" for m f
    using none [of m] update_where_none [OF none [of m]]
    by (simp add: update_outbox_def tx_run row_exists_iff)
  then show ?thesis by (simp add: complete_def fail_def)
qed

theorem outbox_stale_claim_fenced_witness:
  "\<exists>d2. complete 7 ''a'' 1 30 5 d2 = Inr (False, d2) \<and> t_outbox_events d2 \<noteq> []"
proof -
  have wf: "outbox_wf example_outbox_db" by (simp add: outbox_wf_def example_outbox_db_def)
  from outbox_stale_claim_fenced [OF wf example_claim [of "''a''"] _ example_reclaim [of "''b''"],
      where processed_at = 5]
  show ?thesis by (fastforce simp: new_outbox_row_def)
qed

end
