(* ===== verification/Identity_Store.thy ===== *)
theory Identity_Store
  imports Identity_Codecs Authorization Outbox
begin

section \<open>Accounts, sessions and recovery tokens: the repository (identity/repository.py)\<close>

text \<open>
  The records of the code (\<open>UserRecord\<close>, \<open>SessionRecord\<close>, \<open>AuthTokenRecord\<close>) are rows with fewer
  columns; the model passes the rows. \<open>lower\<close> of SQL is that of ASCII. The rows that one
  statement changes share one reading of \<open>clock_timestamp()\<close>.
\<close>

subsection \<open>Users\<close>

definition argon2_prefix :: "string \<Rightarrow> bool" where
  "argon2_prefix s \<longleftrightarrow> take 10 s = ''$argon2id$''"

definition user_checks :: "user_row \<Rightarrow> (string \<times> bool) list" where
  "user_checks u =
     [(''users_email_check'', 3 \<le> length (us_email u) \<and> length (us_email u) \<le> 320
         \<and> us_email u = py_lower (us_email u) \<and> take 1 (us_email u) \<noteq> '' ''
         \<and> take 1 (rev (us_email u)) \<noteq> '' ''),
      (''users_password_hash_check'', argon2_prefix (us_password_hash u))]"

text \<open>\<open>INSERT ... ON CONFLICT (lower(email)) DO NOTHING RETURNING\<close>, else the existing account.\<close>

definition create_user ::
  "uuid \<Rightarrow> string \<Rightarrow> string \<Rightarrow> string \<Rightarrow> string \<Rightarrow> instant \<Rightarrow> user_row txn" where
  "create_user i email password_hash terms_version privacy_version age_attested_at =
     tx_bind (tx_query t_users) (\<lambda>rows.
     let row = \<lparr>us_id = i, us_email = email, us_password_hash = password_hash, us_status = UserActive,
       us_email_verified_at = None, us_terms_version = terms_version,
       us_privacy_version = privacy_version, us_age_attested_at = age_attested_at,
       us_organizer_rules_version = None, us_community_rules_version = None,
       us_is_platform_admin = False, us_failed_login_count = 0, us_locked_until = None,
       us_suspended_at = None, us_suspension_reason = None, us_deletion_requested_at = None,
       us_anonymized_at = None\<rparr> in
     tx_bind (check_constraints (user_checks row)) (\<lambda>_.
     if row_exists (\<lambda>u. py_lower (us_email u) = py_lower email) rows
     then (case one_or_none (\<lambda>u. py_lower (us_email u) = email) rows of
         None \<Rightarrow> tx_raise (PyException ''NoResultFound'') | Some u \<Rightarrow> tx_return u)
     else
       tx_bind (check_constraints [(''users_pkey'', \<not> row_exists (\<lambda>u. us_id u = i) rows)]) (\<lambda>_.
       tx_bind (tx_modify (\<lambda>d. d\<lparr>t_users := t_users d @ [row]\<rparr>)) (\<lambda>_. tx_return row))))"

text \<open>\<open>LIMIT 1\<close> without an order: the model takes the first row.\<close>

definition find_for_login :: "string \<Rightarrow> user_row option txn" where
  "find_for_login identifier = tx_query (\<lambda>d. one_or_none
     (\<lambda>u. py_lower (us_email u) = identifier
        \<or> row_exists (\<lambda>p. pr_user_id p = us_id u \<and> py_lower (pr_username p) = identifier) (t_profiles d))
     (t_users d))"

definition find_user_by_email :: "string \<Rightarrow> user_row option txn" where
  "find_user_by_email email = tx_query (\<lambda>d. one_or_none (\<lambda>u. py_lower (us_email u) = email) (t_users d))"

definition update_users :: "(user_row \<Rightarrow> bool) \<Rightarrow> (user_row \<Rightarrow> user_row) \<Rightarrow> unit txn" where
  "update_users P f = tx_modify (\<lambda>d. d\<lparr>t_users := update_where P f (t_users d)\<rparr>)"

record login_state =
  ls_failed_login_count :: int
  ls_locked_until :: "instant option"

definition count_failure :: "instant \<Rightarrow> user_row \<Rightarrow> user_row" where
  "count_failure now u =
     (let over = (case us_locked_until u of None \<Rightarrow> False | Some t \<Rightarrow> t \<le> now) in
      u\<lparr>us_failed_login_count := (if over then 1 else us_failed_login_count u + 1),
        us_locked_until := (if over then None
          else if 5 \<le> us_failed_login_count u + 1 then Some (now + minutes 15)
          else us_locked_until u)\<rparr>)"

definition record_failed_login :: "uuid \<Rightarrow> instant \<Rightarrow> login_state txn" where
  "record_failed_login user_id now =
     tx_bind (tx_query t_users) (\<lambda>rows. case one_or_none (\<lambda>u. us_id u = user_id) rows of
       None \<Rightarrow> tx_raise (PyException ''NoResultFound'')
     | Some u \<Rightarrow>
         tx_bind (update_users (\<lambda>u. us_id u = user_id) (count_failure now)) (\<lambda>_.
         tx_return \<lparr>ls_failed_login_count = us_failed_login_count (count_failure now u),
           ls_locked_until = us_locked_until (count_failure now u)\<rparr>))"

definition clear_failed_login :: "uuid \<Rightarrow> unit txn" where
  "clear_failed_login user_id = update_users (\<lambda>u. us_id u = user_id)
     (\<lambda>u. u\<lparr>us_failed_login_count := 0, us_locked_until := None\<rparr>)"

definition mark_email_verified :: "uuid \<Rightarrow> instant \<Rightarrow> unit txn" where
  "mark_email_verified user_id now = update_users (\<lambda>u. us_id u = user_id)
     (\<lambda>u. u\<lparr>us_email_verified_at :=
        (case us_email_verified_at u of None \<Rightarrow> Some now | Some t \<Rightarrow> Some t)\<rparr>)"

definition replace_password :: "uuid \<Rightarrow> string \<Rightarrow> unit txn" where
  "replace_password user_id password_hash =
     tx_bind (tx_query t_users) (\<lambda>rows.
     tx_bind (check_constraints [(''users_password_hash_check'',
       \<not> row_exists (\<lambda>u. us_id u = user_id) rows \<or> argon2_prefix password_hash)]) (\<lambda>_.
     update_users (\<lambda>u. us_id u = user_id) (\<lambda>u. u\<lparr>us_password_hash := password_hash\<rparr>)))"

subsection \<open>Sessions\<close>

definition session_checks :: "db \<Rightarrow> session_row \<Rightarrow> (string \<times> bool) list" where
  "session_checks d s =
     [(''sessions_refresh_token_hash_check'', 32 \<le> length (se_refresh_token_hash s)),
      (''sessions_csrf_secret_hash_check'', 32 \<le> length (se_csrf_secret_hash s)),
      (''sessions_pkey'', \<not> row_exists (\<lambda>x. se_id x = se_id s) (t_sessions d)),
      (''sessions_refresh_token_hash_key'',
         \<not> row_exists (\<lambda>x. se_refresh_token_hash x = se_refresh_token_hash s) (t_sessions d)),
      (''sessions_user_id_fkey'', row_exists (\<lambda>u. us_id u = se_user_id s) (t_users d))]"

definition create_session ::
  "uuid \<Rightarrow> uuid \<Rightarrow> uuid \<Rightarrow> string \<Rightarrow> string \<Rightarrow> instant \<Rightarrow> session_row txn" where
  "create_session i user_id family_id refresh_token_hash csrf_secret_hash expires_at =
     tx_bind clock_timestamp (\<lambda>created.
     tx_bind (tx_query id) (\<lambda>d.
     let row = \<lparr>se_id = i, se_user_id = user_id, se_family_id = family_id,
       se_refresh_token_hash = refresh_token_hash, se_csrf_secret_hash = csrf_secret_hash,
       se_expires_at = expires_at, se_revoked_at = None, se_revoke_reason = None,
       se_last_used_at = None, se_rotated_at = None, se_replaced_by_session_id = None,
       se_created_at = created\<rparr> in
     tx_bind (check_constraints (session_checks d row)) (\<lambda>_.
     tx_bind (tx_modify (\<lambda>d. d\<lparr>t_sessions := t_sessions d @ [row]\<rparr>)) (\<lambda>_.
     tx_return row))))"

definition active_session :: "instant \<Rightarrow> session_row \<Rightarrow> bool" where
  "active_session now s \<longleftrightarrow> se_revoked_at s = None \<and> now < se_expires_at s"

definition with_user :: "db \<Rightarrow> session_row option \<Rightarrow> (session_row \<times> user_row) option" where
  "with_user d found = Option.bind found (\<lambda>s.
     map_option (\<lambda>u. (s, u)) (one_or_none (\<lambda>u. us_id u = se_user_id s) (t_users d)))"

definition find_active_session :: "uuid \<Rightarrow> instant \<Rightarrow> (session_row \<times> user_row) option txn" where
  "find_active_session session_id now = tx_query (\<lambda>d. with_user d
     (one_or_none (\<lambda>s. se_id s = session_id \<and> active_session now s) (t_sessions d)))"

definition find_refresh_session :: "string \<Rightarrow> (session_row \<times> user_row) option txn" where
  "find_refresh_session hash = tx_query (\<lambda>d. with_user d
     (one_or_none (\<lambda>s. se_refresh_token_hash s = hash) (t_sessions d)))"

definition update_sessions :: "(session_row \<Rightarrow> bool) \<Rightarrow> (session_row \<Rightarrow> session_row) \<Rightarrow> unit txn" where
  "update_sessions P f = tx_modify (\<lambda>d. d\<lparr>t_sessions := update_where P f (t_sessions d)\<rparr>)"

text \<open>\<open>COALESCE(revoked_at, :now)\<close> and \<open>COALESCE(revoke_reason, :reason)\<close>\<close>

definition revoke :: "string \<Rightarrow> instant \<Rightarrow> session_row \<Rightarrow> session_row" where
  "revoke reason now s = s\<lparr>
     se_revoked_at := (case se_revoked_at s of None \<Rightarrow> Some now | Some t \<Rightarrow> Some t),
     se_revoke_reason := (case se_revoke_reason s of None \<Rightarrow> Some reason | Some r \<Rightarrow> Some r)\<rparr>"

definition revoke_session :: "uuid \<Rightarrow> string \<Rightarrow> instant \<Rightarrow> unit txn" where
  "revoke_session session_id reason now = update_sessions (\<lambda>s. se_id s = session_id) (revoke reason now)"

definition revoke_family :: "uuid \<Rightarrow> string \<Rightarrow> instant \<Rightarrow> unit txn" where
  "revoke_family family_id reason now = update_sessions (\<lambda>s. se_family_id s = family_id) (revoke reason now)"

definition revoke_all_sessions :: "uuid \<Rightarrow> string \<Rightarrow> instant \<Rightarrow> unit txn" where
  "revoke_all_sessions user_id reason now = update_sessions (\<lambda>s. se_user_id s = user_id) (revoke reason now)"

definition touch_session :: "uuid \<Rightarrow> uuid \<Rightarrow> instant \<Rightarrow> unit txn" where
  "touch_session session_id user_id now = update_sessions
     (\<lambda>s. se_id s = session_id \<and> se_user_id s = user_id \<and> active_session now s)
     (\<lambda>s. s\<lparr>se_last_used_at := Some now\<rparr>)"

definition rotate_session :: "session_row \<Rightarrow> uuid \<Rightarrow> string \<Rightarrow> string \<Rightarrow> instant \<Rightarrow> instant \<Rightarrow> unit txn" where
  "rotate_session current replacement refresh_token_hash csrf_secret_hash expires_at now =
     tx_bind (create_session replacement (se_user_id current) (se_family_id current)
       refresh_token_hash csrf_secret_hash expires_at) (\<lambda>_.
     update_sessions (\<lambda>s. se_id s = se_id current \<and> se_revoked_at s = None)
       (\<lambda>s. s\<lparr>se_rotated_at := Some now, se_revoked_at := Some now, se_revoke_reason := Some ''rotated'',
          se_replaced_by_session_id := Some replacement\<rparr>))"

definition revoke_owned_session_row :: "uuid \<Rightarrow> uuid \<Rightarrow> string \<Rightarrow> instant \<Rightarrow> bool txn" where
  "revoke_owned_session_row user_id session_id reason now =
     tx_bind (tx_query t_sessions) (\<lambda>rows.
     let P = (\<lambda>s. se_id s = session_id \<and> se_user_id s = user_id \<and> se_revoked_at s = None) in
     tx_bind (update_sessions P (\<lambda>s. s\<lparr>se_revoked_at := Some now, se_revoke_reason := Some reason\<rparr>)) (\<lambda>_.
     tx_return (row_exists P rows)))"

record session_summary =
  ss_id :: uuid
  ss_current :: bool
  ss_created_at :: instant
  ss_last_used_at :: "instant option"
  ss_expires_at :: instant

definition list_session_rows :: "uuid \<Rightarrow> uuid \<Rightarrow> session_summary list txn" where
  "list_session_rows user_id current_id =
     tx_bind clock_timestamp (\<lambda>now. tx_query (\<lambda>d. map
       (\<lambda>s. \<lparr>ss_id = se_id s, ss_current = (se_id s = current_id), ss_created_at = se_created_at s,
          ss_last_used_at = se_last_used_at s, ss_expires_at = se_expires_at s\<rparr>)
       (rev (select_by (\<lambda>s. (se_created_at s, se_id s))
         (\<lambda>s. se_user_id s = user_id \<and> active_session now s) (t_sessions d)))))"

subsection \<open>Recovery tokens\<close>

definition auth_token_checks :: "db \<Rightarrow> auth_token_row \<Rightarrow> (string \<times> bool) list" where
  "auth_token_checks d t =
     [(''auth_tokens_token_hash_check'', 32 \<le> length (at_token_hash t)),
      (''auth_tokens_pkey'', \<not> row_exists (\<lambda>x. at_id x = at_id t) (t_auth_tokens d)),
      (''auth_tokens_token_hash_key'',
         \<not> row_exists (\<lambda>x. at_token_hash x = at_token_hash t) (t_auth_tokens d)),
      (''auth_tokens_user_id_fkey'', row_exists (\<lambda>u. us_id u = at_user_id t) (t_users d))]"

definition supersede_tokens :: "uuid \<Rightarrow> auth_token_kind \<Rightarrow> unit txn" where
  "supersede_tokens user_id kind =
     tx_bind clock_timestamp (\<lambda>now. tx_modify (\<lambda>d. d\<lparr>t_auth_tokens := update_where
       (\<lambda>t. at_user_id t = user_id \<and> at_kind t = kind \<and> at_used_at t = None)
       (\<lambda>t. t\<lparr>at_used_at := Some now\<rparr>) (t_auth_tokens d)\<rparr>))"

definition insert_auth_token :: "uuid \<Rightarrow> uuid \<Rightarrow> auth_token_kind \<Rightarrow> string \<Rightarrow> instant \<Rightarrow> unit txn" where
  "insert_auth_token i user_id kind token_hash expires_at =
     tx_bind clock_timestamp (\<lambda>created.
     tx_bind (tx_query id) (\<lambda>d.
     let row = \<lparr>at_id = i, at_user_id = user_id, at_kind = kind, at_token_hash = token_hash,
       at_expires_at = expires_at, at_used_at = None, at_created_at = created\<rparr> in
     tx_bind (check_constraints (auth_token_checks d row)) (\<lambda>_.
     tx_modify (\<lambda>d. d\<lparr>t_auth_tokens := t_auth_tokens d @ [row]\<rparr>))))"

definition create_auth_token ::
  "uuid \<Rightarrow> uuid \<Rightarrow> auth_token_kind \<Rightarrow> string \<Rightarrow> instant \<Rightarrow> string \<Rightarrow> unit txn" where
  "create_auth_token i user_id kind token_hash expires_at locale_hint =
     tx_bind (supersede_tokens user_id kind) (\<lambda>_.
     tx_bind (insert_auth_token i user_id kind token_hash expires_at) (\<lambda>_.
     tx_bind fresh_uuid (\<lambda>event_id.
     tx_bind clock_timestamp (\<lambda>available.
     insert_outbox (new_outbox_row event_id ''user'' user_id
       (''identity.'' @ kind_name kind @ ''_requested'')
       [(''user_id'', JStr (uuid_str user_id)), (''auth_token_id'', JStr (uuid_str i)),
        (''locale_hint'', JStr locale_hint), (''template'', JStr (kind_name kind))]
       (''identity:'' @ kind_name kind @ '':'' @ uuid_str i) available)))))"

definition lock_auth_token :: "uuid \<Rightarrow> (auth_token_row \<times> user_row) option txn" where
  "lock_auth_token token_id = tx_query (\<lambda>d.
     Option.bind (one_or_none (\<lambda>t. at_id t = token_id) (t_auth_tokens d)) (\<lambda>t.
       map_option (\<lambda>u. (t, u)) (one_or_none (\<lambda>u. us_id u = at_user_id t) (t_users d))))"

definition mark_auth_token_used :: "uuid \<Rightarrow> instant \<Rightarrow> unit txn" where
  "mark_auth_token_used token_id now = tx_modify (\<lambda>d. d\<lparr>t_auth_tokens := update_where
     (\<lambda>t. at_id t = token_id) (\<lambda>t. t\<lparr>at_used_at := Some now\<rparr>) (t_auth_tokens d)\<rparr>)"

end
