(* ===== verification/Example_Data.thy ===== *)
theory Example_Data
  imports Schema
begin

section \<open>A small database for the witnesses\<close>

text \<open>
  Concrete rows at which the properties are applied: one country and city, an organizer,
  members, and a published free event of capacity 1 that starts at instant \<open>1000000000\<close>. Identifiers
  are UUIDv7 values with the timestamp 0, numbered by the last field.
\<close>

definition example_id :: "nat \<Rightarrow> uuid" where
  "example_id n = 0x70008000000000000000 + of_nat n"

text \<open>
  The \<open>n\<close>-th generated identifier is \<open>example_id (n + 100)\<close>, up to the hundredth, where the
  system clock leaves the range; the clock of the database advances by one.
\<close>

definition example_entropy :: "nat \<Rightarrow> entropy" where
  "example_entropy n = (if n < 100 then 0 else - 1, 0, of_nat (n + 100))"

definition example_clock :: "nat \<Rightarrow> instant" where
  "example_clock n = int n"

definition example_user :: "nat \<Rightarrow> user_row" where
  "example_user n = \<lparr>us_id = example_id n, us_email = ''member'', us_password_hash = ''x'',
     us_status = UserActive, us_email_verified_at = Some 0, us_terms_version = ''v1'',
     us_privacy_version = ''v1'', us_age_attested_at = 0, us_organizer_rules_version = Some ''v1'',
     us_community_rules_version = Some ''v1'', us_is_platform_admin = False,
     us_failed_login_count = 0, us_locked_until = None, us_suspended_at = None,
     us_suspension_reason = None, us_deletion_requested_at = None, us_anonymized_at = None\<rparr>"

definition example_event :: event_row where
  "example_event = \<lparr>ev_id = example_id 20, ev_ownership_type = Independent, ev_club_id = None,
     ev_owner_user_id = Some (example_id 1), ev_title = ''Walk'', ev_description = ''A walk'',
     ev_start_at = Some 1000000000, ev_end_at = Some 2000000000, ev_time_zone = Some ''UTC'',
     ev_capacity = Some 1, ev_visibility = Public, ev_status = EvPublished,
     ev_registration_method = Some Free, ev_cash_expiry_minutes = None,
     ev_cancellation_cutoff_minutes = Some 1, ev_district = None,
     ev_public_meeting_area = Some ''Gate'', ev_exact_address = Some ''1 Street'',
     ev_latitude = Some (Finite 1), ev_longitude = Some (Finite 2),
     ev_exact_venue_is_public = False, ev_cover_media_id = None, ev_revision = 2,
     ev_published_at = Some 0, ev_cancelled_at = None, ev_completed_at = None,
     ev_suspended_at = None, ev_suspension_reason = None, ev_created_at = 0, ev_updated_at = 0,
     ev_category_id = Some (example_id 40), ev_country_id = Some (example_id 30),
     ev_city_id = Some (example_id 31)\<rparr>"

definition example_registration :: "nat \<Rightarrow> nat \<Rightarrow> registration_state \<Rightarrow> registration" where
  "example_registration n u s = \<lparr>rg_id = example_id n, rg_event_id = example_id 20,
     rg_user_id = example_id u, rg_method = Free, rg_state = s, rg_seat_held = (s = Confirmed),
     rg_waitlist_sequence = (if s = Waitlisted then Some (int n) else None),
     rg_cash_expires_at = None, rg_confirmed_at = (if s = Confirmed then Some 5 else None),
     rg_cancelled_at = (if s = Cancelled then Some 5 else None), rg_expired_at = None,
     rg_cancellation_reason = None, rg_created_at = 0, rg_updated_at = 0\<rparr>"

definition example_country :: country_row where
  "example_country = \<lparr>co_id = example_id 30, co_code = ''TR'', co_default_locale = ''tr'',
     co_default_currency = ''TRY'', co_enabled = True\<rparr>"

definition example_city :: city_row where
  "example_city = \<lparr>ci_id = example_id 31, ci_country_id = example_id 30, ci_slug = ''bursa'',
     ci_time_zone = ''UTC'', ci_enabled = True, ci_beta_enabled = True\<rparr>"

definition example_policy_row :: policy_row where
  "example_policy_row = \<lparr>po_country_id = example_id 30,
     po_allowed_registration_methods = [Free, CashOrganizerConfirmed],
     po_cash_expiry_default_minutes = 60, po_cash_expiry_min_minutes = 0,
     po_cash_expiry_max_minutes = 120, po_cancellation_default_minutes = 60,
     po_cancellation_min_minutes = 0, po_cancellation_max_minutes = 1440,
     po_default_club_ownership_limit = 3, po_default_active_independent_event_limit = 3,
     po_exact_venue_public_by_default = False, po_revision = 1\<rparr>"

definition example_profile :: "nat \<Rightarrow> profile_row" where
  "example_profile n = \<lparr>pr_user_id = example_id n, pr_username = ''member'', pr_display_name = ''Member'',
     pr_country_id = example_id 30, pr_city_id = example_id 31, pr_locale = ''tr'',
     pr_time_zone = ''UTC'', pr_preferred_currency = ''TRY'', pr_avatar_media_id = None,
     pr_notify_event_email = True, pr_notify_community_email = True,
     pr_profile_completed_at = Some 0\<rparr>"

text \<open>One confirmed member (2) and two waiting (3 and 4).\<close>

definition example_db :: db where
  "example_db = (empty_db example_entropy example_clock)\<lparr>
     t_countries := [example_country], t_cities := [example_city],
     t_regional_policies := [example_policy_row], t_profiles := map example_profile [1, 2, 3, 4, 5],
     t_users := map example_user [1, 2, 3, 4, 5], t_events := [example_event],
     t_registrations := [example_registration 50 2 Confirmed,
       example_registration 51 3 Waitlisted, example_registration 52 4 Waitlisted]\<rparr>"

end
