(* ===== verification/Tx_Run.thy ===== *)
theory Tx_Run
  imports Prelude
begin

section \<open>Running a transaction forwards\<close>

text \<open>
  Equations that execute the first step of a transaction whose result is known. A service is
  evaluated on a state by rewriting with \<open>tx_step\<close>, one statement at a time.
\<close>

named_theorems tx_step "executing the first step of a transaction"

lemma lift_step [tx_step]: "tx_bind (tx_lift (Inr x)) f s = f x s" "tx_bind (tx_lift (Inl e)) f s = Inl e"
  by (simp_all add: tx_run)

lemma query_step [tx_step]: "tx_bind (tx_query q) f s = f (q s) s"
  by (simp add: tx_run)

lemma modify_step [tx_step]: "tx_bind (tx_modify g) f s = f () (g s)"
  by (simp add: tx_run)

lemma guard_step: "b \<Longrightarrow> tx_bind (tx_guard b e) f s = f () s" "\<not> b \<Longrightarrow> tx_bind (tx_guard b e) f s = Inl e"
  by (simp_all add: tx_run)

lemma raise_step [tx_step]: "tx_bind (tx_raise e) f s = Inl e"
  by (simp add: tx_run)

lemma return_run: "tx_return x s = Inr (x, s)"
  by (simp add: tx_run)

lemma bind_step: "m s = Inr (x, s') \<Longrightarrow> tx_bind m f s = f x s'"
  by (simp add: tx_bind_def)

lemma bind_fails: "m s = Inl e \<Longrightarrow> tx_bind m f s = Inl e"
  by (simp add: tx_bind_def)

end
