(* ===== verification/Identity_Service.thy ===== *)
theory Identity_Service
  imports Identity_Store Example_Data Tx_Run
begin

section \<open>Accounts and sessions: the service (identity/service.py, runtime.py)\<close>

text \<open>
  \<open>request\<close> is the transaction of a request (\<open>get_db_session\<close>): an exception rolls it back.
  The random bytes and \<open>uuid4()\<close> are arguments, the identifiers of \<open>generate_uuid7()\<close> come from the
  stream of the state. An error that is raised after an explicit \<open>session.commit()\<close> is an \<open>Inl\<close>
  within a committed result.
\<close>

definition request :: "('s, 'a) tx \<Rightarrow> 's \<Rightarrow> (py_error + 'a) \<times> 's" where
  "request m s = (case m s of Inl e \<Rightarrow> (Inl e, s) | Inr (x, s') \<Rightarrow> (Inr x, s'))"

record auth_config =
  au_hmac :: "string \<Rightarrow> string"
  au_passwords :: password_service
  au_terms :: string
  au_privacy :: string

record session_bundle =
  bn_principal :: principal
  bn_access_cookie :: string
  bn_credentials :: session_credentials

definition invalid_credentials :: py_error where
  "invalid_credentials = ApiError ''invalid_credentials'' ''errors.invalid_credentials'' 401"

definition principal_for :: "user_row \<Rightarrow> uuid \<Rightarrow> principal" where
  "principal_for u session_id = \<lparr>sb_user_id = us_id u, sb_email_verified = (us_email_verified_at u \<noteq> None),
     sb_status = us_status u, sb_is_platform_admin = us_is_platform_admin u, ap_session_id = session_id\<rparr>"

subsection \<open>Registration and login\<close>

definition register_account ::
  "auth_config \<Rightarrow> string \<Rightarrow> string \<Rightarrow> bool \<Rightarrow> string \<Rightarrow> string \<Rightarrow> instant \<Rightarrow> unit txn" where
  "register_account cfg email password age_attested terms_version privacy_version now =
     tx_bind (tx_guard (age_attested \<and> terms_version = au_terms cfg \<and> privacy_version = au_privacy cfg)
       (ApiError ''legal_acceptance_required'' ''errors.legal_acceptance_required'' 422)) (\<lambda>_.
     tx_bind (tx_lift (normalize_email (au_passwords cfg) email)) (\<lambda>normalized.
     tx_bind (tx_lift (hash_password (au_passwords cfg) password)) (\<lambda>encoded.
     tx_bind fresh_uuid (\<lambda>i.
     tx_bind (create_user i normalized encoded terms_version privacy_version now) (\<lambda>_.
     tx_return ())))))"

definition locked_at :: "instant \<Rightarrow> user_row \<Rightarrow> bool" where
  "locked_at now u \<longleftrightarrow> (case us_locked_until u of None \<Rightarrow> False | Some t \<Rightarrow> now < t)"

definition login ::
  "auth_config \<Rightarrow> string \<Rightarrow> string \<Rightarrow> string \<Rightarrow> string \<Rightarrow> instant \<Rightarrow> session_bundle txn" where
  "login cfg refresh_bytes csrf_bytes identifier password now =
     tx_bind (case normalize_login_identifier (au_passwords cfg) identifier of
         None \<Rightarrow> tx_return None | Some normalized \<Rightarrow> find_for_login normalized) (\<lambda>user. case user of
       None \<Rightarrow> tx_raise invalid_credentials
     | Some u \<Rightarrow>
         let verified = pw_argon2_verify (au_passwords cfg) (us_password_hash u) password;
             unavailable = us_status u \<noteq> UserActive \<or> locked_at now u in
         if unavailable \<or> \<not> verified
         then tx_bind (if us_status u = UserActive \<and> \<not> unavailable
             then tx_bind (record_failed_login (us_id u) now) (\<lambda>_. tx_return ()) else tx_return ()) (\<lambda>_.
           tx_raise invalid_credentials)
         else
           tx_bind (clear_failed_login (us_id u)) (\<lambda>_.
           tx_bind fresh_uuid (\<lambda>session_id.
           tx_bind (tx_lift (issue_credentials (au_hmac cfg) refresh_bytes csrf_bytes)) (\<lambda>credentials.
           tx_bind fresh_uuid (\<lambda>family_id.
           tx_bind (create_session session_id (us_id u) family_id (sc_refresh_hash credentials)
             (sc_csrf_hash credentials) (now + days 30)) (\<lambda>session.
           tx_return \<lparr>bn_principal = principal_for u (se_id session),
             bn_access_cookie = encode_access (au_hmac cfg) \<lparr>ac_session_id = se_id session,
               ac_user_id = us_id u, ac_issued_at = now\<rparr>,
             bn_credentials = credentials\<rparr>))))))"

subsection \<open>Recovery\<close>

definition request_recovery ::
  "auth_config \<Rightarrow> string \<Rightarrow> auth_token_kind \<Rightarrow> string \<Rightarrow> uuid \<Rightarrow> instant \<Rightarrow> unit txn" where
  "request_recovery cfg email kind locale_hint token_id now =
     (case normalize_email (au_passwords cfg) email of
        Inl _ \<Rightarrow> tx_return ()
      | Inr normalized \<Rightarrow>
          tx_bind (find_user_by_email normalized) (\<lambda>user. case user of
            None \<Rightarrow> tx_return ()
          | Some u \<Rightarrow>
              if us_status u \<noteq> UserActive then tx_return ()
              else
                let public = public_token (au_hmac cfg) token_id kind in
                create_auth_token token_id (us_id u) kind (stored_token_hash (au_hmac cfg) public)
                  (token_expiry kind now) locale_hint))"

definition consume_recovery_token ::
  "auth_config \<Rightarrow> string \<Rightarrow> auth_token_kind \<Rightarrow> instant \<Rightarrow> user_row txn" where
  "consume_recovery_token cfg token kind now =
     tx_bind (tx_lift (verify_token (au_hmac cfg) token kind)) (\<lambda>token_id.
     tx_bind (lock_auth_token token_id) (\<lambda>found. case found of
       None \<Rightarrow> tx_raise invalid_recovery_token
     | Some (t, u) \<Rightarrow>
         tx_bind (tx_guard (at_kind t = kind \<and> at_used_at t = None \<and> now < at_expires_at t
           \<and> us_status u = UserActive \<and> at_token_hash t = stored_token_hash (au_hmac cfg) token)
           invalid_recovery_token) (\<lambda>_.
         tx_bind (mark_auth_token_used (at_id t) now) (\<lambda>_.
         tx_return u))))"

definition confirm_verification :: "auth_config \<Rightarrow> string \<Rightarrow> instant \<Rightarrow> unit txn" where
  "confirm_verification cfg token now =
     tx_bind (consume_recovery_token cfg token EmailVerification now) (\<lambda>u.
     mark_email_verified (us_id u) now)"

definition confirm_password_reset :: "auth_config \<Rightarrow> string \<Rightarrow> string \<Rightarrow> instant \<Rightarrow> unit txn" where
  "confirm_password_reset cfg token new_password now =
     tx_bind (consume_recovery_token cfg token PasswordReset now) (\<lambda>u.
     tx_bind (tx_lift (hash_password (au_passwords cfg) new_password)) (\<lambda>encoded.
     tx_bind (replace_password (us_id u) encoded) (\<lambda>_.
     revoke_all_sessions (us_id u) ''password_reset'' now)))"

subsection \<open>Rotation\<close>

definition rotate ::
  "auth_config \<Rightarrow> string \<Rightarrow> string \<Rightarrow> string \<Rightarrow> string option \<Rightarrow> string option \<Rightarrow> instant
     \<Rightarrow> (py_error + session_bundle) txn" where
  "rotate cfg refresh_bytes csrf_bytes refresh_token csrf_cookie csrf_header now =
     tx_bind (tx_lift (refresh_hash (au_hmac cfg) refresh_token)) (\<lambda>hash.
     tx_bind (find_refresh_session hash) (\<lambda>found. case found of
       None \<Rightarrow> tx_raise invalid_credentials
     | Some (s, u) \<Rightarrow>
         tx_bind (tx_lift (verify_csrf_secret (au_hmac cfg) csrf_cookie csrf_header (se_csrf_secret_hash s))) (\<lambda>_.
         if se_revoked_at s \<noteq> None
         then if se_rotated_at s \<noteq> None
           then tx_bind (revoke_family (se_family_id s) ''refresh_replay'' now) (\<lambda>_.
             tx_return (Inl invalid_credentials))
           else tx_raise invalid_credentials
         else
           tx_bind (tx_guard (now < se_expires_at s \<and> us_status u = UserActive) invalid_credentials) (\<lambda>_.
           tx_bind (tx_lift (issue_credentials (au_hmac cfg) refresh_bytes csrf_bytes)) (\<lambda>credentials.
           tx_bind fresh_uuid (\<lambda>replacement.
           tx_bind (rotate_session s replacement (sc_refresh_hash credentials) (sc_csrf_hash credentials)
             (refresh_expiry now) now) (\<lambda>_.
           tx_return (Inr \<lparr>bn_principal = principal_for u replacement,
             bn_access_cookie = encode_access (au_hmac cfg) \<lparr>ac_session_id = replacement,
               ac_user_id = us_id u, ac_issued_at = now\<rparr>,
             bn_credentials = credentials\<rparr>))))))))"

subsection \<open>Sessions of a user\<close>

definition list_sessions :: "principal \<Rightarrow> session_summary list txn" where
  "list_sessions p = list_session_rows (sb_user_id p) (ap_session_id p)"

definition revoke_owned_session :: "principal \<Rightarrow> uuid \<Rightarrow> instant \<Rightarrow> bool txn" where
  "revoke_owned_session p session_id now =
     revoke_owned_session_row (sb_user_id p) session_id ''user_revoked'' now"

definition revoke_all_other :: "principal \<Rightarrow> instant \<Rightarrow> unit txn" where
  "revoke_all_other p now = revoke_all_sessions (sb_user_id p) ''user_revoked_all'' now"

definition verify_csrf :: "auth_config \<Rightarrow> principal \<Rightarrow> string option \<Rightarrow> string option \<Rightarrow> instant \<Rightarrow> unit txn" where
  "verify_csrf cfg p cookie header now =
     tx_bind (find_active_session (ap_session_id p) now) (\<lambda>found. case found of
       None \<Rightarrow> tx_raise invalid_credentials
     | Some (s, u) \<Rightarrow>
         tx_bind (tx_guard (us_id u = sb_user_id p) invalid_credentials) (\<lambda>_.
         tx_lift (verify_csrf_secret (au_hmac cfg) cookie header (se_csrf_secret_hash s))))"

end
