(* ===== verification/Session_Laws.thy ===== *)
theory Session_Laws
  imports Identity_Service
begin

section \<open>Sessions: rotation and the detection of stolen tokens\<close>

text \<open>
  The cases of a rotation, the rows it leaves, and what presenting a refresh token again does.
  \<open>example_auth\<close> instantiates the primitives (HMAC, argon2, the e-mail validator) with concrete
  functions for the witnesses.
\<close>

subsection \<open>What a rotation does\<close>

lemma with_user_Some:
  "with_user d found = Some (s, u) \<longleftrightarrow>
     found = Some s \<and> one_or_none (\<lambda>u. us_id u = se_user_id s) (t_users d) = Some u"
  by (auto simp: with_user_def split: bind_splits)

lemma create_session_effect:
  assumes "create_session i user family rh ch t d = Inr (s, d')"
  shows "d' = d\<lparr>clock_pos := Suc (clock_pos d), t_sessions := t_sessions d @ [s]\<rparr>"
    and "se_id s = i" "se_user_id s = user" "se_family_id s = family" "se_refresh_token_hash s = rh"
    "se_csrf_secret_hash s = ch" "se_expires_at s = t" "se_revoked_at s = None"
    and "\<forall>x \<in> set (t_sessions d). se_id x \<noteq> i \<and> se_refresh_token_hash x \<noteq> rh"
  using assms
  by (auto simp: create_session_def tx_simps session_checks_def Let_def row_exists_iff split: if_splits)

lemma rotate_cases:
  assumes "rotate cfg rb cb tok c h now d = Inr (r, d')"
  obtains (replayed) hash s u where "refresh_hash (au_hmac cfg) tok = Inr hash"
      "one_or_none (\<lambda>s. se_refresh_token_hash s = hash) (t_sessions d) = Some s"
      "one_or_none (\<lambda>u. us_id u = se_user_id s) (t_users d) = Some u"
      "verify_csrf_secret (au_hmac cfg) c h (se_csrf_secret_hash s) = Inr ()"
      "se_revoked_at s \<noteq> None" "se_rotated_at s \<noteq> None" "r = Inl invalid_credentials"
      "d' = d\<lparr>t_sessions := update_where (\<lambda>x. se_family_id x = se_family_id s)
         (revoke ''refresh_replay'' now) (t_sessions d)\<rparr>"
  | (rotated) hash s u b new where "refresh_hash (au_hmac cfg) tok = Inr hash"
      "one_or_none (\<lambda>s. se_refresh_token_hash s = hash) (t_sessions d) = Some s"
      "one_or_none (\<lambda>u. us_id u = se_user_id s) (t_users d) = Some u"
      "verify_csrf_secret (au_hmac cfg) c h (se_csrf_secret_hash s) = Inr ()"
      "se_revoked_at s = None" "now < se_expires_at s" "us_status u = UserActive" "r = Inr b"
      "bn_principal b = principal_for u (se_id new)" "se_family_id new = se_family_id s"
      "se_user_id new = se_user_id s" "se_revoked_at new = None" "se_expires_at new = now + days 30"
      "\<forall>x \<in> set (t_sessions d). se_id x \<noteq> se_id new \<and> se_refresh_token_hash x \<noteq> se_refresh_token_hash new"
      "t_users d' = t_users d"
      "t_sessions d' = update_where (\<lambda>x. se_id x = se_id s \<and> se_revoked_at x = None)
         (\<lambda>x. x\<lparr>se_rotated_at := Some now, se_revoked_at := Some now, se_revoke_reason := Some ''rotated'',
            se_replaced_by_session_id := Some (se_id new)\<rparr>) (t_sessions d @ [new])"
proof -
  obtain hash s u where a: "refresh_hash (au_hmac cfg) tok = Inr hash"
    "one_or_none (\<lambda>s. se_refresh_token_hash s = hash) (t_sessions d) = Some s"
    "one_or_none (\<lambda>u. us_id u = se_user_id s) (t_users d) = Some u"
    "verify_csrf_secret (au_hmac cfg) c h (se_csrf_secret_hash s) = Inr ()"
    and rest: "(if se_revoked_at s \<noteq> None
         then if se_rotated_at s \<noteq> None
           then tx_bind (revoke_family (se_family_id s) ''refresh_replay'' now) (\<lambda>_.
             tx_return (Inl invalid_credentials))
           else tx_raise invalid_credentials
         else
           tx_bind (tx_guard (now < se_expires_at s \<and> us_status u = UserActive) invalid_credentials) (\<lambda>_.
           tx_bind (tx_lift (issue_credentials (au_hmac cfg) rb cb)) (\<lambda>credentials.
           tx_bind fresh_uuid (\<lambda>replacement.
           tx_bind (rotate_session s replacement (sc_refresh_hash credentials) (sc_csrf_hash credentials)
             (refresh_expiry now) now) (\<lambda>_.
           tx_return (Inr \<lparr>bn_principal = principal_for u replacement,
             bn_access_cookie = encode_access (au_hmac cfg) \<lparr>ac_session_id = replacement,
               ac_user_id = us_id u, ac_issued_at = now\<rparr>,
             bn_credentials = credentials\<rparr>)))))) d = Inr (r, d')"
    using assms unfolding rotate_def find_refresh_session_def
    by (elim tx_bindE) (simp add: tx_lift_eq tx_query_eq with_user_Some tx_raise_eq tx_bind_eq
        split: option.splits prod.splits)
  show ?thesis
  proof (cases "se_revoked_at s = None")
    case False
    then have "se_rotated_at s \<noteq> None" "r = Inl invalid_credentials"
      "d' = d\<lparr>t_sessions := update_where (\<lambda>x. se_family_id x = se_family_id s)
         (revoke ''refresh_replay'' now) (t_sessions d)\<rparr>"
      using rest by (auto simp: revoke_family_def update_sessions_def tx_simps split: if_splits)
    then show ?thesis using replayed [OF a] False by blast
  next
    case True
    obtain cr i d1 where g: "now < se_expires_at s" "us_status u = UserActive"
      "fresh_uuid d = Inr (i, d1)"
      "rotate_session s i (sc_refresh_hash cr) (sc_csrf_hash cr) (refresh_expiry now) now d1 = Inr ((), d')"
      "r = Inr \<lparr>bn_principal = principal_for u i,
             bn_access_cookie = encode_access (au_hmac cfg) \<lparr>ac_session_id = i,
               ac_user_id = us_id u, ac_issued_at = now\<rparr>, bn_credentials = cr\<rparr>"
      using rest True by (auto simp: tx_bind_eq tx_guard_eq tx_lift_eq tx_return_eq)
    have d1: "d1 = d\<lparr>entropy_pos := Suc (entropy_pos d)\<rparr>" using g(3) by (simp add: fresh_uuid_eq)
    obtain new d2 where n: "create_session i (se_user_id s) (se_family_id s) (sc_refresh_hash cr)
        (sc_csrf_hash cr) (refresh_expiry now) d1 = Inr (new, d2)"
      "d' = d2\<lparr>t_sessions := update_where (\<lambda>x. se_id x = se_id s \<and> se_revoked_at x = None)
         (\<lambda>x. x\<lparr>se_rotated_at := Some now, se_revoked_at := Some now, se_revoke_reason := Some ''rotated'',
            se_replaced_by_session_id := Some i\<rparr>) (t_sessions d2)\<rparr>"
      using g(4) by (auto simp: rotate_session_def update_sessions_def tx_bind_eq tx_modify_eq)
    note e = create_session_effect [OF n(1)]
    show ?thesis
      by (rule rotated [OF a True g(1,2,5), of new])
         (use e n(2) d1 in \<open>simp_all add: refresh_expiry_def\<close>)
  qed
qed

subsection \<open>Reuse of a refresh token\<close>

definition sessions_wf :: "db \<Rightarrow> bool" where
  "sessions_wf d \<longleftrightarrow> distinct (map se_id (t_sessions d))
     \<and> distinct (map se_refresh_token_hash (t_sessions d))"

lemma rotated_row:
  fixes s new :: session_row
  assumes wf: "sessions_wf d" and s: "s \<in> set (t_sessions d)" "se_revoked_at s = None"
    and new: "\<forall>x \<in> set (t_sessions d). se_id x \<noteq> se_id new \<and> se_refresh_token_hash x \<noteq> se_refresh_token_hash new"
    and d': "t_sessions d' = update_where (\<lambda>x. se_id x = se_id s \<and> se_revoked_at x = None) f (t_sessions d @ [new])"
    and f: "\<And>x. se_id (f x) = se_id x \<and> se_refresh_token_hash (f x) = se_refresh_token_hash x"
  shows "one_or_none (\<lambda>x. se_refresh_token_hash x = se_refresh_token_hash s) (t_sessions d') = Some (f s)"
    and "one_or_none (\<lambda>x. se_id x = se_id new) (t_sessions d') = Some new" and "sessions_wf d'"
proof -
  have keys: "map se_refresh_token_hash (t_sessions d') = map se_refresh_token_hash (t_sessions d @ [new])"
    "map se_id (t_sessions d') = map se_id (t_sessions d @ [new])"
    unfolding d' by (rule map_update_where, use f in simp)+
  show wf': "sessions_wf d'"
    using wf new unfolding sessions_wf_def keys by (auto simp: image_iff)
  have "f s \<in> set (t_sessions d')"
    unfolding d' set_update_where using s by (intro image_eqI [of _ _ s]) auto
  then show "one_or_none (\<lambda>x. se_refresh_token_hash x = se_refresh_token_hash s) (t_sessions d') = Some (f s)"
    using one_or_none_key [of se_refresh_token_hash "t_sessions d'" "f s"] wf' f by (simp add: sessions_wf_def)
  have "se_id new \<noteq> se_id s" using new s(1) by metis
  then have "new \<in> set (t_sessions d')"
    unfolding d' set_update_where by (intro image_eqI [of _ _ new]) auto
  then show "one_or_none (\<lambda>x. se_id x = se_id new) (t_sessions d') = Some new"
    using one_or_none_key [of se_id "t_sessions d'" new] wf' by (simp add: sessions_wf_def)
qed

lemma replay_revokes:
  assumes "refresh_hash (au_hmac cfg) tok = Inr hash"
    and "one_or_none (\<lambda>s. se_refresh_token_hash s = hash) (t_sessions d) = Some s"
    and "one_or_none (\<lambda>u. us_id u = se_user_id s) (t_users d) = Some u"
    and "verify_csrf_secret (au_hmac cfg) c h (se_csrf_secret_hash s) = Inr ()"
    and "se_revoked_at s \<noteq> None" "se_rotated_at s \<noteq> None"
  shows "rotate cfg rb cb tok c h now d = Inr (Inl invalid_credentials,
    d\<lparr>t_sessions := update_where (\<lambda>x. se_family_id x = se_family_id s)
      (revoke ''refresh_replay'' now) (t_sessions d)\<rparr>)"
  unfolding rotate_def find_refresh_session_def revoke_family_def update_sessions_def with_user_def tx_step
    assms(1-4) by (simp add: assms(2-6) tx_step return_run)

lemma revoke_simps [simp]:
  "\<exists>t. se_revoked_at (revoke r now s) = Some t" "se_family_id (revoke r now s) = se_family_id s"
  "se_id (revoke r now s) = se_id s" "se_user_id (revoke r now s) = se_user_id s"
  by (cases "se_revoked_at s"; simp add: revoke_def)+

lemma not_active_revoked [simp]: "\<not> active_session t (revoke r now s)"
  using revoke_simps(1) [of r now s] by (auto simp: active_session_def)

lemma revoked_where:
  fixes i :: 'k
  assumes "\<And>x. k (revoke r now x) = k x"
  shows "\<forall>x \<in> set (update_where (\<lambda>x. k x = i) (revoke r now) xs). k x = i \<longrightarrow> se_revoked_at x \<noteq> None"
proof
  fix x assume "x \<in> set (update_where (\<lambda>x. k x = i) (revoke r now) xs)"
  then obtain p where "x = (if k p = i then revoke r now p else p)" by (rule in_update_where)
  then show "k x = i \<longrightarrow> se_revoked_at x \<noteq> None"
    using assms revoke_simps(1) [of r now p] by (cases "k p = i") auto
qed

lemma find_in_updated:
  assumes "\<And>x. se_id (f x) = se_id x"
  shows "one_or_none (\<lambda>x. se_id x = i \<and> Q x) (update_where P f xs) = None \<longleftrightarrow>
    (\<forall>x \<in> set xs. se_id x = i \<longrightarrow> \<not> Q (if P x then f x else x))"
  using assms by (auto simp: one_or_none_None set_update_where)

text \<open>C10. Detection of stolen refresh tokens. A rotation replaces the session by a live one of the same
  family. Presenting the old refresh token again, at any later time, is refused, and the refusal is
  committed with the revocation of the whole family: the replacement is dead as well.\<close>

theorem refresh_reuse_revokes_family:
  assumes first: "rotate cfg rb cb tok c h now d = Inr (Inr b, d1)" and wf: "sessions_wf d"
  shows "find_active_session (ap_session_id (bn_principal b)) now d1 \<noteq> Inr (None, d1)
    \<and> (\<exists>d2 family. rotate cfg rb' cb' tok c h later d1 = Inr (Inl invalid_credentials, d2)
      \<and> (\<exists>s \<in> set (t_sessions d1). se_id s = ap_session_id (bn_principal b) \<and> se_family_id s = family)
      \<and> (\<forall>x \<in> set (t_sessions d2). se_family_id x = family \<longrightarrow> se_revoked_at x \<noteq> None)
      \<and> (\<forall>t. find_active_session (ap_session_id (bn_principal b)) t d2 = Inr (None, d2)))"
  using first
proof (cases rule: rotate_cases)
  case (rotated hash s u b' new)
  let ?f = "\<lambda>x. x\<lparr>se_rotated_at := Some now, se_revoked_at := Some now, se_revoke_reason := Some ''rotated'',
            se_replaced_by_session_id := Some (se_id new)\<rparr>"
  let ?d2 = "d1\<lparr>t_sessions := update_where (\<lambda>x. se_family_id x = se_family_id s)
      (revoke ''refresh_replay'' later) (t_sessions d1)\<rparr>"
  have s: "s \<in> set (t_sessions d)" "se_refresh_token_hash s = hash"
    using one_or_none_Some [OF rotated(2)] by auto
  have id: "ap_session_id (bn_principal b) = se_id new" using rotated(8,9) by (simp add: principal_for_def)
  have fs: "one_or_none (\<lambda>x. se_refresh_token_hash x = hash) (t_sessions d1) = Some (?f s)"
    and n: "one_or_none (\<lambda>x. se_id x = se_id new) (t_sessions d1) = Some new" and wf1: "sessions_wf d1"
    using rotated_row [OF wf s(1) rotated(5,14,16)] by (simp_all add: s(2))
  have again: "rotate cfg rb' cb' tok c h later d1 = Inr (Inl invalid_credentials, ?d2)"
    using replay_revokes [OF rotated(1) fs] rotated(3,4,15) by simp
  have only: "x = new" if "x \<in> set (t_sessions d1)" "se_id x = se_id new" for x
    using distinct_key_eq [of se_id "t_sessions d1" x new] that one_or_none_Some [OF n] wf1
    by (auto simp: sessions_wf_def)
  have live: "one_or_none (\<lambda>x. se_id x = se_id new \<and> active_session now x) (t_sessions d1) = Some new"
    by (rule one_or_none_unique)
       (use one_or_none_Some [OF n] rotated(12,13) only in \<open>auto simp: active_session_def days_def\<close>)
  have "find_active_session (se_id new) now d1 \<noteq> Inr (None, d1)"
    using live rotated(3,11,15) by (simp add: find_active_session_def tx_query_def with_user_def)
  moreover have "find_active_session (se_id new) t ?d2 = Inr (None, ?d2)" for t
  proof -
    have "one_or_none (\<lambda>x. se_id x = se_id new \<and> active_session t x) (t_sessions ?d2) = None"
      using only rotated(10) by (auto simp: find_in_updated)
    then show ?thesis by (simp add: find_active_session_def tx_query_def with_user_def)
  qed
  ultimately show ?thesis
    using again revoked_where [of se_family_id] one_or_none_Some [OF n] rotated(10) unfolding id
    by (intro conjI exI [of _ ?d2] exI [of _ "se_family_id s"]) auto
qed simp

subsection \<open>Example accounts\<close>

definition example_hmac :: "string \<Rightarrow> string" where
  "example_hmac m = m @ replicate 32 (CHR ''m'')"

definition example_auth :: auth_config where
  "example_auth = \<lparr>au_hmac = example_hmac,
     au_passwords = \<lparr>pw_sha256_hex = id, pw_denied = [], pw_argon2 = (\<lambda>p. ''$argon2id$'' @ p),
       pw_argon2_verify = (\<lambda>h p. h = ''$argon2id$'' @ p), pw_validate_email = Some\<rparr>,
     au_terms = ''v1'', au_privacy = ''v1''\<rparr>"

definition example_bytes :: "char \<Rightarrow> string" where
  "example_bytes c = replicate 32 c"

definition example_session :: session_row where
  "example_session = \<lparr>se_id = example_id 70, se_user_id = example_id 1, se_family_id = example_id 71,
     se_refresh_token_hash = example_hmac (''talaqi:refresh:v2'' @ nul # example_bytes CHR ''a''),
     se_csrf_secret_hash = example_hmac (''talaqi:csrf:v2'' @ nul # ''secret''), se_expires_at = 1000,
     se_revoked_at = None, se_revoke_reason = None, se_last_used_at = None, se_rotated_at = None,
     se_replaced_by_session_id = None, se_created_at = 0\<rparr>"

definition example_account_db :: db where
  "example_account_db = (empty_db example_entropy example_clock)\<lparr>
     t_users := [(example_user 1)\<lparr>us_email := ''one@x'', us_password_hash := ''$argon2id$correct horse''\<rparr>,
       (example_user 2)\<lparr>us_email := ''two@x'', us_password_hash := ''$argon2id$other''\<rparr>],
     t_sessions := [example_session]\<rparr>"

lemma example_credentials:
  "issue_credentials example_hmac (example_bytes CHR ''c'') (example_bytes CHR ''d'') =
     Inr \<lparr>sc_refresh_token = issue_secret (example_bytes CHR ''c''),
       sc_csrf_secret = issue_secret (example_bytes CHR ''d''),
       sc_refresh_hash = example_hmac (''talaqi:refresh:v2'' @ nul # example_bytes CHR ''c''),
       sc_csrf_hash = csrf_hash example_hmac (issue_secret (example_bytes CHR ''d''))\<rparr>"
  unfolding issue_credentials_def Let_def by (subst refresh_hash_issued) (simp_all add: example_bytes_def res_bind_def)

definition new_session :: "uuid \<Rightarrow> session_row \<Rightarrow> session_credentials \<Rightarrow> instant \<Rightarrow> instant \<Rightarrow> session_row" where
  "new_session i s cr expires created = \<lparr>se_id = i, se_user_id = se_user_id s, se_family_id = se_family_id s,
     se_refresh_token_hash = sc_refresh_hash cr, se_csrf_secret_hash = sc_csrf_hash cr,
     se_expires_at = expires, se_revoked_at = None, se_revoke_reason = None,
     se_last_used_at = None, se_rotated_at = None, se_replaced_by_session_id = None,
     se_created_at = created\<rparr>"

lemma rotate_live:
  assumes h: "refresh_hash (au_hmac cfg) tok = Inr hash"
    and f: "with_user d (one_or_none (\<lambda>s. se_refresh_token_hash s = hash) (t_sessions d)) = Some (s, u)"
    and c: "verify_csrf_secret (au_hmac cfg) ck hdr (se_csrf_secret_hash s) = Inr ()"
    and live: "se_revoked_at s = None" "now < se_expires_at s" "us_status u = UserActive"
    and cr: "issue_credentials (au_hmac cfg) rb cb = Inr cr"
    and e: "fresh_uuid d = Inr (i, d1)"
    and ok: "first_violation (session_checks (d1\<lparr>clock_pos := Suc (clock_pos d1)\<rparr>)
      (new_session i s cr (refresh_expiry now) (clock_at d1 (clock_pos d1)))) = None"
  shows "\<exists>b d'. rotate cfg rb cb tok ck hdr now d = Inr (Inr b, d')"
proof -
  have "\<exists>x d'. create_session i (se_user_id s) (se_family_id s) (sc_refresh_hash cr) (sc_csrf_hash cr)
      (refresh_expiry now) d1 = Inr (x, d')"
    using ok by (auto simp: create_session_def tx_simps new_session_def Let_def)
  then obtain d' where "rotate_session s i (sc_refresh_hash cr) (sc_csrf_hash cr) (refresh_expiry now) now d1
      = Inr ((), d')"
    by (auto simp: rotate_session_def update_sessions_def tx_simps)
  then show ?thesis
    unfolding rotate_def find_refresh_session_def h tx_step f option.case prod.case c cr
    using live by (simp add: guard_step tx_step bind_step [where m = fresh_uuid, OF e] bind_step return_run)
qed

lemma example_rotation:
  obtains b d1 where "rotate example_auth (example_bytes CHR ''c'') (example_bytes CHR ''d'')
     (issue_secret (example_bytes CHR ''a'')) (Some ''secret'') (Some ''secret'') 20 example_account_db
       = Inr (Inr b, d1)"
proof -
  let ?u = "(example_user 1)\<lparr>us_email := ''one@x'', us_password_hash := ''$argon2id$correct horse''\<rparr>"
  have h: "refresh_hash (au_hmac example_auth) (issue_secret (example_bytes CHR ''a''))
      = Inr (se_refresh_token_hash example_session)"
    by (simp add: example_auth_def refresh_hash_issued example_bytes_def example_session_def)
  have f: "with_user example_account_db (one_or_none (\<lambda>s. se_refresh_token_hash s = se_refresh_token_hash example_session)
      (t_sessions example_account_db)) = Some (example_session, ?u)"
    by code_simp
  have c: "verify_csrf_secret (au_hmac example_auth) (Some ''secret'') (Some ''secret'')
      (se_csrf_secret_hash example_session) = Inr ()" by code_simp
  have s: "se_revoked_at example_session = None" "20 < se_expires_at example_session" "us_status ?u = UserActive"
    by (simp_all add: example_session_def example_user_def)
  have e: "fresh_uuid example_account_db = Inr (example_id 100, example_account_db\<lparr>entropy_pos := 1\<rparr>)"
  proof -
    have "uuid_at example_account_db 0 = Some (example_id 100)" "entropy_pos example_account_db = 0"
      by code_simp+
    then show ?thesis by (simp add: fresh_uuid_eq)
  qed
  have cr: "issue_credentials (au_hmac example_auth) (example_bytes CHR ''c'') (example_bytes CHR ''d'')
    = issue_credentials example_hmac (example_bytes CHR ''c'') (example_bytes CHR ''d'')"
    by (simp add: example_auth_def)
  have "32 \<le> length (example_hmac m)" for m by (simp add: example_hmac_def)
  moreover have "se_id example_session \<noteq> example_id 100"
    "se_refresh_token_hash example_session \<noteq> example_hmac (''talaqi:refresh:v2'' @ nul # example_bytes CHR ''c'')"
    "us_id ?u = se_user_id example_session"
    by (simp_all add: example_session_def example_id_def example_hmac_def example_bytes_def example_user_def)
  ultimately show thesis
    using that rotate_live [OF h f c s cr [unfolded example_credentials] e]
    by (simp add: session_checks_def new_session_def example_account_db_def csrf_hash_def row_exists_iff) blast
qed

theorem refresh_reuse_revokes_family_witness:
  "\<exists>b d1 d2. rotate example_auth (example_bytes CHR ''c'') (example_bytes CHR ''d'')
     (issue_secret (example_bytes CHR ''a'')) (Some ''secret'') (Some ''secret'') 20 example_account_db
       = Inr (Inr b, d1)
    \<and> rotate example_auth (example_bytes CHR ''e'') (example_bytes CHR ''f'')
     (issue_secret (example_bytes CHR ''a'')) (Some ''secret'') (Some ''secret'') 30 d1
       = Inr (Inl invalid_credentials, d2)
    \<and> find_active_session (ap_session_id (bn_principal b)) 30 d2 = Inr (None, d2)"
proof -
  obtain b d1 where r: "rotate example_auth (example_bytes CHR ''c'') (example_bytes CHR ''d'')
     (issue_secret (example_bytes CHR ''a'')) (Some ''secret'') (Some ''secret'') 20 example_account_db
       = Inr (Inr b, d1)" by (rule example_rotation)
  have "sessions_wf example_account_db" by (simp add: sessions_wf_def example_account_db_def)
  from refresh_reuse_revokes_family [OF r this] r show ?thesis by blast
qed

end
