(* ===== verification/Account_Laws.thy ===== *)
theory Account_Laws
  imports Session_Laws
begin

section \<open>Recovery tokens and logins\<close>

subsection \<open>Recovery tokens\<close>

lemma consume_cases:
  assumes "consume_recovery_token cfg token kind now d = Inr (u, d')"
  obtains i t where "verify_token (au_hmac cfg) token kind = Inr i"
    "one_or_none (\<lambda>t. at_id t = i) (t_auth_tokens d) = Some t"
    "one_or_none (\<lambda>u. us_id u = at_user_id t) (t_users d) = Some u"
    "at_kind t = kind" "at_used_at t = None" "now < at_expires_at t" "us_status u = UserActive"
    "at_token_hash t = stored_token_hash (au_hmac cfg) token"
    "d' = d\<lparr>t_auth_tokens := update_where (\<lambda>t. at_id t = i) (\<lambda>t. t\<lparr>at_used_at := Some now\<rparr>)
       (t_auth_tokens d)\<rparr>"
proof -
  obtain i where i: "verify_token (au_hmac cfg) token kind = Inr i"
    and rest: "tx_bind (lock_auth_token i) (\<lambda>found. case found of
       None \<Rightarrow> tx_raise invalid_recovery_token
     | Some (t, u) \<Rightarrow>
         tx_bind (tx_guard (at_kind t = kind \<and> at_used_at t = None \<and> now < at_expires_at t
           \<and> us_status u = UserActive \<and> at_token_hash t = stored_token_hash (au_hmac cfg) token)
           invalid_recovery_token) (\<lambda>_.
         tx_bind (mark_auth_token_used (at_id t) now) (\<lambda>_.
         tx_return u))) d = Inr (u, d')"
    using assms unfolding consume_recovery_token_def by (rule tx_bindE) (auto simp: tx_lift_eq)
  from rest obtain t where t: "one_or_none (\<lambda>t. at_id t = i) (t_auth_tokens d) = Some t"
    "one_or_none (\<lambda>u. us_id u = at_user_id t) (t_users d) = Some u"
    "at_kind t = kind" "at_used_at t = None" "now < at_expires_at t" "us_status u = UserActive"
    "at_token_hash t = stored_token_hash (au_hmac cfg) token"
    "d' = d\<lparr>t_auth_tokens := update_where (\<lambda>x. at_id x = at_id t) (\<lambda>t. t\<lparr>at_used_at := Some now\<rparr>)
       (t_auth_tokens d)\<rparr>"
    unfolding lock_auth_token_def query_step mark_auth_token_used_def
    by (auto simp: tx_bind_eq tx_guard_eq tx_modify_eq tx_return_eq tx_raise_eq bind_eq_Some_conv
        split: option.splits prod.splits)
  have "at_id t = i" using one_or_none_Some [OF t(1)] by simp
  then show thesis using that [OF i t(1-7)] t(8) by simp
qed

lemma used_token_refused:
  assumes "verify_token (au_hmac cfg) token kind = Inr i"
    and "\<And>t. one_or_none (\<lambda>t. at_id t = i) (t_auth_tokens d) = Some t \<Longrightarrow> at_used_at t \<noteq> None"
  shows "consume_recovery_token cfg token kind now d = Inl invalid_recovery_token"
proof (cases "Option.bind (one_or_none (\<lambda>t. at_id t = i) (t_auth_tokens d)) (\<lambda>t.
       map_option (\<lambda>u. (t, u)) (one_or_none (\<lambda>u. us_id u = at_user_id t) (t_users d)))")
  case None
  then show ?thesis
    unfolding consume_recovery_token_def assms(1) lock_auth_token_def tx_step by (simp add: tx_raise_def)
next
  case (Some tu)
  obtain t u where tu: "tu = (t, u)" by (cases tu)
  then have "one_or_none (\<lambda>t. at_id t = i) (t_auth_tokens d) = Some t"
    using Some by (auto simp: bind_eq_Some_conv)
  then have "at_used_at t \<noteq> None" by (rule assms(2))
  then show ?thesis
    unfolding consume_recovery_token_def assms(1) lock_auth_token_def tx_step Some tu option.case prod.case
    by (intro guard_step(2)) simp
qed

lemma used_row:
  assumes "one_or_none (\<lambda>t. at_id t = i) (update_where (\<lambda>t. at_id t = i) (\<lambda>t. t\<lparr>at_used_at := Some now\<rparr>) ts) = Some t"
  shows "at_used_at t = Some now"
proof -
  have t: "t \<in> set (update_where (\<lambda>t. at_id t = i) (\<lambda>t. t\<lparr>at_used_at := Some now\<rparr>) ts)" "at_id t = i"
    using one_or_none_Some [OF assms] by blast+
  from t(1) obtain p where "t = (if at_id p = i then p\<lparr>at_used_at := Some now\<rparr> else p)" by (rule in_update_where)
  then show ?thesis using t(2) by (cases "at_id p = i") simp_all
qed

text \<open>C31. A password reset needs a live token: the one issued for this purpose to an active account, not
  expired and not used. It uses the token up (the same link is refused afterwards), changes the
  password of that account only, and ends every session of the account.\<close>

theorem password_reset_is_single_use:
  assumes "confirm_password_reset cfg token password now d = Inr (u, d')"
  shows "\<exists>t i. verify_token (au_hmac cfg) token PasswordReset = Inr i
    \<and> t \<in> set (t_auth_tokens d) \<and> at_id t = i \<and> at_kind t = PasswordReset \<and> at_used_at t = None
    \<and> now < at_expires_at t \<and> at_token_hash t = stored_token_hash (au_hmac cfg) token
    \<and> confirm_password_reset cfg token password' later d' = Inl invalid_recovery_token
    \<and> (\<forall>s \<in> set (t_sessions d'). se_user_id s = at_user_id t \<longrightarrow> se_revoked_at s \<noteq> None)
    \<and> t_users d' = update_where (\<lambda>x. us_id x = at_user_id t)
        (\<lambda>x. x\<lparr>us_password_hash := pw_argon2 (au_passwords cfg) password\<rparr>) (t_users d)
    \<and> 12 \<le> length password"
proof -
  obtain usr d1 enc where c: "consume_recovery_token cfg token PasswordReset now d = Inr (usr, d1)"
    and enc: "hash_password (au_passwords cfg) password = Inr enc"
    and d': "d' = d1\<lparr>t_users := update_where (\<lambda>x. us_id x = us_id usr) (\<lambda>x. x\<lparr>us_password_hash := enc\<rparr>)
        (t_users d1),
      t_sessions := update_where (\<lambda>s. se_user_id s = us_id usr) (revoke ''password_reset'' now) (t_sessions d1)\<rparr>"
    using assms unfolding confirm_password_reset_def
    by (elim tx_bindE) (auto simp: tx_lift_eq replace_password_def update_users_def revoke_all_sessions_def
        update_sessions_def tx_bind_eq tx_query_eq tx_modify_eq check_constraints_eq)
  from c obtain i t where t: "verify_token (au_hmac cfg) token PasswordReset = Inr i"
    "one_or_none (\<lambda>t. at_id t = i) (t_auth_tokens d) = Some t"
    "one_or_none (\<lambda>u. us_id u = at_user_id t) (t_users d) = Some usr"
    "at_kind t = PasswordReset" "at_used_at t = None" "now < at_expires_at t"
    "at_token_hash t = stored_token_hash (au_hmac cfg) token"
    "d1 = d\<lparr>t_auth_tokens := update_where (\<lambda>t. at_id t = i) (\<lambda>t. t\<lparr>at_used_at := Some now\<rparr>)
       (t_auth_tokens d)\<rparr>" by (rule consume_cases)
  have id: "us_id usr = at_user_id t" using one_or_none_Some [OF t(3)] by simp
  have "consume_recovery_token cfg token PasswordReset later d' = Inl invalid_recovery_token"
    by (rule used_token_refused [OF t(1)]) (simp add: d' t(8) used_row)
  then have "confirm_password_reset cfg token password' later d' = Inl invalid_recovery_token"
    unfolding confirm_password_reset_def by (rule bind_fails)
  moreover have "\<forall>s \<in> set (t_sessions d'). se_user_id s = at_user_id t \<longrightarrow> se_revoked_at s \<noteq> None"
    unfolding d' id by (simp add: revoked_where [of se_user_id])
  moreover have "enc = pw_argon2 (au_passwords cfg) password" "12 \<le> length password"
    using enc by (auto simp: hash_password_def validate_password_def res_simps)
  ultimately show ?thesis
    using one_or_none_Some [OF t(2)] t by (intro exI [of _ t] exI [of _ i]) (simp add: d' id)
qed

lemma consume_live:
  assumes "verify_token (au_hmac cfg) token kind = Inr i"
    and "one_or_none (\<lambda>t. at_id t = i) (t_auth_tokens d) = Some t"
    and "one_or_none (\<lambda>u. us_id u = at_user_id t) (t_users d) = Some u"
    and "at_kind t = kind \<and> at_used_at t = None \<and> now < at_expires_at t \<and> us_status u = UserActive
      \<and> at_token_hash t = stored_token_hash (au_hmac cfg) token"
  shows "\<exists>d'. consume_recovery_token cfg token kind now d = Inr (u, d') \<and> t_users d' = t_users d"
proof -
  have f: "Option.bind (one_or_none (\<lambda>t. at_id t = i) (t_auth_tokens d)) (\<lambda>t.
       map_option (\<lambda>u. (t, u)) (one_or_none (\<lambda>u. us_id u = at_user_id t) (t_users d))) = Some (t, u)"
    using assms(2,3) by simp
  show ?thesis
    unfolding consume_recovery_token_def assms(1) lock_auth_token_def tx_step f option.case prod.case
      guard_step(1) [OF assms(4)] mark_auth_token_used_def by (simp add: return_run)
qed

definition example_token :: auth_token_row where
  "example_token = \<lparr>at_id = example_id 80, at_user_id = example_id 1, at_kind = PasswordReset,
     at_token_hash = stored_token_hash example_hmac (public_token example_hmac (example_id 80) PasswordReset),
     at_expires_at = 1000, at_used_at = None, at_created_at = 0\<rparr>"

definition example_recovery_db :: db where
  "example_recovery_db = example_account_db\<lparr>t_auth_tokens := [example_token]\<rparr>"

theorem password_reset_is_single_use_witness:
  "\<exists>d'. confirm_password_reset example_auth (public_token example_hmac (example_id 80) PasswordReset)
      ''a longer password'' 20 example_recovery_db = Inr ((), d')
    \<and> confirm_password_reset example_auth (public_token example_hmac (example_id 80) PasswordReset)
      ''a longer password'' 30 d' = Inl invalid_recovery_token
    \<and> (\<forall>s \<in> set (t_sessions d'). se_user_id s = example_id 1 \<longrightarrow> se_revoked_at s \<noteq> None)"
proof -
  let ?u = "(example_user 1)\<lparr>us_email := ''one@x'', us_password_hash := ''$argon2id$correct horse''\<rparr>"
  let ?token = "public_token example_hmac (example_id 80) PasswordReset"
  have h [simp]: "au_hmac example_auth = example_hmac" by (simp add: example_auth_def)
  have v: "verify_token (au_hmac example_auth) ?token PasswordReset = Inr (example_id 80)"
    by (simp add: verify_public_token)
  have t: "one_or_none (\<lambda>t. at_id t = example_id 80) (t_auth_tokens example_recovery_db) = Some example_token"
    "one_or_none (\<lambda>u. us_id u = at_user_id example_token) (t_users example_recovery_db) = Some ?u"
    by (simp_all add: example_recovery_db_def example_token_def example_account_db_def example_user_def one_or_none_def)
  have "\<exists>d'. consume_recovery_token example_auth ?token PasswordReset 20 example_recovery_db = Inr (?u, d')
      \<and> t_users d' = t_users example_recovery_db"
    by (rule consume_live [OF v t]) (simp add: example_token_def example_user_def)
  then obtain d1 where c: "consume_recovery_token example_auth ?token PasswordReset 20 example_recovery_db = Inr (?u, d1)"
    by blast
  have "hash_password (au_passwords example_auth) ''a longer password'' = Inr ''$argon2id$a longer password''"
    by code_simp
  then have "\<exists>d'. confirm_password_reset example_auth ?token ''a longer password'' 20 example_recovery_db = Inr ((), d')"
    unfolding confirm_password_reset_def bind_step [where m = "consume_recovery_token _ _ _ _", OF c]
    by (simp add: tx_simps replace_password_def argon2_prefix_def update_users_def revoke_all_sessions_def
        update_sessions_def)
  then obtain d' where r: "confirm_password_reset example_auth ?token ''a longer password'' 20 example_recovery_db = Inr ((), d')"
    by blast
  from password_reset_is_single_use [OF r] v show ?thesis
    using r by (fastforce simp: example_recovery_db_def example_token_def)
qed

subsection \<open>Logins\<close>

lemma login_cases:
  assumes "login cfg rb cb identifier password now d = Inr (b, d')"
  obtains n u cr s where "normalize_login_identifier (au_passwords cfg) identifier = Some n"
    "find_for_login n d = Inr (Some u, d)"
    "pw_argon2_verify (au_passwords cfg) (us_password_hash u) password"
    "us_status u = UserActive" "\<not> locked_at now u"
    "issue_credentials (au_hmac cfg) rb cb = Inr cr" "bn_credentials b = cr"
    "bn_principal b = principal_for u (se_id s)"
    "se_user_id s = us_id u" "se_revoked_at s = None" "se_expires_at s = now + days 30"
    "se_refresh_token_hash s = sc_refresh_hash cr" "se_csrf_secret_hash s = sc_csrf_hash cr"
    "\<forall>x \<in> set (t_sessions d). se_id x \<noteq> se_id s \<and> se_refresh_token_hash x \<noteq> se_refresh_token_hash s"
    "t_sessions d' = t_sessions d @ [s]"
    "t_users d' = update_where (\<lambda>x. us_id x = us_id u)
       (\<lambda>x. x\<lparr>us_failed_login_count := 0, us_locked_until := None\<rparr>) (t_users d)"
    "bn_access_cookie b = encode_access (au_hmac cfg)
       \<lparr>ac_session_id = se_id s, ac_user_id = us_id u, ac_issued_at = now\<rparr>"
proof -
  obtain n u where n: "normalize_login_identifier (au_passwords cfg) identifier = Some n"
    "find_for_login n d = Inr (Some u, d)"
    and rest: "(let verified = pw_argon2_verify (au_passwords cfg) (us_password_hash u) password;
             unavailable = us_status u \<noteq> UserActive \<or> locked_at now u in
         if unavailable \<or> \<not> verified
         then tx_bind (if us_status u = UserActive \<and> \<not> unavailable
             then tx_bind (record_failed_login (us_id u) now) (\<lambda>_. tx_return ()) else tx_return ()) (\<lambda>_.
           tx_raise invalid_credentials)
         else
           tx_bind (clear_failed_login (us_id u)) (\<lambda>_.
           tx_bind fresh_uuid (\<lambda>session_id.
           tx_bind (tx_lift (issue_credentials (au_hmac cfg) rb cb)) (\<lambda>credentials.
           tx_bind fresh_uuid (\<lambda>family_id.
           tx_bind (create_session session_id (us_id u) family_id (sc_refresh_hash credentials)
             (sc_csrf_hash credentials) (now + days 30)) (\<lambda>session.
           tx_return \<lparr>bn_principal = principal_for u (se_id session),
             bn_access_cookie = encode_access (au_hmac cfg) \<lparr>ac_session_id = se_id session,
               ac_user_id = us_id u, ac_issued_at = now\<rparr>,
             bn_credentials = credentials\<rparr>)))))) d = Inr (b, d')"
    using assms unfolding login_def
    by (rule tx_bindE) (auto simp: tx_return_eq tx_raise_eq find_for_login_def tx_query_eq split: option.splits)
  have ok: "pw_argon2_verify (au_passwords cfg) (us_password_hash u) password"
    "us_status u = UserActive" "\<not> locked_at now u"
    using rest by (auto simp: Let_def tx_bind_eq tx_raise_eq split: if_splits)
  obtain cr i f d2 d3 s where c: "clear_failed_login (us_id u) d = Inr ((), d2)"
    "issue_credentials (au_hmac cfg) rb cb = Inr cr"
    "d3 = d2\<lparr>entropy_pos := Suc (Suc (entropy_pos d2))\<rparr>"
    "create_session i (us_id u) f (sc_refresh_hash cr) (sc_csrf_hash cr) (now + days 30) d3 = Inr (s, d')"
    "bn_credentials b = cr" "bn_principal b = principal_for u (se_id s)"
    "bn_access_cookie b = encode_access (au_hmac cfg)
       \<lparr>ac_session_id = se_id s, ac_user_id = us_id u, ac_issued_at = now\<rparr>"
    using rest ok by (auto simp: tx_bind_eq tx_lift_eq fresh_uuid_eq tx_return_eq)
  have d2: "d2 = d\<lparr>t_users := update_where (\<lambda>x. us_id x = us_id u)
       (\<lambda>x. x\<lparr>us_failed_login_count := 0, us_locked_until := None\<rparr>) (t_users d)\<rparr>"
    using c(1) by (simp add: clear_failed_login_def update_users_def tx_modify_eq)
  note e = create_session_effect [OF c(4)]
  show thesis
    by (rule that [OF n ok c(2,5,6)]) (use e c(3,7) d2 in simp_all)
qed

lemma issued_is_ascii: "is_ascii (issue_secret random)"
proof -
  let ?chars = "''ABCDEFGHIJKLMNOPQRSTUVWXYZabcdefghijklmnopqrstuvwxyz0123456789-_''"
  have "is_ascii ?chars" by (simp add: is_ascii_def)
  moreover have "b64_char (int n) \<in> set ?chars" if "n < 64" for n
    unfolding b64_char_def by (rule nth_mem) (use that in simp)
  ultimately have "(of_char (b64_char (int n)) :: nat) < 128" if "n < 64" for n
    using that unfolding is_ascii_def list_all_iff by blast
  then show ?thesis
    using sextets_bound [of "map of_char random"]
    by (auto simp: is_ascii_def issue_secret_def b64_encode_def list_all_iff)
qed

text \<open>C30. A login succeeds only for an active account that is not locked, with a password that
  verifies. It opens one session, which is found at an instant exactly when that is before the end of
  the 30 days; the access cookie names this session and the account, the CSRF secret it hands out
  passes the check against the stored hash, and the account's failures are forgotten.\<close>

theorem login_opens_a_live_session:
  assumes "login cfg rb cb identifier password now d = Inr (b, d')"
    and ids: "distinct (map us_id (t_users d))"
  shows "\<exists>u s. u \<in> set (t_users d) \<and> us_id u = sb_user_id (bn_principal b)
    \<and> us_status u = UserActive \<and> \<not> locked_at now u
    \<and> pw_argon2_verify (au_passwords cfg) (us_password_hash u) password
    \<and> t_sessions d' = t_sessions d @ [s] \<and> se_id s = ap_session_id (bn_principal b)
    \<and> bn_access_cookie b = encode_access (au_hmac cfg)
          \<lparr>ac_session_id = se_id s, ac_user_id = us_id u, ac_issued_at = now\<rparr>
    \<and> (\<forall>t. find_active_session (se_id s) t d' = Inr (if t < now + days 30
          then Some (s, u\<lparr>us_failed_login_count := 0, us_locked_until := None\<rparr>) else None, d'))
    \<and> verify_csrf_secret (au_hmac cfg) (Some (sc_csrf_secret (bn_credentials b)))
          (Some (sc_csrf_secret (bn_credentials b))) (se_csrf_secret_hash s) = Inr ()"
  using assms(1)
proof (cases rule: login_cases)
  case (1 n u cr s)
  have u: "u \<in> set (t_users d)" using 1(2) by (auto simp: find_for_login_def tx_query_eq dest!: sym [of "Some u"] one_or_none_Some)
  let ?f = "\<lambda>x. x\<lparr>us_failed_login_count := 0, us_locked_until := None\<rparr>"
  have keys: "map us_id (t_users d') = map us_id (t_users d)"
    unfolding 1(16) by (rule map_update_where) simp
  have "?f u \<in> set (t_users d')" unfolding 1(16) set_update_where using u by (intro image_eqI [of _ _ u]) auto
  then have user: "one_or_none (\<lambda>x. us_id x = us_id u) (t_users d') = Some (?f u)"
    using one_or_none_key [of us_id "t_users d'" "?f u"] ids keys by simp
  have live: "one_or_none (\<lambda>x. se_id x = se_id s \<and> active_session t x) (t_sessions d') = Some s"
    if "t < now + days 30" for t
    by (rule one_or_none_unique) (use 1(10,11,14,15) that in \<open>auto simp: active_session_def\<close>)
  have over: "one_or_none (\<lambda>x. se_id x = se_id s \<and> active_session t x) (t_sessions d') = None"
    if "\<not> t < now + days 30" for t
    using 1(11,14,15) that by (auto simp: one_or_none_None active_session_def)
  have "find_active_session (se_id s) t d' = Inr (if t < now + days 30 then Some (s, ?f u) else None, d')" for t
    using live [of t] over [of t] user 1(9) by (simp add: find_active_session_def tx_query_def with_user_def)
  moreover have "se_csrf_secret_hash s = csrf_hash (au_hmac cfg) (sc_csrf_secret cr)"
    using 1(6,13) by (auto simp: issue_credentials_def Let_def res_simps)
  moreover have "is_ascii (sc_csrf_secret cr)"
    using 1(6) by (auto simp: issue_credentials_def Let_def res_simps issued_is_ascii)
  ultimately show ?thesis
    using 1(3-5,7,8,15,17) u
    by (intro exI [of _ u] exI [of _ s]) (auto simp: principal_for_def verify_csrf_secret_def)
qed

lemma login_live:
  assumes n: "normalize_login_identifier (au_passwords cfg) identifier = Some n"
    and f: "find_for_login n d = Inr (Some u, d)"
    and ok: "pw_argon2_verify (au_passwords cfg) (us_password_hash u) password"
      "us_status u = UserActive" "\<not> locked_at now u"
    and cr: "issue_credentials (au_hmac cfg) rb cb = Inr cr"
    and c: "clear_failed_login (us_id u) d = Inr ((), d1)"
    and e: "fresh_uuid d1 = Inr (i, d2)" "fresh_uuid d2 = Inr (k, d3)"
    and s: "create_session i (us_id u) k (sc_refresh_hash cr) (sc_csrf_hash cr) (now + days 30) d3 = Inr (x, d')"
  shows "\<exists>b. login cfg rb cb identifier password now d = Inr (b, d')"
  unfolding login_def n option.case bind_step [where m = "find_for_login n", OF f]
  using ok by (simp add: Let_def bind_step [where m = "clear_failed_login _", OF c] cr tx_step
      bind_step [where m = fresh_uuid, OF e(1)] bind_step [where m = fresh_uuid, OF e(2)]
      bind_step [where m = "create_session _ _ _ _ _ _", OF s] return_run)

lemma example_login:
  obtains b d' where "login example_auth (example_bytes CHR ''c'') (example_bytes CHR ''d'')
    ''one@x'' ''correct horse'' 20 example_account_db = Inr (b, d')"
proof -
  let ?u = "(example_user 1)\<lparr>us_email := ''one@x'', us_password_hash := ''$argon2id$correct horse''\<rparr>"
  let ?d1 = "example_account_db\<lparr>t_users := update_where (\<lambda>u. us_id u = us_id ?u)
     (\<lambda>u. u\<lparr>us_failed_login_count := 0, us_locked_until := None\<rparr>) (t_users example_account_db)\<rparr>"
  let ?d2 = "?d1\<lparr>entropy_pos := 1\<rparr>" and ?d3 = "?d1\<lparr>entropy_pos := 2\<rparr>"
  have n: "normalize_login_identifier (au_passwords example_auth) ''one@x'' = Some ''one@x''" by code_simp
  have "one_or_none (\<lambda>u. py_lower (us_email u) = ''one@x''
        \<or> row_exists (\<lambda>p. pr_user_id p = us_id u \<and> py_lower (pr_username p) = ''one@x'') (t_profiles example_account_db))
     (t_users example_account_db) = Some ?u" by code_simp
  then have f: "find_for_login ''one@x'' example_account_db = Inr (Some ?u, example_account_db)"
    by (simp add: find_for_login_def tx_query_def)
  have ok: "pw_argon2_verify (au_passwords example_auth) (us_password_hash ?u) ''correct horse''"
    "us_status ?u = UserActive" "\<not> locked_at 20 ?u"
    by (simp_all add: example_auth_def example_user_def locked_at_def)
  have cr: "issue_credentials (au_hmac example_auth) (example_bytes CHR ''c'') (example_bytes CHR ''d'')
    = issue_credentials example_hmac (example_bytes CHR ''c'') (example_bytes CHR ''d'')"
    by (simp add: example_auth_def)
  have c: "clear_failed_login (us_id ?u) example_account_db = Inr ((), ?d1)"
    by (simp add: clear_failed_login_def update_users_def tx_modify_def)
  have "uuid_at example_account_db 0 = Some (example_id 100)" "uuid_at example_account_db 1 = Some (example_id 101)"
    "entropy_pos example_account_db = 0" by code_simp+
  then have e: "fresh_uuid ?d1 = Inr (example_id 100, ?d2)" "fresh_uuid ?d2 = Inr (example_id 101, ?d3)"
    by (simp_all add: fresh_uuid_eq uuid_at_def)
  have len: "32 \<le> length (example_hmac m)" for m by (simp add: example_hmac_def)
  have checks: "se_id example_session \<noteq> example_id 100"
    "se_refresh_token_hash example_session \<noteq> example_hmac (''talaqi:refresh:v2'' @ nul # example_bytes CHR ''c'')"
    by (simp_all add: example_session_def example_id_def example_hmac_def example_bytes_def)
  have users: "row_exists (\<lambda>u. us_id u = us_id ?u) (t_users ?d3)"
    by (simp add: example_account_db_def row_exists_iff)
  have "\<exists>x d'. create_session (example_id 100) (us_id ?u) (example_id 101)
      (example_hmac (''talaqi:refresh:v2'' @ nul # example_bytes CHR ''c''))
      (csrf_hash example_hmac (issue_secret (example_bytes CHR ''d''))) (20 + days 30) ?d3 = Inr (x, d')"
    using len checks users by (simp add: create_session_def tx_simps Let_def session_checks_def csrf_hash_def
        example_account_db_def row_exists_iff del: One_nat_def)
  then show thesis
    using login_live [OF n f ok cr [unfolded example_credentials] c e] that by auto
qed

theorem login_opens_a_live_session_witness:
  "\<exists>b d'. login example_auth (example_bytes CHR ''c'') (example_bytes CHR ''d'')
      ''one@x'' ''correct horse'' 20 example_account_db = Inr (b, d')
    \<and> (\<exists>x. find_active_session (ap_session_id (bn_principal b)) 100 d' = Inr (Some x, d'))
    \<and> find_active_session (ap_session_id (bn_principal b)) (20 + days 30) d' = Inr (None, d')"
proof -
  obtain b d' where r: "login example_auth (example_bytes CHR ''c'') (example_bytes CHR ''d'')
      ''one@x'' ''correct horse'' 20 example_account_db = Inr (b, d')" by (rule example_login)
  have soon: "(100 :: int) < 20 + days 30" by (simp add: days_def)
  have "distinct (map us_id (t_users example_account_db))" by code_simp
  from login_opens_a_live_session [OF r this] obtain u :: user_row and s :: session_row where
    s: "se_id s = ap_session_id (bn_principal b)" and live: "\<forall>t. find_active_session (se_id s) t d' =
      Inr (if t < 20 + days 30
        then Some (s, u\<lparr>us_failed_login_count := 0, us_locked_until := None\<rparr>) else None, d')"
    by blast
  have "find_active_session (se_id s) 100 d' = Inr (Some (s, u\<lparr>us_failed_login_count := 0, us_locked_until := None\<rparr>), d')"
    "find_active_session (se_id s) (20 + days 30) d' = Inr (None, d')"
    using live soon by simp_all
  then show ?thesis using r unfolding s by blast
qed

subsection \<open>The lock after failed logins\<close>

text \<open>
  The statement of the repository counts failures and locks the account for 15 minutes at the
  fifth. \<open>login\<close> executes it and then raises \<open>invalid_credentials\<close> in the same transaction, which
  \<open>get_db_session\<close> rolls back: the count is never committed.
\<close>

lemma fifth_failure_locks:
  assumes "us_failed_login_count u = 0" "us_locked_until u = None" "length ts \<le> 5"
  shows "us_failed_login_count (fold count_failure ts u) = int (length ts)
    \<and> us_locked_until (fold count_failure ts u) = (if length ts = 5 then Some (last ts + minutes 15) else None)"
  using assms(3)
proof (induction ts rule: rev_induct)
  case Nil
  then show ?case using assms by simp
next
  case (snoc t ts)
  then show ?case by (auto simp: count_failure_def Let_def)
qed

record login_attempt =
  la_refresh_bytes :: string
  la_csrf_bytes :: string
  la_identifier :: string
  la_password :: string
  la_at :: instant

fun login_requests :: "auth_config \<Rightarrow> login_attempt list \<Rightarrow> db \<Rightarrow> db" where
  "login_requests cfg [] d = d"
| "login_requests cfg (a # as) d = login_requests cfg as (snd (request (login cfg (la_refresh_bytes a)
     (la_csrf_bytes a) (la_identifier a) (la_password a) (la_at a)) d))"

lemma request_cases:
  obtains (error) e where "request m s = (Inl e, s)" "m s = Inl e"
  | (commit) x s' where "request m s = (Inr x, s')" "m s = Inr (x, s')"
  by (cases "m s") (auto simp: request_def split: prod.splits)

lemma cleared:
  fixes d :: db
  assumes "\<forall>u \<in> set (t_users d). us_failed_login_count u = 0 \<and> us_locked_until u = None"
    and "x \<in> set (update_where P (\<lambda>x. x\<lparr>us_failed_login_count := 0, us_locked_until := None\<rparr>) (t_users d))"
  shows "us_failed_login_count x = 0 \<and> us_locked_until x = None"
proof -
  obtain p where "p \<in> set (t_users d)"
    "x = (if P p then p\<lparr>us_failed_login_count := 0, us_locked_until := None\<rparr> else p)"
    using assms(2) by (rule in_update_where)
  then show ?thesis using assms(1) by (cases "P p") simp_all
qed

text \<open>C32. The lock never engages. Whatever login requests are made, in whatever order and at whatever
  times, however many of them fail, no account gets a failed login counted or becomes locked.\<close>

theorem failed_logins_never_lock:
  assumes "\<forall>u \<in> set (t_users d). us_failed_login_count u = 0 \<and> us_locked_until u = None"
  shows "\<forall>u \<in> set (t_users (login_requests cfg attempts d)).
    us_failed_login_count u = 0 \<and> us_locked_until u = None"
  using assms
proof (induction attempts arbitrary: d)
  case (Cons a as)
  let ?m = "login cfg (la_refresh_bytes a) (la_csrf_bytes a) (la_identifier a) (la_password a) (la_at a)"
  have "\<forall>u \<in> set (t_users (snd (request ?m d))). us_failed_login_count u = 0 \<and> us_locked_until u = None"
  proof (cases rule: request_cases [of ?m d])
    case error
    then show ?thesis using Cons.prems by simp
  next
    case (commit b d')
    obtain u :: user_row where "t_users d' = update_where (\<lambda>x. us_id x = us_id u)
       (\<lambda>x. x\<lparr>us_failed_login_count := 0, us_locked_until := None\<rparr>) (t_users d)"
      using commit(2) by (rule login_cases) (rule that, assumption)
    then show ?thesis using commit(1) cleared [OF Cons.prems] by simp
  qed
  then show ?case unfolding login_requests.simps by (rule Cons.IH)
qed simp

theorem failed_logins_never_lock_witness:
  "list_all (\<lambda>u. us_failed_login_count u = 0 \<and> us_locked_until u = None)
     (t_users (login_requests example_auth (replicate 100 \<lparr>la_refresh_bytes = [], la_csrf_bytes = [],
      la_identifier = ''one@x'', la_password = ''a guess'', la_at = 20\<rparr>) example_account_db))"
proof -
  have "\<forall>u \<in> set (t_users example_account_db). us_failed_login_count u = 0 \<and> us_locked_until u = None"
    by code_simp
  then show ?thesis unfolding list_all_iff by (rule failed_logins_never_lock)
qed

end
