(* ===== verification/Club_Store.thy ===== *)
theory Club_Store
  imports Authorization Py_Text
begin

section \<open>Reading clubs (clubs/repository.py, clubs/models.py)\<close>

text \<open>
  A \<open>Club\<close> is a row of the table with the slug of its category and city and the code of its
  country joined; the checks of access read the columns both have.
\<close>

definition club_core_of :: "'c club_core_scheme \<Rightarrow> club_core" where
  "club_core_of c = club_core.truncate c"

definition club_of_row :: "db \<Rightarrow> club_row \<Rightarrow> club" where
  "club_of_row d r = club_core.extend (club_core_of r) (club.fields
     (Option.bind (cl_category_id r) (\<lambda>i. map_option ca_slug
        (one_or_none (\<lambda>c. ca_id c = i) (t_categories d))))
     (Option.bind (cl_country_id r) (\<lambda>i. map_option (\<lambda>c. py_strip (co_code c))
        (one_or_none (\<lambda>c. co_id c = i) (t_countries d))))
     (Option.bind (cl_city_id r) (\<lambda>i. map_option ci_slug
        (one_or_none (\<lambda>c. ci_id c = i) (t_cities d)))))"

definition get_club :: "uuid \<Rightarrow> club option txn" where
  "get_club club_id = tx_query (\<lambda>d. map_option (club_of_row d)
     (one_or_none (\<lambda>c. cl_id c = club_id) (t_clubs d)))"

definition get_access :: "uuid \<Rightarrow> uuid \<Rightarrow> membership_row option txn" where
  "get_access club_id user_id = tx_query (\<lambda>d.
     one_or_none (\<lambda>m. me_club_id m = club_id \<and> me_user_id m = user_id) (t_club_memberships d))"

lemma club_of_row_simps [simp]:
  "cl_id (club_of_row d r) = cl_id r" "cl_owner_user_id (club_of_row d r) = cl_owner_user_id r"
  "cl_slug (club_of_row d r) = cl_slug r" "cl_name (club_of_row d r) = cl_name r"
  "cl_description (club_of_row d r) = cl_description r"
  "cl_membership_policy (club_of_row d r) = cl_membership_policy r"
  "cl_social_links (club_of_row d r) = cl_social_links r"
  "cl_logo_media_id (club_of_row d r) = cl_logo_media_id r"
  "cl_cover_media_id (club_of_row d r) = cl_cover_media_id r"
  "cl_revision (club_of_row d r) = cl_revision r" "cl_status (club_of_row d r) = cl_status r"
  "cl_published_at (club_of_row d r) = cl_published_at r"
  "cl_suspended_at (club_of_row d r) = cl_suspended_at r"
  "cl_closed_at (club_of_row d r) = cl_closed_at r"
  by (simp_all add: club_of_row_def club_core_of_def club_core.defs club.defs)

lemma club_access_of_row [simp]:
  "is_club_manager p (club_of_row d r) m = is_club_manager p r m"
  "can_edit_club p (club_of_row d r) m = can_edit_club p r m"
  "can_manage_members p (club_of_row d r) m = can_manage_members p r m"
proof -
  show m: "is_club_manager p (club_of_row d r) m = is_club_manager p r m"
    by (cases m) (simp_all add: is_club_manager_def)
  show "can_edit_club p (club_of_row d r) m = can_edit_club p r m"
    "can_manage_members p (club_of_row d r) m = can_manage_members p r m"
    unfolding can_edit_club_def can_manage_members_def m by simp_all
qed

lemma get_club_eq [tx_simps]:
  "get_club i d = Inr (x, d') \<longleftrightarrow>
     d' = d \<and> x = map_option (club_of_row d) (one_or_none (\<lambda>c. cl_id c = i) (t_clubs d))"
  by (auto simp: get_club_def tx_simps)

lemma get_access_eq [tx_simps]:
  "get_access i u d = Inr (x, d') \<longleftrightarrow>
     d' = d \<and> x = one_or_none (\<lambda>m. me_club_id m = i \<and> me_user_id m = u) (t_club_memberships d)"
  by (auto simp: get_access_def tx_simps)

end
