(* ===== verification/Regions.thy ===== *)
theory Regions
  imports Authorization Audit_Log
begin

section \<open>Regional policy (regions/models.py, regions/repository.py, regions/service.py)\<close>

text \<open>
  A country's policy bounds what an event may offer; a profile's region is a city of an enabled
  country that is open for the beta.
\<close>

record region_policy =
  rp_country_code :: string
  rp_default_locale :: string
  rp_default_currency :: string
  rp_allowed_registration_methods :: "registration_method list"
  rp_cash_default_minutes :: int
  rp_cash_bounds :: "int \<times> int"
  rp_cancellation_default_minutes :: int
  rp_cancellation_bounds :: "int \<times> int"
  rp_club_limit :: int
  rp_independent_event_limit :: int
  rp_exact_venue_public_by_default :: bool
  rp_revision :: int

record profile_region_snapshot =
  ps_country_code :: string
  ps_city_slug :: string
  ps_default_locale :: string
  ps_default_currency :: string
  ps_time_zone :: string
  ps_country_enabled :: bool
  ps_city_enabled :: bool
  ps_beta_enabled :: bool
  ps_club_limit :: int
  ps_independent_event_limit :: int

record profile_region =
  pg_country_code :: string
  pg_city_slug :: string
  pg_supported_locales :: "string list"
  pg_default_currency :: string
  pg_time_zone :: string
  pg_club_limit :: int
  pg_independent_event_limit :: int

definition region_not_found :: py_error where
  "region_not_found = ApiError ''region_not_found'' ''errors.region_not_found'' 404"

subsection \<open>The repository\<close>

definition region_policy_of :: "country_row \<Rightarrow> policy_row \<Rightarrow> region_policy" where
  "region_policy_of c p = \<lparr>rp_country_code = co_code c, rp_default_locale = co_default_locale c,
     rp_default_currency = co_default_currency c,
     rp_allowed_registration_methods = po_allowed_registration_methods p,
     rp_cash_default_minutes = po_cash_expiry_default_minutes p,
     rp_cash_bounds = (po_cash_expiry_min_minutes p, po_cash_expiry_max_minutes p),
     rp_cancellation_default_minutes = po_cancellation_default_minutes p,
     rp_cancellation_bounds = (po_cancellation_min_minutes p, po_cancellation_max_minutes p),
     rp_club_limit = po_default_club_ownership_limit p,
     rp_independent_event_limit = po_default_active_independent_event_limit p,
     rp_exact_venue_public_by_default = po_exact_venue_public_by_default p,
     rp_revision = po_revision p\<rparr>"

definition get_policy :: "string \<Rightarrow> region_policy txn" where
  "get_policy country_code =
     tx_bind (tx_query (\<lambda>d.
       case one_or_none (\<lambda>c. co_code c = py_upper (py_strip country_code) \<and> co_enabled c) (t_countries d) of
         None \<Rightarrow> None
       | Some c \<Rightarrow> map_option (region_policy_of c)
           (one_or_none (\<lambda>p. po_country_id p = co_id c) (t_regional_policies d)))) (\<lambda>row. case row of
       None \<Rightarrow> tx_raise region_not_found
     | Some p \<Rightarrow> tx_return p)"

text \<open>
  \<open>UPDATE ... FROM countries WHERE code, revision ... RETURNING\<close>: the safe controls of one
  policy, if it still has the revision.
\<close>

definition update_safe_policy_controls ::
  "string \<Rightarrow> int \<Rightarrow> int \<Rightarrow> int \<Rightarrow> bool \<Rightarrow> region_policy option txn" where
  "update_safe_policy_controls country_code expected_revision club_limit event_limit venue_default =
     tx_bind (tx_query id) (\<lambda>d.
     case one_or_none (\<lambda>c. co_code c = py_upper (py_strip country_code) \<and> co_enabled c) (t_countries d) of
       None \<Rightarrow> tx_return None
     | Some c \<Rightarrow>
         let P = (\<lambda>p. po_country_id p = co_id c \<and> po_revision p = expected_revision);
             f = (\<lambda>p. p\<lparr>po_default_club_ownership_limit := club_limit,
                    po_default_active_independent_event_limit := event_limit,
                    po_exact_venue_public_by_default := venue_default,
                    po_revision := po_revision p + 1\<rparr>) in
         tx_bind (tx_modify (\<lambda>d. d\<lparr>t_regional_policies := update_where P f (t_regional_policies d)\<rparr>)) (\<lambda>_.
         tx_return (map_option (\<lambda>p. region_policy_of c (f p)) (one_or_none P (t_regional_policies d)))))"

definition read_region_snapshot :: "string \<Rightarrow> string \<Rightarrow> profile_region_snapshot txn" where
  "read_region_snapshot country_code city_slug =
     tx_bind (tx_query (\<lambda>d.
       case one_or_none (\<lambda>c. co_code c = py_upper (py_strip country_code)) (t_countries d) of
         None \<Rightarrow> None
       | Some c \<Rightarrow>
           (case (one_or_none (\<lambda>x. ci_country_id x = co_id c
                    \<and> ci_slug x = py_lower (py_strip city_slug)) (t_cities d),
                  one_or_none (\<lambda>p. po_country_id p = co_id c) (t_regional_policies d)) of
              (Some x, Some p) \<Rightarrow> Some \<lparr>ps_country_code = py_strip (co_code c), ps_city_slug = ci_slug x,
                ps_default_locale = co_default_locale c,
                ps_default_currency = py_strip (co_default_currency c),
                ps_time_zone = ci_time_zone x, ps_country_enabled = co_enabled c,
                ps_city_enabled = ci_enabled x, ps_beta_enabled = ci_beta_enabled x,
                ps_club_limit = po_default_club_ownership_limit p,
                ps_independent_event_limit = po_default_active_independent_event_limit p\<rparr>
            | _ \<Rightarrow> None))) (\<lambda>row. case row of
       None \<Rightarrow> tx_raise region_not_found
     | Some s \<Rightarrow> tx_return s)"

subsection \<open>The service\<close>

definition supported_profile_locales :: "string \<Rightarrow> string \<Rightarrow> string list" where
  "supported_profile_locales country_code default_locale =
     (if country_code = ''TR'' then [''en'', ''tr'']
      else if country_code = ''DZ'' then [''en'', ''fr'', ''ar'']
      else [default_locale])"

definition validated_profile_region :: "profile_region_snapshot \<Rightarrow> py_error + profile_region" where
  "validated_profile_region s =
     (if \<not> ps_country_enabled s \<or> \<not> ps_city_enabled s \<or> \<not> ps_beta_enabled s
      then Inl region_not_found
      else Inr \<lparr>pg_country_code = ps_country_code s, pg_city_slug = ps_city_slug s,
        pg_supported_locales = supported_profile_locales (ps_country_code s) (ps_default_locale s),
        pg_default_currency = ps_default_currency s, pg_time_zone = ps_time_zone s,
        pg_club_limit = ps_club_limit s, pg_independent_event_limit = ps_independent_event_limit s\<rparr>)"

definition resolve_profile_region :: "string \<Rightarrow> string \<Rightarrow> profile_region txn" where
  "resolve_profile_region country_code city_slug =
     tx_bind (read_region_snapshot country_code city_slug) (\<lambda>s.
     tx_lift (validated_profile_region s))"

record policy_change =
  pc_revision :: int
  pc_reason :: string
  pc_club_limit :: "int option"
  pc_independent_event_limit :: "int option"
  pc_exact_venue_public_by_default :: "bool option"

definition or_current :: "'a option \<Rightarrow> 'a \<Rightarrow> 'a" where
  "or_current x y = (case x of None \<Rightarrow> y | Some v \<Rightarrow> v)"

text \<open>\<open>_proposed\<close>: the policy after the change and the names of the controls it changes.\<close>

definition proposed_policy ::
  "region_policy \<Rightarrow> policy_change \<Rightarrow> py_error + (region_policy \<times> string list)" where
  "proposed_policy current change =
     (if length (py_strip (pc_reason change)) < 3
      then Inl (ApiError ''invalid_reason'' ''errors.validation'' 422)
      else if rp_revision current \<noteq> pc_revision change
      then Inl (ApiError ''stale_revision'' ''errors.conflict'' 409)
      else
        let club = or_current (pc_club_limit change) (rp_club_limit current);
            ev = or_current (pc_independent_event_limit change) (rp_independent_event_limit current);
            venue = or_current (pc_exact_venue_public_by_default change)
              (rp_exact_venue_public_by_default current);
            changed = (if club \<noteq> rp_club_limit current then [''club_limit''] else [])
              @ (if ev \<noteq> rp_independent_event_limit current then [''independent_event_limit''] else [])
              @ (if venue \<noteq> rp_exact_venue_public_by_default current
                 then [''exact_venue_public_by_default''] else []) in
        Inr (current\<lparr>rp_club_limit := club, rp_independent_event_limit := ev,
            rp_exact_venue_public_by_default := venue,
            rp_revision := rp_revision current + (if changed \<noteq> [] then 1 else 0)\<rparr>, changed))"

definition regions_require_mfa_admin :: "'z subject_scheme \<Rightarrow> unit txn" where
  "regions_require_mfa_admin p =
     tx_bind (tx_lift (can_access_admin p)) (\<lambda>_.
     tx_bind (tx_query (\<lambda>d. active_mfa d (sb_user_id p))) (\<lambda>mfa.
     tx_lift (can_moderate p mfa)))"

definition preview_policy ::
  "'z subject_scheme \<Rightarrow> string \<Rightarrow> policy_change \<Rightarrow> (region_policy \<times> region_policy \<times> string list) txn" where
  "preview_policy p country_code change =
     tx_bind (regions_require_mfa_admin p) (\<lambda>_.
     tx_bind (get_policy country_code) (\<lambda>current.
     tx_bind (tx_lift (proposed_policy current change)) (\<lambda>(proposed, changed).
     tx_return (current, proposed, changed))))"

definition control_json :: "region_policy \<Rightarrow> string \<Rightarrow> json" where
  "control_json p name =
     (if name = ''club_limit'' then JInt (rp_club_limit p)
      else if name = ''independent_event_limit'' then JInt (rp_independent_event_limit p)
      else JBool (rp_exact_venue_public_by_default p))"

definition policy_snapshot :: "region_policy \<Rightarrow> string list \<Rightarrow> json" where
  "policy_snapshot p changed = JObj (map (\<lambda>name. (name, control_json p name)) changed
     @ [(''country_code'', JStr (rp_country_code p)), (''revision'', JInt (rp_revision p))])"

definition update_policy ::
  "'z subject_scheme \<Rightarrow> string \<Rightarrow> policy_change \<Rightarrow> uuid \<Rightarrow> region_policy txn" where
  "update_policy p country_code change request_id =
     tx_bind (regions_require_mfa_admin p) (\<lambda>_.
     tx_bind (get_policy country_code) (\<lambda>current.
     tx_bind (tx_lift (proposed_policy current change)) (\<lambda>(proposed, changed).
     tx_bind (tx_guard (changed \<noteq> []) (ApiError ''no_changes'' ''errors.validation'' 422)) (\<lambda>_.
     tx_bind (update_safe_policy_controls country_code (rp_revision current) (rp_club_limit proposed)
       (rp_independent_event_limit proposed) (rp_exact_venue_public_by_default proposed)) (\<lambda>result.
     case result of
       None \<Rightarrow> tx_raise (ApiError ''stale_revision'' ''errors.conflict'' 409)
     | Some updated \<Rightarrow>
         tx_bind (audit_record \<lparr>ae_actor_user_id = Some (sb_user_id p), ae_actor_kind = Admin,
           ae_action = ''regions.policy.update'', ae_target_type = ''regional_policy'',
           ae_target_id = None, ae_reason = Some (py_strip (pc_reason change)),
           ae_safe_before = Some (policy_snapshot current changed),
           ae_safe_after = Some (policy_snapshot updated changed),
           ae_request_id = Some request_id\<rparr>) (\<lambda>_.
         tx_return updated))))))"

text \<open>Deadlines of running obligations against a policy (\<open>validate_deadlines\<close>).\<close>

datatype obligation_kind = CashObligation | CancellationObligation

record deadline_obligation =
  do_kind :: obligation_kind
  do_issued_at :: datetime
  do_deadline :: datetime

definition whole_minutes :: "int \<Rightarrow> py_error + int" where
  "whole_minutes duration =
     (if duration < 0 \<or> duration mod 60000000 \<noteq> 0
      then Inl (ValueError ''active obligation duration must be non-negative whole minutes'')
      else Inr (duration div 60000000))"

definition bounds_ok :: "int \<Rightarrow> int \<times> int \<Rightarrow> bool" where
  "bounds_ok preset bounds \<longleftrightarrow> (case bounds of (lower, upper) \<Rightarrow>
     0 \<le> lower \<and> 0 \<le> upper \<and> lower \<le> upper \<and> lower \<le> preset \<and> preset \<le> upper)"

definition check_obligation :: "region_policy \<Rightarrow> instant \<Rightarrow> deadline_obligation \<Rightarrow> py_error + unit" where
  "check_obligation policy event_start o' =
     (case (utc_instant (do_issued_at o'), utc_instant (do_deadline o')) of
        (Some issued, Some deadline) \<Rightarrow>
          if issued > deadline
          then Inl (ValueError ''active obligation duration cannot be negative'')
          else if deadline > event_start
          then Inl (ValueError ''active obligation deadline cannot pass event start'')
          else
            let (duration, bounds, message) = (case do_kind o' of
                CashObligation \<Rightarrow> (deadline - issued, rp_cash_bounds policy,
                  ''cash obligation falls outside proposed bounds'')
              | CancellationObligation \<Rightarrow> (event_start - deadline, rp_cancellation_bounds policy,
                  ''cancellation obligation falls outside proposed bounds'')) in
            (case whole_minutes duration of
               Inl e \<Rightarrow> Inl e
             | Inr m \<Rightarrow> if fst bounds \<le> m \<and> m \<le> snd bounds then Inr () else Inl (ValueError message))
      | _ \<Rightarrow> Inl (ValueError ''active obligation timestamps must be timezone-aware''))"

fun check_obligations :: "region_policy \<Rightarrow> instant \<Rightarrow> deadline_obligation list \<Rightarrow> py_error + unit" where
  "check_obligations policy event_start [] = Inr ()"
| "check_obligations policy event_start (o' # os) =
     (case check_obligation policy event_start o' of
        Inl e \<Rightarrow> Inl e
      | Inr _ \<Rightarrow> check_obligations policy event_start os)"

definition validate_deadlines ::
  "region_policy \<Rightarrow> datetime \<Rightarrow> deadline_obligation list \<Rightarrow> py_error + unit" where
  "validate_deadlines policy event_start obligations =
     (case utc_instant event_start of
        None \<Rightarrow> Inl (ValueError ''event start must be timezone-aware'')
      | Some start \<Rightarrow>
          if \<not> bounds_ok (rp_cash_default_minutes policy) (rp_cash_bounds policy)
          then Inl (ValueError ''cash deadline bounds are invalid'')
          else if \<not> bounds_ok (rp_cancellation_default_minutes policy) (rp_cancellation_bounds policy)
          then Inl (ValueError ''cancellation deadline bounds are invalid'')
          else check_obligations policy start obligations)"

subsection \<open>Facts\<close>

lemma get_policy_reads [tx_simps]:
  "get_policy code d = Inr (p, d') \<longleftrightarrow> d' = d \<and>
     (\<exists>c q. one_or_none (\<lambda>c. co_code c = py_upper (py_strip code) \<and> co_enabled c) (t_countries d) = Some c
        \<and> one_or_none (\<lambda>p. po_country_id p = co_id c) (t_regional_policies d) = Some q
        \<and> p = region_policy_of c q)"
  by (auto simp: get_policy_def tx_simps split: option.splits)

lemma resolve_profile_region_reads: "resolve_profile_region c s d = Inr (r, d') \<Longrightarrow> d' = d"
  by (auto simp: resolve_profile_region_def read_region_snapshot_def tx_simps split: option.splits)

lemma whole_minutes_Inr: "whole_minutes x = Inr m \<longleftrightarrow> 0 \<le> x \<and> x = minutes m"
  by (auto simp: whole_minutes_def minutes_def)

text \<open>
  Deadlines: a validated obligation has a whole number of minutes within the policy's bounds
  for its kind, between issue and deadline for cash and between deadline and start for a
  cancellation, and its deadline is not after the start of the event.
\<close>

theorem validated_deadlines_within_policy:
  assumes "validate_deadlines policy event_start obligations = Inr ()"
    and "ob \<in> set obligations"
  shows "\<exists>start issued deadline m. utc_instant event_start = Some start
    \<and> utc_instant (do_issued_at ob) = Some issued \<and> utc_instant (do_deadline ob) = Some deadline
    \<and> issued \<le> deadline \<and> deadline \<le> start \<and> 0 \<le> m
    \<and> (case do_kind ob of
         CashObligation \<Rightarrow> deadline = issued + minutes m
           \<and> fst (rp_cash_bounds policy) \<le> m \<and> m \<le> snd (rp_cash_bounds policy)
       | CancellationObligation \<Rightarrow> start = deadline + minutes m
           \<and> fst (rp_cancellation_bounds policy) \<le> m \<and> m \<le> snd (rp_cancellation_bounds policy))"
proof -
  from assms(1) obtain start where start: "utc_instant event_start = Some start"
    "check_obligations policy start obligations = Inr ()"
    by (auto simp: validate_deadlines_def split: option.splits if_splits)
  have "check_obligation policy start ob = Inr ()"
    using start(2) assms(2) by (induction obligations) (auto split: sum.splits)
  then obtain issued deadline where t: "utc_instant (do_issued_at ob) = Some issued"
    "utc_instant (do_deadline ob) = Some deadline" "issued \<le> deadline" "deadline \<le> start"
    and rest: "case do_kind ob of
         CashObligation \<Rightarrow> \<exists>m. whole_minutes (deadline - issued) = Inr m
           \<and> fst (rp_cash_bounds policy) \<le> m \<and> m \<le> snd (rp_cash_bounds policy)
       | CancellationObligation \<Rightarrow> \<exists>m. whole_minutes (start - deadline) = Inr m
           \<and> fst (rp_cancellation_bounds policy) \<le> m \<and> m \<le> snd (rp_cancellation_bounds policy)"
    by (auto simp: check_obligation_def Let_def split: option.splits if_splits obligation_kind.splits sum.splits)
  show ?thesis
  proof (cases "do_kind ob")
    case CashObligation
    then obtain m where "deadline - issued = minutes m"
      "fst (rp_cash_bounds policy) \<le> m" "m \<le> snd (rp_cash_bounds policy)"
      using rest by (auto simp: whole_minutes_Inr)
    moreover have "deadline = issued + minutes m" using calculation(1) by simp
    moreover have "0 \<le> m" using t(3) calculation(1) by (simp add: minutes_def)
    ultimately show ?thesis using start t CashObligation by auto
  next
    case CancellationObligation
    then obtain m where "start - deadline = minutes m"
      "fst (rp_cancellation_bounds policy) \<le> m" "m \<le> snd (rp_cancellation_bounds policy)"
      using rest by (auto simp: whole_minutes_Inr)
    moreover have "start = deadline + minutes m" using calculation(1) by simp
    moreover have "0 \<le> m" using t(4) calculation(1) by (simp add: minutes_def)
    ultimately show ?thesis using start t CancellationObligation by auto
  qed
qed

definition example_policy :: region_policy where
  "example_policy = \<lparr>rp_country_code = ''TR'', rp_default_locale = ''tr'', rp_default_currency = ''TRY'',
     rp_allowed_registration_methods = [Free, CashOrganizerConfirmed], rp_cash_default_minutes = 60,
     rp_cash_bounds = (30, 120), rp_cancellation_default_minutes = 60,
     rp_cancellation_bounds = (0, 1440), rp_club_limit = 3, rp_independent_event_limit = 3,
     rp_exact_venue_public_by_default = False, rp_revision = 1\<rparr>"

theorem validated_deadlines_within_policy_witness:
  "\<exists>m. 1800000000 = (0 :: int) + minutes m \<and> 30 \<le> m \<and> m \<le> 120"
proof -
  let ?ob = "\<lparr>do_kind = CashObligation, do_issued_at = Aware 0 0, do_deadline = Aware 1800000000 0\<rparr>"
  have "validate_deadlines example_policy (Aware 3600000000 0) [?ob] = Inr ()"
    by (simp add: validate_deadlines_def example_policy_def bounds_ok_def check_obligation_def whole_minutes_def)
  from validated_deadlines_within_policy [OF this, of ?ob] show ?thesis
    by (auto simp: example_policy_def)
qed

end
