(* ===== verification/Event_Model.thy ===== *)
theory Event_Model
  imports Regions Py_Text Example_Data
begin

section \<open>Events: normalisation, patches, publication rules (events/models.py)\<close>

text \<open>
  A \<open>NewEvent\<close> is polymorphic in its times: \<open>datetime\<close> as received, instants once normalised.
  The names of the installed time zones are the argument \<open>zones\<close>: \<open>ZoneInfo(key)\<close> succeeds for
  a name that is installed, and its \<open>key\<close> is that name. Literal types exclude the visibilities
  and methods the code rejects at run time.
\<close>

record 't new_event =
  ne_ownership_type :: ownership_type
  ne_title :: string
  ne_club_id :: "uuid option"
  ne_description :: string
  ne_category_slug :: "string option"
  ne_country_code :: "string option"
  ne_city_slug :: "string option"
  ne_start_at :: "'t option"
  ne_end_at :: "'t option"
  ne_time_zone :: "string option"
  ne_capacity :: "int option"
  ne_visibility :: event_visibility
  ne_registration_method :: "registration_method option"
  ne_cash_expiry_minutes :: "int option"
  ne_cancellation_cutoff_minutes :: "int option"
  ne_district :: "string option"
  ne_public_meeting_area :: "string option"
  ne_exact_address :: "string option"
  ne_latitude :: "py_float option"
  ne_longitude :: "py_float option"
  ne_exact_venue_is_public :: bool
  ne_cover_media_id :: "uuid option"
  ne_publish :: bool

record event_patch =
  ep_revision :: int
  ep_changed_fields :: "string list"
  ep_title :: "string option"
  ep_description :: "string option"
  ep_category_slug :: "string option"
  ep_country_code :: "string option"
  ep_city_slug :: "string option"
  ep_start_at :: "datetime option"
  ep_end_at :: "datetime option"
  ep_time_zone :: "string option"
  ep_capacity :: "int option"
  ep_visibility :: "event_visibility option"
  ep_registration_method :: "registration_method option"
  ep_cash_expiry_minutes :: "int option"
  ep_cancellation_cutoff_minutes :: "int option"
  ep_district :: "string option"
  ep_public_meeting_area :: "string option"
  ep_exact_address :: "string option"
  ep_latitude :: "py_float option"
  ep_longitude :: "py_float option"
  ep_exact_venue_is_public :: "bool option"
  ep_cover_media_id :: "uuid option"
  ep_publish :: "bool option"

definition invalid_event :: py_error where
  "invalid_event = EventValidationError ''invalid_event''"

subsection \<open>Fields\<close>

definition required_text :: "int \<Rightarrow> int \<Rightarrow> string \<Rightarrow> py_error + string" where
  "required_text minimum maximum value =
     (let normalized = py_strip value in
      if \<not> (minimum \<le> len normalized \<and> len normalized \<le> maximum) then Inl invalid_event
      else Inr normalized)"

definition optional_text :: "int \<Rightarrow> string option \<Rightarrow> py_error + string option" where
  "optional_text maximum value =
     (case value of
        None \<Rightarrow> Inr None
      | Some v \<Rightarrow>
          let normalized = py_strip v in
          if normalized = [] \<or> len normalized > maximum then Inl invalid_event
          else Inr (Some normalized))"

definition slug_char :: "char \<Rightarrow> bool" where
  "slug_char c \<longleftrightarrow> is_lower c \<or> is_digit c \<or> c = CHR ''-''"

definition normalize_slug :: "string option \<Rightarrow> py_error + string option" where
  "normalize_slug value =
     (case value of
        None \<Rightarrow> Inr None
      | Some v \<Rightarrow>
          let normalized = py_lower (py_strip v) in
          if \<not> (2 \<le> len normalized \<and> len normalized \<le> 80)
             \<or> \<not> py_alnum (hd normalized) \<or> \<not> py_alnum (last normalized)
             \<or> list_ex (\<lambda>c. \<not> slug_char c) normalized
             \<or> has_substring ''--'' normalized
          then Inl invalid_event
          else Inr (Some normalized))"

definition normalize_country :: "string option \<Rightarrow> py_error + string option" where
  "normalize_country value =
     (case value of
        None \<Rightarrow> Inr None
      | Some v \<Rightarrow>
          let normalized = py_upper (py_strip v) in
          if len normalized \<noteq> 2 \<or> \<not> list_all py_alpha normalized then Inl invalid_event
          else Inr (Some normalized))"

definition event_instant :: "datetime option \<Rightarrow> py_error + instant option" where
  "event_instant value =
     (case value of
        None \<Rightarrow> Inr None
      | Some v \<Rightarrow> map_sum id Some (to_utc invalid_event v))"

definition normalize_time_zone :: "(string \<Rightarrow> bool) \<Rightarrow> string option \<Rightarrow> py_error + string option" where
  "normalize_time_zone zones value =
     (case value of
        None \<Rightarrow> Inr None
      | Some v \<Rightarrow>
          let normalized = py_strip v in
          if zones normalized then Inr (Some normalized) else Inl invalid_event)"

fun between :: "int \<Rightarrow> py_float \<Rightarrow> int \<Rightarrow> bool" where
  "between lo (Finite q) hi = (of_int lo \<le> q \<and> q \<le> of_int hi)"
| "between lo PosInf hi = False"
| "between lo NegInf hi = False"
| "between lo NaN hi = False"

definition coordinates_ok :: "py_float option \<Rightarrow> py_float option \<Rightarrow> bool" where
  "coordinates_ok lat lon \<longleftrightarrow>
     (case (lat, lon) of
        (Some a, Some b) \<Rightarrow> isfinite a \<and> isfinite b \<and> between (- 90) a 90 \<and> between (- 180) b 180
      | _ \<Rightarrow> True)"

subsection \<open>\<open>normalize_new_event\<close>\<close>

definition later :: "instant option \<Rightarrow> instant option \<Rightarrow> bool" where
  "later start_at end_at \<longleftrightarrow>
     (case (start_at, end_at) of (Some s, Some e) \<Rightarrow> s < e | _ \<Rightarrow> True)"

definition deadline_ok :: "int option \<Rightarrow> bool" where
  "deadline_ok x \<longleftrightarrow> (case x of None \<Rightarrow> True | Some m \<Rightarrow> 0 \<le> m)"

definition normalize_new_event ::
  "(string \<Rightarrow> bool) \<Rightarrow> datetime new_event \<Rightarrow> py_error + instant new_event" where
  "normalize_new_event zones v =
     res_bind (res_guard (case ne_ownership_type v of
         ClubOwned \<Rightarrow> ne_club_id v \<noteq> None | Independent \<Rightarrow> ne_club_id v = None) invalid_event) (\<lambda>_.
     res_bind (event_instant (ne_start_at v)) (\<lambda>start_at.
     res_bind (event_instant (ne_end_at v)) (\<lambda>end_at.
     res_bind (res_guard (later start_at end_at) invalid_event) (\<lambda>_.
     res_bind (res_guard (case ne_capacity v of None \<Rightarrow> True | Some c \<Rightarrow> 0 < c) invalid_event) (\<lambda>_.
     res_bind (res_guard ((ne_latitude v = None) = (ne_longitude v = None)) invalid_event) (\<lambda>_.
     res_bind (res_guard (coordinates_ok (ne_latitude v) (ne_longitude v)) invalid_event) (\<lambda>_.
     res_bind (normalize_country (ne_country_code v)) (\<lambda>country_code.
     res_bind (normalize_slug (ne_city_slug v)) (\<lambda>city_slug.
     res_bind (res_guard (city_slug = None \<or> country_code \<noteq> None) invalid_event) (\<lambda>_.
     res_bind (res_guard (ne_registration_method v \<noteq> Some Free \<or> ne_cash_expiry_minutes v = None)
       invalid_event) (\<lambda>_.
     res_bind (res_guard (deadline_ok (ne_cash_expiry_minutes v)) invalid_event) (\<lambda>_.
     res_bind (res_guard (deadline_ok (ne_cancellation_cutoff_minutes v)) invalid_event) (\<lambda>_.
     let description = py_strip (ne_description v) in
     res_bind (res_guard (len description \<le> 20000) invalid_event) (\<lambda>_.
     res_bind (required_text 2 160 (ne_title v)) (\<lambda>title.
     res_bind (normalize_slug (ne_category_slug v)) (\<lambda>category_slug.
     res_bind (normalize_time_zone zones (ne_time_zone v)) (\<lambda>time_zone.
     res_bind (optional_text 120 (ne_district v)) (\<lambda>district.
     res_bind (optional_text 300 (ne_public_meeting_area v)) (\<lambda>area.
     res_bind (optional_text 500 (ne_exact_address v)) (\<lambda>address.
     Inr \<lparr>ne_ownership_type = ne_ownership_type v, ne_title = title, ne_club_id = ne_club_id v,
       ne_description = description, ne_category_slug = category_slug,
       ne_country_code = country_code, ne_city_slug = city_slug, ne_start_at = start_at,
       ne_end_at = end_at, ne_time_zone = time_zone, ne_capacity = ne_capacity v,
       ne_visibility = ne_visibility v, ne_registration_method = ne_registration_method v,
       ne_cash_expiry_minutes = ne_cash_expiry_minutes v,
       ne_cancellation_cutoff_minutes = ne_cancellation_cutoff_minutes v,
       ne_district = district, ne_public_meeting_area = area, ne_exact_address = address,
       ne_latitude = ne_latitude v, ne_longitude = ne_longitude v,
       ne_exact_venue_is_public = ne_exact_venue_is_public v,
       ne_cover_media_id = ne_cover_media_id v, ne_publish = ne_publish v\<rparr>))))))))))))))))))))"

subsection \<open>\<open>apply_event_patch\<close>\<close>

text \<open>\<open>patched\<close> takes a field from the patch when it is named as changed, else from the event.\<close>

definition patched :: "event_patch \<Rightarrow> string \<Rightarrow> 'a \<Rightarrow> 'a \<Rightarrow> 'a" where
  "patched p field new old = (if List.member (ep_changed_fields p) field then new else old)"

definition patch_candidate :: "event \<Rightarrow> event_patch \<Rightarrow> datetime new_event" where
  "patch_candidate e p =
     \<lparr>ne_ownership_type = ev_ownership_type e,
      ne_title = patched p ''title'' (or_current (ep_title p) (ev_title e)) (ev_title e),
      ne_club_id = ev_club_id e,
      ne_description = patched p ''description'' (or_current (ep_description p) '''') (ev_description e),
      ne_category_slug = patched p ''category_slug'' (ep_category_slug p) (ev_category_slug e),
      ne_country_code = patched p ''country_code'' (ep_country_code p) (ev_country_code e),
      ne_city_slug = patched p ''city_slug'' (ep_city_slug p) (ev_city_slug e),
      ne_start_at = patched p ''start_at'' (ep_start_at p) (map_option (\<lambda>t. Aware t 0) (ev_start_at e)),
      ne_end_at = patched p ''end_at'' (ep_end_at p) (map_option (\<lambda>t. Aware t 0) (ev_end_at e)),
      ne_time_zone = patched p ''time_zone'' (ep_time_zone p) (ev_time_zone e),
      ne_capacity = patched p ''capacity'' (ep_capacity p) (ev_capacity e),
      ne_visibility = patched p ''visibility'' (or_current (ep_visibility p) (ev_visibility e))
        (ev_visibility e),
      ne_registration_method =
        patched p ''registration_method'' (ep_registration_method p) (ev_registration_method e),
      ne_cash_expiry_minutes =
        patched p ''cash_expiry_minutes'' (ep_cash_expiry_minutes p) (ev_cash_expiry_minutes e),
      ne_cancellation_cutoff_minutes = patched p ''cancellation_cutoff_minutes''
        (ep_cancellation_cutoff_minutes p) (ev_cancellation_cutoff_minutes e),
      ne_district = patched p ''district'' (ep_district p) (ev_district e),
      ne_public_meeting_area =
        patched p ''public_meeting_area'' (ep_public_meeting_area p) (ev_public_meeting_area e),
      ne_exact_address = patched p ''exact_address'' (ep_exact_address p) (ev_exact_address e),
      ne_latitude = patched p ''latitude'' (ep_latitude p) (ev_latitude e),
      ne_longitude = patched p ''longitude'' (ep_longitude p) (ev_longitude e),
      ne_exact_venue_is_public = patched p ''exact_venue_is_public''
        (or_current (ep_exact_venue_is_public p) (ev_exact_venue_is_public e)) (ev_exact_venue_is_public e),
      ne_cover_media_id = patched p ''cover_media_id'' (ep_cover_media_id p) (ev_cover_media_id e),
      ne_publish = patched p ''publish'' (ep_publish p = Some True) False\<rparr>"

definition replace_fields :: "event \<Rightarrow> instant new_event \<Rightarrow> event" where
  "replace_fields e c = e\<lparr>ev_title := ne_title c, ev_description := ne_description c,
     ev_category_slug := ne_category_slug c, ev_country_code := ne_country_code c,
     ev_city_slug := ne_city_slug c, ev_start_at := ne_start_at c, ev_end_at := ne_end_at c,
     ev_time_zone := ne_time_zone c, ev_capacity := ne_capacity c,
     ev_visibility := ne_visibility c, ev_registration_method := ne_registration_method c,
     ev_cash_expiry_minutes := ne_cash_expiry_minutes c,
     ev_cancellation_cutoff_minutes := ne_cancellation_cutoff_minutes c,
     ev_district := ne_district c, ev_public_meeting_area := ne_public_meeting_area c,
     ev_exact_address := ne_exact_address c, ev_latitude := ne_latitude c,
     ev_longitude := ne_longitude c, ev_exact_venue_is_public := ne_exact_venue_is_public c,
     ev_cover_media_id := ne_cover_media_id c\<rparr>"

definition apply_event_patch :: "(string \<Rightarrow> bool) \<Rightarrow> event \<Rightarrow> event_patch \<Rightarrow> py_error + event" where
  "apply_event_patch zones e p =
     (let fields = ep_changed_fields p in
      res_bind (res_guard (1 \<le> ep_revision p \<and> \<not> List.member fields ''revision'') invalid_event) (\<lambda>_.
      res_bind (res_guard (\<not> (List.member fields ''title'' \<and> ep_title p = None)) invalid_event) (\<lambda>_.
      res_bind (res_guard (\<not> (List.member fields ''visibility'' \<and> ep_visibility p = None))
        invalid_event) (\<lambda>_.
      res_bind (res_guard (\<not> (List.member fields ''exact_venue_is_public''
        \<and> ep_exact_venue_is_public p = None)) invalid_event) (\<lambda>_.
      res_bind (normalize_new_event zones (patch_candidate e p)) (\<lambda>c.
      Inr (replace_fields e c)))))))"

subsection \<open>Publication\<close>

definition in_bounds :: "int option \<Rightarrow> int \<times> int \<Rightarrow> bool" where
  "in_bounds x bounds \<longleftrightarrow> (case x of None \<Rightarrow> False | Some m \<Rightarrow> fst bounds \<le> m \<and> m \<le> snd bounds)"

definition validate_published_event :: "event \<Rightarrow> region_policy \<Rightarrow> py_error + unit" where
  "validate_published_event e policy =
     (let not_publishable = EventValidationError ''event_not_publishable'' in
      res_bind (res_guard (py_strip (ev_description e) \<noteq> '''' \<and> ev_category_slug e \<notin> {None, Some ''''}
        \<and> ev_country_code e \<notin> {None, Some ''''} \<and> ev_city_slug e \<notin> {None, Some ''''}
        \<and> ev_start_at e \<noteq> None \<and> ev_end_at e \<noteq> None \<and> ev_time_zone e \<notin> {None, Some ''''}
        \<and> ev_registration_method e \<noteq> None \<and> ev_cancellation_cutoff_minutes e \<noteq> None)
        not_publishable) (\<lambda>_.
      res_bind (res_guard (later (ev_start_at e) (ev_end_at e)) not_publishable) (\<lambda>_.
      res_bind (res_guard (ev_country_code e = Some (rp_country_code policy)) not_publishable) (\<lambda>_.
      res_bind (res_guard (case ev_registration_method e of None \<Rightarrow> False
        | Some m \<Rightarrow> List.member (rp_allowed_registration_methods policy) m)
        (EventValidationError ''registration_method_not_allowed'')) (\<lambda>_.
      res_bind (res_guard (if ev_registration_method e = Some CashOrganizerConfirmed
          then in_bounds (ev_cash_expiry_minutes e) (rp_cash_bounds policy)
          else ev_cash_expiry_minutes e = None)
        (EventValidationError ''invalid_event_deadline'')) (\<lambda>_.
      res_bind (res_guard (in_bounds (ev_cancellation_cutoff_minutes e) (rp_cancellation_bounds policy))
        (EventValidationError ''invalid_event_deadline'')) (\<lambda>_.
      res_guard (case ev_capacity e of None \<Rightarrow> True | Some c \<Rightarrow> 0 < c) not_publishable)))))))"

definition validate_publishable :: "event \<Rightarrow> region_policy \<Rightarrow> datetime \<Rightarrow> py_error + unit" where
  "validate_publishable e policy now =
     res_bind (to_utc invalid_event now) (\<lambda>current.
     res_bind (validate_published_event e policy) (\<lambda>_.
     res_guard (case ev_start_at e of None \<Rightarrow> False | Some s \<Rightarrow> current < s)
       (EventValidationError ''event_not_publishable'')))"

subsection \<open>Normal forms\<close>

text \<open>Every field a normalisation returns is a fixed point of its own normalisation.\<close>

named_theorems normal_simps "field normalisations are idempotent"

lemma slug_char_facts:
  assumes "slug_char c"
  shows "\<not> is_upper c" "\<not> py_space c"
proof -
  have "\<forall>c \<in> set ''abcdefghijklmnopqrstuvwxyz0123456789-''. \<not> is_upper c \<and> \<not> py_space c"
    by code_simp
  moreover have "c \<in> set ''abcdefghijklmnopqrstuvwxyz0123456789-''"
    using assms by (auto simp: slug_char_def is_lower_def is_digit_def)
  ultimately show "\<not> is_upper c" "\<not> py_space c" by blast+
qed

lemma py_alpha_not_space: "py_alpha c \<Longrightarrow> \<not> py_space c"
proof -
  assume a: "py_alpha c"
  have "\<forall>c \<in> set ''abcdefghijklmnopqrstuvwxyzABCDEFGHIJKLMNOPQRSTUVWXYZ''. \<not> py_space c"
    by code_simp
  moreover have "c \<in> set ''abcdefghijklmnopqrstuvwxyzABCDEFGHIJKLMNOPQRSTUVWXYZ''"
    using a by (auto simp: py_alpha_def is_lower_def is_upper_def)
  ultimately show ?thesis by blast
qed

lemma char_upper_idem: "char_upper (char_upper c) = char_upper c"
proof -
  have "\<forall>c \<in> set ''abcdefghijklmnopqrstuvwxyz''. \<not> is_lower (char_upper c)"
    by code_simp
  then have low: "is_lower c \<Longrightarrow> \<not> is_lower (char_upper c)" unfolding is_lower_def [of c] by blast
  show ?thesis
  proof (cases "is_lower c")
    case True
    then have "\<not> is_lower (char_upper c)" by (rule low)
    then show ?thesis unfolding char_upper_def [of "char_upper c"] by simp
  next
    case False
    then have "char_upper c = c" by (simp add: char_upper_def)
    then show ?thesis by simp
  qed
qed

lemma py_strip_no_space: "list_all (\<lambda>c. \<not> py_space c) s \<Longrightarrow> py_strip s = s"
  by (rule py_strip_fixed) (auto simp: list_all_iff)

lemma required_text_normal [normal_simps]:
  "required_text lo hi v = Inr t \<Longrightarrow> required_text lo hi t = Inr t"
  by (auto simp: required_text_def Let_def split: if_splits)

lemma optional_text_normal [normal_simps]:
  "optional_text hi v = Inr t \<Longrightarrow> optional_text hi t = Inr t"
  by (auto simp: optional_text_def Let_def split: if_splits option.splits)

lemma normalize_slug_normal [normal_simps]:
  assumes "normalize_slug v = Inr t"
  shows "normalize_slug t = Inr t"
proof (cases t)
  case None
  then show ?thesis by (simp add: normalize_slug_def)
next
  case (Some n)
  then have ok: "2 \<le> len n" "len n \<le> 80" "py_alnum (hd n)" "py_alnum (last n)"
    "list_all slug_char n" "\<not> has_substring ''--'' n"
    using assms by (auto simp: normalize_slug_def Let_def list_ex_iff list_all_iff split: option.splits if_splits)
  have "py_strip n = n" "py_lower n = n"
    using ok(5) by (auto simp: list_all_iff py_lower_def char_lower_def slug_char_facts
        intro!: py_strip_no_space map_idI)
  then show ?thesis using ok Some by (simp add: normalize_slug_def Let_def list_ex_iff list_all_iff)
qed

lemma normalize_country_normal [normal_simps]:
  assumes "normalize_country v = Inr t"
  shows "normalize_country t = Inr t"
proof (cases t)
  case None
  then show ?thesis by (simp add: normalize_country_def)
next
  case (Some n)
  then obtain x where n: "n = py_upper x" "len n = 2" "list_all py_alpha n"
    using assms by (auto simp: normalize_country_def Let_def split: option.splits if_splits)
  have "py_strip n = n" using n(3) by (intro py_strip_no_space) (auto simp: list_all_iff py_alpha_not_space)
  moreover have "py_upper n = n" using n(1) by (simp add: py_upper_def char_upper_idem)
  ultimately show ?thesis using n Some by (simp add: normalize_country_def Let_def)
qed

lemma normalize_time_zone_normal [normal_simps]:
  "normalize_time_zone zones v = Inr t \<Longrightarrow> normalize_time_zone zones t = Inr t"
  by (auto simp: normalize_time_zone_def Let_def split: if_splits option.splits)

lemma event_instant_aware [simp]: "event_instant (map_option (\<lambda>t. Aware t 0) x) = Inr x"
  by (cases x) (auto simp: event_instant_def to_utc_def)

text \<open>A normalised event given again, its instants as aware datetimes in UTC.\<close>

definition as_input :: "instant new_event \<Rightarrow> datetime new_event" where
  "as_input n = \<lparr>ne_ownership_type = ne_ownership_type n, ne_title = ne_title n,
     ne_club_id = ne_club_id n, ne_description = ne_description n,
     ne_category_slug = ne_category_slug n, ne_country_code = ne_country_code n,
     ne_city_slug = ne_city_slug n, ne_start_at = map_option (\<lambda>t. Aware t 0) (ne_start_at n),
     ne_end_at = map_option (\<lambda>t. Aware t 0) (ne_end_at n), ne_time_zone = ne_time_zone n,
     ne_capacity = ne_capacity n, ne_visibility = ne_visibility n,
     ne_registration_method = ne_registration_method n,
     ne_cash_expiry_minutes = ne_cash_expiry_minutes n,
     ne_cancellation_cutoff_minutes = ne_cancellation_cutoff_minutes n,
     ne_district = ne_district n, ne_public_meeting_area = ne_public_meeting_area n,
     ne_exact_address = ne_exact_address n, ne_latitude = ne_latitude n,
     ne_longitude = ne_longitude n, ne_exact_venue_is_public = ne_exact_venue_is_public n,
     ne_cover_media_id = ne_cover_media_id n, ne_publish = ne_publish n\<rparr>"

text \<open>What success of the normalisation means, field by field.\<close>

lemma as_input_simps [simp]:
  "ne_ownership_type (as_input n) = ne_ownership_type n" "ne_title (as_input n) = ne_title n"
  "ne_club_id (as_input n) = ne_club_id n" "ne_description (as_input n) = ne_description n"
  "ne_category_slug (as_input n) = ne_category_slug n"
  "ne_country_code (as_input n) = ne_country_code n" "ne_city_slug (as_input n) = ne_city_slug n"
  "ne_start_at (as_input n) = map_option (\<lambda>t. Aware t 0) (ne_start_at n)"
  "ne_end_at (as_input n) = map_option (\<lambda>t. Aware t 0) (ne_end_at n)"
  "ne_time_zone (as_input n) = ne_time_zone n" "ne_capacity (as_input n) = ne_capacity n"
  "ne_visibility (as_input n) = ne_visibility n"
  "ne_registration_method (as_input n) = ne_registration_method n"
  "ne_cash_expiry_minutes (as_input n) = ne_cash_expiry_minutes n"
  "ne_cancellation_cutoff_minutes (as_input n) = ne_cancellation_cutoff_minutes n"
  "ne_district (as_input n) = ne_district n"
  "ne_public_meeting_area (as_input n) = ne_public_meeting_area n"
  "ne_exact_address (as_input n) = ne_exact_address n" "ne_latitude (as_input n) = ne_latitude n"
  "ne_longitude (as_input n) = ne_longitude n"
  "ne_exact_venue_is_public (as_input n) = ne_exact_venue_is_public n"
  "ne_cover_media_id (as_input n) = ne_cover_media_id n" "ne_publish (as_input n) = ne_publish n"
  by (simp_all add: as_input_def)

lemma normalize_new_event_Inr:
  "normalize_new_event zones v = Inr n \<longleftrightarrow>
     (case ne_ownership_type v of ClubOwned \<Rightarrow> ne_club_id v \<noteq> None | Independent \<Rightarrow> ne_club_id v = None)
     \<and> event_instant (ne_start_at v) = Inr (ne_start_at n)
     \<and> event_instant (ne_end_at v) = Inr (ne_end_at n)
     \<and> later (ne_start_at n) (ne_end_at n)
     \<and> (case ne_capacity v of None \<Rightarrow> True | Some c \<Rightarrow> 0 < c)
     \<and> (ne_latitude v = None) = (ne_longitude v = None)
     \<and> coordinates_ok (ne_latitude v) (ne_longitude v)
     \<and> normalize_country (ne_country_code v) = Inr (ne_country_code n)
     \<and> normalize_slug (ne_city_slug v) = Inr (ne_city_slug n)
     \<and> (ne_city_slug n = None \<or> ne_country_code n \<noteq> None)
     \<and> (ne_registration_method v \<noteq> Some Free \<or> ne_cash_expiry_minutes v = None)
     \<and> deadline_ok (ne_cash_expiry_minutes v) \<and> deadline_ok (ne_cancellation_cutoff_minutes v)
     \<and> ne_description n = py_strip (ne_description v) \<and> len (ne_description n) \<le> 20000
     \<and> required_text 2 160 (ne_title v) = Inr (ne_title n)
     \<and> normalize_slug (ne_category_slug v) = Inr (ne_category_slug n)
     \<and> normalize_time_zone zones (ne_time_zone v) = Inr (ne_time_zone n)
     \<and> optional_text 120 (ne_district v) = Inr (ne_district n)
     \<and> optional_text 300 (ne_public_meeting_area v) = Inr (ne_public_meeting_area n)
     \<and> optional_text 500 (ne_exact_address v) = Inr (ne_exact_address n)
     \<and> ne_ownership_type n = ne_ownership_type v \<and> ne_club_id n = ne_club_id v
     \<and> ne_capacity n = ne_capacity v \<and> ne_visibility n = ne_visibility v
     \<and> ne_registration_method n = ne_registration_method v
     \<and> ne_cash_expiry_minutes n = ne_cash_expiry_minutes v
     \<and> ne_cancellation_cutoff_minutes n = ne_cancellation_cutoff_minutes v
     \<and> ne_latitude n = ne_latitude v \<and> ne_longitude n = ne_longitude v
     \<and> ne_exact_venue_is_public n = ne_exact_venue_is_public v
     \<and> ne_cover_media_id n = ne_cover_media_id v \<and> ne_publish n = ne_publish v"
  unfolding normalize_new_event_def Let_def res_simps sum.inject
  by (cases n) auto

text \<open>
  Normalisation is a normal form: a normalised event given again is accepted and returned
  unchanged.
\<close>

theorem normalize_new_event_idempotent:
  assumes "normalize_new_event zones v = Inr n"
  shows "normalize_new_event zones (as_input n) = Inr n"
proof -
  note h = assms [unfolded normalize_new_event_Inr]
  have desc: "py_strip (ne_description n) = ne_description n" using h by (metis py_strip_idem)
  have fields: "normalize_country (ne_country_code n) = Inr (ne_country_code n)"
    "normalize_slug (ne_city_slug n) = Inr (ne_city_slug n)"
    "normalize_slug (ne_category_slug n) = Inr (ne_category_slug n)"
    "required_text 2 160 (ne_title n) = Inr (ne_title n)"
    "normalize_time_zone zones (ne_time_zone n) = Inr (ne_time_zone n)"
    "optional_text 120 (ne_district n) = Inr (ne_district n)"
    "optional_text 300 (ne_public_meeting_area n) = Inr (ne_public_meeting_area n)"
    "optional_text 500 (ne_exact_address n) = Inr (ne_exact_address n)"
    using h by (blast intro: normal_simps)+
  have more: "length (py_strip (ne_description v)) \<le> 20000"
    "ne_ownership_type v = ClubOwned \<Longrightarrow> ne_club_id n \<noteq> None"
    "ne_ownership_type v = Independent \<Longrightarrow> ne_club_id n = None"
    using h by auto
  show ?thesis
    unfolding normalize_new_event_Inr as_input_simps event_instant_aware desc
    using h fields more by (auto split: ownership_type.splits)
qed

definition example_input :: "datetime new_event" where
  "example_input = \<lparr>ne_ownership_type = Independent, ne_title = '' Night walk '', ne_club_id = None,
     ne_description = ''Along the wall'', ne_category_slug = Some ''Walks'',
     ne_country_code = Some ''tr'', ne_city_slug = Some ''bursa'',
     ne_start_at = Some (Aware 7200000000 3600000000), ne_end_at = Some (Aware 9000000000 0),
     ne_time_zone = Some ''UTC'', ne_capacity = Some 5, ne_visibility = Public,
     ne_registration_method = Some CashOrganizerConfirmed, ne_cash_expiry_minutes = None,
     ne_cancellation_cutoff_minutes = Some 30, ne_district = None,
     ne_public_meeting_area = Some ''Gate'', ne_exact_address = None, ne_latitude = None,
     ne_longitude = None, ne_exact_venue_is_public = False, ne_cover_media_id = None,
     ne_publish = False\<rparr>"

lemma example_normalize:
  obtains n where "normalize_new_event (\<lambda>z. z = ''UTC'') example_input = Inr n"
    "ne_title n = ''Night walk''" "ne_country_code n = Some ''TR''" "ne_start_at n = Some 3600000000"
    "ne_ownership_type n = Independent" "ne_club_id n = None"
proof -
  have "case normalize_new_event (\<lambda>z. z = ''UTC'') example_input of Inl _ \<Rightarrow> False
    | Inr n \<Rightarrow> ne_title n = ''Night walk'' \<and> ne_country_code n = Some ''TR''
        \<and> ne_start_at n = Some 3600000000 \<and> ne_ownership_type n = Independent
        \<and> ne_club_id n = None" by code_simp
  then show ?thesis using that by (auto split: sum.splits)
qed

theorem normalize_new_event_idempotent_witness:
  "\<exists>n. normalize_new_event (\<lambda>z. z = ''UTC'') (as_input n) = Inr n \<and> ne_title n = ''Night walk''"
  by (rule example_normalize) (use normalize_new_event_idempotent in blast)

text \<open>An event whose editable fields are in normal form, as every stored event is.\<close>

definition event_normal :: "(string \<Rightarrow> bool) \<Rightarrow> event \<Rightarrow> bool" where
  "event_normal zones e \<longleftrightarrow> (\<exists>v c. normalize_new_event zones v = Inr c
     \<and> ne_ownership_type c = ev_ownership_type e \<and> ne_club_id c = ev_club_id e
     \<and> replace_fields e c = e)"

lemma replace_fields_simps [simp]:
  "ev_title (replace_fields e c) = ne_title c" "ev_description (replace_fields e c) = ne_description c"
  "ev_category_slug (replace_fields e c) = ne_category_slug c"
  "ev_country_code (replace_fields e c) = ne_country_code c"
  "ev_city_slug (replace_fields e c) = ne_city_slug c" "ev_start_at (replace_fields e c) = ne_start_at c"
  "ev_end_at (replace_fields e c) = ne_end_at c" "ev_time_zone (replace_fields e c) = ne_time_zone c"
  "ev_capacity (replace_fields e c) = ne_capacity c" "ev_visibility (replace_fields e c) = ne_visibility c"
  "ev_registration_method (replace_fields e c) = ne_registration_method c"
  "ev_cash_expiry_minutes (replace_fields e c) = ne_cash_expiry_minutes c"
  "ev_cancellation_cutoff_minutes (replace_fields e c) = ne_cancellation_cutoff_minutes c"
  "ev_district (replace_fields e c) = ne_district c"
  "ev_public_meeting_area (replace_fields e c) = ne_public_meeting_area c"
  "ev_exact_address (replace_fields e c) = ne_exact_address c"
  "ev_latitude (replace_fields e c) = ne_latitude c" "ev_longitude (replace_fields e c) = ne_longitude c"
  "ev_exact_venue_is_public (replace_fields e c) = ne_exact_venue_is_public c"
  "ev_cover_media_id (replace_fields e c) = ne_cover_media_id c"
  "ev_id (replace_fields e c) = ev_id e" "ev_status (replace_fields e c) = ev_status e"
  "ev_ownership_type (replace_fields e c) = ev_ownership_type e"
  "ev_club_id (replace_fields e c) = ev_club_id e"
  "ev_owner_user_id (replace_fields e c) = ev_owner_user_id e"
  "ev_revision (replace_fields e c) = ev_revision e"
  "ev_published_at (replace_fields e c) = ev_published_at e"
  by (simp_all add: replace_fields_def)

lemma event_normal_fields:
  assumes "event_normal zones e"
  obtains n where "normalize_new_event zones (as_input n) = Inr n" "replace_fields e n = e"
    "ne_ownership_type n = ev_ownership_type e" "ne_club_id n = ev_club_id e"
  using assms normalize_new_event_idempotent unfolding event_normal_def by blast

text \<open>The editable fields of two events agree on what the patch does not name.\<close>

definition unnamed_fields_kept :: "event_patch \<Rightarrow> event \<Rightarrow> event \<Rightarrow> bool" where
  "unnamed_fields_kept p e e' \<longleftrightarrow>
     (let kept = (\<lambda>name. \<not> List.member (ep_changed_fields p) name) in
      (kept ''title'' \<longrightarrow> ev_title e' = ev_title e)
      \<and> (kept ''description'' \<longrightarrow> ev_description e' = ev_description e)
      \<and> (kept ''category_slug'' \<longrightarrow> ev_category_slug e' = ev_category_slug e)
      \<and> (kept ''country_code'' \<longrightarrow> ev_country_code e' = ev_country_code e)
      \<and> (kept ''city_slug'' \<longrightarrow> ev_city_slug e' = ev_city_slug e)
      \<and> (kept ''start_at'' \<longrightarrow> ev_start_at e' = ev_start_at e)
      \<and> (kept ''end_at'' \<longrightarrow> ev_end_at e' = ev_end_at e)
      \<and> (kept ''time_zone'' \<longrightarrow> ev_time_zone e' = ev_time_zone e)
      \<and> (kept ''capacity'' \<longrightarrow> ev_capacity e' = ev_capacity e)
      \<and> (kept ''visibility'' \<longrightarrow> ev_visibility e' = ev_visibility e)
      \<and> (kept ''registration_method'' \<longrightarrow> ev_registration_method e' = ev_registration_method e)
      \<and> (kept ''cash_expiry_minutes'' \<longrightarrow> ev_cash_expiry_minutes e' = ev_cash_expiry_minutes e)
      \<and> (kept ''cancellation_cutoff_minutes'' \<longrightarrow>
           ev_cancellation_cutoff_minutes e' = ev_cancellation_cutoff_minutes e)
      \<and> (kept ''district'' \<longrightarrow> ev_district e' = ev_district e)
      \<and> (kept ''public_meeting_area'' \<longrightarrow> ev_public_meeting_area e' = ev_public_meeting_area e)
      \<and> (kept ''exact_address'' \<longrightarrow> ev_exact_address e' = ev_exact_address e)
      \<and> (kept ''latitude'' \<longrightarrow> ev_latitude e' = ev_latitude e)
      \<and> (kept ''longitude'' \<longrightarrow> ev_longitude e' = ev_longitude e)
      \<and> (kept ''exact_venue_is_public'' \<longrightarrow>
           ev_exact_venue_is_public e' = ev_exact_venue_is_public e)
      \<and> (kept ''cover_media_id'' \<longrightarrow> ev_cover_media_id e' = ev_cover_media_id e))"

lemma apply_event_patch_Inr:
  "apply_event_patch zones e p = Inr e' \<longleftrightarrow>
     1 \<le> ep_revision p \<and> \<not> List.member (ep_changed_fields p) ''revision''
     \<and> \<not> (List.member (ep_changed_fields p) ''title'' \<and> ep_title p = None)
     \<and> \<not> (List.member (ep_changed_fields p) ''visibility'' \<and> ep_visibility p = None)
     \<and> \<not> (List.member (ep_changed_fields p) ''exact_venue_is_public'' \<and> ep_exact_venue_is_public p = None)
     \<and> (\<exists>c. normalize_new_event zones (patch_candidate e p) = Inr c \<and> e' = replace_fields e c)"
  unfolding apply_event_patch_def Let_def res_simps sum.inject by blast

lemma replaced_fields:
  assumes "replace_fields e n = e"
  shows "ev_title e = ne_title n" "ev_description e = ne_description n"
    "ev_category_slug e = ne_category_slug n" "ev_country_code e = ne_country_code n"
    "ev_city_slug e = ne_city_slug n" "ev_start_at e = ne_start_at n" "ev_end_at e = ne_end_at n"
    "ev_time_zone e = ne_time_zone n" "ev_capacity e = ne_capacity n"
    "ev_visibility e = ne_visibility n" "ev_registration_method e = ne_registration_method n"
    "ev_cash_expiry_minutes e = ne_cash_expiry_minutes n"
    "ev_cancellation_cutoff_minutes e = ne_cancellation_cutoff_minutes n"
    "ev_district e = ne_district n" "ev_public_meeting_area e = ne_public_meeting_area n"
    "ev_exact_address e = ne_exact_address n" "ev_latitude e = ne_latitude n"
    "ev_longitude e = ne_longitude n" "ev_exact_venue_is_public e = ne_exact_venue_is_public n"
    "ev_cover_media_id e = ne_cover_media_id n"
  using arg_cong [OF assms, of ev_title] arg_cong [OF assms, of ev_description]
    arg_cong [OF assms, of ev_category_slug] arg_cong [OF assms, of ev_country_code]
    arg_cong [OF assms, of ev_city_slug] arg_cong [OF assms, of ev_start_at]
    arg_cong [OF assms, of ev_end_at] arg_cong [OF assms, of ev_time_zone]
    arg_cong [OF assms, of ev_capacity] arg_cong [OF assms, of ev_visibility]
    arg_cong [OF assms, of ev_registration_method] arg_cong [OF assms, of ev_cash_expiry_minutes]
    arg_cong [OF assms, of ev_cancellation_cutoff_minutes] arg_cong [OF assms, of ev_district]
    arg_cong [OF assms, of ev_public_meeting_area] arg_cong [OF assms, of ev_exact_address]
    arg_cong [OF assms, of ev_latitude] arg_cong [OF assms, of ev_longitude]
    arg_cong [OF assms, of ev_exact_venue_is_public] arg_cong [OF assms, of ev_cover_media_id]
  unfolding replace_fields_simps by simp_all

text \<open>
  A patch is confined to the fields it names: on an event in normal form an accepted patch
  leaves every other field, the owner, the status and the revision as they were and the result is
  again in normal form; the patch that names no field is accepted and changes nothing.
\<close>

theorem event_patch_confined:
  assumes "event_normal zones e" and "1 \<le> ep_revision p"
  shows "(\<forall>e'. apply_event_patch zones e p = Inr e' \<longrightarrow>
      unnamed_fields_kept p e e' \<and> event_normal zones e' \<and> ev_id e' = ev_id e
      \<and> ev_status e' = ev_status e \<and> ev_owner_user_id e' = ev_owner_user_id e
      \<and> ev_revision e' = ev_revision e)
    \<and> (ep_changed_fields p = [] \<longrightarrow> apply_event_patch zones e p = Inr e)"
proof -
  obtain n where n: "normalize_new_event zones (as_input n) = Inr n" "replace_fields e n = e"
    "ne_ownership_type n = ev_ownership_type e" "ne_club_id n = ev_club_id e"
    by (rule event_normal_fields [OF assms(1)])
  note f = replaced_fields [OF n(2)] and hn = n(1) [unfolded normalize_new_event_Inr]
  have nf: "normalize_country (ev_country_code e) = Inr (ev_country_code e)"
    "normalize_slug (ev_city_slug e) = Inr (ev_city_slug e)"
    "normalize_slug (ev_category_slug e) = Inr (ev_category_slug e)"
    "required_text 2 160 (ev_title e) = Inr (ev_title e)"
    "normalize_time_zone zones (ev_time_zone e) = Inr (ev_time_zone e)"
    "optional_text 120 (ev_district e) = Inr (ev_district e)"
    "optional_text 300 (ev_public_meeting_area e) = Inr (ev_public_meeting_area e)"
    "optional_text 500 (ev_exact_address e) = Inr (ev_exact_address e)"
    "py_strip (ev_description e) = ev_description e"
    using hn by (simp_all add: f)
  have "unnamed_fields_kept p e e' \<and> event_normal zones e' \<and> ev_id e' = ev_id e
      \<and> ev_status e' = ev_status e \<and> ev_owner_user_id e' = ev_owner_user_id e
      \<and> ev_revision e' = ev_revision e"
    if "apply_event_patch zones e p = Inr e'" for e'
  proof -
    obtain c where c: "normalize_new_event zones (patch_candidate e p) = Inr c" "e' = replace_fields e c"
      using \<open>apply_event_patch zones e p = Inr e'\<close> unfolding apply_event_patch_Inr by blast
    note hc = c(1) [unfolded normalize_new_event_Inr]
    let ?k = "patch_candidate e p"
    have hf:
      "required_text 2 160 (ne_title ?k) = Inr (ne_title c)"
      "ne_description c = py_strip (ne_description ?k)"
      "normalize_slug (ne_category_slug ?k) = Inr (ne_category_slug c)"
      "normalize_country (ne_country_code ?k) = Inr (ne_country_code c)"
      "normalize_slug (ne_city_slug ?k) = Inr (ne_city_slug c)"
      "event_instant (ne_start_at ?k) = Inr (ne_start_at c)"
      "event_instant (ne_end_at ?k) = Inr (ne_end_at c)"
      "normalize_time_zone zones (ne_time_zone ?k) = Inr (ne_time_zone c)"
      "ne_capacity c = ne_capacity ?k"
      "ne_visibility c = ne_visibility ?k"
      "ne_registration_method c = ne_registration_method ?k"
      "ne_cash_expiry_minutes c = ne_cash_expiry_minutes ?k"
      "ne_cancellation_cutoff_minutes c = ne_cancellation_cutoff_minutes ?k"
      "optional_text 120 (ne_district ?k) = Inr (ne_district c)"
      "optional_text 300 (ne_public_meeting_area ?k) = Inr (ne_public_meeting_area c)"
      "optional_text 500 (ne_exact_address ?k) = Inr (ne_exact_address c)"
      "ne_latitude c = ne_latitude ?k"
      "ne_longitude c = ne_longitude ?k"
      "ne_exact_venue_is_public c = ne_exact_venue_is_public ?k"
      "ne_cover_media_id c = ne_cover_media_id ?k"
      using hc by (blast | simp)+
    have "unnamed_fields_kept p e e'"
      unfolding unnamed_fields_kept_def Let_def c(2) replace_fields_simps
      using hf [unfolded patch_candidate_def new_event.select_convs]
      by (intro conjI impI; simp add: patched_def nf)
    moreover have "event_normal zones e'"
    proof -
      have "ne_ownership_type c = ev_ownership_type e" "ne_club_id c = ev_club_id e"
        using hc by (metis new_event.select_convs patch_candidate_def)+
      moreover have "replace_fields e' c = e'" unfolding c(2) by (simp add: replace_fields_def)
      ultimately show ?thesis unfolding event_normal_def using c by auto
    qed
    ultimately show ?thesis using c(2) by simp
  qed
  moreover have "apply_event_patch zones e p = Inr e" if "ep_changed_fields p = []"
  proof -
    have "normalize_new_event zones (patch_candidate e p)
       = Inr (n\<lparr>ne_publish := False\<rparr>)"
    proof -
      have "patch_candidate e p = as_input (n\<lparr>ne_publish := False\<rparr>)"
        using that n(3,4) by (simp add: patch_candidate_def patched_def as_input_def f)
      moreover have "normalize_new_event zones (as_input (n\<lparr>ne_publish := False\<rparr>))
          = Inr (n\<lparr>ne_publish := False\<rparr>)"
        using hn by (simp add: normalize_new_event_Inr split: ownership_type.splits)
      ultimately show ?thesis by simp
    qed
    then show ?thesis using assms(2) that n(2)
      by (simp add: apply_event_patch_Inr replace_fields_def)
  qed
  ultimately show ?thesis by blast
qed

definition example_patch :: event_patch where
  "example_patch = \<lparr>ep_revision = 1, ep_changed_fields = [], ep_title = None, ep_description = None,
     ep_category_slug = None, ep_country_code = None, ep_city_slug = None, ep_start_at = None,
     ep_end_at = None, ep_time_zone = None, ep_capacity = None, ep_visibility = None,
     ep_registration_method = None, ep_cash_expiry_minutes = None,
     ep_cancellation_cutoff_minutes = None, ep_district = None, ep_public_meeting_area = None,
     ep_exact_address = None, ep_latitude = None, ep_longitude = None,
     ep_exact_venue_is_public = None, ep_cover_media_id = None, ep_publish = None\<rparr>"

definition example_draft :: "instant new_event \<Rightarrow> event" where
  "example_draft n = replace_fields
     \<lparr>ev_id = example_id 21, ev_ownership_type = Independent, ev_club_id = None,
      ev_owner_user_id = Some (example_id 1), ev_title = [], ev_description = [],
      ev_start_at = None, ev_end_at = None, ev_time_zone = None, ev_capacity = None,
      ev_visibility = Public, ev_status = EvDraft, ev_registration_method = None,
      ev_cash_expiry_minutes = None, ev_cancellation_cutoff_minutes = None, ev_district = None,
      ev_public_meeting_area = None, ev_exact_address = None, ev_latitude = None,
      ev_longitude = None, ev_exact_venue_is_public = False, ev_cover_media_id = None,
      ev_revision = 1, ev_published_at = None, ev_cancelled_at = None, ev_completed_at = None,
      ev_suspended_at = None, ev_suspension_reason = None, ev_created_at = 0, ev_updated_at = 0,
      ev_category_slug = None, ev_country_code = None, ev_city_slug = None\<rparr> n"

theorem event_patch_confined_witness:
  "\<exists>e. apply_event_patch (\<lambda>z. z = ''UTC'') e example_patch = Inr e \<and> ev_title e = ''Night walk''"
proof -
  obtain n where n: "normalize_new_event (\<lambda>z. z = ''UTC'') example_input = Inr n"
    "ne_title n = ''Night walk''" "ne_ownership_type n = Independent" "ne_club_id n = None"
    by (rule example_normalize)
  have "event_normal (\<lambda>z. z = ''UTC'') (example_draft n)"
    unfolding event_normal_def
    by (intro exI [of _ example_input] exI [of _ n]) (simp add: n example_draft_def replace_fields_def)
  then have "apply_event_patch (\<lambda>z. z = ''UTC'') (example_draft n) example_patch = Inr (example_draft n)"
    using event_patch_confined [of "\<lambda>z. z = ''UTC''" "example_draft n" example_patch]
    by (simp add: example_patch_def)
  then show ?thesis using n(2) by (auto simp: example_draft_def)
qed

end
