(* ===== verification/Registration_Model.thy ===== *)
theory Registration_Model
  imports Outbox
begin

section \<open>Registrations: the data and the state machine\<close>

text \<open>
  registrations/models.py and the pure functions of registrations/service.py. The row types
  \<open>Registration\<close> and \<open>RegistrationTransition\<close> are records of \<open>Schema\<close>. A command is
  polymorphic in its times: a \<open>datetime\<close> as given, an instant once normalised.
\<close>

record registration_context =
  cx_registration :: registration
  cx_event_status :: event_status
  cx_event_start_at :: "instant option"

record registration_mutation =
  mu_state :: registration_state
  mu_seat_held :: bool
  mu_waitlist_sequence :: "int option"
  mu_cash_expires_at :: "instant option"
  mu_confirmed_at :: "instant option"
  mu_cancelled_at :: "instant option"
  mu_expired_at :: "instant option"
  mu_cancellation_reason :: "string option"

record 't transition_command =
  tc_command_id :: uuid
  tc_registration_id :: uuid
  tc_target_state :: registration_state
  tc_actor_user_id :: "uuid option"
  tc_actor_kind :: actor_kind
  tc_reason_code :: string
  tc_occurred_at :: 't
  tc_request_id :: "uuid option"
  tc_cash_expires_at :: "'t option"

record transition_result =
  tr_registration :: registration
  tr_transition :: registration_transition

definition allowed_transitions :: "(registration_state \<times> registration_state) list" where
  "allowed_transitions =
     [(Confirmed, Cancelled), (CashPending, Confirmed), (CashPending, Cancelled),
      (CashPending, Expired), (Waitlisted, Confirmed), (Waitlisted, CashPending),
      (Waitlisted, Cancelled)]"

definition is_transition_allowed :: "registration_state \<Rightarrow> registration_state \<Rightarrow> bool" where
  "is_transition_allowed current target \<longleftrightarrow> List.member allowed_transitions (current, target)"

text \<open>\<open>^[a-z0-9_]{1,80}$\<close>\<close>

definition reason_code_ok :: "string \<Rightarrow> bool" where
  "reason_code_ok s \<longleftrightarrow> 1 \<le> length s \<and> length s \<le> 80 \<and>
     list_all (\<lambda>c. is_lower c \<or> is_digit c \<or> c = CHR ''_'') s"

definition registration_instant :: "string \<Rightarrow> datetime \<Rightarrow> py_error + instant" where
  "registration_instant field value =
     to_utc (RegistrationTransitionError (''invalid_'' @ field)) value"

definition normalize_command ::
  "datetime transition_command \<Rightarrow> py_error + instant transition_command" where
  "normalize_command c =
     (let transition_error = (\<lambda>code. Inl (RegistrationTransitionError code)) in
      if validate_uuid7 (tc_command_id c) \<noteq> Inr (tc_command_id c)
         \<or> validate_uuid7 (tc_registration_id c) \<noteq> Inr (tc_registration_id c)
      then transition_error ''invalid_registration_transition''
      else if tc_actor_kind c = System \<and> tc_actor_user_id c \<noteq> None
      then transition_error ''invalid_transition_actor''
      else if tc_actor_kind c \<noteq> System \<and> tc_actor_user_id c = None
      then transition_error ''invalid_transition_actor''
      else if \<not> reason_code_ok (tc_reason_code c)
      then transition_error ''invalid_transition_reason''
      else case registration_instant ''transition_time'' (tc_occurred_at c) of
        Inl e \<Rightarrow> Inl e
      | Inr occurred_at \<Rightarrow>
          (case (case tc_cash_expires_at c of
                   None \<Rightarrow> Inr None
                 | Some t \<Rightarrow> map_sum id Some (registration_instant ''cash_deadline'' t)) of
             Inl e \<Rightarrow> Inl e
           | Inr cash \<Rightarrow>
               if tc_target_state c = CashPending
                  \<and> (case cash of None \<Rightarrow> True | Some t \<Rightarrow> t \<le> occurred_at)
               then transition_error ''invalid_cash_deadline''
               else if tc_target_state c \<noteq> CashPending \<and> cash \<noteq> None
               then transition_error ''unexpected_cash_deadline''
               else Inr \<lparr>tc_command_id = tc_command_id c, tc_registration_id = tc_registration_id c,
                 tc_target_state = tc_target_state c, tc_actor_user_id = tc_actor_user_id c,
                 tc_actor_kind = tc_actor_kind c, tc_reason_code = tc_reason_code c,
                 tc_occurred_at = occurred_at, tc_request_id = tc_request_id c,
                 tc_cash_expires_at = cash\<rparr>))"

text \<open>The fingerprint; \<open>sha256\<close> is \<open>hashlib.sha256\<close>, from bytes to the 32-byte digest.\<close>

definition json_optional :: "('a \<Rightarrow> string) \<Rightarrow> 'a option \<Rightarrow> json" where
  "json_optional f v = (case v of None \<Rightarrow> JNull | Some x \<Rightarrow> JStr (f x))"

definition command_hash :: "(string \<Rightarrow> string) \<Rightarrow> instant transition_command \<Rightarrow> string" where
  "command_hash sha256 c =
     sha256 (json_dumps (JObj
        [(''actor_kind'', JStr (actor_kind_name (tc_actor_kind c))),
         (''actor_user_id'', json_optional uuid_str (tc_actor_user_id c)),
         (''cash_expires_at'', json_optional iso_utc (tc_cash_expires_at c)),
         (''occurred_at'', JStr (iso_utc (tc_occurred_at c))),
         (''reason_code'', JStr (tc_reason_code c)),
         (''registration_id'', JStr (uuid_str (tc_registration_id c))),
         (''request_id'', json_optional uuid_str (tc_request_id c)),
         (''target_state'', JStr (state_name (tc_target_state c)))]))"

definition mutation ::
  "registration \<Rightarrow> instant transition_command \<Rightarrow> py_error + registration_mutation" where
  "mutation current c =
     (case tc_target_state c of
        Confirmed \<Rightarrow> Inr \<lparr>mu_state = Confirmed, mu_seat_held = True, mu_waitlist_sequence = None,
          mu_cash_expires_at = None, mu_confirmed_at = Some (tc_occurred_at c),
          mu_cancelled_at = None, mu_expired_at = None, mu_cancellation_reason = None\<rparr>
      | CashPending \<Rightarrow> Inr \<lparr>mu_state = CashPending, mu_seat_held = True,
          mu_waitlist_sequence = None, mu_cash_expires_at = tc_cash_expires_at c,
          mu_confirmed_at = None, mu_cancelled_at = None, mu_expired_at = None,
          mu_cancellation_reason = None\<rparr>
      | Cancelled \<Rightarrow> Inr \<lparr>mu_state = Cancelled, mu_seat_held = False, mu_waitlist_sequence = None,
          mu_cash_expires_at = None, mu_confirmed_at = rg_confirmed_at current,
          mu_cancelled_at = Some (tc_occurred_at c), mu_expired_at = None,
          mu_cancellation_reason = Some (tc_reason_code c)\<rparr>
      | Expired \<Rightarrow> Inr \<lparr>mu_state = Expired, mu_seat_held = False, mu_waitlist_sequence = None,
          mu_cash_expires_at = rg_cash_expires_at current, mu_confirmed_at = None,
          mu_cancelled_at = None, mu_expired_at = Some (tc_occurred_at c),
          mu_cancellation_reason = None\<rparr>
      | Waitlisted \<Rightarrow> Inl (RegistrationTransitionError ''invalid_registration_transition''))"

definition new_transition_command ::
  "uuid \<Rightarrow> registration_state \<Rightarrow> uuid option \<Rightarrow> actor_kind \<Rightarrow> string \<Rightarrow> instant \<Rightarrow> uuid option
     \<Rightarrow> instant option \<Rightarrow> datetime transition_command txn" where
  "new_transition_command registration_id target actor_user_id actor_kind reason occurred_at
     request_id cash_expires_at =
     tx_bind fresh_uuid (\<lambda>command_id. tx_return
       \<lparr>tc_command_id = command_id, tc_registration_id = registration_id,
        tc_target_state = target, tc_actor_user_id = actor_user_id, tc_actor_kind = actor_kind,
        tc_reason_code = reason, tc_occurred_at = Aware occurred_at 0,
        tc_request_id = request_id,
        tc_cash_expires_at = map_option (\<lambda>t. Aware t 0) cash_expires_at\<rparr>)"

subsection \<open>The constraints of the table (0001 baseline and migration 0009)\<close>

definition seat_state_ok :: "registration \<Rightarrow> bool" where
  "seat_state_ok r \<longleftrightarrow>
     (case rg_state r of
        Confirmed \<Rightarrow> rg_seat_held r \<and> rg_confirmed_at r \<noteq> None \<and> rg_waitlist_sequence r = None
          \<and> rg_cash_expires_at r = None \<and> rg_cancelled_at r = None \<and> rg_expired_at r = None
      | CashPending \<Rightarrow> rg_seat_held r \<and> rg_method r = CashOrganizerConfirmed
          \<and> rg_cash_expires_at r \<noteq> None \<and> rg_waitlist_sequence r = None
          \<and> rg_confirmed_at r = None \<and> rg_cancelled_at r = None \<and> rg_expired_at r = None
      | Waitlisted \<Rightarrow> \<not> rg_seat_held r \<and> rg_waitlist_sequence r \<noteq> None
          \<and> rg_cash_expires_at r = None \<and> rg_confirmed_at r = None
          \<and> rg_cancelled_at r = None \<and> rg_expired_at r = None
      | Cancelled \<Rightarrow> \<not> rg_seat_held r \<and> rg_cancelled_at r \<noteq> None \<and> rg_waitlist_sequence r = None
          \<and> rg_cash_expires_at r = None \<and> rg_expired_at r = None
      | Expired \<Rightarrow> \<not> rg_seat_held r \<and> rg_method r = CashOrganizerConfirmed
          \<and> (case (rg_cash_expires_at r, rg_expired_at r) of
               (Some c, Some x) \<Rightarrow> c \<le> x | _ \<Rightarrow> False)
          \<and> rg_waitlist_sequence r = None \<and> rg_confirmed_at r = None \<and> rg_cancelled_at r = None)"

definition free_method_ok :: "registration \<Rightarrow> bool" where
  "free_method_ok r \<longleftrightarrow> rg_method r \<noteq> Free \<or> rg_cash_expires_at r = None"

definition waitlist_positive :: "registration \<Rightarrow> bool" where
  "waitlist_positive r \<longleftrightarrow> (case rg_waitlist_sequence r of None \<Rightarrow> True | Some n \<Rightarrow> 0 < n)"

definition active_state :: "registration_state \<Rightarrow> bool" where
  "active_state s \<longleftrightarrow> s \<in> {Confirmed, CashPending, Waitlisted}"

definition registration_constraints :: "registration list \<Rightarrow> registration \<Rightarrow> (string \<times> bool) list" where
  "registration_constraints others r =
     [(''ck_registrations_seat_state'', seat_state_ok r),
      (''ck_registrations_free_method'', free_method_ok r),
      (''ck_registrations_waitlist_sequence_positive'', waitlist_positive r),
      (''registrations_pkey'', \<not> row_exists (\<lambda>x. rg_id x = rg_id r) others),
      (''uq_registrations_active_member_event'', \<not> (active_state (rg_state r) \<and>
         row_exists (\<lambda>x. active_state (rg_state x) \<and> rg_event_id x = rg_event_id r
           \<and> rg_user_id x = rg_user_id r) others)),
      (''uq_registrations_waitlist_sequence'', \<not> (rg_state r = Waitlisted \<and>
         row_exists (\<lambda>x. rg_state x = Waitlisted \<and> rg_event_id x = rg_event_id r
           \<and> rg_waitlist_sequence x = rg_waitlist_sequence r
           \<and> rg_waitlist_sequence r \<noteq> None) others))]"

text \<open>
  The invariant these constraints keep for the whole table; \<open>wf_registrations\<close> is what the
  database guarantees of every committed state.
\<close>

definition row_ok :: "registration \<Rightarrow> bool" where
  "row_ok r \<longleftrightarrow> seat_state_ok r \<and> free_method_ok r \<and> waitlist_positive r"

definition wf_registrations :: "registration list \<Rightarrow> bool" where
  "wf_registrations rs \<longleftrightarrow> (\<forall>r \<in> set rs. row_ok r) \<and> distinct (map rg_id rs)
     \<and> (\<forall>r \<in> set rs. \<forall>x \<in> set rs. active_state (rg_state r) \<and> active_state (rg_state x)
          \<and> rg_event_id r = rg_event_id x \<and> rg_user_id r = rg_user_id x \<longrightarrow> r = x)
     \<and> (\<forall>r \<in> set rs. \<forall>x \<in> set rs. rg_state r = Waitlisted \<and> rg_state x = Waitlisted
          \<and> rg_event_id r = rg_event_id x \<and> rg_waitlist_sequence r = rg_waitlist_sequence x
          \<longrightarrow> r = x)"

subsection \<open>Facts about the state machine\<close>

lemma is_transition_allowed_simps [simp]:
  "is_transition_allowed Confirmed t \<longleftrightarrow> t = Cancelled"
  "is_transition_allowed CashPending t \<longleftrightarrow> t \<in> {Confirmed, Cancelled, Expired}"
  "is_transition_allowed Waitlisted t \<longleftrightarrow> t \<in> {Confirmed, CashPending, Cancelled}"
  "\<not> is_transition_allowed Cancelled t" "\<not> is_transition_allowed Expired t"
  by (cases t; simp add: is_transition_allowed_def allowed_transitions_def)+

lemma allowed_not_waitlisted: "is_transition_allowed s t \<Longrightarrow> t \<noteq> Waitlisted"
  by (cases s) auto

lemma allowed_from_active: "is_transition_allowed s t \<Longrightarrow> active_state s"
  by (cases s) (auto simp: active_state_def)

lemma allowed_changes: "is_transition_allowed s t \<Longrightarrow> s \<noteq> t"
  by (cases s) auto

lemma mutation_state: "mutation r c = Inr m \<Longrightarrow> mu_state m = tc_target_state c"
  by (auto simp: mutation_def split: registration_state.splits)

lemma mutation_total: "tc_target_state c \<noteq> Waitlisted \<Longrightarrow> \<exists>m. mutation r c = Inr m"
  by (auto simp: mutation_def split: registration_state.splits)

lemma normalize_command_Inr:
  assumes "normalize_command c = Inr c'"
  shows "tc_command_id c' = tc_command_id c" "is_uuid7 (tc_command_id c)"
    "tc_registration_id c' = tc_registration_id c" "tc_target_state c' = tc_target_state c"
    "tc_actor_user_id c' = tc_actor_user_id c" "tc_actor_kind c' = tc_actor_kind c"
    "tc_reason_code c' = tc_reason_code c" "reason_code_ok (tc_reason_code c)"
    "utc_instant (tc_occurred_at c) = Some (tc_occurred_at c')"
    "(tc_actor_kind c = System) = (tc_actor_user_id c = None)"
    "tc_target_state c = CashPending \<Longrightarrow> \<exists>t. tc_cash_expires_at c' = Some t \<and> tc_occurred_at c' < t"
    "tc_target_state c \<noteq> CashPending \<Longrightarrow> tc_cash_expires_at c' = None"
  using assms
  by (auto simp: normalize_command_def Let_def registration_instant_def split: if_splits sum.splits
      option.splits)

end
