(* ===== verification/Registration_Store.thy ===== *)
theory Registration_Store
  imports Registration_Model
begin

section \<open>Registrations: the repository (registrations/repository.py)\<close>

text \<open>
  The statements of \<open>RegistrationRepository\<close> over the tables. A row lock
  (\<open>FOR UPDATE\<close>) makes a transaction wait for the others that touch the row; the model
  runs transactions one after the other, so the lock clauses have no counterpart.
\<close>

record attendee =
  ad_registration :: registration
  ad_username :: string
  ad_display_name :: string

record attendee_summary =
  as_held :: int
  as_confirmed :: int
  as_cash_pending :: int
  as_waitlisted :: int
  as_cancelled :: int
  as_expired :: int

subsection \<open>Queries\<close>

definition get_active :: "uuid \<Rightarrow> uuid \<Rightarrow> registration option txn" where
  "get_active event_id user_id = tx_query (\<lambda>d. one_or_none
     (\<lambda>r. rg_event_id r = event_id \<and> rg_user_id r = user_id \<and> active_state (rg_state r))
     (t_registrations d))"

text \<open>\<open>ORDER BY waitlist_sequence, id LIMIT 1\<close>\<close>

definition waiting_for :: "uuid \<Rightarrow> registration \<Rightarrow> bool" where
  "waiting_for event_id r \<longleftrightarrow> rg_event_id r = event_id \<and> rg_state r = Waitlisted"

definition oldest_waitlisted :: "uuid \<Rightarrow> registration option txn" where
  "oldest_waitlisted event_id = tx_query (\<lambda>d. first_by
     (\<lambda>r. (rg_waitlist_sequence r, rg_id r)) (waiting_for event_id) (t_registrations d))"

definition get_for_event :: "uuid \<Rightarrow> uuid \<Rightarrow> registration option txn" where
  "get_for_event event_id registration_id = tx_query (\<lambda>d. one_or_none
     (\<lambda>r. rg_event_id r = event_id \<and> rg_id r = registration_id) (t_registrations d))"

text \<open>
  The search text is escaped, so \<open>LIKE '%' || search || '%'\<close> looks for it as a substring.
  \<open>(created_at, id)\<close> is unique per row, so reversing the ascending order is \<open>DESC\<close>.
\<close>

definition attendee_row :: "db \<Rightarrow> registration \<Rightarrow> attendee option" where
  "attendee_row d r = map_option (\<lambda>p. \<lparr>ad_registration = r, ad_username = pr_username p,
     ad_display_name = pr_display_name p\<rparr>)
     (one_or_none (\<lambda>p. pr_user_id p = rg_user_id r) (t_profiles d))"

definition attendee_matches ::
  "registration_state option \<Rightarrow> string option \<Rightarrow> instant option \<Rightarrow> uuid option \<Rightarrow> attendee \<Rightarrow> bool" where
  "attendee_matches state search after_created_at after_id a \<longleftrightarrow>
     (case state of None \<Rightarrow> True | Some s \<Rightarrow> rg_state (ad_registration a) = s)
     \<and> (case search of None \<Rightarrow> True
        | Some s \<Rightarrow> has_substring s (py_lower (ad_username a))
            \<or> has_substring s (py_lower (ad_display_name a)))
     \<and> (case after_created_at of None \<Rightarrow> True
        | Some t \<Rightarrow> (case after_id of
             None \<Rightarrow> rg_created_at (ad_registration a) < t
           | Some i \<Rightarrow> (rg_created_at (ad_registration a), rg_id (ad_registration a)) < (t, i)))"

definition list_attendees ::
  "uuid \<Rightarrow> registration_state option \<Rightarrow> string option \<Rightarrow> int \<Rightarrow> instant option \<Rightarrow> uuid option
     \<Rightarrow> attendee list txn" where
  "list_attendees event_id state search limit after_created_at after_id =
     tx_query (\<lambda>d. take (nat limit) (rev (select_by
       (\<lambda>a. (rg_created_at (ad_registration a), rg_id (ad_registration a)))
       (\<lambda>a. rg_event_id (ad_registration a) = event_id
            \<and> attendee_matches state search after_created_at after_id a)
       (List.map_filter (attendee_row d) (t_registrations d)))))"

definition read_attendee_summary :: "uuid \<Rightarrow> attendee_summary txn" where
  "read_attendee_summary event_id = tx_query (\<lambda>d.
     let count = (\<lambda>P. count_where (\<lambda>r. rg_event_id r = event_id \<and> P r) (t_registrations d)) in
     \<lparr>as_held = count rg_seat_held,
      as_confirmed = count (\<lambda>r. rg_state r = Confirmed),
      as_cash_pending = count (\<lambda>r. rg_state r = CashPending),
      as_waitlisted = count (\<lambda>r. rg_state r = Waitlisted),
      as_cancelled = count (\<lambda>r. rg_state r = Cancelled),
      as_expired = count (\<lambda>r. rg_state r = Expired)\<rparr>)"

definition held_seats :: "uuid \<Rightarrow> registration list \<Rightarrow> int" where
  "held_seats event_id rows = count_where (\<lambda>r. rg_event_id r = event_id \<and> rg_seat_held r) rows"

definition held_seat_count :: "uuid \<Rightarrow> int txn" where
  "held_seat_count event_id = tx_query (\<lambda>d. held_seats event_id (t_registrations d))"

text \<open>\<open>coalesce(max(waitlist_sequence), 0) + 1\<close>; \<open>max\<close> skips \<open>NULL\<close>.\<close>

definition max_or_zero :: "int list \<Rightarrow> int" where
  "max_or_zero xs = (case xs of [] \<Rightarrow> 0 | x # ys \<Rightarrow> fold max ys x)"

definition next_waitlist_sequence :: "uuid \<Rightarrow> int txn" where
  "next_waitlist_sequence event_id = tx_query (\<lambda>d.
     max_or_zero (List.map_filter rg_waitlist_sequence (filter (waiting_for event_id) (t_registrations d))) + 1)"

text \<open>\<open>get_context\<close> joins the event; a registration without one would not be found.\<close>

definition get_context :: "uuid \<Rightarrow> registration_context option txn" where
  "get_context registration_id = tx_query (\<lambda>d.
     case one_or_none (\<lambda>r. rg_id r = registration_id) (t_registrations d) of
       None \<Rightarrow> None
     | Some r \<Rightarrow> map_option (\<lambda>e. \<lparr>cx_registration = r, cx_event_status = ev_status e,
           cx_event_start_at = ev_start_at e\<rparr>)
         (one_or_none (\<lambda>e. ev_id e = rg_event_id r) (t_events d)))"

definition get_transition :: "uuid \<Rightarrow> registration_transition option txn" where
  "get_transition command_id = tx_query (\<lambda>d.
     one_or_none (\<lambda>t. rt_command_id t = command_id) (t_registration_transitions d))"

subsection \<open>Statements that write\<close>

definition transition_constraints ::
  "db \<Rightarrow> registration_transition \<Rightarrow> (string \<times> bool) list" where
  "transition_constraints d t =
     [(''registration_transitions_reason_code_check'', target_type_pattern (rt_reason_code t)),
      (''ck_registration_transition_changed'', rt_previous_state t \<noteq> Some (rt_new_state t)),
      (''ck_registration_transitions_command_hash'', length (rt_command_hash t) = 32),
      (''ck_registration_transitions_actor_shape'',
         (rt_actor_kind t = System) = (rt_actor_user_id t = None)),
      (''ck_registration_transitions_reason_length'',
         1 \<le> length (rt_reason_code t) \<and> length (rt_reason_code t) \<le> 80),
      (''registration_transitions_pkey'',
         \<not> row_exists (\<lambda>x. rt_id x = rt_id t) (t_registration_transitions d)),
      (''uq_registration_transitions_command_id'',
         \<not> row_exists (\<lambda>x. rt_command_id x = rt_command_id t) (t_registration_transitions d)),
      (''registration_transitions_registration_id_fkey'',
         row_exists (\<lambda>r. rg_id r = rt_registration_id t) (t_registrations d)),
      (''registration_transitions_actor_user_id_fkey'',
         (case rt_actor_user_id t of None \<Rightarrow> True
          | Some u \<Rightarrow> row_exists (\<lambda>x. us_id x = u) (t_users d)))]"

definition insert_registration :: "registration \<Rightarrow> registration txn" where
  "insert_registration r =
     tx_bind clock_timestamp (\<lambda>now.
     let r = r\<lparr>rg_created_at := now, rg_updated_at := now\<rparr> in
     tx_bind (tx_query id) (\<lambda>d.
     tx_bind (check_constraints (registration_constraints (t_registrations d) r)) (\<lambda>_.
     tx_bind (check_constraints
       [(''registrations_event_id_fkey'', row_exists (\<lambda>e. ev_id e = rg_event_id r) (t_events d)),
        (''registrations_user_id_fkey'', row_exists (\<lambda>u. us_id u = rg_user_id r) (t_users d))]) (\<lambda>_.
     tx_bind (tx_modify (\<lambda>d. d\<lparr>t_registrations := t_registrations d @ [r]\<rparr>)) (\<lambda>_.
     tx_return r)))))"

definition insert_transition :: "registration_transition \<Rightarrow> registration_transition txn" where
  "insert_transition t =
     tx_bind clock_timestamp (\<lambda>now.
     let t = t\<lparr>rt_created_at := now\<rparr> in
     tx_bind (tx_query id) (\<lambda>d.
     tx_bind (check_constraints (transition_constraints d t)) (\<lambda>_.
     tx_bind (tx_modify (\<lambda>d. d\<lparr>t_registration_transitions := t_registration_transitions d @ [t]\<rparr>)) (\<lambda>_.
     tx_return t))))"

text \<open>
  \<open>UPDATE ... WHERE id = ? AND state = ? RETURNING\<close>, with the \<open>set_updated_at\<close> trigger and
  the table's constraints against the other rows.
\<close>

definition update_registration ::
  "(registration \<Rightarrow> bool) \<Rightarrow> (registration \<Rightarrow> registration) \<Rightarrow> registration option txn" where
  "update_registration P f =
     tx_bind (tx_query t_registrations) (\<lambda>rows.
     case one_or_none P rows of
       None \<Rightarrow> tx_return None
     | Some r \<Rightarrow>
         tx_bind clock_timestamp (\<lambda>now.
         let r' = (f r)\<lparr>rg_updated_at := now\<rparr> in
         tx_bind (check_constraints
           (registration_constraints (delete_where (\<lambda>x. rg_id x = rg_id r) rows) r')) (\<lambda>_.
         tx_bind (tx_modify (\<lambda>d. d\<lparr>t_registrations :=
           update_where (\<lambda>x. rg_id x = rg_id r) (\<lambda>_. r') rows\<rparr>)) (\<lambda>_.
         tx_return (Some r')))))"

definition enqueue_cash_expiry :: "uuid \<Rightarrow> uuid \<Rightarrow> instant \<Rightarrow> unit txn" where
  "enqueue_cash_expiry registration_id event_id available_at =
     tx_bind fresh_uuid (\<lambda>i.
     tx_bind (insert_outbox_or_ignore (new_outbox_row i ''registration'' registration_id
       ''registration.cash_expiry_due''
       [(''registration_id'', JStr (uuid_str registration_id)), (''event_id'', JStr (uuid_str event_id))]
       (''registration.cash_expiry:'' @ uuid_str registration_id) available_at)) (\<lambda>_.
     tx_return ()))"

definition enqueue_attendee_export ::
  "uuid \<Rightarrow> uuid \<Rightarrow> registration_state option \<Rightarrow> string option \<Rightarrow> instant \<Rightarrow> unit txn" where
  "enqueue_attendee_export event_id request_id state search requested_at =
     tx_bind fresh_uuid (\<lambda>i.
     insert_outbox (new_outbox_row i ''event'' event_id ''attendees.export_requested''
       [(''request_id'', JStr (uuid_str request_id)), (''event_id'', JStr (uuid_str event_id)),
        (''state'', json_optional state_name state), (''search'', json_optional id search)]
       (''attendees.export:'' @ uuid_str request_id) requested_at))"

definition append_creation_records ::
  "uuid \<Rightarrow> uuid \<Rightarrow> string \<Rightarrow> uuid \<Rightarrow> uuid \<Rightarrow> registration_state \<Rightarrow> uuid \<Rightarrow> instant \<Rightarrow> unit txn" where
  "append_creation_records registration_id command_id hash event_id user_id state request_id occurred_at =
     (let reason_code = (if state = Waitlisted then ''member_waitlisted'' else ''member_registered'') in
      tx_bind fresh_uuid (\<lambda>i.
      tx_bind (insert_transition \<lparr>rt_id = i, rt_command_id = command_id, rt_command_hash = hash,
        rt_registration_id = registration_id, rt_actor_user_id = Some user_id,
        rt_actor_kind = Member, rt_previous_state = None, rt_new_state = state,
        rt_reason_code = reason_code, rt_request_id = Some request_id,
        rt_occurred_at = occurred_at, rt_created_at = 0\<rparr>) (\<lambda>_.
      tx_bind fresh_uuid (\<lambda>j.
      insert_outbox (new_outbox_row j ''registration'' registration_id
        (''registration.'' @ state_name state)
        [(''registration_id'', JStr (uuid_str registration_id)), (''event_id'', JStr (uuid_str event_id)),
         (''user_id'', JStr (uuid_str user_id)), (''state'', JStr (state_name state))]
        (''registration.created:'' @ uuid_str registration_id) occurred_at)))))"

definition create_registration ::
  "uuid \<Rightarrow> uuid \<Rightarrow> string \<Rightarrow> uuid \<Rightarrow> uuid \<Rightarrow> registration_method \<Rightarrow> registration_state \<Rightarrow> bool
     \<Rightarrow> int option \<Rightarrow> instant option \<Rightarrow> instant option \<Rightarrow> uuid \<Rightarrow> instant \<Rightarrow> registration txn" where
  "create_registration registration_id command_id hash event_id user_id method state seat_held
     waitlist_sequence cash_expires_at confirmed_at request_id occurred_at =
     tx_bind (insert_registration \<lparr>rg_id = registration_id, rg_event_id = event_id,
       rg_user_id = user_id, rg_method = method, rg_state = state, rg_seat_held = seat_held,
       rg_waitlist_sequence = waitlist_sequence, rg_cash_expires_at = cash_expires_at,
       rg_confirmed_at = confirmed_at, rg_cancelled_at = None, rg_expired_at = None,
       rg_cancellation_reason = None, rg_created_at = 0, rg_updated_at = 0\<rparr>) (\<lambda>row.
     tx_bind (append_creation_records registration_id command_id hash event_id user_id state
       request_id occurred_at) (\<lambda>_.
     tx_bind (case cash_expires_at of
         Some t \<Rightarrow> if state = CashPending then enqueue_cash_expiry registration_id event_id t
                  else tx_return ()
       | None \<Rightarrow> tx_return ()) (\<lambda>_.
     tx_return row)))"

definition apply_mutation :: "registration_mutation \<Rightarrow> registration \<Rightarrow> registration" where
  "apply_mutation m r = r\<lparr>rg_state := mu_state m, rg_seat_held := mu_seat_held m,
     rg_waitlist_sequence := mu_waitlist_sequence m, rg_cash_expires_at := mu_cash_expires_at m,
     rg_confirmed_at := mu_confirmed_at m, rg_cancelled_at := mu_cancelled_at m,
     rg_expired_at := mu_expired_at m, rg_cancellation_reason := mu_cancellation_reason m\<rparr>"

text \<open>
  \<open>apply_transition\<close> changes the row, then appends the history row and the outbox rows
  (\<open>record_transition\<close>, the second half of the method).
\<close>

definition record_transition ::
  "registration \<Rightarrow> instant transition_command \<Rightarrow> string \<Rightarrow> registration_mutation
     \<Rightarrow> registration_transition txn" where
  "record_transition current c hash m =
     tx_bind fresh_uuid (\<lambda>transition_id.
     tx_bind (insert_transition \<lparr>rt_id = transition_id, rt_command_id = tc_command_id c,
       rt_command_hash = hash, rt_registration_id = rg_id current,
       rt_actor_user_id = tc_actor_user_id c, rt_actor_kind = tc_actor_kind c,
       rt_previous_state = Some (rg_state current), rt_new_state = mu_state m,
       rt_reason_code = tc_reason_code c, rt_request_id = tc_request_id c,
       rt_occurred_at = tc_occurred_at c, rt_created_at = 0\<rparr>) (\<lambda>t.
     tx_bind fresh_uuid (\<lambda>j.
     tx_bind (insert_outbox (new_outbox_row j ''registration'' (rg_id current)
       (''registration.'' @ state_name (mu_state m))
       [(''registration_id'', JStr (uuid_str (rg_id current))),
        (''event_id'', JStr (uuid_str (rg_event_id current))),
        (''user_id'', JStr (uuid_str (rg_user_id current))),
        (''previous_state'', JStr (state_name (rg_state current))),
        (''state'', JStr (state_name (mu_state m))),
        (''reason_code'', JStr (tc_reason_code c))]
       (''registration.transition:'' @ uuid_str (tc_command_id c)) (tc_occurred_at c))) (\<lambda>_.
     tx_bind (case mu_cash_expires_at m of
         Some t \<Rightarrow> if mu_state m = CashPending
           then enqueue_cash_expiry (rg_id current) (rg_event_id current) t else tx_return ()
       | None \<Rightarrow> tx_return ()) (\<lambda>_.
     tx_return t)))))"

definition apply_transition ::
  "registration \<Rightarrow> instant transition_command \<Rightarrow> string \<Rightarrow> registration_mutation
     \<Rightarrow> transition_result txn" where
  "apply_transition current c hash m =
     tx_bind (update_registration
       (\<lambda>r. rg_id r = rg_id current \<and> rg_state r = rg_state current) (apply_mutation m)) (\<lambda>found.
     case found of
       None \<Rightarrow> tx_raise (RegistrationTransitionError ''registration_state_changed'')
     | Some row \<Rightarrow>
         tx_bind (record_transition current c hash m) (\<lambda>t.
         tx_return \<lparr>tr_registration = row, tr_transition = t\<rparr>))"

subsection \<open>What the statements do\<close>

lemma registration_constraints_ok:
  "first_violation (registration_constraints others r) = None \<longleftrightarrow>
     row_ok r \<and> (\<forall>x \<in> set others. rg_id x \<noteq> rg_id r)
     \<and> (active_state (rg_state r) \<longrightarrow> (\<forall>x \<in> set others. \<not> (active_state (rg_state x)
          \<and> rg_event_id x = rg_event_id r \<and> rg_user_id x = rg_user_id r)))
     \<and> (rg_state r = Waitlisted \<longrightarrow> (\<forall>x \<in> set others. \<not> (rg_state x = Waitlisted
          \<and> rg_event_id x = rg_event_id r \<and> rg_waitlist_sequence x = rg_waitlist_sequence r
          \<and> rg_waitlist_sequence r \<noteq> None)))"
  unfolding registration_constraints_def row_ok_def row_exists_iff first_violation.simps
  by (simp only: if_split_eq1 option.distinct simp_thms) blast

lemma row_ok_waitlisted: "row_ok r \<Longrightarrow> rg_state r = Waitlisted \<Longrightarrow> rg_waitlist_sequence r \<noteq> None"
  by (simp add: row_ok_def seat_state_ok_def)

lemma row_ok_seat: "row_ok r \<Longrightarrow> rg_seat_held r \<longleftrightarrow> rg_state r \<in> {Confirmed, CashPending}"
  by (cases "rg_state r") (auto simp: row_ok_def seat_state_ok_def)

lemma wf_registrations_append:
  assumes "wf_registrations rs" "first_violation (registration_constraints rs r) = None"
  shows "wf_registrations (rs @ [r])"
proof -
  note c = assms(2) [unfolded registration_constraints_ok] and w = assms(1) [unfolded wf_registrations_def]
  note ca = c [THEN conjunct2, THEN conjunct2, THEN conjunct1, rule_format]
    and cw = c [THEN conjunct2, THEN conjunct2, THEN conjunct2, rule_format]
    and wa = w [THEN conjunct2, THEN conjunct2, THEN conjunct1, rule_format]
    and ww = w [THEN conjunct2, THEN conjunct2, THEN conjunct2, rule_format]
  have mem: "x \<in> set (rs @ [r]) \<longleftrightarrow> x \<in> set rs \<or> x = r" for x by auto
  have seq: "rg_waitlist_sequence x \<noteq> None" if "x \<in> set (rs @ [r])" "rg_state x = Waitlisted" for x
    using that c [THEN conjunct1] w [THEN conjunct1] row_ok_waitlisted unfolding mem by blast
  have "\<forall>x \<in> set (rs @ [r]). row_ok x" using c [THEN conjunct1] w [THEN conjunct1] by simp
  moreover have "distinct (map rg_id (rs @ [r]))"
    using c [THEN conjunct2, THEN conjunct1] w [THEN conjunct2, THEN conjunct1] by auto
  moreover have "x = y" if xy: "x \<in> set (rs @ [r])" "y \<in> set (rs @ [r])" "active_state (rg_state x)"
      "active_state (rg_state y)" "rg_event_id x = rg_event_id y" "rg_user_id x = rg_user_id y" for x y
  proof -
    from xy(1,2) consider "x \<in> set rs" "y \<in> set rs" | "x \<in> set rs" "y = r" | "x = r" "y \<in> set rs" | "x = y"
      by auto
    then show ?thesis
    proof cases
      case 1 then show ?thesis using wa [of x y] xy(3-) by simp
    next
      case 2 then show ?thesis using ca [of x] xy(3-) by simp
    next
      case 3 then show ?thesis using ca [of y] xy(3-) by simp
    qed
  qed
  moreover have "x = y" if xy: "x \<in> set (rs @ [r])" "y \<in> set (rs @ [r])" "rg_state x = Waitlisted"
      "rg_state y = Waitlisted" "rg_event_id x = rg_event_id y"
      "rg_waitlist_sequence x = rg_waitlist_sequence y" for x y
  proof -
    from xy(1,2) consider "x \<in> set rs" "y \<in> set rs" | "x \<in> set rs" "y = r" | "x = r" "y \<in> set rs" | "x = y"
      by auto
    then show ?thesis
    proof cases
      case 1 then show ?thesis using ww [of x y] xy(3-) by simp
    next
      case 2 then show ?thesis using cw [of x] xy(3-) seq [OF xy(1,3)] by simp
    next
      case 3 then show ?thesis using cw [of y] xy(3-) seq [OF xy(2,4)] by simp
    qed
  qed
  ultimately show ?thesis unfolding wf_registrations_def by blast
qed

lemma in_update_row:
  assumes "distinct (map rg_id rs)" "r \<in> set rs"
    and "x \<in> set (update_where (\<lambda>x. rg_id x = rg_id r) (\<lambda>_. r') rs)"
  shows "x = r' \<or> (x \<in> set rs \<and> x \<noteq> r \<and> x \<in> set (delete_where (\<lambda>x. rg_id x = rg_id r) rs))"
  using assms(3)
proof (rule in_update_where)
  fix p assume "p \<in> set rs" "x = (if rg_id p = rg_id r then r' else p)"
  then show ?thesis by (auto simp: delete_where_def)
qed

lemma wf_registrations_update:
  assumes wf: "wf_registrations rs" and r: "r \<in> set rs" "rg_id r' = rg_id r"
    and ok: "first_violation (registration_constraints
      (delete_where (\<lambda>x. rg_id x = rg_id r) rs) r') = None"
  shows "wf_registrations (update_where (\<lambda>x. rg_id x = rg_id r) (\<lambda>_. r') rs)"
    (is "wf_registrations ?rs")
proof -
  let ?others = "delete_where (\<lambda>x. rg_id x = rg_id r) rs"
  have dist: "distinct (map rg_id rs)" using wf by (simp add: wf_registrations_def)
  have mem: "x = r' \<or> (x \<in> set rs \<and> x \<in> set ?others)" if "x \<in> set ?rs" for x
    using in_update_row [OF dist r(1) that] by blast
  note c = ok [unfolded registration_constraints_ok] and w = wf [unfolded wf_registrations_def]
  note ca = c [THEN conjunct2, THEN conjunct2, THEN conjunct1, rule_format]
    and cw = c [THEN conjunct2, THEN conjunct2, THEN conjunct2, rule_format]
    and wa = w [THEN conjunct2, THEN conjunct2, THEN conjunct1, rule_format]
    and ww = w [THEN conjunct2, THEN conjunct2, THEN conjunct2, rule_format]
  have "map rg_id ?rs = map rg_id rs" using r(2) by (intro map_update_where) simp
  moreover have "\<forall>x \<in> set ?rs. row_ok x"
    using mem c [THEN conjunct1] w [THEN conjunct1] by blast
  moreover have "x = y" if xy: "x \<in> set ?rs" "y \<in> set ?rs" "active_state (rg_state x)"
      "active_state (rg_state y)" "rg_event_id x = rg_event_id y" "rg_user_id x = rg_user_id y" for x y
  proof -
    from mem [OF xy(1)] mem [OF xy(2)]
    consider "x \<in> set rs" "y \<in> set rs" | "x \<in> set ?others" "y = r'" | "x = r'" "y \<in> set ?others" | "x = y"
      by blast
    then show ?thesis
    proof cases
      case 1 then show ?thesis using wa [of x y] xy(3-) by simp
    next
      case 2 then show ?thesis using ca [of x] xy(3-) by simp
    next
      case 3 then show ?thesis using ca [of y] xy(3-) by simp
    qed
  qed
  moreover have "x = y" if xy: "x \<in> set ?rs" "y \<in> set ?rs" "rg_state x = Waitlisted"
      "rg_state y = Waitlisted" "rg_event_id x = rg_event_id y"
      "rg_waitlist_sequence x = rg_waitlist_sequence y" for x y
  proof -
    have "row_ok x" "row_ok y" using mem [OF xy(1)] mem [OF xy(2)] c [THEN conjunct1] w [THEN conjunct1] by blast+
    then have seq: "rg_waitlist_sequence x \<noteq> None" "rg_waitlist_sequence y \<noteq> None"
      using xy(3,4) row_ok_waitlisted by auto
    from mem [OF xy(1)] mem [OF xy(2)]
    consider "x \<in> set rs" "y \<in> set rs" | "x \<in> set ?others" "y = r'" | "x = r'" "y \<in> set ?others" | "x = y"
      by blast
    then show ?thesis
    proof cases
      case 1 then show ?thesis using ww [of x y] xy(3-) by simp
    next
      case 2 then show ?thesis using cw [of x] xy(3-) seq by simp
    next
      case 3 then show ?thesis using cw [of y] xy(3-) seq by simp
    qed
  qed
  ultimately show ?thesis using dist unfolding wf_registrations_def by simp
qed

text \<open>
  The tables a registration transaction may write: those of registrations, their history,
  the outbox and the audit log.
\<close>

definition registration_frame :: "db \<Rightarrow> db \<Rightarrow> bool" where
  "registration_frame d d' \<longleftrightarrow> (\<exists>rs ts os au n m. d' = d\<lparr>t_registrations := rs,
     t_registration_transitions := ts, t_outbox_events := os, t_audit_events := au,
     entropy_pos := n, clock_pos := m\<rparr>)"

lemma registration_frame_refl [simp]: "registration_frame d d"
  unfolding registration_frame_def
  by (intro exI [of _ "t_registrations d"] exI [of _ "t_registration_transitions d"]
    exI [of _ "t_outbox_events d"] exI [of _ "t_audit_events d"] exI [of _ "entropy_pos d"]
    exI [of _ "clock_pos d"]) simp

lemma registration_frame_trans:
  "registration_frame d d' \<Longrightarrow> registration_frame d' d'' \<Longrightarrow> registration_frame d d''"
  unfolding registration_frame_def by (elim exE) (simp, blast)

lemma registration_frame_simps:
  assumes "registration_frame d d'"
  shows "t_events d' = t_events d" "t_users d' = t_users d" "t_profiles d' = t_profiles d"
    "t_clubs d' = t_clubs d" "t_club_memberships d' = t_club_memberships d"
    "t_event_invite_tokens d' = t_event_invite_tokens d"
    "t_regional_policies d' = t_regional_policies d" "t_countries d' = t_countries d"
    "t_cities d' = t_cities d" "t_user_mfa_factors d' = t_user_mfa_factors d"
    "t_platform_settings d' = t_platform_settings d" "t_categories d' = t_categories d"
    "t_media_assets d' = t_media_assets d" "t_saved_events d' = t_saved_events d" "entropy_at d' = entropy_at d"
    "clock_at d' = clock_at d"
  using assms by (auto simp: registration_frame_def)

lemma audit_frame_registration: "audit_frame d d' \<Longrightarrow> registration_frame d d'"
  unfolding audit_frame_def registration_frame_def
proof (elim exE conjE)
  fix rows n m
  assume "d' = d\<lparr>t_audit_events := t_audit_events d @ rows, entropy_pos := n, clock_pos := m\<rparr>"
  then have "d' = d\<lparr>t_registrations := t_registrations d,
     t_registration_transitions := t_registration_transitions d,
     t_outbox_events := t_outbox_events d, t_audit_events := t_audit_events d @ rows,
     entropy_pos := n, clock_pos := m\<rparr>" by simp
  then show "\<exists>rs ts os au n m. d' = d\<lparr>t_registrations := rs,
     t_registration_transitions := ts, t_outbox_events := os, t_audit_events := au,
     entropy_pos := n, clock_pos := m\<rparr>" by blast
qed

lemma insert_outbox_effect:
  assumes "insert_outbox row d = Inr (x, d')"
  shows "d' = d\<lparr>t_outbox_events := t_outbox_events d @ [row\<lparr>ob_created_at := clock_at d (clock_pos d)\<rparr>],
    clock_pos := Suc (clock_pos d)\<rparr>"
  using assms by (auto simp: insert_outbox_def tx_simps Let_def)

lemma enqueue_cash_expiry_effect:
  assumes "enqueue_cash_expiry i e t d = Inr (u, d')"
  shows "\<exists>rows n m. d' = d\<lparr>t_outbox_events := t_outbox_events d @ rows, entropy_pos := n, clock_pos := m\<rparr>"
proof -
  from assms obtain u x d2 where x: "d2 = d\<lparr>entropy_pos := Suc (entropy_pos d)\<rparr>"
      "insert_outbox_or_ignore (new_outbox_row u ''registration'' i ''registration.cash_expiry_due''
         [(''registration_id'', JStr (uuid_str i)), (''event_id'', JStr (uuid_str e))]
         (''registration.cash_expiry:'' @ uuid_str i) t) d2 = Inr (x, d')"
    by (auto simp: enqueue_cash_expiry_def tx_simps)
  then consider "d' = d2" | row where "insert_outbox row d2 = Inr ((), d')"
    by (auto simp: insert_outbox_or_ignore_def tx_simps split: if_splits)
  then show ?thesis
  proof cases
    case 1
    then have "d' = d\<lparr>t_outbox_events := t_outbox_events d @ [],
        entropy_pos := Suc (entropy_pos d), clock_pos := clock_pos d\<rparr>" using x(1) by simp
    then show ?thesis by blast
  next
    case (2 row)
    then have "d' = d\<lparr>t_outbox_events := t_outbox_events d @ [row\<lparr>ob_created_at := clock_at d (clock_pos d)\<rparr>],
        entropy_pos := Suc (entropy_pos d), clock_pos := Suc (clock_pos d)\<rparr>"
      using insert_outbox_effect [OF 2] x(1) by simp
    then show ?thesis by blast
  qed
qed

lemma insert_transition_effect:
  assumes "insert_transition t d = Inr (t', d')"
  shows "t' = t\<lparr>rt_created_at := clock_at d (clock_pos d)\<rparr>"
    and "d' = d\<lparr>t_registration_transitions := t_registration_transitions d @ [t'],
      clock_pos := Suc (clock_pos d)\<rparr>"
    and "\<forall>x \<in> set (t_registration_transitions d). rt_command_id x \<noteq> rt_command_id t"
    and "\<exists>r \<in> set (t_registrations d). rg_id r = rt_registration_id t"
  using assms
  by (auto simp: insert_transition_def tx_simps Let_def transition_constraints_def row_exists_iff
      split: if_splits)

lemma insert_registration_effect:
  assumes "insert_registration r d = Inr (row, d')"
  shows "\<exists>t. row = r\<lparr>rg_created_at := t, rg_updated_at := t\<rparr>"
    and "d' = d\<lparr>t_registrations := t_registrations d @ [row], clock_pos := Suc (clock_pos d)\<rparr>"
    and "first_violation (registration_constraints (t_registrations d) row) = None"
  using assms by (auto simp: insert_registration_def tx_simps Let_def)

lemma update_registration_effect:
  assumes "update_registration P f d = Inr (Some row, d')"
  obtains r t where "one_or_none P (t_registrations d) = Some r"
    "row = (f r)\<lparr>rg_updated_at := t\<rparr>"
    "first_violation (registration_constraints
       (delete_where (\<lambda>x. rg_id x = rg_id r) (t_registrations d)) row) = None"
    "d' = d\<lparr>t_registrations := update_where (\<lambda>x. rg_id x = rg_id r) (\<lambda>_. row) (t_registrations d),
       clock_pos := Suc (clock_pos d)\<rparr>"
proof (cases "one_or_none P (t_registrations d)")
  case None
  then show ?thesis using assms by (simp add: update_registration_def tx_simps)
next
  case (Some r)
  let ?row = "(f r)\<lparr>rg_updated_at := clock_at d (clock_pos d)\<rparr>"
  have "row = ?row \<and> first_violation (registration_constraints
       (delete_where (\<lambda>x. rg_id x = rg_id r) (t_registrations d)) ?row) = None
     \<and> d' = d\<lparr>t_registrations := update_where (\<lambda>x. rg_id x = rg_id r) (\<lambda>_. ?row) (t_registrations d),
       clock_pos := Suc (clock_pos d)\<rparr>"
    using assms unfolding update_registration_def tx_simps Let_def
    by (clarsimp simp: Some tx_simps)
  then show ?thesis using that Some by blast
qed

text \<open>
  The history row a transition appends, and the effect of \<open>apply_transition\<close> as a whole.
\<close>

definition history_row ::
  "registration \<Rightarrow> instant transition_command \<Rightarrow> string \<Rightarrow> registration_state \<Rightarrow> registration_transition \<Rightarrow> bool" where
  "history_row current c hash target t \<longleftrightarrow> rt_command_id t = tc_command_id c
     \<and> rt_command_hash t = hash \<and> rt_registration_id t = rg_id current
     \<and> rt_previous_state t = Some (rg_state current) \<and> rt_new_state t = target
     \<and> rt_reason_code t = tc_reason_code c \<and> rt_occurred_at t = tc_occurred_at c
     \<and> rt_actor_user_id t = tc_actor_user_id c \<and> rt_actor_kind t = tc_actor_kind c"

lemma cash_expiry_case_effect:
  assumes "(case mu_cash_expires_at m of
       Some t \<Rightarrow> if mu_state m = CashPending then enqueue_cash_expiry i e t else tx_return ()
     | None \<Rightarrow> tx_return ()) d = Inr (u, d')"
  shows "\<exists>rows n k. d' = d\<lparr>t_outbox_events := t_outbox_events d @ rows, entropy_pos := n, clock_pos := k\<rparr>"
proof (cases "\<exists>x. mu_cash_expires_at m = Some x \<and> mu_state m = CashPending")
  case True
  then show ?thesis using assms enqueue_cash_expiry_effect by auto
next
  case False
  then have "d' = d\<lparr>t_outbox_events := t_outbox_events d @ [], entropy_pos := entropy_pos d,
      clock_pos := clock_pos d\<rparr>"
    using assms by (auto simp: tx_simps split: option.splits if_splits)
  then show ?thesis by blast
qed

lemma record_transition_effect:
  assumes "record_transition current c hash m d = Inr (t, d')"
  shows "history_row current c hash (mu_state m) t"
    and "\<forall>x \<in> set (t_registration_transitions d). rt_command_id x \<noteq> tc_command_id c"
    and "\<exists>outs n k. d' = d\<lparr>t_registration_transitions := t_registration_transitions d @ [t],
       t_outbox_events := t_outbox_events d @ outs, entropy_pos := n, clock_pos := k\<rparr>"
proof -
  from assms obtain u d2 d3 ob and x1 x2 :: unit where
    s2: "insert_transition \<lparr>rt_id = u, rt_command_id = tc_command_id c,
       rt_command_hash = hash, rt_registration_id = rg_id current,
       rt_actor_user_id = tc_actor_user_id c, rt_actor_kind = tc_actor_kind c,
       rt_previous_state = Some (rg_state current), rt_new_state = mu_state m,
       rt_reason_code = tc_reason_code c, rt_request_id = tc_request_id c,
       rt_occurred_at = tc_occurred_at c, rt_created_at = 0\<rparr>
         (d\<lparr>entropy_pos := Suc (entropy_pos d)\<rparr>) = Inr (t, d2)"
    and s3: "insert_outbox ob (d2\<lparr>entropy_pos := Suc (entropy_pos d2)\<rparr>) = Inr (x1, d3)"
    and s4: "(case mu_cash_expires_at m of
         Some t \<Rightarrow> if mu_state m = CashPending
           then enqueue_cash_expiry (rg_id current) (rg_event_id current) t else tx_return ()
       | None \<Rightarrow> tx_return ()) d3 = Inr (x2, d')"
    unfolding record_transition_def by (elim tx_bindE) (auto simp only: fresh_uuid_eq tx_return_eq prod.inject)
  note t = insert_transition_effect [OF s2]
  show "history_row current c hash (mu_state m) t" unfolding history_row_def t(1) by simp
  show "\<forall>x \<in> set (t_registration_transitions d). rt_command_id x \<noteq> tc_command_id c"
    using t(3) by simp
  obtain rows n k where
    "d' = d3\<lparr>t_outbox_events := t_outbox_events d3 @ rows, entropy_pos := n, clock_pos := k\<rparr>"
    using cash_expiry_case_effect [OF s4] by blast
  then have "d' = d\<lparr>t_registration_transitions := t_registration_transitions d @ [t],
       t_outbox_events := t_outbox_events d @ (ob\<lparr>ob_created_at := clock_at d2 (clock_pos d2)\<rparr> # rows),
       entropy_pos := n, clock_pos := k\<rparr>"
    using insert_outbox_effect [OF s3] t(2) by simp
  then show "\<exists>outs n k. d' = d\<lparr>t_registration_transitions := t_registration_transitions d @ [t],
       t_outbox_events := t_outbox_events d @ outs, entropy_pos := n, clock_pos := k\<rparr>" by blast
qed

lemma apply_transition_effect:
  assumes "apply_transition current c hash m d = Inr (res, d')"
  obtains r t outs n k where
    "one_or_none (\<lambda>r. rg_id r = rg_id current \<and> rg_state r = rg_state current) (t_registrations d) = Some r"
    "tr_registration res = (apply_mutation m r)\<lparr>rg_updated_at := t\<rparr>"
    "first_violation (registration_constraints
       (delete_where (\<lambda>x. rg_id x = rg_id r) (t_registrations d)) (tr_registration res)) = None"
    "history_row current c hash (mu_state m) (tr_transition res)"
    "\<forall>x \<in> set (t_registration_transitions d). rt_command_id x \<noteq> tc_command_id c"
    "d' = d\<lparr>t_registrations := update_where (\<lambda>x. rg_id x = rg_id r) (\<lambda>_. tr_registration res) (t_registrations d),
       t_registration_transitions := t_registration_transitions d @ [tr_transition res],
       t_outbox_events := t_outbox_events d @ outs, entropy_pos := n, clock_pos := k\<rparr>"
proof -
  let ?P = "\<lambda>r. rg_id r = rg_id current \<and> rg_state r = rg_state current"
  from assms obtain found d1 where
    s1: "update_registration ?P (apply_mutation m) d = Inr (found, d1)"
    and rest: "(case found of
       None \<Rightarrow> tx_raise (RegistrationTransitionError ''registration_state_changed'')
     | Some row \<Rightarrow>
         tx_bind (record_transition current c hash m) (\<lambda>t.
         tx_return \<lparr>tr_registration = row, tr_transition = t\<rparr>)) d1 = Inr (res, d')"
    unfolding apply_transition_def by (rule tx_bindE)
  from rest obtain row where found: "found = Some row" by (cases found) (auto simp: tx_simps)
  from rest [unfolded found] obtain tr where s2: "record_transition current c hash m d1 = Inr (tr, d')"
    and res: "res = \<lparr>tr_registration = row, tr_transition = tr\<rparr>" by (auto simp: tx_simps)
  obtain r t where r: "one_or_none ?P (t_registrations d) = Some r"
    "row = (apply_mutation m r)\<lparr>rg_updated_at := t\<rparr>"
    "first_violation (registration_constraints
       (delete_where (\<lambda>x. rg_id x = rg_id r) (t_registrations d)) row) = None"
    "d1 = d\<lparr>t_registrations := update_where (\<lambda>x. rg_id x = rg_id r) (\<lambda>_. row) (t_registrations d),
       clock_pos := Suc (clock_pos d)\<rparr>"
    by (rule update_registration_effect [OF s1 [unfolded found]])
  obtain outs n k where "d' = d1\<lparr>t_registration_transitions := t_registration_transitions d1 @ [tr],
       t_outbox_events := t_outbox_events d1 @ outs, entropy_pos := n, clock_pos := k\<rparr>"
    using record_transition_effect(3) [OF s2] by blast
  then have d': "d' = d\<lparr>t_registrations := update_where (\<lambda>x. rg_id x = rg_id r) (\<lambda>_. row) (t_registrations d),
       t_registration_transitions := t_registration_transitions d @ [tr],
       t_outbox_events := t_outbox_events d @ outs, entropy_pos := n, clock_pos := k\<rparr>"
    using r(4) by simp
  show ?thesis
    by (rule that [where r = r and t = t and outs = outs and n = n and k = k])
       (use r d' res record_transition_effect(1,2) [OF s2] in simp_all)
qed

end
