(* ===== verification/Event_Store.thy ===== *)
theory Event_Store
  imports Event_Model Registration_Store
begin

section \<open>Events: the repository (events/repository.py)\<close>

text \<open>
  A stored row refers to its category, country and city by identifier; an \<open>Event\<close> carries the
  joined slug or code. \<open>numeric(9,6)\<close> coordinates are kept as they are given.
\<close>

record event_references =
  er_category_id :: "uuid option"
  er_country_id :: "uuid option"
  er_city_id :: "uuid option"

definition repo_invalid :: py_error where
  "repo_invalid = ApiError ''invalid_event'' ''errors.validation'' 422"

definition stale_revision :: py_error where
  "stale_revision = ApiError ''stale_revision'' ''errors.conflict'' 409"

definition core_of :: "'e event_core_scheme \<Rightarrow> event_core" where
  "core_of e = event_core.truncate e"

definition event_of_row :: "db \<Rightarrow> event_row \<Rightarrow> event" where
  "event_of_row d r = event_core.extend (core_of r) (event.fields
     (Option.bind (ev_category_id r) (\<lambda>i. map_option ca_slug
        (one_or_none (\<lambda>c. ca_id c = i) (t_categories d))))
     (Option.bind (ev_country_id r) (\<lambda>i. map_option (\<lambda>c. py_strip (co_code c))
        (one_or_none (\<lambda>c. co_id c = i) (t_countries d))))
     (Option.bind (ev_city_id r) (\<lambda>i. map_option ci_slug
        (one_or_none (\<lambda>c. ci_id c = i) (t_cities d)))))"

text \<open>\<open>_parameters\<close>: the row of an event with its references.\<close>

definition row_of_event :: "event \<Rightarrow> event_references \<Rightarrow> event_row" where
  "row_of_event e refs = event_core.extend (core_of e) (event_row.fields
     (er_category_id refs) (er_country_id refs) (er_city_id refs))"

lemma event_of_row_simps [simp]:
  "ev_id (event_of_row d r) = ev_id r" "ev_status (event_of_row d r) = ev_status r"
  "ev_ownership_type (event_of_row d r) = ev_ownership_type r"
  "ev_club_id (event_of_row d r) = ev_club_id r" "ev_owner_user_id (event_of_row d r) = ev_owner_user_id r"
  "ev_start_at (event_of_row d r) = ev_start_at r" "ev_end_at (event_of_row d r) = ev_end_at r"
  "ev_capacity (event_of_row d r) = ev_capacity r" "ev_visibility (event_of_row d r) = ev_visibility r"
  "ev_registration_method (event_of_row d r) = ev_registration_method r"
  "ev_cash_expiry_minutes (event_of_row d r) = ev_cash_expiry_minutes r"
  "ev_cancellation_cutoff_minutes (event_of_row d r) = ev_cancellation_cutoff_minutes r"
  "ev_suspended_at (event_of_row d r) = ev_suspended_at r" "ev_revision (event_of_row d r) = ev_revision r"
  "ev_updated_at (event_of_row d r) = ev_updated_at r" "ev_published_at (event_of_row d r) = ev_published_at r"
  by (simp_all add: event_of_row_def core_of_def event_core.defs event.defs)

lemma core_of_event_of_row [simp]: "core_of (event_of_row d r) = core_of r"
  by (simp add: event_of_row_def core_of_def event_core.defs event.defs)

lemma core_of_row_of_event [simp]: "core_of (row_of_event e refs) = core_of e"
  by (simp add: row_of_event_def core_of_def event_core.defs event_row.defs)

subsection \<open>Constraints (0001 baseline and migration 0008)\<close>

definition sql_btrim :: "string \<Rightarrow> string" where
  "sql_btrim s = rev (dropWhile (\<lambda>c. c = CHR '' '') (rev (dropWhile (\<lambda>c. c = CHR '' '') s)))"

text \<open>\<open>^(UTC|[A-Za-z_]+(?:/[A-Za-z0-9_+\-]+)+)$\<close>\<close>

definition time_zone_pattern :: "string \<Rightarrow> bool" where
  "time_zone_pattern s \<longleftrightarrow> s = ''UTC'' \<or>
     (case split_on CHR ''/'' s of
        [] \<Rightarrow> False
      | area # rest \<Rightarrow> area \<noteq> [] \<and> list_all (\<lambda>c. py_alpha c \<or> c = CHR ''_'') area \<and> rest \<noteq> []
          \<and> list_all (\<lambda>p. p \<noteq> [] \<and> list_all (\<lambda>c. py_alnum c \<or> c = CHR ''_'' \<or> c = CHR ''+''
              \<or> c = CHR ''-'') p) rest)"

definition absent_or :: "('a \<Rightarrow> bool) \<Rightarrow> 'a option \<Rightarrow> bool" where
  "absent_or P x \<longleftrightarrow> (case x of None \<Rightarrow> True | Some v \<Rightarrow> P v)"

definition event_checks :: "event_row \<Rightarrow> (string \<times> bool) list" where
  "event_checks r =
     [(''events_title_check'', 2 \<le> len (sql_btrim (ev_title r)) \<and> len (sql_btrim (ev_title r)) \<le> 160),
      (''events_description_check'', len (ev_description r) \<le> 20000),
      (''events_time_zone_check'', absent_or time_zone_pattern (ev_time_zone r)),
      (''events_capacity_check'', absent_or (\<lambda>c. 0 < c) (ev_capacity r)),
      (''events_cash_expiry_minutes_check'', absent_or (\<lambda>m. 0 \<le> m) (ev_cash_expiry_minutes r)),
      (''events_cancellation_cutoff_minutes_check'',
         absent_or (\<lambda>m. 0 \<le> m) (ev_cancellation_cutoff_minutes r)),
      (''events_district_check'', absent_or (\<lambda>s. len s \<le> 120) (ev_district r)),
      (''events_public_meeting_area_check'', absent_or (\<lambda>s. len s \<le> 300) (ev_public_meeting_area r)),
      (''events_exact_address_check'', absent_or (\<lambda>s. len s \<le> 500) (ev_exact_address r)),
      (''events_revision_check'', 0 < ev_revision r),
      (''ck_events_owner_shape'', (case ev_ownership_type r of
          ClubOwned \<Rightarrow> ev_club_id r \<noteq> None \<and> ev_owner_user_id r = None
        | Independent \<Rightarrow> ev_club_id r = None \<and> ev_owner_user_id r \<noteq> None)),
      (''ck_events_coordinates_pair'', (ev_latitude r = None) = (ev_longitude r = None)),
      (''ck_events_latitude'', absent_or (\<lambda>x. between (- 90) x 90) (ev_latitude r)),
      (''ck_events_longitude'', absent_or (\<lambda>x. between (- 180) x 180) (ev_longitude r)),
      (''ck_events_schedule'', later (ev_start_at r) (ev_end_at r)),
      (''ck_events_published_fields'', ev_status r = EvDraft \<or>
         (sql_btrim (ev_description r) \<noteq> [] \<and> ev_category_id r \<noteq> None \<and> ev_country_id r \<noteq> None
          \<and> ev_city_id r \<noteq> None \<and> ev_start_at r \<noteq> None \<and> ev_end_at r \<noteq> None
          \<and> ev_time_zone r \<noteq> None \<and> ev_registration_method r \<noteq> None
          \<and> ev_cancellation_cutoff_minutes r \<noteq> None)),
      (''ck_events_cash_expiry'', ev_registration_method r \<noteq> Some CashOrganizerConfirmed
         \<or> ev_cash_expiry_minutes r \<noteq> None),
      (''ck_events_published_at'', ev_status r \<noteq> EvPublished \<or> ev_published_at r \<noteq> None),
      (''ck_events_cancelled_at'', ev_status r \<noteq> EvCancelled \<or> ev_cancelled_at r \<noteq> None),
      (''ck_events_completed_at'', ev_status r \<noteq> EvCompleted \<or> ev_completed_at r \<noteq> None),
      (''ck_events_suspension_shape'', ev_status r \<noteq> EvSuspended
         \<or> ev_suspended_at r \<noteq> None \<and> ev_suspension_reason r \<noteq> None)]"

definition event_keys :: "db \<Rightarrow> event_row list \<Rightarrow> event_row \<Rightarrow> (string \<times> bool) list" where
  "event_keys d others r =
     [(''events_pkey'', \<not> row_exists (\<lambda>x. ev_id x = ev_id r) others),
      (''events_club_id_fkey'', absent_or (\<lambda>i. row_exists (\<lambda>c. cl_id c = i) (t_clubs d)) (ev_club_id r)),
      (''events_owner_user_id_fkey'',
         absent_or (\<lambda>i. row_exists (\<lambda>u. us_id u = i) (t_users d)) (ev_owner_user_id r)),
      (''events_category_id_fkey'',
         absent_or (\<lambda>i. row_exists (\<lambda>c. ca_id c = i) (t_categories d)) (ev_category_id r)),
      (''events_country_id_fkey'',
         absent_or (\<lambda>i. row_exists (\<lambda>c. co_id c = i) (t_countries d)) (ev_country_id r)),
      (''fk_events_city_country'', ev_city_id r = None \<or> ev_country_id r = None
         \<or> row_exists (\<lambda>c. Some (ci_id c) = ev_city_id r \<and> Some (ci_country_id c) = ev_country_id r)
             (t_cities d)),
      (''events_cover_media_id_fkey'',
         absent_or (\<lambda>i. row_exists (\<lambda>m. ma_id m = i) (t_media_assets d)) (ev_cover_media_id r))]"

subsection \<open>Statements\<close>

definition get_event :: "uuid \<Rightarrow> event option txn" where
  "get_event event_id = tx_query (\<lambda>d. map_option (event_of_row d)
     (one_or_none (\<lambda>e. ev_id e = event_id) (t_events d)))"

definition lock_creation :: "uuid \<Rightarrow> unit txn" where
  "lock_creation user_id =
     tx_bind (tx_query (\<lambda>d. row_exists (\<lambda>u. us_id u = user_id) (t_users d))) (\<lambda>found.
     tx_guard found (ApiError ''authentication_required'' ''errors.authentication_required'' 401))"

definition resolve_references ::
  "string option \<Rightarrow> string option \<Rightarrow> string option \<Rightarrow> event_references txn" where
  "resolve_references category_slug country_code city_slug =
     tx_bind (tx_guard (city_slug = None \<or> country_code \<noteq> None) repo_invalid) (\<lambda>_.
     tx_bind (tx_query (\<lambda>d.
       let country = Option.bind country_code (\<lambda>code.
             one_or_none (\<lambda>c. co_code c = code \<and> co_enabled c) (t_countries d)) in
       \<lparr>er_category_id = Option.bind category_slug (\<lambda>slug. map_option ca_id
          (one_or_none (\<lambda>c. ca_slug c = slug \<and> ca_enabled c) (t_categories d))),
        er_country_id = map_option co_id country,
        er_city_id = Option.bind city_slug (\<lambda>slug. Option.bind country (\<lambda>c. map_option ci_id
          (one_or_none (\<lambda>x. ci_country_id x = co_id c \<and> ci_slug x = slug \<and> ci_enabled x
             \<and> ci_beta_enabled x) (t_cities d))))\<rparr>)) (\<lambda>refs.
     tx_bind (tx_guard (category_slug = None \<or> er_category_id refs \<noteq> None) repo_invalid) (\<lambda>_.
     tx_bind (tx_guard (country_code = None \<or> er_country_id refs \<noteq> None) repo_invalid) (\<lambda>_.
     tx_bind (tx_guard (city_slug = None \<or> er_city_id refs \<noteq> None) repo_invalid) (\<lambda>_.
     tx_return refs)))))"

text \<open>
  \<open>create\<close> turns a violated constraint into \<open>invalid_event\<close>; \<open>update\<close> does not.
\<close>

definition create_event :: "event \<Rightarrow> event_references \<Rightarrow> event txn" where
  "create_event e refs =
     tx_bind (tx_query id) (\<lambda>d.
     let row = row_of_event e refs in
     tx_bind (tx_guard (first_violation (event_checks row @ event_keys d (t_events d) row) = None)
       repo_invalid) (\<lambda>_.
     tx_bind (tx_modify (\<lambda>d. d\<lparr>t_events := t_events d @ [row]\<rparr>)) (\<lambda>_.
     tx_bind (get_event (ev_id e)) (\<lambda>created. case created of
       None \<Rightarrow> tx_raise (RuntimeError ''created event could not be reloaded'')
     | Some c \<Rightarrow> tx_return c))))"

text \<open>\<open>UPDATE talaqi.events ... RETURNING id\<close> of the one row that satisfies \<open>P\<close>.\<close>

definition update_event_row ::
  "(event_row \<Rightarrow> bool) \<Rightarrow> (event_row \<Rightarrow> event_row) \<Rightarrow> uuid option txn" where
  "update_event_row P f =
     tx_bind (tx_query id) (\<lambda>d.
     case one_or_none P (t_events d) of
       None \<Rightarrow> tx_return None
     | Some r \<Rightarrow>
         tx_bind clock_timestamp (\<lambda>now.
         let r' = (f r)\<lparr>ev_updated_at := now\<rparr> in
         tx_bind (check_constraints (event_checks r'
           @ event_keys d (delete_where (\<lambda>x. ev_id x = ev_id r) (t_events d)) r')) (\<lambda>_.
         tx_bind (tx_modify (\<lambda>d. d\<lparr>t_events :=
           update_where (\<lambda>x. ev_id x = ev_id r) (\<lambda>_. r') (t_events d)\<rparr>)) (\<lambda>_.
         tx_return (Some (ev_id r))))))"

definition set_columns :: "event_row \<Rightarrow> event_row \<Rightarrow> event_row" where
  "set_columns p r = r\<lparr>ev_title := ev_title p, ev_description := ev_description p,
     ev_category_id := ev_category_id p, ev_country_id := ev_country_id p, ev_city_id := ev_city_id p,
     ev_start_at := ev_start_at p, ev_end_at := ev_end_at p, ev_time_zone := ev_time_zone p,
     ev_capacity := ev_capacity p, ev_visibility := ev_visibility p, ev_status := ev_status p,
     ev_registration_method := ev_registration_method p,
     ev_cash_expiry_minutes := ev_cash_expiry_minutes p,
     ev_cancellation_cutoff_minutes := ev_cancellation_cutoff_minutes p,
     ev_district := ev_district p, ev_public_meeting_area := ev_public_meeting_area p,
     ev_exact_address := ev_exact_address p, ev_latitude := ev_latitude p,
     ev_longitude := ev_longitude p, ev_exact_venue_is_public := ev_exact_venue_is_public p,
     ev_cover_media_id := ev_cover_media_id p, ev_published_at := ev_published_at p,
     ev_revision := ev_revision r + 1\<rparr>"

text \<open>\<open>SELECT DISTINCT\<close> leaves the order open; the model takes that of the rows.\<close>

definition active_registrants :: "uuid \<Rightarrow> db \<Rightarrow> uuid list" where
  "active_registrants event_id d = remdups (map rg_user_id
     (filter (\<lambda>r. rg_event_id r = event_id \<and> active_state (rg_state r)) (t_registrations d)))"

definition enqueue_attendee_notifications :: "event \<Rightarrow> string \<Rightarrow> unit txn" where
  "enqueue_attendee_notifications e event_type =
     tx_bind (tx_query (active_registrants (ev_id e))) (\<lambda>recipients.
     tx_each (\<lambda>u. tx_bind (enqueue ''event'' (ev_id e) event_type
         [(''recipient_user_id'', JStr (uuid_str u)), (''event_id'', JStr (uuid_str (ev_id e)))]
         (event_type @ '':'' @ uuid_str (ev_id e) @ '':'' @ int_str (ev_revision e) @ '':'' @ uuid_str u)
         (ev_updated_at e)) (\<lambda>_. tx_return ())) recipients)"

definition update_event :: "event \<Rightarrow> event_references \<Rightarrow> int \<Rightarrow> event txn" where
  "update_event e refs expected_revision =
     tx_bind (update_event_row
       (\<lambda>r. ev_id r = ev_id e \<and> ev_revision r = expected_revision \<and> ev_status r \<in> {EvDraft, EvPublished})
       (set_columns (row_of_event e refs))) (\<lambda>updated. case updated of
       None \<Rightarrow> tx_raise stale_revision
     | Some _ \<Rightarrow>
         tx_bind (get_event (ev_id e)) (\<lambda>result. case result of
           None \<Rightarrow> tx_raise (RuntimeError ''updated event could not be reloaded'')
         | Some x \<Rightarrow> tx_bind (enqueue_attendee_notifications x ''event.updated'') (\<lambda>_. tx_return x)))"

definition transition_event :: "uuid \<Rightarrow> int \<Rightarrow> event_status \<Rightarrow> instant \<Rightarrow> event txn" where
  "transition_event event_id expected_revision status occurred_at =
     tx_bind (tx_guard (status \<in> {EvCancelled, EvCompleted})
       (ValueError ''unsupported event transition'')) (\<lambda>_.
     tx_bind (update_event_row
       (\<lambda>r. ev_id r = event_id \<and> ev_revision r = expected_revision \<and> ev_status r = EvPublished)
       (\<lambda>r. r\<lparr>ev_status := status,
          ev_cancelled_at := (if status = EvCancelled then Some occurred_at else ev_cancelled_at r),
          ev_completed_at := (if status = EvCompleted then Some occurred_at else ev_completed_at r),
          ev_revision := ev_revision r + 1\<rparr>)) (\<lambda>updated. case updated of
       None \<Rightarrow> tx_raise stale_revision
     | Some _ \<Rightarrow>
         tx_bind (get_event event_id) (\<lambda>result. case result of
           None \<Rightarrow> tx_raise (RuntimeError ''transitioned event could not be reloaded'')
         | Some x \<Rightarrow>
             tx_bind (if status = EvCancelled
               then enqueue_attendee_notifications x ''event.cancelled'' else tx_return ()) (\<lambda>_.
             tx_return x))))"

definition revoke_invite_tokens :: "uuid \<Rightarrow> instant \<Rightarrow> unit txn" where
  "revoke_invite_tokens event_id occurred_at =
     tx_modify (\<lambda>d. d\<lparr>t_event_invite_tokens := update_where
       (\<lambda>i. iv_event_id i = event_id \<and> iv_revoked_at i = None)
       (\<lambda>i. i\<lparr>iv_revoked_at := Some occurred_at\<rparr>) (t_event_invite_tokens d)\<rparr>)"

text \<open>
  Deleting a draft cascades to its invite tokens, the saved events and its updates with their
  recipients; a registration or a moderation case of the event restricts it.
\<close>

definition delete_draft :: "uuid \<Rightarrow> int \<Rightarrow> bool txn" where
  "delete_draft event_id expected_revision =
     tx_bind (tx_query id) (\<lambda>d.
     let P = (\<lambda>e. ev_id e = event_id \<and> ev_revision e = expected_revision \<and> ev_status e = EvDraft);
         updates = map eu_id (filter (\<lambda>u. eu_event_id u = event_id) (t_event_updates d)) in
     if \<not> row_exists P (t_events d) then tx_return False
     else
       tx_bind (check_constraints
         [(''registrations_event_id_fkey'',
           \<not> row_exists (\<lambda>r. rg_event_id r = event_id) (t_registrations d)),
          (''moderation_cases_target_event_id_fkey'',
           \<not> row_exists (\<lambda>c. mc_target_event_id c = Some event_id) (t_moderation_cases d))]) (\<lambda>_.
       tx_bind (tx_modify (\<lambda>d. d\<lparr>t_events := delete_where P (t_events d),
         t_event_invite_tokens := delete_where (\<lambda>i. iv_event_id i = event_id) (t_event_invite_tokens d),
         t_saved_events := delete_where (\<lambda>s. sv_event_id s = event_id) (t_saved_events d),
         t_event_updates := delete_where (\<lambda>u. eu_event_id u = event_id) (t_event_updates d),
         t_event_update_recipients :=
           delete_where (\<lambda>r. List.member updates (fst r)) (t_event_update_recipients d)\<rparr>)) (\<lambda>_.
       tx_return True)))"

definition list_managed :: "uuid \<Rightarrow> event list txn" where
  "list_managed user_id = tx_query (\<lambda>d. map (event_of_row d) (rev (select_by
     (\<lambda>e. (ev_updated_at e, ev_id e))
     (\<lambda>e. ev_owner_user_id e = Some user_id
        \<or> row_exists (\<lambda>m. Some (me_club_id m) = ev_club_id e \<and> me_user_id m = user_id
            \<and> me_role m \<in> {RoleOwner, RoleAdmin}) (t_club_memberships d))
     (t_events d))))"

lemma get_event_eq [tx_simps]:
  "get_event i d = Inr (x, d') \<longleftrightarrow>
     d' = d \<and> x = map_option (event_of_row d) (one_or_none (\<lambda>e. ev_id e = i) (t_events d))"
  by (auto simp: get_event_def tx_simps)

end
