(* ===== verification/Tx_Frame.thy ===== *)
theory Tx_Frame
  imports Prelude
begin

section \<open>What a transaction leaves alone\<close>

text \<open>
  \<open>tx_keeps R m\<close>: every run of \<open>m\<close> that commits ends in a state related by \<open>R\<close> to the one it
  started from. For a reflexive and transitive \<open>R\<close> the property composes along the combinators
  of \<open>Prelude\<close>; the locale holds the rules, and each component interprets it for the frame
  its statements keep.
\<close>

definition tx_keeps :: "('s \<Rightarrow> 's \<Rightarrow> bool) \<Rightarrow> ('s, 'a) tx \<Rightarrow> bool" where
  "tx_keeps R m \<longleftrightarrow> (\<forall>s x t. m s = Inr (x, t) \<longrightarrow> R s t)"

lemma tx_keepsI: "(\<And>s x t. m s = Inr (x, t) \<Longrightarrow> R s t) \<Longrightarrow> tx_keeps R m"
  by (auto simp: tx_keeps_def)

lemma tx_keepsD: "tx_keeps R m \<Longrightarrow> m s = Inr (x, t) \<Longrightarrow> R s t"
  by (auto simp: tx_keeps_def)

text \<open>Reading off a run that is known to commit, as an evaluation shows it.\<close>

definition commits :: "py_error + ('a \<times> 's) \<Rightarrow> ('a \<Rightarrow> 's \<Rightarrow> bool) \<Rightarrow> bool" where
  "commits r P \<longleftrightarrow> (case r of Inl _ \<Rightarrow> False | Inr (a, s) \<Rightarrow> P a s)"

lemma commitsE:
  assumes "commits r P"
  obtains a s where "r = Inr (a, s)" "P a s"
  using assms by (auto simp: commits_def split: sum.split_asm)

locale frame_relation =
  fixes R :: "'s \<Rightarrow> 's \<Rightarrow> bool"
  assumes refl: "R s s"
    and trans: "R s t \<Longrightarrow> R t u \<Longrightarrow> R s u"
begin

lemma return: "tx_keeps R (tx_return x)"
  by (auto simp: tx_keeps_def tx_simps refl)

lemma raised: "tx_keeps R (tx_raise e)"
  by (auto simp: tx_keeps_def tx_simps)

lemma query: "tx_keeps R (tx_query q)"
  by (auto simp: tx_keeps_def tx_simps refl)

lemma lift: "tx_keeps R (tx_lift r)"
  by (auto simp: tx_keeps_def tx_simps refl)

lemma guard: "tx_keeps R (tx_guard b e)"
  by (auto simp: tx_keeps_def tx_simps refl)

lemma modify: "(\<And>s. R s (f s)) \<Longrightarrow> tx_keeps R (tx_modify f)"
  by (auto simp: tx_keeps_def tx_simps)

lemma bind: "tx_keeps R m \<Longrightarrow> (\<And>x. tx_keeps R (f x)) \<Longrightarrow> tx_keeps R (tx_bind m f)"
  unfolding tx_keeps_def tx_bind_eq using trans by blast

lemma each: "(\<And>x. tx_keeps R (f x)) \<Longrightarrow> tx_keeps R (tx_each f xs)"
  by (induction xs) (auto intro: return bind)

lemma cond: "(b \<Longrightarrow> tx_keeps R m) \<Longrightarrow> (\<not> b \<Longrightarrow> tx_keeps R n) \<Longrightarrow> tx_keeps R (if b then m else n)"
  by simp

lemma case_option:
  "(v = None \<Longrightarrow> tx_keeps R m) \<Longrightarrow> (\<And>x. v = Some x \<Longrightarrow> tx_keeps R (f x))
    \<Longrightarrow> tx_keeps R (case v of None \<Rightarrow> m | Some x \<Rightarrow> f x)"
  by (cases v) auto

lemma case_prod: "(\<And>a b. tx_keeps R (f a b)) \<Longrightarrow> tx_keeps R (case v of (a, b) \<Rightarrow> f a b)"
  by (cases v) auto

lemma bound: "tx_keeps R (f v) \<Longrightarrow> tx_keeps R (let x = v in f x)"
  by simp

lemmas rules = return raised query lift guard bind each cond case_option case_prod bound

end

end
