(* ===== verification/Club_Repository.thy ===== *)
theory Club_Repository
  imports Club_Store Event_Store Tx_Frame
begin

section \<open>Writing clubs (clubs/repository.py, clubs/models.py)\<close>

text \<open>
  The statements of the club repository with the constraints of the table \<open>clubs\<close>: a club and its
  owner's membership are inserted together, an update is fenced by the revision the client read.
  The order of the members of \<open>social_links\<close> is that of the sorted dictionary that is stored.
\<close>

record club_references =
  cf_category_id :: "uuid option"
  cf_country_id :: "uuid option"
  cf_city_id :: "uuid option"
  cf_logo_media_id :: "uuid option"
  cf_cover_media_id :: "uuid option"

definition invalid_club :: py_error where
  "invalid_club = ApiError ''invalid_club'' ''errors.validation'' 422"

definition duplicate_slug :: py_error where
  "duplicate_slug = ApiError ''duplicate_slug'' ''errors.conflict'' 409"

subsection \<open>Constraints\<close>

text \<open>\<open>^[a-z0-9]+(?:-[a-z0-9]+)*$\<close>\<close>

definition club_slug_pattern :: "string \<Rightarrow> bool" where
  "club_slug_pattern s \<longleftrightarrow>
     list_all (\<lambda>p. p \<noteq> [] \<and> list_all (\<lambda>c. is_lower c \<or> is_digit c) p) (split_on CHR ''-'' s)"

definition club_checks :: "club_row \<Rightarrow> (string \<times> bool) list" where
  "club_checks r =
     [(''clubs_slug_check'', club_slug_pattern (cl_slug r)),
      (''clubs_name_check'', 2 \<le> len (sql_btrim (cl_name r)) \<and> len (sql_btrim (cl_name r)) \<le> 120),
      (''clubs_revision_check'', 0 < cl_revision r),
      (''ck_clubs_publication_fields'', cl_status r \<notin> {ClubPublished, ClubUnpublished, ClubSuspended}
         \<or> (cl_description r \<noteq> None \<and> absent_or (\<lambda>s. sql_btrim s \<noteq> []) (cl_description r)
            \<and> cl_category_id r \<noteq> None \<and> cl_country_id r \<noteq> None \<and> cl_city_id r \<noteq> None)),
      (''ck_clubs_published_at'', cl_status r \<noteq> ClubPublished \<or> cl_published_at r \<noteq> None),
      (''ck_clubs_suspension_shape'', cl_status r \<noteq> ClubSuspended
         \<or> cl_suspended_at r \<noteq> None \<and> cl_suspension_reason r \<noteq> None),
      (''ck_clubs_closed_at'', cl_status r \<noteq> ClubClosed \<or> cl_closed_at r \<noteq> None)]"

definition club_keys :: "db \<Rightarrow> club_row list \<Rightarrow> club_row \<Rightarrow> (string \<times> bool) list" where
  "club_keys d others r =
     [(''clubs_pkey'', \<not> row_exists (\<lambda>x. cl_id x = cl_id r) others),
      (''uq_clubs_slug'', \<not> row_exists (\<lambda>x. cl_slug x = cl_slug r) others),
      (''clubs_owner_user_id_fkey'', row_exists (\<lambda>u. us_id u = cl_owner_user_id r) (t_users d)),
      (''clubs_category_id_fkey'',
         absent_or (\<lambda>i. row_exists (\<lambda>c. ca_id c = i) (t_categories d)) (cl_category_id r)),
      (''clubs_country_id_fkey'',
         absent_or (\<lambda>i. row_exists (\<lambda>c. co_id c = i) (t_countries d)) (cl_country_id r)),
      (''fk_clubs_city_country'', cl_city_id r = None \<or> cl_country_id r = None
         \<or> row_exists (\<lambda>c. Some (ci_id c) = cl_city_id r \<and> Some (ci_country_id c) = cl_country_id r)
             (t_cities d)),
      (''clubs_logo_media_id_fkey'',
         absent_or (\<lambda>i. row_exists (\<lambda>m. ma_id m = i) (t_media_assets d)) (cl_logo_media_id r)),
      (''clubs_cover_media_id_fkey'',
         absent_or (\<lambda>i. row_exists (\<lambda>m. ma_id m = i) (t_media_assets d)) (cl_cover_media_id r))]"

definition membership_keys :: "db \<Rightarrow> membership_row list \<Rightarrow> membership_row \<Rightarrow> (string \<times> bool) list" where
  "membership_keys d others m =
     [(''club_memberships_pkey'', \<not> row_exists (\<lambda>x. me_id x = me_id m) others),
      (''uq_club_memberships_member'',
         \<not> row_exists (\<lambda>x. me_club_id x = me_club_id m \<and> me_user_id x = me_user_id m) others),
      (''uq_club_memberships_single_owner'', me_role m \<noteq> RoleOwner
         \<or> \<not> row_exists (\<lambda>x. me_club_id x = me_club_id m \<and> me_role x = RoleOwner) others),
      (''club_memberships_club_id_fkey'', row_exists (\<lambda>c. cl_id c = me_club_id m) (t_clubs d)),
      (''club_memberships_user_id_fkey'', row_exists (\<lambda>u. us_id u = me_user_id m) (t_users d))]"

subsection \<open>Statements\<close>

text \<open>The second query only locks the rows of the owner's region.\<close>

definition lock_owner_creation :: "uuid \<Rightarrow> unit txn" where
  "lock_owner_creation user_id =
     tx_bind (tx_query (\<lambda>d. row_exists (\<lambda>u. us_id u = user_id) (t_users d))) (\<lambda>found.
     tx_guard found (ApiError ''authentication_required'' ''errors.authentication_required'' 401))"

definition verified_media_of :: "db \<Rightarrow> uuid \<Rightarrow> uuid option \<Rightarrow> uuid option" where
  "verified_media_of d owner media_id = Option.bind media_id (\<lambda>i. map_option ma_id
     (one_or_none (\<lambda>m. ma_id m = i \<and> ma_owner_user_id m = owner \<and> ma_status m = MediaVerified)
        (t_media_assets d)))"

definition club_references_of ::
  "db \<Rightarrow> uuid \<Rightarrow> string option \<Rightarrow> string option \<Rightarrow> string option \<Rightarrow> uuid option \<Rightarrow> uuid option
     \<Rightarrow> club_references" where
  "club_references_of d owner category_slug country_code city_slug logo cover =
     (let country = Option.bind country_code (\<lambda>code.
            one_or_none (\<lambda>c. co_code c = code \<and> co_enabled c) (t_countries d)) in
      \<lparr>cf_category_id = Option.bind category_slug (\<lambda>slug. map_option ca_id
         (one_or_none (\<lambda>c. ca_slug c = slug \<and> ca_enabled c) (t_categories d))),
       cf_country_id = map_option co_id country,
       cf_city_id = Option.bind city_slug (\<lambda>slug. Option.bind country (\<lambda>c. map_option ci_id
         (one_or_none (\<lambda>x. ci_country_id x = co_id c \<and> ci_slug x = slug \<and> ci_enabled x
            \<and> ci_beta_enabled x) (t_cities d)))),
       cf_logo_media_id = verified_media_of d owner logo,
       cf_cover_media_id = verified_media_of d owner cover\<rparr>)"

definition resolve_club_references ::
  "uuid \<Rightarrow> string option \<Rightarrow> string option \<Rightarrow> string option \<Rightarrow> uuid option \<Rightarrow> uuid option
     \<Rightarrow> club_references txn" where
  "resolve_club_references owner category_slug country_code city_slug logo cover =
     tx_bind (tx_guard (city_slug = None \<or> country_code \<noteq> None) invalid_club) (\<lambda>_.
     tx_bind (tx_query (\<lambda>d. club_references_of d owner category_slug country_code city_slug logo cover))
       (\<lambda>refs.
     tx_bind (tx_guard ((category_slug = None \<or> cf_category_id refs \<noteq> None)
       \<and> (country_code = None \<or> cf_country_id refs \<noteq> None) \<and> (city_slug = None \<or> cf_city_id refs \<noteq> None)
       \<and> (logo = None \<or> cf_logo_media_id refs \<noteq> None) \<and> (cover = None \<or> cf_cover_media_id refs \<noteq> None))
       invalid_club) (\<lambda>_.
     tx_return refs)))"

text \<open>
  \<open>INSERT INTO talaqi.club_memberships\<close>. The insertions of \<open>create\<close> are under one
  \<open>except IntegrityError\<close>, so a violated constraint of either table is reported as a duplicate slug.
\<close>

definition insert_membership :: "py_error option \<Rightarrow> uuid \<Rightarrow> uuid \<Rightarrow> club_role \<Rightarrow> unit txn" where
  "insert_membership caught club_id user_id role =
     tx_bind fresh_uuid (\<lambda>i.
     tx_bind clock_timestamp (\<lambda>now.
     tx_bind (tx_query id) (\<lambda>d.
     let m = \<lparr>me_id = i, me_club_id = club_id, me_user_id = user_id, me_role = role, me_joined_at = now\<rparr>;
         keys = membership_keys d (t_club_memberships d) m in
     tx_bind (case caught of None \<Rightarrow> check_constraints keys
       | Some e \<Rightarrow> tx_guard (first_violation keys = None) e) (\<lambda>_.
     tx_modify (\<lambda>d. d\<lparr>t_club_memberships := t_club_memberships d @ [m]\<rparr>)))))"

definition new_club_row ::
  "uuid \<Rightarrow> uuid \<Rightarrow> string \<Rightarrow> string \<Rightarrow> string option \<Rightarrow> membership_policy \<Rightarrow> (string \<times> string) list
     \<Rightarrow> club_references \<Rightarrow> club_status \<Rightarrow> instant option \<Rightarrow> instant \<Rightarrow> club_row" where
  "new_club_row i owner slug name description policy links refs status published_at now =
     \<lparr>cl_id = i, cl_owner_user_id = owner, cl_slug = slug, cl_name = name, cl_description = description,
      cl_membership_policy = policy, cl_social_links = links, cl_logo_media_id = cf_logo_media_id refs,
      cl_cover_media_id = cf_cover_media_id refs, cl_revision = 1, cl_status = status,
      cl_published_at = published_at, cl_suspended_at = None, cl_suspension_reason = None,
      cl_closed_at = None, cl_created_at = now, cl_updated_at = now,
      cl_category_id = cf_category_id refs, cl_country_id = cf_country_id refs, cl_city_id = cf_city_id refs\<rparr>"

definition create_club ::
  "uuid \<Rightarrow> string \<Rightarrow> string \<Rightarrow> string option \<Rightarrow> membership_policy \<Rightarrow> (string \<times> string) list
     \<Rightarrow> club_references \<Rightarrow> club_status \<Rightarrow> instant option \<Rightarrow> club txn" where
  "create_club owner slug name description policy links refs status published_at =
     tx_bind fresh_uuid (\<lambda>club_id.
     tx_bind clock_timestamp (\<lambda>now.
     tx_bind (tx_query id) (\<lambda>d.
     let row = new_club_row club_id owner slug name description policy links refs status published_at now in
     tx_bind (tx_guard (first_violation (club_checks row @ club_keys d (t_clubs d) row) = None)
       duplicate_slug) (\<lambda>_.
     tx_bind (tx_modify (\<lambda>d. d\<lparr>t_clubs := t_clubs d @ [row]\<rparr>)) (\<lambda>_.
     tx_bind (insert_membership (Some duplicate_slug) club_id owner RoleOwner) (\<lambda>_.
     tx_bind (get_club club_id) (\<lambda>created. case created of
       None \<Rightarrow> tx_raise (RuntimeError ''club creation did not persist'')
     | Some c \<Rightarrow> tx_return c)))))))"

text \<open>
  \<open>UPDATE talaqi.clubs ... RETURNING id\<close> of the one row that satisfies \<open>P\<close>, with the trigger that
  sets \<open>updated_at\<close>; \<open>caught\<close> is the error a violated constraint is turned into, if it is caught.
\<close>

definition update_club_row ::
  "py_error option \<Rightarrow> (club_row \<Rightarrow> bool) \<Rightarrow> (club_row \<Rightarrow> club_row) \<Rightarrow> uuid option txn" where
  "update_club_row caught P f =
     tx_bind (tx_query id) (\<lambda>d.
     case one_or_none P (t_clubs d) of
       None \<Rightarrow> tx_return None
     | Some r \<Rightarrow>
         tx_bind clock_timestamp (\<lambda>now.
         let r' = (f r)\<lparr>cl_updated_at := now\<rparr>;
             cs = club_checks r' @ club_keys d (delete_where (\<lambda>x. cl_id x = cl_id r) (t_clubs d)) r' in
         tx_bind (case caught of None \<Rightarrow> check_constraints cs
           | Some e \<Rightarrow> tx_guard (first_violation cs = None) e) (\<lambda>_.
         tx_bind (tx_modify (\<lambda>d. d\<lparr>t_clubs :=
           update_where (\<lambda>x. cl_id x = cl_id r) (\<lambda>_. r') (t_clubs d)\<rparr>)) (\<lambda>_.
         tx_return (Some (cl_id r))))))"

definition set_club_columns :: "club \<Rightarrow> club_references \<Rightarrow> instant option \<Rightarrow> club_row \<Rightarrow> club_row" where
  "set_club_columns c refs published_at r = r\<lparr>cl_slug := cl_slug c, cl_name := cl_name c,
     cl_description := cl_description c, cl_membership_policy := cl_membership_policy c,
     cl_social_links := cl_social_links c, cl_logo_media_id := cf_logo_media_id refs,
     cl_cover_media_id := cf_cover_media_id refs, cl_revision := cl_revision r + 1,
     cl_status := cl_status c,
     cl_published_at := (case cl_published_at r of None \<Rightarrow> published_at | Some t \<Rightarrow> Some t),
     cl_category_id := cf_category_id refs, cl_country_id := cf_country_id refs,
     cl_city_id := cf_city_id refs\<rparr>"

definition update_club :: "club \<Rightarrow> club_references \<Rightarrow> int \<Rightarrow> instant option \<Rightarrow> club txn" where
  "update_club c refs expected_revision published_at =
     tx_bind (update_club_row (Some duplicate_slug)
       (\<lambda>r. cl_id r = cl_id c \<and> cl_revision r = expected_revision)
       (set_club_columns c refs published_at)) (\<lambda>updated. case updated of
       None \<Rightarrow> tx_raise stale_revision
     | Some _ \<Rightarrow>
         tx_bind (get_club (cl_id c)) (\<lambda>result. case result of
           None \<Rightarrow> tx_raise (RuntimeError ''club update did not persist'')
         | Some x \<Rightarrow> tx_return x))"

text \<open>\<open>ORDER BY club.updated_at DESC, club.id\<close>\<close>

definition list_managed_clubs :: "uuid \<Rightarrow> (club \<times> club_role) list txn" where
  "list_managed_clubs user_id = tx_query (\<lambda>d. map (\<lambda>(r, role). (club_of_row d r, role))
     (select_by (\<lambda>(r, role). (- cl_updated_at r, cl_id r)) (\<lambda>_. True)
       (concat (map (\<lambda>m. if me_user_id m = user_id \<and> me_role m \<in> {RoleOwner, RoleAdmin}
           then map (\<lambda>r. (r, me_role m)) (filter (\<lambda>r. cl_id r = me_club_id m) (t_clubs d)) else [])
         (t_club_memberships d)))))"

end
