(* ===== verification/Platform_Settings.thy ===== *)
theory Platform_Settings
  imports Authorization Audit_Log
begin

section \<open>Feature flags (settings/service.py, settings/repository.py)\<close>

text \<open>
  The boolean platform settings, guarded by a revision: an administrator with a second
  factor changes a flag only from the revision they saw, and every change is audited.
\<close>

definition feature_flags :: "string list" where
  "feature_flags = [''features.member_reports_enabled'',
     ''features.organizer_announcements_enabled'', ''features.independent_event_creation_enabled'']"

definition get_flag :: "string \<Rightarrow> setting_row option txn" where
  "get_flag key = tx_query (\<lambda>d. one_or_none (\<lambda>s. st_key s = key) (t_platform_settings d))"

definition update_flag :: "string \<Rightarrow> bool \<Rightarrow> int \<Rightarrow> setting_row option txn" where
  "update_flag key enabled expected_revision =
     tx_bind (tx_query t_platform_settings) (\<lambda>rows.
     let P = (\<lambda>s. st_key s = key \<and> st_revision s = expected_revision);
         f = (\<lambda>s. s\<lparr>st_enabled := enabled, st_revision := st_revision s + 1\<rparr>) in
     tx_bind (tx_modify (\<lambda>d. d\<lparr>t_platform_settings := update_where P f rows\<rparr>)) (\<lambda>_.
     tx_return (map_option f (one_or_none P rows))))"

definition flag_enabled :: "string \<Rightarrow> bool txn" where
  "flag_enabled key =
     tx_bind (tx_guard (List.member feature_flags key) (ValueError ''unsupported feature flag'')) (\<lambda>_.
     tx_bind (get_flag key) (\<lambda>setting. case setting of
       None \<Rightarrow> tx_raise (RuntimeError (''required feature flag is missing: '' @ key))
     | Some s \<Rightarrow> tx_return (st_enabled s)))"

definition require_enabled :: "string \<Rightarrow> unit txn" where
  "require_enabled key =
     tx_bind (flag_enabled key) (\<lambda>enabled.
     tx_guard enabled (ApiError ''feature_disabled'' ''errors.feature_disabled'' 403))"

definition list_flags :: "'z subject_scheme \<Rightarrow> setting_row list txn" where
  "list_flags p =
     tx_bind (tx_lift (can_access_admin p)) (\<lambda>_.
     tx_bind (tx_query (\<lambda>d. filter (\<lambda>s. List.member feature_flags (st_key s)) (t_platform_settings d))) (\<lambda>rows.
     tx_bind (tx_guard (length rows = length feature_flags)
       (RuntimeError ''required feature flag configuration is incomplete'')) (\<lambda>_.
     tx_return (map snd (sort_keys (map (\<lambda>s. (st_key s, s)) rows))))))"

definition settings_require_mfa_admin :: "'z subject_scheme \<Rightarrow> unit txn" where
  "settings_require_mfa_admin p =
     tx_bind (tx_lift (can_access_admin p)) (\<lambda>_.
     tx_bind (tx_query (\<lambda>d. active_mfa d (sb_user_id p))) (\<lambda>mfa.
     tx_lift (can_moderate p mfa)))"

definition preview_flag ::
  "'z subject_scheme \<Rightarrow> string \<Rightarrow> bool \<Rightarrow> int \<Rightarrow> (setting_row \<times> setting_row) txn" where
  "preview_flag p key enabled revision =
     tx_bind (settings_require_mfa_admin p) (\<lambda>_.
     tx_bind (get_flag key) (\<lambda>current. case current of
       None \<Rightarrow> tx_raise (ApiError ''setting_not_found'' ''errors.not_found'' 404)
     | Some s \<Rightarrow>
         if st_revision s \<noteq> revision
         then tx_raise (ApiError ''stale_revision'' ''errors.conflict'' 409)
         else tx_return (s, \<lparr>st_key = st_key s, st_enabled = enabled,
           st_revision = st_revision s + (if enabled \<noteq> st_enabled s then 1 else 0)\<rparr>)))"

definition flag_snapshot :: "setting_row \<Rightarrow> json" where
  "flag_snapshot s = JObj [(''key'', JStr (st_key s)), (''enabled'', JBool (st_enabled s)),
     (''revision'', JInt (st_revision s))]"

definition update_flag_setting ::
  "'z subject_scheme \<Rightarrow> string \<Rightarrow> bool \<Rightarrow> int \<Rightarrow> string \<Rightarrow> uuid \<Rightarrow> setting_row txn" where
  "update_flag_setting p key enabled revision reason request_id =
     tx_bind (settings_require_mfa_admin p) (\<lambda>_.
     let normalized_reason = py_strip reason in
     tx_bind (tx_guard (3 \<le> length normalized_reason)
       (ApiError ''invalid_reason'' ''errors.validation'' 422)) (\<lambda>_.
     tx_bind (get_flag key) (\<lambda>found. case found of
       None \<Rightarrow> tx_raise (ApiError ''setting_not_found'' ''errors.not_found'' 404)
     | Some current \<Rightarrow>
         if st_revision current \<noteq> revision
         then tx_raise (ApiError ''stale_revision'' ''errors.conflict'' 409)
         else if st_enabled current = enabled
         then tx_raise (ApiError ''no_changes'' ''errors.validation'' 422)
         else tx_bind (update_flag key enabled revision) (\<lambda>result. case result of
           None \<Rightarrow> tx_raise (ApiError ''stale_revision'' ''errors.conflict'' 409)
         | Some updated \<Rightarrow>
             tx_bind (audit_record \<lparr>ae_actor_user_id = Some (sb_user_id p), ae_actor_kind = Admin,
               ae_action = ''settings.feature_flag.update'', ae_target_type = ''platform_setting'',
               ae_target_id = None, ae_reason = Some normalized_reason,
               ae_safe_before = Some (flag_snapshot current),
               ae_safe_after = Some (flag_snapshot updated),
               ae_request_id = Some request_id\<rparr>) (\<lambda>_.
             tx_return updated)))))"

lemma get_flag_eq [tx_simps]:
  "get_flag key d = Inr (x, d') \<longleftrightarrow>
     d' = d \<and> x = one_or_none (\<lambda>s. st_key s = key) (t_platform_settings d)"
  by (auto simp: get_flag_def tx_simps)

lemma settings_require_mfa_admin_eq [tx_simps]:
  "settings_require_mfa_admin p d = Inr (u, d') \<longleftrightarrow> d' = d \<and> sb_status p = UserActive
     \<and> sb_is_platform_admin p \<and> active_mfa d (sb_user_id p)"
  by (auto simp: settings_require_mfa_admin_def tx_simps auth_simps)

text \<open>
  A flag changes only by an active administrator with a second factor, from the revision
  they saw, to the other value; the change moves the revision by one, touches no other flag,
  and appends exactly one audit row.
\<close>

theorem flag_update_guarded:
  assumes "distinct (map st_key (t_platform_settings d))"
    and "update_flag_setting p key enabled revision reason rid d = Inr (s, d')"
  shows "sb_status p = UserActive \<and> sb_is_platform_admin p \<and> active_mfa d (sb_user_id p)
    \<and> (\<exists>old \<in> set (t_platform_settings d). st_key old = key \<and> st_revision old = revision
         \<and> st_enabled old \<noteq> enabled)
    \<and> s = \<lparr>st_key = key, st_enabled = enabled, st_revision = revision + 1\<rparr>
    \<and> t_platform_settings d' = update_where (\<lambda>x. st_key x = key) (\<lambda>_. s) (t_platform_settings d)
    \<and> (\<exists>row. t_audit_events d' = t_audit_events d @ [row]
         \<and> au_actor_user_id row = Some (sb_user_id p) \<and> au_action row = ''settings.feature_flag.update'')"
proof -
  from assms(2) obtain old upd row where
    admin: "sb_status p = UserActive" "sb_is_platform_admin p" "active_mfa d (sb_user_id p)"
    and old: "one_or_none (\<lambda>s. st_key s = key) (t_platform_settings d) = Some old"
      "st_revision old = revision" "st_enabled old \<noteq> enabled"
    and upd: "update_flag key enabled revision d = Inr (Some s, upd)"
    and aud: "audit_record \<lparr>ae_actor_user_id = Some (sb_user_id p), ae_actor_kind = Admin,
               ae_action = ''settings.feature_flag.update'', ae_target_type = ''platform_setting'',
               ae_target_id = None, ae_reason = Some (py_strip reason),
               ae_safe_before = Some (flag_snapshot old),
               ae_safe_after = Some (flag_snapshot s),
               ae_request_id = Some rid\<rparr> upd = Inr (row, d')"
    unfolding update_flag_setting_def
    by (auto simp: tx_simps Let_def split: option.splits if_splits) blast+
  from one_or_none_Some [OF old(1)] have mem: "old \<in> set (t_platform_settings d)" "st_key old = key" by auto
  let ?P = "\<lambda>s. st_key s = key \<and> st_revision s = revision"
  let ?f = "\<lambda>s :: setting_row. s\<lparr>st_enabled := enabled, st_revision := st_revision s + 1\<rparr>"
  have uniq: "x = old" if "x \<in> set (t_platform_settings d)" "st_key x = key" for x
    using distinct_key_eq [OF assms(1) that(1) mem(1)] that mem by simp
  have "one_or_none ?P (t_platform_settings d) = Some old"
    by (rule one_or_none_unique) (auto simp: mem old intro: uniq)
  then have s: "s = ?f old" and u: "upd = d\<lparr>t_platform_settings := update_where ?P ?f (t_platform_settings d)\<rparr>"
    using upd by (auto simp: update_flag_def tx_simps Let_def)
  have "update_where ?P ?f (t_platform_settings d) = update_where (\<lambda>x. st_key x = key) (\<lambda>_. s) (t_platform_settings d)"
    unfolding update_where_def
  proof (rule map_cong [OF refl])
    fix x assume x: "x \<in> set (t_platform_settings d)"
    show "(if ?P x then ?f x else x) = (if st_key x = key then s else x)"
    proof (cases "st_key x = key")
      case True
      then have "x = old" by (rule uniq [OF x])
      then show ?thesis using mem old s by simp
    qed simp
  qed
  then show ?thesis
    using admin old mem s u audit_record_effect [OF aud] audit_record_row [OF aud] by auto
qed

definition example_settings_db :: db where
  "example_settings_db = (empty_db (\<lambda>n. (0, 0, of_nat n)) (\<lambda>_. 0))\<lparr>
     t_user_mfa_factors := [\<lparr>mf_user_id = 1, mf_verified_at = Some 0, mf_disabled_at = None\<rparr>],
     t_platform_settings := [\<lparr>st_key = ''features.member_reports_enabled'', st_enabled = True, st_revision = 4\<rparr>]\<rparr>"

theorem flag_update_guarded_witness:
  "\<exists>s d'. update_flag_setting \<lparr>sb_user_id = 1, sb_email_verified = True, sb_status = UserActive,
       sb_is_platform_admin = True\<rparr> ''features.member_reports_enabled'' False 4 ''abuse wave'' 9
       example_settings_db = Inr (s, d') \<and> st_revision s = 5"
proof -
  let ?p = "\<lparr>sb_user_id = 1, sb_email_verified = True, sb_status = UserActive, sb_is_platform_admin = True\<rparr>"
  have "case update_flag_setting ?p ''features.member_reports_enabled'' False 4 ''abuse wave'' 9
       example_settings_db of Inl _ \<Rightarrow> False | Inr _ \<Rightarrow> True" by code_simp
  then obtain s d' where run: "update_flag_setting ?p ''features.member_reports_enabled'' False 4 ''abuse wave'' 9
       example_settings_db = Inr (s, d')" by (auto split: sum.splits)
  have "distinct (map st_key (t_platform_settings example_settings_db))"
    by (simp add: example_settings_db_def)
  from flag_update_guarded [OF this run] run show ?thesis by auto
qed

end
