(* ===== verification/Eligibility.thy ===== *)
theory Eligibility
  imports Regions Platform_Settings Example_Data
begin

section \<open>Eligibility (profiles/eligibility.py, profiles/repository.py, profiles/models.py)\<close>

text \<open>
  What an account may do: capabilities computed from its status, its profile, the accepted rules
  and the profile's region. The configured versions of the rules are the record
  \<open>eligibility_config\<close>; \<open>el_feature_flags\<close> says whether the service was built with the
  feature-flag service. \<open>notify_security_email\<close>, always true, is left out of a profile.
\<close>

record profile =
  pf_user_id :: uuid
  pf_username :: string
  pf_display_name :: string
  pf_country_code :: string
  pf_city_slug :: string
  pf_locale :: string
  pf_time_zone :: string
  pf_preferred_currency :: string
  pf_notify_event_email :: bool
  pf_notify_community_email :: bool
  pf_organizer_rules_version :: "string option"
  pf_community_rules_version :: "string option"
  pf_profile_completed_at :: "instant option"

record eligibility_state =
  es_profile :: "profile option"
  es_terms_version :: string
  es_privacy_version :: string
  es_organizer_rules_version :: "string option"
  es_community_rules_version :: "string option"
  es_owned_club_count :: int
  es_active_independent_event_count :: int
  es_has_active_mfa :: bool

record capabilities =
  cp_create_club :: bool
  cp_create_independent_event :: bool
  cp_save_event :: bool
  cp_register_event :: bool
  cp_access_admin :: bool
  cp_blockers :: "string list"

record eligibility_config =
  el_terms :: string
  el_privacy :: string
  el_organizer :: string
  el_community :: string
  el_admin_mfa_required :: bool
  el_feature_flags :: bool

subsection \<open>The repository\<close>

definition authentication_required :: py_error where
  "authentication_required = ApiError ''authentication_required'' ''errors.authentication_required'' 401"

text \<open>The foreign keys of a profile make the joined country and city present.\<close>

definition profile_from_row :: "db \<Rightarrow> user_row \<Rightarrow> profile_row \<Rightarrow> profile option" where
  "profile_from_row d u p =
     (case (one_or_none (\<lambda>c. co_id c = pr_country_id p) (t_countries d),
            one_or_none (\<lambda>c. ci_id c = pr_city_id p) (t_cities d)) of
        (Some country, Some city) \<Rightarrow> Some \<lparr>pf_user_id = pr_user_id p, pf_username = pr_username p,
          pf_display_name = pr_display_name p, pf_country_code = py_strip (co_code country),
          pf_city_slug = ci_slug city, pf_locale = pr_locale p, pf_time_zone = pr_time_zone p,
          pf_preferred_currency = py_strip (pr_preferred_currency p),
          pf_notify_event_email = pr_notify_event_email p,
          pf_notify_community_email = pr_notify_community_email p,
          pf_organizer_rules_version = us_organizer_rules_version u,
          pf_community_rules_version = us_community_rules_version u,
          pf_profile_completed_at = pr_profile_completed_at p\<rparr>
      | _ \<Rightarrow> None)"

definition get_eligibility_state :: "uuid \<Rightarrow> eligibility_state txn" where
  "get_eligibility_state user_id =
     tx_bind (tx_query (\<lambda>d. map_option (\<lambda>u.
       \<lparr>es_profile = Option.bind (one_or_none (\<lambda>p. pr_user_id p = user_id) (t_profiles d)) (profile_from_row d u),
        es_terms_version = us_terms_version u, es_privacy_version = us_privacy_version u,
        es_organizer_rules_version = us_organizer_rules_version u,
        es_community_rules_version = us_community_rules_version u,
        es_owned_club_count = count_where (\<lambda>c. cl_owner_user_id c = user_id \<and> cl_status c \<noteq> ClubClosed) (t_clubs d),
        es_active_independent_event_count = count_where (\<lambda>e. ev_owner_user_id e = Some user_id
          \<and> ev_ownership_type e = Independent \<and> ev_status e \<notin> {EvCancelled, EvCompleted}) (t_events d),
        es_has_active_mfa = active_mfa d user_id\<rparr>)
       (one_or_none (\<lambda>u. us_id u = user_id) (t_users d)))) (\<lambda>row. case row of
       None \<Rightarrow> tx_raise authentication_required
     | Some s \<Rightarrow> tx_return s)"

definition subject_of_row :: "user_row \<Rightarrow> subject" where
  "subject_of_row u = \<lparr>sb_user_id = us_id u, sb_email_verified = (us_email_verified_at u \<noteq> None),
     sb_status = us_status u, sb_is_platform_admin = us_is_platform_admin u\<rparr>"

definition lock_principal :: "principal \<Rightarrow> principal txn" where
  "lock_principal p =
     tx_bind (tx_query (\<lambda>d. one_or_none (\<lambda>u. us_id u = sb_user_id p) (t_users d))) (\<lambda>row. case row of
       None \<Rightarrow> tx_raise authentication_required
     | Some u \<Rightarrow> tx_return (p\<lparr>sb_status := us_status u,
         sb_email_verified := (us_email_verified_at u \<noteq> None),
         sb_is_platform_admin := us_is_platform_admin u\<rparr>))"

definition lock_registration_subject :: "uuid \<Rightarrow> subject option txn" where
  "lock_registration_subject user_id =
     tx_query (\<lambda>d. map_option subject_of_row (one_or_none (\<lambda>u. us_id u = user_id) (t_users d)))"

subsection \<open>The service\<close>

definition profile_matches_region :: "profile \<Rightarrow> profile_region \<Rightarrow> bool" where
  "profile_matches_region p r \<longleftrightarrow> pf_country_code p = pg_country_code r
     \<and> pf_city_slug p = pg_city_slug r \<and> List.member (pg_supported_locales r) (pf_locale p)
     \<and> pf_preferred_currency p = pg_default_currency r \<and> pf_time_zone p = pg_time_zone r"

definition profile_complete :: "eligibility_state \<Rightarrow> bool" where
  "profile_complete s \<longleftrightarrow> (case es_profile s of None \<Rightarrow> False
     | Some p \<Rightarrow> pf_profile_completed_at p \<noteq> None)"

definition rules_accepted :: "eligibility_config \<Rightarrow> eligibility_state \<Rightarrow> bool" where
  "rules_accepted cfg s \<longleftrightarrow> es_terms_version s = el_terms cfg \<and> es_privacy_version s = el_privacy cfg
     \<and> es_organizer_rules_version s = Some (el_organizer cfg)
     \<and> es_community_rules_version s = Some (el_community cfg)"

text \<open>
  Any exception of the region resolution is caught and means no region; nothing is written by it,
  so the transaction goes on from the state before.
\<close>

definition current_region :: "eligibility_state \<Rightarrow> profile_region option txn" where
  "current_region s =
     (case es_profile s of
        None \<Rightarrow> tx_return None
      | Some p \<Rightarrow>
          if \<not> profile_complete s then tx_return None
          else tx_query (\<lambda>d. case resolve_profile_region (pf_country_code p) (pf_city_slug p) d of
            Inl _ \<Rightarrow> None
          | Inr (r, _) \<Rightarrow> if profile_matches_region p r then Some r else None))"

definition independent_creation_enabled :: "eligibility_config \<Rightarrow> bool txn" where
  "independent_creation_enabled cfg =
     (if el_feature_flags cfg then flag_enabled ''features.independent_event_creation_enabled''
      else tx_return True)"

text \<open>The blockers found, in the order of \<open>BLOCKER_ORDER\<close>, and the capabilities.\<close>

definition evaluate_with ::
  "eligibility_config \<Rightarrow> 'z subject_scheme \<Rightarrow> eligibility_state \<Rightarrow> profile_region option \<Rightarrow> bool
     \<Rightarrow> capabilities" where
  "evaluate_with cfg p s region creation_enabled =
     (let unavailable = sb_status p \<noteq> UserActive;
          unverified = \<not> sb_email_verified p;
          incomplete = \<not> profile_complete s;
          rules = profile_complete s \<and> \<not> rules_accepted cfg s;
          no_region = profile_complete s \<and> region = None;
          core_allowed = \<not> (unavailable \<or> unverified \<or> incomplete \<or> rules \<or> no_region);
          club_limit_reached = (case region of None \<Rightarrow> False
            | Some r \<Rightarrow> es_owned_club_count s \<ge> pg_club_limit r);
          event_limit_reached = (case region of None \<Rightarrow> False
            | Some r \<Rightarrow> es_active_independent_event_count s \<ge> pg_independent_event_limit r);
          admin = core_allowed \<and> sb_is_platform_admin p;
          mfa_missing = admin \<and> el_admin_mfa_required cfg \<and> \<not> es_has_active_mfa s in
      \<lparr>cp_create_club = core_allowed \<and> \<not> club_limit_reached,
       cp_create_independent_event = core_allowed \<and> \<not> event_limit_reached \<and> creation_enabled,
       cp_save_event = core_allowed, cp_register_event = core_allowed,
       cp_access_admin = admin \<and> \<not> mfa_missing,
       cp_blockers = map fst (filter snd
         [(''account_unavailable'', unavailable), (''email_verification_required'', unverified),
          (''profile_incomplete'', incomplete), (''rules_acceptance_required'', rules),
          (''region_unavailable'', no_region), (''club_limit_reached'', club_limit_reached),
          (''independent_event_limit_reached'', event_limit_reached),
          (''independent_event_creation_disabled'', \<not> creation_enabled),
          (''admin_mfa_required'', mfa_missing)])\<rparr>)"

definition evaluate :: "eligibility_config \<Rightarrow> 'z subject_scheme \<Rightarrow> capabilities txn" where
  "evaluate cfg p =
     tx_bind (get_eligibility_state (sb_user_id p)) (\<lambda>s.
     tx_bind (current_region s) (\<lambda>region.
     tx_bind (independent_creation_enabled cfg) (\<lambda>enabled.
     tx_return (evaluate_with cfg p s region enabled))))"

text \<open>\<open>RegistrationEligibilityService\<close>: the same check on the account as stored.\<close>

definition evaluate_principal :: "eligibility_config \<Rightarrow> principal \<Rightarrow> capabilities txn" where
  "evaluate_principal cfg p =
     tx_bind (lock_principal p) (\<lambda>current. evaluate cfg current)"

definition evaluate_user :: "eligibility_config \<Rightarrow> uuid \<Rightarrow> capabilities option txn" where
  "evaluate_user cfg user_id =
     tx_bind (lock_registration_subject user_id) (\<lambda>current. case current of
       None \<Rightarrow> tx_return None
     | Some s \<Rightarrow> tx_bind (evaluate cfg s) (\<lambda>c. tx_return (Some c)))"

subsection \<open>Facts\<close>

lemma get_eligibility_state_reads:
  "get_eligibility_state u d = Inr (s, d') \<Longrightarrow> d' = d"
  by (auto simp: get_eligibility_state_def tx_simps split: option.splits)

lemma current_region_reads: "current_region s d = Inr (r, d') \<Longrightarrow> d' = d"
  by (auto simp: current_region_def tx_simps split: option.splits if_splits)

lemma flag_enabled_reads: "flag_enabled key d = Inr (b, d') \<Longrightarrow> d' = d"
  by (auto simp: flag_enabled_def tx_simps split: option.splits)

lemma evaluate_cases:
  assumes "evaluate cfg p d = Inr (c, d')"
  obtains s r enabled where "d' = d" "get_eligibility_state (sb_user_id p) d = Inr (s, d)"
    "current_region s d = Inr (r, d)" "c = evaluate_with cfg p s r enabled"
    "\<not> el_feature_flags cfg \<Longrightarrow> enabled"
proof -
  from assms obtain s d1 r d2 e d3 where
    x: "get_eligibility_state (sb_user_id p) d = Inr (s, d1)" "current_region s d1 = Inr (r, d2)"
      "independent_creation_enabled cfg d2 = Inr (e, d3)" "c = evaluate_with cfg p s r e" "d' = d3"
    by (auto simp: evaluate_def tx_simps)
  have "d1 = d" by (rule get_eligibility_state_reads [OF x(1)])
  moreover have "d2 = d1" by (rule current_region_reads [OF x(2)])
  moreover have "d3 = d2" "\<not> el_feature_flags cfg \<Longrightarrow> e" using x(3)
    by (auto simp: independent_creation_enabled_def tx_simps dest: flag_enabled_reads split: if_splits)
  ultimately show ?thesis using x that by blast
qed

lemma evaluate_reads: "evaluate cfg p d = Inr (c, d') \<Longrightarrow> d' = d"
  by (elim evaluate_cases) simp

lemma evaluate_user_reads: "evaluate_user cfg u d = Inr (c, d') \<Longrightarrow> d' = d"
  by (auto simp: evaluate_user_def lock_registration_subject_def tx_simps dest: evaluate_reads
      split: option.splits)

lemma evaluate_principal_reads: "evaluate_principal cfg p d = Inr (c, d') \<Longrightarrow> d' = d"
  by (auto simp: evaluate_principal_def lock_principal_def tx_simps dest: evaluate_reads
      split: option.splits)

lemma flagged_disjoint:
  "set (map fst (filter snd xs)) \<inter> A = {} \<longleftrightarrow> list_all (\<lambda>(a, b). b \<longrightarrow> a \<notin> A) xs"
  by (induction xs) auto

subsection \<open>Members in good standing, told of the tables\<close>

text \<open>What the schema guarantees of the tables a profile refers to.\<close>

definition regions_wf :: "db \<Rightarrow> bool" where
  "regions_wf d \<longleftrightarrow> distinct (map us_id (t_users d)) \<and> distinct (map pr_user_id (t_profiles d))
     \<and> distinct (map co_id (t_countries d)) \<and> distinct (map co_code (t_countries d))
     \<and> distinct (map ci_id (t_cities d)) \<and> distinct (map (\<lambda>x. (ci_country_id x, ci_slug x)) (t_cities d))
     \<and> (\<forall>c \<in> set (t_countries d). py_strip (co_code c) = co_code c \<and> py_upper (co_code c) = co_code c)
     \<and> (\<forall>x \<in> set (t_cities d). py_strip (ci_slug x) = ci_slug x \<and> py_lower (ci_slug x) = ci_slug x)
     \<and> (\<forall>p \<in> set (t_profiles d). \<exists>c \<in> set (t_countries d). \<exists>x \<in> set (t_cities d).
          pr_country_id p = co_id c \<and> pr_city_id p = ci_id x \<and> ci_country_id x = co_id c)"

definition offered_locales :: "country_row \<Rightarrow> string set" where
  "offered_locales c = (if co_code c = ''TR'' then {''en'', ''tr''}
     else if co_code c = ''DZ'' then {''en'', ''fr'', ''ar''} else {co_default_locale c})"

definition open_region :: "db \<Rightarrow> profile_row \<Rightarrow> bool" where
  "open_region d p \<longleftrightarrow> (\<exists>c \<in> set (t_countries d). \<exists>x \<in> set (t_cities d).
     pr_country_id p = co_id c \<and> pr_city_id p = ci_id x \<and> co_enabled c \<and> ci_enabled x \<and> ci_beta_enabled x
     \<and> (\<exists>q \<in> set (t_regional_policies d). po_country_id q = co_id c)
     \<and> pr_locale p \<in> offered_locales c \<and> pr_time_zone p = ci_time_zone x
     \<and> py_strip (pr_preferred_currency p) = py_strip (co_default_currency c))"

definition good_standing :: "eligibility_config \<Rightarrow> db \<Rightarrow> user_row \<Rightarrow> bool" where
  "good_standing cfg d u \<longleftrightarrow> us_status u = UserActive \<and> us_email_verified_at u \<noteq> None
     \<and> us_terms_version u = el_terms cfg \<and> us_privacy_version u = el_privacy cfg
     \<and> us_organizer_rules_version u = Some (el_organizer cfg)
     \<and> us_community_rules_version u = Some (el_community cfg)
     \<and> (\<exists>p \<in> set (t_profiles d). pr_user_id p = us_id u \<and> pr_profile_completed_at p \<noteq> None \<and> open_region d p)"

lemma one_or_none_is:
  assumes "x \<in> set xs" "P x" "\<And>y. y \<in> set xs \<Longrightarrow> P y \<Longrightarrow> y = x"
  shows "one_or_none P xs = Some x"
proof (cases "one_or_none P xs")
  case None
  then show ?thesis using assms(1,2) by (auto simp: one_or_none_None)
next
  case (Some y)
  then show ?thesis using one_or_none_Some [OF Some] assms(3) by auto
qed

text \<open>The region found by code and slug is the one the profile refers to.\<close>

lemma region_of_profile:
  assumes wf: "regions_wf d" and p: "p \<in> set (t_profiles d)"
  obtains c x f where "c \<in> set (t_countries d)" "x \<in> set (t_cities d)" "pr_country_id p = co_id c" "pr_city_id p = ci_id x"
    "profile_from_row d u p = Some f" "pf_country_code f = co_code c" "pf_city_slug f = ci_slug x"
    "pf_locale f = pr_locale p" "pf_time_zone f = pr_time_zone p"
    "pf_preferred_currency f = py_strip (pr_preferred_currency p)"
    "pf_profile_completed_at f = pr_profile_completed_at p"
    "one_or_none (\<lambda>y. co_code y = py_upper (py_strip (co_code c))) (t_countries d) = Some c"
    "one_or_none (\<lambda>y. ci_country_id y = co_id c \<and> ci_slug y = py_lower (py_strip (ci_slug x))) (t_cities d) = Some x"
proof -
  from wf p obtain c x where cx: "c \<in> set (t_countries d)" "x \<in> set (t_cities d)" "pr_country_id p = co_id c"
    "pr_city_id p = ci_id x" "ci_country_id x = co_id c" unfolding regions_wf_def by blast
  have d: "distinct (map co_id (t_countries d))" "distinct (map co_code (t_countries d))"
    "distinct (map ci_id (t_cities d))" "distinct (map (\<lambda>x. (ci_country_id x, ci_slug x)) (t_cities d))"
    and n: "py_strip (co_code c) = co_code c" "py_upper (co_code c) = co_code c"
      "py_strip (ci_slug x) = ci_slug x" "py_lower (ci_slug x) = ci_slug x"
    using wf cx(1,2) unfolding regions_wf_def by blast+
  have ids: "one_or_none (\<lambda>y. co_id y = pr_country_id p) (t_countries d) = Some c"
    "one_or_none (\<lambda>y. ci_id y = pr_city_id p) (t_cities d) = Some x"
    using cx d(1,3) by (auto intro!: one_or_none_is dest: distinct_key_eq)
  have codes: "one_or_none (\<lambda>y. co_code y = py_upper (py_strip (co_code c))) (t_countries d) = Some c"
    using cx(1) distinct_key_eq [OF d(2) _ cx(1)] n(1,2) by (intro one_or_none_is) auto
  have slugs: "one_or_none (\<lambda>y. ci_country_id y = co_id c \<and> ci_slug y = py_lower (py_strip (ci_slug x))) (t_cities d) = Some x"
    using cx(2,5) distinct_key_eq [OF d(4) _ cx(2)] n(3,4) by (intro one_or_none_is) auto
  obtain f where f: "profile_from_row d u p = Some f" by (simp add: profile_from_row_def ids)
  then have "pf_country_code f = co_code c" "pf_city_slug f = ci_slug x" "pf_locale f = pr_locale p"
    "pf_time_zone f = pr_time_zone p" "pf_preferred_currency f = py_strip (pr_preferred_currency p)"
    "pf_profile_completed_at f = pr_profile_completed_at p"
    using n(1) by (auto simp: profile_from_row_def ids)
  then show ?thesis by (rule that [OF cx(1-4) f _ _ _ _ _ _ codes slugs])
qed

lemma region_iff_open:
  assumes wf: "regions_wf d" and p: "p \<in> set (t_profiles d)" "profile_from_row d u p = es_profile s"
    and complete: "pr_profile_completed_at p \<noteq> None" and r: "current_region s d = Inr (r, d')"
  shows "r \<noteq> None \<longleftrightarrow> open_region d p"
proof -
  obtain c x f where cx: "c \<in> set (t_countries d)" "x \<in> set (t_cities d)" "pr_country_id p = co_id c" "pr_city_id p = ci_id x"
    and f: "profile_from_row d u p = Some f" "pf_country_code f = co_code c" "pf_city_slug f = ci_slug x"
    "pf_locale f = pr_locale p" "pf_time_zone f = pr_time_zone p"
    "pf_preferred_currency f = py_strip (pr_preferred_currency p)"
    "pf_profile_completed_at f = pr_profile_completed_at p"
    and found: "one_or_none (\<lambda>y. co_code y = py_upper (py_strip (co_code c))) (t_countries d) = Some c"
    "one_or_none (\<lambda>y. ci_country_id y = co_id c \<and> ci_slug y = py_lower (py_strip (ci_slug x))) (t_cities d) = Some x"
    by (rule region_of_profile [OF wf p(1)])
  have n: "py_strip (co_code c) = co_code c" using wf cx(1) unfolding regions_wf_def by blast
  have policy: "one_or_none (\<lambda>q. po_country_id q = co_id c) (t_regional_policies d) = None
      \<longleftrightarrow> \<not> (\<exists>q \<in> set (t_regional_policies d). po_country_id q = co_id c)"
    by (auto simp: one_or_none_None)
  have only: "c' = c" "x' = x" if "c' \<in> set (t_countries d)" "pr_country_id p = co_id c'"
    "x' \<in> set (t_cities d)" "pr_city_id p = ci_id x'" for c' x'
    using that cx wf distinct_key_eq [of co_id "t_countries d" c' c] distinct_key_eq [of ci_id "t_cities d" x' x]
    by (simp_all add: regions_wf_def)
  have open_cx: "open_region d p \<longleftrightarrow> co_enabled c \<and> ci_enabled x \<and> ci_beta_enabled x
     \<and> (\<exists>q \<in> set (t_regional_policies d). po_country_id q = co_id c)
     \<and> pr_locale p \<in> offered_locales c \<and> pr_time_zone p = ci_time_zone x
     \<and> py_strip (pr_preferred_currency p) = py_strip (co_default_currency c)"
    unfolding open_region_def using cx only by blast
  have s: "es_profile s = Some f" using p(2) f(1) by simp
  then have "profile_complete s" using f(7) complete by (simp add: profile_complete_def)
  note s = s this
  have r': "r = (case resolve_profile_region (co_code c) (ci_slug x) d of
            Inl _ \<Rightarrow> None | Inr (r, _) \<Rightarrow> if profile_matches_region f r then Some r else None)"
    using r by (simp add: current_region_def s tx_query_eq f(2,3))
  show ?thesis
  proof (cases "one_or_none (\<lambda>q. po_country_id q = co_id c) (t_regional_policies d)")
    case None
    then have "read_region_snapshot (co_code c) (ci_slug x) d = Inl region_not_found"
      by (simp add: read_region_snapshot_def found tx_run)
    then have "r = None" unfolding r' by (simp add: resolve_profile_region_def tx_bind_def)
    then show ?thesis unfolding open_cx using None by (auto simp: one_or_none_None)
  next
    case (Some q)
    then have q: "\<exists>q \<in> set (t_regional_policies d). po_country_id q = co_id c"
      using one_or_none_Some [OF Some] by blast
    have "read_region_snapshot (co_code c) (ci_slug x) d = Inr (\<lparr>ps_country_code = py_strip (co_code c), ps_city_slug = ci_slug x,
        ps_default_locale = co_default_locale c, ps_default_currency = py_strip (co_default_currency c),
        ps_time_zone = ci_time_zone x, ps_country_enabled = co_enabled c, ps_city_enabled = ci_enabled x,
        ps_beta_enabled = ci_beta_enabled x, ps_club_limit = po_default_club_ownership_limit q,
        ps_independent_event_limit = po_default_active_independent_event_limit q\<rparr>, d)"
      using Some by (simp add: read_region_snapshot_def found tx_run)
    then have res: "resolve_profile_region (co_code c) (ci_slug x) d =
      (if co_enabled c \<and> ci_enabled x \<and> ci_beta_enabled x
       then Inr (\<lparr>pg_country_code = co_code c, pg_city_slug = ci_slug x,
        pg_supported_locales = supported_profile_locales (co_code c) (co_default_locale c),
        pg_default_currency = py_strip (co_default_currency c), pg_time_zone = ci_time_zone x,
        pg_club_limit = po_default_club_ownership_limit q,
        pg_independent_event_limit = po_default_active_independent_event_limit q\<rparr>, d)
       else Inl region_not_found)"
      by (simp add: resolve_profile_region_def tx_bind_def tx_lift_def validated_profile_region_def n)
    have locales: "set (supported_profile_locales (co_code c) (co_default_locale c)) = offered_locales c"
      by (simp add: supported_profile_locales_def offered_locales_def)
    show ?thesis unfolding r' open_cx res using q
      by (simp add: profile_matches_region_def f locales) auto
  qed
qed

text \<open>
  C26. A stored account may register exactly when it is in good standing, told of the tables: it is
  active with a verified address, accepted the current version of each of the four documents, and
  has a complete profile in an enabled city and country of the beta with a regional policy, whose
  locale, currency and time zone are those of the region. Nothing is written; every other capability
  implies this one, administrators need their second factor where it is required, and it is refused
  exactly when one of the five core blockers is reported.
\<close>

theorem evaluate_sound:
  assumes "evaluate_user cfg i d = Inr (c, d')" and wf: "regions_wf d"
  shows "d' = d \<and> (case c of
      None \<Rightarrow> \<forall>u \<in> set (t_users d). us_id u \<noteq> i
    | Some caps \<Rightarrow> \<exists>u \<in> set (t_users d). us_id u = i
        \<and> (cp_register_event caps \<longleftrightarrow> good_standing cfg d u)
        \<and> (cp_create_club caps \<or> cp_create_independent_event caps \<or> cp_save_event caps \<or> cp_access_admin caps
             \<longrightarrow> good_standing cfg d u)
        \<and> (cp_access_admin caps \<longleftrightarrow> good_standing cfg d u \<and> us_is_platform_admin u
             \<and> (el_admin_mfa_required cfg \<longrightarrow> active_mfa d i))
        \<and> (good_standing cfg d u \<longleftrightarrow> set (cp_blockers caps) \<inter> {''account_unavailable'',
             ''email_verification_required'', ''profile_incomplete'', ''rules_acceptance_required'',
             ''region_unavailable''} = {}))"
proof (cases "one_or_none (\<lambda>u. us_id u = i) (t_users d)")
  case None
  then have "c = None \<and> d' = d" using assms(1)
    by (simp add: evaluate_user_def lock_registration_subject_def tx_bind_eq tx_query_eq tx_return_eq)
  then show ?thesis using None by (simp add: one_or_none_None)
next
  case (Some u)
  have u: "u \<in> set (t_users d)" "us_id u = i" using one_or_none_Some [OF Some] by simp_all
  obtain caps where c: "c = Some caps" "evaluate cfg (subject_of_row u) d = Inr (caps, d')"
    using assms(1) Some by (auto simp: evaluate_user_def lock_registration_subject_def tx_simps)
  obtain s r enabled where e: "d' = d" "get_eligibility_state (us_id u) d = Inr (s, d)"
    "current_region s d = Inr (r, d)" "caps = evaluate_with cfg (subject_of_row u) s r enabled"
    by (rule evaluate_cases [OF c(2)]) (simp add: subject_of_row_def)
  have s: "es_profile s = Option.bind (one_or_none (\<lambda>p. pr_user_id p = us_id u) (t_profiles d)) (profile_from_row d u)"
    "es_terms_version s = us_terms_version u" "es_privacy_version s = us_privacy_version u"
    "es_organizer_rules_version s = us_organizer_rules_version u"
    "es_community_rules_version s = us_community_rules_version u" "es_has_active_mfa s = active_mfa d (us_id u)"
    using e(2) Some u(2) by (auto simp: get_eligibility_state_def tx_simps)
  have region: "profile_complete s \<and> r \<noteq> None \<longleftrightarrow> (\<exists>p \<in> set (t_profiles d). pr_user_id p = us_id u
      \<and> pr_profile_completed_at p \<noteq> None \<and> open_region d p)"
  proof (cases "one_or_none (\<lambda>p. pr_user_id p = us_id u) (t_profiles d)")
    case None
    then have "\<not> profile_complete s" using s(1) by (simp add: profile_complete_def)
    then show ?thesis using None by (auto simp: one_or_none_None)
  next
    case (Some p)
    note p = one_or_none_Some [OF Some]
    have only: "q = p" if "q \<in> set (t_profiles d)" "pr_user_id q = us_id u" for q
      using that p wf distinct_key_eq [of pr_user_id "t_profiles d" q p] by (simp add: regions_wf_def)
    obtain f where f: "profile_from_row d u p = Some f" "pf_profile_completed_at f = pr_profile_completed_at p"
      by (rule region_of_profile [OF wf conjunct1 [OF p]])
    have prof: "es_profile s = Some f" using s(1) Some f(1) by simp
    show ?thesis
    proof (cases "pr_profile_completed_at p")
      case None
      then show ?thesis using prof f(2) only by (auto simp: profile_complete_def)
    next
      case (Some t)
      then show ?thesis
        using region_iff_open [OF wf conjunct1 [OF p] _ _ e(3), of u] prof f p only
        by (auto simp: profile_complete_def)
    qed
  qed
  have good: "cp_register_event caps \<longleftrightarrow> good_standing cfg d u"
    unfolding e(4) good_standing_def region [symmetric]
    by (auto simp: evaluate_with_def Let_def rules_accepted_def s subject_of_row_def)
  have blockers: "cp_register_event caps = (set (cp_blockers caps) \<inter> {''account_unavailable'',
        ''email_verification_required'', ''profile_incomplete'', ''rules_acceptance_required'',
        ''region_unavailable''} = {})"
    unfolding e(4) by (simp only: evaluate_with_def Let_def capabilities.simps flagged_disjoint) (simp, blast)
  have others: "cp_create_club caps \<or> cp_create_independent_event caps \<or> cp_save_event caps \<or> cp_access_admin caps
        \<longrightarrow> cp_register_event caps"
    unfolding e(4) by (auto simp: evaluate_with_def Let_def)
  have admin: "cp_access_admin caps \<longleftrightarrow> cp_register_event caps \<and> us_is_platform_admin u
        \<and> (el_admin_mfa_required cfg \<longrightarrow> active_mfa d i)"
    unfolding e(4) using s(6) u(2) by (auto simp: evaluate_with_def Let_def subject_of_row_def)
  show ?thesis unfolding c(1) option.case
    by (intro conjI bexI [OF _ u(1)] e(1) u(2) good others [unfolded good] admin [unfolded good]
        blockers [unfolded good])
qed

definition example_rules :: eligibility_config where
  "example_rules = \<lparr>el_terms = ''v1'', el_privacy = ''v1'', el_organizer = ''v1'',
     el_community = ''v1'', el_admin_mfa_required = True, el_feature_flags = False\<rparr>"

theorem evaluate_sound_witness:
  "\<exists>caps. evaluate_user example_rules (example_id 3) example_db = Inr (Some caps, example_db)
     \<and> cp_register_event caps \<and> good_standing example_rules example_db (example_user 3)"
proof -
  have "case evaluate_user example_rules (example_id 3) example_db of
     Inr (Some c, _) \<Rightarrow> cp_register_event c | _ \<Rightarrow> False" by code_simp
  then obtain caps where c: "evaluate_user example_rules (example_id 3) example_db = Inr (Some caps, example_db)"
    "cp_register_event caps" by (auto split: sum.splits option.splits dest: evaluate_user_reads)
  have "regions_wf example_db" unfolding regions_wf_def by code_simp
  from evaluate_sound [OF c(1) this] have "\<exists>u \<in> set (t_users example_db). us_id u = example_id 3
      \<and> (cp_register_event caps \<longleftrightarrow> good_standing example_rules example_db u)" by auto
  moreover have "u = example_user 3" if "u \<in> set (t_users example_db)" "us_id u = example_id 3" for u
    using that by (auto simp: example_db_def example_user_def example_id_def)
  ultimately show ?thesis using c by auto
qed

end
