(* ===== verification/Membership_Store.thy ===== *)
theory Membership_Store
  imports Club_Repository Eligibility
begin

section \<open>Members and join requests (clubs/membership_repository.py)\<close>

text \<open>
  A member or a request as listed carries the display name and the address of the account; read
  alone it does not, and is the row. \<open>datetime.now()\<close> of a removal is the argument \<open>now\<close>.
\<close>

record member_entry = membership_row +
  mb_display_name :: "string option"
  mb_email :: string

record request_entry = join_request_row +
  jq_display_name :: "string option"
  jq_email :: string

definition lock_club :: "uuid \<Rightarrow> club option txn" where
  "lock_club club_id = get_club club_id"

definition transfer_candidate :: "uuid \<Rightarrow> principal option txn" where
  "transfer_candidate user_id =
     tx_bind (tx_query (\<lambda>d. one_or_none (\<lambda>u. us_id u = user_id) (t_users d))) (\<lambda>row. case row of
       None \<Rightarrow> tx_return None
     | Some u \<Rightarrow> tx_bind fresh_uuid (\<lambda>session_id. tx_return (Some
         \<lparr>sb_user_id = us_id u, sb_email_verified = us_email_verified_at u \<noteq> None,
          sb_status = us_status u, sb_is_platform_admin = us_is_platform_admin u,
          ap_session_id = session_id\<rparr>)))"

definition get_membership :: "uuid \<Rightarrow> uuid \<Rightarrow> membership_row option txn" where
  "get_membership club_id user_id = tx_query (\<lambda>d.
     one_or_none (\<lambda>m. me_club_id m = club_id \<and> me_user_id m = user_id) (t_club_memberships d))"

text \<open>\<open>INSERT ... ON CONFLICT (club_id, user_id) DO NOTHING\<close>; the identifier is generated first.\<close>

definition insert_member_or_ignore :: "uuid \<Rightarrow> uuid \<Rightarrow> unit txn" where
  "insert_member_or_ignore club_id user_id =
     tx_bind (tx_query (\<lambda>d. row_exists (\<lambda>m. me_club_id m = club_id \<and> me_user_id m = user_id)
       (t_club_memberships d))) (\<lambda>present.
     if present then tx_bind fresh_uuid (\<lambda>_. tx_return ())
     else insert_membership None club_id user_id RoleMember)"

definition add_member :: "uuid \<Rightarrow> uuid \<Rightarrow> membership_row txn" where
  "add_member club_id user_id =
     tx_bind (insert_member_or_ignore club_id user_id) (\<lambda>_.
     tx_bind (get_membership club_id user_id) (\<lambda>membership. case membership of
       None \<Rightarrow> tx_raise (RuntimeError ''membership insertion did not persist'')
     | Some m \<Rightarrow> tx_return m))"

subsection \<open>Join requests\<close>

definition publish ::
  "uuid \<Rightarrow> string \<Rightarrow> uuid \<Rightarrow> uuid \<Rightarrow> string \<Rightarrow> instant \<Rightarrow> unit txn" where
  "publish subject_id event_type recipient club_id key available_at =
     tx_bind (enqueue ''membership'' subject_id event_type
       [(''recipient_user_id'', JStr (uuid_str recipient)), (''club_id'', JStr (uuid_str club_id)),
        (''membership_id'', JStr (uuid_str subject_id))] key available_at) (\<lambda>_. tx_return ())"

definition request_keys :: "db \<Rightarrow> join_request_row list \<Rightarrow> join_request_row \<Rightarrow> (string \<times> bool) list" where
  "request_keys d others r =
     [(''club_join_requests_message_check'', absent_or (\<lambda>s. len s \<le> 500) (jr_message r)),
      (''ck_join_request_decision_shape'', jr_status r \<in> {RequestPending, RequestCancelled}
         \<or> jr_decided_by_user_id r \<noteq> None \<and> jr_decided_at r \<noteq> None),
      (''club_join_requests_pkey'', \<not> row_exists (\<lambda>x. jr_id x = jr_id r) others),
      (''uq_club_join_requests_pending'', jr_status r \<noteq> RequestPending
         \<or> \<not> row_exists (\<lambda>x. jr_club_id x = jr_club_id r \<and> jr_user_id x = jr_user_id r
               \<and> jr_status x = RequestPending) others),
      (''club_join_requests_club_id_fkey'', row_exists (\<lambda>c. cl_id c = jr_club_id r) (t_clubs d)),
      (''club_join_requests_user_id_fkey'', row_exists (\<lambda>u. us_id u = jr_user_id r) (t_users d)),
      (''club_join_requests_decided_by_user_id_fkey'',
         absent_or (\<lambda>i. row_exists (\<lambda>u. us_id u = i) (t_users d)) (jr_decided_by_user_id r))]"

definition pending_request :: "uuid \<Rightarrow> uuid \<Rightarrow> join_request_row \<Rightarrow> bool" where
  "pending_request club_id user_id r \<longleftrightarrow>
     jr_club_id r = club_id \<and> jr_user_id r = user_id \<and> jr_status r = RequestPending"

definition organizers_of :: "uuid \<Rightarrow> db \<Rightarrow> uuid list" where
  "organizers_of club_id d = map me_user_id
     (filter (\<lambda>m. me_club_id m = club_id \<and> me_role m \<in> {RoleOwner, RoleAdmin}) (t_club_memberships d))"

text \<open>
  The conflict clause of the insertion serves a concurrent request; after the query has found none
  no pending request is there.
\<close>

definition create_or_get_pending_request ::
  "uuid \<Rightarrow> uuid \<Rightarrow> string option \<Rightarrow> (join_request_row \<times> bool) txn" where
  "create_or_get_pending_request club_id user_id message =
     tx_bind (tx_query (\<lambda>d. one_or_none (pending_request club_id user_id) (t_club_join_requests d)))
       (\<lambda>existing. case existing of
       Some r \<Rightarrow> tx_return (r, False)
     | None \<Rightarrow>
         tx_bind fresh_uuid (\<lambda>i.
         tx_bind clock_timestamp (\<lambda>now.
         let r = \<lparr>jr_id = i, jr_club_id = club_id, jr_user_id = user_id, jr_status = RequestPending,
               jr_message = message, jr_decided_by_user_id = None, jr_decision_reason = None,
               jr_decided_at = None, jr_created_at = now, jr_updated_at = now\<rparr> in
         tx_bind (tx_query id) (\<lambda>d.
         tx_bind (check_constraints (request_keys d (t_club_join_requests d) r)) (\<lambda>_.
         tx_bind (tx_modify (\<lambda>d. d\<lparr>t_club_join_requests := t_club_join_requests d @ [r]\<rparr>)) (\<lambda>_.
         tx_bind (tx_query (organizers_of club_id)) (\<lambda>organizers.
         tx_bind (tx_each (\<lambda>u. publish i ''membership.requested'' u club_id
           (''membership:'' @ uuid_str i @ '':requested:'' @ uuid_str u) now) organizers) (\<lambda>_.
         tx_return (r, True)))))))))"

definition update_request ::
  "(join_request_row \<Rightarrow> bool) \<Rightarrow> (join_request_row \<Rightarrow> join_request_row) \<Rightarrow> join_request_row option txn" where
  "update_request P f =
     tx_bind (tx_query id) (\<lambda>d.
     case one_or_none P (t_club_join_requests d) of
       None \<Rightarrow> tx_return None
     | Some r \<Rightarrow>
         tx_bind clock_timestamp (\<lambda>now.
         let r' = (f r)\<lparr>jr_updated_at := now\<rparr> in
         tx_bind (check_constraints
           (request_keys d (delete_where (\<lambda>x. jr_id x = jr_id r) (t_club_join_requests d)) r')) (\<lambda>_.
         tx_bind (tx_modify (\<lambda>d. d\<lparr>t_club_join_requests :=
           update_where (\<lambda>x. jr_id x = jr_id r) (\<lambda>_. r') (t_club_join_requests d)\<rparr>)) (\<lambda>_.
         tx_return (Some r')))))"

definition cancel_pending_request :: "uuid \<Rightarrow> uuid \<Rightarrow> bool txn" where
  "cancel_pending_request club_id user_id =
     tx_bind (update_request (pending_request club_id user_id) (\<lambda>r. r\<lparr>jr_status := RequestCancelled\<rparr>))
       (\<lambda>r. tx_return (r \<noteq> None))"

definition get_join_request :: "uuid \<Rightarrow> uuid \<Rightarrow> join_request_row option txn" where
  "get_join_request club_id request_id = tx_query (\<lambda>d.
     one_or_none (\<lambda>r. jr_club_id r = club_id \<and> jr_id r = request_id) (t_club_join_requests d))"

fun request_status_name :: "join_request_status \<Rightarrow> string" where
  "request_status_name RequestPending = ''pending''"
| "request_status_name RequestApproved = ''approved''"
| "request_status_name RequestRejected = ''rejected''"
| "request_status_name RequestCancelled = ''cancelled''"

definition decide_request ::
  "uuid \<Rightarrow> join_request_status \<Rightarrow> uuid \<Rightarrow> string \<Rightarrow> instant \<Rightarrow> join_request_row txn" where
  "decide_request request_id status actor_user_id reason decided_at =
     tx_bind (update_request (\<lambda>r. jr_id r = request_id \<and> jr_status r = RequestPending)
       (\<lambda>r. r\<lparr>jr_status := status, jr_decided_by_user_id := Some actor_user_id,
          jr_decision_reason := Some reason, jr_decided_at := Some decided_at\<rparr>)) (\<lambda>row. case row of
       None \<Rightarrow> tx_raise (ApiError ''conflict'' ''errors.conflict'' 409)
     | Some r \<Rightarrow>
         tx_bind (publish (jr_id r) (''membership.'' @ request_status_name status) (jr_user_id r)
           (jr_club_id r) (''membership:'' @ uuid_str (jr_id r) @ '':'' @ request_status_name status)
           decided_at) (\<lambda>_.
         tx_return r))"

subsection \<open>Members\<close>

definition remove_membership :: "uuid \<Rightarrow> instant \<Rightarrow> unit txn" where
  "remove_membership membership_id now =
     tx_bind (tx_query (\<lambda>d. one_or_none (\<lambda>m. me_id m = membership_id) (t_club_memberships d)))
       (\<lambda>removed. case removed of
       None \<Rightarrow> tx_return ()
     | Some m \<Rightarrow>
         tx_bind (tx_modify (\<lambda>d. d\<lparr>t_club_memberships :=
           delete_where (\<lambda>x. me_id x = membership_id) (t_club_memberships d)\<rparr>)) (\<lambda>_.
         publish membership_id ''membership.removed'' (me_user_id m) (me_club_id m)
           (''membership:'' @ uuid_str membership_id @ '':removed'') now))"

fun role_rank :: "club_role \<Rightarrow> int" where
  "role_rank RoleOwner = 0"
| "role_rank RoleAdmin = 1"
| "role_rank RoleMember = 2"

definition display_name_of :: "db \<Rightarrow> uuid \<Rightarrow> string option" where
  "display_name_of d user_id =
     map_option pr_display_name (one_or_none (\<lambda>p. pr_user_id p = user_id) (t_profiles d))"

definition email_of :: "db \<Rightarrow> uuid \<Rightarrow> string option" where
  "email_of d user_id = map_option us_email (one_or_none (\<lambda>u. us_id u = user_id) (t_users d))"

definition member_listing :: "uuid \<Rightarrow> member_entry list txn" where
  "member_listing club_id = tx_query (\<lambda>d. List.map_filter
     (\<lambda>m. map_option (\<lambda>email. membership_row.extend m (member_entry.fields (display_name_of d (me_user_id m)) email))
        (email_of d (me_user_id m)))
     (select_by (\<lambda>m. (role_rank (me_role m), me_joined_at m, me_id m)) (\<lambda>m. me_club_id m = club_id)
        (t_club_memberships d)))"

definition list_pending_requests :: "uuid \<Rightarrow> request_entry list txn" where
  "list_pending_requests club_id = tx_query (\<lambda>d. List.map_filter
     (\<lambda>r. map_option (\<lambda>email. join_request_row.extend r (request_entry.fields (display_name_of d (jr_user_id r)) email))
        (email_of d (jr_user_id r)))
     (select_by (\<lambda>r. (jr_created_at r, jr_id r)) (\<lambda>r. jr_club_id r = club_id \<and> jr_status r = RequestPending)
        (t_club_join_requests d)))"

text \<open>\<open>UPDATE talaqi.club_memberships SET role = ... RETURNING\<close> of the one row that satisfies \<open>P\<close>.\<close>

definition update_role :: "(membership_row \<Rightarrow> bool) \<Rightarrow> club_role \<Rightarrow> membership_row option txn" where
  "update_role P role =
     tx_bind (tx_query id) (\<lambda>d.
     case one_or_none P (t_club_memberships d) of
       None \<Rightarrow> tx_return None
     | Some m \<Rightarrow>
         let m' = m\<lparr>me_role := role\<rparr> in
         tx_bind (check_constraints
           (membership_keys d (delete_where (\<lambda>x. me_id x = me_id m) (t_club_memberships d)) m')) (\<lambda>_.
         tx_bind (tx_modify (\<lambda>d. d\<lparr>t_club_memberships :=
           update_where (\<lambda>x. me_id x = me_id m) (\<lambda>_. m') (t_club_memberships d)\<rparr>)) (\<lambda>_.
         tx_return (Some m'))))"

definition set_role :: "uuid \<Rightarrow> club_role \<Rightarrow> membership_row txn" where
  "set_role membership_id role =
     tx_bind (update_role (\<lambda>m. me_id m = membership_id \<and> me_role m \<noteq> RoleOwner) role) (\<lambda>row. case row of
       None \<Rightarrow> tx_raise (ApiError ''conflict'' ''errors.conflict'' 409)
     | Some m \<Rightarrow> tx_return m)"

definition transfer_ownership :: "club \<Rightarrow> membership_row \<Rightarrow> membership_row \<Rightarrow> unit txn" where
  "transfer_ownership c current_owner target =
     tx_bind (update_role (\<lambda>m. me_id m = me_id current_owner \<and> me_role m = RoleOwner) RoleMember) (\<lambda>_.
     tx_bind (update_role (\<lambda>m. me_id m = me_id target \<and> me_role m \<noteq> RoleOwner) RoleOwner) (\<lambda>promoted.
     tx_bind (tx_guard (promoted \<noteq> None) (ApiError ''conflict'' ''errors.conflict'' 409)) (\<lambda>_.
     tx_bind (update_club_row None
       (\<lambda>r. cl_id r = cl_id c \<and> cl_owner_user_id r = me_user_id current_owner)
       (\<lambda>r. r\<lparr>cl_owner_user_id := me_user_id target, cl_revision := cl_revision r + 1\<rparr>)) (\<lambda>_.
     tx_return ()))))"

definition close_club :: "uuid \<Rightarrow> instant \<Rightarrow> unit txn" where
  "close_club club_id closed_at =
     tx_bind (update_club_row None
       (\<lambda>r. cl_id r = club_id \<and> cl_status r \<notin> {ClubClosed, ClubSuspended})
       (\<lambda>r. r\<lparr>cl_revision := cl_revision r + 1, cl_status := ClubClosed, cl_closed_at := Some closed_at\<rparr>))
       (\<lambda>closed. tx_guard (closed \<noteq> None) forbidden)"

end
