(* ===== verification/Moderation_Store.thy ===== *)
theory Moderation_Store
  imports Club_Repository Membership_Store "HOL-Library.List_Lexorder"
begin

section \<open>Cases and their targets (moderation/repository.py, moderation/models.py)\<close>

text \<open>
  A case is a report on an account, a club or an event; its row has one column per kind of target,
  the \<open>ModerationCase\<close> the identifier in the one its kind names. Acting on a target is one
  statement guarded by its status, and suspending or unpublishing a club or suspending an event
  revokes the private links with it.
\<close>

record moderation_case =
  mo_id :: uuid
  mo_reporter_user_id :: "uuid option"
  mo_target_type :: moderation_target_type
  mo_target_id :: uuid
  mo_category :: string
  mo_description :: string
  mo_status :: moderation_status
  mo_priority :: moderation_priority
  mo_assigned_admin_user_id :: "uuid option"
  mo_resolution_reason :: "string option"
  mo_acknowledged_at :: "instant option"
  mo_resolved_at :: "instant option"
  mo_created_at :: instant
  mo_updated_at :: instant

datatype target_status = UserState user_status | ClubState club_status | EventState event_status

record target =
  mt_type :: moderation_target_type
  mt_id :: uuid
  mt_label :: string
  mt_secondary_label :: "string option"
  mt_status :: target_status

record case_event =
  ce_id :: uuid
  ce_case_id :: uuid
  ce_actor_user_id :: "uuid option"
  ce_action :: "moderation_action option"
  ce_workflow_action :: "string option"
  ce_from_status :: "moderation_status option"
  ce_to_status :: moderation_status
  ce_reason :: string
  ce_created_at :: instant

datatype workflow_action = Acknowledge | Dismiss

definition report_categories :: "string list" where
  "report_categories = [''safety'', ''harassment'', ''fraud'', ''illegal_content'', ''privacy'', ''spam'', ''other'']"

fun action_name :: "moderation_action \<Rightarrow> string" where
  "action_name ActSuspend = ''suspend''"
| "action_name ActUnpublish = ''unpublish''"
| "action_name ActRestore = ''restore''"
| "action_name ActRestrict = ''restrict''"

fun workflow_name :: "workflow_action \<Rightarrow> string" where
  "workflow_name Acknowledge = ''acknowledge''"
| "workflow_name Dismiss = ''dismiss''"

fun target_type_name :: "moderation_target_type \<Rightarrow> string" where
  "target_type_name TargetUser = ''user''"
| "target_type_name TargetClub = ''club''"
| "target_type_name TargetEvent = ''event''"

fun priority_name :: "moderation_priority \<Rightarrow> string" where
  "priority_name PriorityStandard = ''standard''"
| "priority_name PriorityHigh = ''high''"
| "priority_name PriorityEmergency = ''emergency''"

fun case_status_name :: "moderation_status \<Rightarrow> string" where
  "case_status_name CaseOpen = ''open''"
| "case_status_name CaseInvestigating = ''investigating''"
| "case_status_name CaseActioned = ''actioned''"
| "case_status_name CaseDismissed = ''dismissed''"

fun user_status_name :: "user_status \<Rightarrow> string" where
  "user_status_name UserActive = ''active''"
| "user_status_name UserSuspended = ''suspended''"
| "user_status_name UserDeleted = ''deleted''"

fun club_state_name :: "club_status \<Rightarrow> string" where
  "club_state_name ClubDraft = ''draft''"
| "club_state_name ClubPublished = ''published''"
| "club_state_name ClubUnpublished = ''unpublished''"
| "club_state_name ClubSuspended = ''suspended''"
| "club_state_name ClubClosed = ''closed''"

fun target_status_name :: "target_status \<Rightarrow> string" where
  "target_status_name (UserState s) = user_status_name s"
| "target_status_name (ClubState s) = club_state_name s"
| "target_status_name (EventState s) = event_status_name s"

definition case_target_column :: "moderation_case_row \<Rightarrow> uuid option" where
  "case_target_column r = (case mc_target_type r of
     TargetUser \<Rightarrow> mc_target_user_id r
   | TargetClub \<Rightarrow> mc_target_club_id r
   | TargetEvent \<Rightarrow> mc_target_event_id r)"

definition case_of_row :: "moderation_case_row \<Rightarrow> moderation_case" where
  "case_of_row r = \<lparr>mo_id = mc_id r, mo_reporter_user_id = mc_reporter_user_id r,
     mo_target_type = mc_target_type r, mo_target_id = the (case_target_column r),
     mo_category = mc_category r, mo_description = mc_description r, mo_status = mc_status r,
     mo_priority = mc_priority r, mo_assigned_admin_user_id = mc_assigned_admin_user_id r,
     mo_resolution_reason = mc_resolution_reason r, mo_acknowledged_at = mc_acknowledged_at r,
     mo_resolved_at = mc_resolved_at r, mo_created_at = mc_created_at r, mo_updated_at = mc_updated_at r\<rparr>"

subsection \<open>Constraints (0001 baseline and migration 0007)\<close>

definition case_constraints ::
  "db \<Rightarrow> moderation_case_row list \<Rightarrow> moderation_case_row \<Rightarrow> (string \<times> bool) list" where
  "case_constraints d others r =
     [(''moderation_cases_category_check'', List.member report_categories (mc_category r)),
      (''moderation_cases_description_check'', 10 \<le> len (sql_btrim (mc_description r))
         \<and> len (sql_btrim (mc_description r)) \<le> 5000),
      (''ck_moderation_target_shape'', (case mc_target_type r of
          TargetUser \<Rightarrow> mc_target_user_id r \<noteq> None \<and> mc_target_club_id r = None \<and> mc_target_event_id r = None
        | TargetClub \<Rightarrow> mc_target_user_id r = None \<and> mc_target_club_id r \<noteq> None \<and> mc_target_event_id r = None
        | TargetEvent \<Rightarrow> mc_target_user_id r = None \<and> mc_target_club_id r = None \<and> mc_target_event_id r \<noteq> None)),
      (''ck_moderation_resolution_shape'', mc_status r \<notin> {CaseActioned, CaseDismissed}
         \<or> mc_resolution_reason r \<noteq> None \<and> mc_resolved_at r \<noteq> None),
      (''ck_moderation_safety_priority'', mc_category r \<noteq> ''safety'' \<or> mc_priority r = PriorityEmergency),
      (''moderation_cases_pkey'', \<not> row_exists (\<lambda>x. mc_id x = mc_id r) others),
      (''moderation_cases_reporter_user_id_fkey'',
         absent_or (\<lambda>i. row_exists (\<lambda>u. us_id u = i) (t_users d)) (mc_reporter_user_id r)),
      (''moderation_cases_target_user_id_fkey'',
         absent_or (\<lambda>i. row_exists (\<lambda>u. us_id u = i) (t_users d)) (mc_target_user_id r)),
      (''moderation_cases_target_club_id_fkey'',
         absent_or (\<lambda>i. row_exists (\<lambda>c. cl_id c = i) (t_clubs d)) (mc_target_club_id r)),
      (''moderation_cases_target_event_id_fkey'',
         absent_or (\<lambda>i. row_exists (\<lambda>e. ev_id e = i) (t_events d)) (mc_target_event_id r)),
      (''moderation_cases_assigned_admin_user_id_fkey'',
         absent_or (\<lambda>i. row_exists (\<lambda>u. us_id u = i) (t_users d)) (mc_assigned_admin_user_id r))]"

definition case_event_constraints :: "db \<Rightarrow> moderation_event_row \<Rightarrow> (string \<times> bool) list" where
  "case_event_constraints d r =
     [(''moderation_case_events_reason_check'', 1 \<le> len (sql_btrim (mh_reason r))
         \<and> len (sql_btrim (mh_reason r)) \<le> 2000),
      (''moderation_case_events_pkey'',
         \<not> row_exists (\<lambda>x. mh_id x = mh_id r) (t_moderation_case_events d)),
      (''moderation_case_events_moderation_case_id_fkey'',
         row_exists (\<lambda>c. mc_id c = mh_case_id r) (t_moderation_cases d)),
      (''moderation_case_events_actor_user_id_fkey'',
         absent_or (\<lambda>i. row_exists (\<lambda>u. us_id u = i) (t_users d)) (mh_actor_user_id r))]"

subsection \<open>Cases\<close>

definition get_case :: "uuid \<Rightarrow> moderation_case option txn" where
  "get_case case_id = tx_query (\<lambda>d. map_option case_of_row
     (one_or_none (\<lambda>c. mc_id c = case_id) (t_moderation_cases d)))"

text \<open>\<open>INSERT INTO talaqi.moderation_case_events\<close>\<close>

definition insert_case_event ::
  "uuid \<Rightarrow> uuid option \<Rightarrow> moderation_action option \<Rightarrow> moderation_status option \<Rightarrow> moderation_status
     \<Rightarrow> string \<Rightarrow> json \<Rightarrow> instant option \<Rightarrow> unit txn" where
  "insert_case_event case_id actor action from_status to_status reason metadata created_at =
     tx_bind fresh_uuid (\<lambda>i.
     tx_bind (case created_at of Some t \<Rightarrow> tx_return t | None \<Rightarrow> clock_timestamp) (\<lambda>t.
     tx_bind (tx_query id) (\<lambda>d.
     let r = \<lparr>mh_id = i, mh_case_id = case_id, mh_actor_user_id = actor, mh_action = action,
           mh_from_status = from_status, mh_to_status = to_status, mh_reason = reason,
           mh_safe_metadata = metadata, mh_created_at = t\<rparr> in
     tx_bind (check_constraints (case_event_constraints d r)) (\<lambda>_.
     tx_modify (\<lambda>d. d\<lparr>t_moderation_case_events := t_moderation_case_events d @ [r]\<rparr>)))))"

definition new_case_row ::
  "uuid \<Rightarrow> uuid \<Rightarrow> moderation_target_type \<Rightarrow> uuid \<Rightarrow> string \<Rightarrow> string \<Rightarrow> moderation_priority \<Rightarrow> instant
     \<Rightarrow> instant \<Rightarrow> moderation_case_row" where
  "new_case_row i reporter target_type target_id category description priority now updated =
     \<lparr>mc_id = i, mc_reporter_user_id = Some reporter, mc_target_type = target_type,
      mc_target_user_id = (if target_type = TargetUser then Some target_id else None),
      mc_target_club_id = (if target_type = TargetClub then Some target_id else None),
      mc_target_event_id = (if target_type = TargetEvent then Some target_id else None),
      mc_category = category, mc_description = description, mc_status = CaseOpen, mc_priority = priority,
      mc_assigned_admin_user_id = None, mc_resolution_reason = None, mc_acknowledged_at = None,
      mc_resolved_at = None, mc_created_at = now, mc_updated_at = updated\<rparr>"

definition create_report ::
  "uuid \<Rightarrow> moderation_target_type \<Rightarrow> uuid \<Rightarrow> string \<Rightarrow> string \<Rightarrow> moderation_priority \<Rightarrow> string option
     \<Rightarrow> instant \<Rightarrow> moderation_case txn" where
  "create_report reporter target_type target_id category description priority source_path now =
     tx_bind fresh_uuid (\<lambda>case_id.
     tx_bind clock_timestamp (\<lambda>updated.
     tx_bind (tx_query id) (\<lambda>d.
     let r = new_case_row case_id reporter target_type target_id category description priority now updated in
     tx_bind (check_constraints (case_constraints d (t_moderation_cases d) r)) (\<lambda>_.
     tx_bind (tx_modify (\<lambda>d. d\<lparr>t_moderation_cases := t_moderation_cases d @ [r]\<rparr>)) (\<lambda>_.
     tx_bind (insert_case_event case_id None None None CaseOpen ''Report submitted''
       (JObj (case source_path of None \<Rightarrow> [] | Some s \<Rightarrow> [(''source_path'', JStr s)])) (Some now)) (\<lambda>_.
     tx_bind (get_case case_id) (\<lambda>found. case found of
       None \<Rightarrow> tx_raise (RuntimeError ''moderation report disappeared during creation'')
     | Some c \<Rightarrow> tx_return c)))))))"

fun priority_rank :: "moderation_priority \<Rightarrow> int" where
  "priority_rank PriorityStandard = 1"
| "priority_rank PriorityHigh = 2"
| "priority_rank PriorityEmergency = 3"

definition case_key :: "moderation_case_row \<Rightarrow> int \<times> instant \<times> uuid" where
  "case_key r = (priority_rank (mc_priority r), mc_created_at r, mc_id r)"

text \<open>\<open>ORDER BY\<close> rank, creation and identifier, all descending; the page starts after a key.\<close>

definition moderation_cases ::
  "moderation_status option \<Rightarrow> moderation_priority option \<Rightarrow> moderation_target_type option \<Rightarrow> nat
     \<Rightarrow> (moderation_priority \<times> instant \<times> uuid) option \<Rightarrow> moderation_case list txn" where
  "moderation_cases status priority target_type limit after = tx_query (\<lambda>d.
     map case_of_row (take limit (rev (select_by case_key
       (\<lambda>r. (status = None \<or> status = Some (mc_status r))
          \<and> (priority = None \<or> priority = Some (mc_priority r))
          \<and> (target_type = None \<or> target_type = Some (mc_target_type r))
          \<and> (case after of None \<Rightarrow> True | Some (p, t, i) \<Rightarrow> case_key r < (priority_rank p, t, i)))
       (t_moderation_cases d)))))"

fun json_text :: "json \<Rightarrow> string \<Rightarrow> string option" where
  "json_text (JObj kvs) key = (case map_of kvs key of Some (JStr s) \<Rightarrow> Some s | _ \<Rightarrow> None)"
| "json_text _ key = None"

definition list_case_events :: "uuid \<Rightarrow> case_event list txn" where
  "list_case_events case_id = tx_query (\<lambda>d. map (\<lambda>r.
     \<lparr>ce_id = mh_id r, ce_case_id = mh_case_id r, ce_actor_user_id = mh_actor_user_id r,
      ce_action = mh_action r, ce_workflow_action = json_text (mh_safe_metadata r) ''workflow_action'',
      ce_from_status = mh_from_status r, ce_to_status = mh_to_status r, ce_reason = mh_reason r,
      ce_created_at = mh_created_at r\<rparr>)
     (select_by (\<lambda>r. (mh_created_at r, mh_id r)) (\<lambda>r. mh_case_id r = case_id) (t_moderation_case_events d)))"

subsection \<open>Targets\<close>

definition user_target :: "db \<Rightarrow> user_row \<Rightarrow> target" where
  "user_target d u = (let profile = one_or_none (\<lambda>p. pr_user_id p = us_id u) (t_profiles d) in
     \<lparr>mt_type = TargetUser, mt_id = us_id u,
      mt_label = (case profile of None \<Rightarrow> ''Member'' | Some p \<Rightarrow> pr_display_name p),
      mt_secondary_label = map_option pr_username profile, mt_status = UserState (us_status u)\<rparr>)"

definition club_target :: "club_row \<Rightarrow> target" where
  "club_target c = \<lparr>mt_type = TargetClub, mt_id = cl_id c, mt_label = cl_name c,
     mt_secondary_label = Some (cl_slug c), mt_status = ClubState (cl_status c)\<rparr>"

definition event_target :: "event_row \<Rightarrow> target" where
  "event_target e = \<lparr>mt_type = TargetEvent, mt_id = ev_id e, mt_label = ev_title e,
     mt_secondary_label = None, mt_status = EventState (ev_status e)\<rparr>"

definition get_target :: "moderation_target_type \<Rightarrow> uuid \<Rightarrow> target option txn" where
  "get_target target_type target_id = tx_query (\<lambda>d. case target_type of
     TargetUser \<Rightarrow> map_option (user_target d) (one_or_none (\<lambda>u. us_id u = target_id) (t_users d))
   | TargetClub \<Rightarrow> map_option club_target (one_or_none (\<lambda>c. cl_id c = target_id) (t_clubs d))
   | TargetEvent \<Rightarrow> map_option event_target (one_or_none (\<lambda>e. ev_id e = target_id) (t_events d)))"

text \<open>
  SQL's \<open>LIKE\<close>: \<open>%\<close> matches any text, \<open>_\<close> one character, a backslash takes the next character
  as it is. The query of a search is not escaped; names are ordered character by character.
\<close>

fun sql_like :: "string \<Rightarrow> string \<Rightarrow> bool" where
  "sql_like [] s = (s = [])"
| "sql_like (c # p) [] = (c = CHR ''%'' \<and> sql_like p [])"
| "sql_like (c # p) (x # s) =
     (if c = CHR ''%'' then sql_like p (x # s) \<or> sql_like (c # p) s
      else if c = CHR ''_'' then sql_like p s
      else if of_char c = (92 :: int) then (case p of [] \<Rightarrow> False | e # q \<Rightarrow> x = e \<and> sql_like q s)
      else x = c \<and> sql_like p s)"

definition search_targets :: "moderation_target_type \<Rightarrow> string \<Rightarrow> nat \<Rightarrow> target list txn" where
  "search_targets target_type query limit = tx_query (\<lambda>d.
     let pattern = ''%'' @ py_lower query @ ''%'';
         profile = (\<lambda>u. one_or_none (\<lambda>p. pr_user_id p = us_id u) (t_profiles d));
         text_of = (\<lambda>f u. case profile u of None \<Rightarrow> [] | Some p \<Rightarrow> f p);
         code = map (\<lambda>c. of_char c :: int) in
     take limit (case target_type of
       TargetUser \<Rightarrow> map (user_target d) (select_by
         (\<lambda>u. (code (py_lower (case profile u of None \<Rightarrow> us_email u | Some p \<Rightarrow> pr_display_name p)), us_id u))
         (\<lambda>u. sql_like pattern (py_lower (us_email u)) \<or> sql_like pattern (py_lower (text_of pr_username u))
            \<or> sql_like pattern (py_lower (text_of pr_display_name u))) (t_users d))
     | TargetClub \<Rightarrow> map club_target (select_by (\<lambda>c. (code (py_lower (cl_name c)), cl_id c))
         (\<lambda>c. sql_like pattern (py_lower (cl_name c)) \<or> sql_like pattern (py_lower (cl_slug c))) (t_clubs d))
     | TargetEvent \<Rightarrow> map event_target (select_by (\<lambda>e. (code (py_lower (ev_title e)), ev_id e))
         (\<lambda>e. sql_like pattern (py_lower (ev_title e))) (t_events d))))"

subsection \<open>Acting on a target\<close>

text \<open>\<open>UPDATE talaqi.users ... WHERE id = ? AND status = ? RETURNING\<close>: whether a row was changed.\<close>

definition update_user_row :: "(user_row \<Rightarrow> bool) \<Rightarrow> (user_row \<Rightarrow> user_row) \<Rightarrow> bool txn" where
  "update_user_row P f =
     tx_bind (tx_query (\<lambda>d. one_or_none P (t_users d))) (\<lambda>found. case found of
       None \<Rightarrow> tx_return False
     | Some u \<Rightarrow>
         tx_bind (check_constraints [(''ck_users_suspension_shape'', us_status (f u) \<noteq> UserSuspended
           \<or> us_suspended_at (f u) \<noteq> None \<and> us_suspension_reason (f u) \<noteq> None)]) (\<lambda>_.
         tx_bind (tx_modify (\<lambda>d. d\<lparr>t_users := update_where (\<lambda>x. us_id x = us_id u) (\<lambda>_. f u) (t_users d)\<rparr>)) (\<lambda>_.
         tx_return True)))"

text \<open>The second part of the statements that revoke: the live private links of the events named.\<close>

definition revoke_invites :: "(event_row \<Rightarrow> bool) \<Rightarrow> instant \<Rightarrow> unit txn" where
  "revoke_invites P now = tx_modify (\<lambda>d. d\<lparr>t_event_invite_tokens := update_where
     (\<lambda>i. row_exists (\<lambda>e. P e \<and> ev_id e = iv_event_id i) (t_events d) \<and> iv_revoked_at i = None)
     (\<lambda>i. i\<lparr>iv_revoked_at := Some now\<rparr>) (t_event_invite_tokens d)\<rparr>)"

definition changed_to :: "target \<Rightarrow> target_status \<Rightarrow> bool \<Rightarrow> target option" where
  "changed_to t s changed = (if changed then Some (t\<lparr>mt_status := s\<rparr>) else None)"

definition suspend_user :: "target \<Rightarrow> string \<Rightarrow> instant \<Rightarrow> target option txn" where
  "suspend_user t reason now =
     tx_bind (update_user_row (\<lambda>u. us_id u = mt_id t \<and> us_status u = UserActive)
       (\<lambda>u. u\<lparr>us_status := UserSuspended, us_suspended_at := Some now, us_suspension_reason := Some reason\<rparr>))
     (\<lambda>changed. tx_return (changed_to t (UserState UserSuspended) changed))"

definition restore_user :: "target \<Rightarrow> target option txn" where
  "restore_user t =
     tx_bind (update_user_row (\<lambda>u. us_id u = mt_id t \<and> us_status u = UserSuspended)
       (\<lambda>u. u\<lparr>us_status := UserActive, us_suspended_at := None, us_suspension_reason := None\<rparr>))
     (\<lambda>changed. tx_return (changed_to t (UserState UserActive) changed))"

definition take_club_down :: "target \<Rightarrow> club_status \<Rightarrow> (club_row \<Rightarrow> club_row) \<Rightarrow> instant \<Rightarrow> target option txn" where
  "take_club_down t status f now =
     tx_bind (update_club_row None (\<lambda>c. cl_id c = mt_id t \<and> cl_status c = ClubPublished) f) (\<lambda>changed.
     tx_bind (if changed = None then tx_return () else revoke_invites (\<lambda>e. ev_club_id e = changed) now) (\<lambda>_.
     tx_return (changed_to t (ClubState status) (changed \<noteq> None))))"

definition suspend_club :: "target \<Rightarrow> string \<Rightarrow> instant \<Rightarrow> target option txn" where
  "suspend_club t reason now = take_club_down t ClubSuspended
     (\<lambda>c. c\<lparr>cl_status := ClubSuspended, cl_suspended_at := Some now, cl_suspension_reason := Some reason\<rparr>) now"

definition unpublish_club :: "target \<Rightarrow> instant \<Rightarrow> target option txn" where
  "unpublish_club t now = take_club_down t ClubUnpublished (\<lambda>c. c\<lparr>cl_status := ClubUnpublished\<rparr>) now"

definition restore_club :: "target \<Rightarrow> instant \<Rightarrow> target option txn" where
  "restore_club t now =
     tx_bind (update_club_row None (\<lambda>c. cl_id c = mt_id t \<and> cl_status c \<in> {ClubSuspended, ClubUnpublished})
       (\<lambda>c. c\<lparr>cl_status := ClubPublished, cl_published_at := (case cl_published_at c of None \<Rightarrow> Some now | Some x \<Rightarrow> Some x),
          cl_suspended_at := None, cl_suspension_reason := None\<rparr>)) (\<lambda>changed.
     tx_return (changed_to t (ClubState ClubPublished) (changed \<noteq> None)))"

definition suspend_event :: "target \<Rightarrow> string \<Rightarrow> instant \<Rightarrow> target option txn" where
  "suspend_event t reason now =
     tx_bind (update_event_row (\<lambda>e. ev_id e = mt_id t \<and> ev_status e = EvPublished)
       (\<lambda>e. e\<lparr>ev_status := EvSuspended, ev_suspended_at := Some now, ev_suspension_reason := Some reason\<rparr>)) (\<lambda>changed.
     tx_bind (if changed = None then tx_return () else revoke_invites (\<lambda>e. Some (ev_id e) = changed) now) (\<lambda>_.
     tx_return (changed_to t (EventState EvSuspended) (changed \<noteq> None))))"

definition restore_event :: "target \<Rightarrow> instant \<Rightarrow> target option txn" where
  "restore_event t now =
     tx_bind (update_event_row (\<lambda>e. ev_id e = mt_id t \<and> ev_status e = EvSuspended)
       (\<lambda>e. e\<lparr>ev_status := EvPublished,
          ev_published_at := (case ev_published_at e of None \<Rightarrow> Some now | Some x \<Rightarrow> Some x),
          ev_suspended_at := None, ev_suspension_reason := None\<rparr>)) (\<lambda>changed.
     tx_return (changed_to t (EventState EvPublished) (changed \<noteq> None)))"

definition apply_target_action ::
  "target \<Rightarrow> moderation_action \<Rightarrow> string \<Rightarrow> instant \<Rightarrow> target option txn" where
  "apply_target_action t action reason now =
     (case (mt_type t, action) of
        (TargetUser, ActSuspend) \<Rightarrow> suspend_user t reason now
      | (TargetUser, ActRestore) \<Rightarrow> restore_user t
      | (TargetClub, ActSuspend) \<Rightarrow> suspend_club t reason now
      | (TargetClub, ActUnpublish) \<Rightarrow> unpublish_club t now
      | (TargetClub, ActRestore) \<Rightarrow> restore_club t now
      | (TargetEvent, ActSuspend) \<Rightarrow> suspend_event t reason now
      | (TargetEvent, ActRestore) \<Rightarrow> restore_event t now
      | _ \<Rightarrow> tx_return None)"

subsection \<open>Recording\<close>

text \<open>
  \<open>UPDATE talaqi.moderation_cases ... WHERE id = ? AND status = ?\<close>: whether one row was changed.
\<close>

definition update_case :: "uuid \<Rightarrow> moderation_status \<Rightarrow> (moderation_case_row \<Rightarrow> moderation_case_row) \<Rightarrow> bool txn" where
  "update_case case_id from_status f =
     tx_bind (tx_query id) (\<lambda>d.
     case one_or_none (\<lambda>c. mc_id c = case_id \<and> mc_status c = from_status) (t_moderation_cases d) of
       None \<Rightarrow> tx_return False
     | Some r \<Rightarrow>
         tx_bind clock_timestamp (\<lambda>now.
         let r' = (f r)\<lparr>mc_updated_at := now\<rparr> in
         tx_bind (check_constraints (case_constraints d
           (delete_where (\<lambda>x. mc_id x = case_id) (t_moderation_cases d)) r')) (\<lambda>_.
         tx_bind (tx_modify (\<lambda>d. d\<lparr>t_moderation_cases :=
           update_where (\<lambda>x. mc_id x = case_id) (\<lambda>_. r') (t_moderation_cases d)\<rparr>)) (\<lambda>_.
         tx_return True))))"

definition coalesce :: "'a option \<Rightarrow> 'a \<Rightarrow> 'a option" where
  "coalesce x y = (case x of None \<Rightarrow> Some y | Some v \<Rightarrow> Some v)"

definition record_case_action ::
  "moderation_case \<Rightarrow> uuid \<Rightarrow> moderation_action \<Rightarrow> string \<Rightarrow> target_status \<Rightarrow> target_status \<Rightarrow> instant
     \<Rightarrow> moderation_case txn" where
  "record_case_action c actor action reason previous_status new_status now =
     tx_bind (insert_case_event (mo_id c) (Some actor) (Some action) (Some (mo_status c)) CaseActioned reason
       (JObj [(''previous_target_status'', JStr (target_status_name previous_status)),
          (''target_status'', JStr (target_status_name new_status))]) None) (\<lambda>_.
     tx_bind (update_case (mo_id c) (mo_status c)
       (\<lambda>r. r\<lparr>mc_status := CaseActioned, mc_assigned_admin_user_id := Some actor,
          mc_resolution_reason := Some reason, mc_acknowledged_at := coalesce (mc_acknowledged_at r) now,
          mc_resolved_at := Some now\<rparr>)) (\<lambda>changed.
     tx_bind (tx_guard changed (RuntimeError ''moderation action state changed concurrently'')) (\<lambda>_.
     tx_bind (get_case (mo_id c)) (\<lambda>updated. case updated of
       None \<Rightarrow> tx_raise (RuntimeError ''moderation case disappeared during action'')
     | Some u \<Rightarrow>
         tx_bind (if mo_target_type c = TargetUser
           then tx_bind (enqueue ''moderation_case'' (mo_id c) ''moderation.action_taken''
             [(''recipient_user_id'', JStr (uuid_str (mo_target_id c))), (''case_id'', JStr (uuid_str (mo_id c)))]
             (''moderation:'' @ uuid_str (mo_id c) @ '':action:'' @ action_name action) now) (\<lambda>_. tx_return ())
           else tx_return ()) (\<lambda>_.
         tx_return u)))))"

definition record_case_workflow ::
  "moderation_case \<Rightarrow> uuid \<Rightarrow> workflow_action \<Rightarrow> string \<Rightarrow> instant \<Rightarrow> moderation_case txn" where
  "record_case_workflow c actor action reason now =
     (let to_status = (if action = Acknowledge then CaseInvestigating else CaseDismissed) in
     tx_bind (insert_case_event (mo_id c) (Some actor) None (Some (mo_status c)) to_status reason
       (JObj [(''workflow_action'', JStr (workflow_name action))]) (Some now)) (\<lambda>_.
     tx_bind (update_case (mo_id c) (mo_status c)
       (\<lambda>r. r\<lparr>mc_status := to_status, mc_assigned_admin_user_id := Some actor,
          mc_resolution_reason := (if to_status = CaseDismissed then Some reason else None),
          mc_acknowledged_at := coalesce (mc_acknowledged_at r) now,
          mc_resolved_at := (if to_status = CaseDismissed then Some now else None)\<rparr>)) (\<lambda>changed.
     tx_bind (tx_guard changed (RuntimeError ''moderation workflow state changed concurrently'')) (\<lambda>_.
     tx_bind (get_case (mo_id c)) (\<lambda>updated. case updated of
       None \<Rightarrow> tx_raise (RuntimeError ''moderation case disappeared during workflow transition'')
     | Some u \<Rightarrow> tx_return u)))))"

end
