(* ===== verification/Moderation_Service.thy ===== *)
theory Moderation_Service
  imports Moderation_Store Platform_Settings
begin

section \<open>Moderation (moderation/service.py)\<close>

text \<open>
  Members report accounts, clubs and events; administrators with a second factor acknowledge, dismiss
  and act on the cases. Instants are microseconds since 1970, a Thursday, and the code's datetimes are
  in UTC. \<open>flags\<close> says whether the service was built with the feature flags.
\<close>

definition invalid_transition :: py_error where
  "invalid_transition = ApiError ''invalid_moderation_transition'' ''errors.conflict'' 409"

definition moderation_reason :: "string \<Rightarrow> py_error + string" where
  "moderation_reason v =
     (let normalized = py_strip v in
      if 3 \<le> len normalized \<and> len normalized \<le> 2000 then Inr normalized
      else Inl (ApiError ''invalid_reason'' ''errors.validation'' 422))"

definition emergency_notice :: "moderation_case \<Rightarrow> bool" where
  "emergency_notice c \<longleftrightarrow> mo_category c = ''safety'' \<or> mo_priority c = PriorityEmergency"

subsection \<open>Deadlines\<close>

definition day :: int where
  "day = 24 * 60 * 60 * 1000000"

definition weekday :: "instant \<Rightarrow> int" where
  "weekday t = (t div day + 3) mod 7"

lemma weekday_next: "weekday (t + day) = (weekday t + 1) mod 7"
proof -
  have "(t + day) div day = t div day + 1" by (simp add: day_def)
  then show ?thesis by (simp add: weekday_def mod_simps add.commute add.left_commute)
qed

lemma weekday_range: "0 \<le> weekday t" "weekday t < 7"
  by (simp_all add: weekday_def)

text \<open>\<open>while remaining_business_days\<close>: a weekday reached uses one up, a day of the weekend does not.\<close>

function business_deadline :: "instant \<Rightarrow> nat \<Rightarrow> instant" where
  "business_deadline deadline remaining =
     (if remaining = 0 then deadline
      else let later_day = deadline + day in
        if weekday later_day < 5 then business_deadline later_day (remaining - 1) else business_deadline later_day remaining)"
  by auto

termination
proof (relation "measures [snd, \<lambda>(t, r). nat (7 - weekday t)]")
  fix deadline later_day :: int and remaining :: nat
  assume nx: "later_day = deadline + day" and "\<not> weekday later_day < 5"
  then have "weekday deadline \<in> {4, 5}"
    using weekday_range [of deadline] weekday_next [of deadline]
    by (cases "weekday deadline = 6") (auto simp: mod_pos_pos_trivial)
  then have "weekday later_day = weekday deadline + 1" using weekday_next [of deadline] nx by auto
  then show "((later_day, remaining), (deadline, remaining)) \<in> measures [snd, \<lambda>(t, r). nat (7 - weekday t)]"
    using weekday_range [of later_day] by simp
qed auto

declare business_deadline.simps [simp del]

definition acknowledgement_deadline :: "moderation_case \<Rightarrow> instant" where
  "acknowledgement_deadline c =
     (if mo_priority c \<in> {PriorityEmergency, PriorityHigh} then mo_created_at c + minutes (4 * 60)
      else business_deadline (mo_created_at c) 2)"

definition response_breached :: "moderation_case \<Rightarrow> instant \<Rightarrow> bool" where
  "response_breached c now =
     (case mo_acknowledged_at c of
        Some t \<Rightarrow> acknowledgement_deadline c < t
      | None \<Rightarrow> acknowledgement_deadline c < now)"

subsection \<open>What may be done\<close>

definition target_capabilities :: "target \<Rightarrow> moderation_action list" where
  "target_capabilities t =
     (case (mt_type t, mt_status t) of
        (TargetUser, UserState UserActive) \<Rightarrow> [ActSuspend]
      | (TargetUser, UserState UserSuspended) \<Rightarrow> [ActRestore]
      | (TargetClub, ClubState ClubPublished) \<Rightarrow> [ActSuspend, ActUnpublish]
      | (TargetClub, ClubState ClubSuspended) \<Rightarrow> [ActRestore]
      | (TargetClub, ClubState ClubUnpublished) \<Rightarrow> [ActRestore]
      | (TargetEvent, EventState EvPublished) \<Rightarrow> [ActSuspend]
      | (TargetEvent, EventState EvSuspended) \<Rightarrow> [ActRestore]
      | _ \<Rightarrow> [])"

definition case_capabilities :: "moderation_case \<Rightarrow> target \<Rightarrow> moderation_action list" where
  "case_capabilities c t =
     (if mo_status c \<in> {CaseOpen, CaseInvestigating} then target_capabilities t
      else if mo_status c = CaseActioned then filter (\<lambda>a. a = ActRestore) (target_capabilities t)
      else [])"

definition find_case :: "uuid \<Rightarrow> moderation_case txn" where
  "find_case case_id =
     tx_bind (tx_guard (is_uuid7 case_id) not_found) (\<lambda>_.
     tx_bind (get_case case_id) (\<lambda>found. case found of
       None \<Rightarrow> tx_raise not_found | Some c \<Rightarrow> tx_return c))"

definition target_or_not_found :: "moderation_target_type \<Rightarrow> uuid \<Rightarrow> target txn" where
  "target_or_not_found target_type target_id =
     tx_bind (get_target target_type target_id) (\<lambda>found. case found of
       None \<Rightarrow> tx_raise not_found | Some t \<Rightarrow> tx_return t)"

text \<open>The first checks of both operations of an administrator.\<close>

definition require_moderator :: "'z subject_scheme \<Rightarrow> unit txn" where
  "require_moderator p =
     tx_bind (tx_lift (can_access_admin p)) (\<lambda>_.
     tx_bind (tx_query (\<lambda>d. active_mfa d (sb_user_id p))) (\<lambda>has_active_mfa.
     tx_lift (can_moderate p has_active_mfa)))"

subsection \<open>Reporting\<close>

definition submit_report ::
  "bool \<Rightarrow> 'z subject_scheme \<Rightarrow> moderation_target_type \<Rightarrow> uuid \<Rightarrow> string \<Rightarrow> string \<Rightarrow> string option
     \<Rightarrow> uuid \<Rightarrow> instant \<Rightarrow> moderation_case txn" where
  "submit_report flags p target_type target_id category description source_path request_id now =
     tx_bind (tx_guard flags (RuntimeError ''report submission requires feature flag service'')) (\<lambda>_.
     tx_bind (require_enabled ''features.member_reports_enabled'') (\<lambda>_.
     let normalized = py_strip description in
     tx_bind (tx_guard (List.member report_categories category \<and> 10 \<le> len normalized \<and> len normalized \<le> 5000)
       (ApiError ''invalid_report'' ''errors.validation'' 422)) (\<lambda>_.
     tx_bind (target_or_not_found target_type target_id) (\<lambda>_.
     tx_bind (tx_guard (\<not> (target_type = TargetUser \<and> target_id = sb_user_id p))
       (ApiError ''invalid_report_target'' ''errors.validation'' 422)) (\<lambda>_.
     let priority = (if category = ''safety'' then PriorityEmergency else PriorityStandard) in
     tx_bind (create_report (sb_user_id p) target_type target_id category normalized priority source_path now) (\<lambda>c.
     tx_bind (audit_record \<lparr>ae_actor_user_id = Some (sb_user_id p), ae_actor_kind = Member,
       ae_action = ''moderation.report.submitted'', ae_target_type = target_type_name target_type,
       ae_target_id = Some target_id, ae_reason = None, ae_safe_before = None,
       ae_safe_after = Some (JObj [(''case_id'', JStr (uuid_str (mo_id c))), (''category'', JStr category),
         (''priority'', JStr (priority_name priority))]), ae_request_id = Some request_id\<rparr>) (\<lambda>_.
     tx_return c)))))))"

subsection \<open>Reading\<close>

definition moderation_list_cases ::
  "'z subject_scheme \<Rightarrow> moderation_status option \<Rightarrow> moderation_priority option \<Rightarrow> moderation_target_type option
     \<Rightarrow> nat \<Rightarrow> (moderation_priority \<times> instant \<times> uuid) option
     \<Rightarrow> (moderation_case \<times> target \<times> moderation_action list) list txn" where
  "moderation_list_cases p status priority target_type limit after =
     tx_bind (tx_lift (can_access_admin p)) (\<lambda>_.
     tx_bind (moderation_cases status priority target_type limit after) (\<lambda>cs.
     tx_query (\<lambda>d. List.map_filter (\<lambda>c. case get_target (mo_target_type c) (mo_target_id c) d of
         Inr (Some t, _) \<Rightarrow> Some (c, t, case_capabilities c t) | _ \<Rightarrow> None) cs)))"

definition get_detail ::
  "'z subject_scheme \<Rightarrow> uuid \<Rightarrow> (moderation_case \<times> target \<times> case_event list \<times> moderation_action list) txn" where
  "get_detail p case_id =
     tx_bind (tx_lift (can_access_admin p)) (\<lambda>_.
     tx_bind (find_case case_id) (\<lambda>c.
     tx_bind (target_or_not_found (mo_target_type c) (mo_target_id c)) (\<lambda>t.
     tx_bind (list_case_events (mo_id c)) (\<lambda>events.
     tx_return (c, t, events, case_capabilities c t)))))"

definition moderation_search :: "'z subject_scheme \<Rightarrow> moderation_target_type \<Rightarrow> string \<Rightarrow> nat \<Rightarrow> target list txn" where
  "moderation_search p target_type query limit =
     tx_bind (tx_lift (can_access_admin p)) (\<lambda>_.
     let normalized = py_strip query in
     tx_bind (tx_guard (2 \<le> len normalized \<and> len normalized \<le> 120)
       (ApiError ''invalid_search'' ''errors.validation'' 422)) (\<lambda>_.
     search_targets target_type normalized limit))"

subsection \<open>Acting\<close>

definition moderation_audit ::
  "'z subject_scheme \<Rightarrow> string \<Rightarrow> string \<Rightarrow> uuid \<Rightarrow> string \<Rightarrow> json \<Rightarrow> json \<Rightarrow> uuid \<Rightarrow> unit txn" where
  "moderation_audit p action target_type target_id reason before after request_id =
     tx_bind (audit_record \<lparr>ae_actor_user_id = Some (sb_user_id p), ae_actor_kind = Admin,
       ae_action = action, ae_target_type = target_type, ae_target_id = Some target_id,
       ae_reason = Some reason, ae_safe_before = Some before, ae_safe_after = Some after,
       ae_request_id = Some request_id\<rparr>) (\<lambda>_. tx_return ())"

definition act ::
  "'z subject_scheme \<Rightarrow> uuid \<Rightarrow> moderation_action \<Rightarrow> string \<Rightarrow> uuid \<Rightarrow> instant
     \<Rightarrow> (moderation_case \<times> target \<times> case_event list) txn" where
  "act p case_id action reason request_id now =
     tx_bind (require_moderator p) (\<lambda>_.
     tx_bind (tx_lift (moderation_reason reason)) (\<lambda>normalized.
     tx_bind (find_case case_id) (\<lambda>c.
     tx_bind (target_or_not_found (mo_target_type c) (mo_target_id c)) (\<lambda>t.
     tx_bind (tx_guard (List.member (case_capabilities c t) action) invalid_transition) (\<lambda>_.
     tx_bind (apply_target_action t action normalized now) (\<lambda>changed. case changed of
       None \<Rightarrow> tx_raise invalid_transition
     | Some t' \<Rightarrow>
         tx_bind (record_case_action c (sb_user_id p) action normalized (mt_status t) (mt_status t') now) (\<lambda>updated.
         tx_bind (moderation_audit p (''moderation.target.'' @ action_name action) (target_type_name (mt_type t))
           (mt_id t) normalized (JObj [(''status'', JStr (target_status_name (mt_status t)))])
           (JObj [(''status'', JStr (target_status_name (mt_status t'))), (''case_id'', JStr (uuid_str (mo_id c)))])
           request_id) (\<lambda>_.
         tx_bind (list_case_events (mo_id c)) (\<lambda>events.
         tx_return (updated, t', events))))))))))"

definition workflow_allowed :: "workflow_action \<Rightarrow> moderation_status \<Rightarrow> bool" where
  "workflow_allowed action status \<longleftrightarrow> action = Acknowledge \<and> status = CaseOpen
     \<or> action = Dismiss \<and> status \<in> {CaseOpen, CaseInvestigating}"

definition transition_case ::
  "'z subject_scheme \<Rightarrow> uuid \<Rightarrow> workflow_action \<Rightarrow> string \<Rightarrow> uuid \<Rightarrow> instant
     \<Rightarrow> (moderation_case \<times> target \<times> case_event list) txn" where
  "transition_case p case_id action reason request_id now =
     tx_bind (require_moderator p) (\<lambda>_.
     tx_bind (tx_lift (moderation_reason reason)) (\<lambda>normalized.
     tx_bind (find_case case_id) (\<lambda>c.
     tx_bind (tx_guard (workflow_allowed action (mo_status c)) invalid_transition) (\<lambda>_.
     tx_bind (target_or_not_found (mo_target_type c) (mo_target_id c)) (\<lambda>t.
     tx_bind (record_case_workflow c (sb_user_id p) action normalized now) (\<lambda>updated.
     tx_bind (moderation_audit p (''moderation.case.'' @ workflow_name action) ''moderation_case'' (mo_id c)
       normalized (JObj [(''status'', JStr (case_status_name (mo_status c)))])
       (JObj [(''status'', JStr (case_status_name (mo_status updated))),
          (''assigned_admin_user_id'', JStr (uuid_str (sb_user_id p)))]) request_id) (\<lambda>_.
     tx_bind (list_case_events (mo_id c)) (\<lambda>events.
     tx_return (updated, t, events)))))))))"

end
