(* ===== verification/Admin_Pages.thy ===== *)
theory Admin_Pages
  imports Moderation_Service
begin

section \<open>The pages of the administration (audit/service.py, moderation/routes.py)\<close>

text \<open>
  The listing of the audit log and the two pages that continue after a position. The routes ask for one row more than the page holds
  to learn whether there is a next page; the position they return stands for the signed cursor.
\<close>

record audit_filter =
  af_target_type :: "string option"
  af_target_id :: "uuid option"
  af_actor_user_id :: "uuid option"
  af_action :: "string option"

definition list_audit_events :: "audit_filter \<Rightarrow> nat \<Rightarrow> (instant \<times> uuid) option \<Rightarrow> audit_row list txn" where
  "list_audit_events f limit after = tx_query (\<lambda>d.
     take limit (rev (select_by (\<lambda>r. (au_created_at r, au_id r))
       (\<lambda>r. absent_or (\<lambda>v. au_target_type r = v) (af_target_type f)
          \<and> (af_target_id f = None \<or> au_target_id r = af_target_id f)
          \<and> (af_actor_user_id f = None \<or> au_actor_user_id r = af_actor_user_id f)
          \<and> absent_or (\<lambda>v. au_action r = v) (af_action f)
          \<and> absent_or (\<lambda>p. (au_created_at r, au_id r) < p) after)
       (t_audit_events d))))"

definition audit_list_events :: "audit_filter \<Rightarrow> nat \<Rightarrow> (instant \<times> uuid) option \<Rightarrow> audit_row list txn" where
  "audit_list_events f limit after =
     tx_bind (tx_guard (absent_or target_type_pattern (af_target_type f))
       (ValueError ''invalid audit target_type'')) (\<lambda>_.
     tx_bind (tx_guard (absent_or action_pattern (af_action f)) (ValueError ''invalid audit action'')) (\<lambda>_.
     tx_bind (tx_guard (1 \<le> limit \<and> limit \<le> 100)
       (ValueError ''audit limit must be between 1 and 100'')) (\<lambda>_.
     list_audit_events f limit after)))"

definition moderation_audit_events ::
  "'z subject_scheme \<Rightarrow> audit_filter \<Rightarrow> nat \<Rightarrow> (instant \<times> uuid) option \<Rightarrow> audit_row list txn" where
  "moderation_audit_events p f limit after =
     tx_bind (tx_lift (can_access_admin p)) (\<lambda>_. audit_list_events f limit after)"

definition next_position :: "nat \<Rightarrow> ('a \<Rightarrow> 'b) \<Rightarrow> 'a list \<Rightarrow> 'b option" where
  "next_position limit position values =
     (if limit < length values \<and> take limit values \<noteq> [] then Some (position (last (take limit values))) else None)"

definition audit_page ::
  "'z subject_scheme \<Rightarrow> audit_filter \<Rightarrow> nat \<Rightarrow> (instant \<times> uuid) option
     \<Rightarrow> (audit_row list \<times> (instant \<times> uuid) option) txn" where
  "audit_page p f limit after =
     tx_bind (moderation_audit_events p f (limit + 1) after) (\<lambda>values.
     tx_return (take limit values, next_position limit (\<lambda>r. (au_created_at r, au_id r)) values))"

definition case_page ::
  "'z subject_scheme \<Rightarrow> moderation_status option \<Rightarrow> moderation_priority option \<Rightarrow> moderation_target_type option
     \<Rightarrow> nat \<Rightarrow> (moderation_priority \<times> instant \<times> uuid) option
     \<Rightarrow> ((moderation_case \<times> target \<times> moderation_action list) list \<times> (moderation_priority \<times> instant \<times> uuid) option) txn" where
  "case_page p status priority target_type limit after =
     tx_bind (moderation_list_cases p status priority target_type (limit + 1) after) (\<lambda>views.
     tx_return (take limit views,
       next_position limit (\<lambda>(c, _, _). (mo_priority c, mo_created_at c, mo_id c)) views))"

text \<open>
  The route offers pages of up to 100 events; the service allows a limit of 100, one less than the
  largest page needs: a page of 100 fails for every administrator and every filter.
\<close>

theorem largest_audit_page_fails:
  assumes "sb_status p = UserActive" and "sb_is_platform_admin p"
    and "absent_or target_type_pattern (af_target_type f)" and "absent_or action_pattern (af_action f)"
  shows "audit_page p f 100 after d = Inl (ValueError ''audit limit must be between 1 and 100'')"
proof -
  have "can_access_admin p = Inr ()" using assms(1,2) by (simp add: auth_simps)
  then show ?thesis using assms(3,4)
    by (simp add: audit_page_def moderation_audit_events_def audit_list_events_def tx_run)
qed

end
