(* ===== verification/Registration_Transition.thy ===== *)
theory Registration_Transition
  imports Registration_Store Example_Data
begin

section \<open>The transition service (RegistrationTransitionService)\<close>

text \<open>
  \<open>transition_with\<close> is the service over any implementation of
  \<open>RegistrationRepositoryProtocol\<close>, whose three methods are its arguments; \<open>transition\<close> is
  the service on the repository of \<open>Registration_Store\<close>. The locale states what the service
  relies on and derives the replay behaviour from it.
\<close>

type_synonym 's context_query = "uuid \<Rightarrow> ('s, registration_context option) tx"
type_synonym 's history_query = "uuid \<Rightarrow> ('s, registration_transition option) tx"
type_synonym 's apply_statement =
  "registration \<Rightarrow> instant transition_command \<Rightarrow> string \<Rightarrow> registration_mutation
     \<Rightarrow> ('s, transition_result) tx"

definition replay_with ::
  "'s context_query \<Rightarrow> 's history_query \<Rightarrow> instant transition_command \<Rightarrow> string
     \<Rightarrow> ('s, transition_result option) tx" where
  "replay_with context_of history_of c fingerprint =
     tx_bind (history_of (tc_command_id c)) (\<lambda>found. case found of
       None \<Rightarrow> tx_return None
     | Some t \<Rightarrow>
         if rt_command_hash t \<noteq> fingerprint
         then tx_raise (RegistrationTransitionError ''transition_idempotency_conflict'')
         else tx_bind (context_of (rt_registration_id t)) (\<lambda>context. case context of
           None \<Rightarrow> tx_raise (RegistrationTransitionError ''registration_not_found'')
         | Some cx \<Rightarrow> tx_return (Some \<lparr>tr_registration = cx_registration cx, tr_transition = t\<rparr>)))"

text \<open>
  The guards of \<open>transition\<close> after the lock. A published event without a start time would
  raise \<open>TypeError\<close>: \<open>None\<close> does not compare with a \<open>datetime\<close>.
\<close>

definition check_transition ::
  "registration_context \<Rightarrow> instant transition_command \<Rightarrow> py_error + unit" where
  "check_transition cx c =
     (let transition_error = (\<lambda>code. Inl (RegistrationTransitionError code));
          current = cx_registration cx; target = tc_target_state c in
      if cx_event_status cx \<noteq> EvPublished then transition_error ''event_not_transitionable''
      else if target \<noteq> Expired \<and> cx_event_start_at cx = None then Inl TypeError
      else if target \<noteq> Expired \<and> the (cx_event_start_at cx) \<le> tc_occurred_at c
      then transition_error ''event_not_transitionable''
      else if \<not> is_transition_allowed (rg_state current) target
      then transition_error ''invalid_registration_transition''
      else if rg_method current = Free \<and> target \<in> {CashPending, Expired}
      then transition_error ''invalid_registration_method_transition''
      else if target = Expired
        \<and> (case rg_cash_expires_at current of None \<Rightarrow> True | Some t \<Rightarrow> t > tc_occurred_at c)
      then transition_error ''cash_reservation_not_expired''
      else Inr ())"

definition transition_with ::
  "'s context_query \<Rightarrow> 's history_query \<Rightarrow> 's apply_statement \<Rightarrow> (string \<Rightarrow> string)
     \<Rightarrow> datetime transition_command \<Rightarrow> ('s, transition_result) tx" where
  "transition_with context_of history_of apply_to sha256 value =
     tx_bind (tx_lift (normalize_command value)) (\<lambda>c.
     let fingerprint = command_hash sha256 c;
         replay = replay_with context_of history_of c fingerprint in
     tx_bind replay (\<lambda>replayed. case replayed of
       Some result \<Rightarrow> tx_return result
     | None \<Rightarrow>
         tx_bind (context_of (tc_registration_id c)) (\<lambda>context. case context of
           None \<Rightarrow> tx_raise (RegistrationTransitionError ''registration_not_found'')
         | Some cx \<Rightarrow>
             tx_bind replay (\<lambda>replayed. case replayed of
               Some result \<Rightarrow> tx_return result
             | None \<Rightarrow>
                 tx_bind (tx_lift (check_transition cx c)) (\<lambda>_.
                 tx_bind (tx_lift (mutation (cx_registration cx) c)) (\<lambda>m.
                 apply_to (cx_registration cx) c fingerprint m))))))"

definition transition ::
  "(string \<Rightarrow> string) \<Rightarrow> datetime transition_command \<Rightarrow> transition_result txn" where
  "transition = transition_with get_context get_transition apply_transition"

subsection \<open>The interface\<close>

locale registration_repository =
  fixes context_of :: "'s context_query"
    and history_of :: "'s history_query"
    and apply_to :: "'s apply_statement"
  assumes context_reads: "context_of i s = Inr (x, s') \<Longrightarrow> s' = s"
    and history_reads: "history_of k s = Inr (y, s') \<Longrightarrow> s' = s"
    and apply_recorded: "context_of (tc_registration_id c) s = Inr (Some cx, s) \<Longrightarrow>
      history_of (tc_command_id c) s = Inr (None, s) \<Longrightarrow>
      apply_to (cx_registration cx) c h m s = Inr (res, s') \<Longrightarrow>
      rt_command_hash (tr_transition res) = h
      \<and> history_of (tc_command_id c) s' = Inr (Some (tr_transition res), s')
      \<and> (\<exists>cx'. context_of (rt_registration_id (tr_transition res)) s' = Inr (Some cx', s')
            \<and> cx_registration cx' = tr_registration res)"
    and apply_keeps_history: "history_of k s = Inr (Some t, s) \<Longrightarrow>
      apply_to r c h m s = Inr (res, s') \<Longrightarrow> history_of k s' = Inr (Some t, s')"
    and apply_keeps_context: "context_of i s = Inr (Some cx, s) \<Longrightarrow>
      context_of j s = Inr (Some cy, s) \<Longrightarrow>
      apply_to (cx_registration cy) c h m s = Inr (res, s') \<Longrightarrow> \<exists>cx'. context_of i s' = Inr (Some cx', s')"
begin

abbreviation run :: "(string \<Rightarrow> string) \<Rightarrow> datetime transition_command \<Rightarrow> ('s, transition_result) tx" where
  "run \<equiv> transition_with context_of history_of apply_to"

lemma replay_cases:
  assumes "replay_with context_of history_of c h s = Inr (x, s')"
  shows "s' = s \<and> (case x of
      None \<Rightarrow> history_of (tc_command_id c) s = Inr (None, s)
    | Some res \<Rightarrow> history_of (tc_command_id c) s = Inr (Some (tr_transition res), s)
        \<and> rt_command_hash (tr_transition res) = h
        \<and> (\<exists>cx. context_of (rt_registration_id (tr_transition res)) s = Inr (Some cx, s)
            \<and> cx_registration cx = tr_registration res))"
proof -
  obtain y s1 where y: "history_of (tc_command_id c) s = Inr (y, s1)"
    using assms unfolding replay_with_def tx_bind_eq by blast
  have s1: "s1 = s" by (rule history_reads [OF y])
  show ?thesis
  proof (cases y)
    case None
    then show ?thesis using assms y s1 by (auto simp: replay_with_def tx_simps)
  next
    case (Some t)
    then have "rt_command_hash t = h" using assms y s1
      by (auto simp: replay_with_def tx_simps split: if_splits)
    moreover from this obtain w s2 where w: "context_of (rt_registration_id t) s = Inr (w, s2)"
      using assms y s1 Some by (auto simp: replay_with_def tx_simps)
    moreover have "s2 = s" by (rule context_reads [OF w])
    ultimately show ?thesis using assms y s1 Some
      by (cases w) (auto simp: replay_with_def tx_simps)
  qed
qed

lemma replay_found:
  assumes "history_of (tc_command_id c) s = Inr (Some t, s)" "rt_command_hash t = h"
    and "context_of (rt_registration_id t) s = Inr (Some cx, s)"
  shows "replay_with context_of history_of c h s
    = Inr (Some \<lparr>tr_registration = cx_registration cx, tr_transition = t\<rparr>, s)"
  using assms by (simp add: replay_with_def tx_run)

lemma replay_mismatch:
  assumes "history_of (tc_command_id c) s = Inr (Some t, s)" "rt_command_hash t \<noteq> h"
  shows "replay_with context_of history_of c h s
    = Inl (RegistrationTransitionError ''transition_idempotency_conflict'')"
  using assms by (simp add: replay_with_def tx_run)

text \<open>A run either replays a recorded command or passes every guard and applies it.\<close>

lemma run_cases:
  assumes "run sha v s = Inr (res, s')"
  obtains (replayed) c where "normalize_command v = Inr c" "s' = s"
      "history_of (tc_command_id c) s = Inr (Some (tr_transition res), s)"
      "rt_command_hash (tr_transition res) = command_hash sha c"
      "\<exists>cx. context_of (rt_registration_id (tr_transition res)) s = Inr (Some cx, s)
         \<and> cx_registration cx = tr_registration res"
  | (applied) c cx m where "normalize_command v = Inr c"
      "history_of (tc_command_id c) s = Inr (None, s)"
      "context_of (tc_registration_id c) s = Inr (Some cx, s)"
      "check_transition cx c = Inr ()" "mutation (cx_registration cx) c = Inr m"
      "apply_to (cx_registration cx) c (command_hash sha c) m s = Inr (res, s')"
proof -
  obtain c x s1 where c: "normalize_command v = Inr c"
    and x: "replay_with context_of history_of c (command_hash sha c) s = Inr (x, s1)"
    and rest: "(case x of Some result \<Rightarrow> tx_return result
     | None \<Rightarrow>
         tx_bind (context_of (tc_registration_id c)) (\<lambda>context. case context of
           None \<Rightarrow> tx_raise (RegistrationTransitionError ''registration_not_found'')
         | Some cx \<Rightarrow>
             tx_bind (replay_with context_of history_of c (command_hash sha c)) (\<lambda>replayed. case replayed of
               Some result \<Rightarrow> tx_return result
             | None \<Rightarrow>
                 tx_bind (tx_lift (check_transition cx c)) (\<lambda>_.
                 tx_bind (tx_lift (mutation (cx_registration cx) c)) (\<lambda>m.
                 apply_to (cx_registration cx) c (command_hash sha c) m))))) s1 = Inr (res, s')"
    using assms unfolding transition_with_def tx_bind_eq tx_lift_eq Let_def by blast
  note px = replay_cases [OF x]
  show ?thesis
  proof (cases x)
    case (Some r)
    then show ?thesis using rest px c replayed [OF c] by (auto simp: tx_simps)
  next
    case None
    then have s1: "s1 = s" and h: "history_of (tc_command_id c) s = Inr (None, s)" using px by auto
    from rest [unfolded None s1] obtain cx s2 where cx: "context_of (tc_registration_id c) s = Inr (cx, s2)"
      by (auto simp: tx_simps)
    have "s2 = s" by (rule context_reads [OF cx])
    moreover obtain cx' where "cx = Some cx'"
      using rest [unfolded None s1] cx by (cases cx) (auto simp: tx_simps)
    moreover have "replay_with context_of history_of c (command_hash sha c) s = Inr (None, s)"
      using x None s1 by simp
    ultimately show ?thesis using rest [unfolded None s1] cx applied [OF c h] by (auto simp: tx_simps)
  qed
qed

lemma run_recorded:
  assumes "run sha v s = Inr (res, s')"
  obtains c cx where "normalize_command v = Inr c"
    "history_of (tc_command_id c) s' = Inr (Some (tr_transition res), s')"
    "rt_command_hash (tr_transition res) = command_hash sha c"
    "context_of (rt_registration_id (tr_transition res)) s' = Inr (Some cx, s')"
    "cx_registration cx = tr_registration res"
  using assms
proof (cases rule: run_cases)
  case (replayed c)
  then show ?thesis using that by auto
next
  case (applied c cx m)
  then show ?thesis using apply_recorded that by metis
qed

lemma run_keeps:
  assumes "run sha v s = Inr (res, s')"
  shows "history_of k s = Inr (Some t, s) \<Longrightarrow> history_of k s' = Inr (Some t, s')"
    and "context_of i s = Inr (Some cx, s) \<Longrightarrow> \<exists>cx'. context_of i s' = Inr (Some cx', s')"
  using assms by (cases rule: run_cases; metis apply_keeps_history apply_keeps_context)+

lemma run_replays:
  assumes c: "normalize_command v = Inr c"
    and h: "history_of (tc_command_id c) s = Inr (Some t, s)" "rt_command_hash t = command_hash sha c"
    and cx: "context_of (rt_registration_id t) s = Inr (Some cx, s)"
  shows "run sha v s = Inr (\<lparr>tr_registration = cx_registration cx, tr_transition = t\<rparr>, s)"
  using c replay_found [OF h cx] by (simp add: transition_with_def Let_def tx_run)

text \<open>Retrying at once returns the same result; retrying later the same history row.\<close>

theorem retry_same:
  assumes "run sha v s = Inr (res, s')"
  shows "run sha v s' = Inr (res, s')"
  by (rule run_recorded [OF assms]) (simp add: run_replays)

theorem retry_later:
  assumes first: "run sha v s = Inr (res, s1)"
    and between: "tx_each (\<lambda>w. tx_bind (run sha w) (\<lambda>_. tx_return ())) ws s1 = Inr ((), s2)"
  shows "\<exists>r. run sha v s2 = Inr (\<lparr>tr_registration = r, tr_transition = tr_transition res\<rparr>, s2)"
proof -
  obtain c cx where c: "normalize_command v = Inr c"
    "history_of (tc_command_id c) s1 = Inr (Some (tr_transition res), s1)"
    "rt_command_hash (tr_transition res) = command_hash sha c"
    "context_of (rt_registration_id (tr_transition res)) s1 = Inr (Some cx, s1)"
    by (rule run_recorded [OF first])
  have "history_of (tc_command_id c) s2 = Inr (Some (tr_transition res), s2)
    \<and> (\<exists>cx. context_of (rt_registration_id (tr_transition res)) s2 = Inr (Some cx, s2))"
    using between c(2,4)
  proof (induction ws arbitrary: s1 cx)
    case Nil
    then show ?case by (auto simp: tx_simps)
  next
    case (Cons w ws)
    then obtain r s3 where r: "run sha w s1 = Inr (r, s3)"
      and rest: "tx_each (\<lambda>w. tx_bind (run sha w) (\<lambda>_. tx_return ())) ws s3 = Inr ((), s2)"
      by (auto simp: tx_simps)
    obtain cx' where "context_of (rt_registration_id (tr_transition res)) s3 = Inr (Some cx', s3)"
      using run_keeps(2) [OF r Cons.prems(3)] by blast
    then show ?case using Cons.IH [OF rest run_keeps(1) [OF r Cons.prems(2)]] by blast
  qed
  then show ?thesis using run_replays [OF c(1) _ c(3)] by blast
qed

theorem reuse_refused:
  assumes first: "run sha v s = Inr (res, s1)" and "normalize_command v = Inr c"
    and c': "normalize_command v' = Inr c'" "tc_command_id c' = tc_command_id c"
      "command_hash sha c' \<noteq> command_hash sha c"
  shows "run sha v' s1 = Inl (RegistrationTransitionError ''transition_idempotency_conflict'')"
proof -
  have h: "history_of (tc_command_id c) s1 = Inr (Some (tr_transition res), s1)"
    "rt_command_hash (tr_transition res) = command_hash sha c"
    using run_recorded [OF first] assms(2) by auto
  have "replay_with context_of history_of c' (command_hash sha c') s1
      = Inl (RegistrationTransitionError ''transition_idempotency_conflict'')"
    by (rule replay_mismatch [where t = "tr_transition res"]) (use h c' in auto)
  then show ?thesis using c' by (simp add: transition_with_def tx_run Let_def)
qed

end

subsection \<open>The repository provides the interface\<close>

lemma get_context_eq [tx_simps]:
  "get_context i d = Inr (x, d') \<longleftrightarrow> d' = d \<and> x =
     (case one_or_none (\<lambda>r. rg_id r = i) (t_registrations d) of
       None \<Rightarrow> None
     | Some r \<Rightarrow> map_option (\<lambda>e. \<lparr>cx_registration = r, cx_event_status = ev_status e,
           cx_event_start_at = ev_start_at e\<rparr>)
         (one_or_none (\<lambda>e. ev_id e = rg_event_id r) (t_events d)))"
  by (auto simp: get_context_def tx_simps)

lemma get_transition_eq [tx_simps]:
  "get_transition k d = Inr (x, d') \<longleftrightarrow>
     d' = d \<and> x = one_or_none (\<lambda>t. rt_command_id t = k) (t_registration_transitions d)"
  by (auto simp: get_transition_def tx_simps)

lemma get_context_Some:
  assumes "get_context i d = Inr (Some cx, d)"
  shows "one_or_none (\<lambda>r. rg_id r = i) (t_registrations d) = Some (cx_registration cx)"
    "rg_id (cx_registration cx) = i" "cx_registration cx \<in> set (t_registrations d)"
    "\<exists>e \<in> set (t_events d). ev_id e = rg_event_id (cx_registration cx)
       \<and> one_or_none (\<lambda>e. ev_id e = rg_event_id (cx_registration cx)) (t_events d) = Some e
       \<and> cx_event_status cx = ev_status e \<and> cx_event_start_at cx = ev_start_at e"
proof -
  from assms obtain e where e: "one_or_none (\<lambda>r. rg_id r = i) (t_registrations d) = Some (cx_registration cx)"
    "one_or_none (\<lambda>e. ev_id e = rg_event_id (cx_registration cx)) (t_events d) = Some e"
    "cx_event_status cx = ev_status e" "cx_event_start_at cx = ev_start_at e"
    by (auto simp: tx_simps eq_commute [of "Some cx"] map_option_eq_Some split: option.splits)
  from e(1) show "one_or_none (\<lambda>r. rg_id r = i) (t_registrations d) = Some (cx_registration cx)" .
  from one_or_none_Some [OF e(1)] show "rg_id (cx_registration cx) = i"
    "cx_registration cx \<in> set (t_registrations d)" by auto
  from one_or_none_Some [OF e(2)] e show "\<exists>e \<in> set (t_events d). ev_id e = rg_event_id (cx_registration cx)
       \<and> one_or_none (\<lambda>e. ev_id e = rg_event_id (cx_registration cx)) (t_events d) = Some e
       \<and> cx_event_status cx = ev_status e \<and> cx_event_start_at cx = ev_start_at e" by auto
qed

lemma one_or_none_conj:
  "one_or_none P rs = Some x \<Longrightarrow> Q x \<Longrightarrow> one_or_none (\<lambda>r. P r \<and> Q r) rs = Some x"
  unfolding one_or_none_def by (induction rs) (auto split: if_splits)

lemma one_or_none_update_row:
  "rg_id r' = rg_id r \<Longrightarrow>
   one_or_none (\<lambda>x. rg_id x = i) (update_where (\<lambda>x. rg_id x = rg_id r) (\<lambda>_. r') rs)
     = map_option (\<lambda>x. if i = rg_id r then r' else x) (one_or_none (\<lambda>x. rg_id x = i) rs)"
  unfolding one_or_none_def by (induction rs) auto

lemma rg_apply_mutation [simp]:
  "rg_id (apply_mutation m r) = rg_id r" "rg_event_id (apply_mutation m r) = rg_event_id r"
  "rg_user_id (apply_mutation m r) = rg_user_id r" "rg_method (apply_mutation m r) = rg_method r"
  "rg_state (apply_mutation m r) = mu_state m" "rg_seat_held (apply_mutation m r) = mu_seat_held m"
  by (simp_all add: apply_mutation_def)

text \<open>Within the service, the row the update finds is the row of the context.\<close>

lemma apply_in_context:
  assumes cx: "get_context i d = Inr (Some cx, d)"
    and run: "apply_transition (cx_registration cx) c h m d = Inr (res, d')"
  obtains t outs n k where
    "tr_registration res = (apply_mutation m (cx_registration cx))\<lparr>rg_updated_at := t\<rparr>"
    "first_violation (registration_constraints
       (delete_where (\<lambda>x. rg_id x = i) (t_registrations d)) (tr_registration res)) = None"
    "history_row (cx_registration cx) c h (mu_state m) (tr_transition res)"
    "\<forall>x \<in> set (t_registration_transitions d). rt_command_id x \<noteq> tc_command_id c"
    "d' = d\<lparr>t_registrations := update_where (\<lambda>x. rg_id x = i) (\<lambda>_. tr_registration res) (t_registrations d),
       t_registration_transitions := t_registration_transitions d @ [tr_transition res],
       t_outbox_events := t_outbox_events d @ outs, entropy_pos := n, clock_pos := k\<rparr>"
proof -
  obtain r t outs n k where e:
    "one_or_none (\<lambda>r. rg_id r = rg_id (cx_registration cx) \<and> rg_state r = rg_state (cx_registration cx))
       (t_registrations d) = Some r"
    "tr_registration res = (apply_mutation m r)\<lparr>rg_updated_at := t\<rparr>"
    "first_violation (registration_constraints
       (delete_where (\<lambda>x. rg_id x = rg_id r) (t_registrations d)) (tr_registration res)) = None"
    "history_row (cx_registration cx) c h (mu_state m) (tr_transition res)"
    "\<forall>x \<in> set (t_registration_transitions d). rt_command_id x \<noteq> tc_command_id c"
    "d' = d\<lparr>t_registrations := update_where (\<lambda>x. rg_id x = rg_id r) (\<lambda>_. tr_registration res) (t_registrations d),
       t_registration_transitions := t_registration_transitions d @ [tr_transition res],
       t_outbox_events := t_outbox_events d @ outs, entropy_pos := n, clock_pos := k\<rparr>"
    by (rule apply_transition_effect [OF run])
  note g = get_context_Some [OF cx]
  have "r = cx_registration cx"
    using e(1) one_or_none_conj [OF g(1), of "\<lambda>r. rg_state r = rg_state (cx_registration cx)"] g(2) by simp
  then show ?thesis
    by (intro that [where t = t and outs = outs and n = n and k = k]) (use e g(2) in simp_all)
qed

interpretation registrations: registration_repository get_context get_transition apply_transition
proof
  fix i s x s' assume "get_context i s = Inr (x, s')"
  then show "s' = s" by (simp add: tx_simps)
next
  fix k s y s' assume "get_transition k s = Inr (y, s')"
  then show "s' = s" by (simp add: tx_simps)
next
  fix c s cx h m res s'
  assume cx: "get_context (tc_registration_id c) s = Inr (Some cx, s)"
    and none: "get_transition (tc_command_id c) s = Inr (None, s)"
    and run: "apply_transition (cx_registration cx) c h m s = Inr (res, s')"
  obtain t outs n k where e:
    "tr_registration res = (apply_mutation m (cx_registration cx))\<lparr>rg_updated_at := t\<rparr>"
    "history_row (cx_registration cx) c h (mu_state m) (tr_transition res)"
    "s' = s\<lparr>t_registrations := update_where (\<lambda>x. rg_id x = tc_registration_id c)
         (\<lambda>_. tr_registration res) (t_registrations s),
       t_registration_transitions := t_registration_transitions s @ [tr_transition res],
       t_outbox_events := t_outbox_events s @ outs, entropy_pos := n, clock_pos := k\<rparr>"
    using apply_in_context [OF cx run] by metis
  note g = get_context_Some [OF cx]
  have id: "rg_id (tr_registration res) = rg_id (cx_registration cx)"
    "rg_event_id (tr_registration res) = rg_event_id (cx_registration cx)"
    using e(1) by simp_all
  have "one_or_none (\<lambda>t. rt_command_id t = tc_command_id c)
      (t_registration_transitions s @ [tr_transition res]) = Some (tr_transition res)"
    using none [unfolded get_transition_eq, THEN conjunct2, symmetric] e(2)
    by (simp add: one_or_none_append history_row_def)
  moreover have "one_or_none (\<lambda>r. rg_id r = rg_id (cx_registration cx)) (t_registrations s')
      = Some (tr_registration res)"
    using e(3) g(1,2) id one_or_none_update_row
      [of "tr_registration res" "cx_registration cx" "rg_id (cx_registration cx)" "t_registrations s"]
    by simp
  moreover obtain ev where "one_or_none (\<lambda>e. ev_id e = rg_event_id (cx_registration cx)) (t_events s) = Some ev"
    using g(4) by blast
  ultimately show "rt_command_hash (tr_transition res) = h
      \<and> get_transition (tc_command_id c) s' = Inr (Some (tr_transition res), s')
      \<and> (\<exists>cx'. get_context (rt_registration_id (tr_transition res)) s' = Inr (Some cx', s')
            \<and> cx_registration cx' = tr_registration res)"
    using e id by (simp add: tx_simps history_row_def)
next
  fix k s t r c h m res s'
  assume "get_transition k s = Inr (Some t, s)" and run: "apply_transition r c h m s = Inr (res, s')"
  then show "get_transition k s' = Inr (Some t, s')"
    by (elim apply_transition_effect) (simp add: tx_simps one_or_none_append eq_commute [of "Some t"])
next
  fix i s cx j cy c h m res s'
  assume cx: "get_context i s = Inr (Some cx, s)" and cy: "get_context j s = Inr (Some cy, s)"
    and run: "apply_transition (cx_registration cy) c h m s = Inr (res, s')"
  note gx = get_context_Some [OF cx] and gy = get_context_Some [OF cy]
  obtain t outs n k where e:
    "tr_registration res = (apply_mutation m (cx_registration cy))\<lparr>rg_updated_at := t\<rparr>"
    "s' = s\<lparr>t_registrations := update_where (\<lambda>x. rg_id x = j) (\<lambda>_. tr_registration res) (t_registrations s),
       t_registration_transitions := t_registration_transitions s @ [tr_transition res],
       t_outbox_events := t_outbox_events s @ outs, entropy_pos := n, clock_pos := k\<rparr>"
    using apply_in_context [OF cy run] by metis
  have "one_or_none (\<lambda>x. rg_id x = i) (t_registrations s')
      = Some (if i = j then tr_registration res else cx_registration cx)"
    using e gx(1) gy(2) one_or_none_update_row
      [of "tr_registration res" "cx_registration cy" i "t_registrations s"] by simp
  moreover have "rg_event_id (tr_registration res) = rg_event_id (cx_registration cy)" using e(1) by simp
  moreover have "i = j \<Longrightarrow> cx_registration cx = cx_registration cy" using gx(1) gy(1) by simp
  ultimately show "\<exists>cx'. get_context i s' = Inr (Some cx', s')"
    using gx(4) e(2) by (auto simp: tx_simps)
qed

subsection \<open>The properties of the service\<close>

definition example_sha :: "string \<Rightarrow> string" where
  "example_sha x = take 32 (rev x @ replicate 32 CHR ''x'')"

text \<open>Member 2 cancels the confirmed registration 50 of \<open>example_db\<close>.\<close>

definition example_cancel :: "datetime transition_command" where
  "example_cancel = \<lparr>tc_command_id = example_id 90, tc_registration_id = example_id 50,
     tc_target_state = Cancelled, tc_actor_user_id = Some (example_id 2), tc_actor_kind = Member,
     tc_reason_code = ''member_cancelled'', tc_occurred_at = Aware 10 0, tc_request_id = None,
     tc_cash_expires_at = None\<rparr>"

lemma example_cancel_runs:
  obtains res d' where "transition example_sha example_cancel example_db = Inr (res, d')"
    "rg_state (tr_registration res) = Cancelled"
proof -
  have "case transition example_sha example_cancel example_db of
     Inl e \<Rightarrow> False | Inr (res, d) \<Rightarrow> rg_state (tr_registration res) = Cancelled" by code_simp
  then show ?thesis using that by (auto split: sum.splits prod.splits)
qed

lemma check_transition_Inr:
  "check_transition cx c = Inr () \<longleftrightarrow>
     cx_event_status cx = EvPublished
     \<and> (tc_target_state c \<noteq> Expired \<longrightarrow>
          (\<exists>s. cx_event_start_at cx = Some s \<and> tc_occurred_at c < s))
     \<and> is_transition_allowed (rg_state (cx_registration cx)) (tc_target_state c)
     \<and> (rg_method (cx_registration cx) = Free \<longrightarrow> tc_target_state c \<notin> {CashPending, Expired})
     \<and> (tc_target_state c = Expired \<longrightarrow>
          (\<exists>t. rg_cash_expires_at (cx_registration cx) = Some t \<and> t \<le> tc_occurred_at c))"
  by (auto simp: check_transition_def Let_def not_le not_less split: option.splits)

lemma mutation_seat: "mutation r c = Inr m \<Longrightarrow>
  mu_seat_held m = (tc_target_state c \<in> {Confirmed, CashPending})"
  by (auto simp: mutation_def split: registration_state.splits)

text \<open>
  C5. The state machine: a transition that commits either replays a recorded command and
  changes nothing, or moves one registration of a published event along an allowed edge, before
  the start of the event (an expiry: once the cash deadline has passed), never to a cash state
  for a free registration, sets the seat of the new state and appends one history row that names
  both states; no other registration changes.
\<close>

theorem transition_follows_state_machine:
  assumes "transition sha v d = Inr (res, d')"
  shows "\<exists>c. normalize_command v = Inr c \<and>
    ((d' = d \<and> tr_transition res \<in> set (t_registration_transitions d)
        \<and> rt_command_id (tr_transition res) = tc_command_id v
        \<and> rt_command_hash (tr_transition res) = command_hash sha c)
     \<or> (\<exists>r \<in> set (t_registrations d). \<exists>e \<in> set (t_events d).
          rg_id r = tc_registration_id v \<and> ev_id e = rg_event_id r \<and> ev_status e = EvPublished
          \<and> is_transition_allowed (rg_state r) (tc_target_state v)
          \<and> (if tc_target_state v = Expired
             then \<exists>t. rg_cash_expires_at r = Some t \<and> t \<le> tc_occurred_at c
             else \<exists>s. ev_start_at e = Some s \<and> tc_occurred_at c < s)
          \<and> (rg_method r = Free \<longrightarrow> tc_target_state v \<notin> {CashPending, Expired})
          \<and> rg_state (tr_registration res) = tc_target_state v
          \<and> rg_seat_held (tr_registration res) = (tc_target_state v \<in> {Confirmed, CashPending})
          \<and> t_registrations d' = update_where (\<lambda>x. rg_id x = rg_id r) (\<lambda>_. tr_registration res) (t_registrations d)
          \<and> t_registration_transitions d' = t_registration_transitions d @ [tr_transition res]
          \<and> history_row r c (command_hash sha c) (tc_target_state v) (tr_transition res)))"
  using assms unfolding transition_def
proof (cases rule: registrations.run_cases)
  case (replayed c)
  then have "one_or_none (\<lambda>t. rt_command_id t = tc_command_id c) (t_registration_transitions d)
      = Some (tr_transition res)" by (simp add: tx_simps)
  from one_or_none_Some [OF this] show ?thesis
    using replayed(1,2,4) normalize_command_Inr(1) [OF replayed(1)] by auto
next
  case (applied c cx m)
  note n = normalize_command_Inr [OF applied(1)] and g = get_context_Some [OF applied(3)]
    and ok = applied(4) [unfolded check_transition_Inr]
  obtain e where e: "e \<in> set (t_events d)" "ev_id e = rg_event_id (cx_registration cx)"
    "cx_event_status cx = ev_status e" "cx_event_start_at cx = ev_start_at e" using g(4) by blast
  obtain t outs i k where a:
    "tr_registration res = (apply_mutation m (cx_registration cx))\<lparr>rg_updated_at := t\<rparr>"
    "history_row (cx_registration cx) c (command_hash sha c) (mu_state m) (tr_transition res)"
    "d' = d\<lparr>t_registrations := update_where (\<lambda>x. rg_id x = tc_registration_id c)
         (\<lambda>_. tr_registration res) (t_registrations d),
       t_registration_transitions := t_registration_transitions d @ [tr_transition res],
       t_outbox_events := t_outbox_events d @ outs, entropy_pos := i, clock_pos := k\<rparr>"
    using apply_in_context [OF applied(3,6)] by metis
  show ?thesis
    apply (intro exI [of _ c] conjI disjI2 bexI [of _ "cx_registration cx"] bexI [of _ e])
    using a applied(1) n e g(2,3) ok mutation_state [OF applied(5)] mutation_seat [OF applied(5)]
    by (auto split: if_splits)
qed

theorem transition_follows_state_machine_witness:
  "\<exists>res d' c. normalize_command example_cancel = Inr c \<and>
     transition example_sha example_cancel example_db = Inr (res, d') \<and>
     rg_state (tr_registration res) = Cancelled"
proof -
  obtain res d' where "transition example_sha example_cancel example_db = Inr (res, d')"
    "rg_state (tr_registration res) = Cancelled" by (rule example_cancel_runs)
  with transition_follows_state_machine [OF this(1)] show ?thesis by blast
qed

text \<open>
  C13. Idempotent commands: once a command has committed, sending it again, at once or after any
  sequence of other transitions, changes nothing and returns the recorded history row; at once,
  it returns the very same result.
\<close>

theorem transition_retry_idempotent:
  assumes "transition sha v d = Inr (res, d1)"
    and "tx_each (\<lambda>w. tx_bind (transition sha w) (\<lambda>_. tx_return ())) ws d1 = Inr ((), d2)"
  shows "\<exists>r. transition sha v d2 = Inr (\<lparr>tr_registration = r, tr_transition = tr_transition res\<rparr>, d2)
    \<and> (ws = [] \<longrightarrow> r = tr_registration res)"
proof (cases "ws = []")
  case True
  then have "d2 = d1" using assms(2) by (simp add: tx_simps)
  then show ?thesis using registrations.retry_same assms(1) unfolding transition_def
    by (intro exI [of _ "tr_registration res"]) simp
next
  case False
  then show ?thesis using registrations.retry_later assms unfolding transition_def by blast
qed

theorem transition_retry_idempotent_witness:
  "\<exists>res d1. transition example_sha example_cancel d1 = Inr (res, d1)
     \<and> rg_state (tr_registration res) = Cancelled"
proof -
  obtain res d1 where r: "transition example_sha example_cancel example_db = Inr (res, d1)"
    "rg_state (tr_registration res) = Cancelled" by (rule example_cancel_runs)
  from transition_retry_idempotent [OF r(1), of "[]" d1] r(2) show ?thesis
    by (auto simp: tx_return_def intro!: exI [of _ res] exI [of _ d1])
qed

text \<open>
  C19. A command identifier is never reused for another command: after a command has committed, a
  command with the same identifier and another fingerprint is refused.
\<close>

theorem transition_reuse_refused:
  assumes "transition sha v d = Inr (res, d1)" and "normalize_command v = Inr c"
    and "normalize_command v' = Inr c'" and "tc_command_id c' = tc_command_id c"
    and "command_hash sha c' \<noteq> command_hash sha c"
  shows "transition sha v' d1
    = Inl (RegistrationTransitionError ''transition_idempotency_conflict'')"
  using registrations.reuse_refused [OF assms(1) [unfolded transition_def] assms(2-)]
  by (simp add: transition_def)

theorem transition_reuse_refused_witness:
  "\<exists>d1. transition example_sha (example_cancel\<lparr>tc_target_state := Confirmed\<rparr>) d1
    = Inl (RegistrationTransitionError ''transition_idempotency_conflict'')"
proof -
  let ?v' = "example_cancel\<lparr>tc_target_state := Confirmed\<rparr>"
  have "case (normalize_command example_cancel, normalize_command ?v') of
      (Inr c, Inr c') \<Rightarrow> command_hash example_sha c' \<noteq> command_hash example_sha c
    | _ \<Rightarrow> False" by code_simp
  then obtain c c' where c: "normalize_command example_cancel = Inr c" "normalize_command ?v' = Inr c'"
    "command_hash example_sha c' \<noteq> command_hash example_sha c" by (auto split: sum.splits)
  have "tc_command_id c' = tc_command_id c"
    using normalize_command_Inr(1) [OF c(1)] normalize_command_Inr(1) [OF c(2)] by simp
  then show ?thesis using example_cancel_runs transition_reuse_refused c by metis
qed

lemma mutation_row_ok:
  assumes "row_ok r" "normalize_command v = Inr c" "check_transition cx c = Inr ()"
    "cx_registration cx = r" "mutation r c = Inr m"
  shows "row_ok (apply_mutation m r)"
proof -
  note n = normalize_command_Inr [OF assms(2)] and ok = assms(3) [unfolded check_transition_Inr]
  show ?thesis
  proof (cases "tc_target_state c")
    case CashPending
    then have "rg_method r = CashOrganizerConfirmed" using ok assms(4) by (cases "rg_method r") auto
    moreover obtain t where "tc_cash_expires_at c = Some t" using n CashPending by auto
    ultimately show ?thesis using assms(5) CashPending
      by (auto simp: mutation_def row_ok_def seat_state_ok_def free_method_ok_def
          waitlist_positive_def apply_mutation_def)
  next
    case Expired
    then have "rg_method r = CashOrganizerConfirmed" using ok assms(4) by (cases "rg_method r") auto
    then show ?thesis using assms(5) Expired ok assms(4)
      by (auto simp: mutation_def row_ok_def seat_state_ok_def free_method_ok_def
          waitlist_positive_def apply_mutation_def)
  qed (use assms(5) in \<open>auto simp: mutation_def row_ok_def seat_state_ok_def
      free_method_ok_def waitlist_positive_def apply_mutation_def\<close>)
qed

text \<open>
  The service never runs into the table's constraints: for a registration of a database that
  satisfies them, a command that passes the guards gives a row that satisfies every \<open>CHECK\<close> and
  unique index, so the \<open>UPDATE\<close> succeeds and the table keeps its constraints.
\<close>

theorem transition_keeps_constraints:
  assumes wf: "wf_registrations (t_registrations d)"
    and cx: "get_context (tc_registration_id c) d = Inr (Some cx, d)"
    and c: "normalize_command v = Inr c" "check_transition cx c = Inr ()"
    and m: "mutation (cx_registration cx) c = Inr m"
  shows "\<exists>row d'. update_registration (\<lambda>r. rg_id r = rg_id (cx_registration cx)
        \<and> rg_state r = rg_state (cx_registration cx)) (apply_mutation m) d = Inr (Some row, d')
      \<and> rg_state row = tc_target_state c \<and> wf_registrations (t_registrations d')"
proof -
  let ?r = "cx_registration cx" and ?rs = "t_registrations d"
  let ?row = "(apply_mutation m ?r)\<lparr>rg_updated_at := clock_at d (clock_pos d)\<rparr>"
  let ?others = "delete_where (\<lambda>x. rg_id x = rg_id ?r) ?rs"
  note g = get_context_Some [OF cx] and ok = c(2) [unfolded check_transition_Inr]
  have active: "active_state (rg_state ?r)" using ok allowed_from_active by blast
  have row: "row_ok ?row"
    using mutation_row_ok [OF _ c refl m] wf g(3)
    by (auto simp: wf_registrations_def row_ok_def seat_state_ok_def free_method_ok_def
        waitlist_positive_def cong: registration_state.case_cong)
  have others: "x \<in> set ?rs \<and> rg_id x \<noteq> rg_id ?r" if "x \<in> set ?others" for x
    using that by (auto simp: delete_where_def)
  have "first_violation (registration_constraints ?others ?row) = None"
    unfolding registration_constraints_ok
  proof (intro conjI ballI impI notI; (elim conjE)?)
    show "row_ok ?row" by (rule row)
  next
    fix x assume "x \<in> set ?others" "rg_id x = rg_id ?row"
    then show False using others by auto
  next
    fix x assume x: "x \<in> set ?others" "active_state (rg_state x)" "rg_event_id x = rg_event_id ?row"
      "rg_user_id x = rg_user_id ?row"
    then have "x = ?r" using others [OF x(1)] wf g(3) active by (auto simp: wf_registrations_def)
    then show False using others [OF x(1)] by simp
  next
    fix x assume "rg_state ?row = Waitlisted"
    then show False using ok mutation_state [OF m] allowed_not_waitlisted by auto
  qed
  moreover have "one_or_none (\<lambda>r. rg_id r = rg_id ?r \<and> rg_state r = rg_state ?r) ?rs = Some ?r"
    using one_or_none_conj [OF g(1)] g(2) by simp
  ultimately have "update_registration (\<lambda>r. rg_id r = rg_id ?r \<and> rg_state r = rg_state ?r)
      (apply_mutation m) d = Inr (Some ?row, d\<lparr>t_registrations :=
        update_where (\<lambda>x. rg_id x = rg_id ?r) (\<lambda>_. ?row) ?rs, clock_pos := Suc (clock_pos d)\<rparr>)"
    by (simp add: update_registration_def tx_run clock_timestamp_def Let_def check_constraints_def)
  moreover have "wf_registrations (update_where (\<lambda>x. rg_id x = rg_id ?r) (\<lambda>_. ?row) ?rs)"
    by (rule wf_registrations_update [OF wf g(3)]) (simp, fact)
  ultimately show ?thesis using mutation_state [OF m] by auto
qed

lemma example_wf: "wf_registrations (t_registrations example_db)"
  by code_simp

theorem transition_keeps_constraints_witness:
  "\<exists>(row :: registration) (d' :: db). rg_state row = Cancelled \<and> row \<in> set (t_registrations d')
     \<and> wf_registrations (t_registrations d')"
proof -
  have "case get_context (example_id 50) example_db of Inl _ \<Rightarrow> False
   | Inr (None, _) \<Rightarrow> False
   | Inr (Some cx, _) \<Rightarrow> (case normalize_command example_cancel of Inl _ \<Rightarrow> False
       | Inr c \<Rightarrow> check_transition cx c = Inr ()
           \<and> (case mutation (cx_registration cx) c of Inl _ \<Rightarrow> False | Inr _ \<Rightarrow> True))"
    by code_simp
  then obtain cx d0 c m where x: "get_context (example_id 50) example_db = Inr (Some cx, d0)"
    "normalize_command example_cancel = Inr c" "check_transition cx c = Inr ()"
    "mutation (cx_registration cx) c = Inr m"
    by (cases "normalize_command example_cancel") (auto split: sum.split_asm prod.split_asm option.split_asm)
  have d0: "d0 = example_db" using x(1) by (auto simp: tx_simps)
  have id: "tc_registration_id c = example_id 50" "tc_target_state c = Cancelled"
    using normalize_command_Inr [OF x(2)] by (simp_all add: example_cancel_def)
  obtain row d' where u: "update_registration (\<lambda>r. rg_id r = rg_id (cx_registration cx)
        \<and> rg_state r = rg_state (cx_registration cx)) (apply_mutation m) example_db = Inr (Some row, d')"
    "rg_state row = Cancelled" "wf_registrations (t_registrations d')"
    using transition_keeps_constraints [OF example_wf x(1) [unfolded d0, folded id(1)] x(2-)] id(2) by auto
  from u(1) have "row \<in> set (t_registrations d')"
    by (rule update_registration_effect) (auto simp: set_update_where dest: one_or_none_Some)
  with u(2,3) show ?thesis by blast
qed

end
