(* ===== verification/Event_Access.thy ===== *)
theory Event_Access
  imports Event_Store Club_Store Example_Data Base64
begin

section \<open>Access to events (events/access_service.py, access_repository.py, access_tokens.py)\<close>

text \<open>
  Private links, the projection of an event for an audience, the terms the registration services
  ask for, and who manages an event (with clubs/event_access.py). The keyed
  digest of a link, HMAC-SHA-256 with the configured secret, is the parameter \<open>digest\<close>; every
  result holds for any such function.
\<close>

record registration_terms =
  te_id :: uuid
  te_start_at :: instant
  te_capacity :: "int option"
  te_method :: registration_method
  te_cash_expiry_minutes :: "int option"

record cancellation_terms = registration_terms +
  te_cancellation_cutoff_minutes :: int

record manager_venue =
  mv_exact_address :: "string option"
  mv_latitude :: "py_float option"
  mv_longitude :: "py_float option"

text \<open>The schedule, cutoff and zone are optional here, as in the columns they are read from.\<close>

record audience_projection =
  vp_id :: uuid
  vp_title :: string
  vp_description :: string
  vp_country_code :: string
  vp_city_slug :: string
  vp_category_slug :: string
  vp_start_at :: "instant option"
  vp_end_at :: "instant option"
  vp_time_zone :: "string option"
  vp_ownership_type :: ownership_type
  vp_cancellation_cutoff_minutes :: "int option"
  vp_price_free :: bool
  vp_district :: "string option"
  vp_public_meeting_area :: "string option"
  vp_exact_address :: "string option"
  vp_latitude :: "py_float option"
  vp_longitude :: "py_float option"
  vp_capacity :: "int option"
  vp_available_places :: "int option"
  vp_cover_media_id :: "uuid option"
  vp_club_slug :: "string option"
  vp_club_name :: "string option"
  vp_organizer_display_name :: "string option"
  vp_is_saved :: bool
  vp_registration_id :: "uuid option"
  vp_registration_method :: "registration_method option"
  vp_registration_state :: "registration_state option"
  vp_registration_cash_expires_at :: "instant option"
  vp_registration_confirmed_at :: "instant option"

definition conflict :: "string \<Rightarrow> py_error" where
  "conflict code = ApiError code ''errors.conflict'' 409"

subsection \<open>Clubs (clubs/event_access.py)\<close>

definition require_event_manager :: "'z subject_scheme \<Rightarrow> uuid \<Rightarrow> unit txn" where
  "require_event_manager p club_id =
     tx_bind (get_club club_id) (\<lambda>club. case club of
       None \<Rightarrow> tx_raise not_found
     | Some c \<Rightarrow>
         tx_bind (get_access (cl_id c) (sb_user_id p)) (\<lambda>access.
         tx_lift (can_edit_club p c access)))"

definition require_registration_available :: "uuid \<Rightarrow> unit txn" where
  "require_registration_available club_id =
     tx_bind (get_club club_id) (\<lambda>club. case club of
       None \<Rightarrow> tx_raise not_found
     | Some c \<Rightarrow> tx_guard (cl_status c = ClubPublished \<and> cl_suspended_at c = None) not_found)"

subsection \<open>Managers\<close>

definition authorize_manager :: "'z subject_scheme \<Rightarrow> event \<Rightarrow> unit txn" where
  "authorize_manager p e =
     tx_bind (tx_guard (sb_status p = UserActive \<and> ev_status e \<noteq> EvSuspended) forbidden) (\<lambda>_.
     case ev_ownership_type e of
       Independent \<Rightarrow>
         tx_guard (ev_club_id e = None \<and> ev_owner_user_id e = Some (sb_user_id p)) forbidden
     | ClubOwned \<Rightarrow>
         (case (ev_club_id e, ev_owner_user_id e) of
            (Some club_id, None) \<Rightarrow> require_event_manager p club_id
          | _ \<Rightarrow> tx_raise forbidden))"

definition require_manager :: "'z subject_scheme \<Rightarrow> uuid \<Rightarrow> event txn" where
  "require_manager p event_id =
     tx_bind (get_event event_id) (\<lambda>event. case event of
       None \<Rightarrow> tx_raise not_found
     | Some e \<Rightarrow> tx_bind (authorize_manager p e) (\<lambda>_. tx_return e))"

subsection \<open>The token codec\<close>

fun b64_digits :: "nat \<Rightarrow> int \<Rightarrow> string" where
  "b64_digits 0 x = []"
| "b64_digits (Suc n) x = b64_digits n (x div 64) @ [b64_char (x mod 64)]"

text \<open>
  \<open>urlsafe_b64encode(token_bytes(32)).rstrip("=")\<close>: the 256 bits and two zero bits as 43 digits.
\<close>

definition issue_token :: "256 word \<Rightarrow> string" where
  "issue_token random = b64_digits 43 (uint random * 4)"

text \<open>\<open>^[A-Za-z0-9_-]{43}$\<close>\<close>

definition token_pattern :: "string \<Rightarrow> bool" where
  "token_pattern s \<longleftrightarrow> length s = 43 \<and>
     list_all (\<lambda>c. py_alpha c \<or> is_digit c \<or> c = CHR ''_'' \<or> c = CHR ''-'') s"

subsection \<open>Private links: the repository\<close>

definition live_link :: "instant \<Rightarrow> invite_row \<Rightarrow> bool" where
  "live_link now i \<longleftrightarrow> iv_revoked_at i = None
     \<and> (case iv_expires_at i of None \<Rightarrow> True | Some t \<Rightarrow> now < t)"

text \<open>\<open>scalar_one_or_none\<close> raises when the statement finds several rows.\<close>

definition scalar_one_or_none :: "'r list \<Rightarrow> py_error + 'r option" where
  "scalar_one_or_none rows = (case rows of
     [] \<Rightarrow> Inr None | [r] \<Rightarrow> Inr (Some r) | _ \<Rightarrow> Inl (RuntimeError ''MultipleResultsFound''))"

definition revoke_links :: "uuid \<Rightarrow> instant \<Rightarrow> bool txn" where
  "revoke_links event_id now =
     tx_bind (tx_query (\<lambda>d. row_exists (\<lambda>i. iv_event_id i = event_id \<and> iv_revoked_at i = None)
       (t_event_invite_tokens d))) (\<lambda>found.
     tx_bind (tx_modify (\<lambda>d. d\<lparr>t_event_invite_tokens := update_where
       (\<lambda>i. iv_event_id i = event_id \<and> iv_revoked_at i = None)
       (\<lambda>i. i\<lparr>iv_revoked_at := Some now\<rparr>) (t_event_invite_tokens d)\<rparr>)) (\<lambda>_.
     tx_return found))"

definition create_link ::
  "uuid \<Rightarrow> uuid \<Rightarrow> uuid \<Rightarrow> string \<Rightarrow> instant \<Rightarrow> instant \<Rightarrow> bool \<Rightarrow> invite_row option txn" where
  "create_link link_id event_id actor_id token_hash expires_at now rotating =
     tx_bind (tx_query (\<lambda>d. filter (\<lambda>i. iv_event_id i = event_id \<and> live_link now i)
       (t_event_invite_tokens d))) (\<lambda>rows.
     tx_bind (tx_lift (scalar_one_or_none rows)) (\<lambda>active.
     if active \<noteq> None \<and> \<not> rotating then tx_return None
     else
       tx_bind (revoke_links event_id now) (\<lambda>_.
       tx_bind (tx_query id) (\<lambda>d.
       let row = \<lparr>iv_id = link_id, iv_event_id = event_id, iv_token_hash = token_hash,
         iv_created_by_user_id = actor_id, iv_expires_at = Some expires_at, iv_revoked_at = None,
         iv_last_used_at = None, iv_created_at = now\<rparr> in
       tx_bind (check_constraints
         [(''event_invite_tokens_token_hash_check'', 32 \<le> length token_hash),
          (''event_invite_tokens_pkey'',
             \<not> row_exists (\<lambda>i. iv_id i = link_id) (t_event_invite_tokens d)),
          (''event_invite_tokens_token_hash_key'',
             \<not> row_exists (\<lambda>i. iv_token_hash i = token_hash) (t_event_invite_tokens d)),
          (''event_invite_tokens_event_id_fkey'', row_exists (\<lambda>e. ev_id e = event_id) (t_events d)),
          (''event_invite_tokens_created_by_user_id_fkey'',
             row_exists (\<lambda>u. us_id u = actor_id) (t_users d))]) (\<lambda>_.
       tx_bind (tx_modify (\<lambda>d. d\<lparr>t_event_invite_tokens := t_event_invite_tokens d @ [row]\<rparr>)) (\<lambda>_.
       tx_return (Some row)))))))"

text \<open>The event is shown while it is published, not suspended, and its club (if any) is open.\<close>

definition audience_visible :: "db \<Rightarrow> event_visibility \<Rightarrow> event_row \<Rightarrow> bool" where
  "audience_visible d visibility e \<longleftrightarrow> ev_status e = EvPublished \<and> ev_visibility e = visibility
     \<and> ev_suspended_at e = None
     \<and> (ev_ownership_type e \<noteq> ClubOwned
        \<or> row_exists (\<lambda>c. Some (cl_id c) = ev_club_id e \<and> cl_status c = ClubPublished
            \<and> cl_suspended_at c = None) (t_clubs d))"

definition resolve_link :: "string \<Rightarrow> instant \<Rightarrow> uuid option txn" where
  "resolve_link token_hash now =
     tx_bind (tx_query (\<lambda>d. filter (\<lambda>i. iv_token_hash i = token_hash \<and> live_link now i
       \<and> row_exists (\<lambda>e. ev_id e = iv_event_id i \<and> audience_visible d PrivateLink e) (t_events d))
       (t_event_invite_tokens d))) (\<lambda>rows.
     tx_bind (tx_lift (scalar_one_or_none rows)) (\<lambda>found. case found of
       None \<Rightarrow> tx_return None
     | Some i \<Rightarrow>
         tx_bind (tx_modify (\<lambda>d. d\<lparr>t_event_invite_tokens := update_where
           (\<lambda>i. iv_token_hash i = token_hash) (\<lambda>i. i\<lparr>iv_last_used_at := Some now\<rparr>)
           (t_event_invite_tokens d)\<rparr>)) (\<lambda>_.
         tx_return (Some (iv_event_id i)))))"

definition authorize_registration_link :: "uuid \<Rightarrow> string \<Rightarrow> instant \<Rightarrow> bool txn" where
  "authorize_registration_link event_id token_hash now =
     tx_bind (tx_query (\<lambda>d. filter (\<lambda>i. iv_event_id i = event_id \<and> iv_token_hash i = token_hash
       \<and> live_link now i) (t_event_invite_tokens d))) (\<lambda>rows.
     tx_bind (tx_lift (scalar_one_or_none rows)) (\<lambda>found. case found of
       None \<Rightarrow> tx_return False
     | Some i \<Rightarrow>
         tx_bind (tx_modify (\<lambda>d. d\<lparr>t_event_invite_tokens := update_where
           (\<lambda>x. iv_id x = iv_id i) (\<lambda>x. x\<lparr>iv_last_used_at := Some now\<rparr>)
           (t_event_invite_tokens d)\<rparr>)) (\<lambda>_.
         tx_return True)))"

subsection \<open>Projections: the repository\<close>

text \<open>\<open>ORDER BY created_at DESC, id DESC LIMIT 1\<close>; without a caller the join finds nothing.\<close>

definition latest_registration :: "db \<Rightarrow> uuid \<Rightarrow> uuid option \<Rightarrow> registration option" where
  "latest_registration d event_id caller = (case caller of
     None \<Rightarrow> None
   | Some u \<Rightarrow> (case rev (select_by (\<lambda>r. (rg_created_at r, rg_id r))
         (\<lambda>r. rg_event_id r = event_id \<and> rg_user_id r = u) (t_registrations d)) of
       [] \<Rightarrow> None | r # _ \<Rightarrow> Some r))"

definition manages_event :: "db \<Rightarrow> 'e event_core_scheme \<Rightarrow> uuid \<Rightarrow> bool" where
  "manages_event d e u \<longleftrightarrow>
     (ev_ownership_type e = Independent \<and> ev_owner_user_id e = Some u)
     \<or> (ev_ownership_type e = ClubOwned
        \<and> (row_exists (\<lambda>c. Some (cl_id c) = ev_club_id e \<and> cl_owner_user_id c = u) (t_clubs d)
           \<or> row_exists (\<lambda>m. Some (me_club_id m) = ev_club_id e \<and> me_user_id m = u
               \<and> me_role m \<in> {RoleOwner, RoleAdmin}) (t_club_memberships d)))"

definition venue_visible ::
  "db \<Rightarrow> event_row \<Rightarrow> uuid option \<Rightarrow> registration option \<Rightarrow> instant \<Rightarrow> bool" where
  "venue_visible d e caller reg now \<longleftrightarrow> ev_exact_venue_is_public e \<or>
     (case caller of
        None \<Rightarrow> False
      | Some u \<Rightarrow> manages_event d e u
          \<or> (case reg of
               None \<Rightarrow> False
             | Some r \<Rightarrow> rg_state r = Confirmed
                 \<or> (rg_state r = CashPending
                    \<and> (case rg_cash_expires_at r of None \<Rightarrow> False | Some t \<Rightarrow> now < t))))"

definition projection_of ::
  "db \<Rightarrow> event_row \<Rightarrow> country_row \<Rightarrow> city_row \<Rightarrow> category_row \<Rightarrow> uuid option \<Rightarrow> instant
     \<Rightarrow> audience_projection" where
  "projection_of d e country city category caller now =
     (let club = Option.bind (ev_club_id e) (\<lambda>i. one_or_none (\<lambda>c. cl_id c = i) (t_clubs d));
          owner = Option.bind (ev_owner_user_id e) (\<lambda>i. one_or_none (\<lambda>p. pr_user_id p = i) (t_profiles d));
          cover = Option.bind (ev_cover_media_id e)
            (\<lambda>i. one_or_none (\<lambda>m. ma_id m = i \<and> ma_status m = MediaVerified) (t_media_assets d));
          reg = latest_registration d (ev_id e) caller;
          shown = venue_visible d e caller reg now in
      \<lparr>vp_id = ev_id e, vp_title = ev_title e, vp_description = ev_description e,
       vp_country_code = py_strip (co_code country), vp_city_slug = ci_slug city,
       vp_category_slug = ca_slug category, vp_start_at = ev_start_at e, vp_end_at = ev_end_at e,
       vp_time_zone = ev_time_zone e, vp_ownership_type = ev_ownership_type e,
       vp_cancellation_cutoff_minutes = ev_cancellation_cutoff_minutes e,
       vp_price_free = (ev_registration_method e = Some Free), vp_district = ev_district e,
       vp_public_meeting_area = ev_public_meeting_area e,
       vp_exact_address = (if shown then ev_exact_address e else None),
       vp_latitude = (if shown then ev_latitude e else None),
       vp_longitude = (if shown then ev_longitude e else None),
       vp_capacity = ev_capacity e,
       vp_available_places = map_option
         (\<lambda>c. max 0 (c - held_seats (ev_id e) (t_registrations d))) (ev_capacity e),
       vp_cover_media_id = map_option ma_id cover, vp_club_slug = map_option cl_slug club,
       vp_club_name = map_option cl_name club,
       vp_organizer_display_name = (case owner of
          Some p \<Rightarrow> Some (pr_display_name p) | None \<Rightarrow> map_option cl_name club),
       vp_is_saved = row_exists (\<lambda>s. sv_event_id s = ev_id e \<and> Some (sv_user_id s) = caller)
         (t_saved_events d),
       vp_registration_id = map_option rg_id reg, vp_registration_method = map_option rg_method reg,
       vp_registration_state = map_option rg_state reg,
       vp_registration_cash_expires_at = Option.bind reg rg_cash_expires_at,
       vp_registration_confirmed_at = Option.bind reg rg_confirmed_at\<rparr>)"

definition project ::
  "uuid \<Rightarrow> uuid option \<Rightarrow> event_visibility \<Rightarrow> instant \<Rightarrow> audience_projection option txn" where
  "project event_id caller visibility now = tx_query (\<lambda>d.
     Option.bind (one_or_none (\<lambda>e. ev_id e = event_id \<and> audience_visible d visibility e) (t_events d)) (\<lambda>e.
     Option.bind (one_or_none (\<lambda>c. Some (co_id c) = ev_country_id e) (t_countries d)) (\<lambda>country.
     Option.bind (one_or_none (\<lambda>c. Some (ci_id c) = ev_city_id e) (t_cities d)) (\<lambda>city.
     Option.bind (one_or_none (\<lambda>c. Some (ca_id c) = ev_category_id e) (t_categories d)) (\<lambda>category.
     Some (projection_of d e country city category caller now))))))"

definition project_manager_venue :: "uuid \<Rightarrow> manager_venue option txn" where
  "project_manager_venue event_id = tx_query (\<lambda>d. map_option
     (\<lambda>e. \<lparr>mv_exact_address = ev_exact_address e, mv_latitude = ev_latitude e,
       mv_longitude = ev_longitude e\<rparr>)
     (one_or_none (\<lambda>e. ev_id e = event_id \<and> ev_suspended_at e = None) (t_events d)))"

subsection \<open>The service\<close>

definition issue_link ::
  "(string \<Rightarrow> string) \<Rightarrow> 256 word \<Rightarrow> 'z subject_scheme \<Rightarrow> uuid \<Rightarrow> int \<Rightarrow> bool \<Rightarrow> uuid \<Rightarrow> instant
     \<Rightarrow> (string \<times> instant) txn" where
  "issue_link digest random p event_id expires_in_days rotating request_id now =
     tx_bind (get_event event_id) (\<lambda>event. case event of
       None \<Rightarrow> tx_raise not_found
     | Some e \<Rightarrow>
         tx_bind (authorize_manager p e) (\<lambda>_.
         tx_bind (tx_guard (ev_status e = EvPublished \<and> ev_visibility e = PrivateLink
           \<and> ev_suspended_at e = None) (conflict ''private_link_unavailable'')) (\<lambda>_.
         let raw_token = issue_token random; expires_at = now + days expires_in_days in
         tx_bind fresh_uuid (\<lambda>link_id.
         tx_bind (create_link link_id (ev_id e) (sb_user_id p) (digest raw_token) expires_at now rotating)
           (\<lambda>created.
         tx_bind (tx_guard (created \<noteq> None) (conflict ''private_link_exists'')) (\<lambda>_.
         tx_bind (audit_record \<lparr>ae_actor_user_id = Some (sb_user_id p), ae_actor_kind = Organizer,
           ae_action = (if rotating then ''event.private_link.rotate'' else ''event.private_link.create''),
           ae_target_type = ''event'', ae_target_id = Some (ev_id e), ae_reason = None,
           ae_safe_before = None, ae_safe_after = Some (JObj
             [(''expires_at'', JStr (iso_utc expires_at)),
              (''status'', JStr (event_status_name (ev_status e))),
              (''visibility'', JStr (visibility_name (ev_visibility e)))]),
           ae_request_id = Some request_id\<rparr>) (\<lambda>_.
         tx_return (raw_token, expires_at))))))))"

definition revoke_link :: "'z subject_scheme \<Rightarrow> uuid \<Rightarrow> uuid \<Rightarrow> instant \<Rightarrow> unit txn" where
  "revoke_link p event_id request_id now =
     tx_bind (get_event event_id) (\<lambda>event. case event of
       None \<Rightarrow> tx_raise not_found
     | Some e \<Rightarrow>
         tx_bind (authorize_manager p e) (\<lambda>_.
         tx_bind (revoke_links (ev_id e) now) (\<lambda>changed.
         tx_bind (audit_record \<lparr>ae_actor_user_id = Some (sb_user_id p), ae_actor_kind = Organizer,
           ae_action = ''event.private_link.revoke'', ae_target_type = ''event'',
           ae_target_id = Some (ev_id e), ae_reason = None, ae_safe_before = None,
           ae_safe_after = Some (JObj [(''active_link_revoked'', JBool changed)]),
           ae_request_id = Some request_id\<rparr>) (\<lambda>_.
         tx_return ()))))"

definition resolve_private_link ::
  "(string \<Rightarrow> string) \<Rightarrow> string \<Rightarrow> uuid option \<Rightarrow> instant \<Rightarrow> audience_projection txn" where
  "resolve_private_link digest raw_token caller now =
     tx_bind (tx_guard (token_pattern raw_token) not_found) (\<lambda>_.
     tx_bind (resolve_link (digest raw_token) now) (\<lambda>found. case found of
       None \<Rightarrow> tx_raise not_found
     | Some event_id \<Rightarrow>
         tx_bind (project event_id caller PrivateLink now) (\<lambda>projection. case projection of
           None \<Rightarrow> tx_raise not_found
         | Some v \<Rightarrow> tx_return v)))"

definition public_event :: "uuid \<Rightarrow> uuid option \<Rightarrow> instant \<Rightarrow> audience_projection txn" where
  "public_event event_id caller now =
     tx_bind (project event_id caller Public now) (\<lambda>projection. case projection of
       None \<Rightarrow> tx_raise not_found
     | Some v \<Rightarrow> tx_return v)"

definition managed_venue :: "'z subject_scheme \<Rightarrow> event \<Rightarrow> manager_venue txn" where
  "managed_venue p e =
     tx_bind (authorize_manager p e) (\<lambda>_.
     tx_bind (project_manager_venue (ev_id e)) (\<lambda>projection. case projection of
       None \<Rightarrow> tx_raise not_found
     | Some v \<Rightarrow> tx_return v))"

definition require_club_open :: "event \<Rightarrow> unit txn" where
  "require_club_open e = (case ev_ownership_type e of
     Independent \<Rightarrow> tx_return ()
   | ClubOwned \<Rightarrow> (case ev_club_id e of
       None \<Rightarrow> tx_raise not_found
     | Some club_id \<Rightarrow> require_registration_available club_id))"

definition require_link :: "event \<Rightarrow> string option \<Rightarrow> instant \<Rightarrow> unit txn" where
  "require_link e private_link_hash now =
     (if ev_visibility e = PrivateLink
      then (case private_link_hash of
          None \<Rightarrow> tx_raise not_found
        | Some h \<Rightarrow> tx_bind (authorize_registration_link (ev_id e) h now) (\<lambda>ok. tx_guard ok not_found))
      else tx_return ())"

definition terms_of_event :: "event \<Rightarrow> registration_terms option" where
  "terms_of_event e = (case (ev_start_at e, ev_registration_method e) of
     (Some start_at, Some method) \<Rightarrow> Some \<lparr>te_id = ev_id e, te_start_at = start_at,
       te_capacity = ev_capacity e, te_method = method,
       te_cash_expiry_minutes = ev_cash_expiry_minutes e\<rparr>
   | _ \<Rightarrow> None)"

definition get_registration_terms ::
  "uuid \<Rightarrow> string option \<Rightarrow> instant \<Rightarrow> registration_terms txn" where
  "get_registration_terms event_id private_link_hash now =
     tx_bind (get_event event_id) (\<lambda>event. case event of
       None \<Rightarrow> tx_raise not_found
     | Some e \<Rightarrow>
         tx_bind (tx_guard (ev_status e = EvPublished \<and> ev_suspended_at e = None) not_found) (\<lambda>_.
         tx_bind (require_club_open e) (\<lambda>_.
         tx_bind (require_link e private_link_hash now) (\<lambda>_.
         case terms_of_event e of
           None \<Rightarrow> tx_raise not_found
         | Some terms \<Rightarrow> tx_return terms))))"

definition get_cancellation_terms :: "uuid \<Rightarrow> cancellation_terms txn" where
  "get_cancellation_terms event_id =
     tx_bind (get_event event_id) (\<lambda>event. case event of
       None \<Rightarrow> tx_raise not_found
     | Some e \<Rightarrow>
         tx_bind (tx_guard (ev_status e = EvPublished) not_found) (\<lambda>_.
         case (ev_start_at e, ev_registration_method e, ev_cancellation_cutoff_minutes e) of
           (Some start_at, Some method, Some cutoff) \<Rightarrow> tx_return \<lparr>te_id = ev_id e,
              te_start_at = start_at, te_capacity = ev_capacity e, te_method = method,
              te_cash_expiry_minutes = ev_cash_expiry_minutes e,
              te_cancellation_cutoff_minutes = cutoff\<rparr>
         | _ \<Rightarrow> tx_raise not_found))"

subsection \<open>Facts\<close>

lemma get_event_id: "get_event i d = Inr (Some e, d') \<Longrightarrow> ev_id e = i"
  by (auto simp: tx_simps eq_commute [of "Some e"] dest: one_or_none_Some)

lemma filter_single: "filter P xs = [x] \<Longrightarrow> x \<in> set xs \<and> P x"
proof -
  assume "filter P xs = [x]"
  then have "set (filter P xs) = {x}" by simp
  then show ?thesis by auto
qed

lemma authorize_manager_reads: "authorize_manager p e d = Inr (u, d') \<Longrightarrow> d' = d"
  by (auto simp: authorize_manager_def require_event_manager_def tx_simps
      split: ownership_type.splits option.splits)

lemma require_manager_Inr:
  assumes "require_manager p i d = Inr (e, d')"
  shows "d' = d" "get_event i d = Inr (Some e, d)" "authorize_manager p e d = Inr ((), d)"
  using assms by (auto simp: require_manager_def tx_simps dest: authorize_manager_reads
      split: option.splits)

lemma count_where_update:
  "count_where P (update_where Q f rs) = count_where (\<lambda>r. if Q r then P (f r) else P r) rs"
  by (induction rs) auto

lemma scalar_one_or_none_Inr:
  "scalar_one_or_none rows = Inr x \<longleftrightarrow>
     (rows = [] \<and> x = None) \<or> (\<exists>r. rows = [r] \<and> x = Some r)"
  by (auto simp: scalar_one_or_none_def split: list.splits)

lemma resolve_link_Some:
  assumes "resolve_link h now d = Inr (Some i, d')"
  obtains l where "l \<in> set (t_event_invite_tokens d)" "iv_token_hash l = h" "live_link now l"
    "iv_event_id l = i"
    "d' = d\<lparr>t_event_invite_tokens := update_where (\<lambda>i. iv_token_hash i = h)
       (\<lambda>i. i\<lparr>iv_last_used_at := Some now\<rparr>) (t_event_invite_tokens d)\<rparr>"
proof -
  let ?P = "\<lambda>i. iv_token_hash i = h \<and> live_link now i
       \<and> row_exists (\<lambda>e. ev_id e = iv_event_id i \<and> audience_visible d PrivateLink e) (t_events d)"
  from assms obtain l where "filter ?P (t_event_invite_tokens d) = [l]" "iv_event_id l = i"
    "d' = d\<lparr>t_event_invite_tokens := update_where (\<lambda>i. iv_token_hash i = h)
       (\<lambda>i. i\<lparr>iv_last_used_at := Some now\<rparr>) (t_event_invite_tokens d)\<rparr>"
    unfolding resolve_link_def
    by (elim tx_bindE) (auto simp only: tx_simps scalar_one_or_none_Inr prod.inject option.case
      option.inject option.distinct split: option.splits)
  then show ?thesis using that [of l] filter_single [of ?P "t_event_invite_tokens d" l] by blast
qed

lemma b64_digits_length [simp]: "length (b64_digits n x) = n"
  by (induction n arbitrary: x) auto

lemma b64_char_pattern:
  assumes "0 \<le> x" "x < 64"
  shows "py_alpha (b64_char x) \<or> is_digit (b64_char x) \<or> b64_char x = CHR ''_'' \<or> b64_char x = CHR ''-''"
proof -
  have "\<forall>c \<in> set ''ABCDEFGHIJKLMNOPQRSTUVWXYZabcdefghijklmnopqrstuvwxyz0123456789-_''.
      py_alpha c \<or> is_digit c \<or> c = CHR ''_'' \<or> c = CHR ''-''" by code_simp
  moreover have "b64_char x \<in> set ''ABCDEFGHIJKLMNOPQRSTUVWXYZabcdefghijklmnopqrstuvwxyz0123456789-_''"
    unfolding b64_char_def by (rule nth_mem) (use assms in simp)
  ultimately show ?thesis by blast
qed

lemma issue_token_pattern: "token_pattern (issue_token random)"
proof -
  have "list_all (\<lambda>c. py_alpha c \<or> is_digit c \<or> c = CHR ''_'' \<or> c = CHR ''-'') (b64_digits n x)" for n x
    by (induction n arbitrary: x) (auto simp: b64_char_pattern)
  then show ?thesis by (simp add: token_pattern_def issue_token_def)
qed

definition single_links :: "invite_row list \<Rightarrow> bool" where
  "single_links rows \<longleftrightarrow>
     (\<forall>e. count_where (\<lambda>i. iv_event_id i = e \<and> iv_revoked_at i = None) rows \<le> 1)"

lemma create_link_effect:
  assumes "create_link i e a h expiry now rot d = Inr (Some row, d')"
  shows "row = \<lparr>iv_id = i, iv_event_id = e, iv_token_hash = h, iv_created_by_user_id = a,
      iv_expires_at = Some expiry, iv_revoked_at = None, iv_last_used_at = None, iv_created_at = now\<rparr>"
    and "d' = d\<lparr>t_event_invite_tokens := update_where
       (\<lambda>i. iv_event_id i = e \<and> iv_revoked_at i = None) (\<lambda>i. i\<lparr>iv_revoked_at := Some now\<rparr>)
       (t_event_invite_tokens d) @ [row]\<rparr>"
  using assms
  by (auto simp: create_link_def revoke_links_def tx_simps Let_def split: if_splits)

text \<open>No caller ever meets two active links where one statement expects at most one.\<close>

lemma single_links_scalar:
  assumes "single_links rows"
  shows "\<exists>x. scalar_one_or_none (filter (\<lambda>i. iv_event_id i = e \<and> live_link now i) rows) = Inr x"
proof -
  have "length (filter (\<lambda>i. iv_event_id i = e \<and> live_link now i) rows)
      \<le> length (filter (\<lambda>i. iv_event_id i = e \<and> iv_revoked_at i = None) rows)"
    by (induction rows) (auto simp: live_link_def)
  also have "\<dots> \<le> 1" using assms by (simp add: single_links_def count_where_def)
  finally show ?thesis
    by (cases "filter (\<lambda>i. iv_event_id i = e \<and> live_link now i) rows" rule: remdups_adj.cases)
       (auto simp: scalar_one_or_none_def)
qed

lemma count_revoked:
  "count_where (\<lambda>i. iv_event_id i = e' \<and> iv_revoked_at i = None)
     (update_where (\<lambda>i. iv_event_id i = e \<and> iv_revoked_at i = None)
        (\<lambda>i. i\<lparr>iv_revoked_at := Some now\<rparr>) rows)
   = (if e' = e then 0 else count_where (\<lambda>i. iv_event_id i = e' \<and> iv_revoked_at i = None) rows)"
  by (induction rows) auto

lemma revoked_not_live:
  "filter (\<lambda>i. iv_event_id i = e \<and> P i \<and> live_link t i)
     (update_where (\<lambda>i. iv_event_id i = e \<and> iv_revoked_at i = None)
        (\<lambda>i. i\<lparr>iv_revoked_at := Some now\<rparr>) rows) = []"
  by (induction rows) (auto simp: live_link_def)

lemma authorize_registration_link_eq:
  "authorize_registration_link e h t d =
     (case filter (\<lambda>i. iv_event_id i = e \<and> iv_token_hash i = h \<and> live_link t i) (t_event_invite_tokens d) of
        [] \<Rightarrow> Inr (False, d)
      | [i] \<Rightarrow> Inr (True, d\<lparr>t_event_invite_tokens := update_where
           (\<lambda>x. iv_id x = iv_id i) (\<lambda>x. x\<lparr>iv_last_used_at := Some t\<rparr>) (t_event_invite_tokens d)\<rparr>)
      | _ \<Rightarrow> Inl (RuntimeError ''MultipleResultsFound''))"
  by (simp add: authorize_registration_link_def tx_run scalar_one_or_none_def split: list.split)

subsection \<open>The properties\<close>

text \<open>
  The service's own check of a manager grants access exactly when the permission rule
  \<open>can_manage_event\<close> does, on the club and the membership stored for the event, and changes
  nothing.
\<close>

theorem authorize_manager_is_can_manage_event:
  "authorize_manager p e d = Inr ((), d') \<longleftrightarrow> d' = d \<and>
     can_manage_event p e
       (Option.bind (ev_club_id e) (\<lambda>i. one_or_none (\<lambda>c. cl_id c = i) (t_clubs d)))
       (Option.bind (ev_club_id e) (\<lambda>i. one_or_none
          (\<lambda>m. me_club_id m = i \<and> me_user_id m = sb_user_id p) (t_club_memberships d))) = Inr ()"
proof (cases "ev_ownership_type e")
  case Independent
  then show ?thesis
    by (auto simp: authorize_manager_def can_manage_event_def tx_simps check_active_def)
next
  case ClubOwned
  show ?thesis
  proof (cases "ev_club_id e")
    case None
    then show ?thesis using ClubOwned
      by (auto simp: authorize_manager_def can_manage_event_def tx_simps check_active_def)
  next
    case (Some i)
    show ?thesis
    proof (cases "one_or_none (\<lambda>c. cl_id c = i) (t_clubs d)")
      case None
      then show ?thesis using ClubOwned Some
        by (auto simp: authorize_manager_def can_manage_event_def require_event_manager_def tx_simps
            check_active_def split: option.splits)
    next
      case found: (Some c)
      then have "cl_id c = i" using one_or_none_Some by fastforce
      then show ?thesis using ClubOwned Some found
        by (auto simp: authorize_manager_def can_manage_event_def require_event_manager_def tx_simps
            check_active_def can_edit_club_def split: option.splits)
    qed
  qed
qed

text \<open>
  C23. Issuing a link leaves the event with one active link: the token has the form that resolving
  accepts, every earlier link of the event is revoked, and from then on registration is authorised
  exactly by the digest of the new token, until it expires.
\<close>

theorem issued_link_is_the_only_one:
  assumes "issue_link digest random p event_id expiry_days rotating request_id now d
      = Inr ((raw, expiry), d')"
    and "single_links (t_event_invite_tokens d)"
  shows "token_pattern raw \<and> expiry = now + days expiry_days \<and> single_links (t_event_invite_tokens d')
    \<and> (\<forall>h t. if h = digest raw \<and> t < expiry
         then \<exists>d''. authorize_registration_link event_id h t d' = Inr (True, d'')
         else authorize_registration_link event_id h t d' = Inr (False, d'))"
proof -
  obtain e link row d1 d2 a where e: "get_event event_id d = Inr (Some e, d)"
    and raw: "raw = issue_token random" "expiry = now + days expiry_days"
    and c: "create_link link (ev_id e) (sb_user_id p) (digest raw) expiry now rotating
        (d\<lparr>entropy_pos := Suc (entropy_pos d)\<rparr>) = Inr (Some row, d1)"
    and a: "audit_record a d1 = Inr (d2, d')"
    using assms(1) unfolding issue_link_def
    by (auto simp: tx_simps Let_def dest: authorize_manager_reads split: option.splits)
  have id: "ev_id e = event_id" by (rule get_event_id [OF e])
  note row = create_link_effect [OF c, unfolded id]
  have rows: "t_event_invite_tokens d' = update_where
       (\<lambda>i. iv_event_id i = event_id \<and> iv_revoked_at i = None)
       (\<lambda>i. i\<lparr>iv_revoked_at := Some now\<rparr>) (t_event_invite_tokens d) @ [row]"
    using row(2) audit_record_effect [OF a] by simp
  have single: "single_links (t_event_invite_tokens d')"
    using assms(2) unfolding rows single_links_def count_where_append count_revoked
    by (simp add: row(1))
  have "if h = digest raw \<and> t < expiry
     then \<exists>d''. authorize_registration_link event_id h t d' = Inr (True, d'')
     else authorize_registration_link event_id h t d' = Inr (False, d')" for h t
    unfolding authorize_registration_link_eq rows filter_append revoked_not_live
    by (simp add: row(1) live_link_def)
  then show ?thesis using single raw issue_token_pattern by blast
qed

text \<open>The published event of the example as a private one, and a token of zero bits.\<close>

definition example_private_db :: db where
  "example_private_db = example_db\<lparr>
     t_events := [example_event\<lparr>ev_visibility := PrivateLink\<rparr>],
     t_categories := [\<lparr>ca_id = example_id 40, ca_slug = ''walks'', ca_enabled = True\<rparr>]\<rparr>"

definition example_digest :: "string \<Rightarrow> string" where
  "example_digest x = take 32 (rev x @ replicate 32 CHR ''x'')"

definition example_organizer :: subject where
  "example_organizer = \<lparr>sb_user_id = example_id 1, sb_email_verified = True,
     sb_status = UserActive, sb_is_platform_admin = False\<rparr>"

lemma example_issue:
  obtains d' where "issue_link example_digest 0 example_organizer (example_id 20) 7 False
      (example_id 91) 10 example_private_db = Inr ((issue_token 0, 10 + days 7), d')"
proof -
  have "case issue_link example_digest 0 example_organizer (example_id 20) 7 False
      (example_id 91) 10 example_private_db of
     Inl _ \<Rightarrow> False | Inr ((raw, expiry), _) \<Rightarrow> raw = issue_token 0 \<and> expiry = 10 + days 7"
    by code_simp
  then show ?thesis using that by (auto split: sum.splits prod.splits)
qed

theorem issued_link_is_the_only_one_witness:
  "\<exists>d' d''. issue_link example_digest 0 example_organizer (example_id 20) 7 False
      (example_id 91) 10 example_private_db = Inr ((issue_token 0, 10 + days 7), d')
    \<and> authorize_registration_link (example_id 20) (example_digest (issue_token 0)) 20 d' = Inr (True, d'')"
proof -
  obtain d' where i: "issue_link example_digest 0 example_organizer (example_id 20) 7 False
      (example_id 91) 10 example_private_db = Inr ((issue_token 0, 10 + days 7), d')"
    by (rule example_issue)
  have "single_links (t_event_invite_tokens example_private_db)"
    by (simp add: single_links_def example_private_db_def example_db_def empty_db_def)
  from issued_link_is_the_only_one [OF i this, THEN conjunct2, THEN conjunct2, THEN conjunct2,
      rule_format, of "example_digest (issue_token 0)" 20]
  show ?thesis using i by (auto simp: days_def)
qed

text \<open>
  A revoked link is dead: after a revocation no digest authorises a registration for the event
  or resolves to it.
\<close>

theorem revoked_links_are_dead:
  assumes "revoke_link p event_id request_id now d = Inr (u, d')"
  shows "authorize_registration_link event_id h t d' = Inr (False, d')
    \<and> resolve_link h t d' \<noteq> Inr (Some event_id, d'')
    \<and> (single_links (t_event_invite_tokens d) \<longrightarrow> single_links (t_event_invite_tokens d'))"
proof -
  obtain e b d1 d2 a where e: "get_event event_id d = Inr (Some e, d)"
    and r: "revoke_links (ev_id e) now d = Inr (b, d1)" and a: "audit_record a d1 = Inr (d2, d')"
    using assms unfolding revoke_link_def
    by (auto simp: tx_simps dest: authorize_manager_reads split: option.splits)
  have id: "ev_id e = event_id" by (rule get_event_id [OF e])
  have rows: "t_event_invite_tokens d' = update_where
       (\<lambda>i. iv_event_id i = event_id \<and> iv_revoked_at i = None)
       (\<lambda>i. i\<lparr>iv_revoked_at := Some now\<rparr>) (t_event_invite_tokens d)" (is "_ = ?rows")
    using r audit_record_effect [OF a] id by (auto simp: revoke_links_def tx_simps)
  have "authorize_registration_link event_id h t d' = Inr (False, d')"
    unfolding authorize_registration_link_eq rows revoked_not_live by simp
  moreover have "iv_event_id i \<noteq> event_id" if "i \<in> set ?rows" "live_link t i" for i
    using that(1)
  proof (rule in_update_where)
    fix p assume "i = (if iv_event_id p = event_id \<and> iv_revoked_at p = None
        then p\<lparr>iv_revoked_at := Some now\<rparr> else p)"
    with that(2) show ?thesis by (cases "iv_event_id p = event_id \<and> iv_revoked_at p = None")
      (auto simp: live_link_def)
  qed
  then have "resolve_link h t d' \<noteq> Inr (Some event_id, d'')"
    unfolding rows [symmetric] using resolve_link_Some by blast
  moreover have "single_links (t_event_invite_tokens d')" if "single_links (t_event_invite_tokens d)"
    using that unfolding rows single_links_def count_revoked by simp
  ultimately show ?thesis by blast
qed

theorem revoked_links_are_dead_witness:
  "\<exists>d'. revoke_link example_organizer (example_id 20) (example_id 91) 10 example_private_db = Inr ((), d')
    \<and> authorize_registration_link (example_id 20) (example_digest (issue_token 0)) 20 d' = Inr (False, d')"
proof -
  have "case revoke_link example_organizer (example_id 20) (example_id 91) 10 example_private_db of
     Inl _ \<Rightarrow> False | Inr _ \<Rightarrow> True" by code_simp
  then obtain d' where r: "revoke_link example_organizer (example_id 20) (example_id 91) 10
      example_private_db = Inr ((), d')" by (auto split: sum.splits prod.splits)
  with revoked_links_are_dead [OF r] show ?thesis by blast
qed

lemma project_Some:
  assumes "project i caller vis now d = Inr (Some v, d')"
  obtains e country city category where "d' = d" "e \<in> set (t_events d)" "ev_id e = i"
    "audience_visible d vis e" "v = projection_of d e country city category caller now"
proof -
  from assms obtain e country city category where
    "one_or_none (\<lambda>e. ev_id e = i \<and> audience_visible d vis e) (t_events d) = Some e"
    "d' = d" "v = projection_of d e country city category caller now"
    by (auto simp: project_def tx_simps Option.bind_eq_Some_conv eq_commute [of "Some v"])
  then show ?thesis using that [of e] one_or_none_Some by fastforce
qed

lemma latest_registration_Some:
  assumes "latest_registration d i caller = Some r"
  shows "r \<in> set (t_registrations d)" "rg_event_id r = i" "caller = Some (rg_user_id r)"
    "\<And>x. x \<in> set (t_registrations d) \<Longrightarrow> rg_event_id x = i \<Longrightarrow> Some (rg_user_id x) = caller \<Longrightarrow>
       rg_created_at x \<le> rg_created_at r"
proof -
  obtain u where u: "caller = Some u" using assms by (auto simp: latest_registration_def split: option.splits)
  let ?k = "\<lambda>r. (rg_created_at r, rg_id r)" and ?P = "\<lambda>r. rg_event_id r = i \<and> rg_user_id r = u"
  obtain ys where "rev (select_by ?k ?P (t_registrations d)) = r # ys"
    using assms u by (auto simp: latest_registration_def split: list.splits)
  then have ys: "select_by ?k ?P (t_registrations d) = rev ys @ [r]" by (simp add: rev_eq_Cons_iff)
  have set: "set (rev ys @ [r]) = {r \<in> set (t_registrations d). ?P r}"
    using set_select_by [of ?k ?P "t_registrations d"] ys by simp
  then show "r \<in> set (t_registrations d)" "rg_event_id r = i" "caller = Some (rg_user_id r)"
    using u by auto
  fix x assume "x \<in> set (t_registrations d)" "rg_event_id x = i" "Some (rg_user_id x) = caller"
  then have "x \<in> set (rev ys @ [r])" using set u by auto
  moreover have "sorted (map ?k (rev ys @ [r]))"
    using sorted_select_by [of ?k ?P "t_registrations d"] ys by simp
  ultimately show "rg_created_at x \<le> rg_created_at r" by (auto simp: sorted_append)
qed

text \<open>
  C16. Whoever resolves a private link sees an event that is published, private and not suspended,
  through a link that is neither revoked nor expired; nothing but the link's last use is written;
  and the exact venue is shown only if it is public, or to a manager of the event, or to a member
  whose latest registration holds a seat that has not lapsed.
\<close>

theorem private_link_resolution_safe:
  assumes "resolve_private_link digest raw caller now d = Inr (v, d')"
  shows "\<exists>i \<in> set (t_event_invite_tokens d). \<exists>e \<in> set (t_events d).
      iv_token_hash i = digest raw \<and> live_link now i \<and> iv_event_id i = ev_id e \<and> vp_id v = ev_id e
    \<and> ev_status e = EvPublished \<and> ev_visibility e = PrivateLink \<and> ev_suspended_at e = None
    \<and> d' = d\<lparr>t_event_invite_tokens := update_where (\<lambda>i. iv_token_hash i = digest raw)
         (\<lambda>i. i\<lparr>iv_last_used_at := Some now\<rparr>) (t_event_invite_tokens d)\<rparr>
    \<and> (vp_exact_address v \<noteq> None \<or> vp_latitude v \<noteq> None \<or> vp_longitude v \<noteq> None \<longrightarrow>
         ev_exact_venue_is_public e
         \<or> (\<exists>u. caller = Some u \<and> manages_event d e u)
         \<or> (\<exists>r \<in> set (t_registrations d). rg_event_id r = ev_id e \<and> Some (rg_user_id r) = caller
              \<and> (rg_state r = Confirmed
                 \<or> rg_state r = CashPending \<and> (\<exists>t. rg_cash_expires_at r = Some t \<and> now < t))
              \<and> (\<forall>x \<in> set (t_registrations d). rg_event_id x = ev_id e \<and> Some (rg_user_id x) = caller
                   \<longrightarrow> rg_created_at x \<le> rg_created_at r)))"
proof -
  let ?used = "d\<lparr>t_event_invite_tokens := update_where (\<lambda>i. iv_token_hash i = digest raw)
         (\<lambda>i. i\<lparr>iv_last_used_at := Some now\<rparr>) (t_event_invite_tokens d)\<rparr>"
  from assms obtain i where i: "i \<in> set (t_event_invite_tokens d)" "iv_token_hash i = digest raw"
      "live_link now i" and p: "project (iv_event_id i) caller PrivateLink now ?used = Inr (Some v, d')"
    unfolding resolve_private_link_def
    by (elim tx_bindE) (auto simp: tx_simps split: option.splits elim!: resolve_link_Some)
  from p obtain e country city category where e: "d' = ?used" "e \<in> set (t_events ?used)"
    "ev_id e = iv_event_id i" "audience_visible ?used PrivateLink e"
    "v = projection_of ?used e country city category caller now" by (rule project_Some)
  have same: "latest_registration ?used (ev_id e) caller = latest_registration d (ev_id e) caller"
    "manages_event ?used e u = manages_event d e u" for u
    by (simp_all add: latest_registration_def manages_event_def split: option.split)
  have shown: "venue_visible d e caller (latest_registration d (ev_id e) caller) now"
    if "vp_exact_address v \<noteq> None \<or> vp_latitude v \<noteq> None \<or> vp_longitude v \<noteq> None"
    using that unfolding e(5) projection_of_def Let_def same
    by (auto simp: venue_visible_def same(2) cong: option.case_cong split: if_splits)
  have entitled: "ev_exact_venue_is_public e \<or> (\<exists>u. caller = Some u \<and> manages_event d e u)
         \<or> (\<exists>r \<in> set (t_registrations d). rg_event_id r = ev_id e \<and> Some (rg_user_id r) = caller
              \<and> (rg_state r = Confirmed
                 \<or> rg_state r = CashPending \<and> (\<exists>t. rg_cash_expires_at r = Some t \<and> now < t))
              \<and> (\<forall>x \<in> set (t_registrations d). rg_event_id x = ev_id e \<and> Some (rg_user_id x) = caller
                   \<longrightarrow> rg_created_at x \<le> rg_created_at r))"
    if v: "venue_visible d e caller (latest_registration d (ev_id e) caller) now"
  proof (cases "latest_registration d (ev_id e) caller")
    case None
    then show ?thesis using v by (auto simp: venue_visible_def split: option.splits)
  next
    case (Some r)
    note l = latest_registration_Some [OF Some]
    have "\<forall>x \<in> set (t_registrations d). rg_event_id x = ev_id e \<and> Some (rg_user_id x) = caller
        \<longrightarrow> rg_created_at x \<le> rg_created_at r" using l(4) by blast
    then show ?thesis using v l(1-3) unfolding Some
      by (auto simp: venue_visible_def split: option.splits)
  qed
  show ?thesis
    by (rule bexI [OF _ i(1)], rule bexI [of _ e])
       (use i(2,3) e(1-4) shown entitled e(5) in \<open>auto simp: audience_visible_def projection_of_def Let_def\<close>)
qed

theorem private_link_resolution_safe_witness:
  "\<exists>d v d'. resolve_private_link example_digest (issue_token 0) (Some (example_id 2)) 20 d = Inr (v, d')
    \<and> vp_exact_address v = Some ''1 Street'' \<and> vp_id v = example_id 20"
proof -
  obtain d where i: "issue_link example_digest 0 example_organizer (example_id 20) 7 False
      (example_id 91) 10 example_private_db = Inr ((issue_token 0, 10 + days 7), d)"
    by (rule example_issue)
  have "case issue_link example_digest 0 example_organizer (example_id 20) 7 False
      (example_id 91) 10 example_private_db of Inl _ \<Rightarrow> False
    | Inr (_, d) \<Rightarrow> (case resolve_private_link example_digest (issue_token 0) (Some (example_id 2)) 20 d of
        Inl _ \<Rightarrow> False | Inr (v, _) \<Rightarrow> vp_exact_address v = Some ''1 Street'' \<and> ev_id (hd (t_events d)) = example_id 20
          \<and> length (t_events d) = 1)"
    by code_simp
  then obtain v d' where r: "resolve_private_link example_digest (issue_token 0) (Some (example_id 2)) 20 d
      = Inr (v, d')" "vp_exact_address v = Some ''1 Street''"
    "ev_id (hd (t_events d)) = example_id 20" "length (t_events d) = 1"
    using i by (auto split: sum.splits prod.splits)
  have "set (t_events d) = {hd (t_events d)}" using r(4) by (cases "t_events d") auto
  with private_link_resolution_safe [OF r(1)] r show ?thesis by fastforce
qed

end
