(* ===== verification/Registration_Frame.thy ===== *)
theory Registration_Frame
  imports Registration_Transition Tx_Frame Event_Access
begin

section \<open>What the registration services write\<close>

text \<open>
  \<open>member_frame\<close> relates the states before and after a registration service: only the tables of
  registrations, their history, the outbox, the audit log and the last use of a private link
  change, the history only grows, and the position in the stream of identifiers never goes back.
\<close>

definition member_frame :: "db \<Rightarrow> db \<Rightarrow> bool" where
  "member_frame d d' \<longleftrightarrow> t_events d' = t_events d \<and> t_users d' = t_users d
     \<and> t_profiles d' = t_profiles d \<and> t_clubs d' = t_clubs d
     \<and> t_club_memberships d' = t_club_memberships d \<and> t_regional_policies d' = t_regional_policies d
     \<and> t_countries d' = t_countries d \<and> t_cities d' = t_cities d
     \<and> t_user_mfa_factors d' = t_user_mfa_factors d \<and> t_platform_settings d' = t_platform_settings d
     \<and> t_categories d' = t_categories d \<and> t_media_assets d' = t_media_assets d
     \<and> entropy_at d' = entropy_at d \<and> entropy_pos d \<le> entropy_pos d'
     \<and> (\<exists>ts. t_registration_transitions d' = t_registration_transitions d @ ts)"

interpretation member: frame_relation member_frame
  by standard (auto simp: member_frame_def)

named_theorems member_keeps "statements that stay within the frame"

lemma member_frameD:
  assumes "member_frame d d'"
  shows "t_events d' = t_events d" "t_users d' = t_users d" "entropy_at d' = entropy_at d"
    "entropy_pos d \<le> entropy_pos d'"
    "set (t_registration_transitions d) \<subseteq> set (t_registration_transitions d')"
  using assms by (auto simp: member_frame_def)

lemma fresh_uuid_member [member_keeps]: "tx_keeps member_frame fresh_uuid"
  by (rule tx_keepsI) (auto simp: tx_simps member_frame_def)

lemma clock_member [member_keeps]: "tx_keeps member_frame clock_timestamp"
  by (rule tx_keepsI) (auto simp: tx_simps member_frame_def)

lemma insert_outbox_member [member_keeps]: "tx_keeps member_frame (insert_outbox row)"
  by (rule tx_keepsI) (auto dest!: insert_outbox_effect simp: member_frame_def)

lemma insert_outbox_or_ignore_member [member_keeps]: "tx_keeps member_frame (insert_outbox_or_ignore row)"
  unfolding insert_outbox_or_ignore_def
  by (intro member.rules member_keeps)

lemma insert_transition_member [member_keeps]: "tx_keeps member_frame (insert_transition t)"
  by (rule tx_keepsI) (auto dest!: insert_transition_effect(2) simp: member_frame_def)

lemma insert_registration_member [member_keeps]: "tx_keeps member_frame (insert_registration r)"
  by (rule tx_keepsI) (auto dest!: insert_registration_effect(2) simp: member_frame_def)

lemma check_constraints_member [member_keeps]: "tx_keeps member_frame (check_constraints cs)"
  by (rule tx_keepsI) (auto simp: tx_simps member_frame_def)

lemma update_registration_member [member_keeps]: "tx_keeps member_frame (update_registration P f)"
  unfolding update_registration_def
  by (intro member.rules member_keeps member.modify) (simp add: member_frame_def)

lemma audit_record_member [member_keeps]: "tx_keeps member_frame (audit_record e)"
  by (rule tx_keepsI) (auto dest!: audit_record_effect simp: member_frame_def)

lemma record_transition_member [member_keeps]: "tx_keeps member_frame (record_transition r c h m)"
  unfolding record_transition_def enqueue_cash_expiry_def
  by (intro member.rules member_keeps)

lemma apply_transition_member [member_keeps]: "tx_keeps member_frame (apply_transition r c h m)"
  unfolding apply_transition_def by (intro member.rules member_keeps)

lemma create_registration_member [member_keeps]:
  "tx_keeps member_frame (create_registration i c h e u me s sh w ce ca r t)"
  unfolding create_registration_def append_creation_records_def enqueue_cash_expiry_def
  by (intro member.rules member_keeps)

lemma transition_member [member_keeps]: "tx_keeps member_frame (transition sha v)"
  unfolding transition_def transition_with_def replay_with_def get_context_def get_transition_def
  by (intro member.rules member_keeps)

lemma case_ownership_keeps:
  "tx_keeps R m \<Longrightarrow> tx_keeps R n \<Longrightarrow> tx_keeps R (case x of ClubOwned \<Rightarrow> m | Independent \<Rightarrow> n)"
  by (cases x) auto

lemma require_registration_available_member [member_keeps]:
  "tx_keeps member_frame (require_registration_available i)"
  unfolding require_registration_available_def get_club_def by (intro member.rules)

lemma authorize_registration_link_member [member_keeps]:
  "tx_keeps member_frame (authorize_registration_link i h t)"
  unfolding authorize_registration_link_def
  by (intro member.rules member.modify) (simp add: member_frame_def)

lemma registration_terms_member [member_keeps]: "tx_keeps member_frame (get_registration_terms i h t)"
  unfolding get_registration_terms_def get_event_def require_club_open_def require_link_def
  by (intro member.rules member_keeps case_ownership_keeps)

subsection \<open>A transition, seen from its callers\<close>

text \<open>
  Identifiers the stream still has to yield are not used as command identifiers, and it never
  yields one twice: what \<open>generate_uuid7\<close> is for. (Such a stream ends, as the real one does when
  the clock leaves its 48 bits.)
\<close>

definition ids_unused :: "db \<Rightarrow> bool" where
  "ids_unused d \<longleftrightarrow>
     (\<forall>n m u. uuid_at d n = Some u \<longrightarrow> uuid_at d m = Some u \<longrightarrow> n = m)
     \<and> (\<forall>n u. entropy_pos d \<le> n \<longrightarrow> uuid_at d n = Some u
          \<longrightarrow> (\<forall>t \<in> set (t_registration_transitions d). rt_command_id t \<noteq> u))"

lemma uuid_at_cong: "entropy_at d' = entropy_at d \<Longrightarrow> uuid_at d' n = uuid_at d n"
  by (simp add: uuid_at_def)

lemma ids_unused_same:
  assumes "ids_unused d" "member_frame d d'"
    "t_registration_transitions d' = t_registration_transitions d"
  shows "ids_unused d'"
proof -
  note f = member_frameD [OF assms(2)]
  have "entropy_pos d \<le> n" if "entropy_pos d' \<le> n" for n using that f(4) by simp
  then show ?thesis using assms(1) unfolding ids_unused_def assms(3) uuid_at_cong [OF f(3)] by blast
qed

lemma transition_effect:
  assumes "transition sha v d = Inr (res, d')"
  obtains (replayed) "d' = d" "tr_transition res \<in> set (t_registration_transitions d)"
      "rt_command_id (tr_transition res) = tc_command_id v"
  | (applied) r c e where "normalize_command v = Inr c"
      "one_or_none (\<lambda>x. rg_id x = tc_registration_id v) (t_registrations d) = Some r"
      "one_or_none (\<lambda>e. ev_id e = rg_event_id r) (t_events d) = Some e" "ev_status e = EvPublished"
      "is_transition_allowed (rg_state r) (tc_target_state v)"
      "rg_state (tr_registration res) = tc_target_state v"
      "rg_seat_held (tr_registration res) = (tc_target_state v \<in> {Confirmed, CashPending})"
      "rg_id (tr_registration res) = rg_id r" "rg_event_id (tr_registration res) = rg_event_id r"
      "rg_user_id (tr_registration res) = rg_user_id r"
      "first_violation (registration_constraints
         (delete_where (\<lambda>x. rg_id x = rg_id r) (t_registrations d)) (tr_registration res)) = None"
      "t_registrations d' = update_where (\<lambda>x. rg_id x = rg_id r) (\<lambda>_. tr_registration res) (t_registrations d)"
      "t_registration_transitions d' = t_registration_transitions d @ [tr_transition res]"
      "rt_command_id (tr_transition res) = tc_command_id v"
      "history_row r c (command_hash sha c) (tc_target_state v) (tr_transition res)"
      "rg_method (tr_registration res) = rg_method r" "rg_created_at (tr_registration res) = rg_created_at r"
  using assms unfolding transition_def
proof (cases rule: registrations.run_cases)
  case (replayed c)
  then have "one_or_none (\<lambda>t. rt_command_id t = tc_command_id c) (t_registration_transitions d)
      = Some (tr_transition res)" by (simp add: tx_simps)
  from one_or_none_Some [OF this] show ?thesis
    using replayed(1,2) normalize_command_Inr(1) [OF replayed(1)] that(1) by auto
next
  case (applied c cx m)
  note n = normalize_command_Inr [OF applied(1)] and g = get_context_Some [OF applied(3)]
    and ok = applied(4) [unfolded check_transition_Inr]
  obtain e where e: "one_or_none (\<lambda>e. ev_id e = rg_event_id (cx_registration cx)) (t_events d) = Some e"
    "cx_event_status cx = ev_status e" using g(4) by blast
  obtain t outs i k where a:
    "tr_registration res = (apply_mutation m (cx_registration cx))\<lparr>rg_updated_at := t\<rparr>"
    "first_violation (registration_constraints
       (delete_where (\<lambda>x. rg_id x = tc_registration_id c) (t_registrations d)) (tr_registration res)) = None"
    "history_row (cx_registration cx) c (command_hash sha c) (mu_state m) (tr_transition res)"
    "d' = d\<lparr>t_registrations := update_where (\<lambda>x. rg_id x = tc_registration_id c)
         (\<lambda>_. tr_registration res) (t_registrations d),
       t_registration_transitions := t_registration_transitions d @ [tr_transition res],
       t_outbox_events := t_outbox_events d @ outs, entropy_pos := i, clock_pos := k\<rparr>"
    using apply_in_context [OF applied(3,6)] by metis
  have "rg_created_at (apply_mutation m (cx_registration cx)) = rg_created_at (cx_registration cx)"
    by (simp add: apply_mutation_def)
  then show ?thesis
    by (intro that(2) [where r = "cx_registration cx" and c = c and e = e])
       (use a applied(1) n e g ok mutation_state [OF applied(5)] mutation_seat [OF applied(5)]
        in \<open>auto simp: history_row_def\<close>)
qed

end
