(* ===== verification/Registration_Creation.thy ===== *)
theory Registration_Creation
  imports Registration_Frame Eligibility
begin

section \<open>Registering for an event (RegistrationCreationService)\<close>

record creation_result =
  cr_registration :: registration
  cr_created :: bool

text \<open>\<open>_create\<close>: a seat while there is one, else the end of the waiting list.\<close>

definition decide_state :: "'z registration_terms_scheme \<Rightarrow> int \<Rightarrow> registration_state" where
  "decide_state e held =
     (let seat_available = (case te_capacity e of None \<Rightarrow> True | Some c \<Rightarrow> held < c) in
      if \<not> seat_available then Waitlisted
      else if te_method e = Free then Confirmed
      else CashPending)"

definition cash_deadline :: "'z registration_terms_scheme \<Rightarrow> instant \<Rightarrow> instant txn" where
  "cash_deadline e now = (case te_cash_expiry_minutes e of
     None \<Rightarrow> tx_raise (RuntimeError ''published cash event has no expiry policy'')
   | Some m \<Rightarrow> tx_return (min (now + minutes m) (te_start_at e)))"

definition create_for ::
  "(string \<Rightarrow> string) \<Rightarrow> principal \<Rightarrow> 'z registration_terms_scheme \<Rightarrow> uuid \<Rightarrow> instant \<Rightarrow> registration txn" where
  "create_for sha256 p e request_id now =
     tx_bind (held_seat_count (te_id e)) (\<lambda>held.
     let state = decide_state e held in
     tx_bind (if state = Waitlisted
       then tx_bind (next_waitlist_sequence (te_id e)) (\<lambda>n. tx_return (Some n))
       else tx_return None) (\<lambda>waitlist_sequence.
     tx_bind (if state = CashPending
       then tx_bind (cash_deadline e now) (\<lambda>t. tx_return (Some t))
       else tx_return None) (\<lambda>cash_expires_at.
     tx_bind fresh_uuid (\<lambda>registration_id.
     tx_bind fresh_uuid (\<lambda>command_id.
     let command_hash = sha256 (''registration-create-v1:'' @ uuid_str command_id @ '':''
       @ uuid_str registration_id @ '':'' @ uuid_str (te_id e) @ '':''
       @ uuid_str (sb_user_id p) @ '':'' @ state_name state) in
     create_registration registration_id command_id command_hash (te_id e) (sb_user_id p)
       (te_method e) state (state \<in> {Confirmed, CashPending}) waitlist_sequence cash_expires_at
       (if state = Confirmed then Some now else None) request_id now)))))"

definition register ::
  "(string \<Rightarrow> string) \<Rightarrow> eligibility_config \<Rightarrow> principal \<Rightarrow> uuid \<Rightarrow> string option \<Rightarrow> uuid \<Rightarrow> datetime
     \<Rightarrow> creation_result txn" where
  "register sha256 cfg p event_id private_link_hash request_id now =
     tx_bind (tx_lift (registration_instant ''registration_time'' now)) (\<lambda>current.
     tx_bind (get_registration_terms event_id private_link_hash current) (\<lambda>e.
     tx_bind (evaluate_principal cfg p) (\<lambda>capabilities.
     tx_bind (tx_guard (cp_register_event capabilities)
       (ApiError ''registration_not_allowed'' ''errors.registration_not_allowed'' 403)) (\<lambda>_.
     tx_bind (get_active (te_id e) (sb_user_id p)) (\<lambda>existing. case existing of
       Some r \<Rightarrow> tx_return \<lparr>cr_registration = r, cr_created = False\<rparr>
     | None \<Rightarrow>
         tx_bind (tx_guard (current < te_start_at e)
           (ApiError ''registration_closed'' ''errors.registration_closed'' 409)) (\<lambda>_.
         tx_bind (create_for sha256 p e request_id current) (\<lambda>r.
         tx_return \<lparr>cr_registration = r, cr_created = True\<rparr>)))))))"

subsection \<open>Seats\<close>

text \<open>
  The state invariant of the registration services: the constraints of the table, and no event
  has more seats held than its capacity.
\<close>

definition event_of :: "db \<Rightarrow> uuid \<Rightarrow> event_row option" where
  "event_of d i = one_or_none (\<lambda>e. ev_id e = i) (t_events d)"

definition seats_ok :: "db \<Rightarrow> bool" where
  "seats_ok d \<longleftrightarrow> (\<forall>i e c. event_of d i = Some e \<longrightarrow> ev_capacity e = Some c
     \<longrightarrow> held_seats i (t_registrations d) \<le> c)"

definition registrations_inv :: "db \<Rightarrow> bool" where
  "registrations_inv d \<longleftrightarrow> wf_registrations (t_registrations d) \<and> seats_ok d"

lemma held_seats_append:
  "held_seats i (rs @ [r])
     = held_seats i rs + (if rg_event_id r = i \<and> rg_seat_held r then 1 else 0)"
  by (simp add: held_seats_def)

lemma held_seats_update:
  assumes "distinct (map rg_id rs)" "r \<in> set rs" "rg_event_id r' = rg_event_id r"
  shows "held_seats i (update_where (\<lambda>x. rg_id x = rg_id r) (\<lambda>_. r') rs)
    = held_seats i rs - (if rg_event_id r = i \<and> rg_seat_held r then 1 else 0)
        + (if rg_event_id r = i \<and> rg_seat_held r' then 1 else 0)"
  using count_where_update_one [OF assms(1,2), of "\<lambda>r. rg_event_id r = i \<and> rg_seat_held r" "\<lambda>_. r'"]
    assms(3) by (simp add: held_seats_def)

lemma held_seats_nonneg [simp]: "0 \<le> held_seats i rs"
  by (simp add: held_seats_def)

lemma max_or_zero_ge: "x \<in> set xs \<Longrightarrow> x \<le> max_or_zero xs"
proof -
  have "y \<le> fold max zs y \<and> (\<forall>z \<in> set zs. z \<le> fold max zs y)" for y and zs :: "int list"
    by (induction zs arbitrary: y) (auto, (meson max.cobounded1 max.cobounded2 order_trans)+)
  then show "x \<in> set xs \<Longrightarrow> x \<le> max_or_zero xs"
    by (cases xs) (auto simp: max_or_zero_def)
qed

subsection \<open>What the steps of a registration do\<close>

lemma require_club_open_reads: "require_club_open e d = Inr (u, d') \<Longrightarrow> d' = d"
  by (auto simp: require_club_open_def require_registration_available_def tx_simps
      split: ownership_type.splits option.splits)

lemma require_link_reads:
  "require_link e h t d = Inr (u, d') \<Longrightarrow> t_registrations d' = t_registrations d
     \<and> t_registration_transitions d' = t_registration_transitions d"
  by (auto simp: require_link_def authorize_registration_link_def tx_simps
      split: if_splits option.splits)

lemma terms_of_event_Some:
  "terms_of_event e = Some x \<longleftrightarrow> ev_start_at e = Some (te_start_at x)
     \<and> ev_registration_method e = Some (te_method x) \<and> te_id x = ev_id e
     \<and> te_capacity x = ev_capacity e \<and> te_cash_expiry_minutes x = ev_cash_expiry_minutes e"
  by (auto simp: terms_of_event_def split: option.splits)

lemma registration_terms_reads:
  assumes "get_registration_terms i h t d = Inr (e, d')"
  shows "t_registrations d' = t_registrations d"
    "t_registration_transitions d' = t_registration_transitions d"
    and "\<exists>row. event_of d i = Some row \<and> te_id e = i \<and> te_capacity e = ev_capacity row
      \<and> ev_registration_method row = Some (te_method e) \<and> ev_start_at row = Some (te_start_at e)
      \<and> ev_status row = EvPublished \<and> te_cash_expiry_minutes e = ev_cash_expiry_minutes row"
proof -
  obtain found d0 where "get_event i d = Inr (found, d0)"
    and rest: "(case found of None \<Rightarrow> tx_raise not_found | Some e \<Rightarrow>
         tx_bind (tx_guard (ev_status e = EvPublished \<and> ev_suspended_at e = None) not_found) (\<lambda>_.
         tx_bind (require_club_open e) (\<lambda>_.
         tx_bind (require_link e h t) (\<lambda>_.
         case terms_of_event e of
           None \<Rightarrow> tx_raise not_found | Some terms \<Rightarrow> tx_return terms)))) d0 = Inr (e, d')"
    using assms unfolding get_registration_terms_def by (rule tx_bindE)
  then have found: "d0 = d" "found = map_option (event_of_row d) (event_of d i)"
    by (simp_all add: get_event_eq event_of_def)
  obtain row where row: "event_of d i = Some row"
    using rest found by (cases "event_of d i") (auto simp: tx_raise_eq)
  let ?ev = "event_of_row d row"
  obtain d1 and u v :: unit where "ev_status row = EvPublished"
    "require_club_open ?ev d = Inr (u, d1)" "require_link ?ev h t d1 = Inr (v, d')"
    "terms_of_event ?ev = Some e"
    using rest unfolding found row
    by (cases "terms_of_event ?ev")
       (simp_all add: tx_bind_eq tx_guard_eq tx_raise_eq tx_return_eq, blast)
  moreover have "ev_id row = i" using row by (auto simp: event_of_def dest: one_or_none_Some)
  ultimately show "t_registrations d' = t_registrations d"
    "t_registration_transitions d' = t_registration_transitions d"
    "\<exists>row. event_of d i = Some row \<and> te_id e = i \<and> te_capacity e = ev_capacity row
      \<and> ev_registration_method row = Some (te_method e) \<and> ev_start_at row = Some (te_start_at e)
      \<and> ev_status row = EvPublished \<and> te_cash_expiry_minutes e = ev_cash_expiry_minutes row"
    using row require_club_open_reads [of ?ev d u d1] require_link_reads [of ?ev h t d1 v d']
    by (simp_all add: terms_of_event_Some)
qed

lemma append_creation_records_registrations:
  assumes "append_creation_records i c h e u s rid t d = Inr (x, d')"
  shows "t_registrations d' = t_registrations d"
  using assms unfolding append_creation_records_def Let_def
  by (elim tx_bindE) (auto simp: fresh_uuid_eq dest!: insert_transition_effect(2) insert_outbox_effect)

lemma create_registration_effect:
  assumes "create_registration i c h e u me s sh w ce ca rid t d = Inr (row, d')"
  shows "t_registrations d' = t_registrations d @ [row]"
    and "first_violation (registration_constraints (t_registrations d) row) = None"
    and "rg_id row = i" "rg_event_id row = e" "rg_user_id row = u" "rg_method row = me"
      "rg_state row = s" "rg_seat_held row = sh" "rg_waitlist_sequence row = w"
      "rg_cash_expires_at row = ce" "rg_confirmed_at row = ca"
proof -
  obtain row' d1 d2 x y where ins: "insert_registration \<lparr>rg_id = i, rg_event_id = e,
       rg_user_id = u, rg_method = me, rg_state = s, rg_seat_held = sh,
       rg_waitlist_sequence = w, rg_cash_expires_at = ce,
       rg_confirmed_at = ca, rg_cancelled_at = None, rg_expired_at = None,
       rg_cancellation_reason = None, rg_created_at = 0, rg_updated_at = 0\<rparr> d = Inr (row', d1)"
    and rec: "append_creation_records i c h e u s rid t d1 = Inr (x, d2)"
    and cash: "(case ce of
         Some t \<Rightarrow> if s = CashPending then enqueue_cash_expiry i e t else tx_return ()
       | None \<Rightarrow> tx_return ()) d2 = Inr (y, d')" and row': "row' = row"
    using assms unfolding create_registration_def by (elim tx_bindE) (auto simp: tx_return_eq)
  have "t_registrations d' = t_registrations d2"
    using cash by (auto simp: tx_return_eq split: option.splits if_splits dest!: enqueue_cash_expiry_effect)
  then show "t_registrations d' = t_registrations d @ [row]"
    using append_creation_records_registrations [OF rec] insert_registration_effect(2) [OF ins] row' by simp
  show "first_violation (registration_constraints (t_registrations d) row) = None"
    using insert_registration_effect(3) [OF ins] row' by simp
  show "rg_id row = i" "rg_event_id row = e" "rg_user_id row = u" "rg_method row = me"
      "rg_state row = s" "rg_seat_held row = sh" "rg_waitlist_sequence row = w"
      "rg_cash_expires_at row = ce" "rg_confirmed_at row = ca"
    using insert_registration_effect(1) [OF ins] row' by auto
qed

lemma create_for_effect:
  assumes "create_for sha p e rid now d = Inr (row, d')"
  shows "t_registrations d' = t_registrations d @ [row]"
    and "first_violation (registration_constraints (t_registrations d) row) = None"
    and "rg_event_id row = te_id e" "rg_user_id row = sb_user_id p" "rg_method row = te_method e"
    and "rg_state row = decide_state e (held_seats (te_id e) (t_registrations d))"
    and "rg_seat_held row = (rg_state row \<in> {Confirmed, CashPending})"
    and "rg_state row = Waitlisted \<Longrightarrow> (\<exists>n. rg_waitlist_sequence row = Some n \<and>
      (\<forall>x \<in> set (t_registrations d). waiting_for (te_id e) x \<longrightarrow>
         (\<forall>k. rg_waitlist_sequence x = Some k \<longrightarrow> k < n)))"
    and "rg_state row = CashPending \<Longrightarrow> (\<exists>m. te_cash_expiry_minutes e = Some m
      \<and> rg_cash_expires_at row = Some (min (now + minutes m) (te_start_at e)))"
proof -
  let ?s = "decide_state e (held_seats (te_id e) (t_registrations d))"
  obtain w ce i c h d1 where w: "(if ?s = Waitlisted
       then tx_bind (next_waitlist_sequence (te_id e)) (\<lambda>n. tx_return (Some n))
       else tx_return None) d = Inr (w, d)"
    and ce: "(if ?s = CashPending
       then tx_bind (cash_deadline e now) (\<lambda>t. tx_return (Some t)) else tx_return None) d = Inr (ce, d)"
    and c: "create_registration i c h (te_id e) (sb_user_id p) (te_method e) ?s
       (?s \<in> {Confirmed, CashPending}) w ce (if ?s = Confirmed then Some now else None) rid now d1
       = Inr (row, d')" and d1: "t_registrations d1 = t_registrations d"
    using assms unfolding create_for_def held_seat_count_def Let_def
    by (elim tx_bindE) (auto simp: tx_simps next_waitlist_sequence_def cash_deadline_def
        split: if_splits option.splits)
  note r = create_registration_effect [OF c]
  show "t_registrations d' = t_registrations d @ [row]"
    "first_violation (registration_constraints (t_registrations d) row) = None"
    "rg_event_id row = te_id e" "rg_user_id row = sb_user_id p" "rg_method row = te_method e"
    "rg_state row = ?s" "rg_seat_held row = (rg_state row \<in> {Confirmed, CashPending})"
    using r d1 by simp_all
  show "\<exists>m. te_cash_expiry_minutes e = Some m
      \<and> rg_cash_expires_at row = Some (min (now + minutes m) (te_start_at e))"
    if "rg_state row = CashPending"
    using that ce r by (auto simp: tx_simps cash_deadline_def split: option.splits)
  show "\<exists>n. rg_waitlist_sequence row = Some n \<and> (\<forall>x \<in> set (t_registrations d).
      waiting_for (te_id e) x \<longrightarrow> (\<forall>k. rg_waitlist_sequence x = Some k \<longrightarrow> k < n))"
    if "rg_state row = Waitlisted"
  proof -
    have "rg_waitlist_sequence row = Some (max_or_zero (List.map_filter rg_waitlist_sequence
        (filter (waiting_for (te_id e)) (t_registrations d))) + 1)"
      using that w r by (auto simp: tx_simps next_waitlist_sequence_def)
    moreover have "k \<le> max_or_zero (List.map_filter rg_waitlist_sequence
        (filter (waiting_for (te_id e)) (t_registrations d)))"
      if "x \<in> set (t_registrations d)" "waiting_for (te_id e) x" "rg_waitlist_sequence x = Some k" for x k
      using that by (intro max_or_zero_ge) (force simp: map_filter_def)
    ultimately show ?thesis by fastforce
  qed
qed

lemma create_for_member [member_keeps]: "tx_keeps member_frame (create_for sha p e rid now)"
  unfolding create_for_def held_seat_count_def next_waitlist_sequence_def cash_deadline_def
  by (intro member.rules member_keeps)

text \<open>The two ways a registration commits: an active one is found, or one is created.\<close>

lemma register_cases:
  assumes "register sha cfg p i h rid now d = Inr (res, d')"
  obtains (existing) "t_registrations d' = t_registrations d" "\<not> cr_created res"
      "one_or_none (\<lambda>r. rg_event_id r = i \<and> rg_user_id r = sb_user_id p \<and> active_state (rg_state r))
         (t_registrations d) = Some (cr_registration res)"
      "t_registration_transitions d' = t_registration_transitions d" "member_frame d d'"
  | (created) e row t d1 where "cr_created res" "te_id (e :: registration_terms) = i" "event_of d i = Some row" "ev_status row = EvPublished"
      "utc_instant now = Some t" "ev_start_at row = Some (te_start_at e)" "t < te_start_at e"
      "te_capacity e = ev_capacity row" "ev_registration_method row = Some (te_method e)"
      "te_cash_expiry_minutes e = ev_cash_expiry_minutes row"
      "one_or_none (\<lambda>r. rg_event_id r = i \<and> rg_user_id r = sb_user_id p \<and> active_state (rg_state r))
         (t_registrations d) = None"
      "t_registrations d1 = t_registrations d"
      "create_for sha p e rid t d1 = Inr (cr_registration res, d')" "member_frame d d1"
proof -
  obtain t e d1 caps d2 where t: "utc_instant now = Some t"
    and e: "get_registration_terms i h t d = Inr (e, d1)"
    and caps: "evaluate_principal cfg p d1 = Inr (caps, d2)"
    and rest: "(case one_or_none (\<lambda>r. rg_event_id r = te_id e \<and> rg_user_id r = sb_user_id p
          \<and> active_state (rg_state r)) (t_registrations d2) of
       Some r \<Rightarrow> tx_return \<lparr>cr_registration = r, cr_created = False\<rparr>
     | None \<Rightarrow>
         tx_bind (tx_guard (t < te_start_at e)
           (ApiError ''registration_closed'' ''errors.registration_closed'' 409)) (\<lambda>_.
         tx_bind (create_for sha p e rid t) (\<lambda>r.
         tx_return \<lparr>cr_registration = r, cr_created = True\<rparr>))) d2 = Inr (res, d')"
    using assms unfolding register_def
    by (elim tx_bindE) (simp add: tx_lift_eq tx_guard_eq get_active_def tx_query_eq registration_instant_def)
  have d2: "d2 = d1" by (rule evaluate_principal_reads [OF caps])
  note r = registration_terms_reads [OF e]
  have frame: "member_frame d d1" by (rule tx_keepsD [OF registration_terms_member e])
  show ?thesis
  proof (cases "one_or_none (\<lambda>r. rg_event_id r = te_id e \<and> rg_user_id r = sb_user_id p
          \<and> active_state (rg_state r)) (t_registrations d1)")
    case (Some x)
    then show ?thesis using rest r existing frame by (auto simp: tx_simps d2)
  next
    case None
    then show ?thesis using rest r t frame created by (auto simp: tx_simps d2)
  qed
qed

lemma seats_ok_append:
  assumes "seats_ok d" "t_events d' = t_events d" "t_registrations d' = t_registrations d @ [r]"
    and "rg_seat_held r \<Longrightarrow> event_of d (rg_event_id r) = Some e \<Longrightarrow> ev_capacity e = Some c \<Longrightarrow>
      held_seats (rg_event_id r) (t_registrations d) < c"
    and "event_of d (rg_event_id r) = Some e" "ev_capacity e = None \<or> ev_capacity e = Some c"
  shows "seats_ok d'"
  using assms unfolding seats_ok_def event_of_def assms(2,3) held_seats_append by fastforce

lemma register_keeps_inv:
  assumes "register sha cfg p i h rid now d = Inr (res, d')" "registrations_inv d"
  shows "registrations_inv d'"
  using assms(1)
proof (cases rule: register_cases)
  case existing
  then show ?thesis using assms(2) member_frameD [OF existing(5)]
    by (simp add: registrations_inv_def seats_ok_def event_of_def)
next
  case (created e row t d1)
  note c = create_for_effect [OF created(13)]
  have frame: "member_frame d1 d'" by (rule tx_keepsD [OF create_for_member created(13)])
  have ev: "t_events d' = t_events d"
    using member_frameD(1) [OF frame] member_frameD(1) [OF created(14)] by simp
  have wf: "wf_registrations (t_registrations d')"
    using wf_registrations_append c(1,2) assms(2) created(12) by (simp add: registrations_inv_def)
  have "seats_ok d'"
  proof (cases "ev_capacity row")
    case None
    then show ?thesis
      using seats_ok_append [OF _ ev, of "cr_registration res" row 0] assms(2) c created
      by (simp add: registrations_inv_def)
  next
    case (Some cap)
    have "held_seats i (t_registrations d) < cap" if "rg_seat_held (cr_registration res)"
      using that c(6,7) created Some by (auto simp: decide_state_def split: if_splits)
    then show ?thesis
      using seats_ok_append [OF _ ev, of "cr_registration res" row cap] assms(2) c created Some
      by (simp add: registrations_inv_def)
  qed
  with wf show ?thesis by (simp add: registrations_inv_def)
qed

subsection \<open>The properties\<close>

text \<open>
  C11. What registering decides: a member with an active registration gets that one and nothing
  changes in the table; otherwise, before the start of the published event, one row is added for
  the member, with a seat while the event has one (confirmed when it is free, reserved until the
  cash deadline, but not past the start, when it is paid in cash) and else on the waiting list,
  behind everyone who waits.
\<close>

theorem register_decides:
  assumes "register sha cfg p i h request_id now d = Inr (res, d')"
  shows "let r = cr_registration res; held = held_seats i (t_registrations d) in
    rg_event_id r = i \<and> rg_user_id r = sb_user_id p \<and> active_state (rg_state r)
    \<and> (if cr_created res
       then (\<forall>x \<in> set (t_registrations d). \<not> (rg_event_id x = i \<and> rg_user_id x = sb_user_id p
                \<and> active_state (rg_state x)))
          \<and> t_registrations d' = t_registrations d @ [r]
          \<and> (\<exists>e t s. event_of d i = Some e \<and> ev_status e = EvPublished \<and> utc_instant now = Some t
               \<and> ev_start_at e = Some s \<and> t < s \<and> ev_registration_method e = Some (rg_method r)
               \<and> (if \<exists>c. ev_capacity e = Some c \<and> c \<le> held
                  then rg_state r = Waitlisted
                    \<and> (\<exists>n. rg_waitlist_sequence r = Some n
                        \<and> (\<forall>x \<in> set (t_registrations d). \<forall>k. waiting_for i x
                             \<longrightarrow> rg_waitlist_sequence x = Some k \<longrightarrow> k < n))
                  else if rg_method r = Free then rg_state r = Confirmed
                  else rg_state r = CashPending
                    \<and> (\<exists>m. ev_cash_expiry_minutes e = Some m
                        \<and> rg_cash_expires_at r = Some (min (t + minutes m) s))))
       else r \<in> set (t_registrations d) \<and> t_registrations d' = t_registrations d)"
  using assms
proof (cases rule: register_cases)
  case existing
  from one_or_none_Some [OF existing(3)] existing(1,2) show ?thesis by (simp add: Let_def)
next
  case (created e row t d1)
  note c = create_for_effect [OF created(13)]
  have none: "\<forall>x \<in> set (t_registrations d). \<not> (rg_event_id x = i \<and> rg_user_id x = sb_user_id p
                \<and> active_state (rg_state x))"
    using created(11) by (simp add: one_or_none_None)
  have decided: "rg_state (cr_registration res) = decide_state e (held_seats i (t_registrations d))"
    using c(6) created by simp
  then have active: "active_state (rg_state (cr_registration res))"
    by (auto simp: decide_state_def active_state_def)
  have "if \<exists>k. ev_capacity row = Some k \<and> k \<le> held_seats i (t_registrations d)
      then rg_state (cr_registration res) = Waitlisted
      else if rg_method (cr_registration res) = Free then rg_state (cr_registration res) = Confirmed
      else rg_state (cr_registration res) = CashPending"
    unfolding decided c(5) using created(8) by (auto simp: decide_state_def split: option.split)
  then show ?thesis using created none active c(1,3,4,5,8,9)
    by (auto simp: Let_def split: if_splits)
qed

definition example_principal :: "nat \<Rightarrow> principal" where
  "example_principal n = \<lparr>sb_user_id = example_id n, sb_email_verified = True,
     sb_status = UserActive, sb_is_platform_admin = False, ap_session_id = example_id 80\<rparr>"

lemma example_register:
  obtains res d' where "register example_sha example_rules (example_principal 5) (example_id 20) None
      (example_id 91) (Aware 10 0) example_db = Inr (res, d')"
    "cr_created res" "rg_state (cr_registration res) = Waitlisted"
proof -
  have "commits (register example_sha example_rules (example_principal 5) (example_id 20) None
      (example_id 91) (Aware 10 0) example_db)
    (\<lambda>res _. cr_created res \<and> rg_state (cr_registration res) = Waitlisted)" by code_simp
  then show ?thesis using that by (elim commitsE) blast
qed

theorem register_decides_witness:
  "\<exists>(r :: registration) n. rg_state r = Waitlisted \<and> rg_user_id r = example_id 5 \<and> rg_waitlist_sequence r = Some n \<and> 52 < n"
proof -
  obtain res d' where r: "register example_sha example_rules (example_principal 5) (example_id 20) None
      (example_id 91) (Aware 10 0) example_db = Inr (res, d')"
    "cr_created res" "rg_state (cr_registration res) = Waitlisted" by (rule example_register)
  have "example_registration 52 4 Waitlisted \<in> set (t_registrations example_db)"
    "waiting_for (example_id 20) (example_registration 52 4 Waitlisted)"
    "rg_waitlist_sequence (example_registration 52 4 Waitlisted) = Some 52"
    by (simp_all add: example_db_def waiting_for_def example_registration_def)
  moreover have "sb_user_id (example_principal 5) = example_id 5" by (simp add: example_principal_def)
  moreover obtain n where "rg_waitlist_sequence (cr_registration res) = Some n"
    "\<forall>x \<in> set (t_registrations example_db). \<forall>k. waiting_for (example_id 20) x
       \<longrightarrow> rg_waitlist_sequence x = Some k \<longrightarrow> k < n" "rg_user_id (cr_registration res) = example_id 5"
    using register_decides [OF r(1)] r(2,3) \<open>sb_user_id _ = _\<close> by (auto simp: Let_def split: if_splits)
  ultimately show ?thesis using r(3) by blast
qed

text \<open>
  Registering is idempotent: when a member registers again, by whatever later request, the
  first registration is returned and the table does not change.
\<close>

theorem register_again_returns_the_first:
  assumes "register sha cfg p i h request_id now d = Inr (a, d1)"
    and "register sha cfg' p i h' request_id' now' d1 = Inr (b, d2)"
  shows "\<not> cr_created b \<and> cr_registration b = cr_registration a
    \<and> t_registrations d2 = t_registrations d1"
proof -
  let ?P = "\<lambda>r. rg_event_id r = i \<and> rg_user_id r = sb_user_id p \<and> active_state (rg_state r)"
  have found: "one_or_none ?P (t_registrations d1) = Some (cr_registration a)"
    using assms(1)
  proof (cases rule: register_cases)
    case existing
    then show ?thesis by simp
  next
    case (created e row t d0)
    note c = create_for_effect [OF created(13)]
    have "?P (cr_registration a)" using c(3,4,6) created by (auto simp: decide_state_def active_state_def)
    then show ?thesis using c(1) created(11,12) by (simp add: one_or_none_append)
  qed
  from assms(2) show ?thesis by (cases rule: register_cases) (use found in simp_all)
qed

theorem register_again_returns_the_first_witness:
  "\<exists>a b d1 d2. register example_sha example_rules (example_principal 2) (example_id 20) None
      (example_id 92) (Aware 11 0) d1 = Inr (b, d2) \<and> cr_registration b = a \<and> rg_state a = Confirmed"
proof -
  have "commits (register example_sha example_rules (example_principal 2) (example_id 20) None
      (example_id 91) (Aware 10 0) example_db) (\<lambda>a d1. rg_state (cr_registration a) = Confirmed
        \<and> commits (register example_sha example_rules (example_principal 2) (example_id 20) None
             (example_id 92) (Aware 11 0) d1) (\<lambda>_ _. True))" by code_simp
  then obtain a d1 b d2 where x: "register example_sha example_rules (example_principal 2) (example_id 20) None
      (example_id 91) (Aware 10 0) example_db = Inr (a, d1)" "rg_state (cr_registration a) = Confirmed"
    "register example_sha example_rules (example_principal 2) (example_id 20) None
      (example_id 92) (Aware 11 0) d1 = Inr (b, d2)"
    by (elim commitsE conjE) blast
  from register_again_returns_the_first [OF x(1) x(3)] x(2,3) show ?thesis by blast
qed

end
