(* ===== verification/Registration_Promotion.thy ===== *)
theory Registration_Promotion
  imports Registration_Creation
begin

section \<open>Promotion and cancellation (PromotionService, RegistrationCancellationService)\<close>

text \<open>
  The services that move a registration on do it by a transition command of their own and one
  audit event that names both states; \<open>audit_transition\<close> and \<open>change_state\<close> are these two calls
  as the code repeats them.
\<close>

definition audit_transition ::
  "string \<Rightarrow> uuid option \<Rightarrow> actor_kind \<Rightarrow> string \<Rightarrow> registration \<Rightarrow> registration \<Rightarrow> uuid option \<Rightarrow> unit txn" where
  "audit_transition action actor_user_id actor_kind reason old new request_id =
     tx_bind (audit_record \<lparr>ae_actor_user_id = actor_user_id, ae_actor_kind = actor_kind,
       ae_action = action, ae_target_type = ''registration'', ae_target_id = Some (rg_id old),
       ae_reason = Some reason,
       ae_safe_before = Some (JObj [(''state'', JStr (state_name (rg_state old)))]),
       ae_safe_after = Some (JObj [(''state'', JStr (state_name (rg_state new)))]),
       ae_request_id = request_id\<rparr>) (\<lambda>_. tx_return ())"

definition change_state ::
  "(string \<Rightarrow> string) \<Rightarrow> string \<Rightarrow> registration \<Rightarrow> registration_state \<Rightarrow> uuid option \<Rightarrow> actor_kind
     \<Rightarrow> string \<Rightarrow> instant \<Rightarrow> uuid option \<Rightarrow> instant option \<Rightarrow> registration txn" where
  "change_state sha256 action r target actor_user_id actor_kind reason now request_id cash_expires_at =
     tx_bind (new_transition_command (rg_id r) target actor_user_id actor_kind reason now
       request_id cash_expires_at) (\<lambda>c.
     tx_bind (transition sha256 c) (\<lambda>res.
     tx_bind (audit_transition action actor_user_id actor_kind reason r (tr_registration res) request_id) (\<lambda>_.
     tx_return (tr_registration res))))"

text \<open>
  The loop of \<open>promote_next\<close>, with the eligibility check it is given (\<open>evaluate_user\<close>) as
  an argument. Each round that goes on cancels one waiting registration; the fuel is one more
  than their number.
\<close>

type_synonym eligibility_check = "uuid \<Rightarrow> capabilities option txn"

definition ineligible :: "capabilities option \<Rightarrow> bool" where
  "ineligible capabilities \<longleftrightarrow> (case capabilities of
     None \<Rightarrow> True | Some c \<Rightarrow> \<not> cp_register_event c)"

fun promote_loop ::
  "(string \<Rightarrow> string) \<Rightarrow> eligibility_check \<Rightarrow> nat \<Rightarrow> cancellation_terms \<Rightarrow> instant \<Rightarrow> uuid option
     \<Rightarrow> registration option txn" where
  "promote_loop sha256 check 0 e now request_id = tx_raise OutOfFuel"
| "promote_loop sha256 check (Suc fuel) e now request_id =
     tx_bind (oldest_waitlisted (te_id e)) (\<lambda>found. case found of
       None \<Rightarrow> tx_return None
     | Some candidate \<Rightarrow>
         tx_bind (check (rg_user_id candidate)) (\<lambda>capabilities.
         if ineligible capabilities
         then tx_bind (change_state sha256 ''registration.promotion_skip'' candidate Cancelled None
             System ''promotion_ineligible'' now request_id None) (\<lambda>_.
           promote_loop sha256 check fuel e now request_id)
         else
           let target = (if te_method e = Free then Confirmed else CashPending) in
           tx_bind (if target = CashPending
             then tx_bind (cash_deadline e now) (\<lambda>t. tx_return (Some t))
             else tx_return None) (\<lambda>cash_expires_at.
           tx_bind (change_state sha256 ''registration.promote'' candidate target None
             System ''waitlist_promoted'' now request_id cash_expires_at) (\<lambda>r.
           tx_return (Some r)))))"

definition promote_next ::
  "(string \<Rightarrow> string) \<Rightarrow> eligibility_check \<Rightarrow> uuid \<Rightarrow> datetime \<Rightarrow> uuid option
     \<Rightarrow> registration option txn" where
  "promote_next sha256 check event_id now request_id =
     tx_bind (tx_lift (registration_instant ''promotion_time'' now)) (\<lambda>current.
     tx_bind (get_cancellation_terms event_id) (\<lambda>e.
     if te_start_at e \<le> current then tx_return None
     else
       tx_bind (held_seat_count (te_id e)) (\<lambda>held.
       if (case te_capacity e of None \<Rightarrow> False | Some c \<Rightarrow> c \<le> held) then tx_return None
       else
         tx_bind (tx_query (\<lambda>d. length (filter (waiting_for (te_id e)) (t_registrations d)))) (\<lambda>waiting.
         promote_loop sha256 check (Suc waiting) e current request_id))))"

definition cancel_registration ::
  "(string \<Rightarrow> string) \<Rightarrow> eligibility_check \<Rightarrow> 'z subject_scheme \<Rightarrow> uuid \<Rightarrow> uuid \<Rightarrow> datetime
     \<Rightarrow> registration txn" where
  "cancel_registration sha256 check p event_id request_id now =
     tx_bind (tx_lift (registration_instant ''cancellation_time'' now)) (\<lambda>current.
     tx_bind (get_cancellation_terms event_id) (\<lambda>e.
     let cutoff = te_start_at e - minutes (te_cancellation_cutoff_minutes e) in
     tx_bind (tx_guard (current < cutoff)
       (ApiError ''cancellation_closed'' ''errors.cancellation_closed'' 409)) (\<lambda>_.
     tx_bind (get_active (te_id e) (sb_user_id p)) (\<lambda>found. case found of
       None \<Rightarrow> tx_raise not_found
     | Some r \<Rightarrow>
         tx_bind (change_state sha256 ''registration.cancel'' r Cancelled (Some (sb_user_id p))
           Member ''member_cancelled'' current (Some request_id) None) (\<lambda>cancelled.
         tx_bind (if rg_seat_held r
           then tx_bind (promote_next sha256 check (te_id e) (Aware current 0) (Some request_id))
             (\<lambda>_. tx_return ())
           else tx_return ()) (\<lambda>_.
         tx_return cancelled))))))"

subsection \<open>One change of state\<close>

lemma new_transition_command_eq:
  "new_transition_command i target a k reason t req cash d = Inr (c, d') \<longleftrightarrow>
     (\<exists>u. uuid_at d (entropy_pos d) = Some u \<and> d' = d\<lparr>entropy_pos := Suc (entropy_pos d)\<rparr>
       \<and> c = \<lparr>tc_command_id = u, tc_registration_id = i, tc_target_state = target,
           tc_actor_user_id = a, tc_actor_kind = k, tc_reason_code = reason,
           tc_occurred_at = Aware t 0, tc_request_id = req,
           tc_cash_expires_at = map_option (\<lambda>t. Aware t 0) cash\<rparr>)"
  by (auto simp: new_transition_command_def tx_simps)

lemma change_state_member [member_keeps]:
  "tx_keeps member_frame (change_state sha act r target a k reason t req cash)"
  unfolding change_state_def new_transition_command_def audit_transition_def
  by (intro member.rules member_keeps)

text \<open>
  Either the command was a replay and the tables of registrations do not change, or the stored
  row moved to the target; unused identifiers exclude the first.
\<close>

definition moved :: "registration \<Rightarrow> registration_state \<Rightarrow> registration \<Rightarrow> db \<Rightarrow> db \<Rightarrow> bool" where
  "moved old target new d d' \<longleftrightarrow>
     one_or_none (\<lambda>x. rg_id x = rg_id old) (t_registrations d) = Some old
     \<and> is_transition_allowed (rg_state old) target \<and> rg_state new = target
     \<and> rg_seat_held new = (target \<in> {Confirmed, CashPending})
     \<and> rg_id new = rg_id old \<and> rg_event_id new = rg_event_id old \<and> rg_user_id new = rg_user_id old
     \<and> first_violation (registration_constraints
         (delete_where (\<lambda>x. rg_id x = rg_id old) (t_registrations d)) new) = None
     \<and> t_registrations d' = update_where (\<lambda>x. rg_id x = rg_id old) (\<lambda>_. new) (t_registrations d)
     \<and> (\<exists>e. event_of d (rg_event_id old) = Some e \<and> ev_status e = EvPublished)"

lemma change_state_effect:
  assumes "change_state sha act r target a k reason t req cash d = Inr (new, d')"
  obtains (replayed) "t_registrations d' = t_registrations d"
      "t_registration_transitions d' = t_registration_transitions d" "\<not> ids_unused d"
  | (changed) old where "rg_id old = rg_id r" "moved old target new d d'" "ids_unused d \<Longrightarrow> ids_unused d'"
proof -
  obtain u res d1 where u: "uuid_at d (entropy_pos d) = Some u"
    and tr: "transition sha \<lparr>tc_command_id = u, tc_registration_id = rg_id r, tc_target_state = target,
           tc_actor_user_id = a, tc_actor_kind = k, tc_reason_code = reason,
           tc_occurred_at = Aware t 0, tc_request_id = req,
           tc_cash_expires_at = map_option (\<lambda>t. Aware t 0) cash\<rparr>
        (d\<lparr>entropy_pos := Suc (entropy_pos d)\<rparr>) = Inr (res, d1)"
    and au: "audit_transition act a k reason r (tr_registration res) req d1 = Inr ((), d')"
    and new: "new = tr_registration res"
    using assms unfolding change_state_def
    by (elim tx_bindE) (auto simp: new_transition_command_eq tx_return_eq)
  have same: "t_registrations d' = t_registrations d1"
    "t_registration_transitions d' = t_registration_transitions d1"
    using au by (auto simp: audit_transition_def tx_simps dest!: audit_record_effect)
  have frame: "member_frame d d'" by (rule tx_keepsD [OF change_state_member assms])
  have frame1: "member_frame (d\<lparr>entropy_pos := Suc (entropy_pos d)\<rparr>) d1"
    by (rule tx_keepsD [OF transition_member tr])
  from tr show ?thesis
  proof (cases rule: transition_effect)
    case replayed
    then have "\<not> ids_unused d" using u unfolding ids_unused_def by fastforce
    then show ?thesis using replayed same that(1) by simp
  next
    case (applied old c e)
    have id: "rg_id old = rg_id r" using one_or_none_Some [OF applied(2)] by simp
    have "moved old target new d d'"
      using applied same new id by (simp add: moved_def event_of_def)
    moreover have "ids_unused d'" if ids: "ids_unused d"
    proof -
      have pos: "Suc (entropy_pos d) \<le> entropy_pos d'"
        using member_frameD(4) [OF frame1] au
        by (auto simp: audit_transition_def tx_simps dest!: audit_record_effect)
      have uuid: "uuid_at d' n = uuid_at d n" for n
        by (rule uuid_at_cong) (rule member_frameD(3) [OF frame])
      have "rt_command_id x \<noteq> v" if "entropy_pos d' \<le> n" "uuid_at d n = Some v"
        "x \<in> set (t_registration_transitions d')" for n v x
      proof -
        have "n \<noteq> entropy_pos d" "entropy_pos d \<le> n" using that(1) pos by auto
        then have "v \<noteq> u" using ids u that(2) unfolding ids_unused_def by blast
        moreover have "x \<in> set (t_registration_transitions d) \<or> rt_command_id x = u"
          using that(3) applied(13,14) same by auto
        moreover have "rt_command_id y \<noteq> v" if "y \<in> set (t_registration_transitions d)" for y
          using ids that \<open>entropy_pos d \<le> n\<close> \<open>uuid_at d n = Some v\<close> unfolding ids_unused_def by blast
        ultimately show ?thesis by auto
      qed
      then show ?thesis using ids unfolding ids_unused_def uuid by blast
    qed
    ultimately show ?thesis using that(2) [OF id] by blast
  qed
qed

lemma moved_inv:
  assumes m: "moved old target new d d'" and inv: "wf_registrations (t_registrations d)"
  shows "wf_registrations (t_registrations d')"
    and "held_seats i (t_registrations d') = held_seats i (t_registrations d)
      - (if rg_event_id old = i \<and> rg_seat_held old then 1 else 0)
      + (if rg_event_id old = i \<and> target \<in> {Confirmed, CashPending} then 1 else 0)"
proof -
  have old: "old \<in> set (t_registrations d)" using m by (auto simp: moved_def dest: one_or_none_Some)
  show "wf_registrations (t_registrations d')"
    using wf_registrations_update [OF inv old, of new] m by (simp add: moved_def)
  have "distinct (map rg_id (t_registrations d))" using inv by (simp add: wf_registrations_def)
  from held_seats_update [OF this old, of new] show "held_seats i (t_registrations d') = held_seats i (t_registrations d)
      - (if rg_event_id old = i \<and> rg_seat_held old then 1 else 0)
      + (if rg_event_id old = i \<and> target \<in> {Confirmed, CashPending} then 1 else 0)"
    using m by (simp add: moved_def)
qed

text \<open>A change of state keeps the invariant unless it takes a seat anew.\<close>

lemma change_state_keeps_inv:
  assumes s: "change_state sha act r target a k reason t req cash d = Inr (new, d')"
    and r: "r \<in> set (t_registrations d)" and inv: "registrations_inv d"
    and seat: "target \<in> {Confirmed, CashPending} \<Longrightarrow> rg_seat_held r"
  shows "registrations_inv d'"
proof -
  have wf: "wf_registrations (t_registrations d)" using inv by (simp add: registrations_inv_def)
  have ev: "event_of d' i = event_of d i" for i
    using member_frameD(1) [OF tx_keepsD [OF change_state_member s]] by (simp add: event_of_def)
  have "wf_registrations (t_registrations d') \<and>
      (\<forall>i. held_seats i (t_registrations d') \<le> held_seats i (t_registrations d))"
    using s
  proof (cases rule: change_state_effect)
    case replayed
    then show ?thesis using wf by simp
  next
    case (changed old)
    have "old \<in> set (t_registrations d)" using changed(2) by (auto simp: moved_def dest: one_or_none_Some)
    then have "old = r" using changed(1) r wf by (auto simp: wf_registrations_def dest: distinct_key_eq)
    then show ?thesis using moved_inv [OF changed(2) wf] seat by auto
  qed
  then show ?thesis using inv unfolding registrations_inv_def seats_ok_def ev by (meson order_trans)
qed

end
