(* ===== verification/Promotion_Laws.thy ===== *)
theory Promotion_Laws
  imports Registration_Promotion
begin

section \<open>The waiting list: order, termination, seats\<close>

subsection \<open>The interface of the eligibility check\<close>

text \<open>
  What \<open>promote_next\<close> relies on of its \<open>PromotionEligibilityProtocol\<close>: the check writes nothing,
  and its answer does not depend on what the registration services write.
\<close>

definition waiting_key :: "registration \<Rightarrow> int option \<times> uuid" where
  "waiting_key r = (rg_waitlist_sequence r, rg_id r)"

definition skipped :: "eligibility_check \<Rightarrow> db \<Rightarrow> db \<Rightarrow> registration \<Rightarrow> bool" where
  "skipped check d d' x \<longleftrightarrow> (\<exists>caps. check (rg_user_id x) d = Inr (caps, d) \<and> ineligible caps)
     \<and> (\<exists>y \<in> set (t_registrations d'). rg_id y = rg_id x \<and> rg_state y = Cancelled)"

text \<open>The candidate got a seat: the first that waited and may register; those before were skipped.\<close>

definition seated_first :: "eligibility_check \<Rightarrow> uuid \<Rightarrow> db \<Rightarrow> db \<Rightarrow> registration \<Rightarrow> bool" where
  "seated_first check i d d' c \<longleftrightarrow> c \<in> set (t_registrations d) \<and> waiting_for i c
     \<and> (\<exists>r \<in> set (t_registrations d'). rg_id r = rg_id c \<and> rg_seat_held r)
     \<and> (\<exists>caps. check (rg_user_id c) d = Inr (Some caps, d) \<and> cp_register_event caps)
     \<and> (\<forall>x \<in> set (t_registrations d). waiting_for i x \<longrightarrow>
          (waiting_key x < waiting_key c \<longrightarrow> skipped check d d' x)
          \<and> (waiting_key c < waiting_key x \<longrightarrow> x \<in> set (t_registrations d')))"

definition all_skipped :: "eligibility_check \<Rightarrow> uuid \<Rightarrow> db \<Rightarrow> db \<Rightarrow> bool" where
  "all_skipped check i d d' \<longleftrightarrow>
     (\<forall>x \<in> set (t_registrations d). waiting_for i x \<longrightarrow> skipped check d d' x)"

lemma oldest_waitlisted_Some:
  assumes "oldest_waitlisted i d = Inr (Some c, d')"
  shows "d' = d" "c \<in> set (t_registrations d)" "waiting_for i c"
    "\<And>x. x \<in> set (t_registrations d) \<Longrightarrow> waiting_for i x \<Longrightarrow> waiting_key c \<le> waiting_key x"
proof -
  have f: "d' = d" "first_by waiting_key (waiting_for i) (t_registrations d) = Some c"
    using assms by (auto simp: oldest_waitlisted_def tx_simps waiting_key_def [abs_def])
  then show "d' = d" by simp
  from first_by_Some [OF f(2)] show "c \<in> set (t_registrations d)" "waiting_for i c"
    "\<And>x. x \<in> set (t_registrations d) \<Longrightarrow> waiting_for i x \<Longrightarrow> waiting_key c \<le> waiting_key x" by blast+
qed

text \<open>In a table with unique identifiers the row that moves is the candidate itself.\<close>

lemma moved_candidate:
  assumes "moved old target new d d'" "rg_id old = rg_id c" "c \<in> set (t_registrations d)"
    "wf_registrations (t_registrations d)"
  shows "old = c"
proof -
  have "old \<in> set (t_registrations d)" using assms(1) by (auto simp: moved_def dest: one_or_none_Some)
  then show ?thesis using assms(2-4) by (auto simp: wf_registrations_def dest: distinct_key_eq)
qed

lemma moved_rows:
  assumes m: "moved c target new d d'" and wf: "wf_registrations (t_registrations d)"
  shows "x \<in> set (t_registrations d) \<Longrightarrow> x \<noteq> c \<Longrightarrow> x \<in> set (t_registrations d')"
    and "x \<in> set (t_registrations d') \<Longrightarrow> x = new \<or> (x \<in> set (t_registrations d) \<and> x \<noteq> c)"
    and "new \<in> set (t_registrations d')"
proof -
  have c: "c \<in> set (t_registrations d)" using m by (auto simp: moved_def dest: one_or_none_Some)
  have dist: "distinct (map rg_id (t_registrations d))" using wf by (simp add: wf_registrations_def)
  have rows: "t_registrations d' = update_where (\<lambda>x. rg_id x = rg_id c) (\<lambda>_. new) (t_registrations d)"
    using m by (simp add: moved_def)
  show "x \<in> set (t_registrations d')" if "x \<in> set (t_registrations d)" "x \<noteq> c"
  proof -
    have "rg_id x \<noteq> rg_id c" using distinct_key_eq [OF dist that(1) c] that(2) by blast
    then show ?thesis unfolding rows set_update_where using that(1) by (auto simp: image_iff intro!: bexI [of _ x])
  qed
  show "x = new \<or> (x \<in> set (t_registrations d) \<and> x \<noteq> c)" if "x \<in> set (t_registrations d')"
    using in_update_row [OF dist c that [unfolded rows]] by blast
  show "new \<in> set (t_registrations d')"
    unfolding rows set_update_where using c by (auto simp: image_iff intro!: bexI [of _ c])
qed

lemma waiting_seat: "wf_registrations rs \<Longrightarrow> r \<in> set rs \<Longrightarrow> waiting_for i r \<Longrightarrow> \<not> rg_seat_held r"
proof -
  assume "wf_registrations rs" "r \<in> set rs" "waiting_for i r"
  then have "row_ok r" "rg_state r = Waitlisted" by (simp_all add: wf_registrations_def waiting_for_def)
  then show ?thesis using row_ok_seat by auto
qed

locale promotion_eligibility =
  fixes check :: eligibility_check
  assumes reads: "check u d = Inr (c, d') \<Longrightarrow> d' = d"
    and independent: "member_frame d d' \<Longrightarrow> check u d' = Inr (c, d') \<longleftrightarrow> check u d = Inr (c, d)"
begin

text \<open>One round: the list is empty, the head is skipped, or the head is promoted.\<close>

lemma loop_cases:
  assumes "promote_loop sha check (Suc n) e now req d = Inr (res, d')"
  obtains (empty) "res = None" "d' = d" "\<forall>x \<in> set (t_registrations d). \<not> waiting_for (te_id e) x"
  | (skip) c caps new d1 where "oldest_waitlisted (te_id e) d = Inr (Some c, d)"
      "check (rg_user_id c) d = Inr (caps, d)" "ineligible caps"
      "change_state sha ''registration.promotion_skip'' c Cancelled None System
         ''promotion_ineligible'' now req None d = Inr (new, d1)"
      "promote_loop sha check n e now req d1 = Inr (res, d')"
  | (promote) c caps new cash where "oldest_waitlisted (te_id e) d = Inr (Some c, d)"
      "check (rg_user_id c) d = Inr (caps, d)" "\<not> ineligible caps" "res = Some new"
      "change_state sha ''registration.promote'' c (if te_method e = Free then Confirmed else CashPending)
         None System ''waitlist_promoted'' now req cash d = Inr (new, d')"
proof -
  obtain found d0 where found: "oldest_waitlisted (te_id e) d = Inr (found, d0)"
    and rest: "(case found of None \<Rightarrow> tx_return None
     | Some candidate \<Rightarrow>
         tx_bind (check (rg_user_id candidate)) (\<lambda>capabilities.
         if ineligible capabilities
         then tx_bind (change_state sha ''registration.promotion_skip'' candidate Cancelled None
             System ''promotion_ineligible'' now req None) (\<lambda>_. promote_loop sha check n e now req)
         else
           let target = (if te_method e = Free then Confirmed else CashPending) in
           tx_bind (if target = CashPending
             then tx_bind (cash_deadline e now) (\<lambda>t. tx_return (Some t))
             else tx_return None) (\<lambda>cash_expires_at.
           tx_bind (change_state sha ''registration.promote'' candidate target None
             System ''waitlist_promoted'' now req cash_expires_at) (\<lambda>r.
           tx_return (Some r))))) d0 = Inr (res, d')"
    using assms unfolding promote_loop.simps by (rule tx_bindE)
  have d0: "d0 = d" using found by (auto simp: oldest_waitlisted_def tx_simps)
  show ?thesis
  proof (cases found)
    case None
    then have "first_by (\<lambda>r. (rg_waitlist_sequence r, rg_id r)) (waiting_for (te_id e)) (t_registrations d) = None"
      using found by (auto simp: oldest_waitlisted_def tx_simps)
    then show ?thesis using rest None d0 empty by (auto simp: tx_simps first_by_None)
  next
    case (Some c)
    from rest [unfolded Some d0, simplified] obtain caps d1 where caps: "check (rg_user_id c) d = Inr (caps, d1)"
      and step: "(if ineligible caps
         then tx_bind (change_state sha ''registration.promotion_skip'' c Cancelled None
             System ''promotion_ineligible'' now req None) (\<lambda>_. promote_loop sha check n e now req)
         else
           let target = (if te_method e = Free then Confirmed else CashPending) in
           tx_bind (if target = CashPending
             then tx_bind (cash_deadline e now) (\<lambda>t. tx_return (Some t))
             else tx_return None) (\<lambda>cash_expires_at.
           tx_bind (change_state sha ''registration.promote'' c target None
             System ''waitlist_promoted'' now req cash_expires_at) (\<lambda>r.
           tx_return (Some r)))) d1 = Inr (res, d')"
      by (rule tx_bindE)
    have d1: "d1 = d" by (rule reads [OF caps])
    show ?thesis
    proof (cases "ineligible caps")
      case True
      with step show ?thesis using skip [OF found [unfolded Some d0] caps [unfolded d1] True]
        by (auto simp: tx_bind_eq d1)
    next
      case False
      then obtain cash d2 new where
        "(if (if te_method e = Free then Confirmed else CashPending) = CashPending
             then tx_bind (cash_deadline e now) (\<lambda>t. tx_return (Some t)) else tx_return None) d = Inr (cash, d2)"
        and new: "change_state sha ''registration.promote'' c (if te_method e = Free then Confirmed else CashPending)
             None System ''waitlist_promoted'' now req cash d2 = Inr (new, d')" "res = Some new"
        using step d1 unfolding Let_def tx_bind_eq tx_return_eq if_not_P [OF False] by blast
      then have "d2 = d" by (auto simp: tx_simps cash_deadline_def split: if_splits option.splits)
      then show ?thesis using promote [OF found [unfolded Some d0] caps [unfolded d1] False] new by simp
    qed
  qed
qed

lemma loop_member: "promote_loop sha check n e now req d = Inr (res, d') \<Longrightarrow> member_frame d d'"
proof (induction n arbitrary: d)
  case 0
  then show ?case by (simp add: tx_raise_eq)
next
  case (Suc n)
  from Suc.prems show ?case
  proof (cases rule: loop_cases)
    case empty
    then show ?thesis by (simp add: member.refl)
  next
    case (skip c caps new d1)
    then show ?thesis using Suc.IH member.trans tx_keepsD [OF change_state_member] by blast
  next
    case promote
    then show ?thesis using tx_keepsD [OF change_state_member] by blast
  qed
qed

text \<open>The table keeps its constraints, and the event gains at most one seat.\<close>

lemma loop_keeps:
  assumes "promote_loop sha check n e now req d = Inr (res, d')" "wf_registrations (t_registrations d)"
  shows "wf_registrations (t_registrations d') \<and>
    held_seats i (t_registrations d) \<le> held_seats i (t_registrations d')
    \<and> held_seats i (t_registrations d') \<le> held_seats i (t_registrations d) + (if i = te_id e then 1 else 0)"
  using assms
proof (induction n arbitrary: d)
  case 0
  then show ?case by (simp add: tx_raise_eq)
next
  case (Suc n)
  from Suc.prems(1) show ?case
  proof (cases rule: loop_cases)
    case empty
    then show ?thesis using Suc.prems(2) by simp
  next
    case (skip c caps new d1)
    note o = oldest_waitlisted_Some [OF skip(1)]
    have "wf_registrations (t_registrations d1)
      \<and> held_seats i (t_registrations d1) = held_seats i (t_registrations d)"
      using skip(4)
    proof (cases rule: change_state_effect)
      case replayed
      then show ?thesis using Suc.prems(2) by simp
    next
      case (changed old)
      have "old = c" by (rule moved_candidate [OF changed(2,1) o(2) Suc.prems(2)])
      then show ?thesis using moved_inv [OF changed(2) Suc.prems(2)] waiting_seat [OF Suc.prems(2) o(2,3)]
        by simp
    qed
    then show ?thesis using Suc.IH [OF skip(5)] by simp
  next
    case (promote c caps new cash)
    note o = oldest_waitlisted_Some [OF promote(1)]
    from promote(5) show ?thesis
    proof (cases rule: change_state_effect)
      case replayed
      then show ?thesis using Suc.prems(2) by simp
    next
      case (changed old)
      have "old = c" by (rule moved_candidate [OF changed(2,1) o(2) Suc.prems(2)])
      then show ?thesis using moved_inv(1) [OF changed(2) Suc.prems(2)]
          moved_inv(2) [OF changed(2) Suc.prems(2), where i = i] o(3)
          waiting_seat [OF Suc.prems(2) o(2,3)]
        by (auto simp: waiting_for_def)
    qed
  qed
qed

text \<open>With fresh identifiers it gains exactly one when somebody is promoted.\<close>

lemma loop_seats:
  assumes "promote_loop sha check n e now req d = Inr (res, d')" "wf_registrations (t_registrations d)"
    "ids_unused d"
  shows "held_seats i (t_registrations d') = held_seats i (t_registrations d)
    + (if i = te_id e \<and> res \<noteq> None then 1 else 0)"
  using assms
proof (induction n arbitrary: d)
  case 0
  then show ?case by (simp add: tx_raise_eq)
next
  case (Suc n)
  from Suc.prems(1) show ?case
  proof (cases rule: loop_cases)
    case empty
    then show ?thesis by simp
  next
    case (skip c caps new d1)
    note o = oldest_waitlisted_Some [OF skip(1)]
    obtain old where old: "rg_id old = rg_id c" "moved old Cancelled new d d1" "ids_unused d1"
      by (rule change_state_effect [OF skip(4)]) (use Suc.prems(3) in blast)+
    have "old = c" by (rule moved_candidate [OF old(2,1) o(2) Suc.prems(2)])
    then show ?thesis
      using Suc.IH [OF skip(5) moved_inv(1) [OF old(2) Suc.prems(2)] old(3)]
        moved_inv(2) [OF old(2) Suc.prems(2), where i = i] waiting_seat [OF Suc.prems(2) o(2,3)] by simp
  next
    case (promote c caps new cash)
    note o = oldest_waitlisted_Some [OF promote(1)]
    obtain old where old: "rg_id old = rg_id c"
      "moved old (if te_method e = Free then Confirmed else CashPending) new d d'"
      by (rule change_state_effect [OF promote(5)]) (use Suc.prems(3) in blast)+
    have "old = c" by (rule moved_candidate [OF old(2,1) o(2) Suc.prems(2)])
    then show ?thesis
      using moved_inv(2) [OF old(2) Suc.prems(2), where i = i] o(3) waiting_seat [OF Suc.prems(2) o(2,3)]
        promote(4) by (auto simp: waiting_for_def)
  qed
qed

lemma loop_others:
  assumes "promote_loop sha check n e now req d = Inr (res, d')" "wf_registrations (t_registrations d)"
    "x \<in> set (t_registrations d)" "\<not> waiting_for (te_id e) x"
  shows "x \<in> set (t_registrations d')"
  using assms
proof (induction n arbitrary: d)
  case 0
  then show ?case by (simp add: tx_raise_eq)
next
  case (Suc n)
  have stays: "x \<in> set (t_registrations d2) \<and> wf_registrations (t_registrations d2)"
    if c: "oldest_waitlisted (te_id e) d = Inr (Some c, d)"
      and s: "change_state sha act c t None System reason now req cash d = Inr (new, d2)"
    for c act t reason cash new d2
    using s
  proof (cases rule: change_state_effect)
    case replayed
    then show ?thesis using Suc.prems by simp
  next
    case (changed old)
    note o = oldest_waitlisted_Some [OF c]
    have "old = c" by (rule moved_candidate [OF changed(2,1) o(2) Suc.prems(2)])
    moreover have "x \<noteq> c" using o(3) Suc.prems(4) by blast
    ultimately show ?thesis
      using moved_rows(1) [OF changed(2) Suc.prems(2) Suc.prems(3)] moved_inv(1) [OF changed(2) Suc.prems(2)]
      by simp
  qed
  from Suc.prems(1) show ?case
  proof (cases rule: loop_cases)
    case empty
    then show ?thesis using Suc.prems by simp
  next
    case (skip c caps new d1)
    then show ?thesis using stays Suc.IH Suc.prems(4) by blast
  next
    case (promote c caps new cash)
    then show ?thesis using stays by blast
  qed
qed

text \<open>First come, first served.\<close>

lemma loop_fifo:
  assumes "promote_loop sha check n e now req d = Inr (res, d')" "wf_registrations (t_registrations d)"
    "ids_unused d"
  shows "case res of
      None \<Rightarrow> \<forall>x \<in> set (t_registrations d). waiting_for (te_id e) x \<longrightarrow> skipped check d d' x
    | Some r \<Rightarrow> (\<exists>c \<in> set (t_registrations d). waiting_for (te_id e) c \<and> rg_id r = rg_id c
        \<and> rg_user_id r = rg_user_id c \<and> r \<in> set (t_registrations d')
        \<and> rg_state r = (if te_method e = Free then Confirmed else CashPending) \<and> rg_seat_held r
        \<and> (\<exists>caps. check (rg_user_id c) d = Inr (caps, d) \<and> \<not> ineligible caps)
        \<and> (\<forall>x \<in> set (t_registrations d). waiting_for (te_id e) x \<longrightarrow>
             (waiting_key x < waiting_key c \<longrightarrow> skipped check d d' x)
             \<and> (waiting_key c < waiting_key x \<longrightarrow> x \<in> set (t_registrations d'))))"
  using assms
proof (induction n arbitrary: d)
  case 0
  then show ?case by (simp add: tx_raise_eq)
next
  case (Suc n)
  from Suc.prems(1) show ?case
  proof (cases rule: loop_cases)
    case empty
    then show ?thesis by simp
  next
    case (promote c caps new cash)
    note o = oldest_waitlisted_Some [OF promote(1)]
    from promote(5) obtain old where old: "rg_id old = rg_id c"
      "moved old (if te_method e = Free then Confirmed else CashPending) new d d'"
      by (cases rule: change_state_effect) (use Suc.prems(3) in blast)+
    then have m: "moved c (if te_method e = Free then Confirmed else CashPending) new d d'"
      using moved_candidate [OF old(2,1) o(2) Suc.prems(2)] by simp
    have "\<not> waiting_key x < waiting_key c" if "x \<in> set (t_registrations d)" "waiting_for (te_id e) x" for x
      using o(4) [OF that] by simp
    moreover have "x \<in> set (t_registrations d')"
      if "x \<in> set (t_registrations d)" "waiting_key c < waiting_key x" for x
      using moved_rows(1) [OF m Suc.prems(2) that(1)] that(2) by blast
    moreover have "rg_seat_held new" "rg_id new = rg_id c" "rg_user_id new = rg_user_id c"
      "rg_state new = (if te_method e = Free then Confirmed else CashPending)"
      using m by (auto simp: moved_def)
    ultimately show ?thesis
      using o(2,3) promote(2-4) moved_rows(3) [OF m Suc.prems(2)]
      by (auto intro!: bexI [of _ c])
  next
    case (skip c caps new d1)
    note o = oldest_waitlisted_Some [OF skip(1)]
    from skip(4) obtain old where old: "rg_id old = rg_id c" "moved old Cancelled new d d1" "ids_unused d1"
      by (cases rule: change_state_effect) (use Suc.prems(3) in blast)+
    then have m: "moved c Cancelled new d d1"
      using moved_candidate [OF old(2,1) o(2) Suc.prems(2)] by simp
    note rows = moved_rows [OF m Suc.prems(2)]
    have wf: "wf_registrations (t_registrations d1)" by (rule moved_inv(1) [OF m Suc.prems(2)])
    have frame: "member_frame d d1" by (rule tx_keepsD [OF change_state_member skip(4)])
    have new: "rg_state new = Cancelled" "rg_id new = rg_id c" using m by (auto simp: moved_def)
    have "new \<in> set (t_registrations d')"
      by (rule loop_others [OF skip(5) wf rows(3)]) (simp add: waiting_for_def new)
    then have c: "skipped check d d' c" using skip(2,3) new unfolding skipped_def by blast
    have later: "skipped check d d' x" if "skipped check d1 d' x" for x
      using that independent [OF frame] unfolding skipped_def by blast
    note IH = Suc.IH [OF skip(5) wf old(3)]
    show ?thesis
    proof (cases res)
      case None
      have "skipped check d d' x" if x: "x \<in> set (t_registrations d)" "waiting_for (te_id e) x" for x
        using IH None rows(1) [OF x(1)] c later x(2) by (cases "x = c") auto
      then show ?thesis using None by simp
    next
      case (Some r)
      from IH [unfolded Some option.case] obtain a where a: "a \<in> set (t_registrations d1)"
        "waiting_for (te_id e) a" "rg_id r = rg_id a \<and> rg_user_id r = rg_user_id a
           \<and> r \<in> set (t_registrations d') \<and> rg_state r = (if te_method e = Free then Confirmed else CashPending)
           \<and> rg_seat_held r"
        "\<exists>caps. check (rg_user_id a) d1 = Inr (caps, d1) \<and> \<not> ineligible caps"
        and b: "\<And>x. x \<in> set (t_registrations d1) \<Longrightarrow> waiting_for (te_id e) x \<Longrightarrow>
             (waiting_key x < waiting_key a \<longrightarrow> skipped check d1 d' x)
             \<and> (waiting_key a < waiting_key x \<longrightarrow> x \<in> set (t_registrations d'))" by blast
      have "a \<noteq> new" using a(2) new by (auto simp: waiting_for_def)
      then have "a \<in> set (t_registrations d)" using rows(2) [OF a(1)] by blast
      moreover have "(waiting_key x < waiting_key a \<longrightarrow> skipped check d d' x)
             \<and> (waiting_key a < waiting_key x \<longrightarrow> x \<in> set (t_registrations d'))"
        if x: "x \<in> set (t_registrations d)" "waiting_for (te_id e) x" for x
      proof (cases "x = c")
        case True
        then show ?thesis using c o(4) [OF \<open>a \<in> set (t_registrations d)\<close> a(2)] by auto
      next
        case False
        then show ?thesis using b [OF rows(1) [OF x(1)] x(2)] later by blast
      qed
      ultimately show ?thesis using a independent [OF frame] Some by auto
    qed
  qed
qed

end

end
