(* ===== verification/Tx_Errors.thy ===== *)
theory Tx_Errors
  imports Tx_Frame
begin

section \<open>Errors and readers\<close>

text \<open>
  Two more properties of transactions that compose along the combinators: \<open>tx_avoids e m\<close>, no run
  of \<open>m\<close> raises \<open>e\<close>; and \<open>tx_reader R m\<close>, a run of \<open>m\<close> changes nothing and gives the same answer
  in any two states related by \<open>R\<close>.
\<close>

subsection \<open>Errors a transaction cannot raise\<close>

definition tx_avoids :: "py_error \<Rightarrow> ('s, 'a) tx \<Rightarrow> bool" where
  "tx_avoids e m \<longleftrightarrow> (\<forall>s. m s \<noteq> Inl e)"

named_theorems avoids "steps that cannot raise the error"

lemma tx_avoidsD: "tx_avoids e m \<Longrightarrow> m s \<noteq> Inl e"
  by (simp add: tx_avoids_def)

lemma avoids_return [avoids]: "tx_avoids e (tx_return x)"
  by (simp add: tx_avoids_def tx_return_def)

lemma avoids_raise [avoids]: "e' \<noteq> e \<Longrightarrow> tx_avoids e (tx_raise e')"
  by (simp add: tx_avoids_def tx_raise_def)

lemma avoids_query [avoids]: "tx_avoids e (tx_query q)"
  by (simp add: tx_avoids_def tx_query_def)

lemma avoids_modify [avoids]: "tx_avoids e (tx_modify f)"
  by (simp add: tx_avoids_def tx_modify_def)

lemma avoids_lift [avoids]: "r \<noteq> Inl e \<Longrightarrow> tx_avoids e (tx_lift r)"
  by (auto simp: tx_avoids_def tx_lift_def split: sum.splits)

lemma avoids_guard [avoids]: "e' \<noteq> e \<Longrightarrow> tx_avoids e (tx_guard b e')"
  by (simp add: tx_avoids_def tx_guard_def tx_return_def tx_raise_def)

lemma avoids_bind [avoids]:
  "tx_avoids e m \<Longrightarrow> (\<And>x. tx_avoids e (f x)) \<Longrightarrow> tx_avoids e (tx_bind m f)"
  by (auto simp: tx_avoids_def tx_bind_Inl)

lemma avoids_cond [avoids]: "tx_avoids e m \<Longrightarrow> tx_avoids e n \<Longrightarrow> tx_avoids e (if b then m else n)"
  by simp

lemma avoids_case_option [avoids]:
  "tx_avoids e m \<Longrightarrow> (\<And>x. tx_avoids e (f x)) \<Longrightarrow> tx_avoids e (case v of None \<Rightarrow> m | Some x \<Rightarrow> f x)"
  by (cases v) auto

lemma avoids_bound [avoids]: "tx_avoids e (f v) \<Longrightarrow> tx_avoids e (let x = v in f x)"
  by simp

subsection \<open>Readers\<close>

definition tx_reader :: "('s \<Rightarrow> 's \<Rightarrow> bool) \<Rightarrow> ('s, 'a) tx \<Rightarrow> bool" where
  "tx_reader R m \<longleftrightarrow> (\<forall>s s'. R s s' \<longrightarrow> (case m s of
     Inl e \<Rightarrow> m s' = Inl e | Inr (x, t) \<Rightarrow> t = s \<and> m s' = Inr (x, s')))"

named_theorems readers "steps that only read"

lemma tx_readerD:
  assumes "tx_reader R m" "R s s'"
  shows "m s = Inl e \<Longrightarrow> m s' = Inl e" and "m s = Inr (x, t) \<Longrightarrow> t = s \<and> m s' = Inr (x, s')"
  using assms unfolding tx_reader_def by fastforce+

lemma reader_return [readers]: "tx_reader R (tx_return x)"
  by (simp add: tx_reader_def tx_return_def)

lemma reader_raise [readers]: "tx_reader R (tx_raise e)"
  by (simp add: tx_reader_def tx_raise_def)

lemma reader_query [readers]: "(\<And>s s'. R s s' \<Longrightarrow> q s' = q s) \<Longrightarrow> tx_reader R (tx_query q)"
  by (simp add: tx_reader_def tx_query_def)

lemma reader_lift [readers]: "tx_reader R (tx_lift r)"
  by (simp add: tx_reader_def tx_lift_def split: sum.split)

lemma reader_guard [readers]: "tx_reader R (tx_guard b e)"
  by (simp add: tx_reader_def tx_guard_def tx_return_def tx_raise_def)

lemma reader_bind [readers]:
  assumes "tx_reader R m" "\<And>x. tx_reader R (f x)"
  shows "tx_reader R (tx_bind m f)"
  unfolding tx_reader_def
proof (intro allI impI)
  fix s s' assume r: "R s s'"
  show "case tx_bind m f s of Inl e \<Rightarrow> tx_bind m f s' = Inl e
     | Inr (x, t) \<Rightarrow> t = s \<and> tx_bind m f s' = Inr (x, s')"
  proof (cases "m s")
    case (Inl e)
    then show ?thesis using tx_readerD(1) [OF assms(1) r] by (simp add: tx_bind_def)
  next
    case (Inr p)
    obtain x t where "p = (x, t)" by (cases p)
    moreover from this have "t = s \<and> m s' = Inr (x, s')" using Inr tx_readerD(2) [OF assms(1) r] by simp
    moreover have "tx_bind m f s = f x s" "tx_bind m f s' = f x s'"
      using calculation Inr by (simp_all add: tx_bind_def)
    ultimately show ?thesis using assms(2) [of x, unfolded tx_reader_def, rule_format, OF r]
      by (cases "f x s") auto
  qed
qed

lemma reader_cond [readers]: "tx_reader R m \<Longrightarrow> tx_reader R n \<Longrightarrow> tx_reader R (if b then m else n)"
  by simp

lemma reader_case_option [readers]:
  "tx_reader R m \<Longrightarrow> (\<And>x. tx_reader R (f x)) \<Longrightarrow> tx_reader R (case v of None \<Rightarrow> m | Some x \<Rightarrow> f x)"
  by (cases v) auto

lemma reader_bound [readers]: "tx_reader R (f v) \<Longrightarrow> tx_reader R (let x = v in f x)"
  by simp

end
