(* ===== verification/Waiting_List.thy ===== *)
theory Waiting_List
  imports Promotion_Laws Tx_Errors
begin

section \<open>Promotion and cancellation: the properties\<close>

subsection \<open>The loop ends\<close>

lemma fresh_uuid_avoids [avoids]: "tx_avoids OutOfFuel fresh_uuid"
  by (auto simp: tx_avoids_def fresh_uuid_def generate_uuid7_def Let_def
      split: prod.splits sum.splits if_splits)

lemma clock_avoids [avoids]: "tx_avoids OutOfFuel clock_timestamp"
  by (simp add: tx_avoids_def clock_timestamp_def)

lemma check_constraints_avoids [avoids]: "tx_avoids OutOfFuel (check_constraints cs)"
  by (auto simp: tx_avoids_def check_constraints_def tx_return_def tx_raise_def split: option.splits)

lemma insert_outbox_avoids [avoids]: "tx_avoids OutOfFuel (insert_outbox row)"
  unfolding insert_outbox_def by (intro avoids)

lemma insert_outbox_or_ignore_avoids [avoids]: "tx_avoids OutOfFuel (insert_outbox_or_ignore row)"
  unfolding insert_outbox_or_ignore_def by (intro avoids)

lemma audit_record_avoids [avoids]: "tx_avoids OutOfFuel (audit_record e)"
  unfolding audit_record_def create_audit_event_def
  by (intro avoids)
     (auto simp: validate_actor_def normalize_reason_def snapshot_metadata_def Let_def
       split: option.splits json.splits)

lemma transition_avoids [avoids]: "tx_avoids OutOfFuel (transition sha v)"
proof -
  have "normalize_command v \<noteq> Inl OutOfFuel"
    by (auto simp: normalize_command_def Let_def registration_instant_def to_utc_def
        split: option.splits sum.splits)
  moreover have "check_transition cx c \<noteq> Inl OutOfFuel" "mutation r c \<noteq> Inl OutOfFuel" for cx c r
    by (auto simp: check_transition_def mutation_def Let_def split: registration_state.splits)
  ultimately show ?thesis
    unfolding transition_def transition_with_def replay_with_def get_context_def get_transition_def
      apply_transition_def update_registration_def record_transition_def insert_transition_def
      enqueue_cash_expiry_def
    by (intro avoids) simp_all
qed

lemma change_state_avoids [avoids]: "tx_avoids OutOfFuel (change_state sha act r t a k reason now req cash)"
  unfolding change_state_def new_transition_command_def audit_transition_def by (intro avoids)

lemma oldest_waitlisted_avoids [avoids]: "tx_avoids OutOfFuel (oldest_waitlisted i)"
  unfolding oldest_waitlisted_def by (intro avoids)

locale returning_eligibility = promotion_eligibility check for check :: eligibility_check +
  assumes returns: "check u d \<noteq> Inl OutOfFuel"
begin

lemma check_avoids: "tx_avoids OutOfFuel (check u)"
  by (simp add: tx_avoids_def returns)

text \<open>Every round that goes on takes one registration off the waiting list.\<close>

lemma loop_returns:
  assumes "wf_registrations (t_registrations d)" "ids_unused d"
    "length (filter (waiting_for (te_id e)) (t_registrations d)) < n"
  shows "promote_loop sha check n e now req d \<noteq> Inl OutOfFuel"
  using assms
proof (induction n arbitrary: d)
  case 0
  then show ?case by simp
next
  case (Suc n)
  let ?target = "if te_method e = Free then Confirmed else CashPending"
  let ?skip = "\<lambda>c. change_state sha ''registration.promotion_skip'' c Cancelled None
     System ''promotion_ineligible'' now req None"
  have promote: "tx_avoids OutOfFuel (tx_bind (if ?target = CashPending
             then tx_bind (cash_deadline e now) (\<lambda>t. tx_return (Some t)) else tx_return None)
     (\<lambda>cash_expires_at. tx_bind (change_state sha ''registration.promote'' c ?target None
        System ''waitlist_promoted'' now req cash_expires_at) (\<lambda>r. tx_return (Some r))))" for c
    unfolding cash_deadline_def by (intro avoids) simp_all
  show ?case
  proof (cases "first_by (\<lambda>r. (rg_waitlist_sequence r, rg_id r)) (waiting_for (te_id e)) (t_registrations d)")
    case None
    then show ?thesis by (simp add: oldest_waitlisted_def tx_run)
  next
    case (Some c)
    then have c: "oldest_waitlisted (te_id e) d = Inr (Some c, d)"
      by (simp add: oldest_waitlisted_def tx_query_def)
    note o = oldest_waitlisted_Some [OF c]
    have skip: "tx_bind (?skip c) (\<lambda>_. promote_loop sha check n e now req) d \<noteq> Inl OutOfFuel"
    proof (cases "?skip c d")
      case (Inl x)
      then have "x \<noteq> OutOfFuel" using tx_avoidsD [OF change_state_avoids] by metis
      then show ?thesis using Inl by (simp add: tx_bind_def)
    next
      case (Inr q)
      then obtain new d1 where s: "?skip c d = Inr (new, d1)" by (cases q) simp
      then obtain old where old: "rg_id old = rg_id c" "moved old Cancelled new d d1" "ids_unused d1"
        by (cases rule: change_state_effect) (use Suc.prems(2) in blast)+
      then have m: "moved c Cancelled new d d1"
        using moved_candidate [OF old(2,1) o(2) Suc.prems(1)] by simp
      have "distinct (map rg_id (t_registrations d))" using Suc.prems(1) by (simp add: wf_registrations_def)
      moreover have "\<not> waiting_for (te_id e) new" using m by (simp add: moved_def waiting_for_def)
      ultimately have "length (filter (waiting_for (te_id e)) (t_registrations d1)) < n"
        using count_where_update_one [OF _ o(2), of rg_id "waiting_for (te_id e)" "\<lambda>_. new"]
          m o(3) Suc.prems(3) by (simp add: moved_def count_where_def)
      from Suc.IH [OF moved_inv(1) [OF m Suc.prems(1)] old(3) this] show ?thesis
        using s by (simp add: tx_bind_def)
    qed
    show ?thesis
    proof (cases "check (rg_user_id c) d")
      case (Inl x)
      then show ?thesis using c returns [of "rg_user_id c" d] by (simp add: tx_bind_def)
    next
      case (Inr q)
      then obtain caps where "check (rg_user_id c) d = Inr (caps, d)"
        using reads by (cases q) blast
      then show ?thesis using c skip tx_avoidsD [OF promote [of c], of d]
        by (simp add: tx_bind_def [of "oldest_waitlisted i" for i] tx_bind_def [of "check u" for u] Let_def)
    qed
  qed
qed

end

subsection \<open>The service's eligibility check provides the interface\<close>

lemma member_tables:
  assumes "member_frame d d'"
  shows "t_users d' = t_users d" "t_profiles d' = t_profiles d" "t_clubs d' = t_clubs d"
    "t_events d' = t_events d" "t_countries d' = t_countries d" "t_cities d' = t_cities d"
    "t_regional_policies d' = t_regional_policies d" "t_user_mfa_factors d' = t_user_mfa_factors d"
    "t_platform_settings d' = t_platform_settings d"
  using assms by (simp_all add: member_frame_def)

lemma resolve_profile_region_reader: "tx_reader member_frame (resolve_profile_region c s)"
  unfolding resolve_profile_region_def read_region_snapshot_def
  by (intro readers) (simp add: member_tables cong: option.case_cong)

lemma member_reads:
  assumes "member_frame d d'"
  shows "profile_from_row d' = profile_from_row d" "active_mfa d' = active_mfa d"
  by (intro ext, simp add: profile_from_row_def active_mfa_def member_tables [OF assms])+

lemma evaluate_reader [readers]: "tx_reader member_frame (evaluate cfg p)"
proof -
  have "tx_reader member_frame (get_eligibility_state u)" for u
    unfolding get_eligibility_state_def
    by (intro readers) (simp add: member_tables member_reads)
  moreover have "tx_reader member_frame (current_region s)" for s
  proof -
    have "(case resolve_profile_region c x d' of Inl _ \<Rightarrow> None | Inr (r, _) \<Rightarrow> f r)
        = (case resolve_profile_region c x d of Inl _ \<Rightarrow> None | Inr (r, _) \<Rightarrow> f r)"
      if "member_frame d d'" for c x d d' and f :: "profile_region \<Rightarrow> profile_region option"
      using tx_readerD [OF resolve_profile_region_reader that, of c x]
      by (cases "resolve_profile_region c x d") auto
    then show ?thesis unfolding current_region_def by (intro readers) simp
  qed
  moreover have "tx_reader member_frame (independent_creation_enabled cfg)"
    unfolding independent_creation_enabled_def flag_enabled_def get_flag_def
    by (intro readers) (simp add: member_tables)
  ultimately show ?thesis unfolding evaluate_def by (intro readers)
qed

lemma evaluate_user_reader: "tx_reader member_frame (evaluate_user cfg u)"
  unfolding evaluate_user_def lock_registration_subject_def
  by (intro readers) (simp add: member_tables)

lemma evaluate_user_avoids: "tx_avoids OutOfFuel (evaluate_user cfg u)"
  unfolding evaluate_user_def lock_registration_subject_def evaluate_def get_eligibility_state_def
    current_region_def independent_creation_enabled_def flag_enabled_def get_flag_def
  by (intro avoids) (simp_all add: authentication_required_def)

interpretation members: returning_eligibility "evaluate_user cfg" for cfg
proof
  fix u c d d' assume "evaluate_user cfg u d = Inr (c, d')"
  then show "d' = d" by (rule evaluate_user_reads)
next
  fix d d' u c assume r: "member_frame d d'"
  note reader = tx_readerD [OF evaluate_user_reader r, of cfg u]
  show "evaluate_user cfg u d' = Inr (c, d') \<longleftrightarrow> evaluate_user cfg u d = Inr (c, d)"
  proof (cases "evaluate_user cfg u d")
    case (Inl e)
    then show ?thesis using reader(1) by simp
  next
    case (Inr p)
    then show ?thesis using reader(2) [of "fst p" "snd p"] by (cases p) auto
  qed
next
  fix u d show "evaluate_user cfg u d \<noteq> Inl OutOfFuel"
    using evaluate_user_avoids by (simp add: tx_avoids_def)
qed

subsection \<open>Promotion\<close>

lemma cancellation_terms_Inr:
  assumes "get_cancellation_terms i d = Inr (e, d')"
  shows "d' = d" and "te_id e = i"
    and "\<exists>row. event_of d i = Some row \<and> ev_status row = EvPublished
      \<and> ev_start_at row = Some (te_start_at e) \<and> te_capacity e = ev_capacity row
      \<and> ev_registration_method row = Some (te_method e)
      \<and> ev_cancellation_cutoff_minutes row = Some (te_cancellation_cutoff_minutes e)"
proof -
  obtain found d0 where "get_event i d = Inr (found, d0)"
    and rest: "(case found of None \<Rightarrow> tx_raise not_found | Some e \<Rightarrow>
         tx_bind (tx_guard (ev_status e = EvPublished) not_found) (\<lambda>_.
         case (ev_start_at e, ev_registration_method e, ev_cancellation_cutoff_minutes e) of
           (Some start_at, Some method, Some cutoff) \<Rightarrow> tx_return \<lparr>te_id = ev_id e,
              te_start_at = start_at, te_capacity = ev_capacity e, te_method = method,
              te_cash_expiry_minutes = ev_cash_expiry_minutes e,
              te_cancellation_cutoff_minutes = cutoff\<rparr>
         | _ \<Rightarrow> tx_raise not_found)) d0 = Inr (e, d')"
    using assms unfolding get_cancellation_terms_def by (rule tx_bindE)
  then have found: "d0 = d" "found = map_option (event_of_row d) (event_of d i)"
    by (simp_all add: get_event_eq event_of_def)
  obtain row where row: "event_of d i = Some row"
    using rest found by (cases "event_of d i") (auto simp: tx_raise_eq)
  have id: "ev_id row = i" using row by (auto simp: event_of_def dest: one_or_none_Some)
  have "d' = d \<and> te_id e = i \<and> ev_status row = EvPublished
      \<and> ev_start_at row = Some (te_start_at e) \<and> te_capacity e = ev_capacity row
      \<and> ev_registration_method row = Some (te_method e)
      \<and> ev_cancellation_cutoff_minutes row = Some (te_cancellation_cutoff_minutes e)"
    using rest unfolding found row
    by (cases "ev_start_at row"; cases "ev_registration_method row"; cases "ev_cancellation_cutoff_minutes row")
       (simp_all add: tx_bind_eq tx_guard_eq tx_raise_eq tx_return_eq id)
  then show "d' = d" "te_id e = i" "\<exists>row. event_of d i = Some row \<and> ev_status row = EvPublished
      \<and> ev_start_at row = Some (te_start_at e) \<and> te_capacity e = ev_capacity row
      \<and> ev_registration_method row = Some (te_method e)
      \<and> ev_cancellation_cutoff_minutes row = Some (te_cancellation_cutoff_minutes e)"
    using row by auto
qed

lemma promote_next_cases:
  assumes "promote_next sha check i now req d = Inr (res, d')"
  obtains (unchanged) t e s where "res = None" "d' = d" "utc_instant now = Some t" "event_of d i = Some e"
      "ev_status e = EvPublished" "ev_start_at e = Some s"
      "s \<le> t \<or> (\<exists>c. ev_capacity e = Some c \<and> c \<le> held_seats i (t_registrations d))"
  | (loop) t e row where "utc_instant now = Some t" "event_of d i = Some row" "ev_status row = EvPublished"
      "te_id e = i" "te_capacity e = ev_capacity row" "ev_registration_method row = Some (te_method e)"
      "t < te_start_at e" "\<forall>c. ev_capacity row = Some c \<longrightarrow> held_seats i (t_registrations d) < c"
      "promote_loop sha check (Suc (length (filter (waiting_for i) (t_registrations d)))) e t req d
         = Inr (res, d')" "ev_start_at row = Some (te_start_at e)"
proof -
  obtain t e d1 where t: "utc_instant now = Some t"
    and e: "get_cancellation_terms i d = Inr (e, d1)"
    and rest: "(if te_start_at e \<le> t then tx_return None
     else
       tx_bind (held_seat_count (te_id e)) (\<lambda>held.
       if (case te_capacity e of None \<Rightarrow> False | Some c \<Rightarrow> c \<le> held) then tx_return None
       else
         tx_bind (tx_query (\<lambda>d. length (filter (waiting_for (te_id e)) (t_registrations d)))) (\<lambda>waiting.
         promote_loop sha check (Suc waiting) e t req))) d1 = Inr (res, d')"
    using assms unfolding promote_next_def
    by (elim tx_bindE) (simp add: tx_lift_eq registration_instant_def)
  note c = cancellation_terms_Inr [OF e]
  obtain row where row: "event_of d i = Some row" "ev_status row = EvPublished"
    "te_capacity e = ev_capacity row" "ev_registration_method row = Some (te_method e)"
    "ev_start_at row = Some (te_start_at e)" using c(3) by blast
  show ?thesis
  proof (cases "te_start_at e \<le> t \<or> (case te_capacity e of None \<Rightarrow> False
      | Some c \<Rightarrow> c \<le> held_seats i (t_registrations d))")
    case True
    then have "res = None \<and> d' = d" using rest c(1,2)
      by (auto simp: held_seat_count_def tx_bind_def tx_query_def tx_return_def split: if_splits)
    then show ?thesis using unchanged [OF _ _ t row(1,2,5)] True row(3) by (auto split: option.splits)
  next
    case False
    then show ?thesis using rest c(1,2) loop [OF t row(1,2) c(2) row(3,4)] row(3,5)
      by (auto simp: held_seat_count_def tx_bind_def tx_query_def split: option.splits)
  qed
qed

lemma promote_next_keeps:
  assumes "promote_next sha (evaluate_user cfg) i now req d = Inr (res, d')"
  shows "member_frame d d'"
    and "registrations_inv d \<Longrightarrow> registrations_inv d'"
    and "wf_registrations (t_registrations d) \<Longrightarrow>
      held_seats k (t_registrations d) \<le> held_seats k (t_registrations d')
      \<and> held_seats k (t_registrations d') \<le> held_seats k (t_registrations d) + (if k = i then 1 else 0)"
    and "wf_registrations (t_registrations d) \<Longrightarrow> x \<in> set (t_registrations d) \<Longrightarrow> \<not> waiting_for i x
      \<Longrightarrow> x \<in> set (t_registrations d')"
proof -
  from assms have "member_frame d d' \<and> (registrations_inv d \<longrightarrow> registrations_inv d')
    \<and> (wf_registrations (t_registrations d) \<longrightarrow>
      held_seats k (t_registrations d) \<le> held_seats k (t_registrations d')
      \<and> held_seats k (t_registrations d') \<le> held_seats k (t_registrations d) + (if k = i then 1 else 0))
    \<and> (wf_registrations (t_registrations d) \<and> x \<in> set (t_registrations d) \<and> \<not> waiting_for i x
      \<longrightarrow> x \<in> set (t_registrations d'))"
  proof (cases rule: promote_next_cases)
    case unchanged
    then show ?thesis by (simp add: member.refl)
  next
    case (loop t e row)
    note k = members.loop_keeps [OF loop(9)] and f = members.loop_member [OF loop(9)]
      and o = members.loop_others [OF loop(9)]
    have "registrations_inv d'" if inv: "registrations_inv d"
    proof -
      have wf: "wf_registrations (t_registrations d)" using inv by (simp add: registrations_inv_def)
      have "held_seats j (t_registrations d') \<le> c"
        if "event_of d' j = Some ev" "ev_capacity ev = Some c" for j ev c
      proof -
        have ev: "event_of d j = Some ev" using that(1) member_frameD(1) [OF f] by (simp add: event_of_def)
        then have "held_seats j (t_registrations d) \<le> c"
          using inv that(2) by (auto simp: registrations_inv_def seats_ok_def)
        moreover have "j = i \<Longrightarrow> held_seats j (t_registrations d) < c" using ev loop(2,8) that(2) by auto
        ultimately show ?thesis using k [OF wf, of j] loop(4) by (auto split: if_splits)
      qed
      then show ?thesis using k [OF wf] by (simp add: registrations_inv_def seats_ok_def)
    qed
    then show ?thesis using f k [where i = k] o [where x = x] loop(4) by auto
  qed
  then show "member_frame d d'" "registrations_inv d \<Longrightarrow> registrations_inv d'"
    "wf_registrations (t_registrations d) \<Longrightarrow>
      held_seats k (t_registrations d) \<le> held_seats k (t_registrations d')
      \<and> held_seats k (t_registrations d') \<le> held_seats k (t_registrations d) + (if k = i then 1 else 0)"
    "wf_registrations (t_registrations d) \<Longrightarrow> x \<in> set (t_registrations d) \<Longrightarrow> \<not> waiting_for i x
      \<Longrightarrow> x \<in> set (t_registrations d')" by blast+
qed

text \<open>The three outcomes: promotion does not apply, nobody may register, or the first who may is seated.\<close>

lemma promote_next_outcome:
  assumes "promote_next sha (evaluate_user cfg) i now req d = Inr (res, d')"
    and "wf_registrations (t_registrations d)" and "ids_unused d"
  obtains (idle) t e s where "utc_instant now = Some t" "event_of d i = Some e" "ev_status e = EvPublished"
      "ev_start_at e = Some s" "res = None" "d' = d"
      "s \<le> t \<or> (\<exists>k. ev_capacity e = Some k \<and> k \<le> held_seats i (t_registrations d))"
  | (nobody) t e s where "utc_instant now = Some t" "event_of d i = Some e" "ev_status e = EvPublished"
      "ev_start_at e = Some s" "res = None" "t < s"
      "\<forall>k. ev_capacity e = Some k \<longrightarrow> held_seats i (t_registrations d) < k"
      "all_skipped (evaluate_user cfg) i d d'"
  | (seated) t e s r c where "utc_instant now = Some t" "event_of d i = Some e" "ev_status e = EvPublished"
      "ev_start_at e = Some s" "res = Some r" "t < s"
      "\<forall>k. ev_capacity e = Some k \<longrightarrow> held_seats i (t_registrations d) < k"
      "seated_first (evaluate_user cfg) i d d' c" "rg_id r = rg_id c" "r \<in> set (t_registrations d')"
      "rg_seat_held r" "rg_state r = (if ev_registration_method e = Some Free then Confirmed else CashPending)"
  using assms(1)
proof (cases rule: promote_next_cases)
  case (unchanged t e s)
  then show ?thesis using idle by blast
next
  case (loop t e row)
  note fifo = members.loop_fifo [OF loop(9) assms(2,3), unfolded loop(4)]
  show ?thesis
  proof (cases res)
    case None
    then have "all_skipped (evaluate_user cfg) i d d'" using fifo by (simp add: all_skipped_def)
    then show ?thesis using nobody [OF loop(1,2,3,10) None loop(7,8)] by blast
  next
    case (Some r)
    from fifo [unfolded Some option.case] obtain c where
      c: "c \<in> set (t_registrations d)" "waiting_for i c" "rg_id r = rg_id c" "r \<in> set (t_registrations d')"
        "rg_seat_held r" "rg_state r = (if te_method e = Free then Confirmed else CashPending)"
      and el: "\<exists>caps. evaluate_user cfg (rg_user_id c) d = Inr (caps, d) \<and> \<not> ineligible caps"
      and order: "\<forall>x \<in> set (t_registrations d). waiting_for i x \<longrightarrow>
             (waiting_key x < waiting_key c \<longrightarrow> skipped (evaluate_user cfg) d d' x)
             \<and> (waiting_key c < waiting_key x \<longrightarrow> x \<in> set (t_registrations d'))" by blast
    have "\<exists>caps. evaluate_user cfg (rg_user_id c) d = Inr (Some caps, d) \<and> cp_register_event caps"
      using el by (auto simp: ineligible_def split: option.splits)
    then have "seated_first (evaluate_user cfg) i d d' c"
      unfolding seated_first_def using c order by blast
    then show ?thesis using seated [OF loop(1,2,3,10) Some loop(7,8) _ c(3,4,5)] c(6) loop(6) by simp
  qed
qed

lemma promote_next_seats:
  assumes "promote_next sha (evaluate_user cfg) i now req d = Inr (res, d')"
    and "wf_registrations (t_registrations d)" and "ids_unused d"
  shows "held_seats k (t_registrations d') = held_seats k (t_registrations d)
    + (if k = i \<and> res \<noteq> None then 1 else 0)"
  using assms(1)
proof (cases rule: promote_next_cases)
  case unchanged
  then show ?thesis by simp
next
  case (loop t e row)
  then show ?thesis using members.loop_seats [OF loop(9) assms(2,3), of k] by simp
qed

text \<open>
  A seat is handed on after the registration \<open>r\<close> gave it up: what promotion did then, told of the
  state before, since the waiting members and their accounts were the same.
\<close>

lemma outcome_before:
  assumes m: "moved r target new d d1" and wf: "wf_registrations (t_registrations d)"
    and "member_frame d d1" and "\<not> waiting_for i r" and "target \<noteq> Waitlisted"
  shows "seated_first (evaluate_user cfg) i d1 d' c \<Longrightarrow> seated_first (evaluate_user cfg) i d d' c"
    and "all_skipped (evaluate_user cfg) i d1 d' \<Longrightarrow> all_skipped (evaluate_user cfg) i d d'"
proof -
  have "\<not> waiting_for i new" using m assms(5) by (auto simp: moved_def waiting_for_def)
  then have w: "x \<in> set (t_registrations d1) \<and> waiting_for i x \<longleftrightarrow> x \<in> set (t_registrations d) \<and> waiting_for i x" for x
    using moved_rows(1,2) [OF m wf, of x] assms(4) by blast
  have e: "evaluate_user cfg u d1 = Inr (q, d1) \<longleftrightarrow> evaluate_user cfg u d = Inr (q, d)" for u q
    by (rule members.independent [OF assms(3)])
  have k: "skipped (evaluate_user cfg) d1 d' x \<longleftrightarrow> skipped (evaluate_user cfg) d d' x" for x
    by (simp add: skipped_def e)
  show "seated_first (evaluate_user cfg) i d d' c" if "seated_first (evaluate_user cfg) i d1 d' c"
    using that unfolding seated_first_def e k using w by blast
  show "all_skipped (evaluate_user cfg) i d d'" if "all_skipped (evaluate_user cfg) i d1 d'"
    using that unfolding all_skipped_def k using w by blast
qed

text \<open>
  C12. First come, first served: promotion gives the free seat of a published event that has not
  begun to the waiting member with the smallest sequence number whose account may register now;
  those before are cancelled as ineligible and those behind keep their place. It promotes nobody
  only when the event has begun or has no free seat, and then nothing changes, or when nobody who
  waited may register. Registrations that were not waiting for this event stay as they are.
\<close>

theorem promotion_is_first_come_first_served:
  assumes "promote_next sha (evaluate_user cfg) i now req d = Inr (res, d')"
    and "wf_registrations (t_registrations d)" and "ids_unused d"
  shows "(\<exists>e s t. event_of d i = Some e \<and> ev_status e = EvPublished \<and> ev_start_at e = Some s
      \<and> utc_instant now = Some t
      \<and> (case res of
          None \<Rightarrow> d' = d \<and> (s \<le> t \<or> (\<exists>k. ev_capacity e = Some k \<and> k \<le> held_seats i (t_registrations d)))
            \<or> t < s \<and> (\<forall>k. ev_capacity e = Some k \<longrightarrow> held_seats i (t_registrations d) < k)
              \<and> all_skipped (evaluate_user cfg) i d d'
        | Some r \<Rightarrow> t < s \<and> (\<forall>k. ev_capacity e = Some k \<longrightarrow> held_seats i (t_registrations d) < k)
            \<and> (\<exists>c. seated_first (evaluate_user cfg) i d d' c \<and> rg_id r = rg_id c)
            \<and> r \<in> set (t_registrations d') \<and> rg_seat_held r
            \<and> rg_state r = (if ev_registration_method e = Some Free then Confirmed else CashPending)))
    \<and> (\<forall>x \<in> set (t_registrations d). \<not> waiting_for i x \<longrightarrow> x \<in> set (t_registrations d'))"
  using assms
proof (cases rule: promote_next_outcome)
  case (idle t e s)
  then show ?thesis by auto
next
  case (nobody t e s)
  then show ?thesis using promote_next_keeps(4) [OF assms(1,2)] by auto
next
  case (seated t e s r c)
  have "\<forall>x \<in> set (t_registrations d). \<not> waiting_for i x \<longrightarrow> x \<in> set (t_registrations d')"
    using promote_next_keeps(4) [OF assms(1,2)] by blast
  then show ?thesis unfolding seated(5) option.case using seated by blast
qed

text \<open>
  C20. Promotion returns: the loop never runs for longer than the waiting list is long, so the
  fuel of the model is never used up.
\<close>

theorem promotion_terminates:
  assumes "wf_registrations (t_registrations d)" and "ids_unused d"
  shows "promote_next sha (evaluate_user cfg) i now req d \<noteq> Inl OutOfFuel"
proof (cases "tx_bind (tx_lift (registration_instant ''promotion_time'' now)) (\<lambda>current.
     tx_bind (get_cancellation_terms i) (\<lambda>e. tx_return (current, e))) d")
  case (Inl x)
  have "tx_avoids OutOfFuel (tx_lift (registration_instant ''promotion_time'' now))"
    "tx_avoids OutOfFuel (get_cancellation_terms i)"
    unfolding get_cancellation_terms_def get_event_def registration_instant_def
    by (intro avoids | auto simp: to_utc_def not_found_def split: option.split intro!: avoids)+
  then show ?thesis using Inl unfolding promote_next_def tx_avoids_def
    by (auto simp: tx_bind_def tx_return_def split: sum.splits)
next
  case (Inr p)
  then obtain t e d1 where "tx_lift (registration_instant ''promotion_time'' now) d = Inr (t, d)"
    and e: "get_cancellation_terms i d = Inr (e, d1)" by (auto simp: tx_simps)
  note c = cancellation_terms_Inr [OF e]
  have "promote_loop sha (evaluate_user cfg) (Suc (length (filter (waiting_for (te_id e)) (t_registrations d))))
      e t req d \<noteq> Inl OutOfFuel"
    by (rule members.loop_returns [OF assms]) simp
  then show ?thesis using \<open>tx_lift _ d = _\<close> e c(1,2)
    by (simp add: promote_next_def tx_bind_def held_seat_count_def tx_query_def tx_return_def)
qed

subsection \<open>An example: a free seat and two members waiting\<close>

lemma example_uuid_at:
  assumes "uuid_at example_db n = Some u"
  shows "n < 100" "generate_uuid7 0 0 (of_nat (n + 100)) = Inr u"
  using assms
  by (auto simp: uuid_at_def example_db_def empty_db_def example_entropy_def generate_uuid7_def Let_def
      split: if_splits sum.splits)

lemma example_ids_unused:
  assumes "entropy_at d = entropy_at example_db" "t_registration_transitions d = []"
  shows "ids_unused d"
proof -
  have "n = m" if "uuid_at example_db n = Some u" "uuid_at example_db m = Some u" for n m u
  proof -
    note n = example_uuid_at [OF that(1)] and m = example_uuid_at [OF that(2)]
    have "(of_nat (n + 100) :: 62 word) = of_nat (m + 100)" by (rule generated_low_bits [OF n(2) m(2)])
    then have "unat (of_nat (n + 100) :: 62 word) = unat (of_nat (m + 100) :: 62 word)" by simp
    then show "n = m" using n(1) m(1) by (simp only: unat_of_nat) simp
  qed
  then show ?thesis using assms(2) unfolding ids_unused_def uuid_at_cong [OF assms(1)] by auto
qed

definition example_open_db :: db where
  "example_open_db = example_db\<lparr>t_registrations := [example_registration 50 2 Cancelled,
     example_registration 51 3 Waitlisted, example_registration 52 4 Waitlisted],
     t_users := [example_user 1, example_user 2, (example_user 3)\<lparr>us_status := UserSuspended\<rparr>,
       example_user 4, example_user 5]\<rparr>"

lemma example_open_ok:
  "wf_registrations (t_registrations example_open_db)" "ids_unused example_open_db"
proof -
  show "wf_registrations (t_registrations example_open_db)" by code_simp
  show "ids_unused example_open_db"
    by (rule example_ids_unused) (simp_all add: example_open_db_def example_db_def empty_db_def)
qed

lemma example_promotion:
  obtains r d' where "promote_next example_sha (evaluate_user example_rules) (example_id 20)
      (Aware 10 0) None example_open_db = Inr (Some r, d')" "rg_user_id r = example_id 4"
    "\<exists>x \<in> set (t_registrations d'). rg_event_id x = example_id 20 \<and> rg_seat_held x \<and> rg_id x = example_id 52"
proof -
  have "commits (promote_next example_sha (evaluate_user example_rules) (example_id 20)
      (Aware 10 0) None example_open_db)
    (\<lambda>res d. (case res of None \<Rightarrow> False | Some r \<Rightarrow> rg_user_id r = example_id 4)
      \<and> list_ex (\<lambda>x. rg_event_id x = example_id 20 \<and> rg_seat_held x \<and> rg_id x = example_id 52)
          (t_registrations d))" by code_simp
  then show ?thesis using that by (elim commitsE) (auto simp: list_ex_iff split: option.splits)
qed

theorem promotion_is_first_come_first_served_witness:
  "\<exists>r d' c. promote_next example_sha (evaluate_user example_rules) (example_id 20)
      (Aware 10 0) None example_open_db = Inr (Some r, d') \<and> rg_id r = rg_id c
    \<and> seated_first (evaluate_user example_rules) (example_id 20) example_open_db d' c \<and> rg_seat_held r"
proof -
  obtain r d' where p: "promote_next example_sha (evaluate_user example_rules) (example_id 20)
      (Aware 10 0) None example_open_db = Inr (Some r, d')" by (rule example_promotion)
  from promotion_is_first_come_first_served [OF p example_open_ok] p show ?thesis by auto
qed

theorem promotion_terminates_witness:
  "promote_next example_sha (evaluate_user example_rules) (example_id 20) (Aware 10 0) None example_open_db
    \<noteq> Inl OutOfFuel"
  by (rule promotion_terminates [OF example_open_ok])

end
