(* ===== verification/Attendee_Services.thy ===== *)
theory Attendee_Services
  imports Waiting_List
begin

section \<open>Cancelling, confirming cash, attendee operations\<close>

text \<open>
  \<open>CashConfirmationService\<close> and \<open>AttendeeService\<close> of registrations/service.py, and the properties
  of \<open>RegistrationCancellationService\<close>. Names are compared in ASCII, where \<open>casefold\<close> is
  \<open>lower\<close>.
\<close>

definition confirm_cash ::
  "(string \<Rightarrow> string) \<Rightarrow> 'z subject_scheme \<Rightarrow> uuid \<Rightarrow> uuid \<Rightarrow> uuid \<Rightarrow> datetime \<Rightarrow> registration txn" where
  "confirm_cash sha256 p event_id registration_id request_id now =
     tx_bind (tx_lift (registration_instant ''confirmation_time'' now)) (\<lambda>current.
     tx_bind (require_manager p event_id) (\<lambda>_.
     tx_bind (get_for_event event_id registration_id) (\<lambda>found. case found of
       None \<Rightarrow> tx_raise not_found
     | Some r \<Rightarrow>
         tx_bind (tx_guard (rg_method r = CashOrganizerConfirmed) (conflict ''conflict'')) (\<lambda>_.
         if rg_state r = Confirmed then tx_return r
         else
           tx_bind (tx_guard (rg_state r = CashPending) (conflict ''conflict'')) (\<lambda>_.
           tx_bind (tx_guard (case rg_cash_expires_at r of None \<Rightarrow> False | Some t \<Rightarrow> current < t)
             (ApiError ''cash_confirmation_expired'' ''errors.cash_confirmation_expired'' 409)) (\<lambda>_.
           change_state sha256 ''registration.cash_confirm'' r Confirmed (Some (sb_user_id p))
             Organizer ''cash_confirmed'' current (Some request_id) None))))))"

definition normalize_attendee_search :: "string option \<Rightarrow> string option" where
  "normalize_attendee_search search = (case search of
     None \<Rightarrow> None
   | Some s \<Rightarrow> let normalized = py_lower (py_strip s) in if normalized = [] then None else Some normalized)"

definition attendees ::
  "'z subject_scheme \<Rightarrow> uuid \<Rightarrow> registration_state option \<Rightarrow> string option \<Rightarrow> int \<Rightarrow> instant option
     \<Rightarrow> uuid option \<Rightarrow> attendee list txn" where
  "attendees p event_id state search limit after_created_at after_id =
     tx_bind (require_manager p event_id) (\<lambda>_.
     list_attendees event_id state (normalize_attendee_search search) limit after_created_at after_id)"

definition request_export ::
  "'z subject_scheme \<Rightarrow> uuid \<Rightarrow> uuid \<Rightarrow> registration_state option \<Rightarrow> string option \<Rightarrow> uuid \<Rightarrow> datetime
     \<Rightarrow> unit txn" where
  "request_export p event_id export_request_id state search request_id now =
     tx_bind (tx_lift (registration_instant ''export_request_time'' now)) (\<lambda>current.
     tx_bind (require_manager p event_id) (\<lambda>_.
     tx_bind (enqueue_attendee_export event_id export_request_id state
       (normalize_attendee_search search) current) (\<lambda>_.
     tx_bind (audit_record \<lparr>ae_actor_user_id = Some (sb_user_id p), ae_actor_kind = Organizer,
       ae_action = ''attendees.export_request'', ae_target_type = ''event'',
       ae_target_id = Some event_id, ae_reason = Some ''attendee_operations'', ae_safe_before = None,
       ae_safe_after = Some (JObj [(''request_id'', JStr (uuid_str export_request_id)),
         (''state'', json_optional state_name state)]),
       ae_request_id = Some request_id\<rparr>) (\<lambda>_.
     tx_return ()))))"

definition summarize_attendees :: "'z subject_scheme \<Rightarrow> uuid \<Rightarrow> attendee_summary txn" where
  "summarize_attendees p event_id =
     tx_bind (require_manager p event_id) (\<lambda>_. read_attendee_summary event_id)"

subsection \<open>Cancelling\<close>

lemma cancel_cases:
  assumes "cancel_registration sha check p i rid now d = Inr (new, d')"
  obtains t e row r d1 where "utc_instant now = Some t" "event_of d i = Some row"
    "ev_status row = EvPublished" "ev_start_at row = Some (te_start_at (e :: cancellation_terms))"
    "ev_cancellation_cutoff_minutes row = Some (te_cancellation_cutoff_minutes e)"
    "t < te_start_at e - minutes (te_cancellation_cutoff_minutes e)"
    "r \<in> set (t_registrations d)" "rg_event_id r = i" "rg_user_id r = sb_user_id p"
    "active_state (rg_state r)"
    "change_state sha ''registration.cancel'' r Cancelled (Some (sb_user_id p))
       Member ''member_cancelled'' t (Some rid) None d = Inr (new, d1)"
    "if rg_seat_held r then \<exists>res. promote_next sha check i (Aware t 0) (Some rid) d1 = Inr (res, d')
     else d' = d1"
proof -
  obtain t e d1 found where t: "utc_instant now = Some t"
    and e: "get_cancellation_terms i d = Inr (e, d1)"
    and cut: "t < te_start_at e - minutes (te_cancellation_cutoff_minutes e)"
    and found: "found = one_or_none (\<lambda>r. rg_event_id r = te_id e \<and> rg_user_id r = sb_user_id p
        \<and> active_state (rg_state r)) (t_registrations d1)"
    and rest: "(case found of
       None \<Rightarrow> tx_raise not_found
     | Some r \<Rightarrow>
         tx_bind (change_state sha ''registration.cancel'' r Cancelled (Some (sb_user_id p))
           Member ''member_cancelled'' t (Some rid) None) (\<lambda>cancelled.
         tx_bind (if rg_seat_held r
           then tx_bind (promote_next sha check (te_id e) (Aware t 0) (Some rid)) (\<lambda>_. tx_return ())
           else tx_return ()) (\<lambda>_.
         tx_return cancelled))) d1 = Inr (new, d')"
    using assms unfolding cancel_registration_def Let_def
    by (elim tx_bindE) (simp add: tx_lift_eq registration_instant_def tx_guard_eq get_active_def tx_query_eq)
  note c = cancellation_terms_Inr [OF e]
  obtain row where row: "event_of d i = Some row" "ev_status row = EvPublished"
    "ev_start_at row = Some (te_start_at e)"
    "ev_cancellation_cutoff_minutes row = Some (te_cancellation_cutoff_minutes e)" using c(3) by blast
  obtain r where r: "found = Some r" using rest by (cases found) (auto simp: tx_raise_eq)
  from one_or_none_Some [OF found [unfolded r c(1,2), symmetric]]
  have rr: "r \<in> set (t_registrations d)" "rg_event_id r = i" "rg_user_id r = sb_user_id p"
    "active_state (rg_state r)" by auto
  obtain d2 where s: "change_state sha ''registration.cancel'' r Cancelled (Some (sb_user_id p))
       Member ''member_cancelled'' t (Some rid) None d = Inr (new, d2)"
    and p: "(if rg_seat_held r
       then tx_bind (promote_next sha check i (Aware t 0) (Some rid)) (\<lambda>_. tx_return ())
       else tx_return ()) d2 = Inr ((), d')"
    using rest unfolding r c(1,2) by (auto simp: tx_bind_eq tx_return_eq)
  show ?thesis
    by (rule that [OF t row cut rr s])
       (use p in \<open>auto simp: tx_bind_eq tx_return_eq\<close>)
qed

lemma cancel_keeps_inv:
  assumes c: "cancel_registration sha (evaluate_user cfg) p i rid now d = Inr (new, d')"
    and inv: "registrations_inv d"
  shows "registrations_inv d'" "member_frame d d'"
proof -
  from c obtain t e row r d1 where r: "r \<in> set (t_registrations d)"
    and s: "change_state sha ''registration.cancel'' r Cancelled (Some (sb_user_id p))
       Member ''member_cancelled'' t (Some rid) None d = Inr (new, d1)"
    and promote: "if rg_seat_held r
        then \<exists>res. promote_next sha (evaluate_user cfg) i (Aware t 0) (Some rid) d1 = Inr (res, d')
        else d' = d1" by (rule cancel_cases)
  have frame: "member_frame d d1" by (rule tx_keepsD [OF change_state_member s])
  have inv1: "registrations_inv d1"
    by (rule change_state_keeps_inv [OF s r inv]) simp
  show "registrations_inv d'" "member_frame d d'"
    using promote inv1 frame promote_next_keeps(1,2) member.trans by (metis (full_types))+
qed

text \<open>
  C21. Cancelling: only before the cutoff of the published event, and only the caller's own active
  registration, which ends cancelled without a seat. The seat it held is handed on at once to the
  first waiting member who may register, so that as many seats are held as before; it stays free
  only when nobody who waited may register, when the event held more seats than its capacity, or
  when it has begun (with a cutoff after the start). A registration without a seat is cancelled
  without touching any other.
\<close>

theorem cancellation_gives_the_seat_on:
  assumes c: "cancel_registration sha (evaluate_user cfg) p i rid now d = Inr (new, d')"
    and wf: "wf_registrations (t_registrations d)" and ids: "ids_unused d"
  shows "(\<exists>e s k t. event_of d i = Some e \<and> ev_status e = EvPublished \<and> ev_start_at e = Some s
      \<and> ev_cancellation_cutoff_minutes e = Some k \<and> utc_instant now = Some t \<and> t < s - minutes k
      \<and> (\<exists>r \<in> set (t_registrations d). rg_id r = rg_id new \<and> rg_event_id r = i
        \<and> rg_user_id r = sb_user_id p \<and> active_state (rg_state r)
        \<and> (if rg_seat_held r
           then held_seats i (t_registrations d') = held_seats i (t_registrations d)
               \<and> (\<exists>c. seated_first (evaluate_user cfg) i d d' c)
             \<or> held_seats i (t_registrations d') = held_seats i (t_registrations d) - 1
               \<and> (all_skipped (evaluate_user cfg) i d d' \<or> s \<le> t
                  \<or> (\<exists>n. ev_capacity e = Some n \<and> n < held_seats i (t_registrations d)))
           else held_seats i (t_registrations d') = held_seats i (t_registrations d)
             \<and> (\<forall>x \<in> set (t_registrations d). x \<noteq> r \<longrightarrow> x \<in> set (t_registrations d')))))
    \<and> new \<in> set (t_registrations d') \<and> rg_state new = Cancelled \<and> \<not> rg_seat_held new"
proof -
  from c obtain t e row r d1 where g: "utc_instant now = Some t" "event_of d i = Some row"
    "ev_status row = EvPublished" "ev_start_at row = Some (te_start_at (e :: cancellation_terms))"
    "ev_cancellation_cutoff_minutes row = Some (te_cancellation_cutoff_minutes e)"
    "t < te_start_at e - minutes (te_cancellation_cutoff_minutes e)"
    and r: "r \<in> set (t_registrations d)" "rg_event_id r = i" "rg_user_id r = sb_user_id p"
      "active_state (rg_state r)"
    and s: "change_state sha ''registration.cancel'' r Cancelled (Some (sb_user_id p))
       Member ''member_cancelled'' t (Some rid) None d = Inr (new, d1)"
    and promote: "if rg_seat_held r
        then \<exists>res. promote_next sha (evaluate_user cfg) i (Aware t 0) (Some rid) d1 = Inr (res, d')
        else d' = d1" by (rule cancel_cases)
  from s obtain old where old: "rg_id old = rg_id r" "moved old Cancelled new d d1" "ids_unused d1"
    by (cases rule: change_state_effect) (use ids in blast)+
  then have m: "moved r Cancelled new d d1" using moved_candidate [OF _ _ r(1) wf] by blast
  note seats = moved_inv(2) [OF m wf, where i = i] and wf1 = moved_inv(1) [OF m wf]
  have new: "rg_state new = Cancelled" "\<not> rg_seat_held new" "rg_id new = rg_id r"
    using m by (auto simp: moved_def)
  have row: "new \<in> set (t_registrations d1)" by (rule moved_rows(3) [OF m wf])
  have frame: "member_frame d d1" by (rule tx_keepsD [OF change_state_member s])
  have ev: "event_of d1 i = event_of d i" using member_frameD(1) [OF frame] by (simp add: event_of_def)
  let ?held = "\<lambda>d. held_seats i (t_registrations d)"
  have "(if rg_seat_held r
      then ?held d' = ?held d \<and> (\<exists>c. seated_first (evaluate_user cfg) i d d' c)
        \<or> ?held d' = ?held d - 1 \<and> (all_skipped (evaluate_user cfg) i d d' \<or> te_start_at e \<le> t
             \<or> (\<exists>n. ev_capacity row = Some n \<and> n < ?held d))
      else ?held d' = ?held d \<and> (\<forall>x \<in> set (t_registrations d). x \<noteq> r \<longrightarrow> x \<in> set (t_registrations d')))
    \<and> new \<in> set (t_registrations d')"
  proof (cases "rg_seat_held r")
    case True
    then obtain res where p: "promote_next sha (evaluate_user cfg) i (Aware t 0) (Some rid) d1 = Inr (res, d')"
      using promote by auto
    have "\<not> waiting_for i new" by (simp add: waiting_for_def new(1))
    note stays = promote_next_keeps(4) [OF p wf1 row this]
    have freed: "?held d1 = ?held d - 1" using seats True r(2) by simp
    have "\<not> waiting_for i r" using waiting_seat [OF wf r(1)] True by blast
    note before = outcome_before [OF m wf frame this, where cfg = cfg and d' = d', simplified]
    from p wf1 old(3) show ?thesis
    proof (cases rule: promote_next_outcome)
      case (idle u ev' s')
      then show ?thesis using True stays freed g(2,4) ev by auto
    next
      case (nobody u ev' s')
      then show ?thesis using True stays freed before(2) promote_next_seats [OF p wf1 old(3), of i] by simp
    next
      case (seated u ev' s' r' c)
      then show ?thesis using True stays freed before(1) promote_next_seats [OF p wf1 old(3), of i] by auto
    qed
  next
    case False
    then show ?thesis using promote seats row moved_rows(1) [OF m wf] by simp
  qed
  then show ?thesis using g r new by (intro conjI exI [of _ row] exI [of _ "te_start_at e"]
      exI [of _ "te_cancellation_cutoff_minutes e"] exI [of _ t] bexI [of _ r]) simp_all
qed

lemma example_cancellation:
  obtains new d' where "cancel_registration example_sha (evaluate_user example_rules)
      (example_principal 2) (example_id 20) (example_id 91) (Aware 10 0) example_db = Inr (new, d')"
    "held_seats (example_id 20) (t_registrations d') = 1"
proof -
  have "commits (cancel_registration example_sha (evaluate_user example_rules) (example_principal 2)
      (example_id 20) (example_id 91) (Aware 10 0) example_db)
    (\<lambda>_ d'. held_seats (example_id 20) (t_registrations d') = 1)" by code_simp
  then show ?thesis using that by (elim commitsE)
qed

theorem cancellation_gives_the_seat_on_witness:
  "\<exists>new d' c. cancel_registration example_sha (evaluate_user example_rules) (example_principal 2)
      (example_id 20) (example_id 91) (Aware 10 0) example_db = Inr (new, d')
    \<and> rg_state new = Cancelled \<and> held_seats (example_id 20) (t_registrations d') = 1
    \<and> seated_first (evaluate_user example_rules) (example_id 20) example_db d' c"
proof -
  obtain new d' where c: "cancel_registration example_sha (evaluate_user example_rules)
      (example_principal 2) (example_id 20) (example_id 91) (Aware 10 0) example_db = Inr (new, d')"
    and held': "held_seats (example_id 20) (t_registrations d') = 1"
    by (rule example_cancellation)
  have "ids_unused example_db"
    by (rule example_ids_unused) (simp_all add: example_db_def empty_db_def)
  note law = cancellation_gives_the_seat_on [OF c example_wf this]
  have held: "held_seats (example_id 20) (t_registrations example_db) = 1" by code_simp
  have "rg_seat_held r" if "r \<in> set (t_registrations example_db)" "rg_user_id r = sb_user_id (example_principal 2)" for r
    using that by (auto simp: example_db_def example_registration_def example_principal_def example_id_def)
  then show ?thesis using law held held' c by auto
qed

subsection \<open>Confirming a cash payment\<close>

lemma confirm_cases:
  assumes "confirm_cash sha p i reg rid now d = Inr (new, d')"
  obtains (again) e where "require_manager p i d = Inr (e, d)" "d' = d" "new \<in> set (t_registrations d)"
      "rg_id new = reg" "rg_event_id new = i" "rg_state new = Confirmed" "rg_method new = CashOrganizerConfirmed"
  | (confirmed) e r t x where "require_manager p i d = Inr (e, d)" "r \<in> set (t_registrations d)"
      "rg_id r = reg" "rg_event_id r = i" "rg_state r = CashPending" "rg_method r = CashOrganizerConfirmed"
      "utc_instant now = Some t" "rg_cash_expires_at r = Some x" "t < x"
      "change_state sha ''registration.cash_confirm'' r Confirmed (Some (sb_user_id p))
         Organizer ''cash_confirmed'' t (Some rid) None d = Inr (new, d')"
proof -
  obtain t e d1 found where t: "utc_instant now = Some t" and e: "require_manager p i d = Inr (e, d1)"
    and found: "found = one_or_none (\<lambda>r. rg_event_id r = i \<and> rg_id r = reg) (t_registrations d1)"
    and rest: "(case found of
       None \<Rightarrow> tx_raise not_found
     | Some r \<Rightarrow>
         tx_bind (tx_guard (rg_method r = CashOrganizerConfirmed) (conflict ''conflict'')) (\<lambda>_.
         if rg_state r = Confirmed then tx_return r
         else
           tx_bind (tx_guard (rg_state r = CashPending) (conflict ''conflict'')) (\<lambda>_.
           tx_bind (tx_guard (case rg_cash_expires_at r of None \<Rightarrow> False | Some x \<Rightarrow> t < x)
             (ApiError ''cash_confirmation_expired'' ''errors.cash_confirmation_expired'' 409)) (\<lambda>_.
           change_state sha ''registration.cash_confirm'' r Confirmed (Some (sb_user_id p))
             Organizer ''cash_confirmed'' t (Some rid) None)))) d1 = Inr (new, d')"
    using assms unfolding confirm_cash_def
    by (elim tx_bindE) (simp add: tx_lift_eq registration_instant_def get_for_event_def tx_query_eq)
  have d1: "d1 = d" by (rule require_manager_Inr(1) [OF e])
  obtain r where r: "found = Some r" using rest by (cases found) (auto simp: tx_raise_eq)
  from one_or_none_Some [OF found [unfolded r d1, symmetric]]
  have rr: "r \<in> set (t_registrations d)" "rg_id r = reg" "rg_event_id r = i" by auto
  show ?thesis
  proof (cases "rg_state r = Confirmed")
    case True
    then have "new = r \<and> d' = d \<and> rg_method r = CashOrganizerConfirmed"
      using rest unfolding r d1 by (auto simp: tx_bind_eq tx_guard_eq tx_return_eq)
    then show ?thesis using again e rr True d1 by blast
  next
    case False
    then obtain x where "rg_state r = CashPending" "rg_method r = CashOrganizerConfirmed"
      "rg_cash_expires_at r = Some x" "t < x"
      "change_state sha ''registration.cash_confirm'' r Confirmed (Some (sb_user_id p))
         Organizer ''cash_confirmed'' t (Some rid) None d = Inr (new, d')"
      using rest unfolding r d1 by (auto simp: tx_bind_eq tx_guard_eq tx_return_eq split: option.splits)
    then show ?thesis using confirmed [OF e [unfolded d1] rr _ _ t] by blast
  qed
qed

lemma confirm_keeps_inv:
  assumes "confirm_cash sha p i reg rid now d = Inr (new, d')" "registrations_inv d"
  shows "registrations_inv d'" "member_frame d d'"
proof -
  have seat: "rg_seat_held r" if "r \<in> set (t_registrations d)" "rg_state r = CashPending" for r
  proof -
    have "row_ok r" using that(1) assms(2) by (simp add: registrations_inv_def wf_registrations_def)
    then show ?thesis using row_ok_seat that(2) by blast
  qed
  from assms(1) have "registrations_inv d' \<and> member_frame d d'"
  proof (cases rule: confirm_cases)
    case again
    then show ?thesis using assms(2) member.refl by simp
  next
    case (confirmed e r t x)
    then show ?thesis
      using change_state_keeps_inv [OF confirmed(10,2) assms(2)] seat tx_keepsD [OF change_state_member]
      by blast
  qed
  then show "registrations_inv d'" "member_frame d d'" by blast+
qed

text \<open>
  C22. Confirming a cash payment: only a manager of the event does it, only for a cash registration
  of that event that is still reserved (or was confirmed before, which changes nothing); the
  registration keeps its seat, and no event gains or loses one.
\<close>

theorem cash_confirmation_needs_a_live_reservation:
  assumes c: "confirm_cash sha p i reg request_id now d = Inr (new, d')"
    and wf: "wf_registrations (t_registrations d)" and ids: "ids_unused d"
  shows "(\<exists>e. get_event i d = Inr (Some e, d) \<and> authorize_manager p e d = Inr ((), d))
    \<and> rg_id new = reg \<and> rg_state new = Confirmed \<and> rg_seat_held new \<and> new \<in> set (t_registrations d')
    \<and> (\<forall>k. held_seats k (t_registrations d') = held_seats k (t_registrations d))
    \<and> (d' = d \<or> (\<exists>r \<in> set (t_registrations d). \<exists>t x. rg_id r = reg \<and> rg_event_id r = i
        \<and> rg_state r = CashPending \<and> utc_instant now = Some t \<and> rg_cash_expires_at r = Some x \<and> t < x))"
  using c
proof (cases rule: confirm_cases)
  case (again e)
  have "row_ok new" using again(3) wf by (simp add: wf_registrations_def)
  then have "rg_seat_held new" using row_ok_seat again(6) by blast
  then show ?thesis using again require_manager_Inr [OF again(1)] by auto
next
  case (confirmed e r t x)
  from confirmed(10) obtain old where "rg_id old = rg_id r" "moved old Confirmed new d d'"
    by (cases rule: change_state_effect) (use ids in blast)+
  then have m: "moved r Confirmed new d d'" using moved_candidate [OF _ _ confirmed(2) wf] by blast
  have "row_ok r" using confirmed(2) wf by (simp add: wf_registrations_def)
  then have "rg_seat_held r" using row_ok_seat confirmed(5) by blast
  then have "held_seats k (t_registrations d') = held_seats k (t_registrations d)" for k
    using moved_inv(2) [OF m wf, where i = k] by simp
  moreover have "rg_id new = reg" "rg_state new = Confirmed" "rg_seat_held new"
    using m confirmed(3) by (auto simp: moved_def)
  ultimately show ?thesis
    using confirmed require_manager_Inr [OF confirmed(1)] moved_rows(3) [OF m wf] by blast
qed

text \<open>The event of the example as a cash event, with a reservation of member 2 until instant 100.\<close>

definition example_cash_db :: db where
  "example_cash_db = example_db\<lparr>
     t_events := [example_event\<lparr>ev_registration_method := Some CashOrganizerConfirmed,
       ev_cash_expiry_minutes := Some 60\<rparr>],
     t_registrations := [(example_registration 50 2 CashPending)\<lparr>rg_method := CashOrganizerConfirmed,
       rg_seat_held := True, rg_cash_expires_at := Some 100\<rparr>]\<rparr>"

theorem cash_confirmation_needs_a_live_reservation_witness:
  "\<exists>new d'. confirm_cash example_sha (example_principal 1) (example_id 20) (example_id 50)
      (example_id 91) (Aware 10 0) example_cash_db = Inr (new, d')
    \<and> rg_state new = Confirmed \<and> new \<in> set (t_registrations d')"
proof -
  have "commits (confirm_cash example_sha (example_principal 1) (example_id 20) (example_id 50)
      (example_id 91) (Aware 10 0) example_cash_db) (\<lambda>_ _. True)" by code_simp
  then obtain new d' where c: "confirm_cash example_sha (example_principal 1) (example_id 20)
      (example_id 50) (example_id 91) (Aware 10 0) example_cash_db = Inr (new, d')" by (rule commitsE)
  have "ids_unused example_cash_db"
    by (rule example_ids_unused) (simp_all add: example_cash_db_def example_db_def empty_db_def)
  moreover have "wf_registrations (t_registrations example_cash_db)" by code_simp
  ultimately show ?thesis using cash_confirmation_needs_a_live_reservation [OF c] c by blast
qed

subsection \<open>Pages of attendees\<close>

lemma filter_after:
  assumes "sorted_wrt (\<lambda>x y. k y < (k x :: 'k :: linorder)) ys" "n < length ys"
  shows "filter (\<lambda>x. k x < k (ys ! n)) ys = drop (Suc n) ys"
  using assms
proof (induction ys arbitrary: n)
  case Nil
  then show ?case by simp
next
  case (Cons y ys)
  show ?case
  proof (cases n)
    case 0
    then show ?thesis using Cons.prems by (auto simp: filter_id_conv)
  next
    case (Suc m)
    then have "k (ys ! m) < k y" using Cons.prems by simp
    then have "\<not> k y < k (ys ! m)" by simp
    then show ?thesis using Suc Cons by auto
  qed
qed

definition attendee_key :: "attendee \<Rightarrow> instant \<times> uuid" where
  "attendee_key a = (rg_created_at (ad_registration a), rg_id (ad_registration a))"

text \<open>All attendees that match, newest first: the list that the pages cut.\<close>

definition matching_attendees ::
  "uuid \<Rightarrow> (attendee \<Rightarrow> bool) \<Rightarrow> db \<Rightarrow> attendee list" where
  "matching_attendees i P d = rev (select_by attendee_key
     (\<lambda>a. rg_event_id (ad_registration a) = i \<and> P a)
     (List.map_filter (attendee_row d) (t_registrations d)))"

lemma list_attendees_eq:
  "list_attendees i st s n at' ai d
     = Inr (take (nat n) (matching_attendees i (attendee_matches st s at' ai) d), d)"
  by (simp add: list_attendees_def tx_query_def matching_attendees_def attendee_key_def [abs_def])

lemma attendee_registrations:
  "map ad_registration (List.map_filter (attendee_row d) rs)
     = filter (\<lambda>r. attendee_row d r \<noteq> None) rs"
  by (induction rs) (auto simp: map_filter_def attendee_row_def)

lemma matching_attendees_sorted:
  assumes "distinct (map rg_id (t_registrations d))"
  shows "sorted_wrt (\<lambda>x y. attendee_key y < attendee_key x) (matching_attendees i P d)"
proof -
  let ?as = "List.map_filter (attendee_row d) (t_registrations d)"
  let ?xs = "select_by attendee_key (\<lambda>a. rg_event_id (ad_registration a) = i \<and> P a) ?as"
  have "distinct (map rg_id (map ad_registration ?as))"
    unfolding attendee_registrations using assms by (simp add: distinct_map_filter)
  then have "distinct (map attendee_key ?as)"
    by (auto simp: distinct_map inj_on_def attendee_key_def)
  then have "distinct (map attendee_key ?xs)"
    by (simp add: select_by_def distinct_map) (auto simp: inj_on_def)
  then have "sorted_wrt (<) (map attendee_key ?xs)"
    using sorted_select_by [of attendee_key] by (simp add: strict_sorted_iff)
  then show ?thesis unfolding matching_attendees_def sorted_wrt_rev by (simp add: sorted_wrt_map)
qed

lemma matching_attendees_after:
  assumes "\<And>a. Q a \<longleftrightarrow> P a \<and> attendee_key a < c"
  shows "matching_attendees i Q d = filter (\<lambda>a. attendee_key a < c) (matching_attendees i P d)"
  by (simp add: matching_attendees_def select_by_def filter_sort rev_filter [symmetric] assms conj_ac)

text \<open>
  Paging is exact: the page after the last attendee of a full page continues the list where
  that page ended, so the two together are one page of the combined length: nobody is skipped or
  shown twice.
\<close>

theorem attendee_pages_continue:
  assumes "list_attendees i st search n at' ai d = Inr (page, d1)" and "len page = n" and "page \<noteq> []"
    and "list_attendees i st search m (Some (rg_created_at (ad_registration (last page))))
      (Some (rg_id (ad_registration (last page)))) d = Inr (following, d2)" and "0 \<le> m"
    and "distinct (map rg_id (t_registrations d))"
  shows "list_attendees i st search (n + m) at' ai d = Inr (page @ following, d)"
proof -
  let ?P = "attendee_matches st search at' ai" and ?a = "last page"
  let ?Q = "attendee_matches st search (Some (rg_created_at (ad_registration ?a)))
    (Some (rg_id (ad_registration ?a)))"
  let ?ys = "matching_attendees i ?P d"
  have page: "page = take (nat n) ?ys" and following: "following = take (nat m) (matching_attendees i ?Q d)"
    using assms(1,4) by (auto simp: list_attendees_eq)
  have n: "0 < nat n" "nat n \<le> length ?ys" using assms(2,3) page by auto
  have last: "?a = ?ys ! (nat n - 1)"
  proof -
    have "?a = page ! (length page - 1)" using assms(3) by (rule last_conv_nth)
    also have "\<dots> = ?ys ! (nat n - 1)" using n by (simp add: page min_def)
    finally show ?thesis .
  qed
  then have "?a \<in> set ?ys" using n by auto
  then have "?P ?a" by (auto simp: matching_attendees_def)
  then have "?Q a \<longleftrightarrow> ?P a \<and> attendee_key a < attendee_key ?a" for a
    by (auto simp: attendee_matches_def attendee_key_def split: option.splits)
  then have "matching_attendees i ?Q d = filter (\<lambda>a. attendee_key a < attendee_key ?a) ?ys"
    by (rule matching_attendees_after)
  also have "\<dots> = drop (nat n) ?ys"
    unfolding last using filter_after [OF matching_attendees_sorted [OF assms(6)], of "nat n - 1" i ?P] n
    by simp
  finally show ?thesis
    using page following assms(5) n by (simp add: list_attendees_eq nat_add_distrib take_add)
qed

theorem attendee_pages_continue_witness:
  "\<exists>page following. list_attendees (example_id 20) None None 1 None None example_db = Inr (page, example_db)
    \<and> list_attendees (example_id 20) None None 2 None None example_db = Inr (page @ following, example_db)
    \<and> length following = 1"
proof -
  let ?page = "\<lambda>n t i. list_attendees (example_id 20) None None n t i example_db"
  have "commits (?page 1 None None) (\<lambda>page _. length page = 1 \<and>
    commits (?page 1 (Some (rg_created_at (ad_registration (last page))))
      (Some (rg_id (ad_registration (last page))))) (\<lambda>following _. length following = 1))" by code_simp
  then obtain page d1 following d2 where p: "?page 1 None None = Inr (page, d1)" "length page = 1"
    "?page 1 (Some (rg_created_at (ad_registration (last page))))
      (Some (rg_id (ad_registration (last page)))) = Inr (following, d2)" "length following = 1"
    by (elim commitsE conjE) blast
  have "distinct (map rg_id (t_registrations example_db))" using example_wf by (simp add: wf_registrations_def)
  moreover have "page \<noteq> []" "d1 = example_db" using p(1,2) by (auto simp: list_attendees_eq)
  ultimately have "?page (1 + 1) None None = Inr (page @ following, example_db)"
    using p(2) by (intro attendee_pages_continue [OF p(1) _ _ p(3)]) simp_all
  then have "?page 2 None None = Inr (page @ following, example_db)" by simp
  moreover have "?page 1 None None = Inr (page, example_db)" using p(1) \<open>d1 = example_db\<close> by simp
  ultimately show ?thesis using p(4) by blast
qed

end
