(* ===== verification/Worker_Loop.thy ===== *)
theory Worker_Loop
  imports Outbox
begin

section \<open>Background workers: one transaction per job, failures recorded apart\<close>

text \<open>
  Both workers claim a batch in one transaction and then run each job in a transaction of its
  own. An exception rolls that transaction back and is recorded by another one. What an aborted
  transaction drew from the stream of identifiers is drawn again by the next: identifiers of
  rolled back rows are never seen.
\<close>

text \<open>\<open>try: ... except Exception as error: ...\<close> around a transaction.\<close>

definition tx_catch :: "('s, 'a) tx \<Rightarrow> (py_error \<Rightarrow> ('s, 'a) tx) \<Rightarrow> ('s, 'a) tx" where
  "tx_catch m handler = (\<lambda>s. case m s of Inl e \<Rightarrow> handler e s | Inr r \<Rightarrow> Inr r)"

lemma tx_catch_eq [tx_simps]:
  "tx_catch m h s = Inr r \<longleftrightarrow> m s = Inr r \<or> (\<exists>e. m s = Inl e \<and> h e s = Inr r)"
  by (auto simp: tx_catch_def split: sum.splits)

text \<open>The loop over the jobs, which counts those that complete.\<close>

fun run_each :: "('j \<Rightarrow> ('s, bool) tx) \<Rightarrow> 'j list \<Rightarrow> ('s, int) tx" where
  "run_each run [] = tx_return 0"
| "run_each run (j # js) =
     tx_bind (run j) (\<lambda>done.
     tx_bind (run_each run js) (\<lambda>n. tx_return (n + (if done then 1 else 0))))"

text \<open>\<open>type(error).__name__.lower()\<close>\<close>

fun error_class :: "py_error \<Rightarrow> string" where
  "error_class (ApiError c k s) = ''apierror''"
| "error_class (RegistrationTransitionError c) = ''registrationtransitionerror''"
| "error_class (EventValidationError c) = ''eventvalidationerror''"
| "error_class (ValueError m) = ''valueerror''"
| "error_class (RuntimeError m) = ''runtimeerror''"
| "error_class (IntegrityError m) = ''integrityerror''"
| "error_class (DataError m) = ''dataerror''"
| "error_class (PermanentDeliveryError m) = ''permanentdeliveryerror''"
| "error_class (PyException name) = map char_lower name"
| "error_class OutboxDeduplicationConflictError = ''outboxdeduplicationconflicterror''"
| "error_class IdempotencyClaimLostError = ''idempotencyclaimlosterror''"
| "error_class TypeError = ''typeerror''"
| "error_class OutOfFuel = []"

text \<open>
  What a worker promises of a job: while it is pending, running it ends it, whether it completes
  or fails, and leaves the other jobs as they are. Then the loop ends every job of the batch.
\<close>

locale settling =
  fixes run :: "'j \<Rightarrow> ('s, bool) tx" and good :: "'s \<Rightarrow> bool"
    and pending settled :: "'j \<Rightarrow> 's \<Rightarrow> bool" and key :: "'j \<Rightarrow> 'k"
  assumes runs: "good s \<Longrightarrow> pending j s \<Longrightarrow>
      \<exists>b s'. run j s = Inr (b, s') \<and> good s' \<and> settled j s'"
    and keeps_pending: "run j s = Inr (b, s') \<Longrightarrow> good s \<Longrightarrow> pending i s \<Longrightarrow> key i \<noteq> key j \<Longrightarrow> pending i s'"
    and keeps_settled: "run j s = Inr (b, s') \<Longrightarrow> good s \<Longrightarrow> settled i s \<Longrightarrow> key i \<noteq> key j \<Longrightarrow> settled i s'"
begin

lemma run_each_settles:
  assumes "good s" "\<forall>j \<in> set js. pending j s" "distinct (map key js)"
    and "\<forall>i \<in> ks. settled i s \<and> key i \<notin> key ` set js"
  shows "\<exists>n s'. run_each run js s = Inr (n, s') \<and> good s' \<and> (\<forall>j \<in> set js \<union> ks. settled j s')"
  using assms
proof (induction js arbitrary: s ks)
  case Nil
  then show ?case by (auto simp: tx_return_eq)
next
  case (Cons j js)
  have "pending j s" using Cons.prems(2) by simp
  from runs [OF Cons.prems(1) this] obtain b s1
    where r: "run j s = Inr (b, s1)" "good s1" "settled j s1" by blast
  have "\<forall>i \<in> set js. pending i s1"
    using keeps_pending [OF r(1)] Cons.prems by (auto simp: image_iff)
  moreover have "\<forall>i \<in> insert j ks. settled i s1 \<and> key i \<notin> key ` set js"
    using keeps_settled [OF r(1)] r(3) Cons.prems by auto
  moreover have "distinct (map key js)" using Cons.prems(3) by simp
  ultimately obtain n s' where "run_each run js s1 = Inr (n, s')" "good s'"
    "\<forall>i \<in> set js \<union> insert j ks. settled i s'"
    using Cons.IH [of s1 "insert j ks"] r(2) by auto
  then show ?case using r(1) by (auto simp: tx_bind_eq tx_return_eq)
qed

lemmas run_all_settles = run_each_settles [where ks = "{}", simplified]

end

end
