(* ===== verification/Cash_Expiry.thy ===== *)
theory Cash_Expiry
  imports Attendee_Services Worker_Loop
begin

section \<open>Cash expiry (registrations/expiry.py and the worker's registration_expiry.py)\<close>

text \<open>
  A cash reservation enqueues a job that is due when it lapses. The payload of a job is written by
  \<open>enqueue_cash_expiry\<close>, with identifiers in their canonical form; the other texts PostgreSQL casts
  to \<open>uuid\<close> are not modelled. A missing member is \<open>NULL\<close>.
\<close>

record cash_expiry_job =
  ce_id :: uuid
  ce_registration_id :: "uuid option"
  ce_event_id :: "uuid option"
  ce_attempt_count :: int
  ce_locked_until :: "instant option"

definition payload_uuid :: "string \<Rightarrow> (string \<times> json) list \<Rightarrow> py_error + uuid option" where
  "payload_uuid name payload = (case map_of payload name of
     None \<Rightarrow> Inr None
   | Some JNull \<Rightarrow> Inr None
   | Some (JStr s) \<Rightarrow> (case parse_uuid s of
         None \<Rightarrow> Inl (DataError ''invalid input syntax for type uuid'') | Some u \<Rightarrow> Inr (Some u))
   | Some _ \<Rightarrow> Inl (DataError ''invalid input syntax for type uuid''))"

definition expiry_job :: "outbox_row \<Rightarrow> py_error + cash_expiry_job" where
  "expiry_job r =
     res_bind (payload_uuid ''registration_id'' (ob_payload r)) (\<lambda>registration_id.
     res_bind (payload_uuid ''event_id'' (ob_payload r)) (\<lambda>event_id.
     Inr \<lparr>ce_id = ob_id r, ce_registration_id = registration_id, ce_event_id = event_id,
       ce_attempt_count = ob_attempt_count r, ce_locked_until = ob_locked_until r\<rparr>))"

fun expiry_jobs :: "outbox_row list \<Rightarrow> py_error + cash_expiry_job list" where
  "expiry_jobs [] = Inr []"
| "expiry_jobs (r # rs) = res_bind (expiry_job r) (\<lambda>j. res_bind (expiry_jobs rs) (\<lambda>js. Inr (j # js)))"

subsection \<open>The job repository\<close>

definition due_expiries :: "instant \<Rightarrow> int \<Rightarrow> outbox_row list \<Rightarrow> outbox_row list" where
  "due_expiries now limit rows = take (nat limit) (select_by (\<lambda>r. (ob_available_at r, ob_id r))
     (\<lambda>r. ob_event_type r = ''registration.cash_expiry_due'' \<and> claimable now r) rows)"

definition claim_expiries :: "string \<Rightarrow> instant \<Rightarrow> int \<Rightarrow> int \<Rightarrow> cash_expiry_job list txn" where
  "claim_expiries worker_id now lease_duration limit =
     tx_bind (tx_query t_outbox_events) (\<lambda>rows.
     let due = due_expiries now limit rows; lease = lease_row worker_id (now + lease_duration) in
     tx_bind (tx_modify (\<lambda>d. d\<lparr>t_outbox_events :=
       update_where (\<lambda>r. List.member (map ob_id due) (ob_id r)) lease rows\<rparr>)) (\<lambda>_.
     tx_lift (expiry_jobs (map lease due))))"

definition lock_claimed_expiry :: "uuid \<Rightarrow> string \<Rightarrow> instant \<Rightarrow> cash_expiry_job option txn" where
  "lock_claimed_expiry job_id worker_id now =
     tx_bind (get_claimed job_id worker_id now) (\<lambda>row. case row of
       None \<Rightarrow> tx_return None
     | Some r \<Rightarrow> tx_bind (tx_lift (expiry_job r)) (\<lambda>j. tx_return (Some j)))"

definition complete_expiry :: "uuid \<Rightarrow> instant \<Rightarrow> unit txn" where
  "complete_expiry job_id processed_at = tx_modify (\<lambda>d. d\<lparr>t_outbox_events :=
     update_where (\<lambda>r. ob_id r = job_id \<and> ob_status r = Processing)
       (\<lambda>r. r\<lparr>ob_status := Delivered, ob_processed_at := Some processed_at, ob_locked_by := None,
              ob_locked_until := None, ob_last_error_code := None\<rparr>) (t_outbox_events d)\<rparr>)"

definition fail_expiry :: "uuid \<Rightarrow> string \<Rightarrow> string \<Rightarrow> instant \<Rightarrow> bool \<Rightarrow> unit txn" where
  "fail_expiry job_id worker_id error_code retry_at permanent = tx_modify (\<lambda>d. d\<lparr>t_outbox_events :=
     update_where (\<lambda>r. ob_id r = job_id \<and> ob_status r = Processing \<and> ob_locked_by r = Some worker_id)
       (\<lambda>r. r\<lparr>ob_status := (if permanent then PermanentFailed else RetryableFailed),
              ob_available_at := retry_at, ob_locked_by := None, ob_locked_until := None,
              ob_last_error_code := Some (take 120 error_code)\<rparr>) (t_outbox_events d)\<rparr>)"

subsection \<open>The processor\<close>

definition process_expiry ::
  "(string \<Rightarrow> string) \<Rightarrow> eligibility_check \<Rightarrow> cash_expiry_job \<Rightarrow> instant \<Rightarrow> bool txn" where
  "process_expiry sha256 check job now =
     tx_bind (case ce_registration_id job of None \<Rightarrow> tx_return None | Some i \<Rightarrow> get_context i) (\<lambda>context.
     case context of
       None \<Rightarrow> tx_return False
     | Some cx \<Rightarrow>
         let r = cx_registration cx in
         if ce_event_id job \<noteq> Some (rg_event_id r) then tx_return False
         else if rg_state r \<noteq> CashPending then tx_return False
         else
           tx_bind (tx_guard (case rg_cash_expires_at r of None \<Rightarrow> False | Some t \<Rightarrow> t \<le> now)
             (RuntimeError ''cash_expiry_job_not_due'')) (\<lambda>_.
           tx_bind (transition sha256 \<lparr>tc_command_id = ce_id job, tc_registration_id = rg_id r,
             tc_target_state = Expired, tc_actor_user_id = None, tc_actor_kind = System,
             tc_reason_code = ''cash_expired'', tc_occurred_at = Aware now 0, tc_request_id = None,
             tc_cash_expires_at = None\<rparr>) (\<lambda>res.
           tx_bind (audit_transition ''registration.expire'' None System ''cash_expired'' r
             (tr_registration res) None) (\<lambda>_.
           tx_bind (promote_next sha256 check (rg_event_id r) (Aware now 0) None) (\<lambda>_.
           tx_return True)))))"

subsection \<open>The worker\<close>

record expiry_worker =
  ew_worker_id :: string
  ew_lease_duration :: int
  ew_max_attempts :: int
  ew_retry_base :: int

definition mk_expiry_worker :: "string \<Rightarrow> int \<Rightarrow> int \<Rightarrow> int \<Rightarrow> py_error + expiry_worker" where
  "mk_expiry_worker worker_id lease_duration max_attempts retry_base =
     res_bind (res_guard (py_strip worker_id \<noteq> [] \<and> len worker_id \<le> 120)
       (ValueError ''worker_id must be between 1 and 120 characters'')) (\<lambda>_.
     res_bind (res_guard (0 < lease_duration) (ValueError ''lease_duration must be positive'')) (\<lambda>_.
     res_bind (res_guard (1 \<le> max_attempts \<and> max_attempts \<le> 20)
       (ValueError ''max_attempts must be between 1 and 20'')) (\<lambda>_.
     res_bind (res_guard (0 < retry_base) (ValueError ''retry_base must be positive'')) (\<lambda>_.
     Inr \<lparr>ew_worker_id = worker_id, ew_lease_duration = lease_duration,
       ew_max_attempts = max_attempts, ew_retry_base = retry_base\<rparr>))))"

definition expiry_backoff :: "expiry_worker \<Rightarrow> int \<Rightarrow> int" where
  "expiry_backoff w attempt_count = ew_retry_base w * 2 ^ nat (min (max (attempt_count - 1) 0) 10)"

definition record_expiry_failure :: "expiry_worker \<Rightarrow> cash_expiry_job \<Rightarrow> py_error \<Rightarrow> instant \<Rightarrow> unit txn" where
  "record_expiry_failure w job e now =
     fail_expiry (ce_id job) (ew_worker_id w) (error_class e)
       (now + expiry_backoff w (ce_attempt_count job)) (ew_max_attempts w \<le> ce_attempt_count job)"

definition run_expiry_job ::
  "expiry_worker \<Rightarrow> (string \<Rightarrow> string) \<Rightarrow> eligibility_check \<Rightarrow> instant \<Rightarrow> cash_expiry_job \<Rightarrow> bool txn" where
  "run_expiry_job w sha256 check now job =
     tx_catch
       (tx_bind (lock_claimed_expiry (ce_id job) (ew_worker_id w) now) (\<lambda>claimed. case claimed of
          None \<Rightarrow> tx_return False
        | Some c \<Rightarrow>
            tx_bind (process_expiry sha256 check c now) (\<lambda>_.
            tx_bind (complete_expiry (ce_id c) now) (\<lambda>_. tx_return True))))
       (\<lambda>e. tx_bind (record_expiry_failure w job e now) (\<lambda>_. tx_return False))"

definition run_expiries ::
  "expiry_worker \<Rightarrow> (string \<Rightarrow> string) \<Rightarrow> eligibility_check \<Rightarrow> datetime \<Rightarrow> int \<Rightarrow> int txn" where
  "run_expiries w sha256 check now limit =
     tx_bind (tx_lift (to_utc (ValueError ''worker clock must be timezone-aware'') now)) (\<lambda>current.
     tx_bind (tx_guard (1 \<le> limit \<and> limit \<le> 1000)
       (ValueError ''expiry claim limit must be between 1 and 1000'')) (\<lambda>_.
     tx_bind (claim_expiries (ew_worker_id w) current (ew_lease_duration w) limit) (\<lambda>jobs.
     run_each (run_expiry_job w sha256 check current) jobs)))"

end
