(* ===== verification/Membership_Service.thy ===== *)
theory Membership_Service
  imports Membership_Store Event_Access
begin

section \<open>Membership of clubs (clubs/membership_service.py)\<close>

text \<open>
  Joining and leaving, the queue of requests of a club that approves its members, the roles, the
  transfer of ownership and the closing of a club. Every operation locks the club first; \<open>cfg\<close>
  configures the eligibility that a new owner is checked for.
\<close>

definition membership_reason :: "string \<Rightarrow> py_error + string" where
  "membership_reason v =
     (let normalized = py_strip v in
      if 3 \<le> len normalized \<and> len normalized \<le> 500 then Inr normalized
      else Inl (ApiError ''invalid_reason'' ''errors.validation'' 422))"

datatype join_result = JoinedMember membership_row | JoinPending join_request_row

fun role_name :: "club_role \<Rightarrow> string" where
  "role_name RoleOwner = ''owner''"
| "role_name RoleAdmin = ''admin''"
| "role_name RoleMember = ''member''"

fun club_status_name :: "club_status \<Rightarrow> string" where
  "club_status_name ClubDraft = ''draft''"
| "club_status_name ClubPublished = ''published''"
| "club_status_name ClubUnpublished = ''unpublished''"
| "club_status_name ClubSuspended = ''suspended''"
| "club_status_name ClubClosed = ''closed''"

subsection \<open>Guards\<close>

definition require_active :: "'z subject_scheme \<Rightarrow> unit txn" where
  "require_active p = tx_guard (sb_status p = UserActive) forbidden"

definition require_active_verified :: "'z subject_scheme \<Rightarrow> unit txn" where
  "require_active_verified p =
     tx_bind (require_active p) (\<lambda>_.
     tx_guard (sb_email_verified p)
       (ApiError ''email_verification_required'' ''blockers.email_verification_required'' 403))"

definition require_owner :: "'z subject_scheme \<Rightarrow> club \<Rightarrow> unit txn" where
  "require_owner p c =
     tx_bind (require_active p) (\<lambda>_.
     tx_guard (\<not> (cl_status c \<in> {ClubSuspended, ClubClosed} \<or> cl_owner_user_id c \<noteq> sb_user_id p)) forbidden)"

definition find_club :: "uuid \<Rightarrow> club txn" where
  "find_club club_id =
     tx_bind (tx_guard (is_uuid7 club_id) not_found) (\<lambda>_.
     tx_bind (lock_club club_id) (\<lambda>club. case club of None \<Rightarrow> tx_raise not_found | Some c \<Rightarrow> tx_return c))"

text \<open>\<open>_managed_club\<close> and the check of \<open>can_manage_members\<close> that follows it.\<close>

definition managed_club :: "'z subject_scheme \<Rightarrow> uuid \<Rightarrow> club txn" where
  "managed_club p club_id =
     tx_bind (find_club club_id) (\<lambda>c.
     tx_bind (get_membership (cl_id c) (sb_user_id p)) (\<lambda>membership.
     tx_bind (tx_lift (can_manage_members p c membership)) (\<lambda>_.
     tx_return c)))"

definition find_request :: "uuid \<Rightarrow> uuid \<Rightarrow> join_request_row txn" where
  "find_request club_id request_id =
     tx_bind (tx_guard (is_uuid7 request_id) not_found) (\<lambda>_.
     tx_bind (get_join_request club_id request_id) (\<lambda>r. case r of
       None \<Rightarrow> tx_raise not_found | Some j \<Rightarrow> tx_return j))"

definition membership_audit ::
  "'z subject_scheme \<Rightarrow> actor_kind \<Rightarrow> string \<Rightarrow> string \<Rightarrow> uuid \<Rightarrow> string option \<Rightarrow> json option
     \<Rightarrow> json option \<Rightarrow> uuid \<Rightarrow> unit txn" where
  "membership_audit p kind action target_type target_id reason before after request_id =
     tx_bind (audit_record \<lparr>ae_actor_user_id = Some (sb_user_id p), ae_actor_kind = kind,
       ae_action = action, ae_target_type = target_type, ae_target_id = Some target_id,
       ae_reason = reason, ae_safe_before = before, ae_safe_after = after,
       ae_request_id = Some request_id\<rparr>) (\<lambda>_. tx_return ())"

subsection \<open>Joining and leaving\<close>

definition normalized_message :: "string option \<Rightarrow> string option" where
  "normalized_message message = (case message of None \<Rightarrow> None
     | Some m \<Rightarrow> if py_strip m = [] then None else Some (py_strip m))"

definition join :: "'z subject_scheme \<Rightarrow> uuid \<Rightarrow> string option \<Rightarrow> uuid \<Rightarrow> join_result txn" where
  "join p club_id message request_id =
     tx_bind (require_active_verified p) (\<lambda>_.
     tx_bind (find_club club_id) (\<lambda>c.
     tx_bind (tx_guard (cl_status c = ClubPublished) forbidden) (\<lambda>_.
     tx_bind (get_membership (cl_id c) (sb_user_id p)) (\<lambda>existing. case existing of
       Some m \<Rightarrow> tx_return (JoinedMember m)
     | None \<Rightarrow>
         if cl_membership_policy c = OpenMembership then
           tx_bind (add_member (cl_id c) (sb_user_id p)) (\<lambda>m.
           tx_bind (membership_audit p Member ''club.member.join'' ''club'' (cl_id c) None None
             (Some (JObj [(''role'', JStr ''member'')])) request_id) (\<lambda>_.
           tx_return (JoinedMember m)))
         else
           tx_bind (create_or_get_pending_request (cl_id c) (sb_user_id p) (normalized_message message))
             (\<lambda>(r, created).
           tx_bind (if created then membership_audit p Member ''club.join_request.create'' ''club'' (cl_id c)
               None None (Some (JObj [(''request_id'', JStr (uuid_str (jr_id r))),
                 (''status'', JStr ''pending'')])) request_id
             else tx_return ()) (\<lambda>_.
           tx_return (JoinPending r)))))))"

definition leave :: "'z subject_scheme \<Rightarrow> uuid \<Rightarrow> uuid \<Rightarrow> instant \<Rightarrow> unit txn" where
  "leave p club_id request_id now =
     tx_bind (require_active p) (\<lambda>_.
     tx_bind (find_club club_id) (\<lambda>c.
     tx_bind (tx_guard (cl_status c \<notin> {ClubSuspended, ClubClosed}) forbidden) (\<lambda>_.
     tx_bind (get_membership (cl_id c) (sb_user_id p)) (\<lambda>membership. case membership of
       None \<Rightarrow>
         tx_bind (cancel_pending_request (cl_id c) (sb_user_id p)) (\<lambda>cancelled.
         tx_bind (tx_guard cancelled not_found) (\<lambda>_.
         membership_audit p Member ''club.join_request.cancel'' ''club'' (cl_id c) None
           (Some (JObj [(''status'', JStr ''pending'')])) None request_id))
     | Some m \<Rightarrow>
         tx_bind (tx_guard (\<not> (me_role m = RoleOwner \<or> cl_owner_user_id c = sb_user_id p))
           (conflict ''sole_owner_exit'')) (\<lambda>_.
         tx_bind (remove_membership (me_id m) now) (\<lambda>_.
         membership_audit p Member ''club.member.leave'' ''club'' (cl_id c) None
           (Some (JObj [(''role'', JStr (role_name (me_role m)))])) None request_id))))))"

definition list_members :: "'z subject_scheme \<Rightarrow> uuid \<Rightarrow> member_entry list txn" where
  "list_members p club_id = tx_bind (managed_club p club_id) (\<lambda>c. member_listing (cl_id c))"

definition list_requests :: "'z subject_scheme \<Rightarrow> uuid \<Rightarrow> request_entry list txn" where
  "list_requests p club_id = tx_bind (managed_club p club_id) (\<lambda>c. list_pending_requests (cl_id c))"

subsection \<open>Deciding requests\<close>

definition decision_audit ::
  "'z subject_scheme \<Rightarrow> string \<Rightarrow> join_request_row \<Rightarrow> string \<Rightarrow> string \<Rightarrow> club \<Rightarrow> uuid \<Rightarrow> unit txn" where
  "decision_audit p action decided reason status c request_id =
     membership_audit p Organizer action ''club_join_request'' (jr_id decided) (Some reason)
       (Some (JObj [(''status'', JStr ''pending'')]))
       (Some (JObj [(''status'', JStr status), (''club_id'', JStr (uuid_str (cl_id c)))])) request_id"

definition approve ::
  "'z subject_scheme \<Rightarrow> uuid \<Rightarrow> uuid \<Rightarrow> string \<Rightarrow> uuid \<Rightarrow> instant \<Rightarrow> unit txn" where
  "approve p club_id join_request_id reason request_id now =
     tx_bind (tx_lift (membership_reason reason)) (\<lambda>normalized.
     tx_bind (managed_club p club_id) (\<lambda>c.
     tx_bind (find_request (cl_id c) join_request_id) (\<lambda>r.
     tx_bind (get_membership (cl_id c) (jr_user_id r)) (\<lambda>existing.
     if jr_status r = RequestApproved \<and> existing \<noteq> None then tx_return ()
     else
       tx_bind (tx_guard (jr_status r = RequestPending) (conflict ''conflict'')) (\<lambda>_.
       tx_bind (add_member (cl_id c) (jr_user_id r)) (\<lambda>_.
       tx_bind (decide_request (jr_id r) RequestApproved (sb_user_id p) normalized now) (\<lambda>decided.
       decision_audit p ''club.join_request.approve'' decided normalized ''approved'' c request_id)))))))"

definition reject ::
  "'z subject_scheme \<Rightarrow> uuid \<Rightarrow> uuid \<Rightarrow> string \<Rightarrow> uuid \<Rightarrow> instant \<Rightarrow> unit txn" where
  "reject p club_id join_request_id reason request_id now =
     tx_bind (tx_lift (membership_reason reason)) (\<lambda>normalized.
     tx_bind (managed_club p club_id) (\<lambda>c.
     tx_bind (find_request (cl_id c) join_request_id) (\<lambda>r.
     if jr_status r = RequestRejected then tx_return ()
     else
       tx_bind (tx_guard (jr_status r = RequestPending) (conflict ''conflict'')) (\<lambda>_.
       tx_bind (decide_request (jr_id r) RequestRejected (sb_user_id p) normalized now) (\<lambda>decided.
       decision_audit p ''club.join_request.reject'' decided normalized ''rejected'' c request_id)))))"

subsection \<open>Roles and ownership\<close>

definition change_role ::
  "'z subject_scheme \<Rightarrow> uuid \<Rightarrow> uuid \<Rightarrow> club_role \<Rightarrow> string \<Rightarrow> uuid \<Rightarrow> unit txn" where
  "change_role p club_id target_user_id role reason request_id =
     tx_bind (tx_lift (membership_reason reason)) (\<lambda>normalized.
     tx_bind (find_club club_id) (\<lambda>c.
     tx_bind (require_owner p c) (\<lambda>_.
     tx_bind (get_membership (cl_id c) target_user_id) (\<lambda>target. case target of
       None \<Rightarrow> tx_raise not_found
     | Some m \<Rightarrow>
         tx_bind (tx_guard (me_role m \<noteq> RoleOwner) (conflict ''conflict'')) (\<lambda>_.
         if me_role m = role then tx_return ()
         else
           tx_bind (set_role (me_id m) role) (\<lambda>changed.
           membership_audit p Organizer ''club.member.role_change'' ''club_membership'' (me_id changed)
             (Some normalized)
             (Some (JObj [(''role'', JStr (role_name (me_role m))), (''club_id'', JStr (uuid_str (cl_id c)))]))
             (Some (JObj [(''role'', JStr (role_name (me_role changed))),
               (''club_id'', JStr (uuid_str (cl_id c)))])) request_id))))))"

definition transfer_error :: py_error where
  "transfer_error = ApiError ''ownership_transfer_ineligible'' ''errors.forbidden'' 403"

text \<open>The new owner must be an account that could create a club now.\<close>

definition require_candidate :: "eligibility_config \<Rightarrow> uuid \<Rightarrow> unit txn" where
  "require_candidate cfg user_id =
     tx_bind (transfer_candidate user_id) (\<lambda>candidate. case candidate of
       None \<Rightarrow> tx_raise transfer_error
     | Some q \<Rightarrow> tx_bind (evaluate cfg q) (\<lambda>c. tx_guard (cp_create_club c) transfer_error))"

definition transfer ::
  "eligibility_config \<Rightarrow> 'z subject_scheme \<Rightarrow> uuid \<Rightarrow> uuid \<Rightarrow> string \<Rightarrow> uuid \<Rightarrow> unit txn" where
  "transfer cfg p club_id target_user_id reason request_id =
     tx_bind (tx_lift (membership_reason reason)) (\<lambda>normalized.
     tx_bind (find_club club_id) (\<lambda>c.
     tx_bind (require_owner p c) (\<lambda>_.
     tx_bind (get_membership (cl_id c) (sb_user_id p)) (\<lambda>current.
     tx_bind (get_membership (cl_id c) target_user_id) (\<lambda>target.
     case (current, target) of
       (Some owner, Some m) \<Rightarrow>
         tx_bind (tx_guard (me_role owner = RoleOwner) not_found) (\<lambda>_.
         tx_bind (tx_guard (me_user_id m \<noteq> sb_user_id p) (conflict ''conflict'')) (\<lambda>_.
         tx_bind (require_candidate cfg (me_user_id m)) (\<lambda>_.
         tx_bind (transfer_ownership c owner m) (\<lambda>_.
         membership_audit p Organizer ''club.ownership.transfer'' ''club'' (cl_id c) (Some normalized)
           (Some (JObj [(''owner_user_id'', JStr (uuid_str (sb_user_id p)))]))
           (Some (JObj [(''owner_user_id'', JStr (uuid_str (me_user_id m)))])) request_id))))
     | _ \<Rightarrow> tx_raise not_found)))))"

definition close :: "'z subject_scheme \<Rightarrow> uuid \<Rightarrow> string \<Rightarrow> uuid \<Rightarrow> instant \<Rightarrow> unit txn" where
  "close p club_id reason request_id now =
     tx_bind (tx_lift (membership_reason reason)) (\<lambda>normalized.
     tx_bind (find_club club_id) (\<lambda>c.
     tx_bind (require_owner p c) (\<lambda>_.
     tx_bind (close_club (cl_id c) now) (\<lambda>_.
     membership_audit p Organizer ''club.close'' ''club'' (cl_id c) (Some normalized)
       (Some (JObj [(''status'', JStr (club_status_name (cl_status c))), (''revision'', JInt (cl_revision c))]))
       (Some (JObj [(''status'', JStr ''closed''), (''revision'', JInt (cl_revision c + 1))])) request_id))))"

end
