(* ===== verification/Image_Container.thy ===== *)
theory Image_Container
  imports Prelude
begin

section \<open>Uploaded images: container checks and verification (media/verifier.py)\<close>

text \<open>
  Bytes are characters. \<open>struct.unpack\<close> of four bytes is \<open>be32\<close> and \<open>le32\<close>. What Pillow does
  with a file is the argument \<open>image_library\<close>: opening a file yields its format, size and number of
  frames; \<open>verify()\<close> passes or fails; decoding with the orientation applied yields a size; saving as
  WEBP yields bytes. Its exceptions are of two kinds, the decompression bomb and the others the
  code catches.
\<close>

definition max_upload_bytes :: int where
  "max_upload_bytes = 10 * 1024 * 1024"

definition max_image_dimension :: int where
  "max_image_dimension = 12000"

datatype media_error = MediaValidationError string | MediaValueError string

datatype image_error = DecompressionBomb | BrokenImage

record image_info =
  ii_format :: "string option"
  ii_width :: int
  ii_height :: int
  ii_frames :: int

record image_library =
  il_open :: "string \<Rightarrow> image_error + image_info"
  il_verify :: "string \<Rightarrow> image_error + unit"
  il_decode :: "string \<Rightarrow> image_error + int \<times> int"
  il_webp :: "string \<Rightarrow> image_error + string"
  il_sha256 :: "string \<Rightarrow> string"

record verified_image =
  vi_content :: string
  vi_content_type :: string
  vi_byte_size :: int
  vi_width :: int
  vi_height :: int
  vi_sha256 :: string

subsection \<open>Complete containers\<close>

definition be32 :: "string \<Rightarrow> nat" where
  "be32 bs = foldl (\<lambda>n c. 256 * n + of_char c) 0 bs"

definition le32 :: "string \<Rightarrow> nat" where
  "le32 bs = be32 (rev bs)"

definition slice :: "string \<Rightarrow> nat \<Rightarrow> nat \<Rightarrow> string" where
  "slice content first n = take n (drop first content)"

definition jpeg_complete :: "string \<Rightarrow> bool" where
  "jpeg_complete content \<longleftrightarrow>
     take 3 content = [CHR 0xFF, CHR 0xD8, CHR 0xFF]
     \<and> 2 \<le> length content \<and> drop (length content - 2) content = [CHR 0xFF, CHR 0xD9]"

definition webp_complete :: "string \<Rightarrow> bool" where
  "webp_complete content \<longleftrightarrow> 12 \<le> length content \<and> take 4 content = ''RIFF''
     \<and> slice content 8 4 = ''WEBP'' \<and> le32 (slice content 4 4) + 8 = length content"

definition png_signature :: string where
  "png_signature = [CHR 0x89, CHR ''P'', CHR ''N'', CHR ''G'', CHR 0x0D, CHR 0x0A, CHR 0x1A, CHR 0x0A]"

text \<open>
  The loop over the chunks from a position: \<open>None\<close> when a chunk runs past the end of the file, else
  the position reached and whether the end chunk was found.
\<close>

function png_walk :: "string \<Rightarrow> nat \<Rightarrow> (nat \<times> bool) option" where
  "png_walk content position =
     (if position + 12 \<le> length content
      then let ending = position + 12 + be32 (slice content position 4) in
        if length content < ending then None
        else if slice content (position + 4) 4 = ''IEND'' then Some (ending, True)
        else png_walk content ending
      else Some (position, False))"
  by pat_completeness auto

termination
  by (relation "measure (\<lambda>(content, position). length content - position)") auto

declare png_walk.simps [simp del]

definition png_complete :: "string \<Rightarrow> bool" where
  "png_complete content \<longleftrightarrow> take 8 content = png_signature
     \<and> png_walk content 8 = Some (length content, True)"

definition validate_complete_container :: "string \<Rightarrow> string \<Rightarrow> media_error + unit" where
  "validate_complete_container content image_format =
     (if image_format = ''JPEG'' \<and> jpeg_complete content
         \<or> image_format = ''WEBP'' \<and> webp_complete content
         \<or> image_format = ''PNG'' \<and> png_complete content
      then Inr () else Inl (MediaValidationError ''invalid_media''))"

subsection \<open>Verification\<close>

definition format_content_type :: "string \<Rightarrow> string option" where
  "format_content_type image_format = map_of [(''JPEG'', ''image/jpeg''), (''PNG'', ''image/png''),
     (''WEBP'', ''image/webp'')] image_format"

definition validate_dimensions :: "int \<Rightarrow> int \<Rightarrow> int \<Rightarrow> media_error + unit" where
  "validate_dimensions width height max_pixels =
     (if \<not> (1 \<le> width \<and> width \<le> max_image_dimension)
         \<or> \<not> (1 \<le> height \<and> height \<le> max_image_dimension) \<or> max_pixels < width * height
      then Inl (MediaValidationError ''media_dimensions_invalid'') else Inr ())"

definition media_bind :: "media_error + 'a \<Rightarrow> ('a \<Rightarrow> media_error + 'b) \<Rightarrow> media_error + 'b" where
  "media_bind m f = (case m of Inl e \<Rightarrow> Inl e | Inr x \<Rightarrow> f x)"

text \<open>The \<open>except\<close> clauses: what an exception of the library becomes.\<close>

definition caught :: "image_error + 'a \<Rightarrow> media_error + 'a" where
  "caught m = (case m of
       Inl DecompressionBomb \<Rightarrow> Inl (MediaValidationError ''media_dimensions_invalid'')
     | Inl BrokenImage \<Rightarrow> Inl (MediaValidationError ''invalid_media'')
     | Inr x \<Rightarrow> Inr x)"

definition media_guard :: "bool \<Rightarrow> string \<Rightarrow> media_error + unit" where
  "media_guard b code = (if b then Inr () else Inl (MediaValidationError code))"

definition verify_and_canonicalize ::
  "image_library \<Rightarrow> string \<Rightarrow> string \<Rightarrow> int \<Rightarrow> media_error + verified_image" where
  "verify_and_canonicalize lib content declared max_pixels =
     (if content = [] then Inl (MediaValidationError ''invalid_media'')
      else if max_upload_bytes < len content then Inl (MediaValidationError ''media_too_large'')
      else if max_pixels < 1 then Inl (MediaValueError ''maximum image pixels must be a positive integer'')
      else
        media_bind (caught (il_open lib content)) (\<lambda>probe.
        media_bind (case Option.bind (ii_format probe) format_content_type of
            None \<Rightarrow> Inl (MediaValidationError ''invalid_media'')
          | Some t \<Rightarrow> media_guard (t = declared) ''media_type_mismatch'') (\<lambda>_.
        media_bind (validate_complete_container content (the (ii_format probe))) (\<lambda>_.
        media_bind (validate_dimensions (ii_width probe) (ii_height probe) max_pixels) (\<lambda>_.
        media_bind (media_guard (ii_frames probe = 1) ''invalid_media'') (\<lambda>_.
        media_bind (caught (il_verify lib content)) (\<lambda>_.
        media_bind (caught (il_decode lib content)) (\<lambda>(width, height).
        media_bind (validate_dimensions width height max_pixels) (\<lambda>_.
        media_bind (caught (il_webp lib content)) (\<lambda>canonical.
        Inr \<lparr>vi_content = canonical, vi_content_type = ''image/webp'',
             vi_byte_size = len canonical, vi_width = width, vi_height = height,
             vi_sha256 = il_sha256 lib canonical\<rparr>))))))))))"

lemma media_bind_Inr: "media_bind m f = Inr y \<longleftrightarrow> (\<exists>x. m = Inr x \<and> f x = Inr y)"
  by (auto simp: media_bind_def split: sum.splits)

lemma caught_Inr [simp]: "caught m = Inr x \<longleftrightarrow> m = Inr x"
  by (auto simp: caught_def split: sum.splits image_error.splits)

lemma media_guard_Inr [simp]: "media_guard b c = Inr u \<longleftrightarrow> b"
  by (cases u) (simp add: media_guard_def)

lemma validate_dimensions_Inr:
  "validate_dimensions w h p = Inr u \<longleftrightarrow> 1 \<le> w \<and> w \<le> 12000 \<and> 1 \<le> h \<and> h \<le> 12000 \<and> w * h \<le> p"
  by (cases u) (auto simp: validate_dimensions_def max_image_dimension_def)

subsection \<open>The grammar of a PNG file\<close>

text \<open>
  A reference for the loop: the signature, then chunks of a four-byte length, a four-byte type,
  the data and a four-byte checksum, the last and only the last of them of type \<open>IEND\<close>.
\<close>

record png_chunk =
  pc_length :: string
  pc_type :: string
  pc_data :: string
  pc_crc :: string

definition chunk_ok :: "png_chunk \<Rightarrow> bool" where
  "chunk_ok c \<longleftrightarrow> length (pc_length c) = 4 \<and> length (pc_type c) = 4 \<and> length (pc_crc c) = 4
     \<and> be32 (pc_length c) = length (pc_data c)"

definition chunk_bytes :: "png_chunk \<Rightarrow> string" where
  "chunk_bytes c = pc_length c @ pc_type c @ pc_data c @ pc_crc c"

definition png_grammar :: "string \<Rightarrow> bool" where
  "png_grammar content \<longleftrightarrow> (\<exists>chunks ending. content = png_signature @ concat (map chunk_bytes chunks)
       @ chunk_bytes ending
     \<and> list_all (\<lambda>c. chunk_ok c \<and> pc_type c \<noteq> ''IEND'') chunks
     \<and> chunk_ok ending \<and> pc_type ending = ''IEND'')"

lemma length_chunk_bytes: "chunk_ok c \<Longrightarrow> length (chunk_bytes c) = 12 + be32 (pc_length c)"
  by (simp add: chunk_ok_def chunk_bytes_def)

lemma chunk_slices:
  assumes "chunk_ok c"
  shows "slice (pre @ chunk_bytes c @ rest) (length pre) 4 = pc_length c"
    and "slice (pre @ chunk_bytes c @ rest) (length pre + 4) 4 = pc_type c"
  using assms by (simp_all add: chunk_ok_def chunk_bytes_def slice_def)

lemma walk_ending:
  assumes "chunk_ok c" "pc_type c = ''IEND''"
  shows "png_walk (pre @ chunk_bytes c @ rest) (length pre) = Some (length pre + length (chunk_bytes c), True)"
  using assms chunk_slices [OF assms(1), of pre rest] length_chunk_bytes [OF assms(1)]
  by (subst png_walk.simps) (simp add: Let_def)

lemma walk_chunk:
  assumes "chunk_ok c" "pc_type c \<noteq> ''IEND''"
  shows "png_walk (pre @ chunk_bytes c @ rest) (length pre)
    = png_walk (pre @ chunk_bytes c @ rest) (length pre + length (chunk_bytes c))"
  using assms chunk_slices [OF assms(1), of pre rest] length_chunk_bytes [OF assms(1)]
  by (subst png_walk.simps) (simp add: Let_def add.assoc)

lemma walk_chunks:
  assumes "list_all (\<lambda>c. chunk_ok c \<and> pc_type c \<noteq> ''IEND'') chunks" "chunk_ok e" "pc_type e = ''IEND''"
  shows "png_walk (pre @ concat (map chunk_bytes chunks) @ chunk_bytes e) (length pre)
    = Some (length (pre @ concat (map chunk_bytes chunks) @ chunk_bytes e), True)"
  using assms(1)
proof (induction chunks arbitrary: pre)
  case Nil
  then show ?case using walk_ending [OF assms(2,3), of pre "[]"] by simp
next
  case (Cons c cs)
  then have "png_walk (pre @ chunk_bytes c @ concat (map chunk_bytes cs) @ chunk_bytes e) (length pre)
    = png_walk ((pre @ chunk_bytes c) @ concat (map chunk_bytes cs) @ chunk_bytes e)
        (length (pre @ chunk_bytes c))"
    using walk_chunk [of c pre "concat (map chunk_bytes cs) @ chunk_bytes e"] by simp
  then show ?case using Cons.IH [of "pre @ chunk_bytes c"] Cons.prems by simp
qed

text \<open>Conversely a walk that ends at the end chunk has read one chunk after another.\<close>

definition chunk_at :: "string \<Rightarrow> nat \<Rightarrow> png_chunk" where
  "chunk_at content position = (let n = be32 (slice content position 4) in
     \<lparr>pc_length = slice content position 4, pc_type = slice content (position + 4) 4,
      pc_data = slice content (position + 8) n, pc_crc = slice content (position + 8 + n) 4\<rparr>)"

lemma slice_append: "slice content a m @ slice content (a + m) n = slice content a (m + n)"
  by (simp add: slice_def take_add drop_drop add.commute)

lemma chunk_at_ok:
  assumes "position + 12 + be32 (slice content position 4) \<le> length content"
  shows "chunk_ok (chunk_at content position)"
    and "chunk_bytes (chunk_at content position)
      = slice content position (12 + be32 (slice content position 4))"
proof -
  let ?n = "be32 (slice content position 4)"
  show "chunk_ok (chunk_at content position)"
    using assms by (simp add: chunk_ok_def chunk_at_def Let_def) (simp add: slice_def)
  have "slice content position 4 @ slice content (position + 4) 4
      @ slice content (position + 8) ?n @ slice content (position + 8 + ?n) 4
    = slice content position (4 + (4 + (?n + 4)))"
    using slice_append [of content position 4 "4 + (?n + 4)"]
      slice_append [of content "position + 4" 4 "?n + 4"] slice_append [of content "position + 8" ?n 4]
    by (simp add: add.assoc)
  then show "chunk_bytes (chunk_at content position) = slice content position (12 + ?n)"
    by (simp add: chunk_bytes_def chunk_at_def Let_def add_ac)
qed

lemma walk_grammar:
  assumes "png_walk content position = Some (length content, True)"
  shows "\<exists>chunks e. drop position content = concat (map chunk_bytes chunks) @ chunk_bytes e
     \<and> list_all (\<lambda>c. chunk_ok c \<and> pc_type c \<noteq> ''IEND'') chunks \<and> chunk_ok e \<and> pc_type e = ''IEND''"
  using assms
proof (induction content position rule: png_walk.induct)
  case (1 content position)
  let ?n = "12 + be32 (slice content position 4)" and ?c = "chunk_at content position"
  have fits: "position + 12 \<le> length content" "position + ?n \<le> length content"
    using "1.prems" by (subst (asm) png_walk.simps, simp add: Let_def split: if_splits)+
  note c = chunk_at_ok [of position content] and t = chunk_at_def [of content position]
  have split: "drop position content = chunk_bytes ?c @ drop (position + ?n) content"
    using c(2) fits(2) by (simp add: slice_def add.assoc) (metis append_take_drop_id drop_drop add.commute add.assoc)
  show ?case
  proof (cases "slice content (position + 4) 4 = ''IEND''")
    case True
    then have "position + ?n = length content"
      using "1.prems" fits by (subst (asm) png_walk.simps) (simp add: Let_def add.assoc split: if_splits)
    then show ?thesis using split c(1) fits(2) True
      by (intro exI [of _ "[]"] exI [of _ ?c]) (simp add: t Let_def)
  next
    case False
    then have "png_walk content (position + ?n) = Some (length content, True)"
      using "1.prems" fits by (subst (asm) png_walk.simps) (simp add: Let_def add.assoc split: if_splits)
    with "1.IH" fits False obtain chunks e where
      "drop (position + ?n) content = concat (map chunk_bytes chunks) @ chunk_bytes e"
      "list_all (\<lambda>c. chunk_ok c \<and> pc_type c \<noteq> ''IEND'') chunks" "chunk_ok e" "pc_type e = ''IEND''"
      by (auto simp: add.assoc)
    then show ?thesis using split c(1) fits(2) False
      by (intro exI [of _ "?c # chunks"] exI [of _ e]) (simp add: t Let_def)
  qed
qed

text \<open>C36. The container check accepts a PNG file exactly if it is a signature followed by
  well-formed chunks that end with the one \<open>IEND\<close> chunk: nothing is cut off and nothing is appended.\<close>

theorem png_check_is_the_grammar:
  "validate_complete_container content ''PNG'' = Inr () \<longleftrightarrow> png_grammar content"
proof
  assume "validate_complete_container content ''PNG'' = Inr ()"
  then have s: "take 8 content = png_signature" and w: "png_walk content 8 = Some (length content, True)"
    by (simp_all add: validate_complete_container_def png_complete_def split: if_splits)
  have "content = png_signature @ drop 8 content" using s append_take_drop_id [of 8 content] by metis
  then show "png_grammar content" using walk_grammar [OF w] unfolding png_grammar_def by metis
next
  assume "png_grammar content"
  then obtain chunks e where c: "content = png_signature @ concat (map chunk_bytes chunks) @ chunk_bytes e"
    "list_all (\<lambda>c. chunk_ok c \<and> pc_type c \<noteq> ''IEND'') chunks" "chunk_ok e" "pc_type e = ''IEND''"
    unfolding png_grammar_def by blast
  have "length png_signature = 8" by (simp add: png_signature_def)
  then show "validate_complete_container content ''PNG'' = Inr ()"
    using walk_chunks [OF c(2-4), of png_signature] c(1)
    by (simp add: validate_complete_container_def png_complete_def)
qed

lemma verified_image_facts:
  assumes "verify_and_canonicalize lib content declared max_pixels = Inr v"
  shows "vi_content_type v = ''image/webp''" "vi_byte_size v = len (vi_content v)"
    "vi_sha256 v = il_sha256 lib (vi_content v)"
    "1 \<le> vi_width v" "vi_width v \<le> 12000" "1 \<le> vi_height v" "vi_height v \<le> 12000"
    "vi_width v * vi_height v \<le> max_pixels" "len content \<le> max_upload_bytes"
    "il_webp lib content = Inr (vi_content v)"
  using assms by (auto simp: verify_and_canonicalize_def media_bind_Inr validate_dimensions_Inr
      split: if_splits prod.splits)

end
