(* ===== verification/Media_Store.thy ===== *)
theory Media_Store
  imports Image_Container Authorization Event_Store
begin

section \<open>Media assets: keys and repository (media/models.py, storage.py, repository.py, cleanup.py)\<close>

text \<open>
  The rows of \<open>media_assets\<close> and the statements over them. Characters are those of Latin-1, so a
  character of a Unicode category \<open>C*\<close> is a control character or the soft hyphen.
\<close>

subsection \<open>Upload intents\<close>

record upload_intent =
  ui_original_filename :: string
  ui_content_type :: string
  ui_byte_size :: int

definition allowed_content_types :: "string list" where
  "allowed_content_types = [''image/jpeg'', ''image/png'', ''image/webp'']"

definition category_c :: "char \<Rightarrow> bool" where
  "category_c c \<longleftrightarrow> (let n = (of_char c :: nat) in n < 32 \<or> 127 \<le> n \<and> n < 160 \<or> n = 173)"

definition validate_upload_intent :: "string \<Rightarrow> string \<Rightarrow> int \<Rightarrow> media_error + upload_intent" where
  "validate_upload_intent original_filename content_type byte_size =
     (let filename = py_strip original_filename in
      media_bind (media_guard (filename \<noteq> [] \<and> filename \<noteq> ''.'' \<and> filename \<noteq> ''..''
        \<and> len filename \<le> 255 \<and> CHR ''/'' \<notin> set filename \<and> CHR 0x5C \<notin> set filename
        \<and> \<not> list_ex category_c filename) ''invalid_media'') (\<lambda>_.
      media_bind (media_guard (List.member allowed_content_types content_type) ''invalid_media'') (\<lambda>_.
      media_bind (media_guard (1 \<le> byte_size \<and> byte_size \<le> max_upload_bytes)
        (if max_upload_bytes < byte_size then ''media_too_large'' else ''invalid_media'')) (\<lambda>_.
      Inr \<lparr>ui_original_filename = filename, ui_content_type = content_type, ui_byte_size = byte_size\<rparr>))))"

subsection \<open>Storage keys\<close>

definition build_storage_key :: "uuid \<Rightarrow> uuid \<Rightarrow> py_error + string" where
  "build_storage_key owner_user_id asset_id =
     res_bind (validate_uuid7 owner_user_id) (\<lambda>owner.
     res_bind (validate_uuid7 asset_id) (\<lambda>asset.
     Inr (''media/'' @ uuid_str owner @ ''/'' @ uuid_str asset @ ''/source'')))"

definition build_verified_storage_key :: "uuid \<Rightarrow> uuid \<Rightarrow> py_error + string" where
  "build_verified_storage_key owner_user_id asset_id =
     res_bind (validate_uuid7 owner_user_id) (\<lambda>owner.
     res_bind (validate_uuid7 asset_id) (\<lambda>asset.
     Inr (''media/'' @ uuid_str owner @ ''/'' @ uuid_str asset @ ''/canonical.webp'')))"

lemma length_uuid_str [simp]: "length (uuid_str u) = 36"
  by (simp add: uuid_str_def Let_def)

lemma storage_keys_differ:
  assumes "build_storage_key o1 a1 = Inr k" "build_verified_storage_key o2 a2 = Inr k'"
  shows "k \<noteq> k'"
proof
  assume "k = k'"
  then have "drop 79 k = drop 79 k'" by simp
  moreover have "drop 79 k = ''/source''" using assms(1) by (auto simp: build_storage_key_def res_simps)
  moreover have "drop 79 k' = ''/canonical.webp''"
    using assms(2) by (auto simp: build_verified_storage_key_def res_simps)
  ultimately show False by simp
qed

subsection \<open>The table\<close>

text \<open>\<open>storage_key !~ '(^|/)\.\.(/|$)'\<close>: no segment of the key is \<open>..\<close>\<close>

definition media_checks :: "media_row \<Rightarrow> (string \<times> bool) list" where
  "media_checks r =
     [(''media_assets_storage_key_check'', \<not> List.member (split_on CHR ''/'' (ma_storage_key r)) ''..''),
      (''media_assets_original_filename_check'',
         CHR ''/'' \<notin> set (ma_original_filename r) \<and> CHR 0x5C \<notin> set (ma_original_filename r)),
      (''media_assets_content_type_check'', List.member allowed_content_types (ma_content_type r)),
      (''media_assets_byte_size_check'', 1 \<le> ma_byte_size r \<and> ma_byte_size r \<le> 10485760),
      (''media_assets_width_check'', absent_or (\<lambda>w. 1 \<le> w \<and> w \<le> 12000) (ma_width r)),
      (''media_assets_height_check'', absent_or (\<lambda>h. 1 \<le> h \<and> h \<le> 12000) (ma_height r)),
      (''media_assets_sha256_check'', absent_or (\<lambda>b. length b = 32) (ma_sha256 r)),
      (''ck_media_verified_shape'', ma_status r \<noteq> MediaVerified
         \<or> ma_verified_at r \<noteq> None \<and> ma_sha256 r \<noteq> None),
      (''ck_media_quarantine_shape'', ma_status r \<noteq> MediaQuarantined \<or> ma_quarantine_reason r \<noteq> None)]"

definition media_keys :: "db \<Rightarrow> media_row list \<Rightarrow> media_row \<Rightarrow> (string \<times> bool) list" where
  "media_keys d others r =
     [(''media_assets_pkey'', \<not> row_exists (\<lambda>x. ma_id x = ma_id r) others),
      (''media_assets_storage_key_key'', \<not> row_exists (\<lambda>x. ma_storage_key x = ma_storage_key r) others),
      (''media_assets_owner_user_id_fkey'', row_exists (\<lambda>u. us_id u = ma_owner_user_id r) (t_users d))]"

definition create_pending :: "uuid \<Rightarrow> uuid \<Rightarrow> string \<Rightarrow> upload_intent \<Rightarrow> media_row txn" where
  "create_pending asset_id owner_user_id storage_key intent =
     tx_bind clock_timestamp (\<lambda>created.
     tx_bind clock_timestamp (\<lambda>updated.
     tx_bind (tx_query id) (\<lambda>d.
     let row = \<lparr>ma_id = asset_id, ma_owner_user_id = owner_user_id, ma_status = MediaPending,
       ma_storage_key = storage_key, ma_original_filename = ui_original_filename intent,
       ma_content_type = ui_content_type intent, ma_byte_size = ui_byte_size intent,
       ma_width = None, ma_height = None, ma_sha256 = None, ma_verified_at = None,
       ma_quarantine_reason = None, ma_created_at = created, ma_updated_at = updated\<rparr> in
     tx_bind (check_constraints (media_checks row @ media_keys d (t_media_assets d) row)) (\<lambda>_.
     tx_bind (tx_modify (\<lambda>d. d\<lparr>t_media_assets := t_media_assets d @ [row]\<rparr>)) (\<lambda>_.
     tx_return row)))))"

definition get_owned :: "uuid \<Rightarrow> uuid \<Rightarrow> media_row option txn" where
  "get_owned asset_id owner_user_id = tx_query (\<lambda>d.
     one_or_none (\<lambda>m. ma_id m = asset_id \<and> ma_owner_user_id m = owner_user_id) (t_media_assets d))"

text \<open>A club that is published and not suspended, as the joins of the query see it.\<close>

definition club_public :: "db \<Rightarrow> uuid option \<Rightarrow> bool" where
  "club_public d club_id \<longleftrightarrow> row_exists (\<lambda>c. Some (cl_id c) = club_id \<and> cl_status c = ClubPublished
     \<and> cl_suspended_at c = None) (t_clubs d)"

definition cover_public :: "db \<Rightarrow> uuid \<Rightarrow> bool" where
  "cover_public d asset_id \<longleftrightarrow>
     row_exists (\<lambda>e. ev_cover_media_id e = Some asset_id \<and> ev_status e = EvPublished
       \<and> ev_visibility e = Public \<and> ev_suspended_at e = None
       \<and> (ev_ownership_type e \<noteq> ClubOwned \<or> club_public d (ev_club_id e))) (t_events d)
     \<or> row_exists (\<lambda>c. cl_cover_media_id c = Some asset_id \<and> cl_status c = ClubPublished
       \<and> cl_suspended_at c = None) (t_clubs d)"

definition get_public :: "uuid \<Rightarrow> media_row option txn" where
  "get_public asset_id = tx_query (\<lambda>d.
     one_or_none (\<lambda>m. ma_id m = asset_id \<and> ma_status m = MediaVerified \<and> cover_public d asset_id)
       (t_media_assets d))"

text \<open>The updates of the one pending row; the trigger renews \<open>updated_at\<close>.\<close>

definition update_pending :: "uuid \<Rightarrow> uuid \<Rightarrow> (media_row \<Rightarrow> media_row) \<Rightarrow> media_row option txn" where
  "update_pending asset_id owner_user_id f =
     tx_bind (tx_query id) (\<lambda>d.
     case one_or_none (\<lambda>m. ma_id m = asset_id \<and> ma_owner_user_id m = owner_user_id
         \<and> ma_status m = MediaPending) (t_media_assets d) of
       None \<Rightarrow> tx_return None
     | Some m \<Rightarrow>
         tx_bind clock_timestamp (\<lambda>now.
         let m' = (f m)\<lparr>ma_updated_at := now\<rparr> in
         tx_bind (check_constraints (media_checks m'
           @ media_keys d (delete_where (\<lambda>x. ma_id x = ma_id m) (t_media_assets d)) m')) (\<lambda>_.
         tx_bind (tx_modify (\<lambda>d. d\<lparr>t_media_assets :=
           update_where (\<lambda>x. ma_id x = ma_id m) (\<lambda>_. m') (t_media_assets d)\<rparr>)) (\<lambda>_.
         tx_return (Some m')))))"

definition mark_verified :: "media_row \<Rightarrow> string \<Rightarrow> verified_image \<Rightarrow> instant \<Rightarrow> media_row txn" where
  "mark_verified asset storage_key v verified_at =
     tx_bind (update_pending (ma_id asset) (ma_owner_user_id asset)
       (\<lambda>m. m\<lparr>ma_status := MediaVerified, ma_storage_key := storage_key,
          ma_content_type := vi_content_type v, ma_byte_size := vi_byte_size v,
          ma_width := Some (vi_width v), ma_height := Some (vi_height v),
          ma_sha256 := Some (vi_sha256 v), ma_verified_at := Some verified_at,
          ma_quarantine_reason := None\<rparr>)) (\<lambda>row. case row of
       None \<Rightarrow> tx_raise (RuntimeError ''pending media asset transition was lost'')
     | Some m \<Rightarrow> tx_return m)"

definition mark_quarantined :: "media_row \<Rightarrow> string \<Rightarrow> media_row txn" where
  "mark_quarantined asset reason =
     tx_bind (update_pending (ma_id asset) (ma_owner_user_id asset)
       (\<lambda>m. m\<lparr>ma_status := MediaQuarantined, ma_sha256 := None, ma_verified_at := None,
          ma_quarantine_reason := Some reason\<rparr>)) (\<lambda>row. case row of
       None \<Rightarrow> tx_raise (RuntimeError ''pending media quarantine transition was lost'')
     | Some m \<Rightarrow> tx_return m)"

subsection \<open>Abandoned uploads\<close>

definition claim_abandoned :: "instant \<Rightarrow> int \<Rightarrow> media_row list txn" where
  "claim_abandoned created_before limit = tx_query (\<lambda>d. take (nat limit)
     (select_by (\<lambda>m. (ma_created_at m, ma_id m))
       (\<lambda>m. ma_status m = MediaPending \<and> ma_created_at m < created_before) (t_media_assets d)))"

definition mark_deleted :: "uuid \<Rightarrow> unit txn" where
  "mark_deleted asset_id =
     tx_bind clock_timestamp (\<lambda>now.
     tx_modify (\<lambda>d. d\<lparr>t_media_assets := update_where
       (\<lambda>m. ma_id m = asset_id \<and> ma_status m = MediaPending)
       (\<lambda>m. m\<lparr>ma_status := MediaDeleted, ma_quarantine_reason := None, ma_updated_at := now\<rparr>)
       (t_media_assets d)\<rparr>))"

subsection \<open>Facts\<close>

lemma get_owned_eq [tx_simps]:
  "get_owned i u d = Inr (x, d') \<longleftrightarrow> d' = d
     \<and> x = one_or_none (\<lambda>m. ma_id m = i \<and> ma_owner_user_id m = u) (t_media_assets d)"
  by (auto simp: get_owned_def tx_simps)

lemma first_violation_append:
  "first_violation (cs @ es) = None \<longleftrightarrow> first_violation cs = None \<and> first_violation es = None"
  by (auto simp: first_violation_None)

lemma update_pending_effect:
  assumes "update_pending i u f d = Inr (Some m', d')"
  obtains m where "one_or_none (\<lambda>m. ma_id m = i \<and> ma_owner_user_id m = u \<and> ma_status m = MediaPending)
      (t_media_assets d) = Some m" "m' = (f m)\<lparr>ma_updated_at := clock_at d (clock_pos d)\<rparr>"
    "first_violation (media_checks m') = None"
    "d' = d\<lparr>t_media_assets := update_where (\<lambda>x. ma_id x = ma_id m) (\<lambda>_. m') (t_media_assets d),
       clock_pos := Suc (clock_pos d)\<rparr>"
proof -
  obtain m where m: "one_or_none (\<lambda>m. ma_id m = i \<and> ma_owner_user_id m = u \<and> ma_status m = MediaPending)
      (t_media_assets d) = Some m"
    using assms by (cases "one_or_none (\<lambda>m. ma_id m = i \<and> ma_owner_user_id m = u
      \<and> ma_status m = MediaPending) (t_media_assets d)")
      (simp_all add: update_pending_def tx_query_eq tx_bind_eq tx_return_eq)
  show thesis
    using assms that [OF m] by (simp add: update_pending_def tx_query_eq tx_bind_eq tx_return_eq Let_def
        clock_timestamp_eq check_constraints_eq tx_modify_eq m first_violation_append)
qed

end
