(* ===== verification/Object_Storage.thy ===== *)
theory Object_Storage
  imports Media_Store Identity_Codecs
begin

unbundle bit_operations_syntax

section \<open>Object storage (media/storage.py, media/local_storage.py)\<close>

text \<open>
  The \<open>MediaStorage\<close> protocol is the record \<open>storage_ops\<close> over a state of the storage, its contract
  the locale \<open>object_storage\<close>. The local storage keeps a file for each key; the file system is the
  map from keys to contents, without symbolic links and with working disks.
\<close>

datatype storage_error = StorageError string bool | StorageValueError string

record upload_grant =
  ug_method :: string
  ug_url :: string
  ug_headers :: "(string \<times> string) list"
  ug_expires_at :: instant

record 'f storage_ops =
  so_grant :: "uuid \<Rightarrow> string \<Rightarrow> string \<Rightarrow> int \<Rightarrow> instant \<Rightarrow> storage_error + upload_grant"
  so_read :: "'f \<Rightarrow> string \<Rightarrow> int \<Rightarrow> storage_error + string"
  so_replace :: "'f \<Rightarrow> string \<Rightarrow> string \<Rightarrow> string \<Rightarrow> storage_error + 'f"
  so_delete :: "'f \<Rightarrow> string \<Rightarrow> storage_error + 'f"

subsection \<open>The contract\<close>

locale object_storage =
  fixes ops :: "'f storage_ops"
  assumes replaced_is_read: "so_replace ops f k content t = Inr f' \<Longrightarrow> 1 \<le> n \<Longrightarrow> len content \<le> n
      \<Longrightarrow> so_read ops f' k n = Inr content"
    and replace_keeps_others: "so_replace ops f k content t = Inr f' \<Longrightarrow> k' \<noteq> k
      \<Longrightarrow> so_read ops f' k' n = so_read ops f k' n"
    and deleted_is_missing: "so_delete ops f k = Inr f' \<Longrightarrow> so_read ops f' k n \<noteq> Inr content"
    and delete_keeps_others: "so_delete ops f k = Inr f' \<Longrightarrow> k' \<noteq> k
      \<Longrightarrow> so_read ops f' k' n = so_read ops f k' n"
begin

text \<open>\<open>contextlib.suppress(StorageError)\<close> around a deletion.\<close>

lemma suppressed_delete_keeps_others:
  "k' \<noteq> k \<Longrightarrow> so_read ops (case so_delete ops f k of Inl _ \<Rightarrow> f | Inr f' \<Rightarrow> f') k' n = so_read ops f k' n"
  by (cases "so_delete ops f k") (simp_all add: delete_keeps_others)

lemma replace_then_delete:
  assumes "so_replace ops f k content t = Inr f'" "k \<noteq> k'" "1 \<le> n" "len content \<le> n"
  shows "so_read ops (case so_delete ops f' k' of Inl _ \<Rightarrow> f' | Inr f'' \<Rightarrow> f'') k n = Inr content"
  using assms suppressed_delete_keeps_others [of k k' f' n] replaced_is_read [of f k content t f' n]
  by simp

end

subsection \<open>Keys\<close>

definition lower_hex :: "char \<Rightarrow> bool" where
  "lower_hex c \<longleftrightarrow> List.member ''0123456789abcdef'' c"

text \<open>\<open>[0-9a-f]{8}-[0-9a-f]{4}-7[0-9a-f]{3}-[89ab][0-9a-f]{3}-[0-9a-f]{12}\<close>\<close>

definition uuid7_text :: "string \<Rightarrow> bool" where
  "uuid7_text s \<longleftrightarrow> (case split_on CHR ''-'' s of
       [a, b, c, e, f] \<Rightarrow> map length [a, b, c, e, f] = [8, 4, 4, 4, 12]
         \<and> list_all lower_hex (a @ b @ c @ e @ f) \<and> hd c = CHR ''7'' \<and> List.member ''89ab'' (hd e)
     | _ \<Rightarrow> False)"

definition storage_key_ok :: "string \<Rightarrow> bool" where
  "storage_key_ok k \<longleftrightarrow> (case split_on CHR ''/'' k of
       [p, owner, asset, name] \<Rightarrow> p = ''media'' \<and> uuid7_text owner \<and> uuid7_text asset
         \<and> List.member [''source'', ''canonical.webp''] name
     | _ \<Rightarrow> False)"

definition validate_storage_key :: "string \<Rightarrow> storage_error + string" where
  "validate_storage_key k =
     (if storage_key_ok k then Inr k else Inl (StorageError ''invalid_storage_key'' False))"

subsection \<open>The local storage\<close>

type_synonym files = "string \<rightharpoonup> string"

record local_storage =
  ls_api_public_url :: string
  ls_hmac :: "string \<Rightarrow> string"

definition encode_grant :: "(string \<Rightarrow> string) \<Rightarrow> json \<Rightarrow> string" where
  "encode_grant hmac payload =
     (let encoded = json_dumps payload in b64_encode (encoded @ hmac encoded))"

definition local_create_upload_grant ::
  "local_storage \<Rightarrow> uuid \<Rightarrow> string \<Rightarrow> string \<Rightarrow> int \<Rightarrow> instant \<Rightarrow> storage_error + upload_grant" where
  "local_create_upload_grant s asset_id storage_key content_type byte_size expires_at =
     (case validate_storage_key storage_key of
        Inl e \<Rightarrow> Inl e
      | Inr _ \<Rightarrow> Inr
          \<lparr>ug_method = ''PUT'',
           ug_url = ls_api_public_url s @ ''/api/v1/media/uploads/'' @ uuid_str asset_id @ ''/content'',
           ug_headers = [(''Content-Type'', content_type),
             (''X-Talaqi-Upload-Token'', encode_grant (ls_hmac s)
               (JObj [(''asset'', JStr (uuid_str asset_id)), (''content_type'', JStr content_type),
                  (''exp'', JInt (timestamp_seconds expires_at)), (''key'', JStr storage_key),
                  (''size'', JInt byte_size)]))],
           ug_expires_at = expires_at\<rparr>)"

definition local_read :: "files \<Rightarrow> string \<Rightarrow> int \<Rightarrow> storage_error + string" where
  "local_read files k max_bytes =
     (if max_bytes < 1 then Inl (StorageValueError ''maximum read size must be positive'')
      else case validate_storage_key k of
        Inl e \<Rightarrow> Inl e
      | Inr _ \<Rightarrow>
          (case files k of
             None \<Rightarrow> Inl (StorageError ''object_missing'' False)
           | Some content \<Rightarrow>
               if max_bytes < len (take (nat (max_bytes + 1)) content)
               then Inl (StorageError ''object_too_large'' False)
               else Inr (take (nat (max_bytes + 1)) content)))"

definition local_replace :: "files \<Rightarrow> string \<Rightarrow> string \<Rightarrow> string \<Rightarrow> storage_error + files" where
  "local_replace files k content content_type =
     (case validate_storage_key k of Inl e \<Rightarrow> Inl e | Inr _ \<Rightarrow> Inr (files(k \<mapsto> content)))"

definition local_delete :: "files \<Rightarrow> string \<Rightarrow> storage_error + files" where
  "local_delete files k =
     (case validate_storage_key k of Inl e \<Rightarrow> Inl e | Inr _ \<Rightarrow> Inr (files(k := None)))"

definition local_ops :: "local_storage \<Rightarrow> files storage_ops" where
  "local_ops s = \<lparr>so_grant = local_create_upload_grant s, so_read = local_read,
     so_replace = local_replace, so_delete = local_delete\<rparr>"

lemma validate_storage_key_Inr [simp]: "validate_storage_key k = Inr x \<longleftrightarrow> storage_key_ok k \<and> x = k"
  by (auto simp: validate_storage_key_def)

lemma validate_storage_key_run: "storage_key_ok k \<Longrightarrow> validate_storage_key k = Inr k"
  by simp

lemma local_read_Inr:
  "local_read files k n = Inr c \<longleftrightarrow> 1 \<le> n \<and> storage_key_ok k \<and> files k = Some c \<and> len c \<le> n"
  by (auto simp: local_read_def validate_storage_key_def split: option.splits if_splits)

lemma local_replace_Inr: "local_replace files k c t = Inr f \<longleftrightarrow> storage_key_ok k \<and> f = files(k \<mapsto> c)"
  by (auto simp: local_replace_def validate_storage_key_def)

lemma local_delete_Inr: "local_delete files k = Inr f \<longleftrightarrow> storage_key_ok k \<and> f = files(k := None)"
  by (auto simp: local_delete_def validate_storage_key_def)

lemma local_read_cong: "f k = g k \<Longrightarrow> local_read f k n = local_read g k n"
  by (simp only: local_read_def)

interpretation local_files: object_storage "local_ops s"
  by unfold_locales
    (auto simp: local_ops_def local_read_Inr local_replace_Inr local_delete_Inr intro!: local_read_cong)

subsection \<open>The keys of assets are keys of the storage\<close>

lemma split_on_none: "c \<notin> set s \<Longrightarrow> split_on c s = [s]"
  by (induction s) auto

lemma split_on_append: "c \<notin> set s \<Longrightarrow> split_on c (s @ c # t) = s # split_on c t"
  by (induction s) auto

lemma lower_hex_digit: "0 \<le> d \<Longrightarrow> d < 16 \<Longrightarrow> lower_hex (hex_digit d)"
proof -
  assume "0 \<le> d" "d < 16"
  then have "nat d < length ''0123456789abcdef''" by simp
  then have "hex_digit d \<in> set ''0123456789abcdef''" unfolding hex_digit_def by (rule nth_mem)
  then show ?thesis by (simp add: lower_hex_def)
qed

lemma lower_hex_digits: "list_all lower_hex (hex_digits n x)"
  by (induction n arbitrary: x) (simp_all add: lower_hex_digit)

lemma lower_hex_no_separator: "lower_hex c \<Longrightarrow> c \<noteq> CHR ''-'' \<and> c \<noteq> CHR ''/''"
  by (auto simp: lower_hex_def)

lemma hex_digits_nth: "k < n \<Longrightarrow> hex_digits n x ! k = hex_digit (x div 16 ^ (n - 1 - k) mod 16)"
proof (induction n arbitrary: x)
  case (Suc n)
  show ?case
  proof (cases "k = n")
    case False
    with Suc have "hex_digits n (x div 16) ! k = hex_digit (x div 16 div 16 ^ (n - 1 - k) mod 16)" by simp
    moreover have "x div 16 div 16 ^ (n - 1 - k) = x div 16 ^ (n - k)"
      using False Suc.prems by (simp add: zdiv_zmult2_eq [symmetric] power_eq_if [of 16 "n - k"])
    ultimately show ?thesis using False Suc.prems by (simp add: nth_append)
  qed (simp add: nth_append)
qed simp

lemma version_digits:
  fixes u :: "128 word"
  assumes v: "drop_bit 76 u AND 15 = 7" "bit u 63" "\<not> bit u 62"
  shows "uint u div 16 ^ 19 mod 16 = 7" "uint u div 16 ^ 15 mod 16 \<in> {8, 9, 10, 11}"
proof -
  have "take_bit 128 (uint u) = uint u"
    using uint_bounded [of u] by (simp add: take_bit_int_eq_self)
  then have "uint (drop_bit 76 u AND 15) = drop_bit 76 (uint u) AND 15"
    by (simp add: uint_and unsigned_drop_bit_eq)
  also have "\<dots> = take_bit 4 (drop_bit 76 (uint u))"
    by (simp add: take_bit_eq_mask [of 4] mask_eq_exp_minus_1)
  also have "\<dots> = uint u div 16 ^ 19 mod 16" by (simp add: drop_bit_eq_div take_bit_eq_mod)
  finally show "uint u div 16 ^ 19 mod 16 = 7" using v(1) by simp
  let ?n = "uint u div 16 ^ 15"
  have "bit (uint u) 63" "\<not> bit (uint u) 62" using v(2,3) by (simp_all add: bit_uint_iff)
  then have o: "odd (uint u div 2 ^ 63)" "even (uint u div 2 ^ 62)" unfolding bit_iff_odd by blast+
  have p: "(2 :: int) ^ 63 = 16 ^ 15 * 8" "(2 :: int) ^ 62 = 16 ^ 15 * 4" by simp_all
  define n where "n = ?n"
  have "odd (n div 8)" "even (n div 4)"
    using o unfolding p n_def zdiv_zmult2_eq [OF zero_le_numeral] by blast+
  define q m where "q = n div 16" and "m = n mod 16"
  then have n: "n = m + 8 * (2 * q)" "n = m + 4 * (4 * q)" "0 \<le> m" "m < 16" by simp_all
  have "n div 8 = 2 * q + m div 8" unfolding n(1) by (rule div_mult_self2) simp
  moreover have "n div 4 = 4 * q + m div 4" unfolding n(2) by (rule div_mult_self2) simp
  ultimately have "odd (m div 8)" "even (m div 4)"
    using \<open>odd (n div 8)\<close> \<open>even (n div 4)\<close> by simp_all
  moreover have "m \<in> set [0..15]" using n(3,4) by simp
  ultimately have "m \<in> {8, 9, 10, 11}" by (auto simp: upto_rec1)
  then have "n mod 16 \<in> {8, 9, 10, 11}" unfolding m_def .
  then show "?n mod 16 \<in> {8, 9, 10, 11}" unfolding n_def .
qed

lemma uuid7_digits:
  assumes "is_uuid7 u"
  shows "hex_digits 32 (uint u) ! 12 = CHR ''7''"
    and "List.member ''89ab'' (hex_digits 32 (uint u) ! 16)"
proof -
  have v: "drop_bit 76 u AND 15 = 7" "bit u 63" "\<not> bit u 62"
    using assms by (auto simp: is_uuid7_def uuid_version_def split: if_splits)
  have "hex_digits 32 (uint u) ! 12 = hex_digit (uint u div 16 ^ 19 mod 16)"
    by (simp add: hex_digits_nth del: hex_digits.simps)
  then show "hex_digits 32 (uint u) ! 12 = CHR ''7''"
    unfolding version_digits(1) [OF v] by (simp add: hex_digit_def)
  have "hex_digits 32 (uint u) ! 16 = hex_digit (uint u div 16 ^ 15 mod 16)"
    by (simp add: hex_digits_nth del: hex_digits.simps)
  moreover have "\<forall>d \<in> {8, 9, 10, 11}. List.member ''89ab'' (hex_digit d)" by (simp add: hex_digit_def)
  ultimately show "List.member ''89ab'' (hex_digits 32 (uint u) ! 16)"
    using version_digits(2) [OF v] by metis
qed

lemma split_dash:
  assumes "\<forall>c \<in> set (a @ b @ c @ e @ f). lower_hex c"
  shows "split_on CHR ''-'' (a @ ''-'' @ b @ ''-'' @ c @ ''-'' @ e @ ''-'' @ f) = [a, b, c, e, f]"
proof -
  have "CHR ''-'' \<notin> set (a @ b @ c @ e @ f)" using assms lower_hex_no_separator by blast
  then show ?thesis by (simp add: split_on_append split_on_none)
qed

lemma uuid7_text_str: "is_uuid7 u \<Longrightarrow> uuid7_text (uuid_str u)"
proof -
  assume u: "is_uuid7 u"
  define h where "h = hex_digits 32 (uint u)"
  have h: "length h = 32" "\<forall>c \<in> set h. lower_hex c"
    using lower_hex_digits [of 32 "uint u"] by (simp_all add: h_def list_all_iff del: hex_digits.simps)
  have sub: "\<forall>c \<in> set (take n (drop m h)). lower_hex c" for n m
    using h(2) by (meson in_set_dropD in_set_takeD)
  have s: "uuid_str u = take 8 (drop 0 h) @ ''-'' @ take 4 (drop 8 h) @ ''-'' @ take 4 (drop 12 h) @ ''-''
      @ take 4 (drop 16 h) @ ''-'' @ take 12 (drop 20 h)"
    using h(1) by (simp add: uuid_str_def Let_def h_def [symmetric])
  have "split_on CHR ''-'' (uuid_str u)
    = [take 8 (drop 0 h), take 4 (drop 8 h), take 4 (drop 12 h), take 4 (drop 16 h), take 12 (drop 20 h)]"
    unfolding s by (rule split_dash) (use sub [of _ 0] sub in auto)
  moreover have "hd (take 4 (drop 12 h)) = h ! 12" "hd (take 4 (drop 16 h)) = h ! 16"
    using h(1) by (simp_all add: hd_drop_conv_nth)
  ultimately show ?thesis
    using h uuid7_digits [OF u]
    by (simp add: uuid7_text_def h_def [symmetric] list_all_iff) (blast dest: in_set_takeD in_set_dropD)
qed

lemma uuid_str_no_slash: "CHR ''/'' \<notin> set (uuid_str u)"
proof -
  have "CHR ''/'' \<notin> set (hex_digits 32 (uint u))"
    using lower_hex_digits [of 32 "uint u"] lower_hex_no_separator by (auto simp: list_all_iff)
  then show ?thesis unfolding uuid_str_def Let_def by (auto dest: in_set_dropD in_set_takeD)
qed

lemma built_key_ok:
  assumes "is_uuid7 owner" "is_uuid7 asset" "List.member [''source'', ''canonical.webp''] name"
  shows "storage_key_ok (''media/'' @ uuid_str owner @ ''/'' @ uuid_str asset @ ''/'' @ name)"
proof -
  have "split_on CHR ''/'' (''media/'' @ uuid_str owner @ ''/'' @ uuid_str asset @ ''/'' @ name)
    = [''media'', uuid_str owner, uuid_str asset, name]"
    using assms(3) split_on_append [of "CHR ''/''" "uuid_str owner"] split_on_append [of "CHR ''/''" "uuid_str asset"]
    by (auto simp: uuid_str_no_slash)
  then show ?thesis using assms by (simp add: storage_key_ok_def uuid7_text_str)
qed

end
