(* ===== verification/Media_Service.thy ===== *)
theory Media_Service
  imports Object_Storage Identity_Service
begin

section \<open>Uploads (media/service.py, media/cleanup.py)\<close>

text \<open>
  An operation works on the storage and in a transaction of the database: an exception gives up
  what the transaction wrote, but the storage keeps what was done to it. So the result is an error
  or a value with the new database, and in both cases the new state of the storage.
\<close>

type_synonym ('f, 'a) io = "'f \<Rightarrow> db \<Rightarrow> (py_error + 'a \<times> db) \<times> 'f"

definition io_bind :: "('f, 'a) io \<Rightarrow> ('a \<Rightarrow> ('f, 'b) io) \<Rightarrow> ('f, 'b) io" where
  "io_bind m k = (\<lambda>f d. case m f d of
       (Inl e, f') \<Rightarrow> (Inl e, f')
     | (Inr (x, d'), f') \<Rightarrow> k x f' d')"

definition io_tx :: "'a txn \<Rightarrow> ('f, 'a) io" where
  "io_tx m = (\<lambda>f d. (m d, f))"

text \<open>The request of such an operation: \<open>get_db_session\<close> rolls the transaction back on an error.\<close>

definition io_request :: "('f, 'a) io \<Rightarrow> 'f \<Rightarrow> db \<Rightarrow> (py_error + 'a) \<times> 'f \<times> db" where
  "io_request m f d = (case m f d of
       (Inl e, f') \<Rightarrow> (Inl e, f', d)
     | (Inr (x, d'), f') \<Rightarrow> (Inr x, f', d'))"

text \<open>
  A \<open>StorageError\<close> is a value, for the code catches it; another exception is raised. Replacing and
  deleting give the flag \<open>retryable\<close> of the error, if there was one.
\<close>

definition io_read :: "'f storage_ops \<Rightarrow> string \<Rightarrow> int \<Rightarrow> ('f, (string \<times> bool) + string) io" where
  "io_read ops k n = (\<lambda>f d. case so_read ops f k n of
       Inl (StorageValueError m) \<Rightarrow> (Inl (ValueError m), f)
     | Inl (StorageError code retryable) \<Rightarrow> (Inr (Inl (code, retryable), d), f)
     | Inr content \<Rightarrow> (Inr (Inr content, d), f))"

definition io_change :: "('f \<Rightarrow> storage_error + 'f) \<Rightarrow> ('f, bool option) io" where
  "io_change change = (\<lambda>f d. case change f of
       Inl (StorageValueError m) \<Rightarrow> (Inl (ValueError m), f)
     | Inl (StorageError code retryable) \<Rightarrow> (Inr (Some retryable, d), f)
     | Inr f' \<Rightarrow> (Inr (None, d), f'))"

definition io_replace :: "'f storage_ops \<Rightarrow> string \<Rightarrow> string \<Rightarrow> string \<Rightarrow> ('f, bool option) io" where
  "io_replace ops k content content_type = io_change (\<lambda>f. so_replace ops f k content content_type)"

definition io_delete :: "'f storage_ops \<Rightarrow> string \<Rightarrow> ('f, bool option) io" where
  "io_delete ops k = io_change (\<lambda>f. so_delete ops f k)"

subsection \<open>The service\<close>

record 'f media_service =
  ms_storage :: "'f storage_ops"
  ms_images :: image_library
  ms_upload_grant_seconds :: int
  ms_max_image_pixels :: int

definition mk_media_service ::
  "'f storage_ops \<Rightarrow> image_library \<Rightarrow> int \<Rightarrow> int \<Rightarrow> py_error + 'f media_service" where
  "mk_media_service ops lib upload_grant_seconds max_image_pixels =
     (if \<not> (60 \<le> upload_grant_seconds \<and> upload_grant_seconds \<le> 3600)
      then Inl (ValueError ''upload grant lifetime must be between 60 and 3600 seconds'')
      else if max_image_pixels < 1 then Inl (ValueError ''maximum image pixels must be positive'')
      else Inr \<lparr>ms_storage = ops, ms_images = lib, ms_upload_grant_seconds = upload_grant_seconds,
        ms_max_image_pixels = max_image_pixels\<rparr>)"

definition require_verified_actor :: "'z subject_scheme \<Rightarrow> py_error + unit" where
  "require_verified_actor p =
     (if sb_status p \<noteq> UserActive then Inl (ApiError ''forbidden'' ''errors.forbidden'' 403)
      else if \<not> sb_email_verified p
      then Inl (ApiError ''email_verification_required'' ''blockers.email_verification_required'' 403)
      else Inr ())"

text \<open>An exception of the storage that is not caught.\<close>

definition uncaught :: "storage_error \<Rightarrow> py_error" where
  "uncaught e = (case e of StorageError code _ \<Rightarrow> PyException code | StorageValueError m \<Rightarrow> ValueError m)"

definition upload_grant_for :: "'f media_service \<Rightarrow> media_row \<Rightarrow> instant \<Rightarrow> py_error + upload_grant" where
  "upload_grant_for svc asset now =
     (case so_grant (ms_storage svc) (ma_id asset) (ma_storage_key asset) (ma_content_type asset)
         (ma_byte_size asset) (now + ms_upload_grant_seconds svc * 1000000) of
        Inl e \<Rightarrow> Inl (uncaught e) | Inr g \<Rightarrow> Inr g)"

definition create_upload ::
  "'f media_service \<Rightarrow> 'z subject_scheme \<Rightarrow> upload_intent \<Rightarrow> instant \<Rightarrow> (media_row \<times> upload_grant) txn" where
  "create_upload svc p intent now =
     tx_bind (tx_lift (require_verified_actor p)) (\<lambda>_.
     tx_bind fresh_uuid (\<lambda>asset_id.
     tx_bind (tx_lift (build_storage_key (sb_user_id p) asset_id)) (\<lambda>storage_key.
     tx_bind (create_pending asset_id (sb_user_id p) storage_key intent) (\<lambda>asset.
     tx_bind (tx_lift (upload_grant_for svc asset now)) (\<lambda>grant.
     tx_return (asset, grant))))))"

definition find_owned :: "uuid \<Rightarrow> 'z subject_scheme \<Rightarrow> media_row txn" where
  "find_owned asset_id p =
     tx_bind (tx_guard (is_uuid7 asset_id) not_found) (\<lambda>_.
     tx_bind (get_owned asset_id (sb_user_id p)) (\<lambda>asset. case asset of
       None \<Rightarrow> tx_raise not_found | Some m \<Rightarrow> tx_return m))"

definition resume_upload ::
  "'f media_service \<Rightarrow> 'z subject_scheme \<Rightarrow> uuid \<Rightarrow> instant \<Rightarrow> (media_row \<times> upload_grant) txn" where
  "resume_upload svc p asset_id now =
     tx_bind (tx_lift (require_verified_actor p)) (\<lambda>_.
     tx_bind (find_owned asset_id p) (\<lambda>asset.
     tx_bind (tx_guard (ma_status asset = MediaPending) not_found) (\<lambda>_.
     tx_bind (tx_lift (upload_grant_for svc asset now)) (\<lambda>grant.
     tx_return (asset, grant)))))"

text \<open>\<open>_quarantine\<close>: the object is deleted, then the row is updated.\<close>

definition quarantine :: "'f media_service \<Rightarrow> media_row \<Rightarrow> string \<Rightarrow> ('f, unit) io" where
  "quarantine svc asset reason =
     io_bind (io_delete (ms_storage svc) (ma_storage_key asset)) (\<lambda>_.
     io_tx (tx_bind (mark_quarantined asset (take 128 reason)) (\<lambda>_. tx_return ())))"

definition reject_media :: "'f media_service \<Rightarrow> media_row \<Rightarrow> string \<Rightarrow> ('f, 'a) io" where
  "reject_media svc asset code =
     io_bind (quarantine svc asset code) (\<lambda>_. io_tx (tx_raise (ApiError code ''errors.validation'' 422)))"

definition media_unavailable :: py_error where
  "media_unavailable = ApiError ''media_unavailable'' ''errors.unavailable'' 503"

definition complete_pending :: "'f media_service \<Rightarrow> media_row \<Rightarrow> instant \<Rightarrow> ('f, media_row) io" where
  "complete_pending svc asset now =
     io_bind (io_read (ms_storage svc) (ma_storage_key asset) (max_upload_bytes + 1)) (\<lambda>read. case read of
       Inl (code, retryable) \<Rightarrow>
         if code = ''object_too_large'' then reject_media svc asset ''media_too_large''
         else io_tx (tx_raise (if retryable then ApiError ''media_not_ready'' ''errors.conflict'' 409
           else media_unavailable))
     | Inr source \<Rightarrow>
         if len source \<noteq> ma_byte_size asset then reject_media svc asset ''invalid_media''
         else (case verify_and_canonicalize (ms_images svc) source (ma_content_type asset)
             (ms_max_image_pixels svc) of
           Inl (MediaValueError m) \<Rightarrow> io_tx (tx_raise (ValueError m))
         | Inl (MediaValidationError code) \<Rightarrow> reject_media svc asset code
         | Inr verified \<Rightarrow>
             io_bind (io_tx (tx_lift (build_verified_storage_key (ma_owner_user_id asset) (ma_id asset))))
               (\<lambda>canonical_key.
             io_bind (io_replace (ms_storage svc) canonical_key (vi_content verified)
               (vi_content_type verified)) (\<lambda>replaced. case replaced of
               Some _ \<Rightarrow> io_tx (tx_raise media_unavailable)
             | None \<Rightarrow>
                 io_bind (io_tx (mark_verified asset canonical_key verified now)) (\<lambda>completed.
                 io_bind (io_delete (ms_storage svc) (ma_storage_key asset)) (\<lambda>_.
                 io_tx (tx_return completed)))))))"

definition complete_upload ::
  "'f media_service \<Rightarrow> 'z subject_scheme \<Rightarrow> uuid \<Rightarrow> instant \<Rightarrow> ('f, media_row) io" where
  "complete_upload svc p asset_id now =
     io_bind (io_tx (tx_bind (tx_lift (require_verified_actor p)) (\<lambda>_. find_owned asset_id p))) (\<lambda>asset.
     if ma_status asset = MediaVerified then io_tx (tx_return asset)
     else if ma_status asset \<noteq> MediaPending then io_tx (tx_raise not_found)
     else complete_pending svc asset now)"

definition require_verified_owned :: "uuid \<Rightarrow> uuid \<Rightarrow> media_row txn" where
  "require_verified_owned asset_id owner_user_id =
     tx_bind (tx_guard (is_uuid7 asset_id \<and> is_uuid7 owner_user_id) not_found) (\<lambda>_.
     tx_bind (get_owned asset_id owner_user_id) (\<lambda>asset. case asset of
       None \<Rightarrow> tx_raise not_found
     | Some m \<Rightarrow> tx_bind (tx_guard (ma_status m = MediaVerified) not_found) (\<lambda>_. tx_return m)))"

subsection \<open>Cleaning up\<close>

fun expire_each :: "'f media_service \<Rightarrow> media_row list \<Rightarrow> ('f, int) io" where
  "expire_each svc [] = io_tx (tx_return 0)"
| "expire_each svc (asset # rest) =
     io_bind (io_delete (ms_storage svc) (ma_storage_key asset)) (\<lambda>failed.
     if failed = Some True then expire_each svc rest
     else
       io_bind (io_tx (mark_deleted (ma_id asset))) (\<lambda>_.
       io_bind (expire_each svc rest) (\<lambda>n. io_tx (tx_return (n + 1)))))"

definition expire_abandoned :: "'f media_service \<Rightarrow> instant \<Rightarrow> int \<Rightarrow> int \<Rightarrow> ('f, int) io" where
  "expire_abandoned svc now pending_lifetime limit =
     io_bind (io_tx (tx_bind (tx_guard (0 < pending_lifetime)
         (ValueError ''pending media lifetime must be positive'')) (\<lambda>_.
       tx_bind (tx_guard (1 \<le> limit \<and> limit \<le> 1000)
         (ValueError ''media cleanup limit must be between 1 and 1000'')) (\<lambda>_.
       claim_abandoned (now - pending_lifetime) limit)))) (\<lambda>claimed.
     expire_each svc claimed)"

subsection \<open>Facts\<close>

lemma io_bind_Inr:
  "io_bind m k f d = (Inr (y, d'), f') \<longleftrightarrow>
     (\<exists>x d1 f1. m f d = (Inr (x, d1), f1) \<and> k x f1 d1 = (Inr (y, d'), f'))"
  by (auto simp: io_bind_def split: sum.splits prod.splits)

lemma io_tx_Inr: "io_tx m f d = (Inr (x, d'), f') \<longleftrightarrow> m d = Inr (x, d') \<and> f' = f"
  by (auto simp: io_tx_def)

lemma io_read_Inr:
  "io_read ops k n f d = (Inr (Inr c, d'), f') \<longleftrightarrow> so_read ops f k n = Inr c \<and> d' = d \<and> f' = f"
  by (auto simp: io_read_def split: sum.splits storage_error.splits)

lemma io_change_None:
  "io_change change f d = (Inr (None, d'), f') \<longleftrightarrow> change f = Inr f' \<and> d' = d"
  by (auto simp: io_change_def split: sum.splits storage_error.splits)

lemma io_change_state:
  "io_change change f d = (Inr (r, d'), f') \<Longrightarrow> d' = d \<and> f' = (case change f of Inl _ \<Rightarrow> f | Inr g \<Rightarrow> g)"
  by (auto simp: io_change_def split: sum.splits storage_error.splits)

lemma reject_never_commits: "reject_media svc asset code f d \<noteq> (Inr (x, d'), f')"
  by (auto simp: reject_media_def io_bind_Inr io_tx_Inr tx_raise_eq)

lemma find_owned_Inr:
  "find_owned i p d = Inr (m, d') \<longleftrightarrow> d' = d \<and> is_uuid7 i
     \<and> one_or_none (\<lambda>m. ma_id m = i \<and> ma_owner_user_id m = sb_user_id p) (t_media_assets d) = Some m"
  by (auto simp: find_owned_def tx_bind_eq tx_guard_eq get_owned_eq tx_raise_eq tx_return_eq split: option.splits)

text \<open>What a committed completion of a pending asset did.\<close>

lemma complete_pending_cases:
  assumes "complete_pending svc asset now f d = (Inr (m, d'), f')"
  obtains source v key f1 where "so_read (ms_storage svc) f (ma_storage_key asset) (max_upload_bytes + 1) = Inr source"
    "len source = ma_byte_size asset"
    "verify_and_canonicalize (ms_images svc) source (ma_content_type asset) (ms_max_image_pixels svc) = Inr v"
    "build_verified_storage_key (ma_owner_user_id asset) (ma_id asset) = Inr key"
    "so_replace (ms_storage svc) f key (vi_content v) (vi_content_type v) = Inr f1"
    "mark_verified asset key v now d = Inr (m, d')"
    "f' = (case so_delete (ms_storage svc) f1 (ma_storage_key asset) of Inl _ \<Rightarrow> f1 | Inr f2 \<Rightarrow> f2)"
proof -
  obtain r d1 f1 where r: "io_read (ms_storage svc) (ma_storage_key asset) (max_upload_bytes + 1) f d
      = (Inr (r, d1), f1)"
    using assms unfolding complete_pending_def io_bind_Inr by blast
  have "\<exists>source. r = Inr source \<and> len source = ma_byte_size asset"
  proof (cases r)
    case (Inl e)
    then show ?thesis using assms r
      by (cases e) (simp add: complete_pending_def io_bind_def [of "io_read _ _ _"] reject_never_commits io_tx_Inr
          tx_raise_eq split: if_splits)
  next
    case (Inr source)
    then show ?thesis using assms r
      by (simp add: complete_pending_def io_bind_def [of "io_read _ _ _"] reject_never_commits split: if_splits)
  qed
  then obtain source where source: "so_read (ms_storage svc) f (ma_storage_key asset) (max_upload_bytes + 1) = Inr source"
    "len source = ma_byte_size asset"
    using r by (auto simp: io_read_Inr)
  have rest: "(case verify_and_canonicalize (ms_images svc) source (ma_content_type asset)
             (ms_max_image_pixels svc) of
           Inl (MediaValueError m) \<Rightarrow> io_tx (tx_raise (ValueError m))
         | Inl (MediaValidationError code) \<Rightarrow> reject_media svc asset code
         | Inr verified \<Rightarrow>
             io_bind (io_tx (tx_lift (build_verified_storage_key (ma_owner_user_id asset) (ma_id asset))))
               (\<lambda>canonical_key.
             io_bind (io_replace (ms_storage svc) canonical_key (vi_content verified)
               (vi_content_type verified)) (\<lambda>replaced. case replaced of
               Some _ \<Rightarrow> io_tx (tx_raise media_unavailable)
             | None \<Rightarrow>
                 io_bind (io_tx (mark_verified asset canonical_key verified now)) (\<lambda>completed.
                 io_bind (io_delete (ms_storage svc) (ma_storage_key asset)) (\<lambda>_.
                 io_tx (tx_return completed)))))) f d = (Inr (m, d'), f')"
    using assms source by (simp add: complete_pending_def io_bind_def io_read_def)
  obtain v where v: "verify_and_canonicalize (ms_images svc) source (ma_content_type asset)
      (ms_max_image_pixels svc) = Inr v"
    using rest by (auto simp: io_tx_Inr tx_raise_eq reject_never_commits split: sum.splits media_error.splits)
  from rest v obtain key f1 d1 d2 r where k: "build_verified_storage_key (ma_owner_user_id asset) (ma_id asset) = Inr key"
    "io_replace (ms_storage svc) key (vi_content v) (vi_content_type v) f d = (Inr (None, d1), f1)"
    "mark_verified asset key v now d1 = Inr (m, d2)"
    "io_delete (ms_storage svc) (ma_storage_key asset) f1 d2 = (Inr (r, d'), f')"
    by (auto simp: io_bind_Inr io_tx_Inr tx_lift_eq tx_raise_eq tx_return_eq split: option.splits)
  show thesis
    using that [OF source v k(1)] k(2,3) io_change_state [OF k(4) [unfolded io_delete_def]]
    by (auto simp: io_replace_def io_change_None)
qed

lemma complete_upload_cases:
  assumes "complete_upload svc p i now f d = (Inr (m, d'), f')"
  obtains (again) "m \<in> set (t_media_assets d)" "ma_status m = MediaVerified" "ma_owner_user_id m = sb_user_id p"
      "ma_id m = i" "d' = d" "f' = f"
  | (verified) asset where "is_uuid7 i" "sb_status p = UserActive" "sb_email_verified p"
      "asset \<in> set (t_media_assets d)" "ma_status asset = MediaPending"
      "ma_id asset = i" "ma_owner_user_id asset = sb_user_id p"
      "complete_pending svc asset now f d = (Inr (m, d'), f')"
proof -
  obtain asset where a: "is_uuid7 i" "sb_status p = UserActive" "sb_email_verified p"
    "one_or_none (\<lambda>m. ma_id m = i \<and> ma_owner_user_id m = sb_user_id p) (t_media_assets d) = Some asset"
    "(if ma_status asset = MediaVerified then io_tx (tx_return asset)
     else if ma_status asset \<noteq> MediaPending then io_tx (tx_raise not_found)
     else complete_pending svc asset now) f d = (Inr (m, d'), f')"
    using assms by (auto simp: complete_upload_def io_bind_Inr io_tx_Inr tx_bind_eq tx_lift_eq
        find_owned_Inr require_verified_actor_def split: if_splits)
  note asset = one_or_none_Some [OF a(4)]
  show thesis
    using a asset that by (auto simp: io_tx_Inr tx_return_eq tx_raise_eq split: if_splits)
qed

end
