(* ===== verification/Event_Service.thy ===== *)
theory Event_Service
  imports Event_Access Eligibility Media_Service
begin

section \<open>Managing events (events/service.py)\<close>

text \<open>
  The service checks who may act, validates against the regional policy, writes through the
  repository and audits. \<open>zones\<close> are the installed time zones, \<open>cfg\<close> configures the eligibility
  service, whose flag \<open>el_feature_flags\<close> also says whether the service has the settings service.
\<close>

definition create_blockers :: "string list" where
  "create_blockers = [''account_unavailable'', ''email_verification_required'', ''profile_incomplete'',
     ''rules_acceptance_required'', ''region_unavailable'', ''independent_event_limit_reached'']"

definition blocked :: "string \<Rightarrow> py_error" where
  "blocked code = ApiError code (''blockers.'' @ code) 403"

definition invalid_input_event :: "string \<Rightarrow> py_error" where
  "invalid_input_event code = ApiError code ''errors.validation'' 422"

definition event_transition_error :: py_error where
  "event_transition_error = ApiError ''invalid_event_transition'' ''errors.conflict'' 409"

text \<open>\<open>except EventValidationError as error: raise _invalid(error.code)\<close>\<close>

definition as_api_error :: "py_error + 'a \<Rightarrow> py_error + 'a" where
  "as_api_error r = (case r of Inl (EventValidationError code) \<Rightarrow> Inl (invalid_input_event code) | _ \<Rightarrow> r)"

subsection \<open>Authorisation\<close>

definition blocker_of :: "capabilities \<Rightarrow> string" where
  "blocker_of c = (case List.find (List.member (cp_blockers c)) create_blockers of
     None \<Rightarrow> ''forbidden'' | Some b \<Rightarrow> b)"

definition authorize_creation ::
  "eligibility_config \<Rightarrow> 'z subject_scheme \<Rightarrow> ownership_type \<Rightarrow> uuid option \<Rightarrow> capabilities \<Rightarrow> unit txn" where
  "authorize_creation cfg p ownership club_id c =
     tx_bind (tx_guard (sb_status p = UserActive) (blocked ''forbidden'')) (\<lambda>_.
     case ownership of
       Independent \<Rightarrow>
         tx_bind (if el_feature_flags cfg then require_enabled ''features.independent_event_creation_enabled''
           else tx_return ()) (\<lambda>_.
         tx_guard (cp_create_independent_event c) (blocked (blocker_of c)))
     | ClubOwned \<Rightarrow>
         tx_bind (tx_guard (cp_save_event c) (blocked (blocker_of c))) (\<lambda>_.
         case club_id of
           None \<Rightarrow> tx_raise (invalid_input_event ''invalid_event'')
         | Some club \<Rightarrow> require_event_manager p club))"

definition authorize_event_manager :: "'z subject_scheme \<Rightarrow> event \<Rightarrow> unit txn" where
  "authorize_event_manager p e =
     tx_bind (tx_guard (sb_status p = UserActive \<and> ev_status e \<noteq> EvSuspended) (blocked ''forbidden'')) (\<lambda>_.
     case ev_ownership_type e of
       Independent \<Rightarrow> tx_guard (ev_club_id e = None \<and> ev_owner_user_id e = Some (sb_user_id p)) (blocked ''forbidden'')
     | ClubOwned \<Rightarrow>
         (case (ev_owner_user_id e, ev_club_id e) of
            (None, Some club) \<Rightarrow> require_event_manager p club
          | _ \<Rightarrow> tx_raise (blocked ''forbidden'')))"

definition find_event :: "uuid \<Rightarrow> event txn" where
  "find_event event_id =
     tx_bind (tx_guard (is_uuid7 event_id) not_found) (\<lambda>_.
     tx_bind (get_event event_id) (\<lambda>event. case event of
       None \<Rightarrow> tx_raise not_found | Some e \<Rightarrow> tx_return e))"

text \<open>Finding an event and checking that the principal manages it, as every operation begins.\<close>

definition managed_event :: "'z subject_scheme \<Rightarrow> uuid \<Rightarrow> event txn" where
  "managed_event p event_id =
     tx_bind (find_event event_id) (\<lambda>e. tx_bind (authorize_event_manager p e) (\<lambda>_. tx_return e))"

definition event_record :: "'z subject_scheme \<Rightarrow> string \<Rightarrow> event \<Rightarrow> uuid \<Rightarrow> json option \<Rightarrow> unit txn" where
  "event_record p action e request_id safe_before =
     tx_bind (audit_record \<lparr>ae_actor_user_id = Some (sb_user_id p), ae_actor_kind = Organizer, ae_action = action,
       ae_target_type = ''event'', ae_target_id = Some (ev_id e), ae_reason = None, ae_safe_before = safe_before,
       ae_safe_after = Some (JObj [(''status'', JStr (event_status_name (ev_status e))),
         (''revision'', JInt (ev_revision e))]),
       ae_request_id = Some request_id\<rparr>) (\<lambda>_. tx_return ())"

definition event_snapshot :: "event \<Rightarrow> json" where
  "event_snapshot e = JObj [(''status'', JStr (event_status_name (ev_status e))), (''revision'', JInt (ev_revision e))]"

subsection \<open>The policy of the region\<close>

definition region_policy_for :: "string option \<Rightarrow> region_policy option txn" where
  "region_policy_for country_code =
     (case country_code of None \<Rightarrow> tx_return None
      | Some code \<Rightarrow> tx_bind (get_policy code) (\<lambda>p. tx_return (Some p)))"

definition with_policy_defaults :: "event \<Rightarrow> region_policy \<Rightarrow> event" where
  "with_policy_defaults e policy = e\<lparr>
     ev_cash_expiry_minutes := (if ev_registration_method e = Some CashOrganizerConfirmed
         \<and> ev_cash_expiry_minutes e = None
       then Some (rp_cash_default_minutes policy) else ev_cash_expiry_minutes e),
     ev_cancellation_cutoff_minutes := (if ev_cancellation_cutoff_minutes e = None
       then Some (rp_cancellation_default_minutes policy) else ev_cancellation_cutoff_minutes e)\<rparr>"

definition validate_draft_policy :: "event \<Rightarrow> region_policy \<Rightarrow> py_error + unit" where
  "validate_draft_policy e policy =
     res_bind (res_guard (case ev_registration_method e of None \<Rightarrow> True
       | Some m \<Rightarrow> List.member (rp_allowed_registration_methods policy) m)
       (invalid_input_event ''registration_method_not_allowed'')) (\<lambda>_.
     res_bind (res_guard (\<not> (ev_registration_method e = Some CashOrganizerConfirmed
         \<and> ev_cash_expiry_minutes e \<noteq> None \<and> \<not> in_bounds (ev_cash_expiry_minutes e) (rp_cash_bounds policy)))
       (invalid_input_event ''invalid_event_deadline'')) (\<lambda>_.
     res_guard (ev_cancellation_cutoff_minutes e = None
         \<or> in_bounds (ev_cancellation_cutoff_minutes e) (rp_cancellation_bounds policy))
       (invalid_input_event ''invalid_event_deadline'')))"

definition check_publishable :: "event \<Rightarrow> region_policy \<Rightarrow> instant \<Rightarrow> py_error + unit" where
  "check_publishable e policy now = as_api_error (validate_publishable e policy (Aware now 0))"

definition check_published :: "event \<Rightarrow> region_policy \<Rightarrow> py_error + unit" where
  "check_published e policy = as_api_error (validate_published_event e policy)"

subsection \<open>Creating\<close>

definition new_record :: "uuid \<Rightarrow> 'z subject_scheme \<Rightarrow> instant new_event \<Rightarrow> instant \<Rightarrow> event" where
  "new_record i p v now =
     \<lparr>ev_id = i, ev_ownership_type = ne_ownership_type v, ev_club_id = ne_club_id v,
      ev_owner_user_id = (if ne_ownership_type v = Independent then Some (sb_user_id p) else None),
      ev_title = ne_title v, ev_description = ne_description v, ev_start_at = ne_start_at v,
      ev_end_at = ne_end_at v, ev_time_zone = ne_time_zone v, ev_capacity = ne_capacity v,
      ev_visibility = ne_visibility v, ev_status = (if ne_publish v then EvPublished else EvDraft),
      ev_registration_method = ne_registration_method v, ev_cash_expiry_minutes = ne_cash_expiry_minutes v,
      ev_cancellation_cutoff_minutes = ne_cancellation_cutoff_minutes v, ev_district = ne_district v,
      ev_public_meeting_area = ne_public_meeting_area v, ev_exact_address = ne_exact_address v,
      ev_latitude = ne_latitude v, ev_longitude = ne_longitude v,
      ev_exact_venue_is_public = ne_exact_venue_is_public v, ev_cover_media_id = ne_cover_media_id v,
      ev_revision = 1, ev_published_at = (if ne_publish v then Some now else None), ev_cancelled_at = None,
      ev_completed_at = None, ev_suspended_at = None, ev_suspension_reason = None, ev_created_at = now,
      ev_updated_at = now, ev_category_slug = ne_category_slug v, ev_country_code = ne_country_code v,
      ev_city_slug = ne_city_slug v\<rparr>"

text \<open>The policy applied to a new event, with its defaults when it is published at once.\<close>

definition prepare_new :: "event \<Rightarrow> bool \<Rightarrow> region_policy option \<Rightarrow> instant \<Rightarrow> py_error + event" where
  "prepare_new e publish policy now =
     (case policy of
        None \<Rightarrow> if publish then Inl (invalid_input_event ''event_not_publishable'') else Inr e
      | Some pol \<Rightarrow>
          if publish
          then let e' = with_policy_defaults e pol in res_bind (check_publishable e' pol now) (\<lambda>_. Inr e')
          else res_bind (validate_draft_policy e pol) (\<lambda>_. Inr e))"

definition require_cover :: "uuid option \<Rightarrow> 'z subject_scheme \<Rightarrow> unit txn" where
  "require_cover cover p =
     (case cover of None \<Rightarrow> tx_return ()
      | Some m \<Rightarrow> tx_bind (require_verified_owned m (sb_user_id p)) (\<lambda>_. tx_return ()))"

definition resolve_for :: "event \<Rightarrow> event_references txn" where
  "resolve_for e = resolve_references (ev_category_slug e) (ev_country_code e) (ev_city_slug e)"

definition service_create ::
  "(string \<Rightarrow> bool) \<Rightarrow> eligibility_config \<Rightarrow> principal \<Rightarrow> datetime new_event \<Rightarrow> uuid \<Rightarrow> instant \<Rightarrow> event txn" where
  "service_create zones cfg p v request_id now =
     tx_bind (tx_lift (as_api_error (normalize_new_event zones v))) (\<lambda>normalized.
     tx_bind (lock_creation (sb_user_id p)) (\<lambda>_.
     tx_bind (evaluate cfg p) (\<lambda>c.
     tx_bind (authorize_creation cfg p (ne_ownership_type normalized) (ne_club_id normalized) c) (\<lambda>_.
     tx_bind (region_policy_for (ne_country_code normalized)) (\<lambda>policy.
     tx_bind fresh_uuid (\<lambda>i.
     tx_bind (tx_lift (prepare_new (new_record i p normalized now) (ne_publish normalized) policy now)) (\<lambda>e.
     tx_bind (require_cover (ev_cover_media_id e) p) (\<lambda>_.
     tx_bind (resolve_for e) (\<lambda>refs.
     tx_bind (create_event e refs) (\<lambda>created.
     tx_bind (event_record p ''event.create'' created request_id None) (\<lambda>_.
     tx_bind (if ev_status created = EvPublished
       then event_record p ''event.publish'' created request_id
         (Some (JObj [(''status'', JStr ''draft''), (''revision'', JInt 0)]))
       else tx_return ()) (\<lambda>_.
     tx_return created))))))))))))"

subsection \<open>Reading\<close>

definition service_list_managed :: "'z subject_scheme \<Rightarrow> event list txn" where
  "service_list_managed p = list_managed (sb_user_id p)"

definition service_get :: "'z subject_scheme \<Rightarrow> uuid \<Rightarrow> event txn" where
  "service_get p event_id = managed_event p event_id"

definition authorize_replay :: "'z subject_scheme \<Rightarrow> uuid \<Rightarrow> unit txn" where
  "authorize_replay p event_id = tx_bind (managed_event p event_id) (\<lambda>_. tx_return ())"

subsection \<open>Updating\<close>

text \<open>The candidate of a patch under the policy: published now, already published, or still a draft.\<close>

definition prepare_update ::
  "event \<Rightarrow> event \<Rightarrow> event_patch \<Rightarrow> region_policy option \<Rightarrow> instant \<Rightarrow> py_error + event" where
  "prepare_update e candidate patch policy now =
     (if ev_status e = EvDraft \<and> ep_publish patch = Some True
      then (case policy of
          None \<Rightarrow> Inl (invalid_input_event ''event_not_publishable'')
        | Some pol \<Rightarrow>
            let c = with_policy_defaults (candidate\<lparr>ev_status := EvPublished, ev_published_at := Some now\<rparr>) pol in
            res_bind (check_publishable c pol now) (\<lambda>_. Inr c))
      else if ev_status e = EvPublished
      then (case policy of
          None \<Rightarrow> Inl (invalid_input_event ''event_not_publishable'')
        | Some pol \<Rightarrow>
            res_bind (if List.member (ep_changed_fields patch) ''start_at''
              then check_publishable candidate pol now else check_published candidate pol) (\<lambda>_. Inr candidate))
      else (case policy of
          None \<Rightarrow> Inr candidate
        | Some pol \<Rightarrow> res_bind (validate_draft_policy candidate pol) (\<lambda>_. Inr candidate)))"

definition service_update ::
  "(string \<Rightarrow> bool) \<Rightarrow> 'z subject_scheme \<Rightarrow> uuid \<Rightarrow> event_patch \<Rightarrow> uuid \<Rightarrow> instant \<Rightarrow> event txn" where
  "service_update zones p event_id patch request_id now =
     tx_bind (managed_event p event_id) (\<lambda>e.
     tx_bind (tx_guard (ev_status e \<in> {EvDraft, EvPublished}) event_transition_error) (\<lambda>_.
     tx_bind (tx_guard (ep_revision patch = ev_revision e) stale_revision) (\<lambda>_.
     tx_bind (tx_lift (as_api_error (apply_event_patch zones e patch))) (\<lambda>patched.
     tx_bind (tx_guard (\<not> (ev_status e = EvPublished \<and> List.member (ep_changed_fields patch) ''publish''))
       event_transition_error) (\<lambda>_.
     tx_bind (region_policy_for (ev_country_code patched)) (\<lambda>policy.
     tx_bind (tx_lift (prepare_update e patched patch policy now)) (\<lambda>candidate.
     tx_bind (if List.member (ep_changed_fields patch) ''cover_media_id''
       then require_cover (ev_cover_media_id candidate) p else tx_return ()) (\<lambda>_.
     tx_bind (resolve_for candidate) (\<lambda>refs.
     tx_bind (update_event candidate refs (ep_revision patch)) (\<lambda>updated.
     tx_bind (if ev_visibility e = PrivateLink \<and> ev_visibility updated \<noteq> PrivateLink
       then revoke_invite_tokens (ev_id updated) now else tx_return ()) (\<lambda>_.
     tx_bind (event_record p ''event.update'' updated request_id (Some (event_snapshot e))) (\<lambda>_.
     tx_bind (if ev_status e = EvDraft \<and> ep_publish patch = Some True
       then event_record p ''event.publish'' updated request_id
         (Some (JObj [(''status'', JStr ''draft''), (''revision'', JInt (ev_revision e))]))
       else tx_return ()) (\<lambda>_.
     tx_return updated)))))))))))))"

subsection \<open>Cancelling and completing\<close>

definition service_transition ::
  "'z subject_scheme \<Rightarrow> uuid \<Rightarrow> int \<Rightarrow> event_status \<Rightarrow> uuid \<Rightarrow> instant \<Rightarrow> event txn" where
  "service_transition p event_id revision target request_id now =
     tx_bind (managed_event p event_id) (\<lambda>e.
     tx_bind (tx_guard (revision = ev_revision e) stale_revision) (\<lambda>_.
     tx_bind (tx_guard (ev_status e = EvPublished) event_transition_error) (\<lambda>_.
     tx_bind (tx_guard (\<not> (target = EvCompleted \<and>
         (case ev_end_at e of None \<Rightarrow> True | Some t \<Rightarrow> now < t))) event_transition_error) (\<lambda>_.
     tx_bind (transition_event (ev_id e) revision target now) (\<lambda>updated.
     tx_bind (event_record p (''event.'' @ event_status_name target) updated request_id
       (Some (event_snapshot e))) (\<lambda>_.
     tx_return updated))))))"

definition service_cancel :: "'z subject_scheme \<Rightarrow> uuid \<Rightarrow> int \<Rightarrow> uuid \<Rightarrow> instant \<Rightarrow> event txn" where
  "service_cancel p event_id revision request_id now =
     service_transition p event_id revision EvCancelled request_id now"

definition service_complete :: "'z subject_scheme \<Rightarrow> uuid \<Rightarrow> int \<Rightarrow> uuid \<Rightarrow> instant \<Rightarrow> event txn" where
  "service_complete p event_id revision request_id now =
     service_transition p event_id revision EvCompleted request_id now"

subsection \<open>Deleting and duplicating\<close>

definition service_delete_draft :: "'z subject_scheme \<Rightarrow> uuid \<Rightarrow> int \<Rightarrow> uuid \<Rightarrow> unit txn" where
  "service_delete_draft p event_id revision request_id =
     tx_bind (managed_event p event_id) (\<lambda>e.
     tx_bind (tx_guard (ev_status e = EvDraft) event_transition_error) (\<lambda>_.
     tx_bind (tx_guard (revision = ev_revision e) stale_revision) (\<lambda>_.
     tx_bind (delete_draft (ev_id e) revision) (\<lambda>deleted.
     tx_bind (tx_guard deleted stale_revision) (\<lambda>_.
     tx_bind (audit_record \<lparr>ae_actor_user_id = Some (sb_user_id p), ae_actor_kind = Organizer,
       ae_action = ''event.delete_draft'', ae_target_type = ''event'', ae_target_id = Some (ev_id e),
       ae_reason = None, ae_safe_before = Some (event_snapshot e), ae_safe_after = None,
       ae_request_id = Some request_id\<rparr>) (\<lambda>_.
     tx_return ()))))))"

text \<open>The copy of an event: a draft with the same content, owned by the one who duplicates it.\<close>

definition duplicate_of :: "event \<Rightarrow> uuid \<Rightarrow> 'z subject_scheme \<Rightarrow> instant \<Rightarrow> event" where
  "duplicate_of e i p now = e\<lparr>ev_id := i,
     ev_owner_user_id := (if ev_ownership_type e = Independent then Some (sb_user_id p) else None),
     ev_status := EvDraft, ev_revision := 1, ev_published_at := None, ev_cancelled_at := None,
     ev_completed_at := None, ev_suspended_at := None, ev_suspension_reason := None,
     ev_created_at := now, ev_updated_at := now\<rparr>"

definition service_duplicate :: "eligibility_config \<Rightarrow> principal \<Rightarrow> uuid \<Rightarrow> uuid \<Rightarrow> instant \<Rightarrow> event txn" where
  "service_duplicate cfg p event_id request_id now =
     tx_bind (managed_event p event_id) (\<lambda>source.
     tx_bind (lock_creation (sb_user_id p)) (\<lambda>_.
     tx_bind (evaluate cfg p) (\<lambda>c.
     tx_bind (authorize_creation cfg p (ev_ownership_type source) (ev_club_id source) c) (\<lambda>_.
     tx_bind fresh_uuid (\<lambda>i.
     let copy = duplicate_of source i p now in
     tx_bind (resolve_for copy) (\<lambda>refs.
     tx_bind (create_event copy refs) (\<lambda>created.
     tx_bind (audit_record \<lparr>ae_actor_user_id = Some (sb_user_id p), ae_actor_kind = Organizer,
       ae_action = ''event.duplicate'', ae_target_type = ''event'', ae_target_id = Some (ev_id created),
       ae_reason = None, ae_safe_before = Some (JObj [(''source_event_id'', JStr (uuid_str (ev_id source)))]),
       ae_safe_after = Some (JObj [(''status'', JStr ''draft''), (''revision'', JInt 1)]),
       ae_request_id = Some request_id\<rparr>) (\<lambda>_.
     tx_return created))))))))"

subsection \<open>The workspace (events/routes.py)\<close>

definition workspace_capabilities :: "event \<Rightarrow> string list" where
  "workspace_capabilities e =
     (case ev_status e of
        EvDraft \<Rightarrow> [''edit'', ''duplicate'', ''delete_draft'', ''preview'']
      | EvPublished \<Rightarrow> [''edit'', ''duplicate'', ''cancel'', ''complete'', ''preview'']
      | EvCancelled \<Rightarrow> [''duplicate'', ''preview'']
      | EvCompleted \<Rightarrow> [''duplicate'', ''preview'']
      | EvSuspended \<Rightarrow> [''preview''])"

definition validation_blockers :: "event \<Rightarrow> string list" where
  "validation_blockers e =
     map fst (filter snd
       [(''description'', py_strip (ev_description e) = []),
        (''category_slug'', ev_category_slug e \<in> {None, Some []}),
        (''country_code'', ev_country_code e \<in> {None, Some []}),
        (''city_slug'', ev_city_slug e \<in> {None, Some []}),
        (''start_at'', ev_start_at e = None), (''end_at'', ev_end_at e = None),
        (''time_zone'', ev_time_zone e \<in> {None, Some []}),
        (''registration_method'', ev_registration_method e = None),
        (''cancellation_cutoff_minutes'', ev_cancellation_cutoff_minutes e = None)])
     @ (if later (ev_start_at e) (ev_end_at e) then [] else [''schedule''])
     @ (if (ev_latitude e = None) \<noteq> (ev_longitude e = None) then [''coordinates''] else [])"

end
