(* ===== verification/Club_Service.thy ===== *)
theory Club_Service
  imports Membership_Service Event_Service
begin

section \<open>Managing clubs (clubs/service.py)\<close>

text \<open>
  Creating and editing a club: the fields are normalized, the references resolved, and a draft is
  published as soon as its required fields are there. \<open>bracket_ok\<close> is the check of a bracketed
  host in \<open>urlsplit\<close> of Python's library, which differs between its releases.
\<close>

record new_club =
  nc_slug :: string
  nc_name :: string
  nc_description :: "string option"
  nc_category_slug :: "string option"
  nc_country_code :: "string option"
  nc_city_slug :: "string option"
  nc_membership_policy :: membership_policy
  nc_social_links :: "(string \<times> string) list option"
  nc_logo_media_id :: "uuid option"
  nc_cover_media_id :: "uuid option"

record club_patch =
  kp_revision :: int
  kp_changed_fields :: "string list"
  kp_slug :: "string option"
  kp_name :: "string option"
  kp_description :: "string option"
  kp_category_slug :: "string option"
  kp_country_code :: "string option"
  kp_city_slug :: "string option"
  kp_membership_policy :: "membership_policy option"
  kp_social_links :: "(string \<times> string) list option"
  kp_logo_media_id :: "uuid option"
  kp_cover_media_id :: "uuid option"

subsection \<open>The parts of a URL (urllib.parse.urlsplit)\<close>

definition scheme_char :: "char \<Rightarrow> bool" where
  "scheme_char c \<longleftrightarrow> py_alnum c \<or> c = CHR ''+'' \<or> c = CHR ''-'' \<or> c = CHR ''.''"

definition cleaned_url :: "string \<Rightarrow> string" where
  "cleaned_url url = filter (\<lambda>c. of_char c \<notin> {9, 10, 13 :: int})
     (dropWhile (\<lambda>c. (of_char c :: int) \<le> 32) url)"

definition until :: "(char \<Rightarrow> bool) \<Rightarrow> string \<Rightarrow> string" where
  "until P s = takeWhile (\<lambda>c. \<not> P c) s"

definition split_scheme :: "string \<Rightarrow> string \<times> string" where
  "split_scheme url =
     (let s = until (\<lambda>c. c = CHR '':'') url in
      if s \<noteq> [] \<and> length s < length url \<and> py_alpha (hd s) \<and> list_all scheme_char s
      then (py_lower s, drop (length s + 1) url) else ('''', url))"

definition url_netloc :: "string \<Rightarrow> string" where
  "url_netloc rest =
     (if take 2 rest = ''//''
      then until (\<lambda>c. c = CHR ''/'' \<or> c = CHR ''?'' \<or> c = CHR ''#'') (drop 2 rest) else '''')"

text \<open>\<open>rpartition('@')\<close>: what follows the last one; the user part is there when there is one.\<close>

definition host_part :: "string \<Rightarrow> string" where
  "host_part netloc = rev (until (\<lambda>c. c = CHR ''@'') (rev netloc))"

definition url_host :: "string \<Rightarrow> string option" where
  "url_host netloc =
     (let h = host_part netloc;
          name = (if CHR ''['' \<in> set h
            then until (\<lambda>c. c = CHR '']'') (drop (length (until (\<lambda>c. c = CHR ''['') h) + 1) h)
            else until (\<lambda>c. c = CHR '':'') h)
      in if name = [] then None else Some name)"

definition url_has_user :: "string \<Rightarrow> bool" where
  "url_has_user netloc \<longleftrightarrow> CHR ''@'' \<in> set netloc"

definition urlsplit :: "(string \<Rightarrow> bool) \<Rightarrow> string \<Rightarrow> py_error + (string \<times> string)" where
  "urlsplit bracket_ok url =
     (let (scheme, rest) = split_scheme (cleaned_url url); netloc = url_netloc rest;
          opened = CHR ''['' \<in> set netloc; closed = CHR '']'' \<in> set netloc in
      if opened \<noteq> closed \<or> opened \<and> closed \<and> \<not> bracket_ok netloc
      then Inl (ValueError ''Invalid IPv6 URL'') else Inr (scheme, netloc))"

subsection \<open>Normalization\<close>

definition required_fields :: "string list" where
  "required_fields = [''description'', ''category_slug'', ''country_code'', ''city_slug'']"

definition missing_fields ::
  "string option \<Rightarrow> string option \<Rightarrow> string option \<Rightarrow> string option \<Rightarrow> string list" where
  "missing_fields description category_slug country_code city_slug =
     map fst (filter (\<lambda>(f, v). v = None)
       (zip required_fields [description, category_slug, country_code, city_slug]))"

definition club_missing :: "club \<Rightarrow> string list" where
  "club_missing c = missing_fields (cl_description c) (cl_category_slug c) (cl_country_code c) (cl_city_slug c)"

text \<open>
  \<open>UUID(text)\<close> accepts 32 hexadecimal digits with dashes anywhere; \<open>int\<close> takes a prefix \<open>0x\<close>
  for two of them. A slug has no braces, colons or capitals.
\<close>

definition slug_is_uuid :: "string \<Rightarrow> bool" where
  "slug_is_uuid s \<longleftrightarrow>
     (let h = filter (\<lambda>c. c \<noteq> CHR ''-'') s in
      length h = 32 \<and> list_all (\<lambda>c. hex_value c \<noteq> None) (if take 2 h = ''0x'' then drop 2 h else h))"

definition normalize_club_slug :: "string \<Rightarrow> py_error + string" where
  "normalize_club_slug value =
     (let normalized = py_lower (py_strip value) in
      if \<not> (2 \<le> len normalized \<and> len normalized \<le> 80) \<or> \<not> club_slug_pattern normalized
         \<or> slug_is_uuid normalized
      then Inl invalid_club else Inr normalized)"

definition normalize_name :: "string \<Rightarrow> py_error + string" where
  "normalize_name value =
     (let normalized = py_strip value in
      if 2 \<le> len normalized \<and> len normalized \<le> 120 then Inr normalized else Inl invalid_club)"

definition normalize_description :: "string option \<Rightarrow> py_error + string option" where
  "normalize_description value =
     (case value of
        None \<Rightarrow> Inr None
      | Some v \<Rightarrow>
          let normalized = py_strip v in
          if normalized = [] then Inr None
          else if len normalized > 20000 then Inl invalid_club
          else Inr (Some normalized))"

definition normalize_optional_slug :: "string option \<Rightarrow> py_error + string option" where
  "normalize_optional_slug value =
     (case value of
        None \<Rightarrow> Inr None
      | Some v \<Rightarrow>
          let normalized = py_lower (py_strip v) in
          if normalized = [] \<or> len normalized > 80 \<or> \<not> club_slug_pattern normalized
          then Inl invalid_club else Inr (Some normalized))"

definition normalize_club_country :: "string option \<Rightarrow> py_error + string option" where
  "normalize_club_country value =
     (case value of
        None \<Rightarrow> Inr None
      | Some v \<Rightarrow>
          let normalized = py_upper (py_strip v) in
          if len normalized \<noteq> 2 \<or> \<not> list_all py_alpha normalized then Inl invalid_club
          else Inr (Some normalized))"

definition social_key :: "string \<Rightarrow> bool" where
  "social_key k \<longleftrightarrow> 1 \<le> length k \<and> length k \<le> 32
     \<and> list_all (\<lambda>c. is_lower c \<or> is_digit c \<or> c = CHR ''_'') k"

definition dict_set :: "string \<Rightarrow> 'v \<Rightarrow> (string \<times> 'v) list \<Rightarrow> (string \<times> 'v) list" where
  "dict_set k v kvs =
     (if List.member (map fst kvs) k then map (\<lambda>(x, y). if x = k then (x, v) else (x, y)) kvs
      else kvs @ [(k, v)])"

definition social_link_ok :: "string \<Rightarrow> string \<Rightarrow> string \<Rightarrow> string \<Rightarrow> bool" where
  "social_link_ok key url scheme netloc \<longleftrightarrow>
     social_key key \<and> len url \<le> 2048 \<and> scheme \<in> {''http'', ''https''} \<and> url_host netloc \<noteq> None
     \<and> \<not> url_has_user netloc"

fun social_loop ::
  "(string \<Rightarrow> bool) \<Rightarrow> (string \<times> string) list \<Rightarrow> (string \<times> string) list \<Rightarrow> py_error + (string \<times> string) list" where
  "social_loop bracket_ok normalized [] = Inr normalized"
| "social_loop bracket_ok normalized ((raw_key, raw_url) # rest) =
     (let key = py_lower (py_strip raw_key); url = py_strip raw_url in
      res_bind (urlsplit bracket_ok url) (\<lambda>(scheme, netloc).
      res_bind (res_guard (social_link_ok key url scheme netloc) invalid_club) (\<lambda>_.
      social_loop bracket_ok (dict_set key url normalized) rest)))"

definition normalize_social_links ::
  "(string \<Rightarrow> bool) \<Rightarrow> (string \<times> string) list option \<Rightarrow> py_error + (string \<times> string) list" where
  "normalize_social_links bracket_ok value =
     (case value of
        None \<Rightarrow> Inr []
      | Some links \<Rightarrow>
          res_bind (res_guard (length links \<le> 12) invalid_club) (\<lambda>_.
          res_bind (social_loop bracket_ok [] links) (\<lambda>normalized. Inr (sort_keys normalized))))"

definition normalized_new :: "(string \<Rightarrow> bool) \<Rightarrow> new_club \<Rightarrow> py_error + new_club" where
  "normalized_new bracket_ok v =
     res_bind (normalize_club_slug (nc_slug v)) (\<lambda>slug.
     res_bind (normalize_name (nc_name v)) (\<lambda>name.
     res_bind (normalize_description (nc_description v)) (\<lambda>description.
     res_bind (normalize_optional_slug (nc_category_slug v)) (\<lambda>category.
     res_bind (normalize_club_country (nc_country_code v)) (\<lambda>country.
     res_bind (normalize_optional_slug (nc_city_slug v)) (\<lambda>city.
     res_bind (normalize_social_links bracket_ok (nc_social_links v)) (\<lambda>links.
     Inr \<lparr>nc_slug = slug, nc_name = name, nc_description = description, nc_category_slug = category,
       nc_country_code = country, nc_city_slug = city, nc_membership_policy = nc_membership_policy v,
       nc_social_links = Some links, nc_logo_media_id = nc_logo_media_id v,
       nc_cover_media_id = nc_cover_media_id v\<rparr>)))))))"

subsection \<open>Creating\<close>

definition club_create_blockers :: "string list" where
  "club_create_blockers = [''account_unavailable'', ''email_verification_required'', ''profile_incomplete'',
     ''rules_acceptance_required'', ''region_unavailable'', ''club_limit_reached'']"

definition club_audit :: "'z subject_scheme \<Rightarrow> string \<Rightarrow> uuid \<Rightarrow> json option \<Rightarrow> json \<Rightarrow> uuid \<Rightarrow> unit txn" where
  "club_audit p action club_id before after request_id =
     membership_audit p Organizer action ''club'' club_id None before (Some after) request_id"

definition club_state :: "club \<Rightarrow> json" where
  "club_state c = JObj [(''status'', JStr (club_status_name (cl_status c))), (''revision'', JInt (cl_revision c)),
     (''missing_fields'', JArr (map JStr (club_missing c)))]"

definition create ::
  "(string \<Rightarrow> bool) \<Rightarrow> eligibility_config \<Rightarrow> principal \<Rightarrow> new_club \<Rightarrow> uuid \<Rightarrow> instant \<Rightarrow> club txn" where
  "create bracket_ok cfg p v request_id now =
     tx_bind (lock_owner_creation (sb_user_id p)) (\<lambda>_.
     tx_bind (evaluate cfg p) (\<lambda>c.
     tx_bind (tx_guard (cp_create_club c)
       (blocked (case List.find (List.member (cp_blockers c)) club_create_blockers of
          None \<Rightarrow> ''forbidden'' | Some b \<Rightarrow> b))) (\<lambda>_.
     tx_bind (tx_lift (normalized_new bracket_ok v)) (\<lambda>n.
     tx_bind (resolve_club_references (sb_user_id p) (nc_category_slug n) (nc_country_code n)
       (nc_city_slug n) (nc_logo_media_id n) (nc_cover_media_id n)) (\<lambda>refs.
     let published = missing_fields (nc_description n) (nc_category_slug n) (nc_country_code n)
           (nc_city_slug n) = [] in
     tx_bind (create_club (sb_user_id p) (nc_slug n) (nc_name n) (nc_description n)
       (nc_membership_policy n) (case nc_social_links n of None \<Rightarrow> [] | Some l \<Rightarrow> l) refs
       (if published then ClubPublished else ClubDraft) (if published then Some now else None)) (\<lambda>club.
     tx_bind (club_audit p ''club.create'' (cl_id club) None (club_state club) request_id) (\<lambda>_.
     tx_bind (if cl_status club = ClubPublished
       then club_audit p ''club.publish'' (cl_id club) (Some (JObj [(''status'', JStr ''draft'')]))
         (JObj [(''status'', JStr ''published''), (''revision'', JInt (cl_revision club))]) request_id
       else tx_return ()) (\<lambda>_.
     tx_return club))))))))"

subsection \<open>Reading\<close>

definition club_capabilities :: "club \<Rightarrow> club_role \<Rightarrow> string list" where
  "club_capabilities c role =
     (if cl_status c \<in> {ClubSuspended, ClubClosed} then []
      else [''edit_profile'', ''manage_members''] @
        (if role = RoleOwner
         then [''change_member_roles'', ''transfer_ownership'', ''close_club'', ''preview_profile'']
         else [''preview_profile'']))"

definition managed_clubs :: "'z subject_scheme \<Rightarrow> (club \<times> club_role \<times> string list) list txn" where
  "managed_clubs p =
     tx_bind (tx_guard (sb_status p = UserActive) forbidden) (\<lambda>_.
     tx_bind (list_managed_clubs (sb_user_id p)) (\<lambda>rows.
     tx_return (map (\<lambda>(c, role). (c, role, club_capabilities c role)) rows)))"

definition find_edited :: "uuid \<Rightarrow> club txn" where
  "find_edited club_id =
     tx_bind (tx_guard (is_uuid7 club_id) not_found) (\<lambda>_.
     tx_bind (get_club club_id) (\<lambda>club. case club of None \<Rightarrow> tx_raise not_found | Some c \<Rightarrow> tx_return c))"

definition get_edited :: "'z subject_scheme \<Rightarrow> uuid \<Rightarrow> club txn" where
  "get_edited p club_id =
     tx_bind (find_edited club_id) (\<lambda>c.
     tx_bind (get_access (cl_id c) (sb_user_id p)) (\<lambda>access.
     tx_bind (tx_lift (can_edit_club p c access)) (\<lambda>_. tx_return c)))"

subsection \<open>Editing\<close>

definition kp_has :: "club_patch \<Rightarrow> string \<Rightarrow> bool" where
  "kp_has patch f \<longleftrightarrow> List.member (kp_changed_fields patch) f"

text \<open>A required field that is changed must be given, and is then normalized.\<close>

definition changed :: "bool \<Rightarrow> (py_error + 'a) \<Rightarrow> 'a \<Rightarrow> py_error + 'a" where
  "changed named new old = (if named then new else Inr old)"

definition patched_club :: "(string \<Rightarrow> bool) \<Rightarrow> club \<Rightarrow> club_patch \<Rightarrow> py_error + club" where
  "patched_club bracket_ok c patch =
     (let has = kp_has patch in
      if has ''slug'' \<and> kp_slug patch = None \<or> has ''name'' \<and> kp_name patch = None
         \<or> has ''membership_policy'' \<and> kp_membership_policy patch = None
         \<or> has ''social_links'' \<and> kp_social_links patch = None
      then Inl invalid_club
      else
        res_bind (changed (has ''slug'') (normalize_club_slug (the (kp_slug patch))) (cl_slug c)) (\<lambda>slug.
        res_bind (changed (has ''name'') (normalize_name (the (kp_name patch))) (cl_name c)) (\<lambda>name.
        res_bind (changed (has ''description'') (normalize_description (kp_description patch))
          (cl_description c)) (\<lambda>description.
        res_bind (changed (has ''category_slug'') (normalize_optional_slug (kp_category_slug patch))
          (cl_category_slug c)) (\<lambda>category.
        res_bind (changed (has ''country_code'') (normalize_club_country (kp_country_code patch))
          (cl_country_code c)) (\<lambda>country.
        res_bind (changed (has ''city_slug'') (normalize_optional_slug (kp_city_slug patch))
          (cl_city_slug c)) (\<lambda>city.
        res_bind (changed (has ''social_links'') (normalize_social_links bracket_ok (kp_social_links patch))
          (cl_social_links c)) (\<lambda>links.
        Inr (c\<lparr>cl_slug := slug, cl_name := name, cl_description := description,
          cl_membership_policy := (if has ''membership_policy'' then the (kp_membership_policy patch)
            else cl_membership_policy c),
          cl_social_links := links,
          cl_logo_media_id := (if has ''logo_media_id'' then kp_logo_media_id patch else cl_logo_media_id c),
          cl_cover_media_id := (if has ''cover_media_id'' then kp_cover_media_id patch else cl_cover_media_id c),
          cl_category_slug := category, cl_country_code := country, cl_city_slug := city\<rparr>)))))))))"

text \<open>A draft is published once it is complete; any other club must stay complete.\<close>

definition with_status :: "club \<Rightarrow> club \<Rightarrow> py_error + club" where
  "with_status c candidate =
     (let incomplete = club_missing candidate \<noteq> [] in
      if cl_status c = ClubDraft
      then Inr (candidate\<lparr>cl_status := if incomplete then ClubDraft else ClubPublished\<rparr>)
      else if incomplete then Inl invalid_club
      else Inr (candidate\<lparr>cl_status := cl_status c\<rparr>))"

definition update ::
  "(string \<Rightarrow> bool) \<Rightarrow> 'z subject_scheme \<Rightarrow> uuid \<Rightarrow> club_patch \<Rightarrow> uuid \<Rightarrow> instant \<Rightarrow> club txn" where
  "update bracket_ok p club_id patch request_id now =
     tx_bind (get_edited p club_id) (\<lambda>c.
     tx_bind (tx_guard (kp_revision patch = cl_revision c) stale_revision) (\<lambda>_.
     tx_bind (tx_lift (patched_club bracket_ok c patch)) (\<lambda>patched.
     tx_bind (tx_lift (with_status c patched)) (\<lambda>candidate.
     tx_bind (resolve_club_references (cl_owner_user_id c) (cl_category_slug candidate)
       (cl_country_code candidate) (cl_city_slug candidate) (cl_logo_media_id candidate)
       (cl_cover_media_id candidate)) (\<lambda>refs.
     tx_bind (update_club candidate refs (kp_revision patch)
       (if cl_status c = ClubDraft \<and> cl_status candidate = ClubPublished then Some now else None)) (\<lambda>updated.
     tx_bind (club_audit p ''club.update'' (cl_id c)
       (Some (JObj [(''status'', JStr (club_status_name (cl_status c))), (''revision'', JInt (cl_revision c))]))
       (club_state updated) request_id) (\<lambda>_.
     tx_bind (if cl_status c = ClubDraft \<and> cl_status updated = ClubPublished
       then club_audit p ''club.publish'' (cl_id c)
         (Some (JObj [(''status'', JStr ''draft''), (''revision'', JInt (cl_revision c))]))
         (JObj [(''status'', JStr ''published''), (''revision'', JInt (cl_revision updated))]) request_id
       else tx_return ()) (\<lambda>_.
     tx_return updated))))))))"

end
