(* ===== verification/Club_Laws.thy ===== *)
theory Club_Laws
  imports Club_Service
begin

section \<open>Every club has its owner\<close>

text \<open>
  What the operations of clubs do to the tables \<open>clubs\<close> and \<open>club_memberships\<close>, and the invariant
  they keep together: the one membership of a club with the role of owner is that of the account
  its row names.
\<close>

subsection \<open>Statements that leave clubs and members alone\<close>

definition club_tables :: "db \<Rightarrow> db \<Rightarrow> bool" where
  "club_tables d d' \<longleftrightarrow> t_clubs d' = t_clubs d \<and> t_club_memberships d' = t_club_memberships d"

interpretation clubs: frame_relation club_tables
  by standard (simp_all add: club_tables_def)

named_theorems club_keeps "statements that leave clubs and members alone"

lemma fresh_uuid_clubs [club_keeps]: "tx_keeps club_tables fresh_uuid"
  by (rule tx_keepsI) (auto simp: tx_simps club_tables_def)

lemma clock_clubs [club_keeps]: "tx_keeps club_tables clock_timestamp"
  by (rule tx_keepsI) (auto simp: tx_simps club_tables_def)

lemma check_clubs [club_keeps]: "tx_keeps club_tables (check_constraints cs)"
  by (rule tx_keepsI) (auto simp: tx_simps club_tables_def)

lemma insert_outbox_clubs [club_keeps]: "tx_keeps club_tables (insert_outbox row)"
  by (rule tx_keepsI) (auto dest!: insert_outbox_effect simp: club_tables_def)

lemma publish_clubs [club_keeps]: "tx_keeps club_tables (publish i t u c k a)"
  unfolding publish_def enqueue_def insert_outbox_or_ignore_def
  by (intro clubs.rules club_keeps)

lemma audit_clubs [club_keeps]: "tx_keeps club_tables (membership_audit p k a tt ti r b f q)"
  unfolding membership_audit_def
  by (intro clubs.rules) (rule tx_keepsI, auto dest!: audit_record_effect simp: club_tables_def)

lemma update_request_clubs [club_keeps]: "tx_keeps club_tables (update_request P f)"
  unfolding update_request_def
  by (intro clubs.rules club_keeps clubs.modify) (simp add: club_tables_def)

lemma decide_request_clubs [club_keeps]: "tx_keeps club_tables (decide_request i s a r t)"
  unfolding decide_request_def by (intro clubs.rules club_keeps)

lemma pending_request_clubs [club_keeps]: "tx_keeps club_tables (create_or_get_pending_request c u m)"
  unfolding create_or_get_pending_request_def
  by (intro clubs.rules club_keeps clubs.modify) (simp add: club_tables_def)

lemma decision_audit_clubs [club_keeps]: "tx_keeps club_tables (decision_audit p a r n s c q)"
  unfolding decision_audit_def by (rule audit_clubs)

lemma club_audit_clubs [club_keeps]: "tx_keeps club_tables (club_audit p a i b f q)"
  unfolding club_audit_def by (rule audit_clubs)

lemma require_candidate_clubs [club_keeps]: "tx_keeps club_tables (require_candidate cfg u)"
proof -
  have "tx_keeps club_tables (evaluate cfg q)" for q :: principal
    by (rule tx_keepsI) (auto dest!: evaluate_reads simp: club_tables_def)
  then show ?thesis unfolding require_candidate_def transfer_candidate_def
    by (intro clubs.rules club_keeps)
qed

lemma find_club_Inr:
  "find_club i d = Inr (c, d') \<longleftrightarrow> d' = d \<and> is_uuid7 i \<and>
     (\<exists>r. one_or_none (\<lambda>x. cl_id x = i) (t_clubs d) = Some r \<and> c = club_of_row d r)"
  by (auto simp: find_club_def lock_club_def tx_simps split: option.splits)

lemma get_membership_eq [tx_simps]:
  "get_membership i u d = Inr (x, d') \<longleftrightarrow>
     d' = d \<and> x = one_or_none (\<lambda>m. me_club_id m = i \<and> me_user_id m = u) (t_club_memberships d)"
  by (auto simp: get_membership_def tx_simps)

lemma managed_club_Inr:
  assumes "managed_club p i d = Inr (c, d')"
  shows "find_club i d = Inr (c, d)" "d' = d"
    "can_manage_members p c (one_or_none (\<lambda>m. me_club_id m = cl_id c \<and> me_user_id m = sb_user_id p)
       (t_club_memberships d)) = Inr ()"
  using assms by (auto simp: managed_club_def tx_simps find_club_Inr)

lemma find_request_Inr:
  "find_request c i d = Inr (r, d') \<longleftrightarrow> d' = d \<and> is_uuid7 i \<and>
     one_or_none (\<lambda>r. jr_club_id r = c \<and> jr_id r = i) (t_club_join_requests d) = Some r"
  by (auto simp: find_request_def get_join_request_def tx_simps split: option.splits)

text \<open>The first steps of the services only read.\<close>

named_theorems club_reads "steps that read, taken off a committed run"

lemma find_club_step [club_reads]:
  "tx_bind (find_club i) f d = Inr r \<longleftrightarrow> (\<exists>c. find_club i d = Inr (c, d) \<and> f c d = Inr r)"
  by (auto simp: tx_bind_eq find_club_Inr)

lemma managed_club_step [club_reads]:
  "tx_bind (managed_club p i) f d = Inr r \<longleftrightarrow> (\<exists>c. managed_club p i d = Inr (c, d) \<and> f c d = Inr r)"
  by (auto simp: tx_bind_eq dest: managed_club_Inr(2))

lemma find_request_step [club_reads]:
  "tx_bind (find_request c i) f d = Inr r \<longleftrightarrow> (\<exists>j. find_request c i d = Inr (j, d) \<and> f j d = Inr r)"
  by (auto simp: tx_bind_eq find_request_Inr)

lemma get_membership_step [club_reads]:
  "tx_bind (get_membership i u) f d = Inr r \<longleftrightarrow>
     f (one_or_none (\<lambda>m. me_club_id m = i \<and> me_user_id m = u) (t_club_memberships d)) d = Inr r"
  by (auto simp: tx_bind_eq get_membership_eq)

lemma club_guard_step [club_reads]: "tx_bind (tx_guard b e) f d = Inr r \<longleftrightarrow> b \<and> f () d = Inr r"
  by (auto simp: tx_bind_eq tx_guard_eq)

lemma club_lift_step [club_reads]: "tx_bind (tx_lift v) f d = Inr r \<longleftrightarrow> (\<exists>x. v = Inr x \<and> f x d = Inr r)"
  by (auto simp: tx_bind_eq tx_lift_eq)

lemma require_active_step [club_reads]:
  "tx_bind (require_active p) f d = Inr r \<longleftrightarrow> sb_status p = UserActive \<and> f () d = Inr r"
  by (auto simp: tx_bind_eq require_active_def tx_guard_eq)

lemma require_active_verified_step [club_reads]:
  "tx_bind (require_active_verified p) f d = Inr r \<longleftrightarrow>
     sb_status p = UserActive \<and> sb_email_verified p \<and> f () d = Inr r"
  by (auto simp: tx_bind_eq require_active_verified_def require_active_def tx_guard_eq)

lemma require_owner_step [club_reads]:
  "tx_bind (require_owner p c) f d = Inr r \<longleftrightarrow> sb_status p = UserActive
     \<and> cl_status c \<notin> {ClubSuspended, ClubClosed} \<and> cl_owner_user_id c = sb_user_id p \<and> f () d = Inr r"
  by (auto simp: tx_bind_eq require_owner_def require_active_def tx_guard_eq)

subsection \<open>The owner of every club\<close>

definition club_owners :: "db \<Rightarrow> (uuid \<times> uuid) list" where
  "club_owners d = map (\<lambda>c. (cl_id c, cl_owner_user_id c)) (t_clubs d)"

definition members_wf :: "uuid set \<Rightarrow> membership_row list \<Rightarrow> bool" where
  "members_wf clubs ms \<longleftrightarrow> distinct (map me_id ms)
     \<and> distinct (map (\<lambda>m. (me_club_id m, me_user_id m)) ms) \<and> (\<forall>m \<in> set ms. me_club_id m \<in> clubs)"

definition owned_by :: "membership_row list \<Rightarrow> uuid \<Rightarrow> uuid \<Rightarrow> bool" where
  "owned_by ms i u \<longleftrightarrow> (\<exists>m \<in> set ms. me_club_id m = i \<and> me_user_id m = u)
     \<and> (\<forall>m \<in> set ms. me_club_id m = i \<longrightarrow> (me_role m = RoleOwner \<longleftrightarrow> me_user_id m = u))"

definition one_owner :: "db \<Rightarrow> bool" where
  "one_owner d \<longleftrightarrow> distinct (map fst (club_owners d))
     \<and> members_wf (fst ` set (club_owners d)) (t_club_memberships d)
     \<and> (\<forall>(i, u) \<in> set (club_owners d). owned_by (t_club_memberships d) i u)"

lemma one_owner_cong:
  assumes "club_owners d' = club_owners d" "t_club_memberships d' = t_club_memberships d"
  shows "one_owner d' = one_owner d"
  using assms by (simp add: one_owner_def)

lemma club_tables_owner: "club_tables d d' \<Longrightarrow> one_owner d' = one_owner d"
  by (rule one_owner_cong) (simp_all add: club_tables_def club_owners_def)

lemma one_ownerD:
  assumes "one_owner d"
  shows "distinct (map cl_id (t_clubs d))" "distinct (map me_id (t_club_memberships d))"
    "distinct (map (\<lambda>m. (me_club_id m, me_user_id m)) (t_club_memberships d))"
    "\<And>c. c \<in> set (t_clubs d) \<Longrightarrow> owned_by (t_club_memberships d) (cl_id c) (cl_owner_user_id c)"
    "\<And>m. m \<in> set (t_club_memberships d) \<Longrightarrow> \<exists>c \<in> set (t_clubs d). cl_id c = me_club_id m"
  using assms by (auto simp: one_owner_def club_owners_def members_wf_def comp_def image_image) fastforce

subsection \<open>What the statements write\<close>

lemma membership_keys_steps:
  "membership_keys (d\<lparr>entropy_pos := a, clock_pos := b\<rparr>) = membership_keys d"
  by (intro ext) (simp add: membership_keys_def)

lemma insert_membership_effect:
  assumes "insert_membership e i u role d = Inr (x, d')"
  obtains m where "t_clubs d' = t_clubs d" "t_club_memberships d' = t_club_memberships d @ [m]"
    "me_club_id m = i" "me_user_id m = u" "me_role m = role"
    "first_violation (membership_keys d (t_club_memberships d) m) = None"
proof -
  have "\<exists>m. t_clubs d' = t_clubs d \<and> t_club_memberships d' = t_club_memberships d @ [m]
    \<and> me_club_id m = i \<and> me_user_id m = u \<and> me_role m = role
    \<and> first_violation (membership_keys d (t_club_memberships d) m) = None"
    using assms
    by (cases e) (auto simp: insert_membership_def tx_simps Let_def membership_keys_steps)
  then show thesis using that by blast
qed

lemma update_club_row_effect:
  assumes "update_club_row e P f d = Inr (Some i, d')"
  obtains r now where "one_or_none P (t_clubs d) = Some r" "i = cl_id r"
    "t_club_memberships d' = t_club_memberships d"
    "t_clubs d' = update_where (\<lambda>x. cl_id x = cl_id r) (\<lambda>_. (f r)\<lparr>cl_updated_at := now\<rparr>) (t_clubs d)"
proof -
  obtain r where r: "one_or_none P (t_clubs d) = Some r"
    using assms by (cases "one_or_none P (t_clubs d)") (simp_all add: update_club_row_def tx_simps)
  show thesis
    using assms that [OF r]
    by (cases e) (auto simp: update_club_row_def tx_simps Let_def r)
qed

lemma update_club_row_None:
  "update_club_row e P f d = Inr (None, d') \<Longrightarrow> d' = d \<and> one_or_none P (t_clubs d) = None"
  by (cases "one_or_none P (t_clubs d)"; cases e) (auto simp: update_club_row_def tx_simps Let_def)

lemma update_role_effect:
  assumes "update_role P role d = Inr (Some m', d')"
  obtains m where "one_or_none P (t_club_memberships d) = Some m" "m' = m\<lparr>me_role := role\<rparr>"
    "t_clubs d' = t_clubs d"
    "t_club_memberships d' = update_where (\<lambda>x. me_id x = me_id m) (\<lambda>_. m') (t_club_memberships d)"
    "first_violation (membership_keys d (delete_where (\<lambda>x. me_id x = me_id m) (t_club_memberships d)) m') = None"
proof -
  obtain m where m: "one_or_none P (t_club_memberships d) = Some m"
    using assms by (cases "one_or_none P (t_club_memberships d)") (simp_all add: update_role_def tx_simps)
  show thesis
    using assms that [OF m] by (auto simp: update_role_def tx_simps Let_def m)
qed

lemma update_role_None:
  "update_role P role d = Inr (None, d') \<Longrightarrow> d' = d \<and> one_or_none P (t_club_memberships d) = None"
  by (cases "one_or_none P (t_club_memberships d)") (auto simp: update_role_def tx_simps Let_def)

lemma membership_keys_ok:
  "first_violation (membership_keys d others m) = None \<longleftrightarrow>
     (\<forall>x \<in> set others. me_id x \<noteq> me_id m \<and> \<not> (me_club_id x = me_club_id m \<and> me_user_id x = me_user_id m)
        \<and> \<not> (me_role m = RoleOwner \<and> me_club_id x = me_club_id m \<and> me_role x = RoleOwner))
     \<and> (\<exists>c \<in> set (t_clubs d). cl_id c = me_club_id m) \<and> (\<exists>u \<in> set (t_users d). us_id u = me_user_id m)"
  by (auto simp: membership_keys_def row_exists_iff)

text \<open>A club's row replaced by one of the same identity and owner.\<close>

lemma same_owners:
  assumes "distinct (map cl_id (t_clubs d))" "r \<in> set (t_clubs d)"
    and "cl_id r' = cl_id r" "cl_owner_user_id r' = cl_owner_user_id r"
    and "t_clubs d' = update_where (\<lambda>x. cl_id x = cl_id r) (\<lambda>_. r') (t_clubs d)"
  shows "club_owners d' = club_owners d"
  unfolding club_owners_def assms(5) update_where_def
  using assms(1-4) by (auto dest: distinct_key_eq [OF assms(1)])

subsection \<open>How the invariant is kept\<close>

lemma owned_append:
  assumes "owned_by ms i u" "me_club_id m = i \<longrightarrow> (me_role m = RoleOwner \<longleftrightarrow> me_user_id m = u)"
  shows "owned_by (ms @ [m]) i u"
  using assms by (auto simp: owned_by_def)

lemma owner_joined:
  assumes inv: "one_owner d" and c: "t_clubs d' = t_clubs d"
    and ms: "t_club_memberships d' = t_club_memberships d @ [m]"
    and k: "first_violation (membership_keys d (t_club_memberships d) m) = None"
    and role: "me_role m = RoleMember"
  shows "one_owner d'"
proof -
  have same: "club_owners d' = club_owners d" using c by (simp add: club_owners_def)
  note k = k [unfolded membership_keys_ok]
  have "me_club_id m \<in> fst ` set (club_owners d)" using k by (force simp: club_owners_def)
  then have "members_wf (fst ` set (club_owners d)) (t_club_memberships d @ [m])"
    using inv k by (auto simp: one_owner_def members_wf_def)
  moreover have "owned_by (t_club_memberships d @ [m]) i u" if "(i, u) \<in> set (club_owners d)" for i u
  proof (rule owned_append)
    show o: "owned_by (t_club_memberships d) i u" using inv that by (auto simp: one_owner_def)
    then show "me_club_id m = i \<longrightarrow> (me_role m = RoleOwner) = (me_user_id m = u)"
      using k role by (auto simp: owned_by_def)
  qed
  ultimately show ?thesis using inv unfolding one_owner_def same ms by blast
qed

lemma owner_left:
  assumes inv: "one_owner d" and c: "t_clubs d' = t_clubs d"
    and ms: "t_club_memberships d' = delete_where (\<lambda>x. me_id x = me_id m) (t_club_memberships d)"
    and m: "m \<in> set (t_club_memberships d)" "me_role m \<noteq> RoleOwner"
  shows "one_owner d'"
proof -
  have same: "club_owners d' = club_owners d" using c by (simp add: club_owners_def)
  have "owned_by (t_club_memberships d') i u" if "(i, u) \<in> set (club_owners d)" for i u
  proof -
    have o: "owned_by (t_club_memberships d) i u" using inv that by (auto simp: one_owner_def)
    then obtain x where x: "x \<in> set (t_club_memberships d)" "me_club_id x = i" "me_user_id x = u"
      "me_role x = RoleOwner" by (auto simp: owned_by_def)
    have "me_id x \<noteq> me_id m" using distinct_key_eq [OF one_ownerD(2) [OF inv] x(1) m(1)] x(4) m(2) by blast
    then show ?thesis using o x unfolding owned_by_def ms delete_where_def by auto
  qed
  then show ?thesis
    using inv unfolding one_owner_def same members_wf_def ms delete_where_def
    by (auto simp: distinct_map inj_on_def)
qed

text \<open>The members of a table with new roles.\<close>

definition reranked :: "(membership_row \<Rightarrow> club_role) \<Rightarrow> membership_row list \<Rightarrow> membership_row list" where
  "reranked g ms = map (\<lambda>x. x\<lparr>me_role := g x\<rparr>) ms"

lemma reranked_wf: "members_wf cs (reranked g ms) = members_wf cs ms"
  by (simp add: members_wf_def reranked_def comp_def)

lemma reranked_owned:
  "owned_by (reranked g ms) i u \<longleftrightarrow> (\<exists>m \<in> set ms. me_club_id m = i \<and> me_user_id m = u)
     \<and> (\<forall>m \<in> set ms. me_club_id m = i \<longrightarrow> (g m = RoleOwner \<longleftrightarrow> me_user_id m = u))"
  by (simp add: owned_by_def reranked_def)

lemma update_role_reranked:
  assumes "distinct (map me_id ms)" "m \<in> set ms"
  shows "update_where (\<lambda>x. me_id x = me_id m) (\<lambda>_. m\<lparr>me_role := role\<rparr>) ms
    = reranked (\<lambda>x. if x = m then role else me_role x) ms"
  unfolding update_where_def reranked_def using distinct_key_eq [OF assms(1) _ assms(2)] by auto

lemma owner_ranked:
  assumes inv: "one_owner d" and c: "t_clubs d' = t_clubs d" and m: "m \<in> set (t_club_memberships d)"
    and ms: "t_club_memberships d' = update_where (\<lambda>x. me_id x = me_id m) (\<lambda>_. m\<lparr>me_role := role\<rparr>) (t_club_memberships d)"
    and k: "first_violation (membership_keys d (delete_where (\<lambda>x. me_id x = me_id m) (t_club_memberships d))
      (m\<lparr>me_role := role\<rparr>)) = None"
    and not_owner: "me_role m \<noteq> RoleOwner"
  shows "one_owner d'"
proof -
  have same: "club_owners d' = club_owners d" using c by (simp add: club_owners_def)
  have "owned_by (t_club_memberships d') i u" if iu: "(i, u) \<in> set (club_owners d)" for i u
  proof -
    have o: "owned_by (t_club_memberships d) i u" using inv iu by (auto simp: one_owner_def)
    then obtain x where x: "x \<in> set (t_club_memberships d)" "me_club_id x = i" "me_user_id x = u"
      "me_role x = RoleOwner" by (auto simp: owned_by_def)
    have "me_id x \<noteq> me_id m" using distinct_key_eq [OF one_ownerD(2) [OF inv] x(1) m] x(4) not_owner by blast
    then have "role \<noteq> RoleOwner" if "me_club_id m = i"
      using k x that unfolding membership_keys_ok delete_where_def by auto
    then show ?thesis
      using o not_owner unfolding ms update_role_reranked [OF one_ownerD(2) [OF inv] m] reranked_owned
      by (auto simp: owned_by_def)
  qed
  then show ?thesis
    using inv unfolding one_owner_def same ms update_role_reranked [OF one_ownerD(2) [OF inv] m] reranked_wf
    by blast
qed

lemma owner_handed:
  assumes inv: "one_owner d" and c: "c \<in> set (t_clubs d)" "cl_owner_user_id c = me_user_id m"
    and m: "m \<in> set (t_club_memberships d)" "me_club_id m = cl_id c"
    and n: "n \<in> set (t_club_memberships d)" "me_club_id n = cl_id c" "me_user_id n \<noteq> me_user_id m"
    and ms: "t_club_memberships d' = reranked
      (\<lambda>x. if x = m then RoleMember else if x = n then RoleOwner else me_role x) (t_club_memberships d)"
    and cs: "club_owners d' = map (\<lambda>(i, u). (i, if i = cl_id c then me_user_id n else u)) (club_owners d)"
  shows "one_owner d'"
proof -
  have ids: "map fst (club_owners d') = map fst (club_owners d)"
    unfolding cs by (simp add: comp_def case_prod_beta)
  then have fsts: "fst ` set (club_owners d') = fst ` set (club_owners d)"
    by (metis list.set_map)
  have pair: "x = y" if "x \<in> set (t_club_memberships d)" "y \<in> set (t_club_memberships d)"
    "me_club_id x = me_club_id y" "me_user_id x = me_user_id y" for x y
    using distinct_key_eq [OF one_ownerD(3) [OF inv] that(1,2)] that(3,4) by simp
  have "owned_by (t_club_memberships d') i u" if iu: "(i, u) \<in> set (club_owners d')" for i u
  proof (cases "i = cl_id c")
    case True
    then have u: "u = me_user_id n" using iu unfolding cs by auto
    have o: "owned_by (t_club_memberships d) (cl_id c) (me_user_id m)"
      using one_ownerD(4) [OF inv c(1)] c(2) by simp
    have "(if x = m then RoleMember else if x = n then RoleOwner else me_role x) = RoleOwner
        \<longleftrightarrow> me_user_id x = me_user_id n"
      if x: "x \<in> set (t_club_memberships d)" "me_club_id x = cl_id c" for x
      using o x n(3) pair [OF x(1) n(1)] pair [OF x(1) m(1)] m(2) n(2) by (auto simp: owned_by_def)
    then show ?thesis using n True u unfolding ms reranked_owned by blast
  next
    case False
    then have "(i, u) \<in> set (club_owners d)" using iu unfolding cs by (auto split: if_splits)
    then have "owned_by (t_club_memberships d) i u" using inv by (auto simp: one_owner_def)
    then show ?thesis using False m(2) n(2) unfolding ms reranked_owned by (auto simp: owned_by_def)
  qed
  then show ?thesis using inv ids fsts unfolding one_owner_def ms reranked_wf by auto
qed

lemma owner_founded:
  assumes inv: "one_owner d" and c: "t_clubs d' = t_clubs d @ [c]" "\<forall>x \<in> set (t_clubs d). cl_id x \<noteq> cl_id c"
    and ms: "t_club_memberships d' = t_club_memberships d @ [m]"
    and m: "me_club_id m = cl_id c" "me_user_id m = cl_owner_user_id c" "me_role m = RoleOwner"
      "\<forall>x \<in> set (t_club_memberships d). me_id x \<noteq> me_id m"
  shows "one_owner d'"
proof -
  have cs: "club_owners d' = club_owners d @ [(cl_id c, cl_owner_user_id c)]"
    using c(1) by (simp add: club_owners_def)
  have fresh: "me_club_id x \<noteq> cl_id c" if "x \<in> set (t_club_memberships d)" for x
    using one_ownerD(5) [OF inv that] c(2) by auto
  have "distinct (map fst (club_owners d'))"
    using inv c(2) unfolding cs by (auto simp: one_owner_def club_owners_def)
  moreover have "members_wf (fst ` set (club_owners d')) (t_club_memberships d')"
    using inv m fresh unfolding cs ms by (auto simp: one_owner_def members_wf_def)
  moreover have "owned_by (t_club_memberships d') i u" if "(i, u) \<in> set (club_owners d')" for i u
  proof (cases "(i, u) \<in> set (club_owners d)")
    case True
    then have "owned_by (t_club_memberships d) i u" using inv by (auto simp: one_owner_def)
    moreover have "i \<noteq> cl_id c" using True c(2) by (auto simp: club_owners_def)
    ultimately show ?thesis unfolding ms using m(1) by (auto intro: owned_append)
  next
    case False
    then show ?thesis using that m fresh unfolding cs ms by (auto simp: owned_by_def)
  qed
  ultimately show ?thesis unfolding one_owner_def by blast
qed

subsection \<open>The operations\<close>

lemma add_member_cases:
  assumes "add_member i u d = Inr (m, d')"
  obtains (present) "club_tables d d'" "m \<in> set (t_club_memberships d)" "me_club_id m = i" "me_user_id m = u"
    | (added) "t_clubs d' = t_clubs d" "t_club_memberships d' = t_club_memberships d @ [m]"
        "me_club_id m = i" "me_user_id m = u" "me_role m = RoleMember"
        "first_violation (membership_keys d (t_club_memberships d) m) = None"
proof (cases "row_exists (\<lambda>m. me_club_id m = i \<and> me_user_id m = u) (t_club_memberships d)")
  case True
  then have "\<exists>d1. club_tables d d1 \<and> d' = d1
      \<and> one_or_none (\<lambda>m. me_club_id m = i \<and> me_user_id m = u) (t_club_memberships d) = Some m"
    using assms tx_keepsD [OF fresh_uuid_clubs]
    by (auto simp: add_member_def insert_member_or_ignore_def tx_simps club_tables_def split: option.splits)
  then show ?thesis using present by (auto dest: one_or_none_Some)
next
  case False
  then have "\<exists>d1. insert_membership None i u RoleMember d = Inr ((), d1) \<and> d' = d1
      \<and> one_or_none (\<lambda>m. me_club_id m = i \<and> me_user_id m = u) (t_club_memberships d1) = Some m"
    using assms
    by (auto simp: add_member_def insert_member_or_ignore_def tx_simps split: option.splits)
  then obtain x where ins: "insert_membership None i u RoleMember d = Inr (x, d')"
    and found: "one_or_none (\<lambda>m. me_club_id m = i \<and> me_user_id m = u) (t_club_memberships d') = Some m"
    by auto
  from ins obtain n where n: "t_clubs d' = t_clubs d" "t_club_memberships d' = t_club_memberships d @ [n]"
    "me_club_id n = i" "me_user_id n = u" "me_role n = RoleMember"
    "first_violation (membership_keys d (t_club_memberships d) n) = None"
    by (rule insert_membership_effect)
  have "one_or_none (\<lambda>m. me_club_id m = i \<and> me_user_id m = u) (t_club_memberships d) = None"
    using False by (auto simp: row_exists_iff one_or_none_None)
  then have "m = n" using found n by (simp add: one_or_none_append)
  then show ?thesis using added n by blast
qed

lemma add_member_owner: "add_member i u d = Inr (m, d') \<Longrightarrow> one_owner d \<Longrightarrow> one_owner d'"
  by (erule add_member_cases) (auto simp: club_tables_owner intro: owner_joined)

lemma join_cases:
  assumes "join p i msg q d = Inr (x, d')"
  obtains c where "find_club i d = Inr (c, d)" "cl_status c = ClubPublished" "sb_status p = UserActive"
      "sb_email_verified p"
    and "(\<exists>m. one_or_none (\<lambda>m. me_club_id m = cl_id c \<and> me_user_id m = sb_user_id p) (t_club_memberships d) = Some m
          \<and> x = JoinedMember m \<and> d' = d)
      \<or> (\<exists>m d1. cl_membership_policy c = OpenMembership \<and> add_member (cl_id c) (sb_user_id p) d = Inr (m, d1)
          \<and> x = JoinedMember m \<and> club_tables d1 d')
      \<or> (\<exists>r. cl_membership_policy c = ApprovalRequired \<and> x = JoinPending r \<and> club_tables d d')"
proof -
  have pending: "tx_keeps club_tables (tx_bind (create_or_get_pending_request a b m) (\<lambda>(r, created).
      tx_bind (if created then membership_audit p Member act tt (ti r) re be (af r) q else tx_return ()) (\<lambda>_.
      tx_return (JoinPending r))))" for a b m act tt ti re be af
    by (intro clubs.rules club_keeps)
  obtain c where c: "find_club i d = Inr (c, d)" "cl_status c = ClubPublished" "sb_status p = UserActive"
      "sb_email_verified p"
    and r: "(case one_or_none (\<lambda>m. me_club_id m = cl_id c \<and> me_user_id m = sb_user_id p) (t_club_memberships d) of
       Some m \<Rightarrow> tx_return (JoinedMember m)
     | None \<Rightarrow>
         if cl_membership_policy c = OpenMembership then
           tx_bind (add_member (cl_id c) (sb_user_id p)) (\<lambda>m.
           tx_bind (membership_audit p Member ''club.member.join'' ''club'' (cl_id c) None None
             (Some (JObj [(''role'', JStr ''member'')])) q) (\<lambda>_.
           tx_return (JoinedMember m)))
         else
           tx_bind (create_or_get_pending_request (cl_id c) (sb_user_id p) (normalized_message msg))
             (\<lambda>(r, created).
           tx_bind (if created then membership_audit p Member ''club.join_request.create'' ''club'' (cl_id c)
               None None (Some (JObj [(''request_id'', JStr (uuid_str (jr_id r))),
                 (''status'', JStr ''pending'')])) q
             else tx_return ()) (\<lambda>_.
           tx_return (JoinPending r)))) d = Inr (x, d')"
    using assms unfolding join_def club_reads by blast
  show thesis
  proof (cases "one_or_none (\<lambda>m. me_club_id m = cl_id c \<and> me_user_id m = sb_user_id p) (t_club_memberships d)")
    case (Some m)
    then show ?thesis using that [OF c] r by (simp add: tx_return_eq)
  next
    case None
    show ?thesis
    proof (cases "cl_membership_policy c")
      case OpenMembership
      then obtain m d1 where "add_member (cl_id c) (sb_user_id p) d = Inr (m, d1)" "x = JoinedMember m"
        "club_tables d1 d'"
        using r None by (auto simp: tx_bind_eq tx_return_eq dest: tx_keepsD [OF audit_clubs])
      then show ?thesis using that [OF c] OpenMembership by blast
    next
      case ApprovalRequired
      with r None have run: "tx_bind (create_or_get_pending_request (cl_id c) (sb_user_id p) (normalized_message msg))
             (\<lambda>(r, created).
           tx_bind (if created then membership_audit p Member ''club.join_request.create'' ''club'' (cl_id c)
               None None (Some (JObj [(''request_id'', JStr (uuid_str (jr_id r))),
                 (''status'', JStr ''pending'')])) q
             else tx_return ()) (\<lambda>_.
           tx_return (JoinPending r))) d = Inr (x, d')" by simp
      have "club_tables d d'" using tx_keepsD [OF pending run] .
      moreover obtain r where "x = JoinPending r" using run by (auto simp: tx_bind_eq tx_return_eq)
      ultimately show ?thesis using that [OF c] ApprovalRequired by blast
    qed
  qed
qed

lemma join_owner: "join p i msg q d = Inr (x, d') \<Longrightarrow> one_owner d \<Longrightarrow> one_owner d'"
  by (erule join_cases) (auto simp: club_tables_owner dest: add_member_owner)

lemma remove_membership_cases:
  assumes "remove_membership i now d = Inr (x, d')"
  obtains "t_clubs d' = t_clubs d"
    "t_club_memberships d' = delete_where (\<lambda>x. me_id x = i) (t_club_memberships d)"
proof (cases "one_or_none (\<lambda>m. me_id m = i) (t_club_memberships d)")
  case None
  then have "d' = d" using assms by (simp add: remove_membership_def tx_simps)
  moreover have "delete_where (\<lambda>x. me_id x = i) (t_club_memberships d) = t_club_memberships d"
    using None by (simp add: one_or_none_None delete_where_def)
  ultimately show ?thesis using that by simp
next
  case (Some m)
  then show ?thesis
    using assms that by (auto simp: remove_membership_def tx_simps club_tables_def dest!: tx_keepsD [OF publish_clubs])
qed

lemma leave_cases:
  assumes "leave p i q now d = Inr (x, d')"
  obtains (request) "club_tables d d'"
  | (member) c m where "find_club i d = Inr (c, d)" "m \<in> set (t_club_memberships d)" "me_club_id m = cl_id c"
      "me_user_id m = sb_user_id p" "me_role m \<noteq> RoleOwner" "cl_owner_user_id c \<noteq> sb_user_id p"
      "t_clubs d' = t_clubs d"
      "t_club_memberships d' = delete_where (\<lambda>x. me_id x = me_id m) (t_club_memberships d)"
proof -
  obtain c where c: "find_club i d = Inr (c, d)"
    and r: "(case one_or_none (\<lambda>m. me_club_id m = cl_id c \<and> me_user_id m = sb_user_id p) (t_club_memberships d) of
       None \<Rightarrow>
         tx_bind (cancel_pending_request (cl_id c) (sb_user_id p)) (\<lambda>cancelled.
         tx_bind (tx_guard cancelled not_found) (\<lambda>_.
         membership_audit p Member ''club.join_request.cancel'' ''club'' (cl_id c) None
           (Some (JObj [(''status'', JStr ''pending'')])) None q))
     | Some m \<Rightarrow>
         tx_bind (tx_guard (\<not> (me_role m = RoleOwner \<or> cl_owner_user_id c = sb_user_id p))
           (conflict ''sole_owner_exit'')) (\<lambda>_.
         tx_bind (remove_membership (me_id m) now) (\<lambda>_.
         membership_audit p Member ''club.member.leave'' ''club'' (cl_id c) None
           (Some (JObj [(''role'', JStr (role_name (me_role m)))])) None q))) d = Inr (x, d')"
    using assms unfolding leave_def club_reads by blast
  show thesis
  proof (cases "one_or_none (\<lambda>m. me_club_id m = cl_id c \<and> me_user_id m = sb_user_id p) (t_club_memberships d)")
    case None
    have "tx_keeps club_tables (tx_bind (cancel_pending_request (cl_id c) (sb_user_id p)) (\<lambda>cancelled.
         tx_bind (tx_guard cancelled not_found) (\<lambda>_.
         membership_audit p Member ''club.join_request.cancel'' ''club'' (cl_id c) None
           (Some (JObj [(''status'', JStr ''pending'')])) None q)))"
      unfolding cancel_pending_request_def by (intro clubs.rules club_keeps)
    then show ?thesis using request r None by (auto dest: tx_keepsD)
  next
    case (Some m)
    then obtain y d1 where s: "me_role m \<noteq> RoleOwner" "cl_owner_user_id c \<noteq> sb_user_id p"
      "remove_membership (me_id m) now d = Inr (y, d1)" "club_tables d1 d'"
      using r by (auto simp: tx_bind_eq tx_guard_eq dest: tx_keepsD [OF audit_clubs])
    from s(3) show ?thesis
    proof (rule remove_membership_cases)
      assume "t_clubs d1 = t_clubs d"
        "t_club_memberships d1 = delete_where (\<lambda>x. me_id x = me_id m) (t_club_memberships d)"
      then show ?thesis using member [OF c _ _ _ s(1,2)] one_or_none_Some [OF Some] s(4)
        by (auto simp: club_tables_def)
    qed
  qed
qed

lemma leave_owner: "leave p i q now d = Inr (x, d') \<Longrightarrow> one_owner d \<Longrightarrow> one_owner d'"
  by (erule leave_cases) (auto simp: club_tables_owner intro: owner_left)

lemma approve_cases:
  assumes "approve p i j reason q now d = Inr (x, d')"
  obtains (again) "d' = d"
  | (admitted) c r m d1 where "managed_club p i d = Inr (c, d)" "find_request (cl_id c) j d = Inr (r, d)"
      "jr_status r = RequestPending" "add_member (cl_id c) (jr_user_id r) d = Inr (m, d1)"
      "club_tables d1 d'"
proof -
  obtain c r n where c: "managed_club p i d = Inr (c, d)" "find_request (cl_id c) j d = Inr (r, d)"
    and run: "(if jr_status r = RequestApproved \<and> one_or_none (\<lambda>m. me_club_id m = cl_id c \<and> me_user_id m = jr_user_id r)
        (t_club_memberships d) \<noteq> None then tx_return ()
      else tx_bind (tx_guard (jr_status r = RequestPending) (conflict ''conflict'')) (\<lambda>_.
       tx_bind (add_member (cl_id c) (jr_user_id r)) (\<lambda>_.
       tx_bind (decide_request (jr_id r) RequestApproved (sb_user_id p) n now) (\<lambda>decided.
       decision_audit p ''club.join_request.approve'' decided n ''approved'' c q)))) d = Inr (x, d')"
    using assms unfolding approve_def club_reads by blast
  show thesis
  proof (cases "jr_status r = RequestApproved \<and> one_or_none (\<lambda>m. me_club_id m = cl_id c \<and> me_user_id m = jr_user_id r)
        (t_club_memberships d) \<noteq> None")
    case True
    then show ?thesis using run again by (simp add: tx_return_eq)
  next
    case False
    then obtain m d1 where "jr_status r = RequestPending" "add_member (cl_id c) (jr_user_id r) d = Inr (m, d1)"
      and rest: "tx_bind (decide_request (jr_id r) RequestApproved (sb_user_id p) n now) (\<lambda>decided.
       decision_audit p ''club.join_request.approve'' decided n ''approved'' c q) d1 = Inr (x, d')"
      using run unfolding if_not_P [OF False] club_reads tx_bind_eq [of "add_member _ _"] by blast
    moreover have "tx_keeps club_tables (tx_bind (decide_request (jr_id r) RequestApproved (sb_user_id p) n now)
      (\<lambda>decided. decision_audit p ''club.join_request.approve'' decided n ''approved'' c q))"
      by (intro clubs.rules club_keeps)
    then have "club_tables d1 d'" using rest by (rule tx_keepsD)
    ultimately show ?thesis using admitted c \<open>club_tables d1 d'\<close> by blast
  qed
qed

lemma approve_owner: "approve p i j reason q now d = Inr (x, d') \<Longrightarrow> one_owner d \<Longrightarrow> one_owner d'"
  by (erule approve_cases) (auto simp: club_tables_owner dest: add_member_owner)

lemma reject_clubs [club_keeps]: "tx_keeps club_tables (reject p i j reason q now)"
proof -
  have "tx_keeps club_tables (managed_club p i)" "tx_keeps club_tables (find_request c j)" for c
    by (rule tx_keepsI, auto dest: managed_club_Inr(2) simp: find_request_Inr club_tables_def)+
  then show ?thesis unfolding reject_def by (intro clubs.rules club_keeps)
qed

lemma change_role_cases:
  assumes "change_role p i u role reason q d = Inr (x, d')"
  obtains c m where "find_club i d = Inr (c, d)" "cl_owner_user_id c = sb_user_id p"
      "m \<in> set (t_club_memberships d)" "me_club_id m = cl_id c" "me_user_id m = u" "me_role m \<noteq> RoleOwner"
    and "me_role m = role \<and> d' = d
      \<or> (\<exists>n d1. set_role (me_id m) role d = Inr (n, d1) \<and> club_tables d1 d')"
proof -
  obtain c n where c: "find_club i d = Inr (c, d)" "cl_owner_user_id c = sb_user_id p"
    and run: "(case one_or_none (\<lambda>m. me_club_id m = cl_id c \<and> me_user_id m = u) (t_club_memberships d) of
       None \<Rightarrow> tx_raise not_found
     | Some m \<Rightarrow>
         tx_bind (tx_guard (me_role m \<noteq> RoleOwner) (conflict ''conflict'')) (\<lambda>_.
         if me_role m = role then tx_return ()
         else
           tx_bind (set_role (me_id m) role) (\<lambda>changed.
           membership_audit p Organizer ''club.member.role_change'' ''club_membership'' (me_id changed)
             (Some n)
             (Some (JObj [(''role'', JStr (role_name (me_role m))), (''club_id'', JStr (uuid_str (cl_id c)))]))
             (Some (JObj [(''role'', JStr (role_name (me_role changed))),
               (''club_id'', JStr (uuid_str (cl_id c)))])) q))) d = Inr (x, d')"
    using assms unfolding change_role_def club_reads by blast
  then obtain m where m: "one_or_none (\<lambda>m. me_club_id m = cl_id c \<and> me_user_id m = u) (t_club_memberships d) = Some m"
    by (auto simp: tx_raise_eq split: option.splits)
  then have "me_role m \<noteq> RoleOwner" "me_role m = role \<and> d' = d
      \<or> (\<exists>n d1. set_role (me_id m) role d = Inr (n, d1) \<and> club_tables d1 d')"
    using run by (auto simp: tx_bind_eq tx_guard_eq tx_return_eq split: if_splits dest: tx_keepsD [OF audit_clubs])
  then show ?thesis using that [OF c] one_or_none_Some [OF m] by blast
qed

lemma set_role_effect:
  assumes "set_role i role d = Inr (n, d')"
  obtains m where "one_or_none (\<lambda>m. me_id m = i \<and> me_role m \<noteq> RoleOwner) (t_club_memberships d) = Some m"
    "n = m\<lparr>me_role := role\<rparr>" "t_clubs d' = t_clubs d"
    "t_club_memberships d' = update_where (\<lambda>x. me_id x = me_id m) (\<lambda>_. n) (t_club_memberships d)"
    "first_violation (membership_keys d (delete_where (\<lambda>x. me_id x = me_id m) (t_club_memberships d)) n) = None"
proof -
  have "update_role (\<lambda>m. me_id m = i \<and> me_role m \<noteq> RoleOwner) role d = Inr (Some n, d')"
    using assms by (auto simp: set_role_def tx_simps split: option.splits)
  then show ?thesis by (rule update_role_effect) (rule that)
qed

lemma change_role_owner:
  assumes "change_role p i u role reason q d = Inr (x, d')" and inv: "one_owner d"
  shows "one_owner d'"
  using assms(1)
proof (cases rule: change_role_cases)
  case (1 c m)
  then show ?thesis
  proof (elim disjE exE conjE)
    fix n d1 assume s: "set_role (me_id m) role d = Inr (n, d1)" "club_tables d1 d'"
    from s(1) obtain k where k: "one_or_none (\<lambda>x. me_id x = me_id m \<and> me_role x \<noteq> RoleOwner) (t_club_memberships d) = Some k"
      "n = k\<lparr>me_role := role\<rparr>" "t_clubs d1 = t_clubs d"
      "t_club_memberships d1 = update_where (\<lambda>x. me_id x = me_id k) (\<lambda>_. n) (t_club_memberships d)"
      "first_violation (membership_keys d (delete_where (\<lambda>x. me_id x = me_id k) (t_club_memberships d)) n) = None"
      by (rule set_role_effect)
    have "one_owner d1"
      by (rule owner_ranked [OF inv k(3) _ k(4) [unfolded k(2)] k(5) [unfolded k(2)]])
        (use one_or_none_Some [OF k(1)] in simp_all)
    then show ?thesis using s(2) by (simp add: club_tables_owner)
  qed (use inv in simp)
qed

lemma transfer_cases:
  assumes "transfer cfg p i u reason q d = Inr (x, d')"
  obtains c m n d1 d2 where "find_club i d = Inr (c, d)" "cl_owner_user_id c = sb_user_id p"
      "m \<in> set (t_club_memberships d)" "me_club_id m = cl_id c" "me_user_id m = sb_user_id p"
      "me_role m = RoleOwner" "n \<in> set (t_club_memberships d)" "me_club_id n = cl_id c" "me_user_id n = u"
      "u \<noteq> sb_user_id p" "require_candidate cfg u d = Inr ((), d1)"
      "transfer_ownership c m n d1 = Inr ((), d2)" "club_tables d2 d'"
proof -
  obtain c r where c: "find_club i d = Inr (c, d)" "cl_owner_user_id c = sb_user_id p"
    and run: "(case (one_or_none (\<lambda>m. me_club_id m = cl_id c \<and> me_user_id m = sb_user_id p) (t_club_memberships d),
        one_or_none (\<lambda>m. me_club_id m = cl_id c \<and> me_user_id m = u) (t_club_memberships d)) of
       (Some owner, Some m) \<Rightarrow>
         tx_bind (tx_guard (me_role owner = RoleOwner) not_found) (\<lambda>_.
         tx_bind (tx_guard (me_user_id m \<noteq> sb_user_id p) (conflict ''conflict'')) (\<lambda>_.
         tx_bind (require_candidate cfg (me_user_id m)) (\<lambda>_.
         tx_bind (transfer_ownership c owner m) (\<lambda>_.
         membership_audit p Organizer ''club.ownership.transfer'' ''club'' (cl_id c) (Some r)
           (Some (JObj [(''owner_user_id'', JStr (uuid_str (sb_user_id p)))]))
           (Some (JObj [(''owner_user_id'', JStr (uuid_str (me_user_id m)))])) q))))
     | _ \<Rightarrow> tx_raise not_found) d = Inr (x, d')"
    using assms unfolding transfer_def club_reads by blast
  obtain m n where
    m: "one_or_none (\<lambda>m. me_club_id m = cl_id c \<and> me_user_id m = sb_user_id p) (t_club_memberships d) = Some m"
    and n: "one_or_none (\<lambda>m. me_club_id m = cl_id c \<and> me_user_id m = u) (t_club_memberships d) = Some n"
    using run by (auto simp: tx_raise_eq split: option.splits)
  with run one_or_none_Some [OF n] obtain d1 d2 where "me_role m = RoleOwner" "u \<noteq> sb_user_id p"
    "require_candidate cfg u d = Inr ((), d1)" "transfer_ownership c m n d1 = Inr ((), d2)" "club_tables d2 d'"
    by (auto simp: tx_bind_eq tx_guard_eq dest: tx_keepsD [OF audit_clubs])
  then show ?thesis using that [OF c] one_or_none_Some [OF m] one_or_none_Some [OF n] by blast
qed

text \<open>The row of the club is found again, as no other has its identifier.\<close>

lemma transfer_ownership_effect:
  assumes inv: "one_owner d" and t: "transfer_ownership c m n d = Inr ((), d')"
    and r: "r \<in> set (t_clubs d)" "cl_id r = cl_id c" "cl_owner_user_id r = me_user_id m"
    and m: "m \<in> set (t_club_memberships d)" "me_role m = RoleOwner"
    and n: "n \<in> set (t_club_memberships d)" "me_user_id n \<noteq> me_user_id m"
  shows "t_club_memberships d' = reranked
      (\<lambda>x. if x = m then RoleMember else if x = n then RoleOwner else me_role x) (t_club_memberships d)"
    and "club_owners d' = map (\<lambda>(i, u). (i, if i = cl_id c then me_user_id n else u)) (club_owners d)"
    and "\<exists>now. t_clubs d' = update_where (\<lambda>x. cl_id x = cl_id r)
      (\<lambda>_. r\<lparr>cl_owner_user_id := me_user_id n, cl_revision := cl_revision r + 1, cl_updated_at := now\<rparr>) (t_clubs d)"
proof -
  note ids = one_ownerD(2) [OF inv]
  have mn: "me_id m \<noteq> me_id n" using distinct_key_eq [OF ids m(1) n(1)] n(2) by auto
  obtain a da k db e where a: "update_role (\<lambda>x. me_id x = me_id m \<and> me_role x = RoleOwner) RoleMember d = Inr (a, da)"
    and k: "update_role (\<lambda>x. me_id x = me_id n \<and> me_role x \<noteq> RoleOwner) RoleOwner da = Inr (Some k, db)"
    and e: "update_club_row None (\<lambda>r. cl_id r = cl_id c \<and> cl_owner_user_id r = me_user_id m)
       (\<lambda>r. r\<lparr>cl_owner_user_id := me_user_id n, cl_revision := cl_revision r + 1\<rparr>) db = Inr (e, d')"
    using t by (auto simp: transfer_ownership_def tx_bind_eq tx_guard_eq tx_return_eq)
  have "a \<noteq> None"
  proof
    assume "a = None"
    with a have "one_or_none (\<lambda>x. me_id x = me_id m \<and> me_role x = RoleOwner) (t_club_memberships d) = None"
      using update_role_None by blast
    then show False using m by (auto simp: one_or_none_None)
  qed
  then obtain a' where "update_role (\<lambda>x. me_id x = me_id m \<and> me_role x = RoleOwner) RoleMember d = Inr (Some a', da)"
    using a by auto
  then obtain a0 where a0: "one_or_none (\<lambda>x. me_id x = me_id m \<and> me_role x = RoleOwner) (t_club_memberships d) = Some a0"
    "a' = a0\<lparr>me_role := RoleMember\<rparr>" "t_clubs da = t_clubs d"
    "t_club_memberships da = update_where (\<lambda>x. me_id x = me_id a0) (\<lambda>_. a') (t_club_memberships d)"
    by (rule update_role_effect)
  have "a0 = m" using one_or_none_Some [OF a0(1)] distinct_key_eq [OF ids _ m(1)] by blast
  then have msa: "t_club_memberships da = reranked (\<lambda>x. if x = m then RoleMember else me_role x) (t_club_memberships d)"
    using a0(2,4) update_role_reranked [OF ids m(1)] by simp
  obtain k0 where k0: "one_or_none (\<lambda>x. me_id x = me_id n \<and> me_role x \<noteq> RoleOwner) (t_club_memberships da) = Some k0"
    "k = k0\<lparr>me_role := RoleOwner\<rparr>" "t_clubs db = t_clubs da"
    "t_club_memberships db = update_where (\<lambda>x. me_id x = me_id k0) (\<lambda>_. k) (t_club_memberships da)"
    using k by (rule update_role_effect)
  obtain y where y: "y \<in> set (t_club_memberships d)" "k0 = y\<lparr>me_role := if y = m then RoleMember else me_role y\<rparr>"
    using one_or_none_Some [OF k0(1)] unfolding msa reranked_def by auto
  have "y = n" using distinct_key_eq [OF ids y(1) n(1)] one_or_none_Some [OF k0(1)] y(2) by simp
  then have kn: "me_id k0 = me_id n" "k = n\<lparr>me_role := RoleOwner\<rparr>" using y(2) k0(2) mn by auto
  have "(if x = n then RoleOwner else me_role x) = RoleOwner" if "x = n" for x using that by simp
  show ms: "t_club_memberships d' = reranked
      (\<lambda>x. if x = m then RoleMember else if x = n then RoleOwner else me_role x) (t_club_memberships d)"
  proof -
    have "t_club_memberships d' = t_club_memberships db"
      using e by (cases e) (auto dest: update_club_row_None elim: update_club_row_effect)
    also have "\<dots> = reranked (\<lambda>x. if x = m then RoleMember else if x = n then RoleOwner else me_role x) (t_club_memberships d)"
      unfolding k0(4) kn msa reranked_def update_where_def
      using distinct_key_eq [OF ids _ n(1)] mn by auto
    finally show ?thesis .
  qed
  have cs: "t_clubs db = t_clubs d" using k0(3) a0(3) by simp
  have "e \<noteq> None"
  proof
    assume "e = None"
    with e have "one_or_none (\<lambda>r. cl_id r = cl_id c \<and> cl_owner_user_id r = me_user_id m) (t_clubs db) = None"
      using update_club_row_None by blast
    then show False using r cs by (auto simp: one_or_none_None)
  qed
  then obtain j where "update_club_row None (\<lambda>r. cl_id r = cl_id c \<and> cl_owner_user_id r = me_user_id m)
       (\<lambda>r. r\<lparr>cl_owner_user_id := me_user_id n, cl_revision := cl_revision r + 1\<rparr>) db = Inr (Some j, d')"
    using e by auto
  then obtain s now where s: "one_or_none (\<lambda>r. cl_id r = cl_id c \<and> cl_owner_user_id r = me_user_id m) (t_clubs db) = Some s"
    "t_clubs d' = update_where (\<lambda>x. cl_id x = cl_id s) (\<lambda>_. s\<lparr>cl_owner_user_id := me_user_id n,
       cl_revision := cl_revision s + 1, cl_updated_at := now\<rparr>) (t_clubs db)"
    by (rule update_club_row_effect)
  have "s = r"
    using one_or_none_Some [OF s(1)] distinct_key_eq [OF one_ownerD(1) [OF inv] _ r(1)] r(2) cs by simp
  note s = s(2) [unfolded this cs]
  then show "\<exists>now. t_clubs d' = update_where (\<lambda>x. cl_id x = cl_id r)
      (\<lambda>_. r\<lparr>cl_owner_user_id := me_user_id n, cl_revision := cl_revision r + 1, cl_updated_at := now\<rparr>) (t_clubs d)"
    by blast
  show "club_owners d' = map (\<lambda>(i, u). (i, if i = cl_id c then me_user_id n else u)) (club_owners d)"
    unfolding club_owners_def s update_where_def using r(2) by auto
qed

lemma transfer_owner:
  assumes "transfer cfg p i u reason q d = Inr (x, d')" and inv: "one_owner d"
  shows "one_owner d'"
  using assms(1)
proof (cases rule: transfer_cases)
  case (1 c m n d1 d2)
  have k: "club_tables d d1" using tx_keepsD [OF require_candidate_clubs 1(11)] .
  then have inv1: "one_owner d1" using inv by (simp add: club_tables_owner)
  obtain r where r: "r \<in> set (t_clubs d1)" "cl_id r = cl_id c" "cl_owner_user_id r = me_user_id m"
    using 1(1,2,5) k by (auto simp: find_club_Inr club_tables_def dest: one_or_none_Some)
  have mn: "m \<in> set (t_club_memberships d1)" "n \<in> set (t_club_memberships d1)" "me_user_id n \<noteq> me_user_id m"
    using 1 k by (auto simp: club_tables_def)
  note e = transfer_ownership_effect [OF inv1 1(12) r mn(1) 1(6) mn(2,3)]
  have "one_owner d2"
    by (rule owner_handed [OF inv1 r(1) r(3) mn(1) _ mn(2) _ mn(3) e(1)]) (use e(2) r(2) 1(4,8) in simp_all)
  then show ?thesis using 1(13) by (simp add: club_tables_owner)
qed

text \<open>Closing and editing keep the identity and the owner of the row.\<close>

lemma update_club_row_owner:
  assumes "update_club_row e P f d = Inr (Some i, d')" "one_owner d"
    and "\<And>r. cl_id (f r) = cl_id r" "\<And>r. cl_owner_user_id (f r) = cl_owner_user_id r"
  shows "one_owner d'"
  using assms(1)
proof (rule update_club_row_effect)
  fix r now
  assume r: "one_or_none P (t_clubs d) = Some r" "t_club_memberships d' = t_club_memberships d"
    "t_clubs d' = update_where (\<lambda>x. cl_id x = cl_id r) (\<lambda>_. (f r)\<lparr>cl_updated_at := now\<rparr>) (t_clubs d)"
  have "club_owners d' = club_owners d"
    using same_owners [OF one_ownerD(1) [OF assms(2)] _ _ _ r(3)] one_or_none_Some [OF r(1)] assms(3,4) by simp
  then show ?thesis using one_owner_cong [of d' d] r(2) assms(2) by simp
qed

lemma close_cases:
  assumes "close p i reason q now d = Inr (x, d')"
  obtains c j d1 where "find_club i d = Inr (c, d)" "cl_owner_user_id c = sb_user_id p"
    "update_club_row None (\<lambda>r. cl_id r = cl_id c \<and> cl_status r \<notin> {ClubClosed, ClubSuspended})
       (\<lambda>r. r\<lparr>cl_revision := cl_revision r + 1, cl_status := ClubClosed, cl_closed_at := Some now\<rparr>) d = Inr (Some j, d1)"
    "club_tables d1 d'"
proof -
  obtain c n where c: "find_club i d = Inr (c, d)" "cl_owner_user_id c = sb_user_id p"
    and run: "tx_bind (close_club (cl_id c) now) (\<lambda>_.
     membership_audit p Organizer ''club.close'' ''club'' (cl_id c) (Some n)
       (Some (JObj [(''status'', JStr (club_status_name (cl_status c))), (''revision'', JInt (cl_revision c))]))
       (Some (JObj [(''status'', JStr ''closed''), (''revision'', JInt (cl_revision c + 1))])) q) d = Inr (x, d')"
    using assms unfolding close_def club_reads by blast
  then show ?thesis using that [OF c]
    by (auto simp: tx_bind_eq close_club_def tx_guard_eq dest: tx_keepsD [OF audit_clubs])
qed

lemma close_owner: "close p i reason q now d = Inr (x, d') \<Longrightarrow> one_owner d \<Longrightarrow> one_owner d'"
  by (erule close_cases) (auto simp: club_tables_owner intro: update_club_row_owner)

lemma resolve_club_references_reads: "resolve_club_references o' a b c l v d = Inr (r, d') \<Longrightarrow> d' = d"
  by (auto simp: resolve_club_references_def tx_simps)

lemma lock_owner_creation_reads: "lock_owner_creation u d = Inr (x, d') \<Longrightarrow> d' = d"
  by (auto simp: lock_owner_creation_def tx_simps)

lemma get_edited_reads: "get_edited p i d = Inr (c, d') \<Longrightarrow> d' = d"
  by (auto simp: get_edited_def find_edited_def tx_simps split: option.splits)

lemma get_edited_step [club_reads]:
  "tx_bind (get_edited p i) f d = Inr r \<longleftrightarrow> (\<exists>c. get_edited p i d = Inr (c, d) \<and> f c d = Inr r)"
  by (auto simp: tx_bind_eq dest: get_edited_reads)

lemma resolve_club_references_step [club_reads]:
  "tx_bind (resolve_club_references o' a b c l v) f d = Inr r \<longleftrightarrow>
     (\<exists>x. resolve_club_references o' a b c l v d = Inr (x, d) \<and> f x d = Inr r)"
  by (auto simp: tx_bind_eq dest: resolve_club_references_reads)

lemma lock_owner_creation_step [club_reads]:
  "tx_bind (lock_owner_creation u) f d = Inr r \<longleftrightarrow> lock_owner_creation u d = Inr ((), d) \<and> f () d = Inr r"
  by (auto simp: tx_bind_eq dest: lock_owner_creation_reads)

lemma evaluate_step [club_reads]:
  "tx_bind (evaluate cfg p) f d = Inr r \<longleftrightarrow> (\<exists>c. evaluate cfg p d = Inr (c, d) \<and> f c d = Inr r)"
  by (auto simp: tx_bind_eq dest: evaluate_reads)

lemma update_club_cases:
  assumes "update_club c refs v t d = Inr (x, d')"
  obtains j where "update_club_row (Some duplicate_slug) (\<lambda>r. cl_id r = cl_id c \<and> cl_revision r = v)
    (set_club_columns c refs t) d = Inr (Some j, d')"
  using assms by (auto simp: update_club_def tx_simps split: option.splits)

lemma update_owner:
  assumes "update ok p i patch q now d = Inr (x, d')" and inv: "one_owner d"
  shows "one_owner d'"
proof -
  obtain c :: club and candidate refs t d1 u b1 b2 where "update_club candidate refs (kp_revision patch) t d = Inr (u, d1)"
    and rest: "tx_bind (club_audit p ''club.update'' (cl_id c) b1 (club_state u) q) (\<lambda>_.
     tx_bind (if cl_status c = ClubDraft \<and> cl_status u = ClubPublished
       then club_audit p ''club.publish'' (cl_id c) b2
         (JObj [(''status'', JStr ''published''), (''revision'', JInt (cl_revision u))]) q
       else tx_return ()) (\<lambda>_.
     tx_return u)) d1 = Inr (x, d')"
    using assms(1) unfolding update_def tx_bind_eq [of "update_club _ _ _ _"] club_reads
    by (elim exE conjE) (erule that, assumption)
  then have "one_owner d1"
    using inv by (elim update_club_cases) (auto simp: set_club_columns_def intro: update_club_row_owner)
  moreover have "tx_keeps club_tables (tx_bind (club_audit p ''club.update'' (cl_id c) b1 (club_state u) q) (\<lambda>_.
     tx_bind (if cl_status c = ClubDraft \<and> cl_status u = ClubPublished
       then club_audit p ''club.publish'' (cl_id c) b2
         (JObj [(''status'', JStr ''published''), (''revision'', JInt (cl_revision u))]) q
       else tx_return ()) (\<lambda>_.
     tx_return u)))" by (intro clubs.rules club_keeps)
  then have "club_tables d1 d'" using rest by (rule tx_keepsD)
  ultimately show ?thesis by (simp add: club_tables_owner)
qed

lemma create_club_effect:
  assumes "create_club u slug name desc pol links refs st t d = Inr (x, d')"
  obtains r m where "t_clubs d' = t_clubs d @ [r]" "t_club_memberships d' = t_club_memberships d @ [m]"
    "cl_owner_user_id r = u" "me_club_id m = cl_id r" "me_user_id m = u" "me_role m = RoleOwner"
    "\<forall>y \<in> set (t_clubs d). cl_id y \<noteq> cl_id r" "\<forall>y \<in> set (t_club_memberships d). me_id y \<noteq> me_id m"
    "cl_status r = st" "x = club_of_row d' r"
proof -
  obtain i now d1 where r: "first_violation (club_checks (new_club_row i u slug name desc pol links refs st t now)
      @ club_keys d1 (t_clubs d) (new_club_row i u slug name desc pol links refs st t now)) = None"
    "club_tables d d1"
    and ins: "insert_membership (Some duplicate_slug) i u RoleOwner
      (d1\<lparr>t_clubs := t_clubs d @ [new_club_row i u slug name desc pol links refs st t now]\<rparr>) = Inr ((), d')"
    and x: "map_option (club_of_row d') (one_or_none (\<lambda>c. cl_id c = i) (t_clubs d')) = Some x"
    using assms by (auto simp: create_club_def tx_simps Let_def club_tables_def split: option.splits)
  let ?r = "new_club_row i u slug name desc pol links refs st t now"
  have new: "\<forall>y \<in> set (t_clubs d). cl_id y \<noteq> i"
    using r(1) by (auto simp: first_violation_append club_keys_def row_exists_iff new_club_row_def split: if_splits)
  from ins show thesis
  proof (rule insert_membership_effect)
    fix m
    assume "t_clubs d' = t_clubs (d1\<lparr>t_clubs := t_clubs d @ [?r]\<rparr>)"
      and "t_club_memberships d' = t_club_memberships (d1\<lparr>t_clubs := t_clubs d @ [?r]\<rparr>) @ [m]"
      and m: "me_club_id m = i" "me_user_id m = u" "me_role m = RoleOwner"
      and "first_violation (membership_keys (d1\<lparr>t_clubs := t_clubs d @ [?r]\<rparr>)
        (t_club_memberships (d1\<lparr>t_clubs := t_clubs d @ [?r]\<rparr>)) m) = None"
    then have s: "t_clubs d' = t_clubs d @ [?r]" "t_club_memberships d' = t_club_memberships d @ [m]"
      "\<forall>y \<in> set (t_club_memberships d). me_id y \<noteq> me_id m"
      using r(2) by (auto simp: club_tables_def membership_keys_ok)
    have "one_or_none (\<lambda>c. cl_id c = i) (t_clubs d) = None" using new by (auto simp: one_or_none_None)
    then have "x = club_of_row d' ?r" using x s(1) by (simp add: one_or_none_append new_club_row_def)
    then show thesis using that [OF s(1,2)] s(3) m new by (simp add: new_club_row_def)
  qed
qed

lemma create_cases:
  assumes "create ok cfg p v q now d = Inr (x, d')"
  obtains slug name desc pol links refs st t d1 where "club_tables d1 d'"
    "create_club (sb_user_id p) slug name desc pol links refs st t d = Inr (x, d1)"
proof -
  obtain slug name desc pol links refs st t d1 u where c: "create_club (sb_user_id p) slug name desc pol links refs st t d = Inr (u, d1)"
    and rest: "tx_bind (club_audit p ''club.create'' (cl_id u) None (club_state u) q) (\<lambda>_.
     tx_bind (if cl_status u = ClubPublished
       then club_audit p ''club.publish'' (cl_id u) (Some (JObj [(''status'', JStr ''draft'')]))
         (JObj [(''status'', JStr ''published''), (''revision'', JInt (cl_revision u))]) q
       else tx_return ()) (\<lambda>_.
     tx_return u)) d1 = Inr (x, d')"
    using assms unfolding create_def Let_def tx_bind_eq [of "create_club _ _ _ _ _ _ _ _ _"] club_reads
    by (elim exE conjE) (erule that, assumption)
  have "tx_keeps club_tables (tx_bind (club_audit p ''club.create'' (cl_id u) None (club_state u) q) (\<lambda>_.
     tx_bind (if cl_status u = ClubPublished
       then club_audit p ''club.publish'' (cl_id u) (Some (JObj [(''status'', JStr ''draft'')]))
         (JObj [(''status'', JStr ''published''), (''revision'', JInt (cl_revision u))]) q
       else tx_return ()) (\<lambda>_.
     tx_return u)))" by (intro clubs.rules club_keeps)
  then have "club_tables d1 d'" using rest by (rule tx_keepsD)
  moreover have "x = u" using rest by (auto simp: tx_bind_eq tx_return_eq)
  ultimately show ?thesis using that c by blast
qed

lemma create_owner:
  assumes "create ok cfg p v q now d = Inr (x, d')" and inv: "one_owner d"
  shows "one_owner d'"
  using assms(1)
proof (rule create_cases)
  fix slug name desc pol links refs st t d1
  assume "create_club (sb_user_id p) slug name desc pol links refs st t d = Inr (x, d1)" "club_tables d1 d'"
  then show ?thesis
    by (elim create_club_effect) (auto simp: club_tables_owner intro: owner_founded [OF inv])
qed

subsection \<open>The system of clubs\<close>

text \<open>
  One committed operation on clubs, or one of another service, which changes neither a membership
  nor the owner of a club.
\<close>

inductive club_step :: "(string \<Rightarrow> bool) \<Rightarrow> eligibility_config \<Rightarrow> db \<Rightarrow> db \<Rightarrow> bool" for ok cfg where
  create: "create ok cfg p v q now d = Inr (c, d') \<Longrightarrow> club_step ok cfg d d'"
| update: "update ok (p :: principal) i patch q now d = Inr (c, d') \<Longrightarrow> club_step ok cfg d d'"
| join: "join (p :: principal) i msg q d = Inr (r, d') \<Longrightarrow> club_step ok cfg d d'"
| leave: "leave (p :: principal) i q now d = Inr (u, d') \<Longrightarrow> club_step ok cfg d d'"
| approve: "approve (p :: principal) i j reason q now d = Inr (u, d') \<Longrightarrow> club_step ok cfg d d'"
| reject: "reject (p :: principal) i j reason q now d = Inr (u, d') \<Longrightarrow> club_step ok cfg d d'"
| change_role: "change_role (p :: principal) i t role reason q d = Inr (u, d') \<Longrightarrow> club_step ok cfg d d'"
| transfer: "transfer cfg (p :: principal) i t reason q d = Inr (u, d') \<Longrightarrow> club_step ok cfg d d'"
| close: "close (p :: principal) i reason q now d = Inr (u, d') \<Longrightarrow> club_step ok cfg d d'"
| other: "club_owners d' = club_owners d \<Longrightarrow> t_club_memberships d' = t_club_memberships d \<Longrightarrow> club_step ok cfg d d'"

lemma club_step_owner:
  assumes "club_step ok cfg d d'" "one_owner d"
  shows "one_owner d'"
  using assms
proof (induction rule: club_step.induct)
  case (reject p i j reason q now d u d')
  then show ?case using tx_keepsD [OF reject_clubs] club_tables_owner by blast
next
  case (other d' d)
  then show ?case using one_owner_cong by blast
qed (blast intro: create_owner update_owner join_owner leave_owner approve_owner change_role_owner
    transfer_owner close_owner)+

text \<open>
  C4. Ownership is never lost or shared: whatever the order in which accounts found, join and leave
  clubs, requests are decided, roles change and clubs are handed over or closed, every club has a
  membership with the role of owner, it is that of the account its row names, and no other.
\<close>

theorem every_club_has_one_owner:
  assumes "(club_step ok cfg)\<^sup>*\<^sup>* d d'" and "t_clubs d = []" and "t_club_memberships d = []"
    and "c \<in> set (t_clubs d')"
  shows "\<exists>m \<in> set (t_club_memberships d'). me_club_id m = cl_id c \<and> me_user_id m = cl_owner_user_id c
    \<and> me_role m = RoleOwner
    \<and> (\<forall>x \<in> set (t_club_memberships d'). me_club_id x = cl_id c \<and> x \<noteq> m \<longrightarrow> me_role x \<noteq> RoleOwner)"
proof -
  have "one_owner d" using assms(2,3) by (simp add: one_owner_def club_owners_def members_wf_def)
  with assms(1) have inv: "one_owner d'"
    by (induction rule: rtranclp_induct) (auto intro: club_step_owner)
  note o = one_ownerD(4) [OF inv assms(4)]
  then obtain m where m: "m \<in> set (t_club_memberships d')" "me_club_id m = cl_id c"
    "me_user_id m = cl_owner_user_id c" "me_role m = RoleOwner" by (auto simp: owned_by_def)
  have "me_role x \<noteq> RoleOwner" if "x \<in> set (t_club_memberships d')" "me_club_id x = cl_id c" "x \<noteq> m" for x
    using o that m distinct_key_eq [OF one_ownerD(3) [OF inv] that(1) m(1)] by (auto simp: owned_by_def)
  then show ?thesis using m by blast
qed

text \<open>
  A transfer of ownership makes the chosen member, and only that member, the owner: the club's
  row and the two memberships change together, every other membership stays as it was.
\<close>

theorem transfer_makes_the_target_owner:
  assumes "transfer cfg p i u reason q d = Inr (x, d')" and "one_owner d"
  shows "\<exists>c m n now. c \<in> set (t_clubs d) \<and> cl_id c = i \<and> cl_owner_user_id c = sb_user_id p \<and> u \<noteq> sb_user_id p
    \<and> m \<in> set (t_club_memberships d) \<and> me_club_id m = i \<and> me_user_id m = sb_user_id p
    \<and> n \<in> set (t_club_memberships d) \<and> me_club_id n = i \<and> me_user_id n = u
    \<and> t_clubs d' = update_where (\<lambda>y. cl_id y = i) (\<lambda>_. c\<lparr>cl_owner_user_id := u,
        cl_revision := cl_revision c + 1, cl_updated_at := now\<rparr>) (t_clubs d)
    \<and> t_club_memberships d' = map (\<lambda>y. y\<lparr>me_role := if y = m then RoleMember else if y = n then RoleOwner
        else me_role y\<rparr>) (t_club_memberships d)"
  using assms(1)
proof (cases rule: transfer_cases)
  case (1 c m n d1 d2)
  have k: "club_tables d d1" using tx_keepsD [OF require_candidate_clubs 1(11)] .
  then have inv1: "one_owner d1" using assms(2) by (simp add: club_tables_owner)
  obtain r where r: "r \<in> set (t_clubs d1)" "cl_id r = cl_id c" "cl_owner_user_id r = me_user_id m" "cl_id c = i"
    using 1(1,2,5) k by (auto simp: find_club_Inr club_tables_def dest: one_or_none_Some)
  have mn: "m \<in> set (t_club_memberships d1)" "n \<in> set (t_club_memberships d1)" "me_user_id n \<noteq> me_user_id m"
    using 1 k by (auto simp: club_tables_def)
  note e = transfer_ownership_effect [OF inv1 1(12) r(1-3) mn(1) 1(6) mn(2,3)]
  obtain now where "t_clubs d2 = update_where (\<lambda>x. cl_id x = cl_id r) (\<lambda>_. r\<lparr>cl_owner_user_id := me_user_id n,
      cl_revision := cl_revision r + 1, cl_updated_at := now\<rparr>) (t_clubs d1)" using e(3) by blast
  then show ?thesis
    using 1 k r e(1) by (intro exI [of _ r] exI [of _ m] exI [of _ n] exI [of _ now])
      (simp add: club_tables_def reranked_def)
qed

text \<open>
  C18. Nobody becomes a member without consent: a join that adds a membership is that of an active
  account with a verified address to a published club open to all; an approval that adds one is a
  manager's answer to a pending request of the new member. In either case the role is that of a
  plain member.
\<close>

theorem members_are_admitted:
  assumes "join p i msg q d = Inr (r, d') \<or> approve p i j reason q now d = Inr (u, d')"
  shows "t_club_memberships d' = t_club_memberships d
    \<or> (\<exists>c m. c \<in> set (t_clubs d) \<and> cl_id c = i \<and> t_club_memberships d' = t_club_memberships d @ [m]
        \<and> me_club_id m = i \<and> me_role m = RoleMember
        \<and> (me_user_id m = sb_user_id p \<and> sb_status p = UserActive \<and> sb_email_verified p
             \<and> cl_status c = ClubPublished \<and> cl_membership_policy c = OpenMembership
           \<or> (\<exists>a \<in> set (t_club_join_requests d). me_user_id m = jr_user_id a \<and> jr_club_id a = i \<and> jr_id a = j
                \<and> jr_status a = RequestPending \<and> is_club_manager p c (one_or_none
                    (\<lambda>x. me_club_id x = i \<and> me_user_id x = sb_user_id p) (t_club_memberships d)))))"
  using assms
proof
  assume "join p i msg q d = Inr (r, d')"
  then show ?thesis
  proof (cases rule: join_cases)
    case (1 c)
    obtain row where row: "row \<in> set (t_clubs d)" "cl_id row = i" "c = club_of_row d row"
      using 1(1) by (auto simp: find_club_Inr dest: one_or_none_Some)
    from 1(5) show ?thesis
    proof (elim disjE exE conjE)
      fix m d1 assume m: "cl_membership_policy c = OpenMembership"
        "add_member (cl_id c) (sb_user_id p) d = Inr (m, d1)" "club_tables d1 d'"
      from m(2) show ?thesis
      proof (cases rule: add_member_cases)
        case present
        then show ?thesis using m(3) by (simp add: club_tables_def)
      next
        case added
        then show ?thesis using m(1,3) 1(2-4) row by (auto simp: club_tables_def)
      qed
    qed (simp_all add: club_tables_def)
  qed
next
  assume "approve p i j reason q now d = Inr (u, d')"
  then show ?thesis
  proof (cases rule: approve_cases)
    case (admitted c a m d1)
    obtain row where row: "row \<in> set (t_clubs d)" "cl_id row = i" "c = club_of_row d row"
      using managed_club_Inr(1) [OF admitted(1)] by (auto simp: find_club_Inr dest: one_or_none_Some)
    have manager: "is_club_manager p row (one_or_none (\<lambda>x. me_club_id x = i \<and> me_user_id x = sb_user_id p)
        (t_club_memberships d))"
      using managed_club_Inr(3) [OF admitted(1)] row
      by (auto simp: can_manage_members_def split: sum.splits if_splits)
    have a: "a \<in> set (t_club_join_requests d)" "jr_club_id a = i" "jr_id a = j"
      using admitted(2) row by (auto simp: find_request_Inr dest: one_or_none_Some)
    from admitted(4) show ?thesis
    proof (cases rule: add_member_cases)
      case present
      then show ?thesis using admitted(5) by (simp add: club_tables_def)
    next
      case added
      then show ?thesis using admitted(3,5) row manager a by (auto simp: club_tables_def)
    qed
  qed simp
qed

subsection \<open>Examples\<close>

definition example_category :: category_row where
  "example_category = \<lparr>ca_id = example_id 40, ca_slug = ''walks'', ca_enabled = True\<rparr>"

definition example_club :: "membership_policy \<Rightarrow> club_row" where
  "example_club policy = \<lparr>cl_id = example_id 60, cl_owner_user_id = example_id 1, cl_slug = ''walkers'',
     cl_name = ''Walkers'', cl_description = Some ''We walk'', cl_membership_policy = policy,
     cl_social_links = [], cl_logo_media_id = None, cl_cover_media_id = None, cl_revision = 1,
     cl_status = ClubPublished, cl_published_at = Some 0, cl_suspended_at = None,
     cl_suspension_reason = None, cl_closed_at = None, cl_created_at = 0, cl_updated_at = 0,
     cl_category_id = Some (example_id 40), cl_country_id = Some (example_id 30),
     cl_city_id = Some (example_id 31)\<rparr>"

definition example_member :: "nat \<Rightarrow> nat \<Rightarrow> club_role \<Rightarrow> membership_row" where
  "example_member n u role = \<lparr>me_id = example_id n, me_club_id = example_id 60, me_user_id = example_id u,
     me_role = role, me_joined_at = 0\<rparr>"

definition example_club_db :: db where
  "example_club_db = example_db\<lparr>t_categories := [example_category], t_clubs := [example_club OpenMembership],
     t_club_memberships := [example_member 61 1 RoleOwner, example_member 62 2 RoleAdmin]\<rparr>"

definition example_organizer_account :: "nat \<Rightarrow> principal" where
  "example_organizer_account n = \<lparr>sb_user_id = example_id n, sb_email_verified = True,
     sb_status = UserActive, sb_is_platform_admin = False, ap_session_id = example_id 80\<rparr>"

definition example_new_club :: new_club where
  "example_new_club = \<lparr>nc_slug = ''Runners'', nc_name = '' Runners '', nc_description = None,
     nc_category_slug = None, nc_country_code = None, nc_city_slug = None,
     nc_membership_policy = OpenMembership, nc_social_links = None, nc_logo_media_id = None,
     nc_cover_media_id = None\<rparr>"

lemma example_club_owner: "one_owner example_club_db"
proof -
  have "club_owners example_club_db = [(example_id 60, example_id 1)]"
    "t_club_memberships example_club_db = [example_member 61 1 RoleOwner, example_member 62 2 RoleAdmin]"
    by (simp_all add: club_owners_def example_club_db_def example_club_def)
  moreover have "example_id 61 \<noteq> example_id 62" "example_id 1 \<noteq> example_id 2" by code_simp+
  ultimately show ?thesis
    by (auto simp: one_owner_def members_wf_def owned_by_def example_member_def)
qed

theorem every_club_has_one_owner_witness:
  "\<exists>c d'. create (\<lambda>_. True) example_rules (example_organizer_account 5) example_new_club (example_id 91) 10
      example_db = Inr (c, d')
    \<and> (\<exists>r m. t_clubs d' = [r] \<and> m \<in> set (t_club_memberships d') \<and> me_club_id m = cl_id r
        \<and> me_user_id m = cl_owner_user_id r \<and> me_role m = RoleOwner)"
proof -
  have "commits (create (\<lambda>_. True) example_rules (example_organizer_account 5) example_new_club (example_id 91) 10
      example_db) (\<lambda>c d'. map cl_id (t_clubs d') = [cl_id c])" by code_simp
  then obtain c d' where run: "create (\<lambda>_. True) example_rules (example_organizer_account 5) example_new_club
      (example_id 91) 10 example_db = Inr (c, d')" and "map cl_id (t_clubs d') = [cl_id c]" by (rule commitsE)
  then obtain r where r: "t_clubs d' = [r]" by (cases "t_clubs d'") auto
  have "(club_step (\<lambda>_. True) example_rules)\<^sup>*\<^sup>* example_db d'"
    by (rule r_into_rtranclp) (rule club_step.create [OF run])
  moreover have "t_clubs example_db = []" "t_club_memberships example_db = []" by (simp_all add: example_db_def empty_db_def)
  ultimately show ?thesis
    using every_club_has_one_owner [of "\<lambda>_. True" example_rules example_db d' r] run r by auto
qed

theorem transfer_makes_the_target_owner_witness:
  "\<exists>u d' c. transfer example_rules (example_organizer_account 1) (example_id 60) (example_id 2) ''moving away''
      (example_id 91) example_club_db = Inr (u, d')
    \<and> t_clubs d' = [c] \<and> cl_owner_user_id c = example_id 2 \<and> cl_revision c = 2"
proof -
  have "commits (transfer example_rules (example_organizer_account 1) (example_id 60) (example_id 2) ''moving away''
      (example_id 91) example_club_db) (\<lambda>u d'. True)" by code_simp
  then obtain u d' where run: "transfer example_rules (example_organizer_account 1) (example_id 60) (example_id 2)
      ''moving away'' (example_id 91) example_club_db = Inr (u, d')" by (rule commitsE)
  have "t_clubs example_club_db = [example_club OpenMembership]" by (simp add: example_club_db_def)
  then have "\<exists>c. t_clubs d' = [c] \<and> cl_owner_user_id c = example_id 2 \<and> cl_revision c = 2"
    using transfer_makes_the_target_owner [OF run example_club_owner] by (auto simp: example_club_def)
  then show ?thesis using run by blast
qed

theorem members_are_admitted_witness:
  "\<exists>r d' m. join (example_organizer_account 3) (example_id 60) None (example_id 91) example_club_db = Inr (r, d')
    \<and> t_club_memberships d' = t_club_memberships example_club_db @ [m] \<and> me_role m = RoleMember"
proof -
  have "commits (join (example_organizer_account 3) (example_id 60) None (example_id 91) example_club_db)
      (\<lambda>r d'. length (t_club_memberships d') = 3)" by code_simp
  then obtain r d' where run: "join (example_organizer_account 3) (example_id 60) None (example_id 91) example_club_db
      = Inr (r, d')" and three: "length (t_club_memberships d') = 3" by (rule commitsE)
  have "length (t_club_memberships example_club_db) = 2" by (simp add: example_club_db_def)
  then show ?thesis
    using members_are_admitted [OF disjI1 [OF run], where j = "example_id 0"] run three by auto
qed

end
