(* ===== verification/Event_Laws.thy ===== *)
theory Event_Laws
  imports Event_Service Registration_Frame
begin

section \<open>What managing events guarantees\<close>

subsection \<open>Effects of the statements\<close>

lemma authorize_event_manager_Inr:
  "authorize_event_manager p e d = Inr (u, d') \<longleftrightarrow> authorize_manager p e d = Inr (u, d')"
  by (auto simp: authorize_event_manager_def authorize_manager_def tx_bind_eq tx_guard_eq tx_raise_eq
      split: ownership_type.splits option.splits)

lemma managed_event_Inr:
  assumes "managed_event p i d = Inr (e, d')"
  obtains r where "d' = d" "one_or_none (\<lambda>x. ev_id x = i) (t_events d) = Some r" "e = event_of_row d r"
    "authorize_manager p e d = Inr ((), d)"
  using assms that
  by (auto simp: managed_event_def find_event_def tx_bind_eq tx_guard_eq tx_raise_eq tx_return_eq get_event_eq
      authorize_event_manager_Inr split: option.splits dest: authorize_manager_reads)

lemma update_event_row_effect:
  assumes "update_event_row P f d = Inr (Some i, d')"
  obtains r where "one_or_none P (t_events d) = Some r" "i = ev_id r"
    "d' = d\<lparr>clock_pos := Suc (clock_pos d), t_events := update_where (\<lambda>x. ev_id x = ev_id r)
       (\<lambda>_. (f r)\<lparr>ev_updated_at := clock_at d (clock_pos d)\<rparr>) (t_events d)\<rparr>"
proof -
  obtain r where r: "one_or_none P (t_events d) = Some r"
    using assms by (cases "one_or_none P (t_events d)")
      (simp_all add: update_event_row_def tx_query_eq tx_bind_eq tx_return_eq)
  show thesis
    using assms that [OF r] by (simp add: update_event_row_def tx_query_eq tx_bind_eq tx_return_eq Let_def
        clock_timestamp_eq check_constraints_eq tx_modify_eq r)
qed

text \<open>What announcing and auditing leave alone: also the private links.\<close>

definition event_frame :: "db \<Rightarrow> db \<Rightarrow> bool" where
  "event_frame d d' \<longleftrightarrow> member_frame d d' \<and> t_event_invite_tokens d' = t_event_invite_tokens d"

interpretation announcing: frame_relation event_frame
  by standard (auto simp: event_frame_def intro: member.refl member.trans)

named_theorems event_keeps "statements that announce or audit"

lemma fresh_uuid_event [event_keeps]: "tx_keeps event_frame fresh_uuid"
  by (rule tx_keepsI) (auto simp: tx_simps event_frame_def member_frame_def)

lemma insert_outbox_event [event_keeps]: "tx_keeps event_frame (insert_outbox row)"
  by (rule tx_keepsI) (auto dest!: insert_outbox_effect simp: event_frame_def member_frame_def)

lemma insert_outbox_or_ignore_event [event_keeps]: "tx_keeps event_frame (insert_outbox_or_ignore row)"
  unfolding insert_outbox_or_ignore_def by (intro announcing.rules event_keeps)

lemma audit_record_event [event_keeps]: "tx_keeps event_frame (audit_record e)"
  by (rule tx_keepsI) (auto dest!: audit_record_effect simp: event_frame_def member_frame_def)

lemma event_record_event [event_keeps]: "tx_keeps event_frame (event_record p a e i b)"
  unfolding event_record_def by (intro announcing.rules event_keeps)

lemma notifications_event [event_keeps]: "tx_keeps event_frame (enqueue_attendee_notifications e t)"
  unfolding enqueue_attendee_notifications_def enqueue_def
  by (intro announcing.rules event_keeps)

lemma event_of_row_cong:
  "t_categories d' = t_categories d \<Longrightarrow> t_countries d' = t_countries d \<Longrightarrow> t_cities d' = t_cities d
    \<Longrightarrow> event_of_row d' r = event_of_row d r"
  by (simp add: event_of_row_def)

text \<open>After a row is replaced it is the one found under its identifier.\<close>

lemma find_replaced:
  assumes "r \<in> set rows" "ev_id r' = ev_id r"
  shows "one_or_none (\<lambda>x. ev_id x = ev_id r) (update_where (\<lambda>x. ev_id x = ev_id r) (\<lambda>_. r') rows) = Some r'"
  by (rule one_or_none_unique) (use assms in \<open>auto simp: set_update_where image_iff split: if_splits\<close>)

text \<open>\<open>event_saved d d' r r'\<close>: the transaction replaced the row \<open>r\<close> by \<open>r'\<close> and no other event.\<close>

definition event_saved :: "db \<Rightarrow> db \<Rightarrow> event_row \<Rightarrow> event_row \<Rightarrow> bool" where
  "event_saved d d' r r' \<longleftrightarrow> r \<in> set (t_events d) \<and> ev_id r' = ev_id r
     \<and> t_events d' = update_where (\<lambda>x. ev_id x = ev_id r) (\<lambda>_. r') (t_events d)"

lemma event_saved_frame: "event_saved d d1 r r' \<Longrightarrow> event_frame d1 d' \<Longrightarrow> event_saved d d' r r'"
  by (simp add: event_saved_def event_frame_def member_frame_def)

text \<open>The end of an update: the row is loaded again and the attendees are notified.\<close>

lemma reload_saved:
  assumes "event_saved d d1 r r'" "t_categories d1 = t_categories d" "t_countries d1 = t_countries d"
    "t_cities d1 = t_cities d" "t_event_invite_tokens d1 = t_event_invite_tokens d"
    and "tx_bind (get_event (ev_id r)) (\<lambda>result. case result of None \<Rightarrow> tx_raise e
      | Some x \<Rightarrow> tx_bind (m x) (\<lambda>_. tx_return x)) d1 = Inr (x, d')"
    and "\<And>x. tx_keeps event_frame (m x)"
  shows "event_saved d d' r r' \<and> x = event_of_row d r' \<and> t_event_invite_tokens d' = t_event_invite_tokens d"
proof -
  have "one_or_none (\<lambda>x. ev_id x = ev_id r) (t_events d1) = Some r'"
    using assms(1) find_replaced [of r "t_events d" r'] by (simp add: event_saved_def)
  then obtain u where m: "m (event_of_row d1 r') d1 = Inr (u, d')" "x = event_of_row d1 r'"
    using assms(6) by (auto simp: tx_bind_eq get_event_eq tx_return_eq)
  then have f: "event_frame d1 d'" using assms(7) by (blast dest: tx_keepsD)
  then show ?thesis
    using event_saved_frame [OF assms(1) f] assms(2-5) m(2) event_of_row_cong [of d1 d r']
    by (simp add: event_frame_def)
qed

lemma update_event_effect:
  assumes "update_event e refs n d = Inr (x, d')"
  obtains r where "one_or_none (\<lambda>r. ev_id r = ev_id e \<and> ev_revision r = n
      \<and> ev_status r \<in> {EvDraft, EvPublished}) (t_events d) = Some r"
    "event_saved d d' r ((set_columns (row_of_event e refs) r)\<lparr>ev_updated_at := clock_at d (clock_pos d)\<rparr>)"
    "x = event_of_row d ((set_columns (row_of_event e refs) r)\<lparr>ev_updated_at := clock_at d (clock_pos d)\<rparr>)"
    "t_event_invite_tokens d' = t_event_invite_tokens d"
proof -
  obtain i d1 where u: "update_event_row
       (\<lambda>r. ev_id r = ev_id e \<and> ev_revision r = n \<and> ev_status r \<in> {EvDraft, EvPublished})
       (set_columns (row_of_event e refs)) d = Inr (Some i, d1)"
    and rest: "tx_bind (get_event (ev_id e)) (\<lambda>result. case result of
           None \<Rightarrow> tx_raise (RuntimeError ''updated event could not be reloaded'')
         | Some x \<Rightarrow> tx_bind (enqueue_attendee_notifications x ''event.updated'') (\<lambda>_. tx_return x)) d1 = Inr (x, d')"
    using assms unfolding update_event_def by (rule tx_bindE) (auto simp: tx_raise_eq split: option.splits)
  from u show thesis
  proof (cases rule: update_event_row_effect)
    case (1 r)
    note r = one_or_none_Some [OF 1(1)]
    have "event_saved d d1 r ((set_columns (row_of_event e refs) r)\<lparr>ev_updated_at := clock_at d (clock_pos d)\<rparr>)"
      using 1(3) r by (simp add: event_saved_def set_columns_def)
    from reload_saved [OF this _ _ _ _ rest [folded r [THEN conjunct2, THEN conjunct1]]] show thesis
      using that [OF 1(1)] 1(3) notifications_event by simp
  qed
qed

lemma transition_event_effect:
  assumes "transition_event i n target t d = Inr (x, d')"
  obtains r r' where "one_or_none (\<lambda>r. ev_id r = i \<and> ev_revision r = n \<and> ev_status r = EvPublished) (t_events d) = Some r"
    "event_saved d d' r r'" "target \<in> {EvCancelled, EvCompleted}" "ev_status r' = target"
    "ev_revision r' = ev_revision r + 1" "x = event_of_row d r'"
proof -
  obtain j d1 where t: "target \<in> {EvCancelled, EvCompleted}" and u: "update_event_row
       (\<lambda>r. ev_id r = i \<and> ev_revision r = n \<and> ev_status r = EvPublished)
       (\<lambda>r. r\<lparr>ev_status := target,
          ev_cancelled_at := (if target = EvCancelled then Some t else ev_cancelled_at r),
          ev_completed_at := (if target = EvCompleted then Some t else ev_completed_at r),
          ev_revision := ev_revision r + 1\<rparr>) d = Inr (Some j, d1)"
    and rest: "tx_bind (get_event i) (\<lambda>result. case result of
           None \<Rightarrow> tx_raise (RuntimeError ''transitioned event could not be reloaded'')
         | Some x \<Rightarrow> tx_bind (if target = EvCancelled
               then enqueue_attendee_notifications x ''event.cancelled'' else tx_return ()) (\<lambda>_.
             tx_return x)) d1 = Inr (x, d')"
  proof -
    obtain j d1 where "target \<in> {EvCancelled, EvCompleted}" "update_event_row
       (\<lambda>r. ev_id r = i \<and> ev_revision r = n \<and> ev_status r = EvPublished)
       (\<lambda>r. r\<lparr>ev_status := target,
          ev_cancelled_at := (if target = EvCancelled then Some t else ev_cancelled_at r),
          ev_completed_at := (if target = EvCompleted then Some t else ev_completed_at r),
          ev_revision := ev_revision r + 1\<rparr>) d = Inr (j, d1)"
      "(case j of None \<Rightarrow> tx_raise stale_revision
        | Some _ \<Rightarrow> tx_bind (get_event i) (\<lambda>result. case result of
           None \<Rightarrow> tx_raise (RuntimeError ''transitioned event could not be reloaded'')
         | Some x \<Rightarrow> tx_bind (if target = EvCancelled
               then enqueue_attendee_notifications x ''event.cancelled'' else tx_return ()) (\<lambda>_.
             tx_return x))) d1 = Inr (x, d')"
      using assms unfolding transition_event_def tx_bind_eq [where m = "tx_guard _ _"]
        tx_bind_eq [where m = "update_event_row _ _"] tx_guard_eq by blast
    then show thesis using that by (cases j) (simp_all add: tx_raise_eq)
  qed
  from u show thesis
  proof (cases rule: update_event_row_effect)
    case (1 r)
    note r = one_or_none_Some [OF 1(1)]
    define r' where "r' = (r\<lparr>ev_status := target,
          ev_cancelled_at := (if target = EvCancelled then Some t else ev_cancelled_at r),
          ev_completed_at := (if target = EvCompleted then Some t else ev_completed_at r),
          ev_revision := ev_revision r + 1\<rparr>)\<lparr>ev_updated_at := clock_at d (clock_pos d)\<rparr>"
    have saved: "event_saved d d1 r r'" using 1(3) r by (simp add: event_saved_def r'_def)
    have keeps: "tx_keeps event_frame (if target = EvCancelled
        then enqueue_attendee_notifications x ''event.cancelled'' else tx_return ())" for x
      by (intro announcing.cond event_keeps announcing.return)
    have same: "t_categories d1 = t_categories d" "t_countries d1 = t_countries d"
      "t_cities d1 = t_cities d" "t_event_invite_tokens d1 = t_event_invite_tokens d" by (simp_all add: 1(3))
    note e = reload_saved [OF saved same rest [folded r [THEN conjunct2, THEN conjunct1]] keeps]
    show thesis by (rule that [OF 1(1) _ t, of r']) (use e in \<open>simp_all add: r'_def\<close>)
  qed
qed

subsection \<open>References\<close>

definition references_distinct :: "db \<Rightarrow> bool" where
  "references_distinct d \<longleftrightarrow> distinct (map ca_id (t_categories d)) \<and> distinct (map co_id (t_countries d))
     \<and> distinct (map ci_id (t_cities d))"

text \<open>A resolved event that is written and read again is the same.\<close>

lemma resolved_reload:
  assumes "resolve_for e d = Inr (refs, d')" "references_distinct d"
    and strip: "absent_or (\<lambda>c. py_strip c = c) (ev_country_code e)"
  shows "d' = d" "event_of_row d (row_of_event e refs) = e"
proof -
  define country where "country = Option.bind (ev_country_code e) (\<lambda>code.
      one_or_none (\<lambda>c. co_code c = code \<and> co_enabled c) (t_countries d))"
  have run: "d' = d" "er_category_id refs = Option.bind (ev_category_slug e) (\<lambda>slug. map_option ca_id
          (one_or_none (\<lambda>c. ca_slug c = slug \<and> ca_enabled c) (t_categories d)))"
    "er_country_id refs = map_option co_id country"
    "er_city_id refs = Option.bind (ev_city_slug e) (\<lambda>slug. Option.bind country (\<lambda>c. map_option ci_id
          (one_or_none (\<lambda>x. ci_country_id x = co_id c \<and> ci_slug x = slug \<and> ci_enabled x
             \<and> ci_beta_enabled x) (t_cities d))))"
    "ev_category_slug e = None \<or> er_category_id refs \<noteq> None"
    "ev_country_code e = None \<or> er_country_id refs \<noteq> None" "ev_city_slug e = None \<or> er_city_id refs \<noteq> None"
    using assms(1) unfolding country_def
    by (auto simp: resolve_for_def resolve_references_def tx_bind_eq tx_guard_eq tx_query_eq tx_return_eq Let_def)
  show "d' = d" by (rule run(1))
  have keys: "\<And>x. x \<in> set (t_categories d) \<Longrightarrow> one_or_none (\<lambda>c. ca_id c = ca_id x) (t_categories d) = Some x"
    "\<And>x. x \<in> set (t_countries d) \<Longrightarrow> one_or_none (\<lambda>c. co_id c = co_id x) (t_countries d) = Some x"
    "\<And>x. x \<in> set (t_cities d) \<Longrightarrow> one_or_none (\<lambda>c. ci_id c = ci_id x) (t_cities d) = Some x"
    using assms(2) by (simp_all add: references_distinct_def one_or_none_key)
  have category: "Option.bind (er_category_id refs) (\<lambda>i. map_option ca_slug
      (one_or_none (\<lambda>c. ca_id c = i) (t_categories d))) = ev_category_slug e"
  proof (cases "ev_category_slug e")
    case None
    then show ?thesis using run(2) by simp
  next
    case (Some slug)
    then obtain x where x: "one_or_none (\<lambda>c. ca_slug c = slug \<and> ca_enabled c) (t_categories d) = Some x"
      "er_category_id refs = Some (ca_id x)" using run(2,5) by (auto split: option.splits)
    from one_or_none_Some [OF x(1)] show ?thesis using x(2) Some keys(1) by simp
  qed
  have country_code: "Option.bind (er_country_id refs) (\<lambda>i. map_option (\<lambda>c. py_strip (co_code c))
      (one_or_none (\<lambda>c. co_id c = i) (t_countries d))) = ev_country_code e"
  proof (cases "ev_country_code e")
    case None
    then show ?thesis using run(3) by (simp add: country_def)
  next
    case (Some code)
    then obtain x where x: "one_or_none (\<lambda>c. co_code c = code \<and> co_enabled c) (t_countries d) = Some x"
      "er_country_id refs = Some (co_id x)" using run(3,6) by (auto simp: country_def split: option.splits)
    from one_or_none_Some [OF x(1)] show ?thesis using x(2) Some keys(2) strip by (simp add: absent_or_def)
  qed
  have city: "Option.bind (er_city_id refs) (\<lambda>i. map_option ci_slug
      (one_or_none (\<lambda>c. ci_id c = i) (t_cities d))) = ev_city_slug e"
  proof (cases "ev_city_slug e")
    case None
    then show ?thesis using run(4) by simp
  next
    case (Some slug)
    obtain c where c: "country = Some c" using run(4,7) Some by (cases country) simp_all
    then obtain x where x: "one_or_none (\<lambda>x. ci_country_id x = co_id c \<and> ci_slug x = slug \<and> ci_enabled x
        \<and> ci_beta_enabled x) (t_cities d) = Some x" "er_city_id refs = Some (ci_id x)"
      using run(4,7) Some by (auto split: option.splits)
    from one_or_none_Some [OF x(1)] show ?thesis using x(2) Some keys(3) by simp
  qed
  have "event_of_row d (row_of_event e refs) = event_core.extend (core_of e)
      (event.fields (ev_category_slug e) (ev_country_code e) (ev_city_slug e))"
    unfolding event_of_row_def core_of_row_of_event
    by (simp add: row_of_event_def event_core.defs event_row.defs category country_code city)
  also have "\<dots> = e" by (cases e) (simp add: core_of_def event_core.defs event.defs)
  finally show "event_of_row d (row_of_event e refs) = e" .
qed

lemma create_event_effect:
  assumes "create_event e refs d = Inr (x, d')"
  shows "d' = d\<lparr>t_events := t_events d @ [row_of_event e refs]\<rparr>" "x = event_of_row d (row_of_event e refs)"
    "\<forall>r \<in> set (t_events d). ev_id r \<noteq> ev_id e"
proof -
  have id: "ev_id (row_of_event e refs) = ev_id e" by (simp add: row_of_event_def core_of_def event_core.defs event_row.defs)
  have ok: "first_violation (event_checks (row_of_event e refs)
      @ event_keys d (t_events d) (row_of_event e refs)) = None"
    using assms by (simp add: create_event_def tx_bind_eq tx_query_eq tx_guard_eq Let_def)
  then have "(''events_pkey'', \<not> row_exists (\<lambda>x. ev_id x = ev_id e) (t_events d))
      \<in> set (event_keys d (t_events d) (row_of_event e refs))" "\<forall>(n, b) \<in> set (event_keys d (t_events d) (row_of_event e refs)). b"
    by (simp_all add: event_keys_def id first_violation_append first_violation_None)
  then show new: "\<forall>r \<in> set (t_events d). ev_id r \<noteq> ev_id e" by (auto simp: row_exists_iff)
  have "one_or_none (\<lambda>x. ev_id x = ev_id e) (t_events d @ [row_of_event e refs]) = Some (row_of_event e refs)"
    by (rule one_or_none_unique) (use new id in auto)
  then have reload: "get_event (ev_id e) (d\<lparr>t_events := t_events d @ [row_of_event e refs]\<rparr>)
    = Inr (Some (event_of_row d (row_of_event e refs)), d\<lparr>t_events := t_events d @ [row_of_event e refs]\<rparr>)"
    using event_of_row_cong [of "d\<lparr>t_events := t_events d @ [row_of_event e refs]\<rparr>" d]
    by (simp add: get_event_eq)
  have "create_event e refs d = Inr (event_of_row d (row_of_event e refs),
      d\<lparr>t_events := t_events d @ [row_of_event e refs]\<rparr>)"
    unfolding create_event_def query_step Let_def id_apply guard_step(1) [OF ok] modify_step bind_step [where m = "get_event (ev_id e)", OF reload]
    by (simp add: return_run)
  then show "d' = d\<lparr>t_events := t_events d @ [row_of_event e refs]\<rparr>" "x = event_of_row d (row_of_event e refs)"
    using assms by simp_all
qed

subsection \<open>Runs of the service\<close>

lemma as_api_error_Inr [simp]: "as_api_error r = Inr x \<longleftrightarrow> r = Inr x"
  by (auto simp: as_api_error_def split: sum.splits py_error.splits)

lemma region_policy_for_reads:
  "region_policy_for c d = Inr (x, d') \<Longrightarrow> d' = d \<and> (\<forall>pol. x = Some pol \<longrightarrow>
     (\<exists>code. c = Some code \<and> get_policy code d = Inr (pol, d)))"
  by (auto simp: region_policy_for_def tx_bind_eq tx_return_eq get_policy_reads split: option.splits)

lemma require_cover_reads: "require_cover m p d = Inr (u, d') \<Longrightarrow> d' = d"
  by (auto simp: require_cover_def require_verified_owned_def tx_bind_eq tx_return_eq tx_guard_eq get_owned_eq
      tx_raise_eq split: option.splits)

lemma resolve_for_reads: "resolve_for e d = Inr (refs, d') \<Longrightarrow> d' = d"
  by (auto simp: resolve_for_def resolve_references_def tx_bind_eq tx_guard_eq tx_query_eq tx_return_eq Let_def)

lemma service_update_cases:
  assumes "service_update zones p i patch q now d = Inr (x, d')"
  obtains r c patched policy refs d1 d2 where "one_or_none (\<lambda>y. ev_id y = i) (t_events d) = Some r"
    "authorize_manager p (event_of_row d r) d = Inr ((), d)" "ev_status r \<in> {EvDraft, EvPublished}"
    "ep_revision patch = ev_revision r" "apply_event_patch zones (event_of_row d r) patch = Inr patched"
    "region_policy_for (ev_country_code patched) d = Inr (policy, d)"
    "prepare_update (event_of_row d r) patched patch policy now = Inr c"
    "resolve_for c d = Inr (refs, d)" "update_event c refs (ev_revision r) d = Inr (x, d1)"
    "d2 = (if ev_visibility r = PrivateLink \<and> ev_visibility x \<noteq> PrivateLink
       then d1\<lparr>t_event_invite_tokens := update_where (\<lambda>i. iv_event_id i = ev_id x \<and> iv_revoked_at i = None)
         (\<lambda>i. i\<lparr>iv_revoked_at := Some now\<rparr>) (t_event_invite_tokens d1)\<rparr> else d1)" "event_frame d2 d'"
proof -
  obtain e s1 patched policy s3 c u1 s4 refs s5 d1 d2 u2 s6 u3 u4 where
    start: "managed_event p i d = Inr (e, s1)"
    and guards: "ev_status e \<in> {EvDraft, EvPublished}" "ep_revision patch = ev_revision e"
    and patched: "as_api_error (apply_event_patch zones e patch) = Inr patched"
    and policy: "region_policy_for (ev_country_code patched) s1 = Inr (policy, s3)"
    and c: "prepare_update e patched patch policy now = Inr c"
    and cover: "(if List.member (ep_changed_fields patch) ''cover_media_id''
       then require_cover (ev_cover_media_id c) p else tx_return ()) s3 = Inr (u1, s4)"
    and refs: "resolve_for c s4 = Inr (refs, s5)"
    and upd: "update_event c refs (ep_revision patch) s5 = Inr (x, d1)"
    and links: "(if ev_visibility e = PrivateLink \<and> ev_visibility x \<noteq> PrivateLink
       then revoke_invite_tokens (ev_id x) now else tx_return ()) d1 = Inr (u2, d2)"
    and audit: "event_record p ''event.update'' x q (Some (event_snapshot e)) d2 = Inr (u3, s6)"
    and audit2: "(if ev_status e = EvDraft \<and> ep_publish patch = Some True
       then event_record p ''event.publish'' x q
         (Some (JObj [(''status'', JStr ''draft''), (''revision'', JInt (ev_revision e))]))
       else tx_return ()) s6 = Inr (u4, d')"
    using assms unfolding service_update_def tx_bind_eq tx_guard_eq tx_lift_eq tx_return_eq prod.inject by blast
  from start show thesis
  proof (cases rule: managed_event_Inr)
    case (1 r)
    have s3: "s3 = d" using region_policy_for_reads [OF policy] 1(1) by simp
    have s4: "s4 = d" using cover s3 by (auto simp: tx_return_eq dest: require_cover_reads split: if_splits)
    have s5: "s5 = d" using resolve_for_reads [OF refs] s4 by simp
    have frame: "event_frame d2 d'"
    proof -
      have "tx_keeps event_frame (if ev_status e = EvDraft \<and> ep_publish patch = Some True
         then event_record p ''event.publish'' x q
           (Some (JObj [(''status'', JStr ''draft''), (''revision'', JInt (ev_revision e))])) else tx_return ())"
        by (intro announcing.cond event_keeps announcing.return)
      then have "event_frame s6 d'" using audit2 by (rule tx_keepsD)
      moreover have "event_frame d2 s6" using event_record_event audit by (rule tx_keepsD)
      ultimately show ?thesis using announcing.trans by blast
    qed
    have d2: "d2 = (if ev_visibility r = PrivateLink \<and> ev_visibility x \<noteq> PrivateLink
       then d1\<lparr>t_event_invite_tokens := update_where (\<lambda>i. iv_event_id i = ev_id x \<and> iv_revoked_at i = None)
         (\<lambda>i. i\<lparr>iv_revoked_at := Some now\<rparr>) (t_event_invite_tokens d1)\<rparr> else d1)"
      using links 1(3) by (auto simp: revoke_invite_tokens_def tx_modify_eq tx_return_eq split: if_splits)
    show thesis
      by (rule that [OF 1(2) _ _ _ _ _ _ _ _ d2 frame, of patched policy c refs])
        (use 1 guards patched policy c refs upd s3 s4 s5 in auto)
  qed
qed

lemma event_record_frame: "event_record p a e q b d = Inr (u, d') \<Longrightarrow> event_frame d d'"
  using event_record_event by (rule tx_keepsD)

lemma audit_record_frame_event: "audit_record a d = Inr (u, d') \<Longrightarrow> event_frame d d'"
  using audit_record_event by (rule tx_keepsD)

lemma service_transition_cases:
  assumes "service_transition p i n target q now d = Inr (x, d')"
  obtains r r' where "one_or_none (\<lambda>y. ev_id y = i) (t_events d) = Some r"
    "authorize_manager p (event_of_row d r) d = Inr ((), d)" "n = ev_revision r" "ev_status r = EvPublished"
    "target = EvCompleted \<longrightarrow> (\<exists>t. ev_end_at r = Some t \<and> t \<le> now)"
    "one_or_none (\<lambda>y. ev_id y = ev_id r \<and> ev_revision y = n \<and> ev_status y = EvPublished) (t_events d) = Some r'"
    "target \<in> {EvCancelled, EvCompleted}"
    "\<exists>r''. event_saved d d' r' r'' \<and> ev_status r'' = target \<and> ev_revision r'' = n + 1 \<and> x = event_of_row d r''"
proof -
  obtain e s1 d1 u where start: "managed_event p i d = Inr (e, s1)"
    and guards: "n = ev_revision e" "ev_status e = EvPublished" "\<not> (target = EvCompleted \<and>
         (case ev_end_at e of None \<Rightarrow> True | Some t \<Rightarrow> now < t))"
    and run: "transition_event (ev_id e) n target now s1 = Inr (x, d1)"
    and audit: "event_record p (''event.'' @ event_status_name target) x q (Some (event_snapshot e)) d1 = Inr (u, d')"
    using assms unfolding service_transition_def tx_bind_eq tx_guard_eq tx_return_eq prod.inject by blast
  note frame = event_record_frame [OF audit]
  from start show thesis
  proof (cases rule: managed_event_Inr)
    case (1 r)
    from run [unfolded 1(1)] show thesis
    proof (cases rule: transition_event_effect)
      case (1 r1 r2)
      have "event_saved d d' r1 r2" using 1(2) frame by (rule event_saved_frame)
      moreover have "ev_revision r1 = n" using one_or_none_Some [OF 1(1)] by simp
      ultimately have ex: "\<exists>r''. event_saved d d' r1 r'' \<and> ev_status r'' = target \<and> ev_revision r'' = n + 1
        \<and> x = event_of_row d r''" using 1(4-6) by blast
      show thesis
        using that [of r r1] ex 1(1,3) guards
          \<open>one_or_none (\<lambda>y. ev_id y = i) (t_events d) = Some r\<close> \<open>e = event_of_row d r\<close>
          \<open>authorize_manager p e d = Inr ((), d)\<close>
        by (auto split: option.splits)
    qed
  qed
qed

lemma delete_draft_effect:
  assumes "delete_draft i n d = Inr (True, d')"
  shows "t_events d' = delete_where (\<lambda>e. ev_id e = i \<and> ev_revision e = n \<and> ev_status e = EvDraft) (t_events d)"
proof (cases "row_exists (\<lambda>e. ev_id e = i \<and> ev_revision e = n \<and> ev_status e = EvDraft) (t_events d)")
  case True
  then show ?thesis
    using assms by (auto simp: delete_draft_def tx_bind_eq tx_query_eq Let_def check_constraints_eq tx_modify_eq tx_return_eq)
next
  case False
  then show ?thesis using assms by (simp add: delete_draft_def tx_bind_eq tx_query_eq Let_def tx_return_eq)
qed

lemma service_delete_cases:
  assumes "service_delete_draft p i n q d = Inr (u, d')"
  obtains r where "one_or_none (\<lambda>y. ev_id y = i) (t_events d) = Some r"
    "authorize_manager p (event_of_row d r) d = Inr ((), d)" "n = ev_revision r" "ev_status r = EvDraft"
    "t_events d' = delete_where (\<lambda>e. ev_id e = ev_id r \<and> ev_revision e = n \<and> ev_status e = EvDraft) (t_events d)"
proof -
  obtain e s1 b d1 v where start: "managed_event p i d = Inr (e, s1)"
    and guards: "n = ev_revision e" "ev_status e = EvDraft" "b"
    and run: "delete_draft (ev_id e) n s1 = Inr (b, d1)"
    and audit: "audit_record \<lparr>ae_actor_user_id = Some (sb_user_id p), ae_actor_kind = Organizer,
       ae_action = ''event.delete_draft'', ae_target_type = ''event'', ae_target_id = Some (ev_id e),
       ae_reason = None, ae_safe_before = Some (event_snapshot e), ae_safe_after = None,
       ae_request_id = Some q\<rparr> d1 = Inr (v, d')"
    using assms unfolding service_delete_draft_def tx_bind_eq tx_guard_eq tx_return_eq prod.inject by blast
  have "t_events d' = t_events d1"
    using audit_record_frame_event [OF audit] by (simp add: event_frame_def member_frame_def)
  from start show thesis
  proof (cases rule: managed_event_Inr)
    case (1 r)
    then show thesis using that guards run delete_draft_effect [of "ev_id e" n s1 d1] \<open>t_events d' = t_events d1\<close> by simp
  qed
qed

lemma authorize_creation_reads:
  "authorize_creation cfg p o' c k d = Inr (u, d') \<Longrightarrow> d' = d"
  by (auto simp: authorize_creation_def tx_bind_eq tx_guard_eq tx_return_eq tx_raise_eq require_enabled_def
      require_event_manager_def tx_lift_eq get_club_eq get_access_eq
      split: ownership_type.splits option.splits if_splits dest: flag_enabled_reads)

lemma lock_creation_reads: "lock_creation i d = Inr (u, d') \<Longrightarrow> d' = d"
  by (simp add: lock_creation_def tx_bind_eq tx_query_eq tx_guard_eq)

lemma service_create_cases:
  assumes "service_create zones cfg p v q now d = Inr (x, d')"
  obtains n policy e i d1 refs where "normalize_new_event zones v = Inr n"
    "region_policy_for (ne_country_code n) d = Inr (policy, d)"
    "prepare_new (new_record i p n now) (ne_publish n) policy now = Inr e"
    "resolve_for e d1 = Inr (refs, d1)" "event_frame d d1"
    "x = event_of_row d1 (row_of_event e refs)" "t_events d' = t_events d @ [row_of_event e refs]"
    "\<forall>r \<in> set (t_events d). ev_id r \<noteq> ev_id e"
proof -
  obtain n s1 c u1 s2 policy s3 i s4 e u2 s5 s6 refs s7 u3 s8 u4 u5 s9 where
    n: "as_api_error (normalize_new_event zones v) = Inr n"
    and lock: "lock_creation (sb_user_id p) d = Inr (u5, s1)"
    and c: "evaluate cfg p s1 = Inr (c, s2)"
    and auth: "authorize_creation cfg p (ne_ownership_type n) (ne_club_id n) c s2 = Inr (u1, s3)"
    and policy: "region_policy_for (ne_country_code n) s3 = Inr (policy, s4)"
    and i: "fresh_uuid s4 = Inr (i, s5)"
    and e: "prepare_new (new_record i p n now) (ne_publish n) policy now = Inr e"
    and cover: "require_cover (ev_cover_media_id e) p s5 = Inr (u2, s6)"
    and refs: "resolve_for e s6 = Inr (refs, s7)"
    and create: "create_event e refs s7 = Inr (x, s8)"
    and audit: "event_record p ''event.create'' x q None s8 = Inr (u3, s9)"
    and publish: "(if ev_status x = EvPublished
       then event_record p ''event.publish'' x q
         (Some (JObj [(''status'', JStr ''draft''), (''revision'', JInt 0)]))
       else tx_return ()) s9 = Inr (u4, d')"
    using assms unfolding service_create_def tx_bind_eq tx_guard_eq tx_lift_eq tx_return_eq prod.inject by blast
  have s4: "s4 = d"
    using lock_creation_reads [OF lock] evaluate_reads [OF c] authorize_creation_reads [OF auth]
      region_policy_for_reads [OF policy] by simp
  have s5: "event_frame d s5" using event_keeps(1) i unfolding s4 by (rule tx_keepsD)
  have s7: "s6 = s5" "s7 = s5" using require_cover_reads [OF cover] resolve_for_reads [OF refs] by simp_all
  note eff = create_event_effect [OF create]
  have same: "t_events s5 = t_events d" using s5 by (simp add: event_frame_def member_frame_def)
  have "t_events s9 = t_events s8" using event_record_frame [OF audit] by (simp add: event_frame_def member_frame_def)
  moreover have "t_events d' = t_events s9"
  proof (cases "ev_status x = EvPublished")
    case True
    then have "event_frame s9 d'" using publish event_record_frame by fastforce
    then show ?thesis by (simp add: event_frame_def member_frame_def)
  qed (use publish in \<open>simp add: tx_return_eq\<close>)
  ultimately have events: "t_events d' = t_events d @ [row_of_event e refs]" using eff(1) s7 same by simp
  have pol: "region_policy_for (ne_country_code n) d = Inr (policy, d)"
    using policy s4 lock_creation_reads [OF lock] evaluate_reads [OF c] authorize_creation_reads [OF auth] by simp
  show thesis
    using that [OF _ pol e _ s5 _ events] n refs eff(2,3) s7 same by simp
qed

lemma service_duplicate_cases:
  assumes "service_duplicate cfg p i q now d = Inr (x, d')"
  obtains r j d1 refs where "one_or_none (\<lambda>y. ev_id y = i) (t_events d) = Some r"
    "authorize_manager p (event_of_row d r) d = Inr ((), d)"
    "resolve_for (duplicate_of (event_of_row d r) j p now) d1 = Inr (refs, d1)" "event_frame d d1"
    "x = event_of_row d1 (row_of_event (duplicate_of (event_of_row d r) j p now) refs)"
    "t_events d' = t_events d @ [row_of_event (duplicate_of (event_of_row d r) j p now) refs]"
    "\<forall>r \<in> set (t_events d). ev_id r \<noteq> j"
proof -
  obtain e s1 u1 s2 c s3 u2 s4 j s5 refs s6 s7 u3 where
    start: "managed_event p i d = Inr (e, s1)"
    and lock: "lock_creation (sb_user_id p) s1 = Inr (u1, s2)"
    and c: "evaluate cfg p s2 = Inr (c, s3)"
    and auth: "authorize_creation cfg p (ev_ownership_type e) (ev_club_id e) c s3 = Inr (u2, s4)"
    and j: "fresh_uuid s4 = Inr (j, s5)"
    and refs: "resolve_for (duplicate_of e j p now) s5 = Inr (refs, s6)"
    and create: "create_event (duplicate_of e j p now) refs s6 = Inr (x, s7)"
    and audit: "audit_record \<lparr>ae_actor_user_id = Some (sb_user_id p), ae_actor_kind = Organizer,
       ae_action = ''event.duplicate'', ae_target_type = ''event'', ae_target_id = Some (ev_id x),
       ae_reason = None, ae_safe_before = Some (JObj [(''source_event_id'', JStr (uuid_str (ev_id e)))]),
       ae_safe_after = Some (JObj [(''status'', JStr ''draft''), (''revision'', JInt 1)]),
       ae_request_id = Some q\<rparr> s7 = Inr (u3, d')"
    using assms unfolding service_duplicate_def tx_bind_eq tx_guard_eq tx_lift_eq tx_return_eq prod.inject Let_def
    by blast
  from start show thesis
  proof (cases rule: managed_event_Inr)
    case (1 r)
    have s4: "s4 = d"
      using lock_creation_reads [OF lock] evaluate_reads [OF c] authorize_creation_reads [OF auth] 1(1) by simp
    have s5: "event_frame d s5" using event_keeps(1) j unfolding s4 by (rule tx_keepsD)
    have s6: "s6 = s5" using resolve_for_reads [OF refs] .
    note eff = create_event_effect [OF create]
    have "t_events s5 = t_events d" using s5 by (simp add: event_frame_def member_frame_def)
    moreover have "t_events d' = t_events s7"
      using audit_record_frame_event [OF audit] by (simp add: event_frame_def member_frame_def)
    moreover have "ev_id (duplicate_of e j p now) = j" by (simp add: duplicate_of_def)
    ultimately show thesis using that [OF 1(2), of j s5 refs] 1 refs s5 s6 eff by simp
  qed
qed

subsection \<open>The life of an event\<close>

definition event_edge :: "event_status \<Rightarrow> event_status \<Rightarrow> bool" where
  "event_edge a b \<longleftrightarrow> (a, b) \<in> {(EvDraft, EvDraft), (EvDraft, EvPublished), (EvPublished, EvPublished),
     (EvPublished, EvCancelled), (EvPublished, EvCompleted)}"

datatype event_call =
    CallCreate "datetime new_event"
  | CallUpdate uuid event_patch
  | CallCancel uuid int
  | CallComplete uuid int
  | CallDelete uuid int
  | CallDuplicate uuid

fun run_event_call ::
  "(string \<Rightarrow> bool) \<Rightarrow> eligibility_config \<Rightarrow> principal \<Rightarrow> event_call \<Rightarrow> uuid \<Rightarrow> instant \<Rightarrow> unit txn" where
  "run_event_call zones cfg p (CallCreate v) q now = tx_bind (service_create zones cfg p v q now) (\<lambda>_. tx_return ())"
| "run_event_call zones cfg p (CallUpdate i patch) q now =
     tx_bind (service_update zones p i patch q now) (\<lambda>_. tx_return ())"
| "run_event_call zones cfg p (CallCancel i n) q now = tx_bind (service_cancel p i n q now) (\<lambda>_. tx_return ())"
| "run_event_call zones cfg p (CallComplete i n) q now = tx_bind (service_complete p i n q now) (\<lambda>_. tx_return ())"
| "run_event_call zones cfg p (CallDelete i n) q now = service_delete_draft p i n q"
| "run_event_call zones cfg p (CallDuplicate i) q now =
     tx_bind (service_duplicate cfg p i q now) (\<lambda>_. tx_return ())"

lemma row_of_event_simps [simp]:
  "ev_id (row_of_event e refs) = ev_id e" "ev_status (row_of_event e refs) = ev_status e"
  "ev_revision (row_of_event e refs) = ev_revision e" "ev_visibility (row_of_event e refs) = ev_visibility e"
  by (simp_all add: row_of_event_def core_of_def event_core.defs event_row.defs)

lemma patched_identity:
  assumes "apply_event_patch zones e patch = Inr e'"
  shows "ev_id e' = ev_id e" "ev_status e' = ev_status e" "ev_revision e' = ev_revision e"
  using assms by (auto simp: apply_event_patch_def Let_def res_bind_Inr replace_fields_def)

lemma prepared_status:
  assumes "prepare_update e candidate patch policy now = Inr c" "ev_status candidate = ev_status e"
    "ev_status e \<in> {EvDraft, EvPublished}"
  shows "ev_id c = ev_id candidate" "event_edge (ev_status e) (ev_status c)"
  using assms by (auto simp: prepare_update_def Let_def res_bind_Inr with_policy_defaults_def event_edge_def
      split: option.splits if_splits)

lemma saved_rows:
  assumes "event_saved d d' r r'" "distinct (map ev_id (t_events d))"
  shows "distinct (map ev_id (t_events d'))" "r' \<in> set (t_events d')"
    "x \<in> set (t_events d) \<Longrightarrow> x = r \<or> x \<in> set (t_events d')"
proof -
  have s: "r \<in> set (t_events d)" "ev_id r' = ev_id r"
    "t_events d' = update_where (\<lambda>x. ev_id x = ev_id r) (\<lambda>_. r') (t_events d)"
    using assms(1) by (simp_all add: event_saved_def)
  have "map ev_id (t_events d') = map ev_id (t_events d)" unfolding s(3) by (rule map_update_where) (simp add: s(2))
  then show "distinct (map ev_id (t_events d'))" using assms(2) by simp
  show "r' \<in> set (t_events d')" unfolding s(3) set_update_where using s(1) by (intro image_eqI [of _ _ r]) auto
  show "x = r \<or> x \<in> set (t_events d')" if x: "x \<in> set (t_events d)"
  proof (cases "ev_id x = ev_id r")
    case True
    then show ?thesis using distinct_key_eq [OF assms(2) x s(1)] by simp
  next
    case False
    then show ?thesis unfolding s(3) set_update_where using x by (intro disjI2 image_eqI [of _ _ x]) auto
  qed
qed

text \<open>A row that is found by its identifier is the one found under further conditions.\<close>

lemma found_again:
  assumes "one_or_none (\<lambda>y. ev_id y = i) rows = Some r" "one_or_none (\<lambda>y. ev_id y = ev_id r \<and> P y) rows = Some r'"
    and "distinct (map ev_id rows)"
  shows "r' = r"
  using one_or_none_Some [OF assms(1)] one_or_none_Some [OF assms(2)] distinct_key_eq [OF assms(3)] by blast

definition event_moves :: "principal \<Rightarrow> db \<Rightarrow> db \<Rightarrow> event_row \<Rightarrow> bool" where
  "event_moves p d d' r \<longleftrightarrow> authorize_manager p (event_of_row d r) d = Inr ((), d)
     \<and> (row_exists (\<lambda>r'. ev_id r' = ev_id r \<and> ev_revision r' = ev_revision r + 1
           \<and> event_edge (ev_status r) (ev_status r')) (t_events d')
        \<or> ev_status r = EvDraft \<and> \<not> row_exists (\<lambda>r'. ev_id r' = ev_id r) (t_events d'))"

lemma saved_moves:
  assumes "event_saved d d' r0 r'" "distinct (map ev_id (t_events d))" "r \<in> set (t_events d)"
    and "authorize_manager p (event_of_row d r0) d = Inr ((), d)"
    and "ev_revision r' = ev_revision r0 + 1" "event_edge (ev_status r0) (ev_status r')"
  shows "distinct (map ev_id (t_events d')) \<and> (r \<in> set (t_events d') \<or> event_moves p d d' r)"
proof (cases "r = r0")
  case True
  have "ev_id r' = ev_id r0" using assms(1) by (simp add: event_saved_def)
  then have "event_moves p d d' r"
    using True assms(4-6) saved_rows(2) [OF assms(1,2)] by (auto simp: event_moves_def row_exists_iff)
  then show ?thesis using saved_rows(1) [OF assms(1,2)] by simp
next
  case False
  then show ?thesis using saved_rows(1) [OF assms(1,2)] saved_rows(3) [OF assms(1-3)] by simp
qed

lemma transition_moves:
  assumes "service_transition p i n target q now d = Inr (x, d')"
    and "distinct (map ev_id (t_events d))" "r \<in> set (t_events d)"
  shows "distinct (map ev_id (t_events d')) \<and> (r \<in> set (t_events d') \<or> event_moves p d d' r)"
  using assms(1)
proof (cases rule: service_transition_cases)
  case (1 r0 r1)
  have "r1 = r0" by (rule found_again [OF 1(1) 1(6) assms(2)])
  with 1(8) obtain r' where "event_saved d d' r0 r'" "ev_status r' = target" "ev_revision r' = n + 1" by blast
  then show ?thesis using saved_moves [OF _ assms(2,3) 1(2)] 1(3,4,7) by (auto simp: event_edge_def)
qed

text \<open>C8. Whatever operation of the service commits, every event is left as it was, or the caller manages it
  and it moves along one edge of the life of an event with its revision increased by one, or it was a
  draft and is deleted. Cancelled, completed and suspended events never change. Identifiers stay unique.\<close>

theorem event_lifecycle:
  assumes "run_event_call zones cfg p call q now d = Inr ((), d')"
    and "distinct (map ev_id (t_events d))" and "r \<in> set (t_events d)"
  shows "distinct (map ev_id (t_events d')) \<and> (r \<in> set (t_events d') \<or> event_moves p d d' r)"
proof (cases call)
  case (CallCreate v)
  then obtain x where "service_create zones cfg p v q now d = Inr (x, d')"
    using assms(1) by (auto simp: tx_bind_eq tx_return_eq)
  then show ?thesis by (cases rule: service_create_cases) (use assms(2,3) in auto)
next
  case (CallUpdate i patch)
  then obtain x where "service_update zones p i patch q now d = Inr (x, d')"
    using assms(1) by (auto simp: tx_bind_eq tx_return_eq)
  then show ?thesis
  proof (cases rule: service_update_cases)
    case (1 r0 c patched policy refs d1 d2)
    note edge = prepared_status [OF 1(7)] patched_identity [OF 1(5)] and status = 1(3)
    from 1(9) show ?thesis
    proof (cases rule: update_event_effect)
      case (1 r1)
      let ?r = "(set_columns (row_of_event c refs) r1)\<lparr>ev_updated_at := clock_at d (clock_pos d)\<rparr>"
      have r1: "r1 = r0"
        by (rule found_again [OF \<open>one_or_none _ _ = Some r0\<close> _ assms(2)]) (use 1(1) edge status in simp)
      have "event_saved d d' r0 ?r"
        using 1(2) \<open>event_frame d2 d'\<close> \<open>d2 = _\<close> r1
        by (auto simp: event_saved_def event_frame_def member_frame_def split: if_splits)
      then show ?thesis
        by (rule saved_moves [OF _ assms(2,3) \<open>authorize_manager _ _ _ = _\<close>])
          (use edge status r1 in \<open>simp_all add: set_columns_def\<close>)
    qed
  qed
next
  case (CallCancel i n)
  then obtain x where "service_cancel p i n q now d = Inr (x, d')"
    using assms(1) by (auto simp: tx_bind_eq tx_return_eq)
  then show ?thesis unfolding service_cancel_def by (rule transition_moves [OF _ assms(2,3)])
next
  case (CallComplete i n)
  then obtain x where "service_complete p i n q now d = Inr (x, d')"
    using assms(1) by (auto simp: tx_bind_eq tx_return_eq)
  then show ?thesis unfolding service_complete_def by (rule transition_moves [OF _ assms(2,3)])
next
  case (CallDelete i n)
  then have "service_delete_draft p i n q d = Inr ((), d')" using assms(1) by simp
  then show ?thesis
  proof (cases rule: service_delete_cases)
    case (1 r0)
    note r0 = one_or_none_Some [OF 1(1)]
    have "r \<in> set (t_events d') \<or> event_moves p d d' r"
      using 1 r0 assms(2,3) distinct_key_eq [OF assms(2)]
      by (auto simp: delete_where_def event_moves_def row_exists_iff)
    moreover have "distinct (map ev_id (t_events d'))"
      using assms(2) 1(5) by (simp add: delete_where_def distinct_map_filter)
    ultimately show ?thesis by simp
  qed
next
  case (CallDuplicate i)
  then obtain x where "service_duplicate cfg p i q now d = Inr (x, d')"
    using assms(1) by (auto simp: tx_bind_eq tx_return_eq)
  then show ?thesis
    by (cases rule: service_duplicate_cases) (use assms(2,3) in \<open>auto simp: duplicate_of_def\<close>)
qed


definition example_event_db :: db where
  "example_event_db = example_db\<lparr>t_categories := [\<lparr>ca_id = example_id 40, ca_slug = ''walks'', ca_enabled = True\<rparr>]\<rparr>"

theorem event_lifecycle_witness:
  "\<exists>d'. run_event_call (\<lambda>z. z = ''UTC'') example_rules (principal_for (example_user 1) (example_id 70))
      (CallComplete (example_id 20) 2) (example_id 91) 3000000000 example_event_db = Inr ((), d')
    \<and> event_moves (principal_for (example_user 1) (example_id 70)) example_event_db d' example_event"
proof -
  let ?p = "principal_for (example_user 1) (example_id 70)"
  have "commits (run_event_call (\<lambda>z. z = ''UTC'') example_rules ?p (CallComplete (example_id 20) 2) (example_id 91) 3000000000
      example_event_db) (\<lambda>_ d'. \<not> row_exists (\<lambda>r. ev_status r = EvPublished) (t_events d'))" by code_simp
  then obtain d' where r: "run_event_call (\<lambda>z. z = ''UTC'') example_rules ?p (CallComplete (example_id 20) 2)
      (example_id 91) 3000000000 example_event_db = Inr ((), d')" and gone: "\<not> row_exists (\<lambda>r. ev_status r = EvPublished) (t_events d')"
    by (rule commitsE) auto
  have e: "distinct (map ev_id (t_events example_event_db))" "example_event \<in> set (t_events example_event_db)"
    "ev_status example_event = EvPublished"
    by (simp_all add: example_event_db_def example_db_def example_event_def)
  from event_lifecycle [OF r e(1,2)] show ?thesis using r gone e(3) by (auto simp: row_exists_iff)
qed

subsection \<open>Publication\<close>

lemma normalized_country_stripped:
  "normalize_country v = Inr c \<Longrightarrow> absent_or (\<lambda>c. py_strip c = c) c"
  by (drule normalize_country_normal, cases c)
    (auto simp: absent_or_def normalize_country_def Let_def py_strip_no_space list_all_iff py_alpha_not_space
      split: if_splits)

lemma publishable_published: "check_publishable e pol now = Inr () \<Longrightarrow> validate_published_event e pol = Inr ()"
  by (auto simp: check_publishable_def validate_publishable_def res_bind_Inr to_utc_def split: option.splits)

lemma check_published_Inr: "check_published e pol = Inr u \<longleftrightarrow> validate_published_event e pol = Inr ()"
  by (cases u) (simp add: check_published_def)

lemma prepared_published:
  assumes "prepare_update e candidate patch policy now = Inr c" "ev_status candidate = ev_status e"
    "ev_status c = EvPublished" "ev_status e \<in> {EvDraft, EvPublished}"
  obtains pol where "policy = Some pol" "validate_published_event c pol = Inr ()"
    "ev_country_code c = ev_country_code candidate"
  using assms publishable_published that
  by (auto simp: prepare_update_def Let_def res_bind_Inr check_published_Inr with_policy_defaults_def
      split: option.splits if_splits)

text \<open>What \<open>validate_published_event\<close> looks at.\<close>

definition same_terms :: "event \<Rightarrow> event \<Rightarrow> bool" where
  "same_terms e x \<longleftrightarrow> ev_description x = ev_description e \<and> ev_category_slug x = ev_category_slug e
     \<and> ev_country_code x = ev_country_code e \<and> ev_city_slug x = ev_city_slug e \<and> ev_start_at x = ev_start_at e
     \<and> ev_end_at x = ev_end_at e \<and> ev_time_zone x = ev_time_zone e
     \<and> ev_registration_method x = ev_registration_method e \<and> ev_cash_expiry_minutes x = ev_cash_expiry_minutes e
     \<and> ev_cancellation_cutoff_minutes x = ev_cancellation_cutoff_minutes e \<and> ev_capacity x = ev_capacity e"

lemma same_terms_valid: "same_terms e x \<Longrightarrow> validate_published_event x pol = validate_published_event e pol"
  by (simp add: same_terms_def validate_published_event_def)

lemma saved_terms:
  assumes "event_of_row d (row_of_event c refs) = c"
  shows "same_terms c (event_of_row d ((set_columns (row_of_event c refs) r)\<lparr>ev_updated_at := t\<rparr>))"
proof -
  let ?x = "event_of_row d ((set_columns (row_of_event c refs) r)\<lparr>ev_updated_at := t\<rparr>)"
    and ?y = "event_of_row d (row_of_event c refs)"
  have "same_terms ?y ?x"
    by (simp add: same_terms_def event_of_row_def set_columns_def core_of_def event_core.defs event.defs)
  then show ?thesis by (simp only: assms)
qed

text \<open>The check of the service, read back on the rows of the country and its policy.\<close>

lemma published_events_validated:
  assumes "service_create zones cfg p v q now d = Inr (x, d') \<or> service_update zones p i patch q now d = Inr (x, d')"
    and "references_distinct d" "ev_status x = EvPublished"
  shows "\<exists>code pol. ev_country_code x = Some code \<and> get_policy code d = Inr (pol, d)
    \<and> validate_published_event x pol = Inr ()"
  using assms(1)
proof
  assume "service_create zones cfg p v q now d = Inr (x, d')"
  then show ?thesis
  proof (cases rule: service_create_cases)
    case (1 n policy e j d1 refs)
    have e: "ev_country_code e = ne_country_code n" "ev_status e = (if ne_publish n then EvPublished else EvDraft)"
      using 1(3) by (auto simp: prepare_new_def Let_def res_bind_Inr with_policy_defaults_def new_record_def
          split: option.splits if_splits)
    have "normalize_country (ne_country_code v) = Inr (ne_country_code n)"
      using 1(1) by (simp add: normalize_new_event_Inr)
    then have strip: "absent_or (\<lambda>c. py_strip c = c) (ev_country_code e)"
      using normalized_country_stripped e(1) by simp
    have "references_distinct d1"
      using assms(2) 1(5) by (simp add: references_distinct_def event_frame_def member_frame_def)
    then have x: "x = e" using resolved_reload(2) [OF 1(4) _ strip] 1(6) by simp
    then have "ne_publish n" using assms(3) e(2) by (simp split: if_splits)
    then obtain pol where pol: "policy = Some pol" "validate_published_event e pol = Inr ()"
      using 1(3) publishable_published
      by (auto simp: prepare_new_def Let_def res_bind_Inr split: option.splits)
    show ?thesis using region_policy_for_reads [OF 1(2)] pol x e(1) by auto
  qed
next
  assume "service_update zones p i patch q now d = Inr (x, d')"
  then show ?thesis
  proof (cases rule: service_update_cases)
    case (1 r c patched policy refs d1 d2)
    note id = patched_identity [OF 1(5)]
    from 1(9) obtain r1 t where x: "x = event_of_row d ((set_columns (row_of_event c refs) r1)\<lparr>ev_updated_at := t\<rparr>)"
      by (cases rule: update_event_effect) blast
    then have "ev_status c = EvPublished" using assms(3) by (simp add: set_columns_def)
    from prepared_published [OF 1(7) id(2)] this 1(3) obtain pol where
      pol: "policy = Some pol" "validate_published_event c pol = Inr ()" "ev_country_code c = ev_country_code patched"
      by auto
    obtain n where n: "normalize_country (ne_country_code (patch_candidate (event_of_row d r) patch)) = Inr (ne_country_code n)"
      "patched = replace_fields (event_of_row d r) n"
      using 1(5) by (auto simp: apply_event_patch_def Let_def res_bind_Inr normalize_new_event_Inr)
    have strip: "absent_or (\<lambda>c. py_strip c = c) (ev_country_code c)"
      using normalized_country_stripped [OF n(1)] pol(3) by (simp add: n(2) replace_fields_def)
    have terms: "same_terms c x" unfolding x
      by (rule saved_terms) (rule resolved_reload(2) [OF 1(8) assms(2) strip])
    then show ?thesis
      using region_policy_for_reads [OF 1(6)] pol same_terms_valid [OF terms]
      by (auto simp: same_terms_def)
  qed
qed

lemma valid_published_event:
  assumes "validate_published_event e (region_policy_of c q) = Inr ()"
  obtains s t m k where "ev_country_code e = Some (co_code c)" "ev_start_at e = Some s" "ev_end_at e = Some t" "s < t"
    "ev_registration_method e = Some m" "m \<in> set (po_allowed_registration_methods q)"
    "if m = CashOrganizerConfirmed
     then \<exists>x. ev_cash_expiry_minutes e = Some x \<and> po_cash_expiry_min_minutes q \<le> x \<and> x \<le> po_cash_expiry_max_minutes q
     else ev_cash_expiry_minutes e = None"
    "ev_cancellation_cutoff_minutes e = Some k" "po_cancellation_min_minutes q \<le> k" "k \<le> po_cancellation_max_minutes q"
    "\<forall>n. ev_capacity e = Some n \<longrightarrow> 0 < n" "py_strip (ev_description e) \<noteq> []"
    "ev_category_slug e \<notin> {None, Some []}" "ev_city_slug e \<notin> {None, Some []}" "ev_time_zone e \<notin> {None, Some []}"
proof -
  obtain s t m k where e: "ev_start_at e = Some s" "ev_end_at e = Some t" "ev_registration_method e = Some m"
    "ev_cancellation_cutoff_minutes e = Some k"
    using assms by (auto simp: validate_published_event_def Let_def res_simps)
  show ?thesis
    by (rule that [OF _ e(1,2) _ e(3) _ _ e(4)])
       (use assms e in \<open>auto simp: validate_published_event_def Let_def res_simps region_policy_of_def later_def
         in_bounds_def split: option.splits if_splits\<close>)
qed

text \<open>C34. A published event that the service returns meets the policy of its country, told of the rows of
  the country and its policy: the country is enabled, the event ends after it begins, its method is
  among those allowed, the expiry of a cash reservation and the cancellation cutoff lie within the
  bounds (a free event has no expiry), a capacity is positive, and description, category, city and
  time zone are given.\<close>

theorem published_events_meet_the_policy:
  assumes "service_create zones cfg p v rid now d = Inr (x, d') \<or> service_update zones p i patch rid now d = Inr (x, d')"
    and "references_distinct d" "ev_status x = EvPublished"
  shows "\<exists>c \<in> set (t_countries d). \<exists>q \<in> set (t_regional_policies d). \<exists>s t m k.
      ev_country_code x = Some (co_code c) \<and> co_enabled c \<and> po_country_id q = co_id c
    \<and> ev_start_at x = Some s \<and> ev_end_at x = Some t \<and> s < t
    \<and> ev_registration_method x = Some m \<and> m \<in> set (po_allowed_registration_methods q)
    \<and> (if m = CashOrganizerConfirmed
       then \<exists>y. ev_cash_expiry_minutes x = Some y \<and> po_cash_expiry_min_minutes q \<le> y \<and> y \<le> po_cash_expiry_max_minutes q
       else ev_cash_expiry_minutes x = None)
    \<and> ev_cancellation_cutoff_minutes x = Some k \<and> po_cancellation_min_minutes q \<le> k \<and> k \<le> po_cancellation_max_minutes q
    \<and> (\<forall>n. ev_capacity x = Some n \<longrightarrow> 0 < n) \<and> py_strip (ev_description x) \<noteq> []
    \<and> ev_category_slug x \<notin> {None, Some []} \<and> ev_city_slug x \<notin> {None, Some []} \<and> ev_time_zone x \<notin> {None, Some []}"
proof -
  obtain code pol where "get_policy code d = Inr (pol, d)" and valid: "validate_published_event x pol = Inr ()"
    using published_events_validated [OF assms] by blast
  then obtain c q where c: "one_or_none (\<lambda>c. co_code c = py_upper (py_strip code) \<and> co_enabled c) (t_countries d) = Some c"
    and q: "one_or_none (\<lambda>p. po_country_id p = co_id c) (t_regional_policies d) = Some q"
    and pol: "pol = region_policy_of c q" by (auto simp: get_policy_reads)
  from valid [unfolded pol] show ?thesis
    by (rule valid_published_event)
       (use one_or_none_Some [OF c] one_or_none_Some [OF q] in \<open>intro bexI [of _ c] bexI [of _ q], blast+\<close>)
qed

theorem published_events_meet_the_policy_witness:
  "\<exists>x d' k. service_update (\<lambda>z. z = ''UTC'') (principal_for (example_user 1) (example_id 70)) (example_id 20)
      (example_patch\<lparr>ep_revision := 2\<rparr>) (example_id 91) 10 (example_event_db\<lparr>t_registrations := []\<rparr>) = Inr (x, d')
    \<and> ev_country_code x = Some ''TR'' \<and> ev_cancellation_cutoff_minutes x = Some k \<and> 0 \<le> k \<and> k \<le> 1440"
proof -
  let ?d = "example_event_db\<lparr>t_registrations := []\<rparr>" and ?p = "principal_for (example_user 1) (example_id 70)"
  have "commits (service_update (\<lambda>z. z = ''UTC'') ?p (example_id 20) (example_patch\<lparr>ep_revision := 2\<rparr>) (example_id 91) 10 ?d)
      (\<lambda>x d'. ev_status x = EvPublished)" by code_simp
  then obtain x d' where x: "service_update (\<lambda>z. z = ''UTC'') ?p (example_id 20) (example_patch\<lparr>ep_revision := 2\<rparr>)
      (example_id 91) 10 ?d = Inr (x, d')" "ev_status x = EvPublished" by (rule commitsE)
  have "references_distinct ?d" by code_simp
  note law = published_events_meet_the_policy [OF disjI2, OF x(1) this x(2)]
  have "t_countries ?d = [example_country]" "t_regional_policies ?d = [example_policy_row]" by code_simp+
  then have "\<exists>k. ev_country_code x = Some (co_code example_country) \<and> ev_cancellation_cutoff_minutes x = Some k
      \<and> po_cancellation_min_minutes example_policy_row \<le> k \<and> k \<le> po_cancellation_max_minutes example_policy_row"
    using law by auto
  then show ?thesis using x(1) by (auto simp: example_country_def example_policy_row_def)
qed

text \<open>
  Nothing keeps a capacity above the seats that are held: here two members hold seats of an event
  for two, and its owner lowers the capacity to one.
\<close>

theorem capacity_below_the_seats_held:
  "\<exists>x d'. service_update (\<lambda>z. z = ''UTC'') (principal_for (example_user 1) (example_id 70)) (example_id 20)
      (example_patch\<lparr>ep_revision := 2, ep_changed_fields := [''capacity''], ep_capacity := Some 1\<rparr>) (example_id 91) 10
      (example_event_db\<lparr>t_events := [example_event\<lparr>ev_capacity := Some 2\<rparr>],
        t_registrations := [example_registration 50 2 Confirmed, example_registration 51 3 Confirmed]\<rparr>) = Inr (x, d')
    \<and> ev_capacity x = Some 1 \<and> ev_status x = EvPublished \<and> held_seats (example_id 20) (t_registrations d') = 2"
proof -
  have "commits (service_update (\<lambda>z. z = ''UTC'') (principal_for (example_user 1) (example_id 70)) (example_id 20)
      (example_patch\<lparr>ep_revision := 2, ep_changed_fields := [''capacity''], ep_capacity := Some 1\<rparr>) (example_id 91) 10
      (example_event_db\<lparr>t_events := [example_event\<lparr>ev_capacity := Some 2\<rparr>],
        t_registrations := [example_registration 50 2 Confirmed, example_registration 51 3 Confirmed]\<rparr>))
      (\<lambda>x d'. ev_capacity x = Some 1 \<and> ev_status x = EvPublished \<and> held_seats (example_id 20) (t_registrations d') = 2)"
    by code_simp
  then show ?thesis by (elim commitsE) blast
qed

text \<open>C35. An event that stops being private has no private link left: after an update that makes it public,
  no token of it authorises a registration.\<close>

theorem public_events_have_no_private_links:
  assumes "service_update zones p i patch q now d = Inr (x, d')" "distinct (map ev_id (t_events d))"
    and "row_exists (\<lambda>r. ev_id r = i \<and> ev_visibility r = PrivateLink) (t_events d)" "ev_visibility x = Public"
  shows "authorize_registration_link i h t d' = Inr (False, d')"
  using assms(1)
proof (cases rule: service_update_cases)
  case (1 r c patched policy refs d1 d2)
  obtain r0 where r0: "r0 \<in> set (t_events d)" "ev_id r0 = i" "ev_visibility r0 = PrivateLink"
    using assms(3) by (auto simp: row_exists_iff)
  have r: "r \<in> set (t_events d)" "ev_id r = i" using one_or_none_Some [OF 1(1)] by simp_all
  then have was_private: "ev_visibility r = PrivateLink" using distinct_key_eq [OF assms(2) r(1) r0(1)] r0(2,3) by simp
  have c: "ev_id c = i" using prepared_status(1) [OF 1(7)] patched_identity [OF 1(5)] 1(3) r(2) by simp
  from 1(9) have "ev_id x = i"
    by (cases rule: update_event_effect) (use c in \<open>auto simp: set_columns_def dest!: one_or_none_Some\<close>)
  then have "t_event_invite_tokens d' = update_where (\<lambda>y. iv_event_id y = i \<and> iv_revoked_at y = None)
      (\<lambda>y. y\<lparr>iv_revoked_at := Some now\<rparr>) (t_event_invite_tokens d1)"
    using 1(10,11) was_private assms(4) by (simp add: event_frame_def)
  then show ?thesis unfolding authorize_registration_link_eq by (simp add: revoked_not_live)
qed

theorem public_events_have_no_private_links_witness:
  "\<exists>x d'. service_update (\<lambda>z. z = ''UTC'') (principal_for (example_user 1) (example_id 70)) (example_id 20)
      (example_patch\<lparr>ep_revision := 2, ep_changed_fields := [''visibility''], ep_visibility := Some Public\<rparr>)
      (example_id 91) 10 (example_event_db\<lparr>t_registrations := [],
        t_events := [example_event\<lparr>ev_visibility := PrivateLink\<rparr>]\<rparr>) = Inr (x, d')
    \<and> authorize_registration_link (example_id 20) [] 20 d' = Inr (False, d')"
proof -
  let ?d = "example_event_db\<lparr>t_registrations := [], t_events := [example_event\<lparr>ev_visibility := PrivateLink\<rparr>]\<rparr>"
    and ?p = "principal_for (example_user 1) (example_id 70)"
    and ?patch = "example_patch\<lparr>ep_revision := 2, ep_changed_fields := [''visibility''], ep_visibility := Some Public\<rparr>"
  have "commits (service_update (\<lambda>z. z = ''UTC'') ?p (example_id 20) ?patch (example_id 91) 10 ?d)
      (\<lambda>x d'. ev_visibility x = Public)" by code_simp
  then obtain x d' where x: "service_update (\<lambda>z. z = ''UTC'') ?p (example_id 20) ?patch (example_id 91) 10 ?d = Inr (x, d')"
    "ev_visibility x = Public" by (rule commitsE)
  have "distinct (map ev_id (t_events ?d))"
    "row_exists (\<lambda>r. ev_id r = example_id 20 \<and> ev_visibility r = PrivateLink) (t_events ?d)" by code_simp+
  from public_events_have_no_private_links [OF x(1) this x(2)] show ?thesis using x(1) by blast
qed

end
