(* ===== verification/Expiry_Laws.thy ===== *)
theory Expiry_Laws
  imports Cash_Expiry
begin

section \<open>What the expiry of cash reservations guarantees\<close>

subsection \<open>Processing one job\<close>

abbreviation expiry_command :: "uuid \<Rightarrow> uuid \<Rightarrow> instant \<Rightarrow> datetime transition_command" where
  "expiry_command job_id i now \<equiv> \<lparr>tc_command_id = job_id, tc_registration_id = i,
     tc_target_state = Expired, tc_actor_user_id = None, tc_actor_kind = System,
     tc_reason_code = ''cash_expired'', tc_occurred_at = Aware now 0, tc_request_id = None,
     tc_cash_expires_at = None\<rparr>"

lemma get_context_reads: "get_context i d = Inr (cx, d') \<Longrightarrow> d' = d"
  by (simp add: get_context_def tx_query_eq)

lemma process_cases:
  assumes "process_expiry sha check job now d = Inr (b, d')"
  obtains (stale) "\<not> b" "d' = d"
  | (expired) r t res d1 d2 x where "b" "ce_registration_id job = Some (rg_id r)"
      "ce_event_id job = Some (rg_event_id r)" "r \<in> set (t_registrations d)"
      "rg_state r = CashPending" "rg_cash_expires_at r = Some t" "t \<le> now"
      "transition sha (expiry_command (ce_id job) (rg_id r) now) d = Inr (res, d1)"
      "audit_transition ''registration.expire'' None System ''cash_expired'' r
         (tr_registration res) None d1 = Inr ((), d2)"
      "promote_next sha check (rg_event_id r) (Aware now 0) None d2 = Inr (x, d')"
proof -
  let ?rest = "\<lambda>found. case found of
       None \<Rightarrow> tx_return False
     | Some cx \<Rightarrow>
         let r = cx_registration cx in
         if ce_event_id job \<noteq> Some (rg_event_id r) then tx_return False
         else if rg_state r \<noteq> CashPending then tx_return False
         else
           tx_bind (tx_guard (case rg_cash_expires_at r of None \<Rightarrow> False | Some t \<Rightarrow> t \<le> now)
             (RuntimeError ''cash_expiry_job_not_due'')) (\<lambda>_.
           tx_bind (transition sha (expiry_command (ce_id job) (rg_id r) now)) (\<lambda>res.
           tx_bind (audit_transition ''registration.expire'' None System ''cash_expired'' r
             (tr_registration res) None) (\<lambda>_.
           tx_bind (promote_next sha check (rg_event_id r) (Aware now 0) None) (\<lambda>_.
           tx_return True))))"
  obtain found d0 where cx: "(case ce_registration_id job of None \<Rightarrow> tx_return None
      | Some i \<Rightarrow> get_context i) d = Inr (found, d0)" and rest: "?rest found d0 = Inr (b, d')"
    using assms unfolding process_expiry_def by (rule tx_bindE)
  show ?thesis
  proof (cases "ce_registration_id job")
    case None
    then have "found = None \<and> d0 = d" using cx by (simp add: tx_return_eq)
    then show ?thesis using rest that(1) by (simp add: tx_return_eq)
  next
    case (Some i)
    then have get: "get_context i d = Inr (found, d0)" using cx by simp
    then have d0: "d0 = d" by (rule get_context_reads)
    show ?thesis
    proof (cases found)
      case None
      then show ?thesis using rest that(1) d0 by (simp add: tx_return_eq)
    next
      case (Some cx')
      let ?r = "cx_registration cx'"
      note g = get_context_Some [OF get [unfolded Some d0]]
      show ?thesis
      proof (cases "ce_event_id job = Some (rg_event_id ?r) \<and> rg_state ?r = CashPending")
        case False
        then have "\<not> b \<and> d' = d" using rest d0 unfolding Some
          by (auto simp: Let_def tx_return_eq split: if_splits)
        then show ?thesis using that(1) by simp
      next
        case True
        then obtain t res d1 d2 x where "b" "rg_cash_expires_at ?r = Some t" "t \<le> now"
          "transition sha (expiry_command (ce_id job) (rg_id ?r) now) d = Inr (res, d1)"
          "audit_transition ''registration.expire'' None System ''cash_expired'' ?r
             (tr_registration res) None d1 = Inr ((), d2)"
          "promote_next sha check (rg_event_id ?r) (Aware now 0) None d2 = Inr (x, d')"
          using rest d0 unfolding Some
          by (auto simp: Let_def tx_bind_eq tx_guard_eq tx_return_eq split: option.splits)
        then show ?thesis using that(2) [of ?r t res d1 d2 x] True g(2,3)
          \<open>ce_registration_id job = Some i\<close> by simp
      qed
    qed
  qed
qed

text \<open>The transition of a job whose identifier is not yet a command expires the reservation.\<close>

definition job_unused :: "cash_expiry_job \<Rightarrow> db \<Rightarrow> bool" where
  "job_unused job d \<longleftrightarrow> (\<forall>t \<in> set (t_registration_transitions d). rt_command_id t \<noteq> ce_id job)"

lemma expire_moved:
  assumes "transition sha (expiry_command i (rg_id r) now) d = Inr (res, d1)"
    and "r \<in> set (t_registrations d)" "wf_registrations (t_registrations d)"
    and "\<forall>t \<in> set (t_registration_transitions d). rt_command_id t \<noteq> i"
    and "audit_transition act a k reason r new req d1 = Inr ((), d2)"
  shows "moved r Expired (tr_registration res) d d2"
  using assms(1)
proof (cases rule: transition_effect)
  case replayed
  then show ?thesis using assms(4) by auto
next
  case (applied old c e)
  have "old = r"
    using applied(2) one_or_none_key [of rg_id "t_registrations d" r] assms(2,3)
    by (simp add: wf_registrations_def)
  moreover have "t_registrations d2 = t_registrations d1"
    using assms(5) by (auto simp: audit_transition_def tx_simps dest!: audit_record_effect)
  ultimately show ?thesis using applied by (simp add: moved_def event_of_def)
qed

text \<open>The identifier of the job was drawn before: it is not among those still to be drawn.\<close>

definition job_drawn :: "cash_expiry_job \<Rightarrow> db \<Rightarrow> bool" where
  "job_drawn job d \<longleftrightarrow> (\<forall>n \<ge> entropy_pos d. uuid_at d n \<noteq> Some (ce_id job))"

lemma expire_ids_unused:
  assumes t: "transition sha (expiry_command i (rg_id r) now) d = Inr (res, d1)"
    and a: "audit_transition act a k reason r new req d1 = Inr ((), d2)"
    and ids: "ids_unused d" and drawn: "\<forall>n \<ge> entropy_pos d. uuid_at d n \<noteq> Some i"
    and frame: "member_frame d d2"
  shows "ids_unused d2"
proof -
  note f = member_frameD [OF frame]
  have uuid: "uuid_at d2 n = uuid_at d n" for n by (rule uuid_at_cong) (rule f(3))
  have "t_registration_transitions d2 = t_registration_transitions d1"
    using a by (auto simp: audit_transition_def tx_simps dest!: audit_record_effect)
  then have added: "rt_command_id x = i" if "x \<in> set (t_registration_transitions d2)"
    "x \<notin> set (t_registration_transitions d)" for x
    using that by (cases rule: transition_effect [OF t]) auto
  have "rt_command_id x \<noteq> v" if v: "entropy_pos d2 \<le> n" "uuid_at d n = Some v"
    "x \<in> set (t_registration_transitions d2)" for n v x
  proof -
    have "entropy_pos d \<le> n" using v(1) f(4) by (rule order_trans [rotated])
    then show ?thesis using v(2,3) added ids drawn unfolding ids_unused_def by metis
  qed
  then show ?thesis using ids unfolding ids_unused_def uuid by blast
qed

lemma promote_next_wf:
  assumes "promote_next sha (evaluate_user cfg) i now req d = Inr (res, d')"
    and "wf_registrations (t_registrations d)"
  shows "wf_registrations (t_registrations d')"
  using assms(1)
proof (cases rule: promote_next_cases)
  case unchanged
  then show ?thesis using assms(2) by simp
next
  case (loop t e row)
  then show ?thesis using members.loop_keeps [OF loop(9) assms(2)] by simp
qed

lemma audit_transition_member [member_keeps]:
  "tx_keeps member_frame (audit_transition act a k reason r new req)"
  unfolding audit_transition_def by (intro member.rules member_keeps)

lemma process_keeps_inv:
  assumes p: "process_expiry sha (evaluate_user cfg) job now d = Inr (b, d')"
    and inv: "registrations_inv d" and new: "job_unused job d"
  shows "registrations_inv d'" "member_frame d d'"
proof -
  have "registrations_inv d' \<and> member_frame d d'"
    using p
  proof (cases rule: process_cases)
    case stale
    then show ?thesis using inv member.refl by simp
  next
    case (expired r t res d1 d2 x)
    have wf: "wf_registrations (t_registrations d)" using inv by (simp add: registrations_inv_def)
    have frame: "member_frame d d2"
      using member.trans [OF tx_keepsD [OF transition_member expired(8)]
        tx_keepsD [OF audit_transition_member expired(9)]] .
    have m: "moved r Expired (tr_registration res) d d2"
      using expire_moved [OF expired(8,4) wf _ expired(9)] new by (simp add: job_unused_def)
    have "held_seats i (t_registrations d2) \<le> held_seats i (t_registrations d)" for i
      using moved_inv(2) [OF m wf, of i] by simp
    moreover have "event_of d2 i = event_of d i" for i
      using member_frameD(1) [OF frame] by (simp add: event_of_def)
    ultimately have "registrations_inv d2"
      using inv moved_inv(1) [OF m wf] unfolding registrations_inv_def seats_ok_def
      by (metis order_trans)
    then show ?thesis
      using promote_next_keeps(1,2) [OF expired(10)] member.trans [OF frame] by blast
  qed
  then show "registrations_inv d'" "member_frame d d'" by blast+
qed

text \<open>
  C28. Expiry takes a seat only from a reservation that has lapsed: a job that commits either does
  nothing at all, or the registration it names was a cash reservation past its deadline and is
  expired without a seat. The seat is handed on at once to the first waiting member who may
  register, so that as many seats are held as before; it stays free only when nobody who waited may
  register, when the event has begun or when it held more seats than its capacity. Every other
  registration that was not waiting stays as it was.
\<close>

theorem expiry_frees_only_overdue_reservations:
  assumes p: "process_expiry sha (evaluate_user cfg) job now d = Inr (b, d')"
    and wf: "wf_registrations (t_registrations d)" and new: "job_unused job d"
    and ids: "ids_unused d" and drawn: "job_drawn job d"
  shows "if b
    then \<exists>r \<in> set (t_registrations d). \<exists>t e s. ce_registration_id job = Some (rg_id r)
      \<and> rg_state r = CashPending \<and> rg_cash_expires_at r = Some t \<and> t \<le> now
      \<and> (\<exists>r' \<in> set (t_registrations d'). rg_id r' = rg_id r \<and> rg_state r' = Expired \<and> \<not> rg_seat_held r')
      \<and> event_of d (rg_event_id r) = Some e \<and> ev_start_at e = Some s
      \<and> (held_seats (rg_event_id r) (t_registrations d') = held_seats (rg_event_id r) (t_registrations d)
            \<and> (\<exists>c. seated_first (evaluate_user cfg) (rg_event_id r) d d' c)
          \<or> held_seats (rg_event_id r) (t_registrations d') = held_seats (rg_event_id r) (t_registrations d) - 1
            \<and> (all_skipped (evaluate_user cfg) (rg_event_id r) d d' \<or> s \<le> now
               \<or> (\<exists>n. ev_capacity e = Some n \<and> n < held_seats (rg_event_id r) (t_registrations d))))
      \<and> (\<forall>x \<in> set (t_registrations d). x \<noteq> r \<and> rg_state x \<noteq> Waitlisted \<longrightarrow> x \<in> set (t_registrations d'))
    else d' = d"
  using p
proof (cases rule: process_cases)
  case stale
  then show ?thesis by simp
next
  case (expired r t res d1 d2 x)
  let ?new = "tr_registration res" and ?i = "rg_event_id r"
  let ?held = "\<lambda>d. held_seats ?i (t_registrations d)"
  have m: "moved r Expired ?new d d2"
    using expire_moved [OF expired(8,4) wf _ expired(9)] new by (simp add: job_unused_def)
  have frame: "member_frame d d2"
    using member.trans [OF tx_keepsD [OF transition_member expired(8)]
      tx_keepsD [OF audit_transition_member expired(9)]] .
  have ids2: "ids_unused d2"
    using expire_ids_unused [OF expired(8,9) ids _ frame] drawn by (simp add: job_drawn_def)
  have ev: "event_of d2 ?i = event_of d ?i" using member_frameD(1) [OF frame] by (simp add: event_of_def)
  note wf2 = moved_inv(1) [OF m wf]
  have n: "rg_id ?new = rg_id r" "rg_state ?new = Expired" "\<not> rg_seat_held ?new"
    using m by (auto simp: moved_def)
  note keep = promote_next_keeps(4) [OF expired(10) wf2]
  have row: "?new \<in> set (t_registrations d')"
    by (rule keep [OF moved_rows(3) [OF m wf]]) (simp add: waiting_for_def n)
  have others: "\<forall>x \<in> set (t_registrations d). x \<noteq> r \<and> rg_state x \<noteq> Waitlisted \<longrightarrow> x \<in> set (t_registrations d')"
    using keep [OF moved_rows(1) [OF m wf]] by (auto simp: waiting_for_def)
  have "rg_seat_held r" using wf expired(4,5) by (auto simp: wf_registrations_def row_ok_def seat_state_ok_def)
  then have freed: "?held d2 = ?held d - 1" using moved_inv(2) [OF m wf, of ?i] by simp
  have "\<not> waiting_for ?i r" by (simp add: waiting_for_def expired(5))
  note before = outcome_before [OF m wf frame this, where cfg = cfg and d' = d', simplified]
  from expired(10) wf2 ids2
  have "\<exists>e s. event_of d ?i = Some e \<and> ev_start_at e = Some s
      \<and> (?held d' = ?held d \<and> (\<exists>c. seated_first (evaluate_user cfg) ?i d d' c)
        \<or> ?held d' = ?held d - 1 \<and> (all_skipped (evaluate_user cfg) ?i d d' \<or> s \<le> now
             \<or> (\<exists>n. ev_capacity e = Some n \<and> n < ?held d)))"
  proof (cases rule: promote_next_outcome)
    case (idle u e s)
    then show ?thesis using freed ev by auto
  next
    case (nobody u e s)
    then show ?thesis using freed ev before(2) promote_next_seats [OF expired(10) wf2 ids2, of ?i] by auto
  next
    case (seated u e s r' c)
    then show ?thesis using freed ev before(1) promote_next_seats [OF expired(10) wf2 ids2, of ?i] by auto
  qed
  then obtain e s where es: "event_of d ?i = Some e" "ev_start_at e = Some s"
      "?held d' = ?held d \<and> (\<exists>c. seated_first (evaluate_user cfg) ?i d d' c)
        \<or> ?held d' = ?held d - 1 \<and> (all_skipped (evaluate_user cfg) ?i d d' \<or> s \<le> now
             \<or> (\<exists>n. ev_capacity e = Some n \<and> n < ?held d))" by blast
  have "\<exists>r' \<in> set (t_registrations d'). rg_id r' = rg_id r \<and> rg_state r' = Expired \<and> \<not> rg_seat_held r'"
    using row n by blast
  then show ?thesis unfolding if_P [OF expired(1)] using expired(2,4-7) es others by blast
qed

text \<open>A cash event with one seat: member 2 holds it until instant 100, member 3 waits; and the job.\<close>

definition example_expiry_row :: outbox_row where
  "example_expiry_row = \<lparr>ob_id = example_id 60, ob_aggregate_type = ''registration'',
     ob_aggregate_id = example_id 50, ob_event_type = ''registration.cash_expiry_due'',
     ob_payload = [(''registration_id'', JStr (uuid_str (example_id 50))),
       (''event_id'', JStr (uuid_str (example_id 20)))],
     ob_deduplication_key = ''registration.cash_expiry'', ob_status = Pending, ob_attempt_count = 0,
     ob_available_at = 100, ob_locked_until = None, ob_locked_by = None, ob_last_error_code = None,
     ob_processed_at = None, ob_created_at = 0\<rparr>"

definition example_expiry_db :: db where
  "example_expiry_db = example_cash_db\<lparr>
     t_registrations := t_registrations example_cash_db
       @ [(example_registration 51 3 Waitlisted)\<lparr>rg_method := CashOrganizerConfirmed\<rparr>],
     t_outbox_events := [example_expiry_row]\<rparr>"

definition example_job :: cash_expiry_job where
  "example_job = \<lparr>ce_id = example_id 60, ce_registration_id = Some (example_id 50),
     ce_event_id = Some (example_id 20), ce_attempt_count = 1, ce_locked_until = Some 130\<rparr>"

lemma example_expiry_ok: "wf_registrations (t_registrations example_expiry_db)" "job_unused example_job example_expiry_db"
  "ids_unused example_expiry_db" "job_drawn example_job example_expiry_db"
proof -
  note db = example_expiry_db_def example_cash_db_def example_db_def empty_db_def
  show "wf_registrations (t_registrations example_expiry_db)" by code_simp
  show "job_unused example_job example_expiry_db" by (simp add: job_unused_def db)
  show "ids_unused example_expiry_db" by (rule example_ids_unused) (simp_all add: db)
  have same: "uuid_at example_expiry_db n = uuid_at example_db n" for n
    by (rule uuid_at_cong) (simp add: db)
  have job: "generate_uuid7 0 0 60 = Inr (ce_id example_job)" by code_simp
  have "uuid_at example_db n \<noteq> Some (ce_id example_job)" for n
  proof
    assume "uuid_at example_db n = Some (ce_id example_job)"
    note n = example_uuid_at [OF this]
    have "(of_nat (n + 100) :: 62 word) = of_nat 60"
      using generated_low_bits [OF n(2) job] by simp
    then have "unat (of_nat (n + 100) :: 62 word) = unat (of_nat 60 :: 62 word)" by (rule arg_cong)
    then show False using n(1) by (simp only: unat_of_nat) simp
  qed
  then show "job_drawn example_job example_expiry_db" by (simp add: job_drawn_def same)
qed

lemma example_process:
  obtains d' where "process_expiry example_sha (evaluate_user example_rules) example_job 100 example_expiry_db
      = Inr (True, d')" "held_seats (example_id 20) (t_registrations d') = 1"
proof -
  have "commits (process_expiry example_sha (evaluate_user example_rules) example_job 100 example_expiry_db)
    (\<lambda>b d'. b \<and> held_seats (example_id 20) (t_registrations d') = 1)" by code_simp
  then show ?thesis using that by (elim commitsE) auto
qed

theorem expiry_frees_only_overdue_reservations_witness:
  "\<exists>d' r c. process_expiry example_sha (evaluate_user example_rules) example_job 100 example_expiry_db
      = Inr (True, d') \<and> held_seats (example_id 20) (t_registrations d') = 1
    \<and> r \<in> set (t_registrations d') \<and> rg_id r = example_id 50 \<and> rg_state r = Expired
    \<and> seated_first (evaluate_user example_rules) (example_id 20) example_expiry_db d' c"
proof -
  obtain d' where p: "process_expiry example_sha (evaluate_user example_rules) example_job 100
      example_expiry_db = Inr (True, d')" "held_seats (example_id 20) (t_registrations d') = 1"
    by (rule example_process)
  have "ce_registration_id example_job = Some (example_id 50)" by (simp add: example_job_def)
  moreover have "rg_event_id r = example_id 20" if "r \<in> set (t_registrations example_expiry_db)" for r
    using that by (auto simp: example_expiry_db_def example_cash_db_def example_registration_def)
  moreover have "held_seats (example_id 20) (t_registrations example_expiry_db) = 1" by code_simp
  ultimately show ?thesis
    using expiry_frees_only_overdue_reservations [OF p(1) example_expiry_ok] p by fastforce
qed

text \<open>
  A reservation expires once: after a job has expired it, every later job for the same
  registration, whatever its identifier and time, commits without changing anything.
\<close>

theorem expired_reservation_is_left_alone:
  assumes p: "process_expiry sha (evaluate_user cfg) job now d = Inr (True, d')"
    and wf: "wf_registrations (t_registrations d)" and new: "job_unused job d"
    and same: "ce_registration_id job' = ce_registration_id job"
  shows "process_expiry sha' check' job' now' d' = Inr (False, d')"
  using p
proof (cases rule: process_cases)
  case stale
  then show ?thesis by simp
next
  case (expired r t res d1 d2 x)
  let ?new = "tr_registration res"
  have m: "moved r Expired ?new d d2"
    using expire_moved [OF expired(8,4) wf _ expired(9)] new by (simp add: job_unused_def)
  note wf2 = moved_inv(1) [OF m wf]
  have n: "rg_id ?new = rg_id r" "rg_state ?new = Expired" "rg_event_id ?new = rg_event_id r"
    using m by (auto simp: moved_def)
  have "?new \<in> set (t_registrations d')"
    by (rule promote_next_keeps(4) [OF expired(10) wf2 moved_rows(3) [OF m wf]])
       (simp add: waiting_for_def n)
  moreover have "wf_registrations (t_registrations d')"
    using promote_next_wf [OF expired(10) wf2] .
  ultimately have row: "one_or_none (\<lambda>x. rg_id x = rg_id r) (t_registrations d') = Some ?new"
    using one_or_none_key [of rg_id "t_registrations d'" ?new] n by (simp add: wf_registrations_def)
  obtain e where "event_of d (rg_event_id r) = Some e" using m by (auto simp: moved_def)
  then have "event_of d' (rg_event_id r) = Some e"
    using member_frameD(1) [OF promote_next_keeps(1) [OF expired(10)]]
      member_frameD(1) [OF member.trans [OF tx_keepsD [OF transition_member expired(8)]
        tx_keepsD [OF audit_transition_member expired(9)]]] by (simp add: event_of_def)
  then show ?thesis
    using row n same expired(2)
    by (simp add: process_expiry_def get_context_def tx_bind_def tx_query_def tx_return_def event_of_def Let_def)
qed

theorem expired_reservation_is_left_alone_witness:
  "\<exists>d'. process_expiry example_sha (evaluate_user example_rules) example_job 100 example_expiry_db
      = Inr (True, d')
    \<and> process_expiry example_sha (evaluate_user example_rules) (example_job\<lparr>ce_id := example_id 61\<rparr>) 200 d'
      = Inr (False, d')"
proof -
  obtain d' where p: "process_expiry example_sha (evaluate_user example_rules) example_job 100
      example_expiry_db = Inr (True, d')" by (rule example_process)
  from expired_reservation_is_left_alone [OF p example_expiry_ok(1,2)] p show ?thesis by auto
qed

end
