(* ===== verification/Outbox_Growth.thy ===== *)
theory Outbox_Growth
  imports Registration_Store Tx_Frame
begin

section \<open>Services only append to the outbox\<close>

text \<open>
  \<open>outbox_grows\<close> relates the states before and after a service that announces something: the
  rows of the outbox stay, new ones are appended, and their identifiers stay distinct.
\<close>

definition outbox_grows :: "db \<Rightarrow> db \<Rightarrow> bool" where
  "outbox_grows d d' \<longleftrightarrow> (\<exists>outs. t_outbox_events d' = t_outbox_events d @ outs)
     \<and> (distinct (map ob_id (t_outbox_events d)) \<longrightarrow> distinct (map ob_id (t_outbox_events d')))"

interpretation growing: frame_relation outbox_grows
  by standard (auto simp: outbox_grows_def)

named_theorems outbox_keeps "statements that only append to the outbox"

lemma outbox_untouched: "t_outbox_events d' = t_outbox_events d \<Longrightarrow> outbox_grows d d'"
  by (simp add: outbox_grows_def)

lemma fresh_uuid_outbox [outbox_keeps]: "tx_keeps outbox_grows fresh_uuid"
  by (rule tx_keepsI) (auto simp: tx_simps outbox_grows_def)

lemma clock_outbox [outbox_keeps]: "tx_keeps outbox_grows clock_timestamp"
  by (rule tx_keepsI) (auto simp: tx_simps outbox_grows_def)

lemma check_constraints_outbox [outbox_keeps]: "tx_keeps outbox_grows (check_constraints cs)"
  by (rule tx_keepsI) (auto simp: tx_simps outbox_grows_def)

lemma insert_outbox_outbox [outbox_keeps]: "tx_keeps outbox_grows (insert_outbox row)"
  by (rule tx_keepsI)
     (auto simp: insert_outbox_def tx_simps outbox_grows_def outbox_constraints_def Let_def row_exists_iff
       split: if_splits)

lemma insert_outbox_or_ignore_outbox [outbox_keeps]: "tx_keeps outbox_grows (insert_outbox_or_ignore row)"
  unfolding insert_outbox_or_ignore_def by (intro growing.rules outbox_keeps)

lemma audit_record_outbox [outbox_keeps]: "tx_keeps outbox_grows (audit_record e)"
  by (rule tx_keepsI) (auto dest!: audit_record_effect simp: outbox_grows_def)

end
