(* ===== verification/Expiry_Worker.thy ===== *)
theory Expiry_Worker
  imports Expiry_Laws Outbox_Growth
begin

section \<open>The expiry worker settles every job it claims\<close>

subsection \<open>Services only append to the outbox\<close>

lemma insert_transition_outbox [outbox_keeps]: "tx_keeps outbox_grows (insert_transition t)"
  by (rule tx_keepsI) (auto dest!: insert_transition_effect(2) simp: outbox_grows_def)

lemma update_registration_outbox [outbox_keeps]: "tx_keeps outbox_grows (update_registration P f)"
  unfolding update_registration_def
  by (intro growing.rules outbox_keeps growing.modify) (simp add: outbox_grows_def)

lemma transition_outbox [outbox_keeps]: "tx_keeps outbox_grows (transition sha v)"
  unfolding transition_def transition_with_def replay_with_def get_context_def get_transition_def
    apply_transition_def record_transition_def enqueue_cash_expiry_def
  by (intro growing.rules outbox_keeps)

lemma audit_transition_outbox [outbox_keeps]: "tx_keeps outbox_grows (audit_transition act a k reason r new req)"
  unfolding audit_transition_def by (intro growing.rules outbox_keeps)

lemma change_state_outbox [outbox_keeps]:
  "tx_keeps outbox_grows (change_state sha act r target a k reason t req cash)"
  unfolding change_state_def new_transition_command_def by (intro growing.rules outbox_keeps)

lemma evaluate_user_outbox [outbox_keeps]: "tx_keeps outbox_grows (evaluate_user cfg u)"
  by (rule tx_keepsI) (auto dest: evaluate_user_reads simp: growing.refl)

lemma cash_deadline_outbox [outbox_keeps]: "tx_keeps outbox_grows (cash_deadline e t)"
  unfolding cash_deadline_def by (intro growing.rules)

lemma promote_loop_outbox [outbox_keeps]:
  "tx_keeps outbox_grows (promote_loop sha (evaluate_user cfg) n e now req)"
proof (induction n)
  case 0
  then show ?case by (simp add: growing.raised)
next
  case (Suc n)
  then show ?case
    unfolding promote_loop.simps oldest_waitlisted_def Let_def by (intro growing.rules outbox_keeps)
qed

lemma terms_outbox [outbox_keeps]: "tx_keeps outbox_grows (get_cancellation_terms i)"
  by (rule tx_keepsI) (auto dest: cancellation_terms_Inr(1) simp: growing.refl)

lemma promote_next_outbox [outbox_keeps]:
  "tx_keeps outbox_grows (promote_next sha (evaluate_user cfg) i now req)"
  unfolding promote_next_def held_seat_count_def by (intro growing.rules outbox_keeps)

lemma process_outbox: "tx_keeps outbox_grows (process_expiry sha (evaluate_user cfg) job now)"
  unfolding process_expiry_def get_context_def Let_def by (intro growing.rules outbox_keeps)

subsection \<open>One job\<close>

lemma run_expiry_cases:
  assumes "run_expiry_job w sha check now job d = Inr (b, d')"
  obtains (unclaimed) "get_claimed (ce_id job) (ew_worker_id w) now d = Inr (None, d)" "d' = d"
  | (completed) r c x d1 where "get_claimed (ce_id job) (ew_worker_id w) now d = Inr (Some r, d)"
      "expiry_job r = Inr c" "process_expiry sha check c now d = Inr (x, d1)"
      "complete_expiry (ob_id r) now d1 = Inr ((), d')" "b"
  | (failed) e where "record_expiry_failure w job e now d = Inr ((), d')" "\<not> b"
proof -
  let ?m = "tx_bind (lock_claimed_expiry (ce_id job) (ew_worker_id w) now) (\<lambda>claimed. case claimed of
          None \<Rightarrow> tx_return False
        | Some c \<Rightarrow>
            tx_bind (process_expiry sha check c now) (\<lambda>_.
            tx_bind (complete_expiry (ce_id c) now) (\<lambda>_. tx_return True)))"
  from assms consider (ok) "?m d = Inr (b, d')"
    | (error) e where "tx_bind (record_expiry_failure w job e now) (\<lambda>_. tx_return False) d = Inr (b, d')"
    unfolding run_expiry_job_def tx_catch_eq by blast
  then show ?thesis
  proof cases
    case error
    then show ?thesis using failed by (auto simp: tx_bind_eq tx_return_eq)
  next
    case ok
    obtain row where g: "get_claimed (ce_id job) (ew_worker_id w) now d = Inr (row, d)"
      by (auto simp: get_claimed_def tx_query_def)
    show ?thesis
    proof (cases row)
      case None
      then have "d' = d" using ok g by (auto simp: lock_claimed_expiry_def tx_bind_eq tx_return_eq)
      then show ?thesis using unclaimed g None by simp
    next
      case (Some r)
      with ok g obtain c x d1 where c: "expiry_job r = Inr c" "process_expiry sha check c now d = Inr (x, d1)"
        "complete_expiry (ce_id c) now d1 = Inr ((), d')" "b"
        by (auto simp: lock_claimed_expiry_def tx_bind_eq tx_return_eq tx_lift_eq)
      have "ce_id c = ob_id r" using c(1) by (auto simp: expiry_job_def res_simps)
      then show ?thesis using completed [OF g [unfolded Some] c(1,2) _ c(4)] c(3) by simp
    qed
  qed
qed

definition outbox_ids_distinct :: "db \<Rightarrow> bool" where
  "outbox_ids_distinct d \<longleftrightarrow> distinct (map ob_id (t_outbox_events d))"

definition expiry_pending :: "expiry_worker \<Rightarrow> instant \<Rightarrow> cash_expiry_job \<Rightarrow> db \<Rightarrow> bool" where
  "expiry_pending w now job d \<longleftrightarrow> (\<exists>r \<in> set (t_outbox_events d). ob_id r = ce_id job
     \<and> ob_status r = Processing \<and> ob_locked_by r = Some (ew_worker_id w)
     \<and> (\<exists>l. ob_locked_until r = Some l \<and> now < l))"

definition row_settled :: "outbox_row \<Rightarrow> bool" where
  "row_settled r \<longleftrightarrow> ob_status r \<in> {Delivered, RetryableFailed, PermanentFailed}
     \<and> ob_locked_by r = None \<and> ob_locked_until r = None"

definition expiry_settled :: "cash_expiry_job \<Rightarrow> db \<Rightarrow> bool" where
  "expiry_settled job d \<longleftrightarrow> (\<exists>r \<in> set (t_outbox_events d). ob_id r = ce_id job \<and> row_settled r)"

lemma complete_rows:
  assumes "complete_expiry i now d = Inr (u, d')"
  obtains P f where "t_outbox_events d' = update_where P f (t_outbox_events d)"
    "\<forall>r. P r \<longleftrightarrow> ob_id r = i \<and> ob_status r = Processing"
    "\<forall>r. ob_id (f r) = ob_id r \<and> row_settled (f r)"
proof -
  have "t_outbox_events d' = update_where (\<lambda>r. ob_id r = i \<and> ob_status r = Processing)
       (\<lambda>r. r\<lparr>ob_status := Delivered, ob_processed_at := Some now, ob_locked_by := None,
              ob_locked_until := None, ob_last_error_code := None\<rparr>) (t_outbox_events d)"
    using assms by (simp add: complete_expiry_def tx_modify_eq)
  then show ?thesis by (rule that) (simp_all add: row_settled_def)
qed

lemma fail_rows:
  assumes "record_expiry_failure w job e now d = Inr (u, d')"
  obtains P f where "t_outbox_events d' = update_where P f (t_outbox_events d)"
    "\<forall>r. P r \<longleftrightarrow> ob_id r = ce_id job \<and> ob_status r = Processing \<and> ob_locked_by r = Some (ew_worker_id w)"
    "\<forall>r. ob_id (f r) = ob_id r \<and> row_settled (f r)"
proof -
  have "t_outbox_events d' = update_where
       (\<lambda>r. ob_id r = ce_id job \<and> ob_status r = Processing \<and> ob_locked_by r = Some (ew_worker_id w))
       (\<lambda>r. r\<lparr>ob_status := (if ew_max_attempts w \<le> ce_attempt_count job then PermanentFailed
                              else RetryableFailed),
              ob_available_at := now + expiry_backoff w (ce_attempt_count job), ob_locked_by := None,
              ob_locked_until := None, ob_last_error_code := Some (take 120 (error_class e))\<rparr>)
       (t_outbox_events d)"
    using assms by (simp add: record_expiry_failure_def fail_expiry_def tx_modify_eq)
  then show ?thesis by (rule that) (simp_all add: row_settled_def)
qed

text \<open>Whatever the outcome, only rows with the identifier of the job are rewritten.\<close>

lemma run_expiry_rows:
  assumes "run_expiry_job w sha (evaluate_user cfg) now job d = Inr (b, d')"
  obtains P f outs where "t_outbox_events d' = update_where P f (t_outbox_events d @ outs)"
    "\<forall>r. P r \<longrightarrow> ob_id r = ce_id job" "\<forall>r. ob_id (f r) = ob_id r"
    "outbox_ids_distinct d \<longrightarrow> distinct (map ob_id (t_outbox_events d @ outs))"
  using assms
proof (cases rule: run_expiry_cases)
  case unclaimed
  then show ?thesis
    using that [of "\<lambda>_. False" id "[]"] by (simp add: update_where_def outbox_ids_distinct_def)
next
  case (completed r c x d1)
  have r: "ob_id r = ce_id job"
    using completed(1) by (auto simp: get_claimed_def tx_query_eq dest!: one_or_none_Some [OF sym])
  obtain outs where o: "t_outbox_events d1 = t_outbox_events d @ outs"
    "outbox_ids_distinct d \<longrightarrow> distinct (map ob_id (t_outbox_events d @ outs))"
    using tx_keepsD [OF process_outbox completed(3)] unfolding outbox_grows_def outbox_ids_distinct_def by auto
  from completed(4) obtain P f where "t_outbox_events d' = update_where P f (t_outbox_events d1)"
    "\<forall>r. P r \<longleftrightarrow> ob_id r = ce_id job \<and> ob_status r = Processing"
    "\<forall>r. ob_id (f r) = ob_id r \<and> row_settled (f r)"
    unfolding r by (rule complete_rows)
  then show ?thesis using that [OF _ _ _ o(2)] o(1) by simp
next
  case (failed e)
  from failed(1) obtain P f where "t_outbox_events d' = update_where P f (t_outbox_events d)"
    "\<forall>r. P r \<longleftrightarrow> ob_id r = ce_id job \<and> ob_status r = Processing \<and> ob_locked_by r = Some (ew_worker_id w)"
    "\<forall>r. ob_id (f r) = ob_id r \<and> row_settled (f r)" by (rule fail_rows)
  then show ?thesis using that [of P f "[]"] by (simp add: outbox_ids_distinct_def)
qed

lemma run_expiry_distinct:
  assumes "run_expiry_job w sha (evaluate_user cfg) now job d = Inr (b, d')" "outbox_ids_distinct d"
  shows "outbox_ids_distinct d'"
  using assms(1)
proof (rule run_expiry_rows)
  fix P f outs
  assume "t_outbox_events d' = update_where P f (t_outbox_events d @ outs)" "\<forall>r. ob_id (f r) = ob_id r"
    "outbox_ids_distinct d \<longrightarrow> distinct (map ob_id (t_outbox_events d @ outs))"
  then show ?thesis
    using assms(2) map_update_where [of P ob_id f "t_outbox_events d @ outs"]
    by (simp add: outbox_ids_distinct_def)
qed

lemma run_expiry_others:
  assumes "run_expiry_job w sha (evaluate_user cfg) now job d = Inr (b, d')"
    and "r \<in> set (t_outbox_events d)" "ob_id r \<noteq> ce_id job"
  shows "r \<in> set (t_outbox_events d')"
  using assms(1)
proof (rule run_expiry_rows)
  fix P f outs
  assume "t_outbox_events d' = update_where P f (t_outbox_events d @ outs)" "\<forall>r. P r \<longrightarrow> ob_id r = ce_id job"
  then show ?thesis using assms(2,3) by (auto simp: set_update_where image_iff intro!: bexI [of _ r])
qed

lemma get_claimed_pending:
  assumes "expiry_pending w now job d" "outbox_ids_distinct d"
  obtains r where "get_claimed (ce_id job) (ew_worker_id w) now d = Inr (Some r, d)"
    "r \<in> set (t_outbox_events d)" "ob_id r = ce_id job" "ob_status r = Processing"
    "ob_locked_by r = Some (ew_worker_id w)"
proof -
  from assms(1) obtain r l where r: "r \<in> set (t_outbox_events d)" "ob_id r = ce_id job"
    "ob_status r = Processing" "ob_locked_by r = Some (ew_worker_id w)" "ob_locked_until r = Some l" "now < l"
    unfolding expiry_pending_def by blast
  have "one_or_none (\<lambda>r. ob_id r = ce_id job \<and> ob_status r = Processing
       \<and> ob_locked_by r = Some (ew_worker_id w)
       \<and> (case ob_locked_until r of None \<Rightarrow> False | Some l \<Rightarrow> l > now)) (t_outbox_events d) = Some r"
    using r assms(2) unfolding outbox_ids_distinct_def
    by (intro one_or_none_unique) (auto dest: distinct_key_eq)
  then show ?thesis using that [OF _ r(1-4)] by (simp add: get_claimed_def tx_query_def)
qed

lemma settled_by_update:
  assumes "t_outbox_events d' = update_where P f rows" "r \<in> set rows" "P r"
    "\<forall>r. ob_id (f r) = ob_id r \<and> row_settled (f r)" "ob_id r = ce_id job"
  shows "expiry_settled job d'"
proof -
  have "f r \<in> set (t_outbox_events d')" unfolding assms(1) set_update_where using assms(2,3) by force
  then show ?thesis unfolding expiry_settled_def using assms(4,5) by (metis (full_types))
qed

lemma run_expiry_settles:
  assumes "run_expiry_job w sha (evaluate_user cfg) now job d = Inr (b, d')"
    and p: "expiry_pending w now job d" and dist: "outbox_ids_distinct d"
  shows "expiry_settled job d'"
proof -
  obtain r where r: "get_claimed (ce_id job) (ew_worker_id w) now d = Inr (Some r, d)"
    "r \<in> set (t_outbox_events d)" "ob_id r = ce_id job" "ob_status r = Processing"
    "ob_locked_by r = Some (ew_worker_id w)"
    using p dist by (rule get_claimed_pending)
  from assms(1) show ?thesis
  proof (cases rule: run_expiry_cases)
    case unclaimed
    then show ?thesis using r(1) by simp
  next
    case (completed r' c x d1)
    then have "r' = r" using r(1) by simp
    moreover have "r \<in> set (t_outbox_events d1)"
      using r(2) tx_keepsD [OF process_outbox completed(3)] by (auto simp: outbox_grows_def)
    moreover obtain P f where "t_outbox_events d' = update_where P f (t_outbox_events d1)"
      "\<forall>r. P r \<longleftrightarrow> ob_id r = ob_id r' \<and> ob_status r = Processing"
      "\<forall>r. ob_id (f r) = ob_id r \<and> row_settled (f r)"
      using completed(4) by (rule complete_rows)
    ultimately show ?thesis using r(3,4) settled_by_update by auto
  next
    case (failed e)
    from failed(1) obtain P f where "t_outbox_events d' = update_where P f (t_outbox_events d)"
      "\<forall>r. P r \<longleftrightarrow> ob_id r = ce_id job \<and> ob_status r = Processing \<and> ob_locked_by r = Some (ew_worker_id w)"
      "\<forall>r. ob_id (f r) = ob_id r \<and> row_settled (f r)" by (rule fail_rows)
    then show ?thesis using r(2-5) settled_by_update by auto
  qed
qed

lemma run_expiry_returns: "\<exists>b d'. run_expiry_job w sha check now job d = Inr (b, d')"
  unfolding run_expiry_job_def tx_catch_def record_expiry_failure_def fail_expiry_def
  by (auto simp: tx_bind_def tx_modify_def tx_return_def split: sum.split)

interpretation expiries: settling "run_expiry_job w sha (evaluate_user cfg) now" outbox_ids_distinct
  "expiry_pending w now" expiry_settled ce_id for w sha cfg now
proof
  fix d j assume "outbox_ids_distinct d" "expiry_pending w now j d"
  then show "\<exists>b d'. run_expiry_job w sha (evaluate_user cfg) now j d = Inr (b, d')
      \<and> outbox_ids_distinct d' \<and> expiry_settled j d'"
    using run_expiry_returns run_expiry_settles run_expiry_distinct by meson
next
  fix d d' b and i j :: cash_expiry_job
  assume r: "run_expiry_job w sha (evaluate_user cfg) now j d = Inr (b, d')" and k: "ce_id i \<noteq> ce_id j"
  show "expiry_pending w now i d \<Longrightarrow> expiry_pending w now i d'"
    "expiry_settled i d \<Longrightarrow> expiry_settled i d'"
    using run_expiry_others [OF r] k unfolding expiry_pending_def expiry_settled_def by metis+
qed

subsection \<open>A run of the worker\<close>

lemma expiry_jobs_ids:
  "expiry_jobs rs = Inr js \<Longrightarrow> map ce_id js = map ob_id rs"
  by (induction rs arbitrary: js) (auto simp: res_simps expiry_job_def)

lemma expiry_jobs_total:
  "\<forall>r \<in> set rs. \<exists>j. expiry_job r = Inr j \<Longrightarrow> \<exists>js. expiry_jobs rs = Inr js"
  by (induction rs) auto

lemma expiry_job_lease [simp]:
  "(\<exists>j. expiry_job (lease_row w l r) = Inr j) \<longleftrightarrow> (\<exists>j. expiry_job r = Inr j)"
  by (auto simp: expiry_job_def lease_row_def res_simps)

lemma in_due_expiries:
  "r \<in> set (due_expiries now limit rows) \<Longrightarrow> r \<in> set rows \<and> claimable now r"
  unfolding due_expiries_def by (auto dest: in_set_takeD)

lemma distinct_due_expiries:
  assumes "distinct (map ob_id rows)"
  shows "distinct (map ob_id (due_expiries now limit rows))"
proof -
  have "distinct rows" "inj_on ob_id (set rows)" using assms by (simp_all add: distinct_map)
  moreover have "set (due_expiries now limit rows) \<subseteq> set rows" using in_due_expiries by blast
  ultimately show ?thesis
    unfolding distinct_map due_expiries_def select_by_def
    by (auto intro!: distinct_take elim: inj_on_subset simp: due_expiries_def select_by_def)
qed

lemma claim_expiries_pending:
  assumes dist: "outbox_ids_distinct d" and lease: "0 < ew_lease_duration w"
    and ok: "\<forall>r \<in> set (due_expiries now limit (t_outbox_events d)). \<exists>j. expiry_job r = Inr j"
  obtains js d' where
    "claim_expiries (ew_worker_id w) now (ew_lease_duration w) limit d = Inr (js, d')"
    "map ce_id js = map ob_id (due_expiries now limit (t_outbox_events d))"
    "\<forall>j \<in> set js. expiry_pending w now j d'" "outbox_ids_distinct d'"
proof -
  let ?due = "due_expiries now limit (t_outbox_events d)"
  let ?lease = "lease_row (ew_worker_id w) (now + ew_lease_duration w)"
  let ?P = "\<lambda>r. List.member (map ob_id ?due) (ob_id r)"
  let ?d = "d\<lparr>t_outbox_events := update_where ?P ?lease (t_outbox_events d)\<rparr>"
  obtain js where js: "expiry_jobs (map ?lease ?due) = Inr js"
    using expiry_jobs_total [of "map ?lease ?due"] ok by auto
  then have ids: "map ce_id js = map ob_id ?due" using expiry_jobs_ids [OF js] by simp
  have "claim_expiries (ew_worker_id w) now (ew_lease_duration w) limit d = Inr (js, ?d)"
    using js by (simp add: claim_expiries_def tx_bind_def tx_query_def tx_modify_def tx_lift_def Let_def)
  moreover have "expiry_pending w now j ?d" if "j \<in> set js" for j
  proof -
    have "ce_id j \<in> set (map ce_id js)" using that by simp
    then obtain r where r: "r \<in> set ?due" "ob_id r = ce_id j" unfolding ids by auto
    then have "r \<in> set (t_outbox_events d)" using in_due_expiries by blast
    moreover have "?P r" using imageI [OF r(1), of ob_id] by simp
    ultimately have "?lease r \<in> set (t_outbox_events ?d)" by (auto simp: set_update_where)
    then show ?thesis unfolding expiry_pending_def using r(2) lease by (intro bexI [of _ "?lease r"]) auto
  qed
  moreover have "outbox_ids_distinct ?d"
    using dist map_update_where [of ?P ob_id ?lease "t_outbox_events d"] by (simp add: outbox_ids_distinct_def)
  ultimately show ?thesis using that ids by blast
qed

text \<open>
  A run of the worker settles every job it claims: it returns, and each job that was due is
  afterwards delivered, waiting for its retry or given up, and no longer leased. One failing job
  does not keep the others from being run.
\<close>

theorem expiry_run_settles_every_claim:
  assumes "mk_expiry_worker wid lease attempts base = Inr w" and "utc_instant now = Some t"
    and "1 \<le> limit" "limit \<le> 1000" and dist: "outbox_ids_distinct d"
    and ok: "\<forall>r \<in> set (due_expiries t limit (t_outbox_events d)). \<exists>j. expiry_job r = Inr j"
  shows "\<exists>n d'. run_expiries w sha (evaluate_user cfg) now limit d = Inr (n, d')
    \<and> (\<forall>r \<in> set (due_expiries t limit (t_outbox_events d)).
         \<exists>r' \<in> set (t_outbox_events d'). ob_id r' = ob_id r \<and> row_settled r')"
proof -
  have "0 < ew_lease_duration w" using assms(1) by (auto simp: mk_expiry_worker_def res_simps)
  from claim_expiries_pending [OF dist this ok] obtain js d1 where c:
    "claim_expiries (ew_worker_id w) t (ew_lease_duration w) limit d = Inr (js, d1)"
    "map ce_id js = map ob_id (due_expiries t limit (t_outbox_events d))"
    "\<forall>j \<in> set js. expiry_pending w t j d1" "outbox_ids_distinct d1" .
  have "distinct (map ce_id js)"
    unfolding c(2) using distinct_due_expiries dist by (simp add: outbox_ids_distinct_def)
  from expiries.run_all_settles [OF c(4,3) this, of sha cfg] obtain n d' where
    r: "run_each (run_expiry_job w sha (evaluate_user cfg) t) js d1 = Inr (n, d')"
    "\<forall>j \<in> set js. expiry_settled j d'" by blast
  have "\<exists>r' \<in> set (t_outbox_events d'). ob_id r' = ob_id r \<and> row_settled r'"
    if "r \<in> set (due_expiries t limit (t_outbox_events d))" for r
  proof -
    have "ob_id r \<in> set (map ce_id js)" unfolding c(2) using that by simp
    then obtain j where "j \<in> set js" "ce_id j = ob_id r" by auto
    then show ?thesis using r(2) unfolding expiry_settled_def by metis
  qed
  moreover have "run_expiries w sha (evaluate_user cfg) now limit d = Inr (n, d')"
    using assms(2-4) c(1) r(1)
    by (simp add: run_expiries_def to_utc_def tx_bind_def tx_lift_def tx_guard_def tx_return_def)
  ultimately show ?thesis by blast
qed

theorem expiry_run_settles_every_claim_witness:
  "\<exists>w n d'. run_expiries w example_sha (evaluate_user example_rules) (Aware 100 0) 10 example_expiry_db
      = Inr (n, d') \<and> (\<exists>r' \<in> set (t_outbox_events d'). ob_id r' = example_id 60 \<and> row_settled r')"
proof -
  obtain w where w: "mk_expiry_worker ''w'' 30 5 5 = Inr w"
    by (simp add: mk_expiry_worker_def py_strip_def py_lstrip_def py_space_def)
  have due: "due_expiries 100 10 (t_outbox_events example_expiry_db) = [example_expiry_row]"
    by (simp add: due_expiries_def select_by_def claimable_def example_expiry_db_def example_expiry_row_def)
  have "outbox_ids_distinct example_expiry_db"
    by (simp add: outbox_ids_distinct_def example_expiry_db_def)
  moreover have "\<exists>j. expiry_job example_expiry_row = Inr j"
    by (simp add: expiry_job_def payload_uuid_def example_expiry_row_def)
  ultimately show ?thesis
    using expiry_run_settles_every_claim [OF w, of "Aware 100 0" 100 10 example_expiry_db
      example_sha example_rules] due by (auto simp: example_expiry_row_def)
qed

text \<open>
  Failures back off: a job that fails becomes claimable again no earlier than the retry base
  and no later than 1024 times that after the run, the delay doubling with the attempts; the last
  attempt allowed is final.
\<close>

theorem failed_expiry_backs_off:
  assumes "mk_expiry_worker wid lease attempts base = Inr w"
    and "r \<in> set (t_outbox_events d)" "ob_id r = ce_id job" "ob_status r = Processing"
    and "ob_locked_by r = Some wid" and "record_expiry_failure w job e now d = Inr (u, d')"
  shows "\<exists>r' \<in> set (t_outbox_events d'). ob_id r' = ob_id r
    \<and> ob_status r' = (if attempts \<le> ce_attempt_count job then PermanentFailed else RetryableFailed)
    \<and> now + base \<le> ob_available_at r' \<and> ob_available_at r' \<le> now + 1024 * base
    \<and> (1 \<le> ce_attempt_count job \<and> ce_attempt_count job \<le> 11
         \<longrightarrow> ob_available_at r' = now + base * 2 ^ nat (ce_attempt_count job - 1))
    \<and> (\<forall>t < now + base. \<not> claimable t r')"
proof -
  have w: "w = \<lparr>ew_worker_id = wid, ew_lease_duration = lease, ew_max_attempts = attempts,
      ew_retry_base = base\<rparr>" and base: "0 < base"
    using assms(1) by (auto simp: mk_expiry_worker_def res_simps)
  let ?n = "nat (min (max (ce_attempt_count job - 1) 0) 10)" and ?b = "expiry_backoff w (ce_attempt_count job)"
  have b: "?b = base * 2 ^ ?n" by (simp add: expiry_backoff_def w)
  have "?n \<le> 10" by simp
  then have "(2 :: int) ^ ?n \<le> 2 ^ 10" by (intro power_increasing) simp_all
  then have bounds: "base \<le> ?b" "?b \<le> 1024 * base"
    unfolding b using base by (simp_all add: mult_le_cancel_left1 mult.commute)
  let ?r = "r\<lparr>ob_status := (if attempts \<le> ce_attempt_count job then PermanentFailed else RetryableFailed),
     ob_available_at := now + ?b, ob_locked_by := None, ob_locked_until := None,
     ob_last_error_code := Some (take 120 (error_class e))\<rparr>"
  have "?r \<in> set (t_outbox_events d')"
    using assms(2-6) by (auto simp: record_expiry_failure_def fail_expiry_def tx_modify_eq
      set_update_where image_iff w intro!: bexI [of _ r])
  moreover have "?b = base * 2 ^ nat (ce_attempt_count job - 1)"
    if "1 \<le> ce_attempt_count job" "ce_attempt_count job \<le> 11" using that b by (simp add: max_def min_def)
  ultimately show ?thesis using bounds by (intro bexI [of _ ?r]) (auto simp: claimable_def)
qed

theorem failed_expiry_backs_off_witness:
  "\<exists>w d' r'. mk_expiry_worker ''w'' 30 5 7 = Inr w
    \<and> record_expiry_failure w example_job (RuntimeError []) 100
        (example_expiry_db\<lparr>t_outbox_events := [lease_row ''w'' 130 example_expiry_row]\<rparr>) = Inr ((), d')
    \<and> r' \<in> set (t_outbox_events d') \<and> ob_available_at r' = 107 \<and> ob_status r' = RetryableFailed"
proof -
  obtain w where w: "mk_expiry_worker ''w'' 30 5 7 = Inr w"
    by (simp add: mk_expiry_worker_def py_strip_def py_lstrip_def py_space_def)
  let ?d = "example_expiry_db\<lparr>t_outbox_events := [lease_row ''w'' 130 example_expiry_row]\<rparr>"
  obtain d' where f: "record_expiry_failure w example_job (RuntimeError []) 100 ?d = Inr ((), d')"
    by (simp add: record_expiry_failure_def fail_expiry_def tx_modify_def)
  from failed_expiry_backs_off [OF w _ _ _ _ f, of "lease_row ''w'' 130 example_expiry_row"] w f
  show ?thesis by (auto simp: example_job_def example_expiry_row_def)
qed

end
