(* ===== verification/Idempotency.thy ===== *)
theory Idempotency
  imports Py_Text Identifiers Tx_Frame
begin

section \<open>Idempotency keys (platform/idempotency.py)\<close>

text \<open>
  Mutating routes claim a key in the transaction of the request, run, and store the response with the
  key; a repetition is answered from the stored response. A key belongs to an account, a method and a
  route. The table stands beside the database of the services (\<open>served\<close>), on which a service runs by
  \<open>on_db\<close>. Response bodies are \<open>json\<close> values, which are exactly what \<open>_validate_json\<close> accepts, floating point numbers
  apart. An instant past \<open>datetime.max\<close>, where Python overflows, lies past every expiry.
\<close>

record served =
  sv_db :: db
  sv_keys :: "idempotency_row list"

type_synonym 'a served_tx = "(served, 'a) tx"

definition on_db :: "'a txn \<Rightarrow> 'a served_tx" where
  "on_db m s = (case m (sv_db s) of Inl e \<Rightarrow> Inl e | Inr (x, d) \<Rightarrow> Inr (x, s\<lparr>sv_db := d\<rparr>))"

record idempotency_claim =
  ic_actor_id :: uuid
  ic_http_method :: string
  ic_route_fingerprint :: string
  ic_key :: string
  ic_request_hash :: string
  ic_locked_until :: instant

datatype acquisition =
    Acquired idempotency_claim
  | Replay "int option" "json option"
  | KeyConflict
  | InProgress

record validated_acquisition =
  va_actor_id :: uuid
  va_http_method :: string
  va_route_fingerprint :: string
  va_key :: string
  va_request_hash :: string
  va_now :: instant
  va_lease_duration :: int
  va_expires_at :: instant

subsection \<open>Validation\<close>

definition supported_methods :: "string list" where
  "supported_methods = [''POST'', ''PUT'', ''PATCH'', ''DELETE'']"

definition validate_utc :: "datetime \<Rightarrow> string \<Rightarrow> py_error + instant" where
  "validate_utc value name =
     (case value of
        Naive _ \<Rightarrow> Inl (ValueError (name @ '' must be timezone-aware UTC''))
      | Aware w off \<Rightarrow> if off \<noteq> 0 then Inl (ValueError (name @ '' must be UTC'')) else Inr w)"

definition route_ok :: "string \<Rightarrow> bool" where
  "route_ok route \<longleftrightarrow> take 8 route = ''/api/v1/'' \<and> len route \<le> 500
     \<and> list_all (\<lambda>v. \<not> has_substring v route) [''?'', ''#'', ''://'']
     \<and> list_all (\<lambda>c. \<not> py_space c) route"

definition validate_acquisition ::
  "uuid \<Rightarrow> string \<Rightarrow> string \<Rightarrow> string \<Rightarrow> string \<Rightarrow> datetime \<Rightarrow> int \<Rightarrow> datetime
     \<Rightarrow> py_error + validated_acquisition" where
  "validate_acquisition actor_id http_method route key request_hash now lease_duration expires_at =
     res_bind (validate_uuid7 actor_id) (\<lambda>identifier.
     res_bind (res_guard (List.member supported_methods http_method)
       (ValueError ''HTTP method is not a supported mutation method'')) (\<lambda>_.
     res_bind (res_guard (route_ok route)
       (ValueError ''route fingerprint must be a stable API path template'')) (\<lambda>_.
     res_bind (res_guard (16 \<le> len key \<and> len key \<le> 200)
       (ValueError ''idempotency key must contain 16 to 200 characters'')) (\<lambda>_.
     res_bind (res_guard (len request_hash = 32)
       (ValueError ''request hash must be a 32-byte SHA-256 digest'')) (\<lambda>_.
     res_bind (validate_utc now ''current time'') (\<lambda>normalized_now.
     res_bind (validate_utc expires_at ''expiry'') (\<lambda>normalized_expiry.
     res_bind (res_guard (0 < lease_duration) (ValueError ''lease duration must be positive'')) (\<lambda>_.
     res_bind (res_guard (normalized_now < normalized_expiry)
       (ValueError ''idempotency expiry must be after now'')) (\<lambda>_.
     res_bind (res_guard (normalized_now + lease_duration \<le> normalized_expiry)
       (ValueError ''idempotency lease must not extend past expiry'')) (\<lambda>_.
     Inr \<lparr>va_actor_id = identifier, va_http_method = http_method, va_route_fingerprint = route,
       va_key = key, va_request_hash = request_hash, va_now = normalized_now,
       va_lease_duration = lease_duration, va_expires_at = normalized_expiry\<rparr>))))))))))"

subsection \<open>The repository\<close>

definition idempotency_checks :: "idempotency_row \<Rightarrow> (string \<times> bool) list" where
  "idempotency_checks r =
     [(''idempotency_keys_http_method_check'', List.member supported_methods (ik_http_method r)),
      (''idempotency_keys_key_check'', 16 \<le> len (ik_key r) \<and> len (ik_key r) \<le> 200),
      (''idempotency_keys_request_hash_check'', len (ik_request_hash r) = 32),
      (''idempotency_keys_response_status_check'', (case ik_response_status r of
          None \<Rightarrow> True | Some s \<Rightarrow> 100 \<le> s \<and> s \<le> 599)),
      (''ck_idempotency_response_shape'',
         (ik_completed_at r = None) = (ik_response_status r = None)
         \<and> (ik_completed_at r = None) = (ik_response_body r = None))]"

definition in_scope :: "uuid \<Rightarrow> string \<Rightarrow> string \<Rightarrow> string \<Rightarrow> idempotency_row \<Rightarrow> bool" where
  "in_scope actor_id http_method route key r \<longleftrightarrow> ik_user_id r = actor_id \<and> ik_http_method r = http_method
     \<and> ik_route_fingerprint r = route \<and> ik_key r = key"

text \<open>\<open>UPDATE ... WHERE\<close> on the rows of one key: whether one was changed.\<close>

definition update_key :: "(idempotency_row \<Rightarrow> bool) \<Rightarrow> (idempotency_row \<Rightarrow> idempotency_row) \<Rightarrow> bool served_tx" where
  "update_key P f =
     tx_bind (tx_query (\<lambda>s. one_or_none P (sv_keys s))) (\<lambda>found. case found of
       None \<Rightarrow> tx_return False
     | Some r \<Rightarrow>
         tx_bind (check_constraints (idempotency_checks (f r))) (\<lambda>_.
         tx_bind (tx_modify (\<lambda>s. s\<lparr>sv_keys := update_where
           (in_scope (ik_user_id r) (ik_http_method r) (ik_route_fingerprint r) (ik_key r)) (\<lambda>_. f r) (sv_keys s)\<rparr>)) (\<lambda>_.
         tx_return True)))"

text \<open>\<open>INSERT ... ON CONFLICT DO NOTHING RETURNING id\<close>: whether the row is new.\<close>

definition insert_idempotency_key :: "validated_acquisition \<Rightarrow> instant \<Rightarrow> bool served_tx" where
  "insert_idempotency_key v locked_until =
     tx_bind (on_db clock_timestamp) (\<lambda>created.
     let r = \<lparr>ik_user_id = va_actor_id v, ik_http_method = va_http_method v,
           ik_route_fingerprint = va_route_fingerprint v, ik_key = va_key v,
           ik_request_hash = va_request_hash v, ik_response_status = None, ik_response_body = None,
           ik_locked_until = Some locked_until, ik_completed_at = None, ik_expires_at = va_expires_at v,
           ik_created_at = created\<rparr> in
     tx_bind (check_constraints (idempotency_checks r)) (\<lambda>_.
     tx_bind (tx_query (\<lambda>s. row_exists (in_scope (ik_user_id r) (ik_http_method r) (ik_route_fingerprint r) (ik_key r))
       (sv_keys s))) (\<lambda>conflicting.
     if conflicting then tx_return False
     else
       tx_bind (tx_query (\<lambda>s. row_exists (\<lambda>u. us_id u = ik_user_id r) (t_users (sv_db s)))) (\<lambda>known.
       tx_bind (check_constraints [(''idempotency_keys_user_id_fkey'', known)]) (\<lambda>_.
       tx_bind (tx_modify (\<lambda>s. s\<lparr>sv_keys := sv_keys s @ [r]\<rparr>)) (\<lambda>_.
       tx_return True))))))"

definition reset_claim :: "validated_acquisition \<Rightarrow> instant \<Rightarrow> bool served_tx" where
  "reset_claim v locked_until =
     tx_bind (on_db clock_timestamp) (\<lambda>created.
     update_key (in_scope (va_actor_id v) (va_http_method v) (va_route_fingerprint v) (va_key v))
       (\<lambda>r. r\<lparr>ik_request_hash := va_request_hash v, ik_response_status := None, ik_response_body := None,
          ik_locked_until := Some locked_until, ik_completed_at := None, ik_expires_at := va_expires_at v,
          ik_created_at := created\<rparr>))"

definition claim_of :: "validated_acquisition \<Rightarrow> instant \<Rightarrow> idempotency_claim" where
  "claim_of v locked_until = \<lparr>ic_actor_id = va_actor_id v, ic_http_method = va_http_method v,
     ic_route_fingerprint = va_route_fingerprint v, ic_key = va_key v,
     ic_request_hash = va_request_hash v, ic_locked_until = locked_until\<rparr>"

definition acquire ::
  "uuid \<Rightarrow> string \<Rightarrow> string \<Rightarrow> string \<Rightarrow> string \<Rightarrow> datetime \<Rightarrow> int \<Rightarrow> datetime \<Rightarrow> acquisition served_tx" where
  "acquire actor_id http_method route key request_hash now lease_duration expires_at =
     tx_bind (tx_lift (validate_acquisition actor_id http_method route key request_hash now lease_duration
       expires_at)) (\<lambda>v.
     let locked_until = va_now v + va_lease_duration v in
     tx_bind (insert_idempotency_key v locked_until) (\<lambda>inserted.
     if inserted then tx_return (Acquired (claim_of v locked_until))
     else
       tx_bind (tx_query (\<lambda>s. one_or_none (in_scope actor_id http_method route key) (sv_keys s))) (\<lambda>row. case row of
         None \<Rightarrow> tx_raise (PyException ''NoResultFound'')
       | Some r \<Rightarrow>
           if ik_expires_at r \<le> va_now v
           then tx_bind (reset_claim v locked_until) (\<lambda>_. tx_return (Acquired (claim_of v locked_until)))
           else if ik_request_hash r \<noteq> va_request_hash v then tx_return KeyConflict
           else if ik_completed_at r \<noteq> None then tx_return (Replay (ik_response_status r) (ik_response_body r))
           else if (case ik_locked_until r of None \<Rightarrow> False | Some t \<Rightarrow> va_now v < t) then tx_return InProgress
           else
             tx_bind (update_key (in_scope actor_id http_method route key)
               (\<lambda>r. r\<lparr>ik_locked_until := Some locked_until, ik_expires_at := va_expires_at v\<rparr>)) (\<lambda>_.
             tx_return (Acquired (claim_of v locked_until))))))"

definition complete_claim :: "idempotency_claim \<Rightarrow> int \<Rightarrow> json \<Rightarrow> datetime \<Rightarrow> unit served_tx" where
  "complete_claim c response_status response_body completed_at =
     tx_bind (tx_guard (100 \<le> response_status \<and> response_status \<le> 599)
       (ValueError ''response status must be between 100 and 599'')) (\<lambda>_.
     tx_bind (tx_lift (validate_utc completed_at ''completion time'')) (\<lambda>t.
     tx_bind (update_key (\<lambda>r. in_scope (ic_actor_id c) (ic_http_method c) (ic_route_fingerprint c) (ic_key c) r
         \<and> ik_request_hash r = ic_request_hash c \<and> ik_locked_until r = Some (ic_locked_until c)
         \<and> t < ic_locked_until c \<and> t < ik_expires_at r \<and> ik_completed_at r = None)
       (\<lambda>r. r\<lparr>ik_response_status := Some response_status, ik_response_body := Some response_body,
          ik_completed_at := Some t\<rparr>)) (\<lambda>completed.
     tx_guard completed IdempotencyClaimLostError)))"

text \<open>\<open>IdempotencyCoordinator.acquire\<close>\<close>

definition coordinate ::
  "uuid \<Rightarrow> string \<Rightarrow> string \<Rightarrow> string \<Rightarrow> string \<Rightarrow> datetime \<Rightarrow> int \<Rightarrow> datetime \<Rightarrow> acquisition served_tx" where
  "coordinate actor_id http_method route key request_hash now lease_duration expires_at =
     tx_bind (acquire actor_id http_method route key request_hash now lease_duration expires_at) (\<lambda>a.
     tx_bind (tx_guard (a \<noteq> KeyConflict)
       (ApiError ''idempotency_conflict'' ''errors.idempotency_conflict'' 409)) (\<lambda>_.
     tx_bind (tx_guard (a \<noteq> InProgress)
       (ApiError ''idempotency_in_progress'' ''errors.idempotency_in_progress'' 409)) (\<lambda>_.
     tx_return a)))"

end
