(* ===== verification/Idempotent_Routes.thy ===== *)
theory Idempotent_Routes
  imports Idempotency Attendee_Services Platform_Settings Identity_Codecs Event_Access
begin

section \<open>Routes with an idempotency key (registrations/routes.py, settings/routes.py)\<close>

text \<open>
  The mutating routes of registrations and feature flags follow one pattern: the key is claimed for 30 seconds and
  kept for a day, a finished request is answered from its row, and otherwise the service runs and its response is
  stored, all in the transaction of the request. \<open>current\<close> and \<open>completed\<close> are what the clock of the process reads at
  the start and the end. A response is its status and its JSON body. Other routes do more on a replay and are not
  instances: those of events authorise the caller again, those of media resume the upload. A finished key
  without a stored status, which the store never makes, raises an error here; only the routes that register
  and cancel look at the stored status.
\<close>

definition idempotent ::
  "'z subject_scheme \<Rightarrow> string \<Rightarrow> string \<Rightarrow> string \<Rightarrow> string \<Rightarrow> instant \<Rightarrow> instant \<Rightarrow> 'a txn
     \<Rightarrow> ('a \<Rightarrow> int \<times> json) \<Rightarrow> (int \<times> json) served_tx" where
  "idempotent p http_method route key request_hash current completed operation respond =
     tx_bind (coordinate (sb_user_id p) http_method route key request_hash (Aware current 0)
       (30 * 1000000) (Aware (current + days 1) 0)) (\<lambda>acquired. case acquired of
       Replay status body \<Rightarrow>
         (case (status, body) of
            (Some s, Some b) \<Rightarrow> tx_return (s, b)
          | _ \<Rightarrow> tx_raise (RuntimeError ''completed idempotency operation has no response status''))
     | Acquired c \<Rightarrow>
         tx_bind (on_db operation) (\<lambda>result.
         tx_bind (complete_claim c (fst (respond result)) (snd (respond result)) (Aware completed 0)) (\<lambda>_.
         tx_return (respond result)))
     | _ \<Rightarrow> tx_raise (RuntimeError ''acquired idempotency operation has no claim''))"

subsection \<open>Responses\<close>

text \<open>A datetime in UTC, as the response models write it.\<close>

definition json_instant :: "instant \<Rightarrow> json" where
  "json_instant t = (let s = iso_utc t in JStr (take (length s - 6) s @ ''Z''))"

fun method_name :: "registration_method \<Rightarrow> string" where
  "method_name Free = ''free''"
| "method_name CashOrganizerConfirmed = ''cash_organizer_confirmed''"

definition json_maybe :: "('a \<Rightarrow> json) \<Rightarrow> 'a option \<Rightarrow> json" where
  "json_maybe f v = (case v of None \<Rightarrow> JNull | Some x \<Rightarrow> f x)"

definition registration_response :: "registration \<Rightarrow> json" where
  "registration_response r = JObj
     [(''id'', JStr (uuid_str (rg_id r))), (''event_id'', JStr (uuid_str (rg_event_id r))),
      (''user_id'', JStr (uuid_str (rg_user_id r))), (''method'', JStr (method_name (rg_method r))),
      (''state'', JStr (state_name (rg_state r))), (''seat_held'', JBool (rg_seat_held r)),
      (''waitlist_sequence'', json_maybe JInt (rg_waitlist_sequence r)),
      (''cash_expires_at'', json_maybe json_instant (rg_cash_expires_at r)),
      (''confirmed_at'', json_maybe json_instant (rg_confirmed_at r)),
      (''cancelled_at'', json_maybe json_instant (rg_cancelled_at r)),
      (''expired_at'', json_maybe json_instant (rg_expired_at r)),
      (''cancellation_reason'', json_maybe JStr (rg_cancellation_reason r)),
      (''created_at'', json_instant (rg_created_at r)), (''updated_at'', json_instant (rg_updated_at r))]"

subsection \<open>The fingerprints of requests\<close>

definition registration_request_hash :: "(string \<Rightarrow> string) \<Rightarrow> uuid \<Rightarrow> string option \<Rightarrow> string" where
  "registration_request_hash sha256 event_id private_link_hash =
     sha256 (''talaqi:event-registration-request:v1'' @ nul # uuid_bytes event_id
       @ (case private_link_hash of None \<Rightarrow> [nul] | Some h \<Rightarrow> char_of (1 :: nat) # h))"

definition cancellation_hash :: "(string \<Rightarrow> string) \<Rightarrow> uuid \<Rightarrow> string" where
  "cancellation_hash sha256 event_id =
     sha256 (''talaqi:event-registration-cancellation:v1'' @ nul # uuid_bytes event_id)"

definition confirmation_hash :: "(string \<Rightarrow> string) \<Rightarrow> uuid \<Rightarrow> uuid \<Rightarrow> string" where
  "confirmation_hash sha256 event_id registration_id =
     sha256 (''talaqi:cash-confirmation:v1'' @ nul # uuid_bytes event_id @ uuid_bytes registration_id)"

text \<open>The private link of a registration: from the header or the body, which must not differ.\<close>

definition private_link :: "string option \<Rightarrow> string option \<Rightarrow> py_error + string option" where
  "private_link authorization body_value =
     (let header_value = (case authorization of
            None \<Rightarrow> None
          | Some a \<Rightarrow>
              let scheme = takeWhile (\<lambda>c. c \<noteq> CHR '' '') a in
              if length scheme < length a \<and> py_lower scheme = ''privatelink''
              then Some (drop (length scheme + 1) a) else None);
          given = (\<lambda>v. v \<noteq> None \<and> v \<noteq> Some []);
          selected = (if given header_value then header_value else body_value) in
      if given header_value \<and> given body_value \<and> header_value \<noteq> body_value then Inl not_found
      else if selected \<noteq> None \<and> \<not> token_pattern (the selected) then Inl not_found
      else Inr selected)"

subsection \<open>Routes\<close>

definition create_registration_route ::
  "(string \<Rightarrow> string) \<Rightarrow> eligibility_config \<Rightarrow> principal \<Rightarrow> uuid \<Rightarrow> string option \<Rightarrow> string \<Rightarrow> uuid
     \<Rightarrow> instant \<Rightarrow> instant \<Rightarrow> (int \<times> json) served_tx" where
  "create_registration_route sha256 cfg p event_id private_link_hash key request_id current completed =
     idempotent p ''POST'' ''/api/v1/events/{event_id}/registrations'' key
       (registration_request_hash sha256 event_id private_link_hash) current completed
       (register sha256 cfg p event_id private_link_hash request_id (Aware current 0))
       (\<lambda>r. (if cr_created r then 201 else 200, registration_response (cr_registration r)))"

definition cancel_registration_route ::
  "(string \<Rightarrow> string) \<Rightarrow> eligibility_check \<Rightarrow> principal \<Rightarrow> uuid \<Rightarrow> string \<Rightarrow> uuid \<Rightarrow> instant \<Rightarrow> instant
     \<Rightarrow> (int \<times> json) served_tx" where
  "cancel_registration_route sha256 check p event_id key request_id current completed =
     idempotent p ''DELETE'' ''/api/v1/events/{event_id}/registrations/me'' key
       (cancellation_hash sha256 event_id) current completed
       (cancel_registration sha256 check p event_id request_id (Aware current 0))
       (\<lambda>r. (200, registration_response r))"

definition confirm_cash_route ::
  "(string \<Rightarrow> string) \<Rightarrow> principal \<Rightarrow> uuid \<Rightarrow> uuid \<Rightarrow> string \<Rightarrow> uuid \<Rightarrow> instant \<Rightarrow> instant
     \<Rightarrow> (int \<times> json) served_tx" where
  "confirm_cash_route sha256 p event_id registration_id key request_id current completed =
     idempotent p ''POST'' ''/api/v1/events/{event_id}/registrations/{registration_id}/confirm-cash'' key
       (confirmation_hash sha256 event_id registration_id) current completed
       (confirm_cash sha256 p event_id registration_id request_id (Aware current 0))
       (\<lambda>r. (200, registration_response r))"

text \<open>\<open>raw_body\<close> is the body of the request, from which \<open>state\<close> and \<open>search\<close> were read.\<close>

definition export_route ::
  "(string \<Rightarrow> string) \<Rightarrow> principal \<Rightarrow> uuid \<Rightarrow> string \<Rightarrow> registration_state option \<Rightarrow> string option \<Rightarrow> string
     \<Rightarrow> uuid \<Rightarrow> instant \<Rightarrow> instant \<Rightarrow> (int \<times> json) served_tx" where
  "export_route sha256 p event_id raw_body state search key request_id current completed =
     idempotent p ''POST'' ''/api/v1/events/{event_id}/attendees/export'' key (sha256 raw_body) current completed
       (tx_bind fresh_uuid (\<lambda>export_request_id.
        tx_bind (request_export p event_id export_request_id state search request_id (Aware current 0)) (\<lambda>_.
        tx_return export_request_id)))
       (\<lambda>i. (202, JObj [(''request_id'', JStr (uuid_str i)), (''status'', JStr ''queued'')]))"

definition update_flag_route ::
  "(string \<Rightarrow> string) \<Rightarrow> principal \<Rightarrow> string \<Rightarrow> string \<Rightarrow> bool \<Rightarrow> int \<Rightarrow> string \<Rightarrow> string \<Rightarrow> uuid
     \<Rightarrow> instant \<Rightarrow> instant \<Rightarrow> (int \<times> json) served_tx" where
  "update_flag_route sha256 p flag raw_body enabled revision reason key request_id current completed =
     idempotent p ''PATCH'' (''/api/v1/admin/settings/feature-flags/'' @ flag) key (sha256 raw_body)
       current completed (update_flag_setting p flag enabled revision reason request_id)
       (\<lambda>s. (200, JObj [(''setting'', JObj [(''key'', JStr (st_key s)), (''enabled'', JBool (st_enabled s)),
          (''revision'', JInt (st_revision s))])]))"

end
