(* ===== verification/Idempotency_Laws.thy ===== *)
theory Idempotency_Laws
  imports Idempotent_Routes
begin

section \<open>A request with a key is applied once\<close>

text \<open>
  What acquiring and completing a key does to the table, the frame that finished keys survive until they
  expire, and what a repeated request is answered.
\<close>

definition key_scope :: "idempotency_row \<Rightarrow> uuid \<times> string \<times> string \<times> string" where
  "key_scope r = (ik_user_id r, ik_http_method r, ik_route_fingerprint r, ik_key r)"

definition keys_wf :: "served \<Rightarrow> bool" where
  "keys_wf s \<longleftrightarrow> distinct (map key_scope (sv_keys s))"

lemma in_scope_iff: "in_scope u m rt k r \<longleftrightarrow> key_scope r = (u, m, rt, k)"
  by (auto simp: in_scope_def key_scope_def)

lemma in_scope_of [simp]:
  "in_scope (ik_user_id r) (ik_http_method r) (ik_route_fingerprint r) (ik_key r) = (\<lambda>x. key_scope x = key_scope r)"
  by (rule ext) (simp add: in_scope_def key_scope_def)

lemma on_db_Inr [tx_simps]:
  "on_db m s = Inr (x, s') \<longleftrightarrow> (\<exists>d. m (sv_db s) = Inr (x, d) \<and> s' = s\<lparr>sv_db := d\<rparr>)"
  by (auto simp: on_db_def split: sum.splits prod.splits)

lemma validate_acquisition_Inr:
  "validate_acquisition u m rt k h now lease ex = Inr v \<longleftrightarrow>
     is_uuid7 u \<and> List.member supported_methods m \<and> route_ok rt \<and> 16 \<le> len k \<and> len k \<le> 200 \<and> len h = 32 \<and> 0 < lease
     \<and> (\<exists>n e. now = Aware n 0 \<and> ex = Aware e 0 \<and> n + lease \<le> e
        \<and> v = \<lparr>va_actor_id = u, va_http_method = m, va_route_fingerprint = rt, va_key = k, va_request_hash = h,
          va_now = n, va_lease_duration = lease, va_expires_at = e\<rparr>)"
  unfolding validate_acquisition_def validate_utc_def
  by (auto simp: res_simps split: datetime.splits if_splits)

lemma update_key_cases:
  assumes "update_key P f s = Inr (b, s')"
  obtains (missing) "\<not> b" "s' = s" "one_or_none P (sv_keys s) = None"
  | (changed) r where b "one_or_none P (sv_keys s) = Some r"
      "s' = s\<lparr>sv_keys := update_where (\<lambda>x. key_scope x = key_scope r) (\<lambda>_. f r) (sv_keys s)\<rparr>"
  using assms by (cases "one_or_none P (sv_keys s)") (auto simp: update_key_def tx_simps)

definition ticked :: "served \<Rightarrow> served \<Rightarrow> bool" where
  "ticked s s' \<longleftrightarrow> s' = s\<lparr>sv_db := (sv_db s)\<lparr>clock_pos := Suc (clock_pos (sv_db s))\<rparr>\<rparr>"

lemma insert_idempotency_key_cases:
  assumes "insert_idempotency_key v l s = Inr (b, s')"
  obtains (conflicting) r where "\<not> b" "ticked s s'" "r \<in> set (sv_keys s)"
      "key_scope r = (va_actor_id v, va_http_method v, va_route_fingerprint v, va_key v)"
  | (new) r where b "sv_keys s' = sv_keys s @ [r]"
      "key_scope r = (va_actor_id v, va_http_method v, va_route_fingerprint v, va_key v)"
      "\<forall>x \<in> set (sv_keys s). key_scope x \<noteq> key_scope r"
      "ik_request_hash r = va_request_hash v" "ik_locked_until r = Some l" "ik_completed_at r = None"
      "ik_expires_at r = va_expires_at v"
      "\<exists>d. sv_db s' = (sv_db s)\<lparr>clock_pos := d\<rparr>"
proof -
  have "(\<not> b \<and> ticked s s' \<and> (\<exists>r \<in> set (sv_keys s).
      key_scope r = (va_actor_id v, va_http_method v, va_route_fingerprint v, va_key v)))
    \<or> (\<exists>r. b \<and> sv_keys s' = sv_keys s @ [r]
      \<and> key_scope r = (va_actor_id v, va_http_method v, va_route_fingerprint v, va_key v)
      \<and> (\<forall>x \<in> set (sv_keys s). key_scope x \<noteq> key_scope r)
      \<and> ik_request_hash r = va_request_hash v \<and> ik_locked_until r = Some l \<and> ik_completed_at r = None
      \<and> ik_expires_at r = va_expires_at v \<and> (\<exists>d. sv_db s' = (sv_db s)\<lparr>clock_pos := d\<rparr>))"
    using assms unfolding insert_idempotency_key_def Let_def
    by (auto simp: tx_simps ticked_def row_exists_iff in_scope_iff split: if_splits)
      (auto simp: key_scope_def)
  then show thesis using conflicting new by blast
qed


lemma lift_Inr: "tx_bind (tx_lift (Inr v)) f = f v"
  by (rule ext) (simp add: tx_run)

lemma acquire_cases:
  assumes "acquire u m rt k h (Aware now 0) lease (Aware ex 0) s = Inr (a, s')" and wf: "keys_wf s"
  obtains (new) r where "a = Acquired \<lparr>ic_actor_id = u, ic_http_method = m, ic_route_fingerprint = rt, ic_key = k,
        ic_request_hash = h, ic_locked_until = now + lease\<rparr>" "sv_keys s' = sv_keys s @ [r]"
      "key_scope r = (u, m, rt, k)" "\<forall>x \<in> set (sv_keys s). key_scope x \<noteq> (u, m, rt, k)"
      "ik_request_hash r = h" "ik_locked_until r = Some (now + lease)" "ik_completed_at r = None" "ik_expires_at r = ex"
      "\<exists>c. sv_db s' = (sv_db s)\<lparr>clock_pos := c\<rparr>"
  | (again) r f c where "a = Acquired \<lparr>ic_actor_id = u, ic_http_method = m, ic_route_fingerprint = rt, ic_key = k,
        ic_request_hash = h, ic_locked_until = now + lease\<rparr>" "r \<in> set (sv_keys s)" "key_scope r = (u, m, rt, k)"
      "ik_expires_at r \<le> now \<or> ik_completed_at r = None"
      "s' = s\<lparr>sv_keys := update_where (\<lambda>x. key_scope x = key_scope r) (\<lambda>_. f r) (sv_keys s),
         sv_db := (sv_db s)\<lparr>clock_pos := c\<rparr>\<rparr>" "key_scope (f r) = key_scope r"
  | (kept) r where "r \<in> set (sv_keys s)" "key_scope r = (u, m, rt, k)" "ticked s s'" "now < ik_expires_at r"
      "a = (if ik_request_hash r \<noteq> h then KeyConflict
        else if ik_completed_at r \<noteq> None then Replay (ik_response_status r) (ik_response_body r) else InProgress)"
proof -
  define v where "v = \<lparr>va_actor_id = u, va_http_method = m, va_route_fingerprint = rt, va_key = k, va_request_hash = h,
          va_now = now, va_lease_duration = lease, va_expires_at = ex\<rparr>"
  define c where "c = \<lparr>ic_actor_id = u, ic_http_method = m, ic_route_fingerprint = rt, ic_key = k,
        ic_request_hash = h, ic_locked_until = now + lease\<rparr>"
  have claim: "claim_of v (now + lease) = c" by (simp add: claim_of_def v_def c_def)
  let ?rest = "\<lambda>inserted. if inserted then tx_return (Acquired c)
     else
       tx_bind (tx_query (\<lambda>s. one_or_none (in_scope u m rt k) (sv_keys s))) (\<lambda>row. case row of
         None \<Rightarrow> tx_raise (PyException ''NoResultFound'')
       | Some r \<Rightarrow>
           if ik_expires_at r \<le> now
           then tx_bind (reset_claim v (now + lease)) (\<lambda>_. tx_return (Acquired c))
           else if ik_request_hash r \<noteq> h then tx_return KeyConflict
           else if ik_completed_at r \<noteq> None then tx_return (Replay (ik_response_status r) (ik_response_body r))
           else if (case ik_locked_until r of None \<Rightarrow> False | Some t \<Rightarrow> now < t) then tx_return InProgress
           else
             tx_bind (update_key (in_scope u m rt k)
               (\<lambda>r. r\<lparr>ik_locked_until := Some (now + lease), ik_expires_at := ex\<rparr>)) (\<lambda>_.
             tx_return (Acquired c)))"
  obtain x where x: "validate_acquisition u m rt k h (Aware now 0) lease (Aware ex 0) = Inr x"
    using assms(1) by (auto simp: acquire_def tx_bind_eq tx_lift_eq)
  then have "x = v" by (auto simp: validate_acquisition_Inr v_def)
  then have vals: "validate_acquisition u m rt k h (Aware now 0) lease (Aware ex 0) = Inr v" using x by simp
  have fields: "va_now v = now" "va_lease_duration v = lease" "va_request_hash v = h" "va_expires_at v = ex"
    by (simp_all add: v_def)
  have "tx_bind (insert_idempotency_key v (now + lease)) ?rest s = Inr (a, s')"
    using assms(1) unfolding acquire_def vals lift_Inr Let_def fields claim .
  then obtain b s1 where ins: "insert_idempotency_key v (now + lease) s = Inr (b, s1)"
    and rest: "?rest b s1 = Inr (a, s')" unfolding tx_bind_eq [of "insert_idempotency_key _ _"] by blast
  show thesis
    using ins
  proof (cases rule: insert_idempotency_key_cases)
    case (new r)
    then show ?thesis using that(1) [of r] rest by (simp add: v_def c_def tx_return_eq)
  next
    case (conflicting r0)
    then have keys: "sv_keys s1 = sv_keys s" by (simp add: ticked_def)
    obtain r where r: "one_or_none (in_scope u m rt k) (sv_keys s) = Some r"
      using conflicting(3,4) by (cases "one_or_none (in_scope u m rt k) (sv_keys s)")
        (auto simp: one_or_none_None in_scope_iff v_def)
    then have in_r: "r \<in> set (sv_keys s)" "key_scope r = (u, m, rt, k)"
      by (auto dest!: one_or_none_Some simp: in_scope_iff)
    have changes: "\<exists>n. s' = s\<lparr>sv_keys := update_where (\<lambda>x. key_scope x = key_scope r) (\<lambda>_. f r) (sv_keys s),
         sv_db := (sv_db s)\<lparr>clock_pos := n\<rparr>\<rparr>"
      if "update_key (in_scope u m rt k) f s2 = Inr (x, s')" "sv_keys s2 = sv_keys s"
        "sv_db s2 = (sv_db s)\<lparr>clock_pos := n2\<rparr>" for f s2 x n2
      using that(1)
    proof (cases rule: update_key_cases)
      case (changed r2)
      have "s2 = s\<lparr>sv_db := (sv_db s)\<lparr>clock_pos := n2\<rparr>\<rparr>" by (rule served.equality) (simp_all add: that)
      moreover have "r2 = r" using changed(2) r that(2) by simp
      ultimately show ?thesis using changed(3) that(2) by (intro exI [of _ n2]) simp
    qed (use that r in simp)
    show ?thesis
    proof (cases "ik_expires_at r \<le> now")
      case True
      define n where "n = clock_at (sv_db s) (Suc (clock_pos (sv_db s)))"
      define f where "f = (\<lambda>r :: idempotency_row. r\<lparr>ik_request_hash := h, ik_response_status := None,
          ik_response_body := None, ik_locked_until := Some (now + lease), ik_completed_at := None,
          ik_expires_at := ex, ik_created_at := n\<rparr>)"
      obtain x where up: "update_key (in_scope u m rt k) f
          (s\<lparr>sv_db := (sv_db s)\<lparr>clock_pos := Suc (Suc (clock_pos (sv_db s)))\<rparr>\<rparr>) = Inr (x, s')" and a: "a = Acquired c"
        using rest conflicting(1,2) r True
        by (auto simp: tx_simps keys reset_claim_def v_def ticked_def n_def f_def)
      have "\<exists>n2. s' = s\<lparr>sv_keys := update_where (\<lambda>x. key_scope x = key_scope r) (\<lambda>_. f r) (sv_keys s),
          sv_db := (sv_db s)\<lparr>clock_pos := n2\<rparr>\<rparr>"
        by (rule changes [OF up]) simp_all
      then obtain n2 where "s' = s\<lparr>sv_keys := update_where (\<lambda>x. key_scope x = key_scope r) (\<lambda>_. f r) (sv_keys s),
          sv_db := (sv_db s)\<lparr>clock_pos := n2\<rparr>\<rparr>" by blast
      then show ?thesis using that(2) [where r = r and f = f and c = n2] in_r True a
        by (simp add: c_def key_scope_def f_def)
    next
      case False
      show ?thesis
      proof (cases "a = Acquired c")
        case acquired: True
        then obtain x where up: "update_key (in_scope u m rt k) (\<lambda>r. r\<lparr>ik_locked_until := Some (now + lease), ik_expires_at := ex\<rparr>) s1
            = Inr (x, s')" and nc: "ik_completed_at r = None"
          using rest conflicting(1) r False by (auto simp: tx_simps keys split: if_splits option.splits)
        obtain n2 where "s' = s\<lparr>sv_keys := update_where (\<lambda>x. key_scope x = key_scope r)
            (\<lambda>_. r\<lparr>ik_locked_until := Some (now + lease), ik_expires_at := ex\<rparr>) (sv_keys s),
            sv_db := (sv_db s)\<lparr>clock_pos := n2\<rparr>\<rparr>"
          using changes [OF up keys] conflicting(2) by (auto simp: ticked_def)
        then show ?thesis using that(2) [where r = r and f = "\<lambda>r. r\<lparr>ik_locked_until := Some (now + lease), ik_expires_at := ex\<rparr>"
              and c = n2] in_r nc acquired by (simp add: c_def key_scope_def)
      next
        case not_acquired: False
        then have "s' = s1" "a = (if ik_request_hash r \<noteq> h then KeyConflict
            else if ik_completed_at r \<noteq> None then Replay (ik_response_status r) (ik_response_body r) else InProgress)"
          using rest conflicting(1) r False by (auto simp: tx_simps keys split: if_splits option.splits)
        then show ?thesis using that(3) [of r] in_r conflicting(2) False by simp
      qed
    qed
  qed
qed

lemma complete_claim_cases:
  assumes "complete_claim c st body (Aware t 0) s = Inr (x, s')"
  obtains r where "r \<in> set (sv_keys s)"
    "key_scope r = (ic_actor_id c, ic_http_method c, ic_route_fingerprint c, ic_key c)"
    "ik_request_hash r = ic_request_hash c" "ik_completed_at r = None"
    "s' = s\<lparr>sv_keys := update_where (\<lambda>x. key_scope x = key_scope r) (\<lambda>_. r\<lparr>ik_response_status := Some st,
       ik_response_body := Some body, ik_completed_at := Some t\<rparr>) (sv_keys s)\<rparr>"
proof -
  obtain b where "update_key (\<lambda>r. in_scope (ic_actor_id c) (ic_http_method c) (ic_route_fingerprint c) (ic_key c) r
         \<and> ik_request_hash r = ic_request_hash c \<and> ik_locked_until r = Some (ic_locked_until c)
         \<and> t < ic_locked_until c \<and> t < ik_expires_at r \<and> ik_completed_at r = None)
       (\<lambda>r. r\<lparr>ik_response_status := Some st, ik_response_body := Some body, ik_completed_at := Some t\<rparr>) s
       = Inr (b, s')" and b
    using assms by (auto simp: complete_claim_def validate_utc_def tx_bind_eq tx_guard_eq tx_lift_eq)
  then show thesis
  proof (cases rule: update_key_cases)
    case (changed r)
    then show ?thesis using that [of r] by (auto dest!: one_or_none_Some simp: in_scope_iff)
  qed simp
qed

subsection \<open>Finished keys survive until they expire\<close>

definition answers_kept :: "instant \<Rightarrow> served \<Rightarrow> served \<Rightarrow> bool" where
  "answers_kept t s s' \<longleftrightarrow> (keys_wf s \<longrightarrow> keys_wf s'
     \<and> (\<forall>r \<in> set (sv_keys s). ik_completed_at r \<noteq> None \<and> t \<le> ik_expires_at r \<longrightarrow> r \<in> set (sv_keys s')))"

interpretation answers: frame_relation "answers_kept t" for t
  by standard (auto simp: answers_kept_def)

lemma answers_same: "sv_keys s' = sv_keys s \<Longrightarrow> answers_kept t s s'"
  by (simp add: answers_kept_def keys_wf_def)

lemma on_db_answers: "tx_keeps (answers_kept t) (on_db m)"
  by (rule tx_keepsI) (auto simp: tx_simps intro: answers_same)

lemma answers_updated:
  assumes "r \<in> set (sv_keys s)" "key_scope r' = key_scope r" "ik_completed_at r = None \<or> ik_expires_at r < t"
    and "sv_keys s' = update_where (\<lambda>x. key_scope x = key_scope r) (\<lambda>_. r') (sv_keys s)"
  shows "answers_kept t s s'"
proof -
  have "map key_scope (sv_keys s') = map key_scope (sv_keys s)"
    unfolding assms(4) by (rule map_update_where) (simp add: assms(2))
  moreover have "x \<in> set (sv_keys s')"
    if "keys_wf s" "x \<in> set (sv_keys s)" "ik_completed_at x \<noteq> None" "t \<le> ik_expires_at x" for x
  proof -
    have "key_scope x \<noteq> key_scope r"
      using assms(1,3) that distinct_key_eq [of key_scope "sv_keys s" x r] by (auto simp: keys_wf_def)
    then show ?thesis using that(2) unfolding assms(4) set_update_where by force
  qed
  ultimately show ?thesis by (simp add: answers_kept_def keys_wf_def)
qed

lemma answers_inserted:
  "sv_keys s' = sv_keys s @ [r] \<Longrightarrow> \<forall>x \<in> set (sv_keys s). key_scope x \<noteq> key_scope r \<Longrightarrow> answers_kept t s s'"
  by (auto simp: answers_kept_def keys_wf_def)

lemma acquire_answers:
  assumes "now < t"
  shows "tx_keeps (answers_kept t) (acquire u m rt k h (Aware now 0) lease (Aware ex 0))"
proof (rule tx_keepsI)
  fix s a s'
  assume run: "acquire u m rt k h (Aware now 0) lease (Aware ex 0) s = Inr (a, s')"
  show "answers_kept t s s'"
  proof (cases "keys_wf s")
    case True
    from run True show ?thesis
    proof (cases rule: acquire_cases)
      case (new r)
      then show ?thesis by (intro answers_inserted) auto
    next
      case (again r f c)
      then show ?thesis using assms by (intro answers_updated [of r _ "f r"]) auto
    next
      case (kept r)
      then show ?thesis by (intro answers_same) (simp add: ticked_def)
    qed
  qed (simp add: answers_kept_def)
qed

lemma complete_claim_answers: "tx_keeps (answers_kept t) (complete_claim c st body (Aware at' 0))"
proof (rule tx_keepsI)
  fix s x s'
  assume "complete_claim c st body (Aware at' 0) s = Inr (x, s')"
  then show "answers_kept t s s'"
  proof (cases rule: complete_claim_cases)
    case (1 r)
    then show ?thesis by (intro answers_updated [where r = r]) (simp_all add: key_scope_def)
  qed
qed

lemma coordinate_answers:
  "now < t \<Longrightarrow> tx_keeps (answers_kept t) (coordinate u m rt k h (Aware now 0) lease (Aware ex 0))"
  unfolding coordinate_def by (intro answers.rules acquire_answers)

lemma idempotent_answers:
  assumes "current < t"
  shows "tx_keeps (answers_kept t) (idempotent p m rt k h current completed operation respond)"
  unfolding idempotent_def
proof (intro answers.bind coordinate_answers assms)
  fix a
  show "tx_keeps (answers_kept t) (case a of
       Replay status body \<Rightarrow>
         (case (status, body) of
            (Some s, Some b) \<Rightarrow> tx_return (s, b)
          | _ \<Rightarrow> tx_raise (RuntimeError ''completed idempotency operation has no response status''))
     | Acquired c \<Rightarrow>
         tx_bind (on_db operation) (\<lambda>result.
         tx_bind (complete_claim c (fst (respond result)) (snd (respond result)) (Aware completed 0)) (\<lambda>_.
         tx_return (respond result)))
     | _ \<Rightarrow> tx_raise (RuntimeError ''acquired idempotency operation has no claim''))"
    by (cases a) (auto split: option.split intro!: answers.rules on_db_answers complete_claim_answers)
qed

subsection \<open>A repeated request\<close>

definition answered :: "uuid \<Rightarrow> string \<Rightarrow> string \<Rightarrow> string \<Rightarrow> string \<Rightarrow> instant \<Rightarrow> int \<times> json \<Rightarrow> idempotency_row \<Rightarrow> bool" where
  "answered u m rt k h ex response r \<longleftrightarrow> key_scope r = (u, m, rt, k) \<and> ik_request_hash r = h
     \<and> ik_completed_at r \<noteq> None \<and> ik_response_status r = Some (fst response)
     \<and> ik_response_body r = Some (snd response) \<and> ik_expires_at r = ex"

lemma coordinate_eq:
  "coordinate u m rt k h n l e s = Inr (a, s') \<longleftrightarrow> acquire u m rt k h n l e s = Inr (a, s')
     \<and> a \<noteq> KeyConflict \<and> a \<noteq> InProgress"
  by (auto simp: coordinate_def tx_simps)

lemma first_answer:
  assumes run: "idempotent p m rt k h current completed operation respond s = Inr (response, s')"
    and wf: "keys_wf s" and free: "\<forall>x \<in> set (sv_keys s). key_scope x \<noteq> (sb_user_id p, m, rt, k)"
  shows "keys_wf s'" "\<exists>r \<in> set (sv_keys s'). answered (sb_user_id p) m rt k h (current + days 1) response r"
proof -
  have "answers_kept (current + 1) s s'" using idempotent_answers run by (rule tx_keepsD) simp
  then show "keys_wf s'" using wf by (simp add: answers_kept_def)
  obtain a s1 where acq: "acquire (sb_user_id p) m rt k h (Aware current 0) (30 * 1000000) (Aware (current + days 1) 0) s
      = Inr (a, s1)"
    and rest: "(case a of
       Replay status body \<Rightarrow>
         (case (status, body) of
            (Some s, Some b) \<Rightarrow> tx_return (s, b)
          | _ \<Rightarrow> tx_raise (RuntimeError ''completed idempotency operation has no response status''))
     | Acquired c \<Rightarrow>
         tx_bind (on_db operation) (\<lambda>result.
         tx_bind (complete_claim c (fst (respond result)) (snd (respond result)) (Aware completed 0)) (\<lambda>_.
         tx_return (respond result)))
     | _ \<Rightarrow> tx_raise (RuntimeError ''acquired idempotency operation has no claim'')) s1 = Inr (response, s')"
    using run unfolding idempotent_def tx_bind_eq [of "coordinate _ _ _ _ _ _ _ _"] coordinate_eq by blast
  from acq wf show "\<exists>r \<in> set (sv_keys s'). answered (sb_user_id p) m rt k h (current + days 1) response r"
  proof (cases rule: acquire_cases)
    case (new r)
    then obtain x d st where o: "s1\<lparr>sv_db := d\<rparr> = st" and response: "response = respond x"
      and c: "complete_claim \<lparr>ic_actor_id = sb_user_id p, ic_http_method = m, ic_route_fingerprint = rt, ic_key = k,
        ic_request_hash = h, ic_locked_until = current + 30 * 1000000\<rparr> (fst response) (snd response) (Aware completed 0)
        (s1\<lparr>sv_db := d\<rparr>) = Inr ((), s')"
      using rest by (auto simp: tx_simps)
    from c show ?thesis
    proof (cases rule: complete_claim_cases)
      case (1 q)
      have "q = r"
        using 1(1,2) new(2-4) by auto
      then have "r\<lparr>ik_response_status := Some (fst response), ik_response_body := Some (snd response),
          ik_completed_at := Some completed\<rparr> \<in> set (sv_keys s')"
        using 1(1,5) by (auto simp: set_update_where image_iff)
      moreover have "answered (sb_user_id p) m rt k h (current + days 1) response
          (r\<lparr>ik_response_status := Some (fst response), ik_response_body := Some (snd response),
          ik_completed_at := Some completed\<rparr>)"
        using new by (simp add: answered_def key_scope_def)
      ultimately show ?thesis by blast
    qed
  qed (use free in auto)
qed

lemma first_request_valid:
  assumes "idempotent p m rt k h current completed operation respond s = Inr (response, s')"
  shows "is_uuid7 (sb_user_id p) \<and> List.member supported_methods m \<and> route_ok rt \<and> 16 \<le> len k \<and> len k \<le> 200
    \<and> len h = 32"
  using assms unfolding idempotent_def acquire_def
  by (auto simp: tx_bind_eq coordinate_eq acquire_def tx_lift_eq validate_acquisition_Inr)

lemma acquire_answered:
  assumes v: "is_uuid7 u \<and> List.member supported_methods m \<and> route_ok rt \<and> 16 \<le> len k \<and> len k \<le> 200 \<and> len h = 32"
    and wf: "keys_wf s" and r: "r \<in> set (sv_keys s)" "key_scope r = (u, m, rt, k)" "ik_completed_at r \<noteq> None"
    and t: "now < ik_expires_at r" "0 < lease" "now + lease \<le> ex"
  shows "\<exists>s'. acquire u m rt k h (Aware now 0) lease (Aware ex 0) s
      = Inr (if ik_request_hash r \<noteq> h then KeyConflict else Replay (ik_response_status r) (ik_response_body r), s')
    \<and> ticked s s'"
proof -
  define w where "w = \<lparr>va_actor_id = u, va_http_method = m, va_route_fingerprint = rt, va_key = k, va_request_hash = h,
          va_now = now, va_lease_duration = lease, va_expires_at = ex\<rparr>"
  have vals: "validate_acquisition u m rt k h (Aware now 0) lease (Aware ex 0) = Inr w"
    unfolding validate_acquisition_Inr using v t by (simp add: w_def)
  have fields: "va_now w = now" "va_lease_duration w = lease" "va_request_hash w = h" "va_expires_at w = ex"
    by (simp_all add: w_def)
  define s1 where "s1 = s\<lparr>sv_db := (sv_db s)\<lparr>clock_pos := Suc (clock_pos (sv_db s))\<rparr>\<rparr>"
  have "row_exists (in_scope u m rt k) (sv_keys s)" using r by (auto simp: row_exists_iff in_scope_iff)
  then have ins: "insert_idempotency_key w (now + lease) s = Inr (False, s1)"
    using v by (simp add: insert_idempotency_key_def tx_simps Let_def s1_def w_def idempotency_checks_def del: in_scope_of)
  have found: "one_or_none (in_scope u m rt k) (sv_keys s1) = Some r"
    using wf r one_or_none_key [of key_scope "sv_keys s" r] by (simp add: s1_def keys_wf_def in_scope_iff [abs_def])
  have "acquire u m rt k h (Aware now 0) lease (Aware ex 0) s
      = Inr (if ik_request_hash r \<noteq> h then KeyConflict else Replay (ik_response_status r) (ik_response_body r), s1)"
    unfolding acquire_def vals lift_Inr Let_def fields tx_bind_eq [of "insert_idempotency_key _ _"] ins
    using t(1) r(3) by (auto simp: tx_simps found)
  then show ?thesis by (intro exI [of _ s1]) (simp add: ticked_def s1_def)
qed

text \<open>The service of a route with the rendering of its result is one operation that returns the response.\<close>

lemma idempotent_rendered:
  "idempotent p m rt k h current completed operation respond
    = idempotent p m rt k h current completed (tx_bind operation (\<lambda>x. tx_return (respond x))) (\<lambda>x. x)"
  unfolding idempotent_def
  by (rule ext) (auto simp: tx_bind_def on_db_def tx_return_def split: sum.splits acquisition.splits prod.splits
    intro!: arg_cong [where f = "tx_bind _"])

text \<open>What may happen before the instant \<open>t\<close>: requests with keys, and everything that leaves the keys alone.\<close>

inductive served_step :: "instant \<Rightarrow> served \<Rightarrow> served \<Rightarrow> bool" for t where
  keyed: "current < t \<Longrightarrow> idempotent (p :: principal) m rt k h current completed operation (\<lambda>x. x) s = Inr (x, s')
    \<Longrightarrow> served_step t s s'"
| other: "sv_keys s' = sv_keys s \<Longrightarrow> served_step t s s'"

lemma served_steps_answers:
  assumes "(served_step t)\<^sup>*\<^sup>* s s'"
  shows "answers_kept t s s'"
  using assms
proof (induction rule: rtranclp_induct)
  case (step a b)
  have "answers_kept t a b"
    using step(2) by (cases rule: served_step.cases) (auto intro: answers_same dest: tx_keepsD [OF idempotent_answers])
  then show ?case using step(3) answers.trans by blast
qed (rule answers.refl)

lemma later_request:
  assumes first: "idempotent p m rt k h current completed operation respond s = Inr (response, s1)"
    and "keys_wf s" and "\<forall>x \<in> set (sv_keys s). key_scope x \<noteq> (sb_user_id p, m, rt, k)"
    and "(served_step (current + days 1))\<^sup>*\<^sup>* s1 s2" and "current' < current + days 1" and h': "len h' = 32"
  shows "\<exists>s3. acquire (sb_user_id p) m rt k h' (Aware current' 0) (30 * 1000000) (Aware (current' + days 1) 0) s2
      = Inr (if h' = h then Replay (Some (fst response)) (Some (snd response)) else KeyConflict, s3) \<and> ticked s2 s3"
proof -
  obtain r where r: "r \<in> set (sv_keys s1)" "answered (sb_user_id p) m rt k h (current + days 1) response r"
    and wf1: "keys_wf s1" using first_answer [OF assms(1-3)] by blast
  have kept: "keys_wf s2" "r \<in> set (sv_keys s2)"
    using served_steps_answers [OF assms(4)] wf1 r by (auto simp: answers_kept_def answered_def)
  have f: "key_scope r = (sb_user_id p, m, rt, k)" "ik_completed_at r \<noteq> None" "ik_request_hash r = h"
    "ik_response_status r = Some (fst response)" "ik_response_body r = Some (snd response)"
    "current' < ik_expires_at r"
    using r(2) assms(5) by (auto simp: answered_def)
  show ?thesis
    using acquire_answered [OF _ kept f(1,2,6), of h' "30 * 1000000" "current' + days 1"]
      first_request_valid [OF first] f(3-5) h' by (auto simp: days_def)
qed

lemma repeated_request:
  assumes "idempotent p m rt k h current completed operation respond s = Inr (response, s1)"
    and "keys_wf s" and "\<forall>x \<in> set (sv_keys s). key_scope x \<noteq> (sb_user_id p, m, rt, k)"
    and "(served_step (current + days 1))\<^sup>*\<^sup>* s1 s2" and "current' < current + days 1"
  shows "\<exists>s3. idempotent p m rt k h current' completed' operation' respond' s2 = Inr (response, s3)
    \<and> sv_keys s3 = sv_keys s2 \<and> sv_db s3 = (sv_db s2)\<lparr>clock_pos := Suc (clock_pos (sv_db s2))\<rparr>"
proof -
  have "len h = 32" using first_request_valid [OF assms(1)] by simp
  then obtain s3 where "acquire (sb_user_id p) m rt k h (Aware current' 0) (30 * 1000000) (Aware (current' + days 1) 0) s2
      = Inr (Replay (Some (fst response)) (Some (snd response)), s3)" "ticked s2 s3"
    using later_request [OF assms, of h] by auto
  then have "idempotent p m rt k h current' completed' operation' respond' s2 = Inr (response, s3)" "ticked s2 s3"
    unfolding idempotent_def tx_bind_eq [of "coordinate _ _ _ _ _ _ _ _"] coordinate_eq
    by (auto simp: tx_simps)
  then show ?thesis by (auto simp: ticked_def)
qed

text \<open>
  C9. A request of these routes with an idempotency key is applied once. When the first one committed, the same request
  sent again within the day, whatever other requests with keys and other transactions were committed in
  between and whatever its service would do now, gets the same status and body, and changes neither the
  database (only its clock has moved on) nor any key.
\<close>

theorem repeated_requests_are_applied_once:
  assumes "idempotent p m rt k h current completed operation respond s = Inr (response, s1)"
    and "keys_wf s" and "\<forall>x \<in> set (sv_keys s). key_scope x \<noteq> (sb_user_id p, m, rt, k)"
    and "(served_step (current + days 1))\<^sup>*\<^sup>* s1 s2" and "current' < current + days 1"
  shows "\<exists>s3. idempotent p m rt k h current' completed' operation' respond' s2 = Inr (response, s3)
    \<and> sv_keys s3 = sv_keys s2 \<and> sv_db s3 = (sv_db s2)\<lparr>clock_pos := Suc (clock_pos (sv_db s2))\<rparr>"
  using assms by (rule repeated_request)

text \<open>
  A key that was used for one request is refused for another: a request under the same key whose
  fingerprint differs gets the conflict, whatever happened in between.
\<close>

theorem used_key_is_refused:
  assumes "idempotent p m rt k h current completed operation respond s = Inr (response, s1)"
    and "keys_wf s" and "\<forall>x \<in> set (sv_keys s). key_scope x \<noteq> (sb_user_id p, m, rt, k)"
    and "(served_step (current + days 1))\<^sup>*\<^sup>* s1 s2" and "current' < current + days 1"
    and "h' \<noteq> h" and "len h' = 32"
  shows "idempotent p m rt k h' current' completed' operation' respond' s2
    = Inl (ApiError ''idempotency_conflict'' ''errors.idempotency_conflict'' 409)"
proof -
  obtain s3 where "acquire (sb_user_id p) m rt k h' (Aware current' 0) (30 * 1000000) (Aware (current' + days 1) 0) s2
      = Inr (KeyConflict, s3)"
    using later_request [OF assms(1-5,7)] assms(6) by auto
  then show ?thesis by (simp add: idempotent_def coordinate_def tx_run)
qed

text \<open>
  C40. The fingerprint of an export request is made of its body alone and its route is the same for all
  events: a request to export the attendees of another event under the same key and with the same body is
  answered with the first export, and nothing is exported.
\<close>

theorem export_key_ignores_the_event:
  assumes "export_route sha p e raw state search k q current completed s = Inr (response, s1)"
    and "keys_wf s"
    and "\<forall>x \<in> set (sv_keys s). key_scope x \<noteq> (sb_user_id p, ''POST'', ''/api/v1/events/{event_id}/attendees/export'', k)"
    and "current' < current + days 1"
  shows "\<exists>s2. export_route sha p other_event raw state' search' k q' current' completed' s1 = Inr (response, s2)
    \<and> t_outbox_events (sv_db s2) = t_outbox_events (sv_db s1)
    \<and> t_audit_events (sv_db s2) = t_audit_events (sv_db s1)"
proof -
  have "\<exists>s2. export_route sha p other_event raw state' search' k q' current' completed' s1 = Inr (response, s2)
    \<and> sv_keys s2 = sv_keys s1 \<and> sv_db s2 = (sv_db s1)\<lparr>clock_pos := Suc (clock_pos (sv_db s1))\<rparr>"
    using assms unfolding export_route_def by (intro repeated_request) auto
  then show ?thesis by auto
qed

subsection \<open>The properties at concrete inputs\<close>

definition example_hash :: "string \<Rightarrow> string" where
  "example_hash s = take 32 (s @ replicate 32 nul)"

definition example_key :: string where
  "example_key = ''0123456789abcdef''"

definition example_served :: served where
  "example_served = \<lparr>sv_db = example_db, sv_keys = []\<rparr>"

lemma example_served_wf: "keys_wf example_served" "sv_keys example_served = []"
  by (simp_all add: example_served_def keys_wf_def)

lemma example_export:
  obtains response s1 where "export_route example_hash (example_principal 1) (example_id 20) ''{}'' None None example_key
      (example_id 91) 10 20 example_served = Inr (response, s1)"
proof -
  have "commits (export_route example_hash (example_principal 1) (example_id 20) ''{}'' None None example_key
      (example_id 91) 10 20 example_served) (\<lambda>x s. True)" by code_simp
  then show thesis using that by (rule commitsE)
qed

theorem repeated_requests_are_applied_once_witness:
  "\<exists>response s1 s2. export_route example_hash (example_principal 1) (example_id 20) ''{}'' None None example_key
      (example_id 91) 10 20 example_served = Inr (response, s1)
    \<and> export_route example_hash (example_principal 1) (example_id 20) ''{}'' None None example_key
      (example_id 92) 30 40 s1 = Inr (response, s2)
    \<and> sv_keys s2 = sv_keys s1 \<and> sv_db s2 = (sv_db s1)\<lparr>clock_pos := Suc (clock_pos (sv_db s1))\<rparr>"
proof -
  obtain response s1 where run: "export_route example_hash (example_principal 1) (example_id 20) ''{}'' None None example_key
      (example_id 91) 10 20 example_served = Inr (response, s1)" by (rule example_export)
  have "\<exists>s2. export_route example_hash (example_principal 1) (example_id 20) ''{}'' None None example_key
      (example_id 92) 30 40 s1 = Inr (response, s2)
    \<and> sv_keys s2 = sv_keys s1 \<and> sv_db s2 = (sv_db s1)\<lparr>clock_pos := Suc (clock_pos (sv_db s1))\<rparr>"
    using run unfolding export_route_def
    by (rule repeated_requests_are_applied_once) (simp_all add: example_served_wf days_def)
  then show ?thesis using run by blast
qed

theorem used_key_is_refused_witness:
  "\<exists>response s1. export_route example_hash (example_principal 1) (example_id 20) ''{}'' None None example_key
      (example_id 91) 10 20 example_served = Inr (response, s1)
    \<and> export_route example_hash (example_principal 1) (example_id 20) ''{x}'' None None example_key
      (example_id 92) 30 40 s1 = Inl (ApiError ''idempotency_conflict'' ''errors.idempotency_conflict'' 409)"
proof -
  obtain response s1 where run: "export_route example_hash (example_principal 1) (example_id 20) ''{}'' None None example_key
      (example_id 91) 10 20 example_served = Inr (response, s1)" by (rule example_export)
  have h: "example_hash ''{x}'' \<noteq> example_hash ''{}''" "len (example_hash ''{x}'') = 32" by code_simp+
  have "export_route example_hash (example_principal 1) (example_id 20) ''{x}'' None None example_key
      (example_id 92) 30 40 s1 = Inl (ApiError ''idempotency_conflict'' ''errors.idempotency_conflict'' 409)"
    using run unfolding export_route_def
    by (rule used_key_is_refused) (use h in \<open>simp_all add: example_served_wf days_def\<close>)
  then show ?thesis using run by blast
qed

theorem export_key_ignores_the_event_witness:
  "\<exists>response s1 s2. export_route example_hash (example_principal 1) (example_id 20) ''{}'' None None example_key
      (example_id 91) 10 20 example_served = Inr (response, s1)
    \<and> export_route example_hash (example_principal 1) (example_id 21) ''{}'' None None example_key
      (example_id 92) 30 40 s1 = Inr (response, s2)
    \<and> t_outbox_events (sv_db s2) = t_outbox_events (sv_db s1)"
proof -
  obtain response s1 where run: "export_route example_hash (example_principal 1) (example_id 20) ''{}'' None None example_key
      (example_id 91) 10 20 example_served = Inr (response, s1)" by (rule example_export)
  have "\<exists>s2. export_route example_hash (example_principal 1) (example_id 21) ''{}'' None None example_key
      (example_id 92) 30 40 s1 = Inr (response, s2)
    \<and> t_outbox_events (sv_db s2) = t_outbox_events (sv_db s1)
    \<and> t_audit_events (sv_db s2) = t_audit_events (sv_db s1)"
    using run by (rule export_key_ignores_the_event) (simp_all add: example_served_wf days_def)
  then show ?thesis using run by blast
qed

end
