(* ===== verification/Media_Laws.thy ===== *)
theory Media_Laws
  imports Media_Service Tx_Frame
begin

section \<open>Verified media are stored\<close>

text \<open>
  The storage is not part of the transaction: a request that fails leaves its deletions and
  replacements behind. The invariant \<open>media_inv\<close> between the files of the local storage and the table
  holds in every state that requests, uploads and the cleanup reach, whether they commit or not.
\<close>

definition media_row_ok :: "image_library \<Rightarrow> files \<Rightarrow> media_row \<Rightarrow> bool" where
  "media_row_ok lib f m \<longleftrightarrow>
     (ma_status m = MediaPending \<longrightarrow> build_storage_key (ma_owner_user_id m) (ma_id m) = Inr (ma_storage_key m))
     \<and> (ma_status m = MediaVerified \<longrightarrow>
         build_verified_storage_key (ma_owner_user_id m) (ma_id m) = Inr (ma_storage_key m)
         \<and> (\<exists>content. f (ma_storage_key m) = Some content \<and> ma_byte_size m = len content
              \<and> ma_sha256 m = Some (il_sha256 lib content) \<and> ma_content_type m = ''image/webp''))
     \<and> ma_status m \<noteq> MediaQuarantined"

definition media_inv :: "image_library \<Rightarrow> files \<Rightarrow> db \<Rightarrow> bool" where
  "media_inv lib f d \<longleftrightarrow> distinct (map ma_id (t_media_assets d)) \<and> list_all (media_row_ok lib f) (t_media_assets d)"

lemma media_inv_row: "media_inv lib f d \<Longrightarrow> m \<in> set (t_media_assets d) \<Longrightarrow> media_row_ok lib f m"
  by (simp add: media_inv_def list_all_iff)

subsection \<open>The files an operation touches\<close>

definition io_files :: "string set \<Rightarrow> (files, 'a) io \<Rightarrow> bool" where
  "io_files K m \<longleftrightarrow> (\<forall>f d r f'. m f d = (r, f') \<longrightarrow> (\<forall>k. k \<notin> K \<longrightarrow> f' k = f k))"

named_theorems io_frame "the files an operation leaves alone"

lemma io_filesD: "io_files K m \<Longrightarrow> m f d = (r, f') \<Longrightarrow> k \<notin> K \<Longrightarrow> f' k = f k"
  by (simp add: io_files_def)

lemma io_files_tx [io_frame]: "io_files K (io_tx m)"
  by (simp add: io_files_def io_tx_def)

lemma io_files_bind [io_frame]:
  assumes "io_files K m" "\<And>x. io_files K (g x)"
  shows "io_files K (io_bind m g)"
  unfolding io_files_def
proof (intro allI impI)
  fix f d r f' k
  assume run: "io_bind m g f d = (r, f')" and k: "k \<notin> K"
  obtain r1 f1 where m: "m f d = (r1, f1)" by fastforce
  then have "f1 k = f k" using assms(1) k by (simp add: io_filesD)
  moreover have "f' k = f1 k"
    using run m assms(2) k by (cases r1) (auto simp: io_bind_def dest: io_filesD)
  ultimately show "f' k = f k" by simp
qed

lemma io_files_read [io_frame]: "io_files K (io_read ops k n)"
  by (auto simp: io_files_def io_read_def split: sum.splits storage_error.splits)

lemma io_files_replace [io_frame]: "k \<in> K \<Longrightarrow> io_files K (io_replace (local_ops s) k c t)"
  by (auto simp: io_files_def io_replace_def io_change_def local_ops_def local_replace_def
      split: sum.splits storage_error.splits)

lemma io_files_delete [io_frame]: "k \<in> K \<Longrightarrow> io_files K (io_delete (local_ops s) k)"
  by (auto simp: io_files_def io_delete_def io_change_def local_ops_def local_delete_def
      split: sum.splits storage_error.splits)

lemma io_files_cond [io_frame]: "io_files K m \<Longrightarrow> io_files K m' \<Longrightarrow> io_files K (if b then m else m')"
  by simp

text \<open>The keys of an asset: of the upload and of the verified image.\<close>

definition keys_of :: "media_row \<Rightarrow> string set" where
  "keys_of m = insert (ma_storage_key m)
     {k. build_verified_storage_key (ma_owner_user_id m) (ma_id m) = Inr k}"

lemma io_files_quarantine [io_frame]:
  "ms_storage svc = local_ops s \<Longrightarrow> io_files (keys_of m) (quarantine svc m reason)"
  unfolding quarantine_def by (simp add: keys_of_def io_frame)

lemma io_files_reject [io_frame]:
  "ms_storage svc = local_ops s \<Longrightarrow> io_files (keys_of m) (reject_media svc m code)"
  unfolding reject_media_def by (intro io_frame) auto

lemma io_files_lift_bind [io_frame]:
  assumes "\<And>x. r = Inr x \<Longrightarrow> io_files K (g x)"
  shows "io_files K (io_bind (io_tx (tx_lift r)) g)"
  using assms by (cases r) (auto simp: io_files_def io_bind_def io_tx_def tx_lift_def)

lemma io_files_complete [io_frame]:
  assumes "ms_storage svc = local_ops s"
  shows "io_files (keys_of m) (complete_pending svc m now)"
  unfolding complete_pending_def assms
  by (intro io_frame) (auto simp: keys_of_def split: sum.splits media_error.splits option.splits
      intro!: io_frame io_files_reject [OF assms, unfolded keys_of_def])

text \<open>The keys of a pending asset are no key of a verified one.\<close>

lemma canonical_key_inject:
  assumes "build_verified_storage_key o1 a1 = Inr k" "build_verified_storage_key o2 a2 = Inr k"
  shows "a1 = a2"
proof -
  have "k = ''media/'' @ uuid_str o1 @ ''/'' @ uuid_str a1 @ ''/canonical.webp''"
    "k = ''media/'' @ uuid_str o2 @ ''/'' @ uuid_str a2 @ ''/canonical.webp''"
    using assms by (auto simp: build_verified_storage_key_def res_simps)
  then have "uuid_str a1 = uuid_str a2" by simp
  then show ?thesis by simp
qed

lemma pending_keys_apart:
  assumes inv: "media_inv lib f d" and p: "p \<in> set (t_media_assets d)" "ma_status p = MediaPending"
    and v: "v \<in> set (t_media_assets d)" "ma_status v = MediaVerified"
  shows "ma_storage_key v \<notin> keys_of p"
proof
  have pk: "build_storage_key (ma_owner_user_id p) (ma_id p) = Inr (ma_storage_key p)"
    using media_inv_row [OF inv p(1)] p(2) by (simp add: media_row_ok_def)
  have vk: "build_verified_storage_key (ma_owner_user_id v) (ma_id v) = Inr (ma_storage_key v)"
    using media_inv_row [OF inv v(1)] v(2) by (simp add: media_row_ok_def)
  assume "ma_storage_key v \<in> keys_of p"
  then consider "ma_storage_key v = ma_storage_key p"
    | "build_verified_storage_key (ma_owner_user_id p) (ma_id p) = Inr (ma_storage_key v)"
    unfolding keys_of_def by blast
  then show False
  proof cases
    case 1
    then show False using storage_keys_differ [OF pk vk] by simp
  next
    case 2
    then have "ma_id p = ma_id v" using canonical_key_inject vk by blast
    then have "p = v" using inv p(1) v(1) by (auto simp: media_inv_def intro: distinct_key_eq)
    then show False using p(2) v(2) by simp
  qed
qed

lemma row_ok_frame:
  assumes "media_row_ok lib f m" "ma_status m = MediaVerified \<Longrightarrow> f' (ma_storage_key m) = f (ma_storage_key m)"
  shows "media_row_ok lib f' m"
  using assms by (cases "ma_status m") (auto simp: media_row_ok_def)

lemma inv_files:
  assumes "media_inv lib f d" and "\<And>v. v \<in> set (t_media_assets d) \<Longrightarrow> ma_status v = MediaVerified
      \<Longrightarrow> f' (ma_storage_key v) = f (ma_storage_key v)"
  shows "media_inv lib f' d"
  using assms by (auto simp: media_inv_def list_all_iff intro: row_ok_frame)

subsection \<open>The rows an operation writes\<close>

lemma mark_verified_effect:
  assumes "mark_verified asset key v now d = Inr (m, d')"
  obtains p where "p \<in> set (t_media_assets d)" "ma_id p = ma_id asset" "ma_owner_user_id p = ma_owner_user_id asset"
    "ma_status p = MediaPending" "ma_id m = ma_id p" "ma_owner_user_id m = ma_owner_user_id p"
    "ma_status m = MediaVerified" "ma_storage_key m = key" "ma_content_type m = vi_content_type v"
    "ma_byte_size m = vi_byte_size v" "ma_sha256 m = Some (vi_sha256 v)"
    "ma_width m = Some (vi_width v)" "ma_height m = Some (vi_height v)" "ma_verified_at m = Some now"
    "t_media_assets d' = update_where (\<lambda>x. ma_id x = ma_id p) (\<lambda>_. m) (t_media_assets d)"
proof -
  obtain m0 where u: "update_pending (ma_id asset) (ma_owner_user_id asset)
       (\<lambda>m. m\<lparr>ma_status := MediaVerified, ma_storage_key := key,
          ma_content_type := vi_content_type v, ma_byte_size := vi_byte_size v,
          ma_width := Some (vi_width v), ma_height := Some (vi_height v),
          ma_sha256 := Some (vi_sha256 v), ma_verified_at := Some now,
          ma_quarantine_reason := None\<rparr>) d = Inr (Some m0, d')" "m = m0"
    using assms by (auto simp: mark_verified_def tx_bind_eq tx_raise_eq tx_return_eq split: option.splits)
  from u(1) show thesis
  proof (cases rule: update_pending_effect)
    case (1 p)
    then show thesis using u(2) one_or_none_Some [OF 1(1)] by (intro that [of p]) auto
  qed
qed

lemma inv_replace_row:
  assumes inv: "media_inv lib f d" and p: "p \<in> set (t_media_assets d)"
    and m: "ma_id m = ma_id p" "media_row_ok lib f m"
    and d': "t_media_assets d' = update_where (\<lambda>x. ma_id x = ma_id p) (\<lambda>_. m) (t_media_assets d)"
  shows "media_inv lib f d'"
proof -
  have "map ma_id (t_media_assets d') = map ma_id (t_media_assets d)"
    unfolding d' by (rule map_update_where) (simp add: m)
  moreover have "\<forall>x \<in> set (t_media_assets d'). media_row_ok lib f x"
    unfolding d' set_update_where using inv m(2) by (auto simp: media_inv_def list_all_iff)
  ultimately show ?thesis using inv by (simp add: media_inv_def list_all_iff)
qed

lemma complete_commits_inv:
  assumes ops: "ms_storage svc = local_ops s" and lib: "ms_images svc = lib" and inv: "media_inv lib f d"
    and run: "complete_upload svc p i now f d = (Inr (m, d'), f')"
  shows "media_inv lib f' d' \<and> m \<in> set (t_media_assets d') \<and> ma_status m = MediaVerified
    \<and> ma_id m = i \<and> ma_owner_user_id m = sb_user_id p"
  using run
proof (cases rule: complete_upload_cases)
  case again
  then show ?thesis using inv by simp
next
  case (verified asset)
  note asset = verified(4-7)
  from verified(8) show ?thesis
  proof (cases rule: complete_pending_cases)
    case (1 source v key f1)
    note facts = verified_image_facts [OF 1(3)]
    have "build_storage_key (ma_owner_user_id asset) (ma_id asset) = Inr (ma_storage_key asset)"
      using media_inv_row [OF inv asset(1)] asset(2) by (simp add: media_row_ok_def)
    then have other: "ma_storage_key asset \<noteq> key" using 1(4) storage_keys_differ by blast
    have f1: "f1 = f(key \<mapsto> vi_content v)"
      using 1(5) by (simp add: ops local_ops_def local_replace_Inr)
    have stored: "f' key = Some (vi_content v)"
      using 1(7) other by (auto simp: f1 ops local_ops_def local_delete_Inr split: sum.splits)
    have frame: "f' k = f k" if "k \<notin> keys_of asset" for k
      using io_files_complete [OF ops] verified(8) that by (rule io_filesD)
    have inv': "media_inv lib f' d"
      by (rule inv_files [OF inv]) (rule frame, rule pending_keys_apart [OF inv asset(1,2)])
    from 1(6) show ?thesis
    proof (cases rule: mark_verified_effect)
      case (1 q)
      have ok: "media_row_ok lib f' m"
        using 1 facts stored \<open>build_verified_storage_key _ _ = Inr key\<close> lib by (simp add: media_row_ok_def)
      have "media_inv lib f' d'" by (rule inv_replace_row [OF inv' 1(1) _ ok 1(15)]) (simp add: 1)
      moreover have "m \<in> set (t_media_assets d')"
        unfolding 1(15) set_update_where using 1(1) by (intro image_eqI [of _ _ q]) auto
      ultimately show ?thesis using 1 asset by simp
    qed
  qed
qed

lemma complete_fails_inv:
  assumes ops: "ms_storage svc = local_ops s" and inv: "media_inv lib f d"
    and run: "complete_upload svc p i now f d = (Inl e, f')"
  shows "media_inv lib f' d"
proof -
  obtain r f1 where first: "io_tx (tx_bind (tx_lift (require_verified_actor p)) (\<lambda>_. find_owned i p)) f d = (r, f1)"
    by fastforce
  then have f1: "f1 = f" by (simp add: io_tx_def)
  show ?thesis
  proof (cases r)
    case (Inl e')
    then show ?thesis using run first inv by (simp add: complete_upload_def io_bind_def f1)
  next
    case (Inr x)
    then obtain asset where r: "r = Inr (asset, d)" and asset: "asset \<in> set (t_media_assets d)"
      using first by (cases x) (auto simp: io_tx_def tx_bind_eq find_owned_Inr tx_lift_eq dest: one_or_none_Some)
    show ?thesis
    proof (cases "ma_status asset = MediaPending")
      case True
      then have "complete_pending svc asset now f d = (Inl e, f')"
        using run first r by (simp add: complete_upload_def io_bind_def f1)
      then have "f' k = f k" if "k \<notin> keys_of asset" for k
        using io_filesD [OF io_files_complete [OF ops]] that by blast
      then show ?thesis by (intro inv_files [OF inv]) (use pending_keys_apart [OF inv asset True] in blast)
    next
      case False
      then have "f' = f" using run first r by (auto simp: complete_upload_def io_bind_def f1 io_tx_def split: if_splits)
      then show ?thesis using inv by simp
    qed
  qed
qed


lemma create_commits_inv:
  assumes inv: "media_inv lib f d" and run: "create_upload svc p intent now d = Inr (r, d')"
  shows "media_inv lib f d'"
proof -
  obtain i key m d1 where key: "build_storage_key (sb_user_id p) i = Inr key"
    and c: "create_pending i (sb_user_id p) key intent d1 = Inr (m, d')" and d1: "t_media_assets d1 = t_media_assets d"
    using run by (auto simp: create_upload_def tx_bind_eq tx_lift_eq tx_return_eq fresh_uuid_eq)
  have m: "ma_id m = i" "ma_owner_user_id m = sb_user_id p" "ma_storage_key m = key" "ma_status m = MediaPending"
    "t_media_assets d' = t_media_assets d @ [m]" "\<forall>x \<in> set (t_media_assets d). ma_id x \<noteq> i"
    using c d1 by (auto simp: create_pending_def tx_bind_eq clock_timestamp_eq tx_query_eq Let_def tx_modify_eq
        tx_return_eq check_constraints_eq first_violation_append media_keys_def row_exists_iff split: if_splits)
  have "media_row_ok lib f m" using m(1-4) key by (simp add: media_row_ok_def)
  then show ?thesis using inv m by (auto simp: media_inv_def list_all_iff)
qed

definition rows_deleted :: "media_row list \<Rightarrow> media_row list \<Rightarrow> bool" where
  "rows_deleted rows rows' \<longleftrightarrow> map ma_id rows' = map ma_id rows
     \<and> (\<forall>x \<in> set rows'. x \<in> set rows \<or> ma_status x = MediaDeleted)"

lemma mark_deleted_rows: "mark_deleted i d = Inr (u, d') \<Longrightarrow> rows_deleted (t_media_assets d) (t_media_assets d')"
  by (auto simp: mark_deleted_def tx_bind_eq clock_timestamp_eq tx_modify_eq rows_deleted_def set_update_where
      intro: map_update_where)

lemma expire_each_rows:
  "expire_each svc ms f d = (Inr (n, d'), f') \<Longrightarrow> rows_deleted (t_media_assets d) (t_media_assets d')"
proof (induction ms arbitrary: f d n)
  case Nil
  then show ?case by (simp add: io_tx_Inr tx_return_eq rows_deleted_def)
next
  case (Cons m ms)
  then obtain r d1 f1 where del: "io_delete (ms_storage svc) (ma_storage_key m) f d = (Inr (r, d1), f1)"
    and rest: "(if r = Some True then expire_each svc ms
       else io_bind (io_tx (mark_deleted (ma_id m))) (\<lambda>_. io_bind (expire_each svc ms)
         (\<lambda>n. io_tx (tx_return (n + 1))))) f1 d1 = (Inr (n, d'), f')"
    by (auto simp: io_bind_Inr)
  have d1: "d1 = d" using io_change_state [OF del [unfolded io_delete_def]] by simp
  show ?case
  proof (cases "r = Some True")
    case True
    then show ?thesis using rest Cons.IH d1 by simp
  next
    case False
    then obtain d2 n2 where "mark_deleted (ma_id m) d = Inr ((), d2)" "expire_each svc ms f1 d2 = (Inr (n2, d'), f')"
      using rest d1 by (auto simp: io_bind_Inr io_tx_Inr tx_return_eq)
    then have "rows_deleted (t_media_assets d) (t_media_assets d2)" "rows_deleted (t_media_assets d2) (t_media_assets d')"
      using mark_deleted_rows Cons.IH by blast+
    then show ?thesis unfolding rows_deleted_def by metis
  qed
qed

lemma expire_each_files:
  "ms_storage svc = local_ops s \<Longrightarrow> ma_storage_key ` set ms \<subseteq> K \<Longrightarrow> io_files K (expire_each svc ms)"
  by (induction ms) (auto intro!: io_frame)

lemma inv_rows_deleted:
  assumes "media_inv lib f d" "rows_deleted (t_media_assets d) (t_media_assets d')"
  shows "media_inv lib f d'"
proof -
  have "media_row_ok lib f x" if "x \<in> set (t_media_assets d')" for x
  proof (cases "ma_status x = MediaDeleted")
    case False
    then show ?thesis using assms that by (auto simp: rows_deleted_def media_inv_def list_all_iff)
  qed (simp add: media_row_ok_def)
  then show ?thesis using assms by (simp add: media_inv_def rows_deleted_def list_all_iff)
qed

lemma expire_inv:
  assumes ops: "ms_storage svc = local_ops s" and inv: "media_inv lib f d"
    and run: "expire_abandoned svc now lifetime limit f d = (r, f')"
  shows "media_inv lib f' d \<and> (\<forall>n d'. r = Inr (n, d') \<longrightarrow> media_inv lib f' d')"
proof (cases "0 < lifetime \<and> 1 \<le> limit \<and> limit \<le> 1000")
  case False
  then have "f' = f \<and> (\<exists>e. r = Inl e)"
    using run by (auto simp: expire_abandoned_def io_bind_def io_tx_def tx_bind_def tx_guard_def tx_return_def tx_raise_def
        split: if_splits)
  then show ?thesis using inv by auto
next
  case True
  let ?ms = "take (nat limit) (select_by (\<lambda>m. (ma_created_at m, ma_id m))
       (\<lambda>m. ma_status m = MediaPending \<and> ma_created_at m < now - lifetime) (t_media_assets d))"
  have each: "expire_each svc ?ms f d = (r, f')"
    using run True by (simp add: expire_abandoned_def io_bind_def io_tx_def tx_bind_def tx_guard_def tx_return_def
        claim_abandoned_def tx_query_def)
  have ms: "m \<in> set (t_media_assets d) \<and> ma_status m = MediaPending" if "m \<in> set ?ms" for m
    using in_set_takeD [OF that] by simp
  have "f' k = f k" if "k \<notin> ma_storage_key ` set ?ms" for k
    using io_filesD [OF expire_each_files [OF ops order.refl] each that] .
  moreover have "ma_storage_key v \<notin> ma_storage_key ` set ?ms"
    if "v \<in> set (t_media_assets d)" "ma_status v = MediaVerified" for v
    using pending_keys_apart [OF inv _ _ that] ms unfolding keys_of_def by blast
  ultimately have inv': "media_inv lib f' d" by (intro inv_files [OF inv]) blast
  moreover have "media_inv lib f' d'" if "r = Inr (n, d')" for n d'
    by (rule inv_rows_deleted [OF inv' expire_each_rows]) (use each that in simp)
  ultimately show ?thesis by blast
qed

subsection \<open>Reachable states\<close>

text \<open>
  One step of the system: a request to create or to complete an upload, a client that sends bytes to
  the key it was granted, which is that of an upload, and a run of the cleanup.
\<close>

inductive media_step :: "files media_service \<Rightarrow> files \<times> db \<Rightarrow> files \<times> db \<Rightarrow> bool" for svc where
  create: "io_request (io_tx (create_upload svc (p :: principal) intent now)) f d = (r, f', d') \<Longrightarrow> media_step svc (f, d) (f', d')"
| complete: "io_request (complete_upload svc (p :: principal) i now) f d = (r, f', d') \<Longrightarrow> media_step svc (f, d) (f', d')"
| expire: "io_request (expire_abandoned svc now lifetime limit) f d = (r, f', d') \<Longrightarrow> media_step svc (f, d) (f', d')"
| upload: "build_storage_key owner asset = Inr k \<Longrightarrow> media_step svc (f, d) (f(k \<mapsto> content), d)"

inductive media_reachable :: "files media_service \<Rightarrow> db \<Rightarrow> files \<times> db \<Rightarrow> bool" for svc d0 where
  initial: "media_reachable svc d0 (Map.empty, d0)"
| step: "media_reachable svc d0 x \<Longrightarrow> media_step svc x y \<Longrightarrow> media_reachable svc d0 y"

lemma request_inv:
  assumes "io_request m f d = (r, f', d')"
    and "\<And>e g. m f d = (Inl e, g) \<Longrightarrow> media_inv lib g d" "\<And>x e g. m f d = (Inr (x, e), g) \<Longrightarrow> media_inv lib g e"
  shows "media_inv lib f' d'"
  using assms by (auto simp: io_request_def split: prod.splits sum.splits)

lemma media_step_inv:
  assumes "ms_storage svc = local_ops s" "ms_images svc = lib"
  shows "media_step svc x y \<Longrightarrow> media_inv lib (fst x) (snd x) \<Longrightarrow> media_inv lib (fst y) (snd y)"
proof (induction rule: media_step.induct)
  case (create p intent now f d r f' d')
  then have "media_inv lib f' d'"
    by (intro request_inv [OF create(1)]) (auto simp: io_tx_def dest: create_commits_inv)
  then show ?case by simp
next
  case (complete p i now f d r f' d')
  from complete have inv: "media_inv lib f d" by simp
  have "media_inv lib f' d'"
    by (rule request_inv [OF complete(1)])
      (rule complete_fails_inv [OF assms(1) inv], assumption,
        rule complete_commits_inv [OF assms inv, THEN conjunct1], assumption)
  then show ?case by simp
next
  case (expire now lifetime limit f d r f' d')
  from expire have inv: "media_inv lib f d" by simp
  note expired = expire_inv [OF assms(1) inv]
  have "media_inv lib f' d'"
    by (rule request_inv [OF expire(1)]) (use expired in blast)+
  then show ?case by simp
next
  case (upload owner asset k f d content)
  then have inv: "media_inv lib f d" by simp
  have "media_inv lib (f(k \<mapsto> content)) d"
  proof (rule inv_files [OF inv])
    fix v assume "v \<in> set (t_media_assets d)" "ma_status v = MediaVerified"
    then have "build_verified_storage_key (ma_owner_user_id v) (ma_id v) = Inr (ma_storage_key v)"
      using media_inv_row [OF inv] by (simp add: media_row_ok_def)
    then have "ma_storage_key v \<noteq> k" using storage_keys_differ [OF upload(1)] by blast
    then show "(f(k \<mapsto> content)) (ma_storage_key v) = f (ma_storage_key v)" by simp
  qed
  then show ?case by (simp only: fst_conv snd_conv)
qed

lemma media_reachable_inv:
  assumes "ms_storage svc = local_ops s" "ms_images svc = lib" "t_media_assets d0 = []"
  shows "media_reachable svc d0 x \<Longrightarrow> media_inv lib (fst x) (snd x)"
proof (induction rule: media_reachable.induct)
  case initial
  then show ?case using assms(3) by (simp add: media_inv_def)
next
  case (step x y)
  then show ?case using media_step_inv [OF assms(1,2)] by blast
qed

subsection \<open>The properties\<close>

text \<open>C7. Whatever requests, uploads and cleanups happen, and however they fail, a verified asset has
  its canonical image in the storage: under the canonical key of its owner and identifier, with the
  recorded size and digest.\<close>

theorem verified_media_are_stored:
  assumes "ms_storage svc = local_ops s" "t_media_assets d0 = []" "media_reachable svc d0 (f, d)"
    and "m \<in> set (t_media_assets d)" "ma_status m = MediaVerified"
  shows "\<exists>content. build_verified_storage_key (ma_owner_user_id m) (ma_id m) = Inr (ma_storage_key m)
    \<and> f (ma_storage_key m) = Some content \<and> len content = ma_byte_size m
    \<and> ma_sha256 m = Some (il_sha256 (ms_images svc) content) \<and> ma_content_type m = ''image/webp''"
proof -
  have "media_inv (ms_images svc) f d"
    using media_reachable_inv [OF assms(1) refl assms(2,3)] by simp
  then show ?thesis using media_inv_row assms(4,5) by (fastforce simp: media_row_ok_def)
qed

definition example_images :: image_library where
  "example_images = \<lparr>il_open = (\<lambda>c. if length c < 20 then Inl BrokenImage
       else Inr \<lparr>ii_format = Some ''PNG'', ii_width = 1, ii_height = 1, ii_frames = 1\<rparr>),
     il_verify = (\<lambda>c. Inr ()), il_decode = (\<lambda>c. Inr (1, 1)), il_webp = (\<lambda>c. Inr ''webp''),
     il_sha256 = (\<lambda>c. replicate 32 CHR ''h'')\<rparr>"

definition example_media_service :: "files media_service" where
  "example_media_service = \<lparr>ms_storage = local_ops \<lparr>ls_api_public_url = [], ls_hmac = (\<lambda>m. ''sig'')\<rparr>,
     ms_images = example_images, ms_upload_grant_seconds = 600, ms_max_image_pixels = 100\<rparr>"

definition example_png :: string where
  "example_png = png_signature @ [CHR 0x00, CHR 0x00, CHR 0x00, CHR 0x00] @ ''IEND'' @ ''crc!''"

definition example_asset :: media_row where
  "example_asset = \<lparr>ma_id = example_id 100, ma_owner_user_id = example_id 1, ma_status = MediaPending,
     ma_storage_key = ''media/00000000-0000-7000-8000-000000000001/00000000-0000-7000-8000-000000000064/source'',
     ma_original_filename = ''a.png'', ma_content_type = ''image/png'', ma_byte_size = 20,
     ma_width = None, ma_height = None, ma_sha256 = None, ma_verified_at = None,
     ma_quarantine_reason = None, ma_created_at = 0, ma_updated_at = 1\<rparr>"

lemma complete_run:
  assumes find: "is_uuid7 i" "sb_status p = UserActive" "sb_email_verified p"
      "one_or_none (\<lambda>m. ma_id m = i \<and> ma_owner_user_id m = sb_user_id p) (t_media_assets d) = Some asset"
      "ma_status asset = MediaPending"
    and source: "so_read (ms_storage svc) f (ma_storage_key asset) (max_upload_bytes + 1) = Inr source"
      "len source = ma_byte_size asset"
      "verify_and_canonicalize (ms_images svc) source (ma_content_type asset) (ms_max_image_pixels svc) = Inr v"
    and key: "build_verified_storage_key (ma_owner_user_id asset) (ma_id asset) = Inr key"
      "so_replace (ms_storage svc) f key (vi_content v) (vi_content_type v) = Inr f1"
    and mark: "mark_verified asset key v now d = Inr (m, d')"
    and del: "so_delete (ms_storage svc) f1 (ma_storage_key asset) = Inr f'"
  shows "complete_upload svc p i now f d = (Inr (m, d'), f')"
  using assms
  by (simp add: complete_upload_def complete_pending_def io_bind_def io_tx_def io_read_def io_replace_def io_delete_def
      io_change_def tx_bind_def tx_lift_def require_verified_actor_def find_owned_def get_owned_def tx_guard_def
      tx_query_def tx_return_def)

lemma example_container: "validate_complete_container example_png ''PNG'' = Inr ()"
proof -
  have "png_walk example_png 8 = Some (20, True)"
    by (subst png_walk.simps) (simp add: example_png_def png_signature_def slice_def be32_def)
  then show ?thesis
    by (simp add: validate_complete_container_def png_complete_def example_png_def png_signature_def)
qed

definition example_media_db :: db where
  "example_media_db = example_db\<lparr>entropy_pos := 1, clock_pos := 2, t_media_assets := [example_asset]\<rparr>"

lemma example_find:
  "is_uuid7 (example_id 100)" "sb_status (principal_for (example_user 1) (example_id 70)) = UserActive"
  "sb_email_verified (principal_for (example_user 1) (example_id 70))"
  "one_or_none (\<lambda>m. ma_id m = example_id 100 \<and> ma_owner_user_id m = sb_user_id (principal_for (example_user 1)
      (example_id 70))) (t_media_assets example_media_db) = Some example_asset"
  "ma_status example_asset = MediaPending"
  by code_simp+

lemma example_complete:
  "\<exists>m d' f'. complete_upload example_media_service (principal_for (example_user 1) (example_id 70)) (example_id 100) 30
    [ma_storage_key example_asset \<mapsto> example_png] example_media_db
     = (Inr (m, d'), f') \<and> m \<in> set (t_media_assets d') \<and> ma_status m = MediaVerified"
proof -
  let ?d = example_media_db
    and ?v = "\<lparr>vi_content = ''webp'', vi_content_type = ''image/webp'', vi_byte_size = 4, vi_width = 1, vi_height = 1,
      vi_sha256 = replicate 32 CHR ''h''\<rparr>"
  note find = example_find
  have keys: "storage_key_ok (ma_storage_key example_asset)" by code_simp
  have key: "build_verified_storage_key (ma_owner_user_id example_asset) (ma_id example_asset)
    = Inr ''media/00000000-0000-7000-8000-000000000001/00000000-0000-7000-8000-000000000064/canonical.webp''"
    (is "_ = Inr ?k") by code_simp
  have key_ok: "storage_key_ok ?k" by code_simp
  have v: "verify_and_canonicalize (ms_images example_media_service) example_png (ma_content_type example_asset)
      (ms_max_image_pixels example_media_service) = Inr ?v"
    using example_container by (simp add: verify_and_canonicalize_def example_media_service_def example_images_def
        example_asset_def media_bind_def caught_def media_guard_def format_content_type_def validate_dimensions_def
        max_image_dimension_def max_upload_bytes_def example_png_def png_signature_def)
  have "case mark_verified example_asset ?k ?v 30 ?d of Inl _ \<Rightarrow> False
    | Inr (m, d') \<Rightarrow> ma_status m = MediaVerified \<and> t_media_assets d' = [m]" by code_simp
  then obtain m d' where m: "mark_verified example_asset ?k ?v 30 ?d = Inr (m, d')"
    "ma_status m = MediaVerified" "t_media_assets d' = [m]"
    by (auto split: sum.splits prod.splits)
  let ?f = "[ma_storage_key example_asset \<mapsto> example_png]"
  show ?thesis
    using complete_run [OF find, of example_media_service ?f example_png ?v ?k "?f(?k \<mapsto> ''webp'')" 30 m d'
        "(?f(?k \<mapsto> ''webp''))(ma_storage_key example_asset := None)"] keys key_ok key v m
    by (simp add: example_media_service_def local_ops_def local_read_Inr local_replace_Inr local_delete_Inr
        max_upload_bytes_def example_png_def png_signature_def example_asset_def)
qed


lemma create_pending_run:
  assumes "clock_timestamp d = Inr (created, d1)" "clock_timestamp d1 = Inr (updated, d2)"
    and "m = \<lparr>ma_id = i, ma_owner_user_id = u, ma_status = MediaPending,
       ma_storage_key = k, ma_original_filename = ui_original_filename intent,
       ma_content_type = ui_content_type intent, ma_byte_size = ui_byte_size intent,
       ma_width = None, ma_height = None, ma_sha256 = None, ma_verified_at = None,
       ma_quarantine_reason = None, ma_created_at = created, ma_updated_at = updated\<rparr>"
    and "first_violation (media_checks m @ media_keys d2 (t_media_assets d2) m) = None"
  shows "create_pending i u k intent d = Inr (m, d2\<lparr>t_media_assets := t_media_assets d2 @ [m]\<rparr>)"
  using assms by (simp add: create_pending_def tx_bind_eq tx_query_eq Let_def tx_modify_eq tx_return_eq
      check_constraints_eq)

lemma example_granted:
  obtains g where "create_upload example_media_service (principal_for (example_user 1) (example_id 70))
      \<lparr>ui_original_filename = ''a.png'', ui_content_type = ''image/png'', ui_byte_size = 20\<rparr> 20 example_db
     = Inr ((example_asset, g), example_media_db)"
proof -
  let ?p = "principal_for (example_user 1) (example_id 70)"
    and ?i = "\<lparr>ui_original_filename = ''a.png'', ui_content_type = ''image/png'', ui_byte_size = 20\<rparr>"
  have actor: "require_verified_actor ?p = Inr ()" by code_simp
  have "uuid_at example_db 0 = Some (example_id 100)" "entropy_pos example_db = 0" by code_simp+
  then have fresh: "fresh_uuid example_db = Inr (example_id 100, example_db\<lparr>entropy_pos := 1\<rparr>)"
    by (simp add: fresh_uuid_eq)
  have key: "build_storage_key (sb_user_id ?p) (example_id 100) = Inr (ma_storage_key example_asset)" by code_simp
  have clock: "clock_pos example_db = 0" "clock_at example_db 0 = 0" "clock_at example_db (Suc 0) = 1"
    "t_media_assets example_db = []" by code_simp+
  have c1: "clock_timestamp (example_db\<lparr>entropy_pos := 1\<rparr>) = Inr (0, example_db\<lparr>entropy_pos := 1, clock_pos := 1\<rparr>)"
    and c2: "clock_timestamp (example_db\<lparr>entropy_pos := 1, clock_pos := 1\<rparr>)
      = Inr (1, example_db\<lparr>entropy_pos := 1, clock_pos := 2\<rparr>)"
    using clock by (simp_all add: clock_timestamp_def)
  have "first_violation (media_checks example_asset @ media_keys (example_db\<lparr>entropy_pos := 1, clock_pos := 2\<rparr>)
      (t_media_assets (example_db\<lparr>entropy_pos := 1, clock_pos := 2\<rparr>)) example_asset) = None" by code_simp
  then have pending: "create_pending (example_id 100) (sb_user_id ?p) (ma_storage_key example_asset) ?i
      (example_db\<lparr>entropy_pos := 1\<rparr>) = Inr (example_asset, example_media_db)"
    using create_pending_run [OF c1 c2, of example_asset "example_id 100" "sb_user_id ?p" "ma_storage_key example_asset" ?i]
      clock(4) by (simp add: example_media_db_def example_asset_def principal_for_def example_user_def)
  have "storage_key_ok (ma_storage_key example_asset)" by code_simp
  then have "\<exists>g. upload_grant_for example_media_service example_asset 20 = Inr g"
    by (simp add: upload_grant_for_def example_media_service_def local_ops_def local_create_upload_grant_def
        validate_storage_key_run)
  then obtain g where grant: "upload_grant_for example_media_service example_asset 20 = Inr g" by blast
  show thesis
    by (rule that [of g], unfold create_upload_def)
      (simp add: tx_bind_eq tx_lift_eq actor fresh key pending grant tx_return_eq del: One_nat_def)
qed

lemma example_uploaded:
  "media_reachable example_media_service example_db ([ma_storage_key example_asset \<mapsto> content], example_media_db)"
proof -
  let ?p = "principal_for (example_user 1) (example_id 70)"
  obtain g where c: "create_upload example_media_service ?p \<lparr>ui_original_filename = ''a.png'',
      ui_content_type = ''image/png'', ui_byte_size = 20\<rparr> 20 example_db = Inr ((example_asset, g), example_media_db)"
    by (rule example_granted)
  have s1: "media_step example_media_service (Map.empty, example_db) (Map.empty, example_media_db)"
    by (rule media_step.create [where p = ?p and now = 20 and r = "Inr (example_asset, g)"
        and intent = "\<lparr>ui_original_filename = ''a.png'', ui_content_type = ''image/png'', ui_byte_size = 20\<rparr>"])
      (simp add: io_request_def io_tx_def c del: One_nat_def)
  have "build_storage_key (example_id 1) (example_id 100) = Inr (ma_storage_key example_asset)" by code_simp
  then have s2: "media_step example_media_service (Map.empty, example_media_db)
      ([ma_storage_key example_asset \<mapsto> content], example_media_db)"
    by (rule media_step.upload)
  show ?thesis by (rule media_reachable.step [OF media_reachable.step [OF media_reachable.initial s1] s2])
qed

lemma example_service_local:
  "ms_storage example_media_service = local_ops \<lparr>ls_api_public_url = [], ls_hmac = (\<lambda>m. ''sig'')\<rparr>"
  "t_media_assets example_db = []"
  by (simp_all add: example_media_service_def example_db_def empty_db_def)

theorem verified_media_are_stored_witness:
  "\<exists>f d m content. media_reachable example_media_service example_db (f, d) \<and> m \<in> set (t_media_assets d)
     \<and> f (ma_storage_key m) = Some content \<and> ma_byte_size m = len content"
proof -
  obtain m d f where m: "complete_upload example_media_service (principal_for (example_user 1) (example_id 70))
      (example_id 100) 30 [ma_storage_key example_asset \<mapsto> example_png] example_media_db = (Inr (m, d), f)"
    "m \<in> set (t_media_assets d)" "ma_status m = MediaVerified"
    using example_complete by blast
  have "media_step example_media_service
      ([ma_storage_key example_asset \<mapsto> example_png], example_media_db) (f, d)"
    by (rule media_step.complete [where p = "principal_for (example_user 1) (example_id 70)"
        and i = "example_id 100" and now = 30 and r = "Inr m"]) (simp add: io_request_def m del: One_nat_def)
  note r = media_reachable.step [OF example_uploaded this]
  from verified_media_are_stored [OF example_service_local r m(2,3)] show ?thesis using r m(2) by metis
qed

text \<open>No upload is ever quarantined. A rejected upload is deleted from the storage, but the row that
  \<open>_quarantine\<close> updates is rolled back with the request: it stays pending.\<close>

theorem uploads_are_never_quarantined:
  assumes "ms_storage svc = local_ops s" "t_media_assets d0 = []" "media_reachable svc d0 (f, d)"
  shows "\<not> row_exists (\<lambda>m. ma_status m = MediaQuarantined) (t_media_assets d)"
proof -
  have "media_inv (ms_images svc) f d"
    using media_reachable_inv [OF assms(1) refl assms(2,3)] by simp
  then show ?thesis by (auto simp: row_exists_iff dest!: media_inv_row simp: media_row_ok_def)
qed

lemma reject_run:
  assumes find: "is_uuid7 i" "sb_status p = UserActive" "sb_email_verified p"
      "one_or_none (\<lambda>m. ma_id m = i \<and> ma_owner_user_id m = sb_user_id p) (t_media_assets d) = Some asset"
      "ma_status asset = MediaPending"
    and source: "so_read (ms_storage svc) f (ma_storage_key asset) (max_upload_bytes + 1) = Inr source"
      "len source \<noteq> ma_byte_size asset"
    and del: "so_delete (ms_storage svc) f (ma_storage_key asset) = Inr f'"
    and mark: "mark_quarantined asset ''invalid_media'' d = Inr (m, d')"
  shows "complete_upload svc p i now f d = (Inl (ApiError ''invalid_media'' ''errors.validation'' 422), f')"
  using assms
  by (simp add: complete_upload_def complete_pending_def reject_media_def quarantine_def io_bind_def io_tx_def
      io_read_def io_delete_def io_change_def tx_bind_def tx_lift_def require_verified_actor_def find_owned_def
      get_owned_def tx_guard_def tx_query_def tx_return_def tx_raise_def)

text \<open>A file of the wrong size: the completion fails, the file is gone and the row is pending.\<close>

theorem uploads_are_never_quarantined_witness:
  "\<exists>f. io_request (complete_upload example_media_service (principal_for (example_user 1) (example_id 70))
         (example_id 100) 30) [ma_storage_key example_asset \<mapsto> ''not an image''] example_media_db
         = (Inl (ApiError ''invalid_media'' ''errors.validation'' 422), f, example_media_db)
     \<and> f (ma_storage_key example_asset) = None \<and> media_reachable example_media_service example_db (f, example_media_db)
     \<and> \<not> row_exists (\<lambda>m. ma_status m = MediaQuarantined) (t_media_assets example_media_db)"
proof -
  let ?p = "principal_for (example_user 1) (example_id 70)"
    and ?f = "[ma_storage_key example_asset \<mapsto> ''not an image'']"
  have "commits (mark_quarantined example_asset ''invalid_media'' example_media_db) (\<lambda>_ _. True)" by code_simp
  then obtain m d' where mark: "mark_quarantined example_asset ''invalid_media'' example_media_db = Inr (m, d')"
    by (rule commitsE)
  have "storage_key_ok (ma_storage_key example_asset)" by code_simp
  then have run: "io_request (complete_upload example_media_service ?p (example_id 100) 30) ?f example_media_db
      = (Inl (ApiError ''invalid_media'' ''errors.validation'' 422), ?f(ma_storage_key example_asset := None),
         example_media_db)"
    using reject_run [OF example_find, of example_media_service ?f "''not an image''"
        "?f(ma_storage_key example_asset := None)" m d' 30] mark
    by (simp add: io_request_def example_service_local local_ops_def local_read_Inr local_delete_Inr
        max_upload_bytes_def) (simp add: example_asset_def)
  note r = media_reachable.step [OF example_uploaded media_step.complete [OF run]]
  from uploads_are_never_quarantined [OF example_service_local r] show ?thesis
    using r run by (intro exI [of _ "?f(ma_storage_key example_asset := None)"]) simp
qed

end
