(* ===== verification/Moderation_Laws.thy ===== *)
theory Moderation_Laws
  imports Moderation_Service Outbox_Growth
begin

section \<open>The history of a case, its deadline and its effects\<close>

text \<open>
  The deadline of a standard report; the frame of the two tables of cases, under which every event of a
  case is a move of its workflow that starts where the one before it ended; the private links an action
  cuts; and what keeps an action from being announced twice.
\<close>

subsection \<open>Two business days\<close>

lemma business_deadline_0 [simp]: "business_deadline t 0 = t"
  by (simp add: business_deadline.simps)

lemma business_deadline_Suc:
  "business_deadline t (Suc n) =
     (if weekday (t + day) < 5 then business_deadline (t + day) n else business_deadline (t + day) (Suc n))"
  by (subst business_deadline.simps) (simp add: Let_def)

lemma weekday_days: "weekday (t + int k * day) = (weekday t + int k) mod 7"
proof (induction k)
  case 0
  then show ?case using weekday_range [of t] by (simp add: mod_pos_pos_trivial)
next
  case (Suc k)
  have "t + int (Suc k) * day = t + int k * day + day" by (simp add: algebra_simps)
  then have "weekday (t + int (Suc k) * day) = (weekday (t + int k * day) + 1) mod 7" by (simp only: weekday_next)
  then show ?case unfolding Suc by (simp add: mod_simps add.commute add.left_commute)
qed

text \<open>
  C39. The allowance of a standard report is two business days: whatever the day of the report, its
  deadline lies two to four days later, on a weekday, and exactly two weekdays are in between or on it.
\<close>

theorem standard_reports_get_two_business_days:
  assumes "mo_priority c = PriorityStandard"
  shows "\<exists>k :: nat. 2 \<le> k \<and> k \<le> 4 \<and> acknowledgement_deadline c = mo_created_at c + int k * day
    \<and> weekday (acknowledgement_deadline c) < 5
    \<and> length (filter (\<lambda>j. weekday (mo_created_at c + int j * day) < 5) [1..<Suc k]) = 2"
proof -
  define t where "t = mo_created_at c"
  have d: "acknowledgement_deadline c = business_deadline t (Suc (Suc 0))"
    using assms by (simp add: acknowledgement_deadline_def t_def numeral_2_eq_2)
  have w: "weekday (t + day) = (weekday t + 1) mod 7" "weekday (t + day + day) = (weekday t + 2) mod 7"
    "weekday (t + day + day + day) = (weekday t + 3) mod 7"
    "weekday (t + day + day + day + day) = (weekday t + 4) mod 7"
    unfolding weekday_next by (simp_all add: mod_simps add.commute)
  have u: "[Suc 0..<2] = [1]" "[Suc 0..<3] = [1, 2]" "[Suc 0..<4] = [1, 2, 3]" "[Suc 0..<5] = [1, 2, 3, 4]"
    by (simp_all add: upt_rec)
  note b = business_deadline_Suc [of t] business_deadline_Suc [of "t + day"]
    business_deadline_Suc [of "t + day + day"] business_deadline_Suc [of "t + day + day + day"]
  have two: "business_deadline t (Suc (Suc 0)) = t + day + day"
    if "(weekday t + 1) mod 7 < 5" "(weekday t + 2) mod 7 < 5"
    using that unfolding b w by simp
  have sums: "t + day + day = t + int 2 * day" "t + day + day + day = t + int 3 * day"
    "t + day + day + day + day = t + int 4 * day" by simp_all
  have "weekday t \<in> set [0..6]" using weekday_range [of t] by simp
  then have "weekday t = 0 \<or> weekday t = 1 \<or> weekday t = 2 \<or> weekday t = 6 \<or> weekday t = 3 \<or> weekday t = 4
      \<or> weekday t = 5" by (auto simp: upto_rec1)
  then have "\<exists>k \<in> {2, 3, 4 :: nat}. business_deadline t (Suc (Suc 0)) = t + int k * day
      \<and> (weekday t + int k) mod 7 < 5 \<and> length (filter (\<lambda>j. (weekday t + int j) mod 7 < 5) [1..<Suc k]) = 2"
  proof (elim disjE)
    assume x: "weekday t = 3"
    have "business_deadline t (Suc (Suc 0)) = t + day + day + day + day"
      unfolding b w x by simp
    then show ?thesis unfolding sums by (intro bexI [of _ 4]) (simp_all add: x u)
  next
    assume x: "weekday t = 4"
    have "business_deadline t (Suc (Suc 0)) = t + day + day + day + day"
      unfolding b w x by simp
    then show ?thesis unfolding sums by (intro bexI [of _ 4]) (simp_all add: x u)
  next
    assume x: "weekday t = 5"
    have "business_deadline t (Suc (Suc 0)) = t + day + day + day"
      unfolding b w x by simp
    then show ?thesis unfolding sums by (intro bexI [of _ 3]) (simp_all add: x u)
  qed (use two in \<open>intro bexI [of _ 2], simp_all add: u sums\<close>)
  then have "\<exists>k \<in> {2, 3, 4 :: nat}. business_deadline t (Suc (Suc 0)) = t + int k * day
      \<and> weekday (t + int k * day) < 5 \<and> length (filter (\<lambda>j. weekday (t + int j * day) < 5) [1..<Suc k]) = 2"
    unfolding weekday_days .
  then obtain k where "k \<in> {2, 3, 4 :: nat}" "business_deadline t (Suc (Suc 0)) = t + int k * day"
    "weekday (t + int k * day) < 5" "length (filter (\<lambda>j. weekday (t + int j * day) < 5) [1..<Suc k]) = 2"
    by blast
  then show ?thesis unfolding d t_def [symmetric] by (intro exI [of _ k]) auto
qed

subsection \<open>What the statements write\<close>

definition case_tables :: "db \<Rightarrow> db \<Rightarrow> bool" where
  "case_tables d d' \<longleftrightarrow> t_moderation_cases d' = t_moderation_cases d
     \<and> t_moderation_case_events d' = t_moderation_case_events d"

interpretation cases: frame_relation case_tables
  by standard (simp_all add: case_tables_def)

named_theorems case_keeps "statements that leave the cases alone"

lemma fresh_uuid_cases [case_keeps]: "tx_keeps case_tables fresh_uuid"
  by (rule tx_keepsI) (auto simp: tx_simps case_tables_def)

lemma clock_cases [case_keeps]: "tx_keeps case_tables clock_timestamp"
  by (rule tx_keepsI) (auto simp: tx_simps case_tables_def)

lemma check_cases [case_keeps]: "tx_keeps case_tables (check_constraints cs)"
  by (rule tx_keepsI) (auto simp: tx_simps case_tables_def)

lemma insert_outbox_cases [case_keeps]: "tx_keeps case_tables (insert_outbox row)"
  by (rule tx_keepsI) (auto dest!: insert_outbox_effect simp: case_tables_def)

lemma enqueue_cases [case_keeps]: "tx_keeps case_tables (enqueue a i t p k av)"
  unfolding enqueue_def insert_outbox_or_ignore_def by (intro cases.rules case_keeps)

lemma audit_cases [case_keeps]: "tx_keeps case_tables (audit_record e)"
  by (rule tx_keepsI) (auto dest!: audit_record_effect simp: case_tables_def)

lemma update_club_row_cases [case_keeps]: "tx_keeps case_tables (update_club_row e P f)"
  unfolding update_club_row_def Let_def by (intro cases.rules case_keeps cases.modify) (simp add: case_tables_def)

lemma update_event_row_cases [case_keeps]: "tx_keeps case_tables (update_event_row P f)"
  unfolding update_event_row_def Let_def by (intro cases.rules case_keeps cases.modify) (simp add: case_tables_def)

lemma update_user_row_cases [case_keeps]: "tx_keeps case_tables (update_user_row P f)"
  unfolding update_user_row_def by (intro cases.rules case_keeps cases.modify) (simp add: case_tables_def)

lemma revoke_invites_cases [case_keeps]: "tx_keeps case_tables (revoke_invites P now)"
  unfolding revoke_invites_def by (intro cases.modify) (simp add: case_tables_def)

lemma apply_target_action_cases [case_keeps]: "tx_keeps case_tables (apply_target_action t a r now)"
  unfolding apply_target_action_def suspend_user_def restore_user_def suspend_club_def unpublish_club_def
    take_club_down_def restore_club_def suspend_event_def restore_event_def
  by (cases "mt_type t"; cases a) (simp_all, (intro cases.rules case_keeps)+)

lemma insert_case_event_effect:
  assumes "insert_case_event i actor a f t reason m ts d = Inr (x, d')"
  obtains e where "t_moderation_cases d' = t_moderation_cases d"
    "t_moderation_case_events d' = t_moderation_case_events d @ [e]"
    "mh_case_id e = i" "mh_from_status e = f" "mh_to_status e = t" "mh_actor_user_id e = actor" "mh_action e = a"
    "\<exists>c \<in> set (t_moderation_cases d). mc_id c = i"
proof -
  have "\<exists>e. t_moderation_cases d' = t_moderation_cases d
    \<and> t_moderation_case_events d' = t_moderation_case_events d @ [e]
    \<and> mh_case_id e = i \<and> mh_from_status e = f \<and> mh_to_status e = t \<and> mh_actor_user_id e = actor \<and> mh_action e = a
    \<and> (\<exists>c \<in> set (t_moderation_cases d). mc_id c = i)"
    using assms
    by (cases ts) (auto simp: insert_case_event_def tx_simps Let_def case_event_constraints_def row_exists_iff
        split: if_splits)
  then show thesis using that by blast
qed

lemma update_case_effect:
  assumes "update_case i s f d = Inr (True, d')"
  obtains r now where "one_or_none (\<lambda>c. mc_id c = i \<and> mc_status c = s) (t_moderation_cases d) = Some r"
    "t_moderation_cases d' = update_where (\<lambda>x. mc_id x = i) (\<lambda>_. (f r)\<lparr>mc_updated_at := now\<rparr>) (t_moderation_cases d)"
    "t_moderation_case_events d' = t_moderation_case_events d"
proof -
  obtain r where r: "one_or_none (\<lambda>c. mc_id c = i \<and> mc_status c = s) (t_moderation_cases d) = Some r"
    using assms by (cases "one_or_none (\<lambda>c. mc_id c = i \<and> mc_status c = s) (t_moderation_cases d)")
      (simp_all add: update_case_def tx_simps)
  show thesis using assms that [OF r] by (auto simp: update_case_def tx_simps Let_def r)
qed

subsection \<open>The state machine of a case\<close>

inductive moves :: "moderation_status option \<Rightarrow> moderation_status \<Rightarrow> bool" where
  opened: "moves None CaseOpen"
| acknowledged: "moves (Some CaseOpen) CaseInvestigating"
| dismissed: "s \<in> {CaseOpen, CaseInvestigating} \<Longrightarrow> moves (Some s) CaseDismissed"
| actioned: "s \<in> {CaseOpen, CaseInvestigating} \<Longrightarrow> moves (Some s) CaseActioned"
| restored: "moves (Some CaseActioned) CaseActioned"

fun leads :: "moderation_status option \<Rightarrow> moderation_event_row list \<Rightarrow> moderation_status option \<Rightarrow> bool" where
  "leads s [] t \<longleftrightarrow> s = t"
| "leads s (e # es) t \<longleftrightarrow> mh_from_status e = s \<and> moves s (mh_to_status e) \<and> leads (Some (mh_to_status e)) es t"

definition history :: "uuid \<Rightarrow> db \<Rightarrow> moderation_event_row list" where
  "history i d = filter (\<lambda>e. mh_case_id e = i) (t_moderation_case_events d)"

definition history_ok :: "db \<Rightarrow> bool" where
  "history_ok d \<longleftrightarrow> distinct (map mc_id (t_moderation_cases d))
     \<and> (\<forall>e \<in> set (t_moderation_case_events d). \<exists>c \<in> set (t_moderation_cases d). mc_id c = mh_case_id e)
     \<and> (\<forall>c \<in> set (t_moderation_cases d). leads None (history (mc_id c) d) (Some (mc_status c)))"

lemma leads_append: "leads s (es @ [e]) t \<longleftrightarrow>
    (\<exists>u. leads s es u \<and> mh_from_status e = u \<and> moves u (mh_to_status e) \<and> t = Some (mh_to_status e))"
  by (induction es arbitrary: s) auto

lemma history_append:
  "t_moderation_case_events d' = t_moderation_case_events d @ [e] \<Longrightarrow>
     history i d' = history i d @ (if mh_case_id e = i then [e] else [])"
  by (simp add: history_def)

lemma history_moved:
  assumes ok: "history_ok d" and r: "r \<in> set (t_moderation_cases d)"
    and cs: "t_moderation_cases d' = update_where (\<lambda>x. mc_id x = mc_id r) (\<lambda>_. r') (t_moderation_cases d)"
    and es: "t_moderation_case_events d' = t_moderation_case_events d @ [e]"
    and e: "mh_case_id e = mc_id r" "mh_from_status e = Some (mc_status r)" "mh_to_status e = mc_status r'"
    and r': "mc_id r' = mc_id r" "moves (Some (mc_status r)) (mc_status r')"
  shows "history_ok d'"
proof -
  have ids: "map mc_id (t_moderation_cases d') = map mc_id (t_moderation_cases d)"
    unfolding cs by (rule map_update_where) (simp add: r')
  have "leads None (history (mc_id c) d') (Some (mc_status c))" if c: "c \<in> set (t_moderation_cases d')" for c
  proof -
    obtain x where x: "x \<in> set (t_moderation_cases d)" "c = (if mc_id x = mc_id r then r' else x)"
      using c unfolding cs by (rule in_update_where)
    have "leads None (history (mc_id x) d) (Some (mc_status x))" using ok x(1) by (simp add: history_ok_def)
    moreover have "x = r" if "mc_id x = mc_id r"
      using ok x(1) r that unfolding history_ok_def by (blast dest: distinct_key_eq)
    ultimately show ?thesis using x(2) e r' by (auto simp: history_append [OF es] leads_append)
  qed
  moreover have "\<exists>c \<in> set (t_moderation_cases d'). mc_id c = i"
    if "\<exists>c \<in> set (t_moderation_cases d). mc_id c = i" for i
    using that ids by (metis (no_types, lifting) imageE imageI list.set_map)
  ultimately show ?thesis using ok r e(1) unfolding history_ok_def ids es by auto
qed

lemma history_same: "case_tables d d' \<Longrightarrow> history_ok d' = history_ok d"
  by (simp add: case_tables_def history_ok_def history_def)

subsection \<open>The operations\<close>

named_theorems case_reads "steps that read, taken off a committed run"

lemma case_tables_audited [simp]:
  "case_tables d (d\<lparr>t_audit_events := a, entropy_pos := n, clock_pos := k\<rparr>)"
  by (simp add: case_tables_def)

lemma case_guard_step [case_reads]: "tx_bind (tx_guard b e) f d = Inr r \<longleftrightarrow> b \<and> f () d = Inr r"
  by (auto simp: tx_bind_eq tx_guard_eq)

lemma case_lift_step [case_reads]: "tx_bind (tx_lift v) f d = Inr r \<longleftrightarrow> (\<exists>x. v = Inr x \<and> f x d = Inr r)"
  by (auto simp: tx_bind_eq tx_lift_eq)

lemma require_moderator_step [case_reads]:
  "tx_bind (require_moderator p) f d = Inr r \<longleftrightarrow> sb_status p = UserActive \<and> sb_is_platform_admin p
     \<and> active_mfa d (sb_user_id p) \<and> f () d = Inr r"
  by (auto simp: tx_bind_eq require_moderator_def tx_lift_eq tx_query_eq auth_simps)

lemma require_enabled_step [case_reads]:
  "tx_bind (require_enabled k) f d = Inr r \<longleftrightarrow> (\<exists>x. require_enabled k d = Inr (x, d) \<and> f () d = Inr r)"
  by (auto simp: tx_bind_eq require_enabled_def flag_enabled_def tx_simps Let_def split: option.splits)

lemma find_case_Inr:
  "find_case i d = Inr (c, d') \<longleftrightarrow> d' = d \<and> is_uuid7 i \<and>
     (\<exists>r. one_or_none (\<lambda>x. mc_id x = i) (t_moderation_cases d) = Some r \<and> c = case_of_row r)"
  by (auto simp: find_case_def get_case_def tx_simps split: option.splits)

lemma find_case_step [case_reads]:
  "tx_bind (find_case i) f d = Inr r \<longleftrightarrow> (\<exists>c. find_case i d = Inr (c, d) \<and> f c d = Inr r)"
  by (auto simp: tx_bind_eq find_case_Inr)

lemma target_reads: "target_or_not_found ty i d = Inr (t, d') \<Longrightarrow> d' = d"
  by (auto simp: target_or_not_found_def get_target_def tx_simps split: option.splits)

lemma target_step [case_reads]:
  "tx_bind (target_or_not_found ty i) f d = Inr r \<longleftrightarrow> (\<exists>t. target_or_not_found ty i d = Inr (t, d) \<and> f t d = Inr r)"
  by (auto simp: tx_bind_eq dest: target_reads)

lemma list_case_events_step [case_reads]:
  "tx_bind (list_case_events i) f d = Inr r \<longleftrightarrow> (\<exists>es. list_case_events i d = Inr (es, d) \<and> f es d = Inr r)"
  by (auto simp: tx_bind_eq list_case_events_def tx_query_eq)

lemma moderation_audit_effect:
  assumes "moderation_audit p a tt ti r b f q d = Inr (x, d')"
  shows "\<exists>row. d' = d\<lparr>t_audit_events := t_audit_events d @ [row], entropy_pos := Suc (entropy_pos d),
    clock_pos := Suc (clock_pos d)\<rparr>"
  using assms by (auto simp: moderation_audit_def tx_bind_eq tx_return_eq dest!: audit_record_effect)

lemma act_cases:
  assumes "act p i a reason q now d = Inr ((u, t', es), d')"
  obtains c t n d1 d2 where "sb_status p = UserActive" "sb_is_platform_admin p" "active_mfa d (sb_user_id p)"
    "find_case i d = Inr (c, d)" "target_or_not_found (mo_target_type c) (mo_target_id c) d = Inr (t, d)"
    "List.member (case_capabilities c t) a" "apply_target_action t a n now d = Inr (Some t', d1)"
    "record_case_action c (sb_user_id p) a n (mt_status t) (mt_status t') now d1 = Inr (u, d2)"
    "\<exists>row. d' = d2\<lparr>t_audit_events := t_audit_events d2 @ [row], entropy_pos := Suc (entropy_pos d2),
      clock_pos := Suc (clock_pos d2)\<rparr>"
proof -
  obtain c t n r d1 where c: "sb_status p = UserActive" "sb_is_platform_admin p" "active_mfa d (sb_user_id p)"
    "find_case i d = Inr (c, d)" "target_or_not_found (mo_target_type c) (mo_target_id c) d = Inr (t, d)"
    "List.member (case_capabilities c t) a" "apply_target_action t a n now d = Inr (r, d1)"
    and rest: "(case r of None \<Rightarrow> tx_raise invalid_transition
     | Some t' \<Rightarrow>
         tx_bind (record_case_action c (sb_user_id p) a n (mt_status t) (mt_status t') now) (\<lambda>updated.
         tx_bind (moderation_audit p (''moderation.target.'' @ action_name a) (target_type_name (mt_type t))
           (mt_id t) n (JObj [(''status'', JStr (target_status_name (mt_status t)))])
           (JObj [(''status'', JStr (target_status_name (mt_status t'))), (''case_id'', JStr (uuid_str (mo_id c)))])
           q) (\<lambda>_.
         tx_bind (list_case_events (mo_id c)) (\<lambda>events.
         tx_return (updated, t', events))))) d1 = Inr ((u, t', es), d')"
    using assms unfolding act_def tx_bind_eq [of "apply_target_action _ _ _ _"] case_reads by blast
  obtain t0 where t0: "r = Some t0" using rest by (cases r) (simp_all add: tx_raise_eq)
  then obtain d2 d3 where "record_case_action c (sb_user_id p) a n (mt_status t) (mt_status t0) now d1 = Inr (u, d2)"
    "moderation_audit p (''moderation.target.'' @ action_name a) (target_type_name (mt_type t))
           (mt_id t) n (JObj [(''status'', JStr (target_status_name (mt_status t)))])
           (JObj [(''status'', JStr (target_status_name (mt_status t0))), (''case_id'', JStr (uuid_str (mo_id c)))])
           q d2 = Inr ((), d3)" "t' = t0" "d' = d3"
    using rest by (auto simp: tx_bind_eq list_case_events_def tx_query_eq tx_return_eq)
  then show ?thesis using that [OF c(1-6)] c(7) t0 moderation_audit_effect by blast
qed

lemma record_case_action_effect:
  assumes "record_case_action c actor a n s s' now d = Inr (u, d')"
  obtains e r x where "r \<in> set (t_moderation_cases d)" "mc_id r = mo_id c" "mc_status r = mo_status c"
    "t_moderation_cases d' = update_where (\<lambda>y. mc_id y = mc_id r) (\<lambda>_. r\<lparr>mc_status := CaseActioned,
      mc_assigned_admin_user_id := Some actor, mc_resolution_reason := Some n,
      mc_acknowledged_at := coalesce (mc_acknowledged_at r) now, mc_resolved_at := Some now, mc_updated_at := x\<rparr>)
      (t_moderation_cases d)"
    "t_moderation_case_events d' = t_moderation_case_events d @ [e]"
    "mh_case_id e = mo_id c" "mh_from_status e = Some (mo_status c)" "mh_to_status e = CaseActioned"
    "mh_actor_user_id e = Some actor" "mh_action e = Some a"
proof -
  obtain m f d1 d2 where ins: "insert_case_event (mo_id c) (Some actor) (Some a) (Some (mo_status c)) CaseActioned n m None d
      = Inr ((), d1)"
    and upd: "update_case (mo_id c) (mo_status c) (\<lambda>r. r\<lparr>mc_status := CaseActioned, mc_assigned_admin_user_id := Some actor,
        mc_resolution_reason := Some n, mc_acknowledged_at := coalesce (mc_acknowledged_at r) now,
        mc_resolved_at := Some now\<rparr>) d1 = Inr (True, d2)"
    and rest: "tx_bind (get_case (mo_id c)) (\<lambda>updated. case updated of
       None \<Rightarrow> tx_raise (RuntimeError ''moderation case disappeared during action'')
     | Some u \<Rightarrow>
         tx_bind (if mo_target_type c = TargetUser
           then tx_bind (enqueue ''moderation_case'' (mo_id c) ''moderation.action_taken''
             [(''recipient_user_id'', JStr (uuid_str (mo_target_id c))), (''case_id'', JStr (uuid_str (mo_id c)))]
             (''moderation:'' @ uuid_str (mo_id c) @ '':action:'' @ action_name a) now) (\<lambda>_. tx_return ())
           else tx_return ()) (\<lambda>_.
         tx_return u)) d2 = Inr (u, d')"
    using assms unfolding record_case_action_def case_reads tx_bind_eq [of "insert_case_event _ _ _ _ _ _ _ _"]
      tx_bind_eq [of "update_case _ _ _"] by auto
  have "tx_keeps case_tables (tx_bind (get_case (mo_id c)) (\<lambda>updated. case updated of
       None \<Rightarrow> tx_raise (RuntimeError ''moderation case disappeared during action'')
     | Some u \<Rightarrow>
         tx_bind (if mo_target_type c = TargetUser
           then tx_bind (enqueue ''moderation_case'' (mo_id c) ''moderation.action_taken''
             [(''recipient_user_id'', JStr (uuid_str (mo_target_id c))), (''case_id'', JStr (uuid_str (mo_id c)))]
             (''moderation:'' @ uuid_str (mo_id c) @ '':action:'' @ action_name a) now) (\<lambda>_. tx_return ())
           else tx_return ()) (\<lambda>_.
         tx_return u)))" unfolding get_case_def by (intro cases.rules case_keeps)
  then have same: "case_tables d2 d'" using rest by (rule tx_keepsD)
  from ins obtain e where e: "t_moderation_cases d1 = t_moderation_cases d"
    "t_moderation_case_events d1 = t_moderation_case_events d @ [e]"
    "mh_case_id e = mo_id c" "mh_from_status e = Some (mo_status c)" "mh_to_status e = CaseActioned"
    "mh_actor_user_id e = Some actor" "mh_action e = Some a"
    by (rule insert_case_event_effect)
  from upd obtain r x where r: "one_or_none (\<lambda>y. mc_id y = mo_id c \<and> mc_status y = mo_status c) (t_moderation_cases d1) = Some r"
    "t_moderation_cases d2 = update_where (\<lambda>y. mc_id y = mo_id c) (\<lambda>_. (r\<lparr>mc_status := CaseActioned,
      mc_assigned_admin_user_id := Some actor, mc_resolution_reason := Some n,
      mc_acknowledged_at := coalesce (mc_acknowledged_at r) now, mc_resolved_at := Some now\<rparr>)\<lparr>mc_updated_at := x\<rparr>)
      (t_moderation_cases d1)"
    "t_moderation_case_events d2 = t_moderation_case_events d1"
    by (rule update_case_effect)
  show thesis
    using that [of r x e] one_or_none_Some [OF r(1)] r(2,3) e same by (auto simp: case_tables_def)
qed

lemma capability_status:
  assumes "List.member (case_capabilities c t) a"
  shows "mo_status c \<in> {CaseOpen, CaseInvestigating} \<or> mo_status c = CaseActioned \<and> a = ActRestore"
    and "List.member (target_capabilities t) a"
  using assms by (auto simp: case_capabilities_def split: if_splits)

lemma act_history:
  assumes "act p i a reason q now d = Inr (r, d')" and ok: "history_ok d"
  shows "history_ok d'"
proof -
  obtain u t' es where run: "act p i a reason q now d = Inr ((u, t', es), d')" using assms(1) by (cases r) auto
  then show ?thesis
  proof (cases rule: act_cases)
    case (1 c t n d1 d2)
    have same: "case_tables d d1" using tx_keepsD [OF apply_target_action_cases 1(7)] .
    then have ok1: "history_ok d1" using ok by (simp add: history_same)
    have "history_ok d2"
      using 1(8)
    proof (rule record_case_action_effect)
      fix e r x
      assume r: "r \<in> set (t_moderation_cases d1)" "mc_id r = mo_id c" "mc_status r = mo_status c"
        and s: "t_moderation_cases d2 = update_where (\<lambda>y. mc_id y = mc_id r) (\<lambda>_. r\<lparr>mc_status := CaseActioned,
          mc_assigned_admin_user_id := Some (sb_user_id p), mc_resolution_reason := Some n,
          mc_acknowledged_at := coalesce (mc_acknowledged_at r) now, mc_resolved_at := Some now, mc_updated_at := x\<rparr>)
          (t_moderation_cases d1)"
          "t_moderation_case_events d2 = t_moderation_case_events d1 @ [e]"
        and e: "mh_case_id e = mo_id c" "mh_from_status e = Some (mo_status c)" "mh_to_status e = CaseActioned"
      show ?thesis
        by (rule history_moved [OF ok1 r(1) s])
          (use r e capability_status(1) [OF 1(6)] in \<open>auto intro: moves.intros\<close>)
    qed
    then show ?thesis using 1(9) by (auto simp: history_ok_def history_def)
  qed
qed

lemma record_case_workflow_effect:
  assumes "record_case_workflow c actor a n now d = Inr (u, d')"
  obtains e r r' where "r \<in> set (t_moderation_cases d)" "mc_id r = mo_id c" "mc_status r = mo_status c"
    "t_moderation_cases d' = update_where (\<lambda>y. mc_id y = mc_id r) (\<lambda>_. r') (t_moderation_cases d)"
    "mc_id r' = mc_id r" "mc_status r' = (if a = Acknowledge then CaseInvestigating else CaseDismissed)"
    "t_moderation_case_events d' = t_moderation_case_events d @ [e]"
    "mh_case_id e = mo_id c" "mh_from_status e = Some (mo_status c)" "mh_to_status e = mc_status r'"
proof -
  define s where "s = (if a = Acknowledge then CaseInvestigating else CaseDismissed)"
  obtain d1 d2 where ins: "insert_case_event (mo_id c) (Some actor) None (Some (mo_status c)) s n
        (JObj [(''workflow_action'', JStr (workflow_name a))]) (Some now) d = Inr ((), d1)"
    and upd: "update_case (mo_id c) (mo_status c) (\<lambda>r. r\<lparr>mc_status := s, mc_assigned_admin_user_id := Some actor,
          mc_resolution_reason := (if s = CaseDismissed then Some n else None),
          mc_acknowledged_at := coalesce (mc_acknowledged_at r) now,
          mc_resolved_at := (if s = CaseDismissed then Some now else None)\<rparr>) d1 = Inr (True, d2)"
    and rest: "tx_bind (get_case (mo_id c)) (\<lambda>updated. case updated of
       None \<Rightarrow> tx_raise (RuntimeError ''moderation case disappeared during workflow transition'')
     | Some u \<Rightarrow> tx_return u) d2 = Inr (u, d')"
    using assms unfolding record_case_workflow_def Let_def s_def [symmetric] case_reads
      tx_bind_eq [of "insert_case_event _ _ _ _ _ _ _ _"] tx_bind_eq [of "update_case _ _ _"] by auto
  have same: "d' = d2" using rest by (auto simp: get_case_def tx_simps split: option.splits)
  from ins obtain e where e: "t_moderation_cases d1 = t_moderation_cases d"
    "t_moderation_case_events d1 = t_moderation_case_events d @ [e]"
    "mh_case_id e = mo_id c" "mh_from_status e = Some (mo_status c)" "mh_to_status e = s"
    by (rule insert_case_event_effect)
  from upd obtain r x where r: "one_or_none (\<lambda>y. mc_id y = mo_id c \<and> mc_status y = mo_status c) (t_moderation_cases d1) = Some r"
    "t_moderation_cases d2 = update_where (\<lambda>y. mc_id y = mo_id c) (\<lambda>_. (r\<lparr>mc_status := s,
          mc_assigned_admin_user_id := Some actor,
          mc_resolution_reason := (if s = CaseDismissed then Some n else None),
          mc_acknowledged_at := coalesce (mc_acknowledged_at r) now,
          mc_resolved_at := (if s = CaseDismissed then Some now else None)\<rparr>)\<lparr>mc_updated_at := x\<rparr>)
      (t_moderation_cases d1)"
    "t_moderation_case_events d2 = t_moderation_case_events d1"
    by (rule update_case_effect)
  note found = one_or_none_Some [OF r(1)]
  then have id: "mc_id r = mo_id c" by simp
  have cs: "t_moderation_cases d' = update_where (\<lambda>y. mc_id y = mc_id r) (\<lambda>_. (r\<lparr>mc_status := s,
          mc_assigned_admin_user_id := Some actor,
          mc_resolution_reason := (if s = CaseDismissed then Some n else None),
          mc_acknowledged_at := coalesce (mc_acknowledged_at r) now,
          mc_resolved_at := (if s = CaseDismissed then Some now else None)\<rparr>)\<lparr>mc_updated_at := x\<rparr>)
      (t_moderation_cases d)"
    unfolding same r(2) id e(1) ..
  show thesis
    by (rule that [OF _ id _ cs]) (use found e r(3) same in \<open>simp_all add: s_def\<close>)
qed

lemma transition_history:
  assumes "transition_case p i a reason q now d = Inr (r, d')" and ok: "history_ok d"
  shows "history_ok d'"
proof -
  have "\<exists>c n u d1. workflow_allowed a (mo_status c)
    \<and> record_case_workflow c (sb_user_id p) a n now d = Inr (u, d1) \<and> case_tables d1 d'"
    using assms(1) unfolding transition_case_def tx_bind_eq [of "record_case_workflow _ _ _ _ _"] case_reads
    by (auto simp: tx_bind_eq list_case_events_def tx_query_eq tx_return_eq dest!: moderation_audit_effect) (blast intro: case_tables_audited)
  then obtain c n u d1 where c: "workflow_allowed a (mo_status c)" "case_tables d1 d'"
    and run: "record_case_workflow c (sb_user_id p) a n now d = Inr (u, d1)" by blast
  from run have "history_ok d1"
  proof (rule record_case_workflow_effect)
    fix e r r'
    assume r: "r \<in> set (t_moderation_cases d)" "mc_id r = mo_id c" "mc_status r = mo_status c"
      and s: "t_moderation_cases d1 = update_where (\<lambda>y. mc_id y = mc_id r) (\<lambda>_. r') (t_moderation_cases d)"
      and r': "mc_id r' = mc_id r" "mc_status r' = (if a = Acknowledge then CaseInvestigating else CaseDismissed)"
      and e: "t_moderation_case_events d1 = t_moderation_case_events d @ [e]"
        "mh_case_id e = mo_id c" "mh_from_status e = Some (mo_status c)" "mh_to_status e = mc_status r'"
    have "moves (Some (mc_status r)) (mc_status r')"
      using c(1) r' r(3) by (auto simp: workflow_allowed_def intro: moves.intros)
    then show ?thesis by (intro history_moved [OF ok r(1) s e(1)]) (use r r' e in simp_all)
  qed
  then show ?thesis using c(2) by (simp add: history_same)
qed

lemma create_report_effect:
  assumes "create_report u ty i cat text pr src now d = Inr (c, d')"
  obtains r e where "t_moderation_cases d' = t_moderation_cases d @ [r]"
    "t_moderation_case_events d' = t_moderation_case_events d @ [e]"
    "\<forall>x \<in> set (t_moderation_cases d). mc_id x \<noteq> mc_id r"
    "mh_case_id e = mc_id r" "mh_from_status e = None" "mh_to_status e = CaseOpen" "mc_status r = CaseOpen"
    "case_constraints d (t_moderation_cases d) r \<noteq> []" "mc_created_at r = now" "mc_priority r = pr" "mc_reporter_user_id r = Some u"
proof -
  obtain n up d1 d2 d3 where r: "first_violation (case_constraints d1 (t_moderation_cases d1)
        (new_case_row n u ty i cat text pr now up)) = None"
    and d1: "t_moderation_cases d1 = t_moderation_cases d" "t_moderation_case_events d1 = t_moderation_case_events d"
    and d2: "d2 = d1\<lparr>t_moderation_cases := t_moderation_cases d1 @ [new_case_row n u ty i cat text pr now up]\<rparr>"
    and ins: "insert_case_event n None None None CaseOpen ''Report submitted''
       (JObj (case src of None \<Rightarrow> [] | Some s \<Rightarrow> [(''source_path'', JStr s)])) (Some now) d2 = Inr ((), d3)"
    and same: "d' = d3"
    using assms unfolding create_report_def tx_bind_eq [of "insert_case_event _ _ _ _ _ _ _ _"]
    by (auto simp: tx_simps Let_def get_case_def split: if_splits option.splits)
  from ins obtain e where e: "t_moderation_cases d3 = t_moderation_cases d2"
    "t_moderation_case_events d3 = t_moderation_case_events d2 @ [e]"
    "mh_case_id e = n" "mh_from_status e = None" "mh_to_status e = CaseOpen"
    by (rule insert_case_event_effect)
  have "\<forall>x \<in> set (t_moderation_cases d1). mc_id x \<noteq> n"
    using r by (auto simp: case_constraints_def new_case_row_def row_exists_iff split: if_splits)
  then show thesis
    by (intro that [of "new_case_row n u ty i cat text pr now up" e])
      (use e d1 same in \<open>simp_all add: d2 new_case_row_def case_constraints_def\<close>)
qed

lemma history_opened:
  assumes ok: "history_ok d" and cs: "t_moderation_cases d' = t_moderation_cases d @ [r]"
    and es: "t_moderation_case_events d' = t_moderation_case_events d @ [e]"
    and r: "\<forall>x \<in> set (t_moderation_cases d). mc_id x \<noteq> mc_id r"
    and e: "mh_case_id e = mc_id r" "mh_from_status e = None" "mh_to_status e = CaseOpen" "mc_status r = CaseOpen"
  shows "history_ok d'"
proof -
  have "history (mc_id r) d = []" using ok r by (auto simp: history_def filter_empty_conv history_ok_def)
  then have "leads None (history (mc_id r) d') (Some (mc_status r))"
    using e by (simp add: history_append [OF es] moves.opened)
  moreover have "history (mc_id x) d' = history (mc_id x) d" if "x \<in> set (t_moderation_cases d)" for x
    using r that e(1) by (auto simp: history_append [OF es])
  ultimately show ?thesis using ok r e(1) unfolding history_ok_def cs es by auto
qed

lemma submit_history:
  assumes "submit_report fl p ty i cat text src q now d = Inr (c, d')" and ok: "history_ok d"
  shows "history_ok d'"
proof -
  have "\<exists>x pr d1. create_report (sb_user_id p) ty i cat x pr src now d = Inr (c, d1) \<and> case_tables d1 d'"
    using assms(1) unfolding submit_report_def Let_def case_reads tx_bind_eq [of "create_report _ _ _ _ _ _ _ _"]
    by (auto simp: tx_bind_eq tx_query_eq tx_return_eq dest!: audit_record_effect) (blast intro: case_tables_audited)+
  then obtain x pr d1 where run: "create_report (sb_user_id p) ty i cat x pr src now d = Inr (c, d1)"
    and same: "case_tables d1 d'" by blast
  from run have "history_ok d1" by (rule create_report_effect) (rule history_opened [OF ok], auto)
  then show ?thesis using same by (simp add: history_same)
qed

subsection \<open>Every run\<close>

text \<open>
  What a committed transaction may do to the cases: report, work on one, act on its target, or, in
  every other operation of the program, leave them alone.
\<close>

inductive moderation_step :: "db \<Rightarrow> db \<Rightarrow> bool" where
  report: "submit_report fl (p :: principal) ty i cat text src q now d = Inr (c, d') \<Longrightarrow> moderation_step d d'"
| workflow: "transition_case (p :: principal) i w reason q now d = Inr (r, d') \<Longrightarrow> moderation_step d d'"
| action: "act (p :: principal) i a reason q now d = Inr (r, d') \<Longrightarrow> moderation_step d d'"
| other: "case_tables d d' \<Longrightarrow> moderation_step d d'"

lemma moderation_step_history:
  assumes "moderation_step d d'" "history_ok d"
  shows "history_ok d'"
  using assms
  by (induction rule: moderation_step.induct)
    (blast intro: submit_history transition_history act_history dest: history_same)+

text \<open>
  C6. The events of a case are its complete history: they start with its opening, each continues from
  the status the one before it left, takes a move of the workflow (open, then investigating, then
  dismissed or actioned; an actioned case stays actioned), and the last one is the status
  the case has.
\<close>

theorem moderation_history_is_complete:
  assumes "moderation_step\<^sup>*\<^sup>* d d'" and "t_moderation_cases d = []" and "t_moderation_case_events d = []"
    and "c \<in> set (t_moderation_cases d')"
  shows "leads None (filter (\<lambda>e. mh_case_id e = mc_id c) (t_moderation_case_events d')) (Some (mc_status c))"
proof -
  have "history_ok d" using assms(2,3) by (simp add: history_ok_def)
  with assms(1) have "history_ok d'"
    by (induction rule: rtranclp_induct) (auto intro: moderation_step_history)
  then show ?thesis using assms(4) by (simp add: history_ok_def history_def)
qed

subsection \<open>Private links\<close>

definition link_tables :: "db \<Rightarrow> db \<Rightarrow> bool" where
  "link_tables d d' \<longleftrightarrow> t_events d' = t_events d \<and> t_clubs d' = t_clubs d
     \<and> t_event_invite_tokens d' = t_event_invite_tokens d"

interpretation links: frame_relation link_tables
  by standard (simp_all add: link_tables_def)

named_theorems link_keeps "statements that leave events, clubs and links alone"

lemma fresh_uuid_links [link_keeps]: "tx_keeps link_tables fresh_uuid"
  by (rule tx_keepsI) (auto simp: tx_simps link_tables_def)

lemma clock_links [link_keeps]: "tx_keeps link_tables clock_timestamp"
  by (rule tx_keepsI) (auto simp: tx_simps link_tables_def)

lemma check_links [link_keeps]: "tx_keeps link_tables (check_constraints cs)"
  by (rule tx_keepsI) (auto simp: tx_simps link_tables_def)

lemma insert_outbox_links [link_keeps]: "tx_keeps link_tables (insert_outbox row)"
  unfolding insert_outbox_def Let_def by (intro links.rules link_keeps links.modify) (simp add: link_tables_def)

lemma record_case_action_links: "tx_keeps link_tables (record_case_action c actor a n s s' now)"
  unfolding record_case_action_def insert_case_event_def update_case_def get_case_def enqueue_def
    insert_outbox_or_ignore_def Let_def
  by (intro links.rules link_keeps links.modify) (simp_all add: link_tables_def)

lemma revoked:
  assumes "v \<in> set (update_where (\<lambda>i. row_exists (\<lambda>e. P e \<and> ev_id e = iv_event_id i) es \<and> iv_revoked_at i = None)
      (\<lambda>i. i\<lparr>iv_revoked_at := Some now\<rparr>) vs)"
    and "e \<in> set es" "P e" "ev_id e = iv_event_id v"
  shows "iv_revoked_at v \<noteq> None"
  using assms(1) by (rule in_update_where) (use assms(2-4) in \<open>auto simp: row_exists_iff split: if_splits\<close>)

lemma suspend_event_effect:
  assumes "suspend_event t n now d = Inr (Some t', d')"
  shows "t' = t\<lparr>mt_status := EventState EvSuspended\<rparr>"
    and "e \<in> set (t_events d') \<Longrightarrow> ev_id e = mt_id t \<Longrightarrow> ev_status e = EvSuspended"
    and "e \<in> set (t_events d') \<Longrightarrow> ev_id e = mt_id t \<Longrightarrow> v \<in> set (t_event_invite_tokens d')
      \<Longrightarrow> iv_event_id v = ev_id e \<Longrightarrow> iv_revoked_at v \<noteq> None"
proof -
  obtain r :: event_row and x where r: "one_or_none (\<lambda>e. ev_id e = mt_id t \<and> ev_status e = EvPublished) (t_events d) = Some r"
    and t': "t' = t\<lparr>mt_status := EventState EvSuspended\<rparr>"
    and es: "t_events d' = update_where (\<lambda>y. ev_id y = ev_id r) (\<lambda>_. r\<lparr>ev_status := EvSuspended,
        ev_suspended_at := Some now, ev_suspension_reason := Some n, ev_updated_at := x\<rparr>) (t_events d)"
    and vs: "t_event_invite_tokens d' = update_where (\<lambda>i. row_exists (\<lambda>e. Some (ev_id e) = Some (ev_id r)
        \<and> ev_id e = iv_event_id i) (t_events d') \<and> iv_revoked_at i = None)
        (\<lambda>i. i\<lparr>iv_revoked_at := Some now\<rparr>) (t_event_invite_tokens d)"
    using assms unfolding suspend_event_def update_event_row_def revoke_invites_def changed_to_def
    by (auto simp: tx_simps Let_def split: option.splits)
  have id: "ev_id r = mt_id t" using one_or_none_Some [OF r] by simp
  show "t' = t\<lparr>mt_status := EventState EvSuspended\<rparr>" by (rule t')
  show "ev_status e = EvSuspended" if "e \<in> set (t_events d')" "ev_id e = mt_id t"
    using that unfolding es by (elim in_update_where) (auto simp: id split: if_splits)
  show "iv_revoked_at v \<noteq> None" if "e \<in> set (t_events d')" "ev_id e = mt_id t" "v \<in> set (t_event_invite_tokens d')"
    "iv_event_id v = ev_id e"
    using that(3) unfolding vs by (rule revoked [where e = e]) (use that id in simp_all)
qed

lemma take_club_down_effect:
  assumes "take_club_down t s f now d = Inr (Some t', d')" and f: "\<And>c. cl_status (f c) = s \<and> cl_id (f c) = cl_id c"
  shows "t' = t\<lparr>mt_status := ClubState s\<rparr>"
    and "c \<in> set (t_clubs d') \<Longrightarrow> cl_id c = mt_id t \<Longrightarrow> cl_status c = s"
    and "e \<in> set (t_events d') \<Longrightarrow> ev_club_id e = Some (mt_id t) \<Longrightarrow> v \<in> set (t_event_invite_tokens d')
      \<Longrightarrow> iv_event_id v = ev_id e \<Longrightarrow> iv_revoked_at v \<noteq> None"
proof -
  obtain r :: club_row and x where r: "one_or_none (\<lambda>c. cl_id c = mt_id t \<and> cl_status c = ClubPublished) (t_clubs d) = Some r"
    and t': "t' = t\<lparr>mt_status := ClubState s\<rparr>"
    and cs: "t_clubs d' = update_where (\<lambda>y. cl_id y = cl_id r) (\<lambda>_. (f r)\<lparr>cl_updated_at := x\<rparr>) (t_clubs d)"
    and vs: "t_event_invite_tokens d' = update_where (\<lambda>i. row_exists (\<lambda>e. ev_club_id e = Some (cl_id r)
        \<and> ev_id e = iv_event_id i) (t_events d') \<and> iv_revoked_at i = None)
        (\<lambda>i. i\<lparr>iv_revoked_at := Some now\<rparr>) (t_event_invite_tokens d)"
    using assms(1) unfolding take_club_down_def update_club_row_def revoke_invites_def changed_to_def
    by (auto simp: tx_simps Let_def split: option.splits)
  have id: "cl_id r = mt_id t" using one_or_none_Some [OF r] by simp
  show "t' = t\<lparr>mt_status := ClubState s\<rparr>" by (rule t')
  show "cl_status c = s" if "c \<in> set (t_clubs d')" "cl_id c = mt_id t"
    using that unfolding cs by (elim in_update_where) (auto simp: id f split: if_splits)
  show "iv_revoked_at v \<noteq> None" if "e \<in> set (t_events d')" "ev_club_id e = Some (mt_id t)"
    "v \<in> set (t_event_invite_tokens d')" "iv_event_id v = ev_id e"
    using that(3) unfolding vs by (rule revoked [where e = e]) (use that id in simp_all)
qed

lemma act_target:
  assumes "act p i a reason q now d = Inr ((c, t, es), d')"
  obtains t0 n d1 where "apply_target_action t0 a n now d = Inr (Some t, d1)" "link_tables d1 d'"
    "List.member (target_capabilities t0) a"
  using assms
proof (cases rule: act_cases)
  case (1 c0 t0 n d1 d2)
  have "link_tables d1 d'" using tx_keepsD [OF record_case_action_links 1(8)] 1(9) by (auto simp: link_tables_def)
  then show ?thesis using that 1(7) capability_status(2) [OF 1(6)] by blast
qed

text \<open>
  C14. Suspending an event, and suspending or unpublishing a club, takes effect on the target's row and
  cuts every private link to it: no link of the event, or of any event of the club, is left that has
  not been revoked.
\<close>

theorem suspension_cuts_private_links:
  assumes "act p i a reason q now d = Inr ((c, t, es), d')" and "a \<in> {ActSuspend, ActUnpublish}"
    and "e \<in> set (t_events d')"
    and "mt_type t = TargetEvent \<and> ev_id e = mt_id t \<or> mt_type t = TargetClub \<and> ev_club_id e = Some (mt_id t)"
    and "v \<in> set (t_event_invite_tokens d')" and "iv_event_id v = ev_id e"
  shows "iv_revoked_at v \<noteq> None \<and> (mt_type t = TargetEvent \<longrightarrow> ev_status e = EvSuspended)
    \<and> (\<forall>k \<in> set (t_clubs d'). mt_type t = TargetClub \<longrightarrow> cl_id k = mt_id t
         \<longrightarrow> cl_status k = (if a = ActSuspend then ClubSuspended else ClubUnpublished))"
  using assms(1)
proof (rule act_target)
  fix t0 n d1
  assume run: "apply_target_action t0 a n now d = Inr (Some t, d1)" and l: "link_tables d1 d'"
    and cap: "List.member (target_capabilities t0) a"
  have same: "t_events d1 = t_events d'" "t_clubs d1 = t_clubs d'" "t_event_invite_tokens d1 = t_event_invite_tokens d'"
    using l by (simp_all add: link_tables_def)
  consider (event) "mt_type t0 = TargetEvent" "a = ActSuspend" "suspend_event t0 n now d = Inr (Some t, d1)"
    | (user) "mt_type t0 = TargetUser" "a = ActSuspend" "suspend_user t0 n now d = Inr (Some t, d1)"
    | (club) f where "mt_type t0 = TargetClub" "take_club_down t0 (if a = ActSuspend then ClubSuspended else ClubUnpublished)
        f now d = Inr (Some t, d1)"
        "\<And>c. cl_status (f c) = (if a = ActSuspend then ClubSuspended else ClubUnpublished) \<and> cl_id (f c) = cl_id c"
    using run assms(2) by (cases "mt_type t0"; cases a)
      (auto simp: apply_target_action_def suspend_club_def unpublish_club_def tx_return_eq)
  then show ?thesis
  proof cases
    case event
    then show ?thesis using suspend_event_effect [OF event(3), unfolded same] assms(3-6) by auto
  next
    case user
    then have "mt_type t = TargetUser" by (auto simp: suspend_user_def changed_to_def tx_simps split: if_splits)
    then show ?thesis using assms(4) by simp
  next
    case (club f)
    then show ?thesis using take_club_down_effect [OF club(2) club(3), unfolded same] assms(3-6) by auto
  qed
qed

subsection \<open>Announcing an action twice\<close>

lemma update_club_row_outbox: "tx_keeps outbox_grows (update_club_row e P f)"
  unfolding update_club_row_def Let_def by (intro growing.rules outbox_keeps growing.modify outbox_untouched) simp

lemma update_event_row_outbox': "tx_keeps outbox_grows (update_event_row P f)"
  unfolding update_event_row_def Let_def by (intro growing.rules outbox_keeps growing.modify outbox_untouched) simp

lemma update_user_row_outbox: "tx_keeps outbox_grows (update_user_row P f)"
  unfolding update_user_row_def by (intro growing.rules outbox_keeps growing.modify outbox_untouched) simp

lemma revoke_invites_outbox: "tx_keeps outbox_grows (revoke_invites P now)"
  unfolding revoke_invites_def by (intro growing.modify outbox_untouched) simp

lemma apply_target_action_outbox: "tx_keeps outbox_grows (apply_target_action t a r now)"
  unfolding apply_target_action_def suspend_user_def restore_user_def suspend_club_def unpublish_club_def
    take_club_down_def restore_club_def suspend_event_def restore_event_def
  by (cases "mt_type t"; cases a) (simp_all, (intro growing.rules update_club_row_outbox update_event_row_outbox'
    update_user_row_outbox revoke_invites_outbox)+)

lemma insert_case_event_outbox: "tx_keeps outbox_grows (insert_case_event i u a f t r m ts)"
  unfolding insert_case_event_def Let_def by (intro growing.rules outbox_keeps growing.modify outbox_untouched) simp

lemma update_case_outbox: "tx_keeps outbox_grows (update_case i s f)"
  unfolding update_case_def Let_def by (intro growing.rules outbox_keeps growing.modify outbox_untouched) simp

lemma enqueue_conflict:
  assumes "row \<in> set (t_outbox_events d)" "distinct (map ob_deduplication_key (t_outbox_events d))"
    and "outbox_grows d d1" "ob_available_at row \<noteq> now"
  shows "enqueue ty i et pl (ob_deduplication_key row) now d1 \<noteq> Inr r"
proof -
  obtain outs where o: "t_outbox_events d1 = t_outbox_events d @ outs" using assms(3) by (auto simp: outbox_grows_def)
  have "one_or_none (\<lambda>x. ob_deduplication_key x = ob_deduplication_key row) (t_outbox_events d1) = Some row"
    unfolding o one_or_none_append using one_or_none_key [OF assms(2,1)] by simp
  moreover have "row_exists (\<lambda>x. ob_deduplication_key x = ob_deduplication_key row) (t_outbox_events d1)"
    using assms(1) by (auto simp: o row_exists_iff)
  ultimately show ?thesis using assms(4)
    by (auto simp: enqueue_def insert_outbox_or_ignore_def new_outbox_row_def tx_simps split: if_splits)
qed

text \<open>
  C38. An action on an account announces itself under a key made of the case and the action only. When
  a row with that key was announced for another instant, the same action through the same case is
  refused: an account suspended again cannot be restored through the case that restored it before.
\<close>

theorem repeated_action_is_refused:
  assumes "find_case i d = Inr (c, d)" and "mo_target_type c = TargetUser"
    and "row \<in> set (t_outbox_events d)" and "distinct (map ob_deduplication_key (t_outbox_events d))"
    and "ob_deduplication_key row = ''moderation:'' @ uuid_str i @ '':action:'' @ action_name a"
    and "ob_available_at row \<noteq> now"
  shows "\<exists>e. act p i a reason q now d = Inl e"
proof (rule ccontr)
  assume "\<not> ?thesis"
  then obtain u t es d' where run: "act p i a reason q now d = Inr ((u, t, es), d')"
    by (metis prod_cases3 sum.exhaust surj_pair)
  then show False
  proof (cases rule: act_cases)
    case (1 c0 t0 n d1 d2)
    have c: "c0 = c" "mo_id c = i"
      using assms(1) 1(4) by (auto simp: find_case_Inr case_of_row_def dest!: one_or_none_Some)
    obtain m f d3 d4 x y v where "insert_case_event (mo_id c) (Some (sb_user_id p)) (Some a) (Some (mo_status c)) CaseActioned n m None d1
        = Inr (x, d3)" "update_case (mo_id c) (mo_status c) f d3 = Inr (y, d4)"
      and e: "enqueue ''moderation_case'' (mo_id c) ''moderation.action_taken''
             [(''recipient_user_id'', JStr (uuid_str (mo_target_id c))), (''case_id'', JStr (uuid_str (mo_id c)))]
             (''moderation:'' @ uuid_str (mo_id c) @ '':action:'' @ action_name a) now d4 = Inr v"
      using 1(8) assms(2) unfolding c record_case_action_def case_reads tx_bind_eq [of "insert_case_event _ _ _ _ _ _ _ _"]
        tx_bind_eq [of "update_case _ _ _"] tx_bind_eq [of "get_case _"]
      by (auto simp: get_case_def tx_query_eq tx_bind_eq tx_raise_eq split: option.splits)
    then have "outbox_grows d d4"
      using tx_keepsD [OF apply_target_action_outbox 1(7)] tx_keepsD [OF insert_case_event_outbox] tx_keepsD [OF update_case_outbox]
      by (meson growing.trans)
    then show False
      using enqueue_conflict [OF assms(3,4) _ assms(6)] e unfolding assms(5) c(2) by blast
  qed
qed

subsection \<open>The properties at concrete inputs\<close>

definition example_moderator :: principal where
  "example_moderator = \<lparr>sb_user_id = example_id 5, sb_email_verified = True,
     sb_status = UserActive, sb_is_platform_admin = True, ap_session_id = example_id 80\<rparr>"

definition example_case :: "nat \<Rightarrow> moderation_target_type \<Rightarrow> uuid \<Rightarrow> moderation_case_row" where
  "example_case n ty i = new_case_row (example_id n) (example_id 4) ty i ''spam''
     ''Repeated advertising'' PriorityStandard 0 0"

definition example_moderation_db :: db where
  "example_moderation_db = example_db\<lparr>
     t_categories := [\<lparr>ca_id = example_id 40, ca_slug = ''walks'', ca_enabled = True\<rparr>],
     t_user_mfa_factors := [\<lparr>mf_user_id = example_id 5, mf_verified_at = Some 0, mf_disabled_at = None\<rparr>],
     t_platform_settings := [\<lparr>st_key = ''features.member_reports_enabled'', st_enabled = True, st_revision = 1\<rparr>],
     t_moderation_cases := [example_case 70 TargetUser (example_id 3), example_case 71 TargetUser (example_id 3),
       example_case 72 TargetEvent (example_id 20)],
     t_event_invite_tokens := [\<lparr>iv_id = example_id 75, iv_event_id = example_id 20, iv_token_hash = ''h'',
       iv_created_by_user_id = example_id 1, iv_expires_at = None, iv_revoked_at = None, iv_last_used_at = None,
       iv_created_at = 0\<rparr>]\<rparr>"

definition example_suspended_db :: db where
  "example_suspended_db = example_moderation_db\<lparr>t_users := map (\<lambda>n. if n = 3 then (example_user n)\<lparr>us_status := UserSuspended,
     us_suspended_at := Some 5, us_suspension_reason := Some ''Reported''\<rparr> else example_user n) [1, 2, 3, 4, 5]\<rparr>"

theorem standard_reports_get_two_business_days_witness:
  "mo_priority (case_of_row (example_case 70 TargetUser (example_id 3))) = PriorityStandard
    \<and> (\<exists>k :: nat. 2 \<le> k \<and> k \<le> 4 \<and> acknowledgement_deadline (case_of_row (example_case 70 TargetUser (example_id 3)))
         = int k * day)"
proof -
  have "mo_priority (case_of_row (example_case 70 TargetUser (example_id 3))) = PriorityStandard"
    "mo_created_at (case_of_row (example_case 70 TargetUser (example_id 3))) = 0"
    by (simp_all add: example_case_def new_case_row_def case_of_row_def)
  then show ?thesis using standard_reports_get_two_business_days [of "case_of_row (example_case 70 TargetUser (example_id 3))"]
    by auto
qed

theorem moderation_history_is_complete_witness:
  "\<exists>c d' r. submit_report True example_moderator TargetUser (example_id 3) ''safety'' ''Threatening messages''
      None (example_id 91) 10 (example_moderation_db\<lparr>t_moderation_cases := []\<rparr>) = Inr (c, d')
    \<and> t_moderation_cases d' = [r] \<and> mc_status r = CaseOpen
    \<and> leads None (filter (\<lambda>e. mh_case_id e = mc_id r) (t_moderation_case_events d')) (Some (mc_status r))"
proof -
  have "commits (submit_report True example_moderator TargetUser (example_id 3) ''safety''
      ''Threatening messages'' None (example_id 91) 10 (example_moderation_db\<lparr>t_moderation_cases := []\<rparr>))
      (\<lambda>c d'. map mc_status (t_moderation_cases d') = [CaseOpen])" by code_simp
  then obtain c d' where run: "submit_report True example_moderator TargetUser (example_id 3) ''safety''
      ''Threatening messages'' None (example_id 91) 10 (example_moderation_db\<lparr>t_moderation_cases := []\<rparr>) = Inr (c, d')"
    and one: "map mc_status (t_moderation_cases d') = [CaseOpen]" by (rule commitsE)
  then obtain r where r: "t_moderation_cases d' = [r]" "mc_status r = CaseOpen" by (cases "t_moderation_cases d'") auto
  have "moderation_step\<^sup>*\<^sup>* (example_moderation_db\<lparr>t_moderation_cases := []\<rparr>) d'"
    by (rule r_into_rtranclp) (rule moderation_step.report [OF run])
  then have "leads None (filter (\<lambda>e. mh_case_id e = mc_id r) (t_moderation_case_events d')) (Some (mc_status r))"
    by (rule moderation_history_is_complete) (simp_all add: r example_moderation_db_def example_db_def empty_db_def)
  then show ?thesis using run r by blast
qed

theorem suspension_cuts_private_links_witness:
  "\<exists>c t es d' v. act example_moderator (example_id 72) ActSuspend ''Reported'' (example_id 91) 10
      example_moderation_db = Inr ((c, t, es), d')
    \<and> t_event_invite_tokens d' = [v] \<and> iv_revoked_at v \<noteq> None"
proof -
  have "commits (act example_moderator (example_id 72) ActSuspend ''Reported'' (example_id 91) 10
      example_moderation_db) (\<lambda>(c, t, es) d'. mt_type t = TargetEvent \<and> mt_id t = example_id 20
        \<and> map iv_event_id (t_event_invite_tokens d') = [example_id 20] \<and> map ev_id (t_events d') = [example_id 20])"
    by code_simp
  then obtain x d' where run: "act example_moderator (example_id 72) ActSuspend ''Reported'' (example_id 91) 10
      example_moderation_db = Inr (x, d')"
    and facts: "(\<lambda>(c, t, es) d'. mt_type t = TargetEvent \<and> mt_id t = example_id 20
        \<and> map iv_event_id (t_event_invite_tokens d') = [example_id 20] \<and> map ev_id (t_events d') = [example_id 20]) x d'"
    by (rule commitsE)
  obtain c t es where x: "x = (c, t, es)" by (cases x)
  obtain v where v: "t_event_invite_tokens d' = [v]" "iv_event_id v = example_id 20"
    using facts x by (cases "t_event_invite_tokens d'") auto
  obtain e where e: "t_events d' = [e]" "ev_id e = example_id 20" using facts x by (cases "t_events d'") auto
  have "iv_revoked_at v \<noteq> None"
    using suspension_cuts_private_links [OF run [unfolded x], of e v] facts v e x by simp
  then show ?thesis using run v(1) x by blast
qed

theorem repeated_action_is_refused_witness:
  "\<exists>x d' e. tx_bind (act example_moderator (example_id 70) ActRestore ''Appeal granted'' (example_id 92) 20) (\<lambda>_.
      act example_moderator (example_id 71) ActSuspend ''Reported again'' (example_id 93) 30) example_suspended_db
        = Inr (x, d')
    \<and> act example_moderator (example_id 70) ActRestore ''Appeal granted'' (example_id 94) 40 d' = Inl e"
proof -
  define runs where "runs = tx_bind (act example_moderator (example_id 70) ActRestore ''Appeal granted'' (example_id 92) 20) (\<lambda>_.
      act example_moderator (example_id 71) ActSuspend ''Reported again'' (example_id 93) 30) example_suspended_db"
  have "commits runs (\<lambda>x d'. commits (find_case (example_id 70) d') (\<lambda>c _. mo_target_type c = TargetUser)
      \<and> distinct (map ob_deduplication_key (t_outbox_events d'))
      \<and> List.member (map (\<lambda>r. (ob_deduplication_key r, ob_available_at r)) (t_outbox_events d'))
          (''moderation:'' @ uuid_str (example_id 70) @ '':action:'' @ action_name ActRestore, 20))"
    unfolding runs_def by code_simp
  then obtain x d' where run: "runs = Inr (x, d')"
    and c: "commits (find_case (example_id 70) d') (\<lambda>c _. mo_target_type c = TargetUser)"
    and keys: "distinct (map ob_deduplication_key (t_outbox_events d'))"
    and row: "List.member (map (\<lambda>r. (ob_deduplication_key r, ob_available_at r)) (t_outbox_events d'))
          (''moderation:'' @ uuid_str (example_id 70) @ '':action:'' @ action_name ActRestore, 20)"
    by (rule commitsE) blast
  obtain k :: moderation_case and d2 where f: "find_case (example_id 70) d' = Inr (k, d2)" "mo_target_type k = TargetUser"
    using c by (rule commitsE)
  then have f': "find_case (example_id 70) d' = Inr (k, d')" by (simp add: find_case_Inr)
  obtain r where r: "r \<in> set (t_outbox_events d')" "ob_available_at r = 20"
    "ob_deduplication_key r = ''moderation:'' @ uuid_str (example_id 70) @ '':action:'' @ action_name ActRestore"
    using row by auto
  have "\<exists>e. act example_moderator (example_id 70) ActRestore ''Appeal granted'' (example_id 94) 40 d' = Inl e"
    by (rule repeated_action_is_refused [OF f' f(2) r(1) keys r(3)]) (simp add: r(2))
  then show ?thesis using run unfolding runs_def by blast
qed

end
