(* ===== verification/Notifications.thy ===== *)
theory Notifications
  imports Outbox_Growth Example_Data
begin

section \<open>Notifications (communications/service.py, communications/repository.py)\<close>

text \<open>
  The handler of the outbox worker projects an event to a notification of its recipient, with a
  delivery per channel. Identifiers that the database generates come from the same stream as
  those of \<open>generate_uuid7\<close>. \<open>UUID(text)\<close> is modelled on canonical texts.
\<close>

record notification_preferences =
  np_security_email :: bool
  np_event_email :: bool
  np_community_email :: bool

definition security_events :: "string list" where
  "security_events = [''identity.email_verification_requested'', ''identity.password_reset_requested'']"

definition registration_events :: "string list" where
  "registration_events = [''registration.confirmed'', ''registration.cash_pending'',
     ''registration.waitlisted'', ''registration.cancelled'', ''registration.expired'']"

definition community_events :: "string list" where
  "community_events = [''membership.requested'', ''membership.approved'', ''membership.rejected'',
     ''membership.removed'']"

definition event_events :: "string list" where
  "event_events = [''event.updated'', ''event.cancelled'']"

definition content_events :: "string list" where
  "content_events = [''club.announcement_published'', ''event.update_published'']"

definition moderation_events :: "string list" where
  "moderation_events = [''moderation.case_updated'', ''moderation.action_taken'']"

definition supported_notification_events :: "string list" where
  "supported_notification_events = security_events @ registration_events @ community_events
     @ event_events @ content_events @ moderation_events"

definition safe_parameter_keys :: "string list" where
  "safe_parameter_keys = [''event_id'', ''registration_id'', ''state'', ''previous_state'',
     ''reason_code'', ''club_id'', ''membership_id'', ''case_id'', ''announcement_id'',
     ''event_update_id'']"

subsection \<open>Reading the event\<close>

definition python_uuid :: "string \<Rightarrow> py_error + uuid" where
  "python_uuid s = (case parse_uuid s of
     None \<Rightarrow> Inl (ValueError ''badly formed hexadecimal UUID string'') | Some u \<Rightarrow> Inr u)"

definition recipient_of :: "(string \<times> json) list \<Rightarrow> py_error + uuid" where
  "recipient_of payload =
     (case (case map_of payload ''recipient_user_id'' of
              Some v \<Rightarrow> Some v | None \<Rightarrow> map_of payload ''user_id'') of
        Some (JStr raw) \<Rightarrow> python_uuid raw
      | _ \<Rightarrow> Inl (ValueError ''notification_recipient_missing''))"

definition category_of :: "string \<Rightarrow> py_error + string" where
  "category_of event_type =
     (if List.member security_events event_type \<or> List.member moderation_events event_type
      then Inr ''security''
      else if List.member registration_events event_type \<or> List.member event_events event_type
      then Inr ''event''
      else if List.member community_events event_type \<or> event_type = ''club.announcement_published''
      then Inr ''community''
      else if event_type = ''event.update_published'' then Inr ''event''
      else Inl (ValueError ''unsupported_notification_event''))"

definition safe_parameters :: "(string \<times> json) list \<Rightarrow> (string \<times> json) list" where
  "safe_parameters payload = filter (\<lambda>(key, _). List.member safe_parameter_keys key) payload"

fun source_from :: "(string \<times> string) list \<Rightarrow> (string \<times> json) list \<Rightarrow> (py_error + string \<times> uuid) option" where
  "source_from [] parameters = None"
| "source_from ((key, source_type) # sources) parameters =
     (case map_of parameters key of
        Some (JStr raw) \<Rightarrow> Some (res_bind (python_uuid raw) (\<lambda>u. Inr (source_type, u)))
      | _ \<Rightarrow> source_from sources parameters)"

definition source_of :: "outbox_row \<Rightarrow> (string \<times> json) list \<Rightarrow> py_error + string \<times> uuid" where
  "source_of e parameters =
     (case source_from [(''registration_id'', ''registration''), (''event_id'', ''event''),
        (''club_id'', ''club''), (''case_id'', ''moderation_case'')] parameters of
        Some r \<Rightarrow> r
      | None \<Rightarrow> Inr (ob_aggregate_type e, ob_aggregate_id e))"

definition action_path_of :: "(string \<times> json) list \<Rightarrow> string option" where
  "action_path_of parameters =
     (case map_of parameters ''event_id'' of
        Some (JStr event_id) \<Rightarrow> Some (''/events/'' @ event_id)
      | _ \<Rightarrow> (case map_of parameters ''club_id'' of
          Some (JStr club_id) \<Rightarrow> Some (''/clubs/'' @ club_id)
        | _ \<Rightarrow> None))"

subsection \<open>The repository\<close>

text \<open>\<open>COALESCE(..., true)\<close> over a \<open>LEFT JOIN\<close> of the profile.\<close>

definition preferences_in :: "db \<Rightarrow> uuid \<Rightarrow> notification_preferences option" where
  "preferences_in d user_id =
     (if row_exists (\<lambda>u. us_id u = user_id) (t_users d)
      then Some (case one_or_none (\<lambda>p. pr_user_id p = user_id) (t_profiles d) of
          None \<Rightarrow> \<lparr>np_security_email = True, np_event_email = True, np_community_email = True\<rparr>
        | Some p \<Rightarrow> \<lparr>np_security_email = True, np_event_email = pr_notify_event_email p,
            np_community_email = pr_notify_community_email p\<rparr>)
      else None)"

definition preferences :: "uuid \<Rightarrow> notification_preferences option txn" where
  "preferences user_id = tx_query (\<lambda>d. preferences_in d user_id)"

definition email_allowed :: "notification_preferences \<Rightarrow> string \<Rightarrow> bool" where
  "email_allowed p category =
     (if category = ''security'' then np_security_email p
      else if category = ''event'' then np_event_email p
      else np_community_email p)"

definition notification_checks :: "notification_row \<Rightarrow> (string \<times> bool) list" where
  "notification_checks n =
     [(''notifications_type_key_check'', action_pattern (nt_type_key n)),
      (''notifications_action_path_check'', case nt_action_path n of None \<Rightarrow> True
         | Some s \<Rightarrow> take 1 s = ''/'')]"

definition notification_keys :: "db \<Rightarrow> notification_row \<Rightarrow> (string \<times> bool) list" where
  "notification_keys d n =
     [(''notifications_pkey'', \<not> row_exists (\<lambda>x. nt_id x = nt_id n) (t_notifications d)),
      (''notifications_recipient_user_id_fkey'',
         row_exists (\<lambda>u. us_id u = nt_recipient_user_id n) (t_users d)),
      (''fk_notifications_outbox_event'', case nt_outbox_event_id n of None \<Rightarrow> True
         | Some i \<Rightarrow> row_exists (\<lambda>r. ob_id r = i) (t_outbox_events d))]"

text \<open>\<open>INSERT ... ON CONFLICT (outbox_event_id) WHERE outbox_event_id IS NOT NULL DO NOTHING RETURNING id\<close>\<close>

definition insert_notification :: "notification_row \<Rightarrow> uuid option txn" where
  "insert_notification n =
     tx_bind fresh_uuid (\<lambda>i.
     tx_bind clock_timestamp (\<lambda>now.
     tx_bind (tx_query id) (\<lambda>d.
     let row = n\<lparr>nt_id := i, nt_created_at := now\<rparr> in
     tx_bind (check_constraints (notification_checks row)) (\<lambda>_.
     if nt_outbox_event_id n \<noteq> None
        \<and> row_exists (\<lambda>x. nt_outbox_event_id x = nt_outbox_event_id n) (t_notifications d)
     then tx_return None
     else
       tx_bind (check_constraints (notification_keys d row)) (\<lambda>_.
       tx_bind (tx_modify (\<lambda>d. d\<lparr>t_notifications := t_notifications d @ [row]\<rparr>)) (\<lambda>_.
       tx_return (Some i)))))))"

definition insert_delivery ::
  "uuid \<Rightarrow> notification_channel \<Rightarrow> delivery_status \<Rightarrow> instant option \<Rightarrow> uuid txn" where
  "insert_delivery notification_id channel status delivered_at =
     tx_bind fresh_uuid (\<lambda>i.
     tx_bind clock_timestamp (\<lambda>now.
     tx_bind (tx_query id) (\<lambda>d.
     tx_bind (check_constraints
       [(''notification_deliveries_pkey'', \<not> row_exists (\<lambda>x. dl_id x = i) (t_notification_deliveries d)),
        (''uq_notification_delivery_channel'', \<not> row_exists (\<lambda>x. dl_notification_id x = notification_id
           \<and> dl_channel x = channel) (t_notification_deliveries d)),
        (''ck_notification_delivery_delivered'', status \<noteq> Delivered \<or> delivered_at \<noteq> None)]) (\<lambda>_.
     tx_bind (tx_modify (\<lambda>d. d\<lparr>t_notification_deliveries := t_notification_deliveries d
       @ [\<lparr>dl_id = i, dl_notification_id = notification_id, dl_channel = channel, dl_status = status,
           dl_attempt_count = 0, dl_next_attempt_at = None, dl_provider_message_id = None,
           dl_last_error_code = None, dl_processing_started_at = None, dl_delivered_at = delivered_at,
           dl_created_at = now\<rparr>]\<rparr>)) (\<lambda>_.
     tx_return i)))))"

definition locale_hint_of :: "(string \<times> json) list \<Rightarrow> string" where
  "locale_hint_of payload =
     (case map_of payload ''locale_hint'' of
        Some (JStr s) \<Rightarrow> if List.member [''ar'', ''en'', ''fr'', ''tr''] s then s else ''en''
      | _ \<Rightarrow> ''en'')"

definition insert_email_intent :: "uuid \<Rightarrow> (string \<times> json) list \<Rightarrow> unit txn" where
  "insert_email_intent delivery_id payload =
     tx_bind (case map_of payload ''auth_token_id'' of
         Some (JStr raw) \<Rightarrow> (case parse_uuid raw of
             None \<Rightarrow> tx_raise (DataError ''invalid input syntax for type uuid'')
           | Some u \<Rightarrow> tx_return (Some u))
       | _ \<Rightarrow> tx_return None) (\<lambda>auth_token_id.
     tx_bind (tx_query id) (\<lambda>d.
     tx_bind (check_constraints [(''email_delivery_intents_pkey'',
       \<not> row_exists (\<lambda>x. ei_delivery_id x = delivery_id) (t_email_delivery_intents d))]) (\<lambda>_.
     tx_modify (\<lambda>d. d\<lparr>t_email_delivery_intents := t_email_delivery_intents d
       @ [\<lparr>ei_delivery_id = delivery_id, ei_auth_token_id = auth_token_id,
           ei_locale_hint = locale_hint_of payload\<rparr>]\<rparr>))))"

text \<open>The notification that \<open>project\<close> inserts, and the deliveries of its channels.\<close>

definition new_notification ::
  "outbox_row \<Rightarrow> uuid \<Rightarrow> string \<Rightarrow> (string \<times> json) list \<Rightarrow> string option \<Rightarrow> string \<times> uuid \<Rightarrow> notification_row" where
  "new_notification e recipient category parameters action_path source =
     \<lparr>nt_id = 0, nt_recipient_user_id = recipient,
      nt_type_key = ob_event_type e, nt_title_key = ''notifications.'' @ category @ ''.title'',
      nt_body_key = ''notifications.'' @ ob_event_type e @ ''.body'',
      nt_parameters = parameters, nt_action_path = action_path,
      nt_source_type = Some (fst source), nt_source_id = Some (snd source), nt_read_at = None,
      nt_outbox_event_id = Some (ob_id e), nt_created_at = 0\<rparr>"

definition deliver_channels ::
  "notification_preferences \<Rightarrow> string \<Rightarrow> (string \<times> json) list \<Rightarrow> uuid \<Rightarrow> unit txn" where
  "deliver_channels prefs category payload notification_id =
     tx_bind clock_timestamp (\<lambda>now.
     tx_bind (insert_delivery notification_id InApp Delivered (Some now)) (\<lambda>_.
     if email_allowed prefs category
     then tx_bind (insert_delivery notification_id Email Pending None) (\<lambda>delivery_id.
          insert_email_intent delivery_id payload)
     else tx_return ()))"

definition project_notification ::
  "outbox_row \<Rightarrow> uuid \<Rightarrow> string \<Rightarrow> (string \<times> json) list \<Rightarrow> string option \<Rightarrow> string \<times> uuid \<Rightarrow> bool txn" where
  "project_notification e recipient category parameters action_path source =
     tx_bind (preferences recipient) (\<lambda>found. case found of
       None \<Rightarrow> tx_return False
     | Some prefs \<Rightarrow>
         tx_bind (insert_notification
           (new_notification e recipient category parameters action_path source)) (\<lambda>inserted. case inserted of
           None \<Rightarrow> tx_return False
         | Some notification_id \<Rightarrow>
             tx_bind (deliver_channels prefs category (ob_payload e) notification_id) (\<lambda>_.
             tx_return True)))"

text \<open>\<open>NotificationProjectionHandler.deliver\<close>, in a transaction of its own.\<close>

definition deliver_notification :: "outbox_row \<Rightarrow> unit txn" where
  "deliver_notification e =
     tx_bind (tx_lift (recipient_of (ob_payload e))) (\<lambda>recipient.
     tx_bind (tx_lift (category_of (ob_event_type e))) (\<lambda>category.
     let parameters = safe_parameters (ob_payload e) in
     tx_bind (tx_lift (source_of e parameters)) (\<lambda>source.
     tx_bind (project_notification e recipient category parameters (action_path_of parameters) source)
       (\<lambda>_. tx_return ()))))"

subsection \<open>The inbox\<close>

definition list_notifications ::
  "uuid \<Rightarrow> int \<Rightarrow> (instant \<times> uuid) option \<Rightarrow> notification_row list txn" where
  "list_notifications user_id limit after = tx_query (\<lambda>d. take (nat limit) (rev (select_by
     (\<lambda>n. (nt_created_at n, nt_id n))
     (\<lambda>n. nt_recipient_user_id n = user_id \<and> (case after of None \<Rightarrow> True
        | Some c \<Rightarrow> (nt_created_at n, nt_id n) < c)) (t_notifications d))))"

definition unread_count :: "uuid \<Rightarrow> int txn" where
  "unread_count user_id = tx_query (\<lambda>d. count_where
     (\<lambda>n. nt_recipient_user_id n = user_id \<and> nt_read_at n = None) (t_notifications d))"

definition get_notification :: "uuid \<Rightarrow> uuid \<Rightarrow> notification_row option txn" where
  "get_notification user_id notification_id = tx_query (\<lambda>d. one_or_none
     (\<lambda>n. nt_id n = notification_id \<and> nt_recipient_user_id n = user_id) (t_notifications d))"

definition mark_read :: "uuid \<Rightarrow> uuid \<Rightarrow> instant \<Rightarrow> bool txn" where
  "mark_read user_id notification_id now =
     tx_bind (tx_query t_notifications) (\<lambda>rows.
     let P = (\<lambda>n. nt_id n = notification_id \<and> nt_recipient_user_id n = user_id) in
     tx_bind (tx_modify (\<lambda>d. d\<lparr>t_notifications := update_where P
       (\<lambda>n. n\<lparr>nt_read_at := (case nt_read_at n of None \<Rightarrow> Some now | Some t \<Rightarrow> Some t)\<rparr>) rows\<rparr>)) (\<lambda>_.
     tx_return (row_exists P rows)))"

definition mark_all_read :: "uuid \<Rightarrow> instant \<Rightarrow> int txn" where
  "mark_all_read user_id now =
     tx_bind (tx_query t_notifications) (\<lambda>rows.
     let P = (\<lambda>n. nt_recipient_user_id n = user_id \<and> nt_read_at n = None) in
     tx_bind (tx_modify (\<lambda>d. d\<lparr>t_notifications := update_where P
       (\<lambda>n. n\<lparr>nt_read_at := Some now\<rparr>) rows\<rparr>)) (\<lambda>_.
     tx_return (count_where P rows)))"

definition update_preferences :: "uuid \<Rightarrow> bool \<Rightarrow> bool \<Rightarrow> notification_preferences option txn" where
  "update_preferences user_id event_email community_email =
     tx_bind (tx_query t_profiles) (\<lambda>rows.
     let P = (\<lambda>p. pr_user_id p = user_id) in
     tx_bind (tx_modify (\<lambda>d. d\<lparr>t_profiles := update_where P
       (\<lambda>p. p\<lparr>pr_notify_event_email := event_email, pr_notify_community_email := community_email\<rparr>)
       rows\<rparr>)) (\<lambda>_.
     if row_exists P rows then preferences user_id else tx_return None))"

subsection \<open>What a delivery does\<close>

lemma insert_notification_cases:
  assumes "insert_notification n d = Inr (res, d')" "nt_outbox_event_id n = Some i"
  obtains (conflict) "res = None" "\<exists>x \<in> set (t_notifications d). nt_outbox_event_id x = Some i"
      "\<exists>a b. d' = d\<lparr>entropy_pos := a, clock_pos := b\<rparr>"
  | (inserted) u t where "res = Some u" "\<forall>x \<in> set (t_notifications d). nt_outbox_event_id x \<noteq> Some i"
      "d' = d\<lparr>t_notifications := t_notifications d @ [n\<lparr>nt_id := u, nt_created_at := t\<rparr>],
         entropy_pos := Suc (entropy_pos d), clock_pos := Suc (clock_pos d)\<rparr>"
proof -
  obtain u d1 where u: "fresh_uuid d = Inr (u, d1)"
    and rest: "tx_bind clock_timestamp (\<lambda>now.
     tx_bind (tx_query id) (\<lambda>d.
     let row = n\<lparr>nt_id := u, nt_created_at := now\<rparr> in
     tx_bind (check_constraints (notification_checks row)) (\<lambda>_.
     if nt_outbox_event_id n \<noteq> None
        \<and> row_exists (\<lambda>x. nt_outbox_event_id x = nt_outbox_event_id n) (t_notifications d)
     then tx_return None
     else
       tx_bind (check_constraints (notification_keys d row)) (\<lambda>_.
       tx_bind (tx_modify (\<lambda>d. d\<lparr>t_notifications := t_notifications d @ [row]\<rparr>)) (\<lambda>_.
       tx_return (Some u)))))) d1 = Inr (res, d')"
    using assms(1) unfolding insert_notification_def by (rule tx_bindE)
  have d1: "d1 = d\<lparr>entropy_pos := Suc (entropy_pos d)\<rparr>" using u by (simp add: fresh_uuid_eq)
  show ?thesis
  proof (cases "\<exists>x \<in> set (t_notifications d). nt_outbox_event_id x = Some i")
    case True
    then have "res = None \<and> d' = d\<lparr>entropy_pos := Suc (entropy_pos d), clock_pos := Suc (clock_pos d)\<rparr>"
      using rest assms(2) unfolding d1
      by (auto simp: tx_bind_eq clock_timestamp_eq tx_query_eq check_constraints_eq tx_return_eq Let_def
          row_exists_iff)
    then show ?thesis using conflict True by blast
  next
    case False
    then have "res = Some u \<and> d' = d\<lparr>t_notifications := t_notifications d
         @ [n\<lparr>nt_id := u, nt_created_at := clock_at d (clock_pos d)\<rparr>],
         entropy_pos := Suc (entropy_pos d), clock_pos := Suc (clock_pos d)\<rparr>"
      using rest assms(2) unfolding d1
      by (auto simp: tx_bind_eq clock_timestamp_eq tx_query_eq check_constraints_eq tx_return_eq Let_def
          row_exists_iff tx_modify_eq)
    then show ?thesis using inserted False by blast
  qed
qed

lemma insert_delivery_effect:
  assumes "insert_delivery n ch st at' d = Inr (i, d')"
  obtains x a b where "d' = d\<lparr>entropy_pos := a, clock_pos := b,
      t_notification_deliveries := t_notification_deliveries d @ [x]\<rparr>"
    "dl_id x = i" "dl_notification_id x = n" "dl_channel x = ch" "dl_status x = st"
  using assms by (auto simp: insert_delivery_def tx_simps)

lemma insert_intent_effect:
  assumes "insert_email_intent i p d = Inr (u, d')"
  obtains x where "d' = d\<lparr>t_email_delivery_intents := t_email_delivery_intents d @ [x]\<rparr>"
    "ei_delivery_id x = i" "ei_locale_hint x = locale_hint_of p"
  using assms
  by (auto simp: insert_email_intent_def tx_simps split: option.splits json.splits)

lemma channels_effect:
  assumes "deliver_channels prefs c p i d = Inr (u, d')"
  obtains app mails intents a b where
    "dl_notification_id app = i" "dl_channel app = InApp" "dl_status app = Delivered"
    "if email_allowed prefs c
     then \<exists>m t. mails = [m] \<and> dl_notification_id m = i \<and> dl_channel m = Email
       \<and> dl_status m = Pending \<and> intents = [t] \<and> ei_delivery_id t = dl_id m
     else mails = [] \<and> intents = []"
    "d' = d\<lparr>entropy_pos := a, clock_pos := b,
       t_notification_deliveries := t_notification_deliveries d @ app # mails,
       t_email_delivery_intents := t_email_delivery_intents d @ intents\<rparr>"
proof -
  obtain t1 d2 x d3 where cl: "clock_timestamp d = Inr (t1, d2)"
    and ia: "insert_delivery i InApp Delivered (Some t1) d2 = Inr (x, d3)"
    and rest: "(if email_allowed prefs c
     then tx_bind (insert_delivery i Email Pending None) (\<lambda>k. insert_email_intent k p)
     else tx_return ()) d3 = Inr (u, d')"
    using assms unfolding deliver_channels_def by (elim tx_bindE)
  have d2: "d2 = d\<lparr>clock_pos := Suc (clock_pos d)\<rparr>" using cl by (simp add: clock_timestamp_eq)
  from ia obtain app k m where app: "d3 = d2\<lparr>entropy_pos := k, clock_pos := m,
      t_notification_deliveries := t_notification_deliveries d2 @ [app]\<rparr>"
    "dl_notification_id app = i" "dl_channel app = InApp" "dl_status app = Delivered"
    by (rule insert_delivery_effect)
  show thesis
  proof (cases "email_allowed prefs c")
    case False
    then have "d' = d3" using rest by (simp add: tx_return_eq)
    then show thesis
      using False app by (intro that [where app = app and mails = "[]" and intents = "[]" and a = k and b = m]) (simp_all add: d2)
  next
    case True
    then have "tx_bind (insert_delivery i Email Pending None) (\<lambda>k. insert_email_intent k p) d3
        = Inr (u, d')" using rest by simp
    then obtain j d5 where b: "insert_delivery i Email Pending None d3 = Inr (j, d5)"
      "insert_email_intent j p d5 = Inr (u, d')" by (rule tx_bindE)
    from b(1) obtain mail k5 m5 where mail: "d5 = d3\<lparr>entropy_pos := k5, clock_pos := m5,
        t_notification_deliveries := t_notification_deliveries d3 @ [mail]\<rparr>"
      "dl_id mail = j" "dl_notification_id mail = i" "dl_channel mail = Email" "dl_status mail = Pending"
      by (rule insert_delivery_effect)
    from b(2) obtain it where it: "d' = d5\<lparr>t_email_delivery_intents := t_email_delivery_intents d5 @ [it]\<rparr>"
      "ei_delivery_id it = j" by (rule insert_intent_effect)
    show thesis
      using True app mail it by (intro that [where app = app and mails = "[mail]" and intents = "[it]" and a = k5 and b = m5]) (simp_all add: d2)
  qed
qed

lemma bind_query: "tx_bind (tx_query q) f d = f (q d) d"
  by (simp add: tx_bind_def tx_query_def)

lemma project_notification_known:
  "preferences_in d r = Some prefs \<Longrightarrow>
     project_notification e r c ps ap s d =
       tx_bind (insert_notification (new_notification e r c ps ap s)) (\<lambda>inserted. case inserted of
           None \<Rightarrow> tx_return False
         | Some i \<Rightarrow> tx_bind (deliver_channels prefs c (ob_payload e) i) (\<lambda>_. tx_return True)) d"
  by (simp add: project_notification_def preferences_def bind_query)

lemma deliver_steps:
  assumes "deliver_notification e d = Inr (u, d')"
  obtains r c s ok where "recipient_of (ob_payload e) = Inr r" "category_of (ob_event_type e) = Inr c"
    "project_notification e r c (safe_parameters (ob_payload e))
      (action_path_of (safe_parameters (ob_payload e))) s d = Inr (ok, d')"
  using assms
  unfolding deliver_notification_def Let_def by (elim tx_bindE) (auto simp: tx_lift_eq tx_return_eq)

lemma deliver_cases:
  assumes "deliver_notification e d = Inr (u, d')"
  obtains (nobody) r where "recipient_of (ob_payload e) = Inr r" "preferences_in d r = None" "d' = d"
  | (again) r a b where "recipient_of (ob_payload e) = Inr r" "d' = d\<lparr>entropy_pos := a, clock_pos := b\<rparr>"
      "\<exists>x \<in> set (t_notifications d). nt_outbox_event_id x = Some (ob_id e)"
  | (created) r prefs c n app mails intents a b where
      "recipient_of (ob_payload e) = Inr r" "preferences_in d r = Some prefs"
      "category_of (ob_event_type e) = Inr c"
      "\<forall>x \<in> set (t_notifications d). nt_outbox_event_id x \<noteq> Some (ob_id e)"
      "nt_recipient_user_id n = r" "nt_outbox_event_id n = Some (ob_id e)"
      "nt_type_key n = ob_event_type e" "nt_parameters n = safe_parameters (ob_payload e)"
      "nt_read_at n = None"
      "dl_notification_id app = nt_id n" "dl_channel app = InApp" "dl_status app = Delivered"
      "if email_allowed prefs c
       then \<exists>m t. mails = [m] \<and> dl_notification_id m = nt_id n \<and> dl_channel m = Email
         \<and> dl_status m = Pending \<and> intents = [t] \<and> ei_delivery_id t = dl_id m
       else mails = [] \<and> intents = []"
      "d' = d\<lparr>t_notifications := t_notifications d @ [n], entropy_pos := a, clock_pos := b,
         t_notification_deliveries := t_notification_deliveries d @ app # mails,
         t_email_delivery_intents := t_email_delivery_intents d @ intents\<rparr>"
proof -
  from assms obtain r c s ok where r: "recipient_of (ob_payload e) = Inr r"
    and c: "category_of (ob_event_type e) = Inr c"
    and p: "project_notification e r c (safe_parameters (ob_payload e))
      (action_path_of (safe_parameters (ob_payload e))) s d = Inr (ok, d')" by (rule deliver_steps)
  show ?thesis
  proof (cases "preferences_in d r")
    case None
    then have "d' = d" using p
      by (simp add: project_notification_def preferences_def tx_bind_eq tx_query_eq tx_return_eq)
    then show ?thesis using nobody r None by blast
  next
    case (Some prefs)
    let ?n = "new_notification e r c (safe_parameters (ob_payload e))
      (action_path_of (safe_parameters (ob_payload e))) s"
    have n: "nt_outbox_event_id ?n = Some (ob_id e)" by (simp add: new_notification_def)
    obtain ins d1 where i: "insert_notification ?n d = Inr (ins, d1)"
      and rest: "(case ins of None \<Rightarrow> tx_return False
         | Some i \<Rightarrow> tx_bind (deliver_channels prefs c (ob_payload e) i) (\<lambda>_. tx_return True)) d1
         = Inr (ok, d')"
      using p unfolding project_notification_known [OF Some] by (rule tx_bindE)
    from i n show ?thesis
    proof (cases rule: insert_notification_cases)
      case conflict
      then have "d' = d1" using rest by (simp add: tx_return_eq)
      then show ?thesis using again r conflict(2,3) by blast
    next
      case (inserted v t)
      then obtain w where "deliver_channels prefs c (ob_payload e) v d1 = Inr (w, d')"
        using rest by (auto simp: tx_bind_eq tx_return_eq)
      then obtain app mails intents a b where ch: "dl_notification_id app = v" "dl_channel app = InApp"
        "dl_status app = Delivered"
        "if email_allowed prefs c then \<exists>m t. mails = [m] \<and> dl_notification_id m = v \<and> dl_channel m = Email
          \<and> dl_status m = Pending \<and> intents = [t] \<and> ei_delivery_id t = dl_id m
         else mails = [] \<and> intents = []"
        "d' = d1\<lparr>entropy_pos := a, clock_pos := b,
          t_notification_deliveries := t_notification_deliveries d1 @ app # mails,
          t_email_delivery_intents := t_email_delivery_intents d1 @ intents\<rparr>" by (rule channels_effect)
      show ?thesis
        by (rule created [OF r Some c inserted(2), where n = "?n\<lparr>nt_id := v, nt_created_at := t\<rparr>" and app = app
             and mails = mails and intents = intents and a = a and b = b])
           (use ch in \<open>auto simp: new_notification_def inserted(3) split: if_splits\<close>)
    qed
  qed
qed

subsection \<open>One notification per event\<close>

lemma preferences_in_cong:
  "t_users d' = t_users d \<Longrightarrow> t_profiles d' = t_profiles d \<Longrightarrow> preferences_in d' r = preferences_in d r"
  by (simp add: preferences_in_def)

definition notified :: "db \<Rightarrow> outbox_row \<Rightarrow> notification_row list" where
  "notified d e = filter (\<lambda>n. nt_outbox_event_id n = Some (ob_id e)) (t_notifications d)"

lemma notified_Nil: "notified d e = [] \<longleftrightarrow> (\<forall>x \<in> set (t_notifications d). nt_outbox_event_id x \<noteq> Some (ob_id e))"
  by (simp add: notified_def filter_empty_conv)

lemma deliver_grows [outbox_keeps]: "tx_keeps outbox_grows (deliver_notification e)"
  by (rule tx_keepsI, rule outbox_untouched) (auto elim: deliver_cases)

text \<open>C17. Projection is idempotent. After the handler has delivered an event, delivering it again,
  which the worker does when its lease ran out or the completion was lost, adds no notification, no
  delivery and no email intent, and an event never has two notifications.\<close>

theorem notification_delivered_once:
  assumes first: "deliver_notification e d = Inr (u, d1)"
    and again: "deliver_notification e d1 = Inr (v, d2)"
    and one: "length (notified d e) \<le> 1"
  shows "t_notifications d2 = t_notifications d1
    \<and> t_notification_deliveries d2 = t_notification_deliveries d1
    \<and> t_email_delivery_intents d2 = t_email_delivery_intents d1
    \<and> length (notified d2 e) \<le> 1"
proof -
  have len: "length (notified d1 e) \<le> 1"
    using first by (cases rule: deliver_cases) (use one in \<open>auto simp: notified_def filter_empty_conv\<close>)
  from first show ?thesis
  proof (cases rule: deliver_cases)
    case nobody
    from again show ?thesis using nobody len by (cases rule: deliver_cases) (auto simp: notified_def)
  next
    case again': again
    from again show ?thesis using again' len by (cases rule: deliver_cases) (auto simp: notified_def)
  next
    case (created r prefs c n)
    then have "\<exists>x \<in> set (t_notifications d1). nt_outbox_event_id x = Some (ob_id e)" by auto
    from again this show ?thesis
    proof (cases rule: deliver_cases)
      case (nobody r')
      then show ?thesis using len by (simp add: notified_def)
    qed (use len in \<open>auto simp: notified_def\<close>)
  qed
qed

definition confirmed_event :: outbox_row where
  "confirmed_event = \<lparr>ob_id = example_id 60, ob_aggregate_type = ''registration'',
     ob_aggregate_id = example_id 51, ob_event_type = ''registration.confirmed'',
     ob_payload = [(''event_id'', JStr ''00000000-0000-7000-8000-000000000014''),
       (''user_id'', JStr ''00000000-0000-7000-8000-000000000003''),
       (''email'', JStr ''member'')],
     ob_deduplication_key = ''registration:1'', ob_status = Processing, ob_attempt_count = 1,
     ob_available_at = 0, ob_locked_until = Some 60, ob_locked_by = Some ''w'',
     ob_last_error_code = None, ob_processed_at = None, ob_created_at = 0\<rparr>"

definition notice_db :: db where
  "notice_db = example_db\<lparr>t_outbox_events := [confirmed_event]\<rparr>"

definition result_db :: "py_error + 'a \<times> db \<Rightarrow> db" where
  "result_db r = (case r of Inr (_, d) \<Rightarrow> d | Inl _ \<Rightarrow> empty_db example_entropy example_clock)"

lemma result_dbI: "\<exists>x. r = Inr (x, d') \<Longrightarrow> result_db r = d'"
  by (auto simp: result_db_def)

theorem notification_delivered_once_witness:
  "length (notified (result_db (deliver_notification confirmed_event notice_db)) confirmed_event) = 1
    \<and> t_notifications (result_db (deliver_notification confirmed_event
        (result_db (deliver_notification confirmed_event notice_db))))
      = t_notifications (result_db (deliver_notification confirmed_event notice_db))"
proof -
  let ?d1 = "result_db (deliver_notification confirmed_event notice_db)"
  let ?d2 = "result_db (deliver_notification confirmed_event ?d1)"
  have "isl (deliver_notification confirmed_event notice_db) = False" by code_simp
  then have a: "deliver_notification confirmed_event notice_db = Inr ((), ?d1)"
    by (cases "deliver_notification confirmed_event notice_db") (auto simp: result_db_def)
  have "isl (deliver_notification confirmed_event ?d1) = False" by code_simp
  then have b: "deliver_notification confirmed_event ?d1 = Inr ((), ?d2)"
    by (cases "deliver_notification confirmed_event ?d1") (auto simp: result_db_def)
  have l: "length (notified notice_db confirmed_event) \<le> 1" "length (notified ?d1 confirmed_event) = 1"
    by code_simp+
  from notification_delivered_once [OF a b l(1)] l(2) show ?thesis by blast
qed

text \<open>C29. The notification of an event goes to the user the payload names and to nobody else, starts
  unread, carries only the parameters that are safe to show (no address, token or name), is
  delivered in the application at once and, exactly when that user allows it, queued as an email;
  security notices are always queued.\<close>

theorem delivered_notification_is_minimal:
  assumes "deliver_notification e d = Inr (u, d')"
    and new: "notified d e = []"
    and r: "recipient_of (ob_payload e) = Inr r" and p: "preferences_in d r = Some prefs"
  shows "\<exists>n app mails c. t_notifications d' = t_notifications d @ [n]
    \<and> nt_recipient_user_id n = r \<and> nt_read_at n = None
    \<and> set (nt_parameters n) \<subseteq> set (ob_payload e) \<and> fst ` set (nt_parameters n) \<subseteq> set safe_parameter_keys
    \<and> category_of (ob_event_type e) = Inr c
    \<and> t_notification_deliveries d' = t_notification_deliveries d @ app # mails
    \<and> (\<forall>m \<in> set (app # mails). dl_notification_id m = nt_id n)
    \<and> dl_channel app = InApp \<and> dl_status app = Delivered
    \<and> map dl_channel mails = (if email_allowed prefs c then [Email] else [])
    \<and> (c = ''security'' \<longrightarrow> mails \<noteq> [])
    \<and> t_users d' = t_users d \<and> t_profiles d' = t_profiles d \<and> t_outbox_events d' = t_outbox_events d"
  using assms(1)
proof (cases rule: deliver_cases)
  case nobody
  then show ?thesis using r p by simp
next
  case again
  then show ?thesis using new by (simp add: notified_Nil)
next
  case (created r' prefs' c n app mails intents)
  then have same: "r' = r" "prefs' = prefs" using r p by simp_all
  have "c = ''security'' \<Longrightarrow> email_allowed prefs c"
    using p by (auto simp: email_allowed_def preferences_in_def split: if_splits option.splits)
  moreover have "set (nt_parameters n) \<subseteq> set (ob_payload e)"
    "fst ` set (nt_parameters n) \<subseteq> set safe_parameter_keys"
    unfolding created(8) by (auto simp: safe_parameters_def)
  moreover have "map dl_channel mails = (if email_allowed prefs c then [Email] else [])
      \<and> (\<forall>m \<in> set mails. dl_notification_id m = nt_id n)"
    using created(13) by (auto simp: same split: if_splits)
  ultimately show ?thesis
    using created(3,5,9-12,14) by (intro exI [of _ n] exI [of _ app] exI [of _ mails] exI [of _ c])
      (auto simp: same)
qed

theorem delivered_notification_is_minimal_witness:
  "\<exists>n. t_notifications (result_db (deliver_notification confirmed_event notice_db)) = [n]
    \<and> nt_recipient_user_id n = example_id 3 \<and> fst ` set (nt_parameters n) \<subseteq> set safe_parameter_keys"
proof -
  let ?d1 = "result_db (deliver_notification confirmed_event notice_db)"
  have "isl (deliver_notification confirmed_event notice_db) = False" by code_simp
  then have a: "deliver_notification confirmed_event notice_db = Inr ((), ?d1)"
    by (cases "deliver_notification confirmed_event notice_db") (auto simp: result_db_def)
  have h: "notified notice_db confirmed_event = []"
    "recipient_of (ob_payload confirmed_event) = Inr (example_id 3)"
    "preferences_in notice_db (example_id 3) = Some \<lparr>np_security_email = True, np_event_email = True,
       np_community_email = True\<rparr>"
    "t_notifications notice_db = []" by code_simp+
  from delivered_notification_is_minimal [OF a h(1-3)] show ?thesis unfolding h(4) by auto
qed

subsection \<open>The inbox is private\<close>

text \<open>Marking everything read clears exactly the caller's unread notifications and reports how many
  there were; marking one read touches at most that notification of the caller and keeps the first
  reading time.\<close>

theorem marking_read_stays_in_the_inbox:
  assumes all: "mark_all_read u now d = Inr (k, d1)" and one: "mark_read u i now d = Inr (b, d2)"
  shows "unread_count u d = Inr (k, d) \<and> unread_count u d1 = Inr (0, d1)
    \<and> (b \<longleftrightarrow> get_notification u i d \<noteq> Inr (None, d))
    \<and> length (t_notifications d1) = length (t_notifications d)
    \<and> length (t_notifications d2) = length (t_notifications d)
    \<and> (\<forall>j < length (t_notifications d). let n = t_notifications d ! j in
        t_notifications d1 ! j = (if nt_recipient_user_id n = u \<and> nt_read_at n = None
          then n\<lparr>nt_read_at := Some now\<rparr> else n)
      \<and> t_notifications d2 ! j = (if nt_recipient_user_id n = u \<and> nt_id n = i \<and> nt_read_at n = None
          then n\<lparr>nt_read_at := Some now\<rparr> else n))"
proof -
  have k: "k = count_where (\<lambda>n. nt_recipient_user_id n = u \<and> nt_read_at n = None) (t_notifications d)"
    and d1: "t_notifications d1 = update_where (\<lambda>n. nt_recipient_user_id n = u \<and> nt_read_at n = None)
      (\<lambda>n. n\<lparr>nt_read_at := Some now\<rparr>) (t_notifications d)"
    using all by (auto simp: mark_all_read_def tx_simps Let_def)
  have b: "b = row_exists (\<lambda>n. nt_id n = i \<and> nt_recipient_user_id n = u) (t_notifications d)"
    and d2: "t_notifications d2 = update_where (\<lambda>n. nt_id n = i \<and> nt_recipient_user_id n = u)
      (\<lambda>n. n\<lparr>nt_read_at := (case nt_read_at n of None \<Rightarrow> Some now | Some t \<Rightarrow> Some t)\<rparr>) (t_notifications d)"
    using one by (auto simp: mark_read_def tx_simps Let_def)
  have zero: "count_where (\<lambda>n. nt_recipient_user_id n = u \<and> nt_read_at n = None) (t_notifications d1) = 0"
    by (auto simp: d1 count_where_def update_where_def filter_empty_conv)
  have each: "\<forall>j < length (t_notifications d). let n = t_notifications d ! j in
        t_notifications d1 ! j = (if nt_recipient_user_id n = u \<and> nt_read_at n = None
          then n\<lparr>nt_read_at := Some now\<rparr> else n)
      \<and> t_notifications d2 ! j = (if nt_recipient_user_id n = u \<and> nt_id n = i \<and> nt_read_at n = None
          then n\<lparr>nt_read_at := Some now\<rparr> else n)"
    by (auto simp: d1 d2 update_where_def Let_def split: option.split)
  show ?thesis
    using each by (simp add: unread_count_def get_notification_def tx_query_def k [symmetric] zero b
        one_or_none_None row_exists_iff) (simp add: d1 d2)
qed

theorem marking_read_stays_in_the_inbox_witness:
  "\<exists>k d1 b d2. mark_all_read (example_id 3) 9 (result_db (deliver_notification confirmed_event notice_db))
      = Inr (k, d1)
    \<and> mark_read (example_id 3) (example_id 100) 9 (result_db (deliver_notification confirmed_event notice_db))
      = Inr (b, d2)
    \<and> unread_count (example_id 3) d1 = Inr (0, d1) \<and> length (t_notifications d2) = 1"
proof -
  let ?d = "result_db (deliver_notification confirmed_event notice_db)"
  obtain k d1 where a: "mark_all_read (example_id 3) 9 ?d = Inr (k, d1)"
    by (simp add: mark_all_read_def tx_run Let_def)
  obtain b d2 where b: "mark_read (example_id 3) (example_id 100) 9 ?d = Inr (b, d2)"
    by (simp add: mark_read_def tx_run Let_def)
  have "length (t_notifications ?d) = 1" by code_simp
  with marking_read_stays_in_the_inbox [OF a b] a b show ?thesis by auto
qed

end
