(* ===== verification/Outbox_Worker.thy ===== *)
theory Outbox_Worker
  imports Notifications Expiry_Worker
begin

section \<open>The outbox worker (talaqi_worker/outbox.py, notifications.py; outbox/service.py)\<close>

text \<open>
  A run claims a batch and hands every event to the handler of its type, in transactions of their
  own. The clock of the worker is the parameter \<open>clock\<close>: what it reads the first, second and third
  time while an event is handled. Durations are exact; \<open>jitter\<close> is the random source, called with
  its ceiling. A handler commits or raises as one transaction, as \<open>deliver_notification\<close> does.
\<close>

type_synonym outbox_handler = "outbox_row \<Rightarrow> unit txn"

record outbox_worker =
  ow_worker_id :: string
  ow_handlers :: "(string \<times> outbox_handler) list"
  ow_lease_duration :: int
  ow_max_attempts :: int
  ow_retry_base :: int
  ow_retry_max :: int

definition mk_outbox_worker ::
  "(string \<times> outbox_handler) list \<Rightarrow> string \<Rightarrow> int \<Rightarrow> int \<Rightarrow> int \<Rightarrow> int \<Rightarrow> py_error + outbox_worker" where
  "mk_outbox_worker handlers worker_id lease_duration max_attempts retry_base retry_max =
     res_bind (res_guard (py_strip worker_id \<noteq> [] \<and> len worker_id \<le> 120)
       (ValueError ''worker_id must be between 1 and 120 characters'')) (\<lambda>_.
     res_bind (res_guard (handlers \<noteq> []) (ValueError ''at least one outbox handler is required'')) (\<lambda>_.
     res_bind (res_guard (0 < lease_duration) (ValueError ''lease_duration must be positive'')) (\<lambda>_.
     res_bind (res_guard (1 \<le> max_attempts \<and> max_attempts \<le> 20)
       (ValueError ''max_attempts must be between 1 and 20'')) (\<lambda>_.
     res_bind (res_guard (0 < retry_base \<and> retry_base \<le> retry_max)
       (ValueError ''retry bounds are invalid'')) (\<lambda>_.
     Inr \<lparr>ow_worker_id = worker_id, ow_handlers = handlers, ow_lease_duration = lease_duration,
       ow_max_attempts = max_attempts, ow_retry_base = retry_base, ow_retry_max = retry_max\<rparr>)))))"

text \<open>\<open>build_notification_worker\<close>: one handler for every supported event type.\<close>

definition notification_handlers :: "(string \<times> outbox_handler) list" where
  "notification_handlers = map (\<lambda>t. (t, deliver_notification)) supported_notification_events"

subsection \<open>Failures\<close>

fun is_permanent_delivery :: "py_error \<Rightarrow> bool" where
  "is_permanent_delivery (PermanentDeliveryError m) = True"
| "is_permanent_delivery _ = False"

definition bounded_backoff :: "outbox_worker \<Rightarrow> int \<Rightarrow> int" where
  "bounded_backoff w attempt_count =
     min (ow_retry_base w * 2 ^ nat (min (max (attempt_count - 1) 0) 10)) (ow_retry_max w)"

definition jittered_backoff :: "outbox_worker \<Rightarrow> (int \<Rightarrow> int) \<Rightarrow> int \<Rightarrow> int" where
  "jittered_backoff w jitter attempt_count =
     (let bounded = bounded_backoff w attempt_count;
          ceiling = min (ow_retry_base w) (max (ow_retry_max w - bounded) 0)
      in bounded + min (max (jitter ceiling) 0) ceiling)"

definition record_failure ::
  "outbox_worker \<Rightarrow> (int \<Rightarrow> int) \<Rightarrow> outbox_row \<Rightarrow> py_error \<Rightarrow> instant \<Rightarrow> instant \<Rightarrow> unit txn" where
  "record_failure w jitter e error now failed_at =
     (case ob_locked_until e of None \<Rightarrow> tx_return ()
      | Some lease \<Rightarrow>
          tx_bind (fail (ob_id e) (ow_worker_id w) (ob_attempt_count e) lease (error_class error)
            (now + jittered_backoff w jitter (ob_attempt_count e)) failed_at
            (is_permanent_delivery error \<or> ow_max_attempts w \<le> ob_attempt_count e))
          (\<lambda>_. tx_return ()))"

subsection \<open>One event\<close>

definition run_outbox_event ::
  "outbox_worker \<Rightarrow> (int \<Rightarrow> int) \<Rightarrow> (uuid \<Rightarrow> nat \<Rightarrow> instant) \<Rightarrow> instant \<Rightarrow> outbox_row \<Rightarrow> bool txn" where
  "run_outbox_event w jitter clock now e =
     tx_catch
       (let claim_now = max now (clock (ob_id e) 0) in
        tx_bind (get_claimed (ob_id e) (ow_worker_id w) claim_now) (\<lambda>claimed. case claimed of
          None \<Rightarrow> tx_return False
        | Some c \<Rightarrow>
            (case map_of (ow_handlers w) (ob_event_type c) of
               None \<Rightarrow> tx_raise (PyException ''KeyError'')
             | Some deliver \<Rightarrow>
                 tx_bind (deliver c) (\<lambda>_.
                 case ob_locked_until c of None \<Rightarrow> tx_return False
                 | Some lease \<Rightarrow> complete (ob_id c) (ow_worker_id w) (ob_attempt_count c) lease
                     (max claim_now (clock (ob_id e) 1))))))
       (\<lambda>error. tx_bind (record_failure w jitter e error now (max now (clock (ob_id e) 2)))
          (\<lambda>_. tx_return False))"

definition run_outbox ::
  "outbox_worker \<Rightarrow> (int \<Rightarrow> int) \<Rightarrow> (uuid \<Rightarrow> nat \<Rightarrow> instant) \<Rightarrow> datetime \<Rightarrow> int \<Rightarrow> int txn" where
  "run_outbox w jitter clock now limit =
     tx_bind (tx_lift (to_utc (ValueError ''worker clock must be timezone-aware'') now)) (\<lambda>current.
     tx_bind (tx_guard (1 \<le> limit \<and> limit \<le> 1000)
       (ValueError ''outbox claim limit must be between 1 and 1000'')) (\<lambda>_.
     tx_bind (claim (ow_worker_id w) (map fst (ow_handlers w)) current (ow_lease_duration w) limit) (\<lambda>events.
     run_each (run_outbox_event w jitter clock current) events)))"

definition run_cleanup :: "datetime \<Rightarrow> int \<Rightarrow> int txn" where
  "run_cleanup before limit =
     tx_bind (tx_lift (to_utc (ValueError ''worker clock must be timezone-aware'') before)) (\<lambda>cutoff.
     tx_bind (tx_guard (1 \<le> limit \<and> limit \<le> 10000)
       (ValueError ''outbox cleanup limit must be between 1 and 10000'')) (\<lambda>_.
     cleanup_delivered cutoff limit))"

subsection \<open>Operations on the dead letters\<close>

definition list_operational :: "delivery_status option \<Rightarrow> string option \<Rightarrow> int \<Rightarrow> outbox_row list txn" where
  "list_operational status event_type limit = tx_query (\<lambda>d. take (nat limit) (rev (select_by
     (\<lambda>r. (ob_created_at r, ob_id r))
     (\<lambda>r. (case status of None \<Rightarrow> True | Some s \<Rightarrow> ob_status r = s)
        \<and> (case event_type of None \<Rightarrow> True | Some t \<Rightarrow> ob_event_type r = t)) (t_outbox_events d))))"

definition get_operational :: "uuid \<Rightarrow> outbox_row option txn" where
  "get_operational event_id = tx_query (\<lambda>d. one_or_none (\<lambda>r. ob_id r = event_id) (t_outbox_events d))"

definition outbox_event_not_found :: py_error where
  "outbox_event_not_found = ApiError ''outbox_event_not_found'' ''errors.not_found'' 404"

definition operations_list ::
  "'z subject_scheme \<Rightarrow> delivery_status option \<Rightarrow> string option \<Rightarrow> int \<Rightarrow> outbox_row list txn" where
  "operations_list p status event_type limit =
     tx_bind (tx_lift (can_access_admin p)) (\<lambda>_. list_operational status event_type limit)"

definition operations_get :: "'z subject_scheme \<Rightarrow> uuid \<Rightarrow> outbox_row txn" where
  "operations_get p event_id =
     tx_bind (tx_lift (can_access_admin p)) (\<lambda>_.
     tx_bind (get_operational event_id) (\<lambda>found. case found of
       None \<Rightarrow> tx_raise outbox_event_not_found | Some e \<Rightarrow> tx_return e))"

fun delivery_status_name :: "delivery_status \<Rightarrow> string" where
  "delivery_status_name Pending = ''pending''"
| "delivery_status_name Processing = ''processing''"
| "delivery_status_name Delivered = ''delivered''"
| "delivery_status_name RetryableFailed = ''retryable_failed''"
| "delivery_status_name PermanentFailed = ''permanent_failed''"

definition operations_retry ::
  "'z subject_scheme \<Rightarrow> uuid \<Rightarrow> string \<Rightarrow> instant \<Rightarrow> uuid \<Rightarrow> outbox_row txn" where
  "operations_retry p event_id reason now request_id =
     tx_bind (tx_lift (can_access_admin p)) (\<lambda>_.
     tx_bind (tx_query (\<lambda>d. active_mfa d (sb_user_id p))) (\<lambda>mfa.
     tx_bind (tx_lift (can_moderate p mfa)) (\<lambda>_.
     let normalized = py_strip reason in
     tx_bind (tx_guard (3 \<le> len normalized) (ApiError ''invalid_reason'' ''errors.validation'' 422)) (\<lambda>_.
     tx_bind (get_operational event_id) (\<lambda>found. case found of
       None \<Rightarrow> tx_raise outbox_event_not_found
     | Some before \<Rightarrow>
         tx_bind (retry_permanent_failure event_id now) (\<lambda>retried. case retried of
           None \<Rightarrow> tx_raise (ApiError ''outbox_retry_conflict'' ''errors.conflict'' 409)
         | Some updated \<Rightarrow>
             tx_bind (audit_record
               \<lparr>ae_actor_user_id = Some (sb_user_id p), ae_actor_kind = Admin, ae_action = ''outbox.retry'',
                ae_target_type = ''outbox_event'', ae_target_id = Some event_id,
                ae_reason = Some normalized,
                ae_safe_before = Some (JObj [(''status'', JStr (delivery_status_name (ob_status before))),
                  (''attempt_count'', JInt (ob_attempt_count before)),
                  (''last_error_code'', (case ob_last_error_code before of None \<Rightarrow> JNull | Some c \<Rightarrow> JStr c)),
                  (''event_type'', JStr (ob_event_type before))]),
                ae_safe_after = Some (JObj [(''status'', JStr (delivery_status_name (ob_status updated))),
                  (''attempt_count'', JInt (ob_attempt_count updated)),
                  (''event_type'', JStr (ob_event_type updated))]),
                ae_request_id = Some request_id\<rparr>) (\<lambda>_.
             tx_return updated)))))))"

subsection \<open>Every claimed event is settled\<close>

definition event_pending :: "outbox_worker \<Rightarrow> outbox_row \<Rightarrow> db \<Rightarrow> bool" where
  "event_pending w e d \<longleftrightarrow> ob_locked_until e \<noteq> None \<and>
     (\<exists>r \<in> set (t_outbox_events d). ob_id r = ob_id e \<and> ob_status r = Processing
        \<and> ob_locked_by r = Some (ow_worker_id w) \<and> ob_attempt_count r = ob_attempt_count e
        \<and> ob_locked_until r = ob_locked_until e)"

text \<open>The event left the worker's hands, or the worker outlived its lease on it.\<close>

definition event_settled :: "(uuid \<Rightarrow> nat \<Rightarrow> instant) \<Rightarrow> instant \<Rightarrow> outbox_row \<Rightarrow> db \<Rightarrow> bool" where
  "event_settled clock now e d \<longleftrightarrow> (\<exists>r \<in> set (t_outbox_events d). ob_id r = ob_id e
     \<and> (row_settled r \<or> (\<exists>lease k. k \<le> 2 \<and> ob_locked_until r = Some lease
          \<and> lease \<le> max now (clock (ob_id e) k))))"

definition only_rewrites :: "uuid \<Rightarrow> db \<Rightarrow> db \<Rightarrow> bool" where
  "only_rewrites i d d' \<longleftrightarrow>
     (\<forall>r \<in> set (t_outbox_events d). ob_id r \<noteq> i \<longrightarrow> r \<in> set (t_outbox_events d'))
     \<and> (outbox_ids_distinct d \<longrightarrow> outbox_ids_distinct d')"

lemma only_rewrites_grows: "outbox_grows d d' \<Longrightarrow> only_rewrites i d d'"
  by (auto simp: only_rewrites_def outbox_grows_def outbox_ids_distinct_def)

lemma only_rewrites_update:
  assumes "update_outbox P f d1 = Inr (b, d')" "outbox_grows d d1"
    "\<And>r. P r \<Longrightarrow> ob_id r = i" "\<And>r. ob_id (f r) = ob_id r"
  shows "only_rewrites i d d'"
proof -
  have rows: "t_outbox_events d' = update_where P f (t_outbox_events d1)"
    using assms(1) by (auto simp: update_outbox_def tx_simps)
  show ?thesis
    using assms(2-4) map_update_where [of P ob_id f "t_outbox_events d1"]
    by (auto simp: rows only_rewrites_def outbox_grows_def outbox_ids_distinct_def set_update_where image_iff
        intro!: bexI)
qed

text \<open>The three ends of an event.\<close>

lemma run_outbox_cases:
  assumes "run_outbox_event w jitter clock now e d = Inr (b, d')"
  obtains (lost) "get_claimed (ob_id e) (ow_worker_id w) (max now (clock (ob_id e) 0)) d = Inr (None, d)" "d' = d"
  | (handled) c h d1 where
      "get_claimed (ob_id e) (ow_worker_id w) (max now (clock (ob_id e) 0)) d = Inr (Some c, d)"
      "map_of (ow_handlers w) (ob_event_type c) = Some h" "h c d = Inr ((), d1)"
      "(case ob_locked_until c of None \<Rightarrow> tx_return False
         | Some lease \<Rightarrow> complete (ob_id c) (ow_worker_id w) (ob_attempt_count c) lease
             (max (max now (clock (ob_id e) 0)) (clock (ob_id e) 1))) d1 = Inr (b, d')"
  | (failed) err where "record_failure w jitter e err now (max now (clock (ob_id e) 2)) d = Inr ((), d')"
proof -
  obtain row where g: "get_claimed (ob_id e) (ow_worker_id w) (max now (clock (ob_id e) 0)) d = Inr (row, d)"
    by (auto simp: get_claimed_def tx_query_def)
  let ?m = "tx_bind (get_claimed (ob_id e) (ow_worker_id w) (max now (clock (ob_id e) 0))) (\<lambda>claimed.
        case claimed of
          None \<Rightarrow> tx_return False
        | Some c \<Rightarrow>
            (case map_of (ow_handlers w) (ob_event_type c) of
               None \<Rightarrow> tx_raise (PyException ''KeyError'')
             | Some deliver \<Rightarrow>
                 tx_bind (deliver c) (\<lambda>_.
                 case ob_locked_until c of None \<Rightarrow> tx_return False
                 | Some lease \<Rightarrow> complete (ob_id c) (ow_worker_id w) (ob_attempt_count c) lease
                     (max (max now (clock (ob_id e) 0)) (clock (ob_id e) 1)))))"
  consider (ok) "?m d = Inr (b, d')"
    | (error) err where "tx_bind (record_failure w jitter e err now (max now (clock (ob_id e) 2)))
        (\<lambda>_. tx_return False) d = Inr (b, d')"
    using assms unfolding run_outbox_event_def Let_def tx_catch_eq by blast
  then show ?thesis
  proof cases
    case error
    then show ?thesis using failed by (auto simp: tx_bind_eq tx_return_eq)
  next
    case ok
    show ?thesis
    proof (cases row)
      case None
      then have "d' = d" using ok g by (simp add: tx_bind_def tx_return_def)
      then show ?thesis using lost g None by simp
    next
      case (Some c)
      then show ?thesis using ok g handled [of c]
        by (cases "map_of (ow_handlers w) (ob_event_type c)") (auto simp: tx_bind_eq tx_raise_eq)
    qed
  qed
qed

locale growing_handlers =
  fixes w :: outbox_worker
  assumes handler_grows: "map_of (ow_handlers w) t = Some h \<Longrightarrow> tx_keeps outbox_grows (h e)"
begin

lemma claimed_id:
  "get_claimed i wid t d = Inr (Some c, d1) \<Longrightarrow> c \<in> set (t_outbox_events d) \<and> ob_id c = i
     \<and> ob_locked_until c \<noteq> None"
  by (auto simp: get_claimed_def tx_query_eq dest!: one_or_none_Some [OF sym] split: option.splits)

lemma event_only_rewrites:
  assumes "run_outbox_event w jitter clock now e d = Inr (b, d')"
  shows "only_rewrites (ob_id e) d d'"
  using assms
proof (cases rule: run_outbox_cases)
  case lost
  then show ?thesis by (simp add: only_rewrites_def)
next
  case (handled c h d1)
  have grows: "outbox_grows d d1" using handler_grows [OF handled(2)] handled(3) by (rule tx_keepsD)
  obtain lease where "ob_locked_until c = Some lease" using claimed_id [OF handled(1)] by blast
  with handled(4) have "complete (ob_id c) (ow_worker_id w) (ob_attempt_count c) lease
     (max (max now (clock (ob_id e) 0)) (clock (ob_id e) 1)) d1 = Inr (b, d')" by simp
  then show ?thesis unfolding complete_def
    by (rule only_rewrites_update [OF _ grows])
       (use claimed_id [OF handled(1)] in \<open>auto simp: holds_lease_def\<close>)
next
  case (failed err)
  then show ?thesis
  proof (cases "ob_locked_until e")
    case None
    then show ?thesis using failed by (simp add: record_failure_def tx_return_eq only_rewrites_def)
  next
    case (Some lease)
    then obtain b' where "fail (ob_id e) (ow_worker_id w) (ob_attempt_count e) lease (error_class err)
        (now + jittered_backoff w jitter (ob_attempt_count e)) (max now (clock (ob_id e) 2))
        (is_permanent_delivery err \<or> ow_max_attempts w \<le> ob_attempt_count e) d = Inr (b', d')"
      using failed by (auto simp: record_failure_def tx_simps)
    then show ?thesis unfolding fail_def
      by (rule only_rewrites_update [OF _ growing.refl]) (auto simp: holds_lease_def)
  qed
qed

lemma event_settles:
  assumes "run_outbox_event w jitter clock now e d = Inr (b, d')"
    and "event_pending w e d" and dist: "outbox_ids_distinct d"
  shows "event_settled clock now e d'"
proof -
  from assms(2) obtain r lease where r: "r \<in> set (t_outbox_events d)" "ob_id r = ob_id e"
    "ob_status r = Processing" "ob_locked_by r = Some (ow_worker_id w)"
    "ob_attempt_count r = ob_attempt_count e" "ob_locked_until r = Some lease" "ob_locked_until e = Some lease"
    unfolding event_pending_def by auto
  have only: "x = r" if "x \<in> set (t_outbox_events d)" "ob_id x = ob_id e" for x
    using dist that r(1,2) unfolding outbox_ids_distinct_def by (auto dest: distinct_key_eq)
  from assms(1) show ?thesis
  proof (cases rule: run_outbox_cases)
    case lost
    have "lease \<le> max now (clock (ob_id e) 0)"
    proof (rule ccontr)
      assume "\<not> ?thesis"
      then have "one_or_none (\<lambda>r. ob_id r = ob_id e \<and> ob_status r = Processing
         \<and> ob_locked_by r = Some (ow_worker_id w) \<and> (case ob_locked_until r of None \<Rightarrow> False
         | Some l \<Rightarrow> l > max now (clock (ob_id e) 0))) (t_outbox_events d) = Some r"
        by (intro one_or_none_unique) (use r in \<open>auto dest!: only\<close>)
      then show False using lost(1) by (simp add: get_claimed_def tx_query_eq)
    qed
    then show ?thesis using r(1,2,6) lost(2) unfolding event_settled_def by (intro bexI [of _ r]) auto
  next
    case (handled c h d1)
    then have c: "c = r" using only claimed_id [OF handled(1)] by blast
    let ?t = "max (max now (clock (ob_id e) 0)) (clock (ob_id e) 1)"
    have "r \<in> set (t_outbox_events d1)"
      using tx_keepsD [OF handler_grows [OF handled(2)] handled(3)] r(1) by (auto simp: outbox_grows_def)
    moreover have rows: "t_outbox_events d' = update_where
        (holds_lease (ob_id e) (ow_worker_id w) (ob_attempt_count e) lease ?t)
        (\<lambda>r. r\<lparr>ob_status := Delivered, ob_processed_at := Some ?t, ob_locked_by := None,
              ob_locked_until := None, ob_last_error_code := None\<rparr>) (t_outbox_events d1)"
      using handled(4) r c by (auto simp: complete_def update_outbox_def tx_simps)
    show ?thesis
    proof (cases "?t < lease")
      case True
      then have "holds_lease (ob_id e) (ow_worker_id w) (ob_attempt_count e) lease ?t r"
        using r by (simp add: holds_lease_def)
      then show ?thesis using \<open>r \<in> set (t_outbox_events d1)\<close> r(2)
        unfolding event_settled_def rows set_update_where
        by (intro bexI [OF _ imageI [of r]]) (auto simp: row_settled_def)
    next
      case False
      then have "\<not> holds_lease (ob_id e) (ow_worker_id w) (ob_attempt_count e) lease ?t r"
        by (simp add: holds_lease_def)
      then have "r \<in> set (t_outbox_events d')"
        using \<open>r \<in> set (t_outbox_events d1)\<close> unfolding rows set_update_where by (auto simp: image_iff intro!: bexI [of _ r])
      moreover have "\<exists>k \<le> 2. lease \<le> max now (clock (ob_id e) k)"
        using False by (cases "lease \<le> max now (clock (ob_id e) 0)") (auto intro: exI [of _ 0] exI [of _ 1])
      ultimately show ?thesis using r(2,6) unfolding event_settled_def by blast
    qed
  next
    case (failed err)
    let ?t = "max now (clock (ob_id e) 2)"
    let ?f = "\<lambda>x. x\<lparr>ob_status := (if is_permanent_delivery err \<or> ow_max_attempts w \<le> ob_attempt_count e
              then PermanentFailed else RetryableFailed),
              ob_available_at := now + jittered_backoff w jitter (ob_attempt_count e), ob_locked_by := None,
              ob_locked_until := None, ob_last_error_code := Some (take 120 (error_class err))\<rparr>"
    have rows: "t_outbox_events d' = update_where
        (holds_lease (ob_id e) (ow_worker_id w) (ob_attempt_count e) lease ?t)
        ?f (t_outbox_events d)"
      using failed r by (auto simp: record_failure_def fail_def update_outbox_def tx_simps)
    show ?thesis
    proof (cases "?t < lease")
      case True
      then have "holds_lease (ob_id e) (ow_worker_id w) (ob_attempt_count e) lease ?t r"
        using r by (simp add: holds_lease_def)
      note held = this
      from r(1) have "(if holds_lease (ob_id e) (ow_worker_id w) (ob_attempt_count e) lease ?t r
          then ?f r else r) \<in> set (t_outbox_events d')" unfolding rows set_update_where by (rule imageI)
      then have "?f r \<in> set (t_outbox_events d')" using held by simp
      then show ?thesis using r(2) unfolding event_settled_def
        by (intro bexI [of _ "?f r"]) (auto simp: row_settled_def)
    next
      case False
      then have "r \<in> set (t_outbox_events d')"
        using r(1) unfolding rows set_update_where by (auto simp: image_iff holds_lease_def intro!: bexI [of _ r])
      then show ?thesis using r(2,6) False unfolding event_settled_def by (intro bexI [of _ r]) (auto intro: exI [of _ 2])
    qed
  qed
qed

end

lemma update_outbox_run:
  "update_outbox P f d = Inr (row_exists P (t_outbox_events d),
     d\<lparr>t_outbox_events := update_where P f (t_outbox_events d)\<rparr>)"
  by (simp add: update_outbox_def tx_bind_def tx_query_def tx_modify_def tx_return_def)

lemma run_outbox_returns: "\<exists>b d'. run_outbox_event w jitter clock now e d = Inr (b, d')"
  unfolding run_outbox_event_def tx_catch_def record_failure_def fail_def Let_def
  by (auto simp: tx_bind_def tx_return_def update_outbox_run split: sum.split option.split)

sublocale growing_handlers \<subseteq> outbox: settling "run_outbox_event w jitter clock now" outbox_ids_distinct
  "event_pending w" "event_settled clock now" ob_id for jitter clock now
proof
  fix d e assume "outbox_ids_distinct d" "event_pending w e d"
  then show "\<exists>b d'. run_outbox_event w jitter clock now e d = Inr (b, d')
      \<and> outbox_ids_distinct d' \<and> event_settled clock now e d'"
    using run_outbox_returns event_settles event_only_rewrites unfolding only_rewrites_def by meson
next
  fix d d' b and i e :: outbox_row
  assume r: "run_outbox_event w jitter clock now e d = Inr (b, d')" and k: "ob_id i \<noteq> ob_id e"
  have "\<forall>r \<in> set (t_outbox_events d). ob_id r \<noteq> ob_id e \<longrightarrow> r \<in> set (t_outbox_events d')"
    using event_only_rewrites [OF r] by (simp add: only_rewrites_def)
  then show "event_pending w i d \<Longrightarrow> event_pending w i d'"
    "event_settled clock now i d \<Longrightarrow> event_settled clock now i d'"
    using k unfolding event_pending_def event_settled_def by metis+
qed

text \<open>The worker of the deployment: every supported event goes to the projection of notifications.\<close>

interpretation notifying: growing_handlers "w\<lparr>ow_handlers := notification_handlers\<rparr>" for w
proof
  fix t h and e :: outbox_row
  assume "map_of (ow_handlers (w\<lparr>ow_handlers := notification_handlers\<rparr>)) t = Some h"
  then have "h = deliver_notification" by (auto simp: notification_handlers_def dest!: map_of_SomeD)
  then show "tx_keeps outbox_grows (h e)" by (simp add: deliver_grows)
qed

lemma claim_pending:
  assumes "claim (ow_worker_id w) types now lease limit d = Inr (evs, d')" "outbox_ids_distinct d"
    and "types \<noteq> []"
  shows "\<forall>e \<in> set evs. event_pending w e d'" "outbox_ids_distinct d'" "distinct (map ob_id evs)"
    "map ob_id evs = map ob_id (due_outbox types now limit (t_outbox_events d))"
proof -
  let ?due = "due_outbox types now limit (t_outbox_events d)"
  let ?lease = "lease_row (ow_worker_id w) (now + lease)"
  let ?P = "\<lambda>r. List.member (map ob_id ?due) (ob_id r)"
  note c = claim_result [OF assms(1,3)]
  have rows: "t_outbox_events d' = update_where ?P ?lease (t_outbox_events d)" using c(2) by simp
  show "outbox_ids_distinct d'"
    using assms(2) map_update_where [of ?P ob_id ?lease "t_outbox_events d"]
    by (simp add: outbox_ids_distinct_def rows)
  show ids: "map ob_id evs = map ob_id ?due" by (simp add: c(1))
  have sub: "set ?due \<subseteq> set (t_outbox_events d)" using in_due_outbox(1) by blast
  have "distinct ?due" "inj_on ob_id (set (t_outbox_events d))"
    using assms(2) unfolding due_outbox_def select_by_def outbox_ids_distinct_def
    by (simp_all add: distinct_map)
  then show "distinct (map ob_id evs)" unfolding ids distinct_map using sub by (auto intro: inj_on_subset)
  show "\<forall>e \<in> set evs. event_pending w e d'"
  proof
    fix e assume "e \<in> set evs"
    then obtain r where r: "r \<in> set ?due" "e = ?lease r" unfolding c(1) by auto
    then have "?P r" by simp
    moreover have "r \<in> set (t_outbox_events d)" using r(1) sub by blast
    ultimately have "?lease r \<in> set (t_outbox_events d')"
      unfolding rows set_update_where by (intro image_eqI [of _ _ r]) simp_all
    then show "event_pending w e d'" unfolding event_pending_def r(2) by (intro conjI bexI [of _ "?lease r"]) simp_all
  qed
qed

text \<open>
  C15. A run of the outbox worker ends every event it claims: it returns, and each event that was due
  is afterwards delivered, waiting for its retry or a dead letter, or the worker has outlived its
  lease, so that another run may claim it again. A handler that raises does not keep the other
  events from being handled.
\<close>

theorem outbox_run_settles_every_claim:
  assumes w: "mk_outbox_worker notification_handlers wid lease attempts base rmax = Inr w"
    and "utc_instant now = Some t" and "1 \<le> limit" "limit \<le> 1000" and dist: "outbox_ids_distinct d"
  shows "\<exists>n d'. run_outbox w jitter clock now limit d = Inr (n, d') \<and>
    (\<forall>e \<in> set (due_outbox supported_notification_events t limit (t_outbox_events d)).
       \<exists>r \<in> set (t_outbox_events d'). ob_id r = ob_id e \<and> (row_settled r \<or>
         (\<exists>until k. ob_locked_until r = Some until \<and> until \<le> max t (clock (ob_id e) k))))"
proof -
  have h: "w = w\<lparr>ow_handlers := notification_handlers\<rparr>" "map fst (ow_handlers w) = supported_notification_events"
    using w by (auto simp: mk_outbox_worker_def res_simps notification_handlers_def comp_def)
  have ne: "supported_notification_events \<noteq> []"
    by (simp add: supported_notification_events_def security_events_def)
  obtain evs d1 where c: "claim (ow_worker_id w) supported_notification_events t (ow_lease_duration w) limit d
      = Inr (evs, d1)" using claim_total by blast
  note p = claim_pending [OF c dist ne]
  from notifying.outbox.run_all_settles [of d1 evs w jitter clock t] obtain n d' where
    r: "run_each (run_outbox_event w jitter clock t) evs d1 = Inr (n, d')"
    "\<forall>e \<in> set evs. event_settled clock t e d'" using p h(1) by metis
  have "\<exists>r \<in> set (t_outbox_events d'). ob_id r = ob_id e \<and> (row_settled r \<or>
         (\<exists>until k. ob_locked_until r = Some until \<and> until \<le> max t (clock (ob_id e) k)))"
    if "e \<in> set (due_outbox supported_notification_events t limit (t_outbox_events d))" for e
  proof -
    have "ob_id e \<in> set (map ob_id evs)" unfolding p(4) using that by simp
    then obtain x where "x \<in> set evs" "ob_id x = ob_id e" by auto
    then show ?thesis using r(2) unfolding event_settled_def by metis
  qed
  moreover have "run_outbox w jitter clock now limit d = Inr (n, d')"
    using assms(2-4) c r(1) h(2)
    by (simp add: run_outbox_def to_utc_def tx_bind_def tx_lift_def tx_guard_def tx_return_def)
  ultimately show ?thesis by blast
qed

theorem outbox_run_settles_every_claim_witness:
  "\<exists>w n d' r. run_outbox w (\<lambda>c. c) (\<lambda>_ k. int k) (Aware 0 0) 10 example_outbox_db = Inr (n, d')
    \<and> r \<in> set (t_outbox_events d') \<and> ob_id r = 7"
proof -
  obtain w where w: "mk_outbox_worker notification_handlers ''w'' 30 8 5 900 = Inr w"
    by (simp add: mk_outbox_worker_def py_strip_def py_lstrip_def py_space_def notification_handlers_def
        supported_notification_events_def security_events_def)
  have due: "due_outbox supported_notification_events 0 10 (t_outbox_events example_outbox_db)
      = [new_outbox_row 7 ''registration'' 2 ''registration.confirmed'' [] ''key'' 0]"
    by (simp add: due_outbox_def select_by_def claimable_def example_outbox_db_def blocked_by_earlier_def
        new_outbox_row_def row_exists_def supported_notification_events_def registration_events_def)
  have "outbox_ids_distinct example_outbox_db"
    by (simp add: outbox_ids_distinct_def example_outbox_db_def)
  from outbox_run_settles_every_claim [OF w _ _ _ this, of "Aware 0 0" 0 10 "\<lambda>c. c" "\<lambda>_ k. int k"] due
  show ?thesis by (auto simp: new_outbox_row_def)
qed

text \<open>
  A failed delivery is retried after at least the retry base and at most the retry maximum,
  whatever the random source yields, and not before; the last attempt allowed and a permanent error
  make it a dead letter at once.
\<close>

theorem outbox_retry_is_bounded:
  assumes "mk_outbox_worker handlers wid lease attempts base rmax = Inr w"
    and "r \<in> set (t_outbox_events d)" and "ob_status r = Processing" "ob_locked_by r = Some wid"
    and "ob_locked_until r = Some until" "failed_at < until"
    and "record_failure w jitter r error now failed_at d = Inr ((), d')"
  shows "\<exists>x \<in> set (t_outbox_events d'). ob_id x = ob_id r \<and> ob_attempt_count x = ob_attempt_count r
    \<and> ob_status x = (if is_permanent_delivery error \<or> attempts \<le> ob_attempt_count r
         then PermanentFailed else RetryableFailed)
    \<and> now + base \<le> ob_available_at x \<and> ob_available_at x \<le> now + rmax
    \<and> (\<forall>t < now + base. \<not> claimable t x)"
proof -
  have w: "ow_worker_id w = wid" "ow_max_attempts w = attempts" "ow_retry_base w = base"
    "ow_retry_max w = rmax" and base: "0 < base" "base \<le> rmax"
    using assms(1) by (auto simp: mk_outbox_worker_def res_simps)
  let ?b = "jittered_backoff w jitter (ob_attempt_count r)"
  have "(1 :: int) \<le> 2 ^ nat (min (max (ob_attempt_count r - 1) 0) 10)" by simp
  then have "base \<le> base * 2 ^ nat (min (max (ob_attempt_count r - 1) 0) 10)"
    using base(1) by (simp add: mult_le_cancel_left1)
  then have b0: "base \<le> bounded_backoff w (ob_attempt_count r)" "bounded_backoff w (ob_attempt_count r) \<le> rmax"
    using base by (simp_all add: bounded_backoff_def w)
  have "bounded_backoff w (ob_attempt_count r) \<le> ?b" "?b \<le> bounded_backoff w (ob_attempt_count r)
      + min base (max (rmax - bounded_backoff w (ob_attempt_count r)) 0)"
    using base b0 by (simp_all add: jittered_backoff_def Let_def w min_le_iff_disj)
  then have bounds: "base \<le> ?b" "?b \<le> rmax" using b0 by simp_all
  let ?f = "\<lambda>x. x\<lparr>ob_status := (if is_permanent_delivery error \<or> attempts \<le> ob_attempt_count r
              then PermanentFailed else RetryableFailed),
              ob_available_at := now + ?b, ob_locked_by := None,
              ob_locked_until := None, ob_last_error_code := Some (take 120 (error_class error))\<rparr>"
  let ?P = "holds_lease (ob_id r) wid (ob_attempt_count r) until failed_at"
  have rows: "t_outbox_events d' = update_where ?P ?f (t_outbox_events d)"
    using assms(5,7) by (auto simp: record_failure_def fail_def update_outbox_def tx_simps w)
  have "?P r" using assms(3-6) by (simp add: holds_lease_def)
  moreover have "(if ?P r then ?f r else r) \<in> set (t_outbox_events d')"
    unfolding rows set_update_where using assms(2) by (rule imageI)
  ultimately have "?f r \<in> set (t_outbox_events d')" by simp
  then show ?thesis using bounds by (intro bexI [of _ "?f r"]) (auto simp: claimable_def)
qed

theorem outbox_retry_is_bounded_witness:
  "\<exists>w d' x. mk_outbox_worker notification_handlers ''w'' 30 8 5 900 = Inr w
    \<and> record_failure w (\<lambda>c. 2) (lease_row ''w'' 30 (new_outbox_row 7 ''registration'' 2
        ''registration.confirmed'' [] ''key'' 0)) (RuntimeError []) 0 1
        (example_outbox_db\<lparr>t_outbox_events := [lease_row ''w'' 30 (new_outbox_row 7 ''registration'' 2
           ''registration.confirmed'' [] ''key'' 0)]\<rparr>) = Inr ((), d')
    \<and> x \<in> set (t_outbox_events d') \<and> ob_status x = RetryableFailed \<and> 5 \<le> ob_available_at x"
proof -
  let ?r = "lease_row ''w'' 30 (new_outbox_row 7 ''registration'' 2 ''registration.confirmed'' [] ''key'' 0)"
  let ?d = "example_outbox_db\<lparr>t_outbox_events := [?r]\<rparr>"
  obtain w where w: "mk_outbox_worker notification_handlers ''w'' 30 8 5 900 = Inr w"
    by (simp add: mk_outbox_worker_def py_strip_def py_lstrip_def py_space_def notification_handlers_def
        supported_notification_events_def security_events_def)
  obtain d' where f: "record_failure w (\<lambda>c. 2) ?r (RuntimeError []) 0 1 ?d = Inr ((), d')"
    by (simp add: record_failure_def fail_def tx_bind_def update_outbox_run tx_return_def)
  from outbox_retry_is_bounded [OF w _ _ _ _ _ f, of 30] w f
  show ?thesis by (auto simp: new_outbox_row_def)
qed

end
