(* ===== verification/Rate_Limit.thy ===== *)
theory Rate_Limit
  imports Prelude
begin

section \<open>The in-memory rate limiter (security/rate_limit.py)\<close>

text \<open>
  A fixed-window limiter: a dictionary from bucket identifiers to a count and the time
  the window ends. The clock the code reads under its lock is an argument of
  \<open>consume\<close>; seconds are exact rationals.
\<close>

record rate_limit_policy =
  rl_limit :: int
  rl_window_seconds :: rat

definition mk_rate_limit_policy :: "int \<Rightarrow> py_float \<Rightarrow> py_error + rate_limit_policy" where
  "mk_rate_limit_policy n window =
     (if n < 1 then Inl (ValueError ''rate limit must be a positive integer'')
      else case window of
        Finite w \<Rightarrow>
          if w \<le> 0 then Inl (ValueError ''rate limit window must be positive and finite'')
          else Inr \<lparr>rl_limit = n, rl_window_seconds = w\<rparr>
      | _ \<Rightarrow> Inl (ValueError ''rate limit window must be positive and finite''))"

definition policy_ok :: "rate_limit_policy \<Rightarrow> bool" where
  "policy_ok p \<longleftrightarrow> 1 \<le> rl_limit p \<and> 0 < rl_window_seconds p"

record rate_limit_decision =
  d_allowed :: bool
  d_remaining :: int
  d_retry_after_seconds :: int

definition mk_decision :: "bool \<Rightarrow> int \<Rightarrow> int \<Rightarrow> py_error + rate_limit_decision" where
  "mk_decision allowed remaining retry =
     (if remaining < 0 \<or> retry < 0
      then Inl (ValueError ''rate limit decision counts must be non-negative integers'')
      else if allowed \<and> retry \<noteq> 0
      then Inl (ValueError ''allowed decisions may not request a retry'')
      else Inr \<lparr>d_allowed = allowed, d_remaining = remaining, d_retry_after_seconds = retry\<rparr>)"

record bucket =
  bk_count :: int
  bk_expires_at :: rat

record limiter =
  lm_max_buckets :: int
  lm_buckets :: "(string \<times> bucket) list"

definition new_limiter :: "int \<Rightarrow> py_error + limiter" where
  "new_limiter max_buckets =
     (if max_buckets < 1 then Inl (ValueError ''maximum buckets must be a positive integer'')
      else Inr \<lparr>lm_max_buckets = max_buckets, lm_buckets = []\<rparr>)"

text \<open>\<open>^[0-9a-f]{64}$\<close>\<close>

definition is_bucket_id :: "string \<Rightarrow> bool" where
  "is_bucket_id s \<longleftrightarrow> length s = 64 \<and> list_all (\<lambda>c. c \<in> set ''0123456789abcdef'') s"

definition purge :: "rat \<Rightarrow> (string \<times> bucket) list \<Rightarrow> (string \<times> bucket) list" where
  "purge now bs = filter (\<lambda>(k, b). \<not> bk_expires_at b \<le> now) bs"

definition set_bucket :: "string \<Rightarrow> bucket \<Rightarrow> (string \<times> bucket) list \<Rightarrow> (string \<times> bucket) list" where
  "set_bucket k b bs = map (\<lambda>(k', b'). if k' = k then (k', b) else (k', b')) bs"

definition consume ::
  "rat \<Rightarrow> string \<Rightarrow> rate_limit_policy \<Rightarrow> (limiter, rate_limit_decision) tx" where
  "consume now bucket_id policy lm =
     (if \<not> is_bucket_id bucket_id
      then Inl (ValueError ''bucket identifier must be a lower-case SHA-256 digest'')
      else
        let live = purge now (lm_buckets lm); lm = lm\<lparr>lm_buckets := live\<rparr> in
        case map_of live bucket_id of
          None \<Rightarrow>
            if int (length live) \<ge> lm_max_buckets lm
            then tx_lift (mk_decision False 0 (max 1 \<lceil>rl_window_seconds policy\<rceil>)) lm
            else tx_lift (mk_decision True (rl_limit policy - 1) 0)
              (lm\<lparr>lm_buckets := live @
                 [(bucket_id, \<lparr>bk_count = 1, bk_expires_at = now + rl_window_seconds policy\<rparr>)]\<rparr>)
        | Some b \<Rightarrow>
            if bk_count b \<ge> rl_limit policy
            then tx_lift (mk_decision False 0 (max 0 \<lceil>bk_expires_at b - now\<rceil>)) lm
            else tx_lift (mk_decision True (max 0 (rl_limit policy - (bk_count b + 1))) 0)
              (lm\<lparr>lm_buckets := set_bucket bucket_id (b\<lparr>bk_count := bk_count b + 1\<rparr>) live\<rparr>))"

subsection \<open>The dictionary\<close>

lemma map_of_set_bucket [simp]:
  "map_of (set_bucket k b bs) k' =
     (if k' = k \<and> map_of bs k \<noteq> None then Some b else map_of bs k')"
  by (induction bs) (auto simp: set_bucket_def)

lemma length_set_bucket [simp]: "length (set_bucket k b bs) = length bs"
  by (simp add: set_bucket_def)

lemma length_purge: "length (purge now bs) \<le> length bs"
  by (simp add: purge_def)

lemma keys_set_bucket [simp]: "map fst (set_bucket k b bs) = map fst bs"
  by (induction bs) (auto simp: set_bucket_def)

lemma in_set_bucket: "x \<in> set (set_bucket k b bs) \<Longrightarrow> x = (k, b) \<or> x \<in> set bs"
  by (auto simp: set_bucket_def split: if_splits)

lemma distinct_purge: "distinct (map fst bs) \<Longrightarrow> distinct (map fst (purge now bs))"
  by (auto simp: purge_def distinct_map inj_on_def)

lemma map_of_purge:
  "distinct (map fst bs) \<Longrightarrow>
   map_of (purge now bs) k =
     (case map_of bs k of None \<Rightarrow> None | Some b \<Rightarrow> if bk_expires_at b \<le> now then None else Some b)"
proof (induction bs)
  case Nil
  then show ?case by (simp add: purge_def)
next
  case (Cons x bs)
  then have "map_of bs (fst x) = None" by (auto simp: map_of_eq_None_iff image_iff)
  with Cons show ?case by (cases x) (auto simp: purge_def split: option.splits)
qed

text \<open>
  The invariant of the limiter's state: keys are unique, no more buckets than the bound,
  and counts start at one.
\<close>

definition limiter_ok :: "limiter \<Rightarrow> bool" where
  "limiter_ok lm \<longleftrightarrow> distinct (map fst (lm_buckets lm)) \<and>
     int (length (lm_buckets lm)) \<le> lm_max_buckets lm \<and>
     (\<forall>(k, b) \<in> set (lm_buckets lm). 1 \<le> bk_count b)"

lemma new_limiter_ok: "new_limiter n = Inr lm \<Longrightarrow> limiter_ok lm"
  by (auto simp: new_limiter_def limiter_ok_def split: if_splits)

lemma limiter_ok_purge:
  "limiter_ok lm \<Longrightarrow> limiter_ok (lm\<lparr>lm_buckets := purge now (lm_buckets lm)\<rparr>)"
  using length_purge [of now "lm_buckets lm"]
  by (auto simp: limiter_ok_def distinct_purge) (auto simp: purge_def)

lemma consume_ok:
  assumes "limiter_ok lm" "consume now k p lm = Inr (d, lm')"
  shows "limiter_ok lm'"
proof -
  let ?live = "purge now (lm_buckets lm)"
  have live: "limiter_ok (lm\<lparr>lm_buckets := ?live\<rparr>)" by (rule limiter_ok_purge [OF assms(1)])
  show ?thesis
  proof (cases "map_of ?live k")
    case None
    then have "k \<notin> fst ` set ?live" by (simp add: map_of_eq_None_iff)
    then show ?thesis using live assms(2) None
      by (auto simp: consume_def Let_def limiter_ok_def tx_lift_eq split: if_splits)
  next
    case (Some b)
    then have "(k, b) \<in> set ?live" by (rule map_of_SomeD)
    then have "1 \<le> bk_count b" using live by (auto simp: limiter_ok_def)
    then show ?thesis using live assms(2) Some
      by (auto simp: consume_def Let_def limiter_ok_def tx_lift_eq split: if_splits
          dest!: in_set_bucket)
  qed
qed

lemma consume_other:
  assumes "consume now k p lm = Inr (d, lm')" "bid \<noteq> k"
  shows "map_of (lm_buckets lm') bid = map_of (purge now (lm_buckets lm)) bid"
  using assms
  by (auto simp: consume_def Let_def tx_lift_eq map_add_def split: if_splits option.splits)

text \<open>A decision never fails its own validation: \<open>consume\<close> raises for a malformed identifier only.\<close>

lemma consume_total:
  assumes "policy_ok p" "is_bucket_id k"
  shows "\<exists>d lm'. consume now k p lm = Inr (d, lm')"
  using assms
  by (auto simp: consume_def Let_def tx_lift_def mk_decision_def policy_ok_def max_def
      split: option.splits)

subsection \<open>The limit\<close>

text \<open>How many calls of a sequence, each with its clock reading, a bucket allows.\<close>

type_synonym rl_call = "rat \<times> string \<times> rate_limit_policy"

fun allowed_count :: "string \<Rightarrow> limiter \<Rightarrow> rl_call list \<Rightarrow> int" where
  "allowed_count bid lm [] = 0"
| "allowed_count bid lm ((now, k, p) # cs) =
     (case consume now k p lm of
        Inl _ \<Rightarrow> allowed_count bid lm cs
      | Inr (d, lm') \<Rightarrow> (if k = bid \<and> d_allowed d then 1 else 0) + allowed_count bid lm' cs)"

definition calls_of :: "string \<Rightarrow> rl_call list \<Rightarrow> int" where
  "calls_of bid cs = count_where (\<lambda>(now, k, p). k = bid) cs"

text \<open>
  While a bucket is live, exactly the calls up to the limit are allowed: none more, and
  none denied early. Calls for other buckets, in any number, do not interfere.
\<close>

lemma allowed_live:
  assumes "limiter_ok lm" "map_of (lm_buckets lm) bid = Some b" "is_bucket_id bid"
    and "\<forall>(now, k, p) \<in> set cs. now < bk_expires_at b \<and> (k = bid \<longrightarrow> rl_limit p = n)"
  shows "allowed_count bid lm cs = min (calls_of bid cs) (max 0 (n - bk_count b))"
  using assms
proof (induction cs arbitrary: lm b)
  case Nil
  then show ?case by (simp add: calls_of_def)
next
  case (Cons c cs)
  obtain now k p where c: "c = (now, k, p)" by (cases c) auto
  have now: "now < bk_expires_at b" and lim: "k = bid \<Longrightarrow> rl_limit p = n"
    and rest: "\<forall>(now, k, p) \<in> set cs. now < bk_expires_at b \<and> (k = bid \<longrightarrow> rl_limit p = n)"
    using Cons.prems(4) c by auto
  have live: "map_of (purge now (lm_buckets lm)) bid = Some b"
    using Cons.prems(1,2) now by (simp add: map_of_purge limiter_ok_def)
  have calls: "calls_of bid (c # cs) = (if k = bid then 1 else 0) + calls_of bid cs"
    and nonneg: "0 \<le> calls_of bid cs"
    by (auto simp: calls_of_def c)
  show ?case
  proof (cases "k = bid")
    case False
    show ?thesis
    proof (cases "consume now k p lm")
      case (Inl e)
      then show ?thesis using Cons.IH [OF Cons.prems(1,2,3) rest] False c calls by simp
    next
      case (Inr r)
      obtain d lm' where r: "r = (d, lm')" by (cases r) auto
      have "limiter_ok lm'" using consume_ok Cons.prems(1) Inr r by blast
      moreover have "map_of (lm_buckets lm') bid = Some b"
        using consume_other Inr r live False by metis
      ultimately show ?thesis using Cons.IH Cons.prems(3) rest False Inr r c calls by simp
    qed
  next
    case True
    let ?lm = "lm\<lparr>lm_buckets := purge now (lm_buckets lm)\<rparr>"
    show ?thesis
    proof (cases "n \<le> bk_count b")
      case full: True
      have run: "consume now k p lm = Inr (\<lparr>d_allowed = False, d_remaining = 0,
          d_retry_after_seconds = max 0 \<lceil>bk_expires_at b - now\<rceil>\<rparr>, ?lm)"
        using live True lim full Cons.prems(3)
        by (simp add: consume_def Let_def tx_lift_def mk_decision_def)
      have "limiter_ok ?lm" by (rule limiter_ok_purge [OF Cons.prems(1)])
      then have "allowed_count bid ?lm cs = min (calls_of bid cs) (max 0 (n - bk_count b))"
        using Cons.IH [OF _ _ Cons.prems(3) rest] live by simp
      then show ?thesis using full run c calls nonneg by simp
    next
      case room: False
      let ?lm' = "?lm\<lparr>lm_buckets :=
          set_bucket k (b\<lparr>bk_count := bk_count b + 1\<rparr>) (purge now (lm_buckets lm))\<rparr>"
      have run: "consume now k p lm = Inr (\<lparr>d_allowed = True,
          d_remaining = max 0 (n - (bk_count b + 1)), d_retry_after_seconds = 0\<rparr>, ?lm')"
        using live True lim room Cons.prems(3)
        by (simp add: consume_def Let_def tx_lift_def mk_decision_def)
      have "limiter_ok ?lm'" by (rule consume_ok [OF Cons.prems(1) run])
      moreover have "map_of (lm_buckets ?lm') bid = Some (b\<lparr>bk_count := bk_count b + 1\<rparr>)"
        using live True by simp
      ultimately have "allowed_count bid ?lm' cs
          = min (calls_of bid cs) (max 0 (n - (bk_count b + 1)))"
        using Cons.IH [of ?lm' "b\<lparr>bk_count := bk_count b + 1\<rparr>"] Cons.prems(3) rest by simp
      then show ?thesis using room run c calls nonneg True by simp
    qed
  qed
qed

text \<open>
  C27. In a window that a first call opens at time \<open>t\<close> for a bucket that is not live, with
  the policy's \<open>limit\<close> and \<open>window_seconds\<close>, the limiter allows exactly the first
  \<open>limit\<close> calls of that bucket: of any sequence of calls before \<open>t + window_seconds\<close>,
  interleaved in any way with calls for other buckets, it allows the minimum of their
  number and \<open>limit\<close>.
\<close>

theorem rate_limit_window_exact:
  assumes "limiter_ok lm" "is_bucket_id bid" "policy_ok p"
    and fresh: "map_of (purge t (lm_buckets lm)) bid = None"
    and room: "int (length (purge t (lm_buckets lm))) < lm_max_buckets lm"
    and cs: "\<forall>(now, k, q) \<in> set cs.
      now < t + rl_window_seconds p \<and> (k = bid \<longrightarrow> rl_limit q = rl_limit p)"
  shows "allowed_count bid lm ((t, bid, p) # cs)
    = min (rl_limit p) (calls_of bid ((t, bid, p) # cs))"
proof -
  let ?b = "\<lparr>bk_count = 1, bk_expires_at = t + rl_window_seconds p\<rparr>"
  let ?lm = "lm\<lparr>lm_buckets := purge t (lm_buckets lm) @ [(bid, ?b)]\<rparr>"
  have run: "consume t bid p lm = Inr (\<lparr>d_allowed = True, d_remaining = rl_limit p - 1,
      d_retry_after_seconds = 0\<rparr>, ?lm)"
    using assms(2,3) fresh room
    by (simp add: consume_def Let_def tx_lift_def mk_decision_def policy_ok_def)
  have "map_of (lm_buckets ?lm) bid = Some ?b" using fresh by (simp add: map_add_def)
  from allowed_live [OF consume_ok [OF assms(1) run] this assms(2), of cs "rl_limit p"] cs
  have "allowed_count bid ?lm cs = min (calls_of bid cs) (max 0 (rl_limit p - 1))" by simp
  moreover have "calls_of bid ((t, bid, p) # cs) = 1 + calls_of bid cs"
    by (simp add: calls_of_def)
  moreover have "1 \<le> rl_limit p" using assms(3) by (simp add: policy_ok_def)
  ultimately show ?thesis using run by simp
qed

theorem rate_limit_window_exact_witness:
  "allowed_count (replicate 64 CHR ''a'') \<lparr>lm_max_buckets = 2, lm_buckets = []\<rparr>
     [(0, replicate 64 CHR ''a'', \<lparr>rl_limit = 1, rl_window_seconds = 60\<rparr>),
      (1, replicate 64 CHR ''b'', \<lparr>rl_limit = 9, rl_window_seconds = 60\<rparr>),
      (59, replicate 64 CHR ''a'', \<lparr>rl_limit = 1, rl_window_seconds = 60\<rparr>)] = 1"
proof -
  have "is_bucket_id (replicate 64 CHR ''a'')" by (simp add: is_bucket_id_def list_all_iff)
  moreover have "replicate 64 CHR ''b'' \<noteq> replicate 64 CHR ''a''" by (simp add: replicate_eq_replicate)
  ultimately show ?thesis
    by (subst rate_limit_window_exact)
       (auto simp: limiter_ok_def policy_ok_def purge_def calls_of_def)
qed

text \<open>
  The dictionary never grows past \<open>max_buckets\<close> and keeps unique keys, whatever is
  consumed, and a well-formed call always gets a decision: the limiter denies, it does
  not raise.
\<close>

theorem rate_limit_memory_bounded:
  assumes "limiter_ok lm" "policy_ok p" "is_bucket_id k"
  shows "\<exists>d lm'. consume now k p lm = Inr (d, lm') \<and> limiter_ok lm' \<and>
    int (length (lm_buckets lm')) \<le> lm_max_buckets lm' \<and> lm_max_buckets lm' = lm_max_buckets lm"
proof -
  obtain d lm' where run: "consume now k p lm = Inr (d, lm')"
    using consume_total [OF assms(2,3)] by blast
  have "limiter_ok lm'" by (rule consume_ok [OF assms(1) run])
  moreover have "lm_max_buckets lm' = lm_max_buckets lm"
    using run by (auto simp: consume_def Let_def tx_lift_eq split: if_splits option.splits)
  ultimately show ?thesis using run by (auto simp: limiter_ok_def)
qed

theorem rate_limit_memory_bounded_witness:
  "\<exists>d lm'. consume 0 (replicate 64 CHR ''a'') \<lparr>rl_limit = 1, rl_window_seconds = 60\<rparr>
     \<lparr>lm_max_buckets = 1, lm_buckets = []\<rparr> = Inr (d, lm') \<and> length (lm_buckets lm') \<le> 1"
  using rate_limit_memory_bounded [of "\<lparr>lm_max_buckets = 1, lm_buckets = []\<rparr>"
      "\<lparr>rl_limit = 1, rl_window_seconds = 60\<rparr>" "replicate 64 CHR ''a''" 0]
  by (auto simp: limiter_ok_def policy_ok_def is_bucket_id_def list_all_iff)

end
