(* ===== verification/Registration_Rules.thy ===== *)
theory Registration_Rules
  imports Waiting_List
begin

section \<open>The services never run into the rules of the registrations table\<close>

text \<open>
  The table of registrations has five rules besides its primary key: the shape of a row in each of
  its states, no deadline for a free registration, a positive place in the queue, one active
  registration per member and event, one registration per place in the queue. The services do not
  catch their violation, so it would be an internal error. From a table that satisfies the rules, no
  transition and no new registration is refused by one of them.
\<close>

definition registration_rules :: "string list" where
  "registration_rules = [''ck_registrations_seat_state'', ''ck_registrations_free_method'',
     ''ck_registrations_waitlist_sequence_positive'', ''uq_registrations_active_member_event'',
     ''uq_registrations_waitlist_sequence'']"

definition breaks_rule :: "py_error \<Rightarrow> bool" where
  "breaks_rule e \<longleftrightarrow> (case e of IntegrityError n \<Rightarrow> List.member registration_rules n | _ \<Rightarrow> False)"

lemma breaks_rule_simps [simp]:
  "\<not> breaks_rule (ApiError a b k)" "\<not> breaks_rule (RegistrationTransitionError a)"
  "\<not> breaks_rule (ValueError a)" "\<not> breaks_rule (RuntimeError a)" "\<not> breaks_rule TypeError"
  "\<not> breaks_rule (PyException a)" "\<not> breaks_rule (DataError a)"
  by (simp_all add: breaks_rule_def)

subsection \<open>Steps that touch other tables\<close>

lemma avoids_other_constraints:
  "breaks_rule e \<Longrightarrow> list_all (\<lambda>(n, _). \<not> List.member registration_rules n) cs \<Longrightarrow>
   tx_avoids e (check_constraints cs)"
proof -
  have "first_violation cs = Some n \<Longrightarrow> n \<in> fst ` set cs" for n
    by (induction cs rule: first_violation.induct) (auto split: if_splits)
  then show "breaks_rule e \<Longrightarrow> list_all (\<lambda>(n, _). \<not> List.member registration_rules n) cs \<Longrightarrow>
      tx_avoids e (check_constraints cs)"
    by (fastforce simp: tx_avoids_def check_constraints_def tx_return_def tx_raise_def list_all_iff
        breaks_rule_def split: option.splits)
qed

lemma rules_fresh_uuid [avoids]: "breaks_rule e \<Longrightarrow> tx_avoids e fresh_uuid"
  by (auto simp: tx_avoids_def fresh_uuid_def generate_uuid7_def Let_def
      split: prod.splits sum.splits if_splits)

lemma rules_clock [avoids]: "tx_avoids e clock_timestamp"
  by (simp add: tx_avoids_def clock_timestamp_def)

lemma rules_insert_outbox [avoids]: "breaks_rule e \<Longrightarrow> tx_avoids e (insert_outbox row)"
  unfolding insert_outbox_def
  by (intro avoids avoids_other_constraints)
     (simp_all add: outbox_constraints_def registration_rules_def)

lemma rules_insert_outbox_or_ignore [avoids]:
  "breaks_rule e \<Longrightarrow> tx_avoids e (insert_outbox_or_ignore row)"
  unfolding insert_outbox_or_ignore_def by (intro avoids)

lemma rules_insert_transition [avoids]: "breaks_rule e \<Longrightarrow> tx_avoids e (insert_transition t)"
  unfolding insert_transition_def
  by (intro avoids avoids_other_constraints)
     (simp_all add: transition_constraints_def registration_rules_def)

lemma rules_enqueue_cash_expiry [avoids]: "breaks_rule e \<Longrightarrow> tx_avoids e (enqueue_cash_expiry r i t)"
  unfolding enqueue_cash_expiry_def by (intro avoids)

lemma rules_record_transition [avoids]: "breaks_rule e \<Longrightarrow> tx_avoids e (record_transition r c h m)"
  unfolding record_transition_def by (intro avoids)

lemma rules_creation_records [avoids]:
  "breaks_rule e \<Longrightarrow> tx_avoids e (append_creation_records i c h ev u s r t)"
  unfolding append_creation_records_def by (intro avoids)

lemma rules_terms: "breaks_rule e \<Longrightarrow> tx_avoids e (get_registration_terms i h now)"
  unfolding get_registration_terms_def require_club_open_def require_registration_available_def
    require_link_def authorize_registration_link_def get_event_def get_club_def
  by (intro avoids | auto simp: scalar_one_or_none_def not_found_def
      split: ownership_type.splits list.splits)+

lemma rules_principal: "breaks_rule e \<Longrightarrow> tx_avoids e (evaluate_principal cfg p)"
  unfolding evaluate_principal_def lock_principal_def evaluate_def get_eligibility_state_def
    current_region_def independent_creation_enabled_def flag_enabled_def get_flag_def
  by (intro avoids) (auto simp: authentication_required_def)

subsection \<open>Transitions\<close>

lemma rules_replay: "breaks_rule e \<Longrightarrow> tx_avoids e (replay_with get_context get_transition c h)"
  unfolding replay_with_def get_context_def get_transition_def by (intro avoids) auto

lemma rules_apply_transition:
  assumes e: "breaks_rule e" and wf: "wf_registrations (t_registrations d)"
    and c: "get_context (tc_registration_id c) d = Inr (Some cx, d)" "normalize_command v = Inr c"
      "check_transition cx c = Inr ()" "mutation (cx_registration cx) c = Inr m"
  shows "apply_transition (cx_registration cx) c h m d \<noteq> Inl e"
proof -
  obtain row d1 where "update_registration (\<lambda>r. rg_id r = rg_id (cx_registration cx)
      \<and> rg_state r = rg_state (cx_registration cx)) (apply_mutation m) d = Inr (Some row, d1)"
    using transition_keeps_constraints [OF wf c] by blast
  then have "apply_transition (cx_registration cx) c h m d
      = tx_bind (record_transition (cx_registration cx) c h m)
          (\<lambda>t. tx_return \<lparr>tr_registration = row, tr_transition = t\<rparr>) d1"
    by (simp add: apply_transition_def tx_bind_def)
  moreover have "tx_avoids e (tx_bind (record_transition (cx_registration cx) c h m)
      (\<lambda>t. tx_return \<lparr>tr_registration = row, tr_transition = t\<rparr>))"
    using e by (intro avoids)
  ultimately show ?thesis by (simp add: tx_avoids_def)
qed

lemma normalize_no_rule: "breaks_rule e \<Longrightarrow> normalize_command v \<noteq> Inl e"
  unfolding normalize_command_def Let_def registration_instant_def to_utc_def
  by (simp split: option.split sum.split) (auto split: option.splits)

lemma check_no_rule: "breaks_rule e \<Longrightarrow> check_transition cx c \<noteq> Inl e"
  unfolding check_transition_def Let_def by auto

lemma mutation_no_rule: "breaks_rule e \<Longrightarrow> mutation r c \<noteq> Inl e"
  unfolding mutation_def by (auto split: registration_state.split)

lemma rules_transition:
  assumes e: "breaks_rule e" and wf: "wf_registrations (t_registrations d)"
  shows "transition sha v d \<noteq> Inl e"
proof
  assume run: "transition sha v d = Inl e"
  note pure = normalize_no_rule [OF e] check_no_rule [OF e] mutation_no_rule [OF e]
  obtain c where c: "normalize_command v = Inr c" using run pure(1)
    by (cases "normalize_command v") (auto simp: transition_def transition_with_def tx_run)
  note replay = tx_avoidsD [OF rules_replay [OF e], of c "command_hash sha c"]
  show False
  proof (cases "replay_with get_context get_transition c (command_hash sha c) d")
    case (Inl e')
    then show ?thesis using run replay c by (simp add: transition_def transition_with_def tx_run Let_def)
  next
    case (Inr p)
    obtain x d1 where p: "p = (x, d1)" by (cases p)
    have d1: "d1 = d" using registrations.replay_cases [OF Inr [unfolded p]] by simp
    obtain cx where cx: "get_context (tc_registration_id c) d = Inr (cx, d)"
      by (simp add: get_context_def tx_query_def)
    have run: "(case x of Some result \<Rightarrow> tx_return result
     | None \<Rightarrow>
         (case cx of
           None \<Rightarrow> tx_raise (RegistrationTransitionError ''registration_not_found'')
         | Some k \<Rightarrow> tx_bind (tx_lift (check_transition k c)) (\<lambda>_.
             tx_bind (tx_lift (mutation (cx_registration k) c)) (\<lambda>m.
             apply_transition (cx_registration k) c (command_hash sha c) m)))) d = Inl e"
      using run c Inr p d1 cx
      by (cases x; cases cx) (simp_all add: transition_def transition_with_def tx_bind_def tx_lift_def Let_def tx_return_def)
    then obtain k m where "cx = Some k" "check_transition k c = Inr ()" "mutation (cx_registration k) c = Inr m"
      "apply_transition (cx_registration k) c (command_hash sha c) m d = Inl e"
      using pure(2,3) e
      by (cases x; cases cx) (auto simp: tx_return_def tx_raise_def tx_bind_Inl tx_lift_def split: sum.splits)
    then show ?thesis using rules_apply_transition [OF e wf _ c] cx by blast
  qed
qed

subsection \<open>New registrations\<close>

lemma rules_insert_registration:
  assumes e: "breaks_rule e"
    and row: "\<And>t. row_ok (r\<lparr>rg_created_at := t, rg_updated_at := t\<rparr>)"
    and active: "\<forall>x \<in> set (t_registrations d). active_state (rg_state x) \<longrightarrow>
      rg_event_id x = rg_event_id r \<longrightarrow> rg_user_id x \<noteq> rg_user_id r"
    and place: "rg_state r = Waitlisted \<Longrightarrow> \<forall>x \<in> set (t_registrations d). waiting_for (rg_event_id r) x
      \<longrightarrow> rg_waitlist_sequence x \<noteq> rg_waitlist_sequence r"
  shows "insert_registration r d \<noteq> Inl e"
proof -
  let ?r = "r\<lparr>rg_created_at := clock_at d (clock_pos d), rg_updated_at := clock_at d (clock_pos d)\<rparr>"
  have "first_violation (registration_constraints (t_registrations d) ?r) = Some n \<Longrightarrow>
      n = ''registrations_pkey''" for n
    using row [of "clock_at d (clock_pos d)"] active place
    by (auto simp: registration_constraints_def row_ok_def row_exists_iff waiting_for_def split: if_splits)
  moreover have "tx_avoids e (check_constraints
       [(''registrations_event_id_fkey'', row_exists (\<lambda>x. ev_id x = rg_event_id r) (t_events y)),
        (''registrations_user_id_fkey'', row_exists (\<lambda>u. us_id u = rg_user_id r) (t_users y))])" for y
    by (rule avoids_other_constraints [OF e]) (simp add: registration_rules_def)
  ultimately show ?thesis using e
    by (auto simp: insert_registration_def clock_timestamp_def tx_run Let_def tx_bind_Inl tx_query_def
        tx_avoids_def check_constraints_def breaks_rule_def registration_rules_def
        tx_raise_def tx_return_def tx_modify_def split: option.splits)
qed

lemma rules_create_registration:
  assumes e: "breaks_rule e"
    and insert: "insert_registration \<lparr>rg_id = i, rg_event_id = ev, rg_user_id = u,
      rg_method = me, rg_state = s, rg_seat_held = sh, rg_waitlist_sequence = w,
      rg_cash_expires_at = ce, rg_confirmed_at = ca, rg_cancelled_at = None, rg_expired_at = None,
      rg_cancellation_reason = None, rg_created_at = 0, rg_updated_at = 0\<rparr> d \<noteq> Inl e"
  shows "create_registration i c h ev u me s sh w ce ca rid now d \<noteq> Inl e"
proof -
  have "tx_avoids e (tx_bind (append_creation_records i c h ev u s rid now) (\<lambda>_.
     tx_bind (case ce of
         Some t \<Rightarrow> if s = CashPending then enqueue_cash_expiry i ev t else tx_return ()
       | None \<Rightarrow> tx_return ()) (\<lambda>_. tx_return row)))" for row :: registration
    using e by (intro avoids)
  then show ?thesis using insert unfolding create_registration_def tx_bind_Inl [of "insert_registration _"]
    by (blast dest: tx_avoidsD)
qed

lemma rules_create_for:
  assumes e: "breaks_rule e" and wf: "wf_registrations (t_registrations d)"
    and free: "get_active (te_id x) (sb_user_id p) d = Inr (None, d)"
  shows "create_for sha p x rid now d \<noteq> Inl e"
proof -
  let ?s = "decide_state x (held_seats (te_id x) (t_registrations d))"
  let ?n = "max_or_zero (List.map_filter rg_waitlist_sequence
      (filter (waiting_for (te_id x)) (t_registrations d))) + 1"
  have positive: "0 \<le> max_or_zero (List.map_filter rg_waitlist_sequence (filter (waiting_for (te_id x)) (t_registrations d)))"
  proof -
    have "0 \<le> y" if "y \<in> set (List.map_filter rg_waitlist_sequence (filter (waiting_for (te_id x)) (t_registrations d)))" for y
      using that wf by (fastforce simp: map_filter_def wf_registrations_def row_ok_def waitlist_positive_def)
    then show ?thesis using max_or_zero_ge max_or_zero_def
      by (metis list.case(1) list.exhaust list.set_intros(1) order.refl order_trans)
  qed
  have later: "rg_waitlist_sequence r \<noteq> Some ?n"
    if "r \<in> set (t_registrations d)" "waiting_for (te_id x) r" for r
  proof
    assume "rg_waitlist_sequence r = Some ?n"
    then have "?n \<in> set (List.map_filter rg_waitlist_sequence (filter (waiting_for (te_id x)) (t_registrations d)))"
      using that by (force simp: map_filter_def)
    from max_or_zero_ge [OF this] show False by simp
  qed
  have none: "\<forall>r \<in> set (t_registrations d). active_state (rg_state r) \<longrightarrow> rg_event_id r = te_id x
      \<longrightarrow> rg_user_id r \<noteq> sb_user_id p"
    using free by (auto simp: get_active_def tx_query_def one_or_none_None)
  have insert: "insert_registration \<lparr>rg_id = i, rg_event_id = te_id x, rg_user_id = sb_user_id p,
      rg_method = te_method x, rg_state = ?s, rg_seat_held = (?s \<in> {Confirmed, CashPending}),
      rg_waitlist_sequence = w, rg_cash_expires_at = ce, rg_confirmed_at = ca, rg_cancelled_at = None,
      rg_expired_at = None, rg_cancellation_reason = None, rg_created_at = 0, rg_updated_at = 0\<rparr> d' \<noteq> Inl e"
    if "t_registrations d' = t_registrations d" "w = (if ?s = Waitlisted then Some ?n else None)"
      "(ce \<noteq> None) = (?s = CashPending)" "ca = (if ?s = Confirmed then Some now else None)" for i w ce ca d'
    using that none later positive
    by (cases "te_method x"; intro rules_insert_registration [OF e])
       (auto simp: row_ok_def seat_state_ok_def free_method_ok_def waitlist_positive_def decide_state_def Let_def)
  obtain w where w: "(if ?s = Waitlisted
       then tx_bind (next_waitlist_sequence (te_id x)) (\<lambda>n. tx_return (Some n))
       else tx_return None) d = Inr (w, d)" "w = (if ?s = Waitlisted then Some ?n else None)"
    by (simp add: next_waitlist_sequence_def tx_bind_def tx_query_def tx_return_def)
  show ?thesis
  proof (cases "(if ?s = CashPending
       then tx_bind (cash_deadline x now) (\<lambda>t. tx_return (Some t)) else tx_return None) d")
    case (Inl e')
    moreover from this have "e' \<noteq> e" using e
      by (auto simp: cash_deadline_def tx_bind_def tx_return_def tx_raise_def split: if_splits option.splits)
    ultimately show ?thesis using w(1)
      by (simp add: create_for_def held_seat_count_def Let_def tx_bind_def tx_query_def del: if_split)
  next
    case (Inr q)
    obtain ce where ce: "q = (ce, d)" "(ce \<noteq> None) = (?s = CashPending)" using Inr
      by (auto simp: cash_deadline_def tx_bind_def tx_return_def tx_raise_def split: if_splits option.splits)
    show ?thesis
    proof
      assume "create_for sha p x rid now d = Inl e"
      then obtain i d1 c d2 h where "fresh_uuid d = Inr (i, d1)" "fresh_uuid d1 = Inr (c, d2)"
        "create_registration i c h (te_id x) (sb_user_id p) (te_method x) ?s
           (?s \<in> {Confirmed, CashPending}) w ce (if ?s = Confirmed then Some now else None) rid now d2 = Inl e"
        using w(1) Inr ce(1) tx_avoidsD [OF rules_fresh_uuid [OF e]]
        unfolding create_for_def held_seat_count_def Let_def tx_bind_Inl tx_query_def by auto
      then show False
        using rules_create_registration [OF e insert] w(2) ce(2) by (simp add: fresh_uuid_eq)
    qed
  qed
qed

lemma rules_register:
  assumes e: "breaks_rule e" and wf: "wf_registrations (t_registrations d)"
  shows "register sha cfg p i h rid now d \<noteq> Inl e"
proof
  assume "register sha cfg p i h rid now d = Inl e"
  moreover have "registration_instant ''registration_time'' now \<noteq> Inl e"
    using e by (auto simp: registration_instant_def to_utc_def split: option.splits)
  moreover have "tx_avoids e (tx_guard b (ApiError x y k) :: unit txn)" for b x y k
    using e by (intro avoids) auto
  ultimately obtain t x d1 caps d2 where t: "get_registration_terms i h t d = Inr (x, d1)"
      "evaluate_principal cfg p d1 = Inr (caps, d2)"
    and rest: "tx_bind (get_active (te_id x) (sb_user_id p)) (\<lambda>existing. case existing of
       Some r \<Rightarrow> tx_return \<lparr>cr_registration = r, cr_created = False\<rparr>
     | None \<Rightarrow>
         tx_bind (tx_guard (t < te_start_at x)
           (ApiError ''registration_closed'' ''errors.registration_closed'' 409)) (\<lambda>_.
         tx_bind (create_for sha p x rid t) (\<lambda>r.
         tx_return \<lparr>cr_registration = r, cr_created = True\<rparr>))) d2 = Inl e"
    using tx_avoidsD [OF rules_terms [OF e]] tx_avoidsD [OF rules_principal [OF e]]
    unfolding register_def tx_bind_Inl [of "tx_lift _"] tx_bind_Inl [of "get_registration_terms _ _ _"]
      tx_bind_Inl [of "evaluate_principal _ _"] tx_bind_Inl [of "tx_guard _ _"]
    by (auto simp: tx_lift_eq tx_guard_eq tx_avoids_def tx_lift_def split: sum.splits)
  have d: "t_registrations d2 = t_registrations d"
    using registration_terms_reads(1) [OF t(1)] evaluate_principal_reads [OF t(2)] by simp
  obtain y where y: "get_active (te_id x) (sb_user_id p) d2 = Inr (y, d2)"
    by (simp add: get_active_def tx_query_def)
  show False
  proof (cases y)
    case None
    then have "create_for sha p x rid t d2 \<noteq> Inl e"
      using wf d y by (intro rules_create_for [OF e]) simp_all
    then show ?thesis using rest y None e
      by (auto simp: tx_bind_Inl tx_return_def tx_guard_def tx_raise_def split: if_splits)
  next
    case (Some r)
    then show ?thesis using rest y by (simp add: tx_bind_def tx_return_def)
  qed
qed

text \<open>
  C37. The registration services never run into the rules of the registrations table: from a table
  that satisfies them, neither a transition nor a new registration is refused by the database because
  of the shape of the row, a deadline of a free registration, a place in the queue that is not
  positive or is taken, or a second active registration of the member, whatever the input.
\<close>

theorem registration_rules_never_broken:
  assumes "wf_registrations (t_registrations d)" and "List.member registration_rules rule"
  shows "transition sha v d \<noteq> Inl (IntegrityError rule)
    \<and> register sha cfg p i h rid now d \<noteq> Inl (IntegrityError rule)"
  using assms rules_transition rules_register by (simp add: breaks_rule_def)

theorem registration_rules_never_broken_witness:
  "transition example_sha example_cancel example_db \<noteq> Inl (IntegrityError ''ck_registrations_seat_state'')
   \<and> register example_sha example_rules (example_principal 2) (example_id 20) None (example_id 91)
       (Aware 10 0) example_db \<noteq> Inl (IntegrityError ''ck_registrations_seat_state'')"
  by (rule registration_rules_never_broken [OF example_wf]) (simp add: registration_rules_def)

end
