(* ===== verification/Registration_System.thy ===== *)
theory Registration_System
  imports Expiry_Laws "HOL-Library.Option_ord" "HOL-Library.Product_Lexorder"
begin

section \<open>The registration system refines a book of seats\<close>

text \<open>
  What the registration services promise together, without tables: every event has a book, the
  registrations that were ever made, the set of those that hold a seat and the queue of those that
  wait for one. A step takes a free seat, joins the end of the queue when there is none, gives a
  seat or a place up, or seats the head of the queue.
\<close>

record book =
  bk_known :: "uuid set"
  bk_seats :: "uuid set"
  bk_queue :: "uuid list"

definition seat_free :: "int option \<Rightarrow> book \<Rightarrow> bool" where
  "seat_free cap b \<longleftrightarrow> (case cap of None \<Rightarrow> True | Some c \<Rightarrow> int (card (bk_seats b)) < c)"

inductive book_step :: "int option \<Rightarrow> book \<Rightarrow> book \<Rightarrow> bool" for cap where
  take: "seat_free cap b \<Longrightarrow> i \<notin> bk_known b \<Longrightarrow>
    book_step cap b (b\<lparr>bk_known := insert i (bk_known b), bk_seats := insert i (bk_seats b)\<rparr>)"
| join: "\<not> seat_free cap b \<Longrightarrow> i \<notin> bk_known b \<Longrightarrow>
    book_step cap b (b\<lparr>bk_known := insert i (bk_known b), bk_queue := bk_queue b @ [i]\<rparr>)"
| give_up: "i \<in> bk_seats b \<Longrightarrow> book_step cap b (b\<lparr>bk_seats := bk_seats b - {i}\<rparr>)"
| leave: "i \<in> set (bk_queue b) \<Longrightarrow> book_step cap b (b\<lparr>bk_queue := remove1 i (bk_queue b)\<rparr>)"
| promote: "seat_free cap b \<Longrightarrow> bk_queue b = i # q \<Longrightarrow>
    book_step cap b (b\<lparr>bk_seats := insert i (bk_seats b), bk_queue := q\<rparr>)"

abbreviation book_steps :: "int option \<Rightarrow> book \<Rightarrow> book \<Rightarrow> bool" where
  "book_steps cap \<equiv> (book_step cap)\<^sup>*\<^sup>*"

text \<open>The book an event has in the tables.\<close>

definition tickets :: "uuid \<Rightarrow> registration set \<Rightarrow> (int option \<times> uuid) set" where
  "tickets i rs = waiting_key ` {r \<in> rs. waiting_for i r}"

definition book_of :: "uuid \<Rightarrow> db \<Rightarrow> book" where
  "book_of i d = \<lparr>bk_known = rg_id ` {r \<in> set (t_registrations d). rg_event_id r = i},
     bk_seats = rg_id ` {r \<in> set (t_registrations d). rg_event_id r = i \<and> rg_seat_held r},
     bk_queue = map snd (sorted_list_of_set (tickets i (set (t_registrations d))))\<rparr>"

definition capacity_of :: "db \<Rightarrow> uuid \<Rightarrow> int option" where
  "capacity_of d i = Option.bind (event_of d i) ev_capacity"

subsection \<open>How a change of state shows in the book\<close>

lemma remove1_map_snd:
  "distinct (map snd xs) \<Longrightarrow> k \<in> set xs \<Longrightarrow> map snd (remove1 k xs) = remove1 (snd k) (map snd xs)"
  by (induction xs) (auto simp: image_iff)

lemma finite_tickets [simp]: "finite rs \<Longrightarrow> finite (tickets i rs)"
  by (simp add: tickets_def)

lemma tickets_inj:
  assumes "wf_registrations rs"
  shows "inj_on waiting_key (set rs)" "inj_on snd (tickets i (set rs))"
proof -
  have "distinct (map rg_id rs)" using assms by (simp add: wf_registrations_def)
  then have "inj_on rg_id (set rs)" by (simp add: distinct_map)
  then show "inj_on waiting_key (set rs)" "inj_on snd (tickets i (set rs))"
    by (auto simp: inj_on_def waiting_key_def tickets_def)
qed

lemma distinct_queue:
  assumes "wf_registrations (t_registrations d)"
  shows "distinct (bk_queue (book_of i d))"
  using tickets_inj(2) [OF assms, of i] by (simp add: book_of_def distinct_map)

lemma in_queue:
  "x \<in> set (bk_queue (book_of i d)) \<longleftrightarrow> (\<exists>r \<in> set (t_registrations d). waiting_for i r \<and> rg_id r = x)"
  by (force simp: book_of_def tickets_def waiting_key_def)

lemma in_seats:
  "x \<in> bk_seats (book_of i d) \<longleftrightarrow>
     (\<exists>r \<in> set (t_registrations d). rg_event_id r = i \<and> rg_seat_held r \<and> rg_id r = x)"
  by (auto simp: book_of_def)

lemma held_seats_card:
  assumes "wf_registrations (t_registrations d)"
  shows "held_seats i (t_registrations d) = int (card (bk_seats (book_of i d)))"
proof -
  let ?f = "filter (\<lambda>r. rg_event_id r = i \<and> rg_seat_held r) (t_registrations d)"
  have "distinct (map rg_id ?f)"
    using assms by (simp add: wf_registrations_def distinct_map_filter)
  then have "card (rg_id ` set ?f) = length ?f"
    using distinct_card [of "map rg_id ?f"] by simp
  then show ?thesis by (simp add: held_seats_def count_where_def book_of_def)
qed

lemma moved_set:
  assumes "moved c target new d d'" "wf_registrations (t_registrations d)"
  shows "c \<in> set (t_registrations d)"
    and "set (t_registrations d') = insert new (set (t_registrations d) - {c})"
proof -
  show c: "c \<in> set (t_registrations d)" using assms(1) by (auto simp: moved_def dest: one_or_none_Some)
  have dist: "distinct (map rg_id (t_registrations d))" using assms(2) by (simp add: wf_registrations_def)
  have "t_registrations d' = update_where (\<lambda>x. rg_id x = rg_id c) (\<lambda>_. new) (t_registrations d)"
    using assms(1) by (simp add: moved_def)
  then show "set (t_registrations d') = insert new (set (t_registrations d) - {c})"
    using c distinct_key_eq [OF dist _ c] by (auto simp: set_update_where image_iff)
qed

lemma moved_book:
  assumes m: "moved c target new d d'" and wf: "wf_registrations (t_registrations d)"
  shows "bk_known (book_of i d') = bk_known (book_of i d)"
    and "bk_seats (book_of i d') = (bk_seats (book_of i d) - {rg_id c})
      \<union> (if rg_event_id c = i \<and> target \<in> {Confirmed, CashPending} then {rg_id c} else {})"
    and "bk_queue (book_of i d') = remove1 (rg_id c) (bk_queue (book_of i d))"
proof -
  note s = moved_set [OF m wf]
  have dist: "distinct (map rg_id (t_registrations d))" using wf by (simp add: wf_registrations_def)
  have new: "rg_id new = rg_id c" "rg_event_id new = rg_event_id c" "\<not> waiting_for i new"
    "rg_seat_held new = (target \<in> {Confirmed, CashPending})"
    using m allowed_not_waitlisted by (auto simp: moved_def waiting_for_def)
  show "bk_known (book_of i d') = bk_known (book_of i d)"
    unfolding book_of_def s(2) using new(1,2) s(1) by (simp add: set_eq_iff image_iff) metis
  show "bk_seats (book_of i d') = (bk_seats (book_of i d) - {rg_id c})
      \<union> (if rg_event_id c = i \<and> target \<in> {Confirmed, CashPending} then {rg_id c} else {})"
    unfolding set_eq_iff Un_iff Diff_iff in_seats s(2)
    using new distinct_key_eq [OF dist _ s(1)] by auto
  have t: "tickets i (set (t_registrations d'))
      = tickets i (set (t_registrations d)) - (if waiting_for i c then {waiting_key c} else {})"
    unfolding s(2) tickets_def using new(3) s(1) inj_onD [OF tickets_inj(1) [OF wf]] by (auto; blast)
  show "bk_queue (book_of i d') = remove1 (rg_id c) (bk_queue (book_of i d))"
  proof (cases "waiting_for i c")
    case True
    let ?k = "sorted_list_of_set (tickets i (set (t_registrations d)))"
    have "waiting_key c \<in> set ?k" using True s(1) by (simp add: tickets_def)
    moreover have "distinct (map snd ?k)" using distinct_queue [OF wf, of i] by (simp add: book_of_def)
    ultimately have "map snd (remove1 (waiting_key c) ?k) = remove1 (rg_id c) (map snd ?k)"
      using remove1_map_snd [of ?k "waiting_key c"] by (simp add: waiting_key_def)
    then show ?thesis using t True by (simp add: book_of_def sorted_list_of_set_remove)
  next
    case False
    then have "rg_id c \<notin> set (bk_queue (book_of i d))"
      unfolding in_queue using distinct_key_eq [OF dist _ s(1)] by blast
    then show ?thesis using t False by (simp add: book_of_def remove1_idem)
  qed
qed

lemma seats_not_queued:
  assumes "wf_registrations (t_registrations d)" "x \<in> bk_seats (book_of i d)"
  shows "x \<notin> set (bk_queue (book_of j d))"
proof
  assume "x \<in> set (bk_queue (book_of j d))"
  then obtain r where r: "r \<in> set (t_registrations d)" "waiting_for j r" "rg_id r = x" by (auto simp: in_queue)
  obtain s where s: "s \<in> set (t_registrations d)" "rg_seat_held s" "rg_id s = x"
    using assms(2) by (auto simp: in_seats)
  have "distinct (map rg_id (t_registrations d))" using assms(1) by (simp add: wf_registrations_def)
  then have "r = s" by (rule distinct_key_eq [OF _ r(1) s(1)]) (simp add: r s)
  then show False using waiting_seat [OF assms(1) r(1,2)] s(2) by simp
qed

lemma moved_away:
  assumes m: "moved c target new d d'" and wf: "wf_registrations (t_registrations d)"
    and t: "target \<notin> {Confirmed, CashPending}"
  shows "book_steps cap (book_of i d) (book_of i d')"
proof -
  note b = moved_book [OF m wf, of i]
  have eq: "book_of i d' = (book_of i d)\<lparr>bk_seats := bk_seats (book_of i d) - {rg_id c},
      bk_queue := remove1 (rg_id c) (bk_queue (book_of i d))\<rparr>"
    by (rule book.equality) (use b t in auto)
  consider "rg_id c \<in> bk_seats (book_of i d)" | "rg_id c \<in> set (bk_queue (book_of i d))"
    | "rg_id c \<notin> bk_seats (book_of i d)" "rg_id c \<notin> set (bk_queue (book_of i d))" by blast
  then show ?thesis
  proof cases
    case 1
    then have "book_of i d' = (book_of i d)\<lparr>bk_seats := bk_seats (book_of i d) - {rg_id c}\<rparr>"
      using seats_not_queued [OF wf 1] eq by (simp add: remove1_idem)
    then show ?thesis using give_up [OF 1] by (simp add: r_into_rtranclp)
  next
    case 2
    then have "book_of i d' = (book_of i d)\<lparr>bk_queue := remove1 (rg_id c) (bk_queue (book_of i d))\<rparr>"
      using seats_not_queued [OF wf, of "rg_id c"] eq by (intro book.equality) auto
    then show ?thesis using leave [OF 2] by (simp add: r_into_rtranclp)
  next
    case 3
    then have "book_of i d' = book_of i d"
      using eq by (intro book.equality) (auto simp: remove1_idem)
    then show ?thesis by simp
  qed
qed

lemma moved_within:
  assumes m: "moved c target new d d'" and wf: "wf_registrations (t_registrations d)"
    and t: "target \<in> {Confirmed, CashPending}" "rg_seat_held c"
  shows "book_of i d' = book_of i d"
proof (rule book.equality)
  note b = moved_book [OF m wf, of i] and c = moved_set(1) [OF m wf]
  have dist: "distinct (map rg_id (t_registrations d))" using wf by (simp add: wf_registrations_def)
  have own: "rg_id c \<in> bk_seats (book_of (rg_event_id c) d)" using c t(2) by (auto simp: in_seats)
  have "rg_id c \<in> bk_seats (book_of i d) \<longleftrightarrow> rg_event_id c = i"
    using c t(2) distinct_key_eq [OF dist _ c] by (auto simp: in_seats)
  then show "bk_seats (book_of i d') = bk_seats (book_of i d)" using b(2) t(1) by auto
  show "bk_queue (book_of i d') = bk_queue (book_of i d)"
    using b(3) seats_not_queued [OF wf own] by (simp add: remove1_idem)
qed (use moved_book(1) [OF m wf] in simp_all)

lemma queue_head:
  assumes "oldest_waitlisted k d = Inr (Some c, d')" "wf_registrations (t_registrations d)"
  obtains q where "bk_queue (book_of k d) = rg_id c # q"
proof -
  let ?t = "tickets k (set (t_registrations d))"
  note o = oldest_waitlisted_Some [OF assms(1)]
  have c: "waiting_key c \<in> ?t" using o(2,3) by (simp add: tickets_def)
  have "Min ?t = waiting_key c"
    by (rule Min_eqI) (use o(4) c in \<open>auto simp: tickets_def\<close>)
  then have "sorted_list_of_set ?t = waiting_key c # sorted_list_of_set (?t - {waiting_key c})"
    using sorted_list_of_set_nonempty [of ?t] c by force
  then show ?thesis using that by (simp add: book_of_def waiting_key_def)
qed

lemma moved_head:
  assumes o: "oldest_waitlisted k d = Inr (Some c, d1)" and m: "moved c target new d d'"
    and wf: "wf_registrations (t_registrations d)" and t: "target \<in> {Confirmed, CashPending}"
    and free: "k = i \<Longrightarrow> seat_free cap (book_of i d)"
  shows "book_steps cap (book_of i d) (book_of i d')"
proof -
  note b = moved_book [OF m wf, of i] and w = oldest_waitlisted_Some(2,3) [OF o]
  have dist: "distinct (map rg_id (t_registrations d))" using wf by (simp add: wf_registrations_def)
  have queued: "rg_id c \<in> set (bk_queue (book_of k d))" using w by (auto simp: in_queue)
  then have seat: "rg_id c \<notin> bk_seats (book_of i d)" using seats_not_queued [OF wf] by blast
  show ?thesis
  proof (cases "k = i")
    case True
    obtain q where q: "bk_queue (book_of i d) = rg_id c # q" using queue_head [OF o wf] True by auto
    have "book_of i d' = (book_of i d)\<lparr>bk_seats := insert (rg_id c) (bk_seats (book_of i d)), bk_queue := q\<rparr>"
      by (rule book.equality) (use b q t w True seat in \<open>auto simp: waiting_for_def\<close>)
    then show ?thesis using promote [OF free [OF True] q] by (simp add: r_into_rtranclp)
  next
    case False
    then have "rg_id c \<notin> set (bk_queue (book_of i d))"
      using w distinct_key_eq [OF dist _ w(1)] by (auto simp: in_queue waiting_for_def)
    then have "book_of i d' = book_of i d"
      by (intro book.equality) (use b seat w False in \<open>auto simp: remove1_idem waiting_for_def\<close>)
    then show ?thesis by simp
  qed
qed

text \<open>A change of state by a service: nothing when its command was known, else one move.\<close>

lemma change_state_moves:
  assumes "change_state sha act r target a k reason t req cash d = Inr (new, d')"
    and "r \<in> set (t_registrations d)" "wf_registrations (t_registrations d)"
  obtains (same) "t_registrations d' = t_registrations d" | (moves) "moved r target new d d'"
  using assms(1)
proof (cases rule: change_state_effect)
  case replayed
  then show ?thesis using same by blast
next
  case (changed old)
  then show ?thesis using moves moved_candidate [OF changed(2,1) assms(2,3)] by blast
qed

lemma book_of_cong: "t_registrations d' = t_registrations d \<Longrightarrow> book_of i d' = book_of i d"
  by (simp add: book_of_def)

lemma change_state_wf:
  assumes "change_state sha act r target a k reason t req cash d = Inr (new, d')"
    and "r \<in> set (t_registrations d)" "wf_registrations (t_registrations d)"
  shows "wf_registrations (t_registrations d')"
  using assms by (cases rule: change_state_moves) (use assms(3) moved_inv(1) in auto)

context promotion_eligibility
begin

lemma loop_book:
  assumes "promote_loop sha check n e now req d = Inr (res, d')" "wf_registrations (t_registrations d)"
    and "te_id e = i \<Longrightarrow> seat_free cap (book_of i d)"
  shows "book_steps cap (book_of i d) (book_of i d')"
  using assms
proof (induction n arbitrary: d)
  case 0
  then show ?case by (simp add: tx_raise_eq)
next
  case (Suc n)
  note wf = Suc.prems(2)
  from Suc.prems(1) show ?case
  proof (cases rule: loop_cases)
    case empty
    then show ?thesis by simp
  next
    case (skip c caps new d1)
    note o = oldest_waitlisted_Some [OF skip(1)]
    have steps: "book_steps cap (book_of i d) (book_of i d1)
      \<and> bk_seats (book_of i d1) = bk_seats (book_of i d)"
      using skip(4) o(2) wf
    proof (cases rule: change_state_moves)
      case same
      then show ?thesis by (simp add: book_of_cong [OF same])
    next
      case moves
      have "rg_id c \<in> set (bk_queue (book_of (te_id e) d))" using o(2,3) by (auto simp: in_queue)
      then have "rg_id c \<notin> bk_seats (book_of i d)" using seats_not_queued [OF wf] by blast
      then have "bk_seats (book_of i d1) = bk_seats (book_of i d)"
        using moved_book(2) [OF moves wf, of i] by auto
      moreover have "book_steps cap (book_of i d) (book_of i d1)" by (rule moved_away [OF moves wf]) simp
      ultimately show ?thesis by blast
    qed
    then have "te_id e = i \<Longrightarrow> seat_free cap (book_of i d1)" using Suc.prems(3)
      by (auto simp: seat_free_def split: option.splits)
    then show ?thesis
      using Suc.IH [OF skip(5) change_state_wf [OF skip(4) o(2) wf]] steps by (auto intro: rtranclp_trans)
  next
    case (promote c caps new cash)
    note o = oldest_waitlisted_Some [OF promote(1)]
    from promote(5) o(2) wf show ?thesis
    proof (cases rule: change_state_moves)
      case same
      then show ?thesis by (simp add: book_of_cong [OF same])
    next
      case moves
      then show ?thesis using moved_head [OF promote(1) moves wf _ Suc.prems(3)] by simp
    qed
  qed
qed

end

lemma capacity_of_member: "member_frame d d' \<Longrightarrow> capacity_of d' i = capacity_of d i"
  by (simp add: capacity_of_def event_of_def member_frame_def)

lemma promote_next_book:
  assumes "promote_next sha (evaluate_user cfg) k now req d = Inr (res, d')"
    and wf: "wf_registrations (t_registrations d)"
  shows "book_steps (capacity_of d i) (book_of i d) (book_of i d')"
  using assms(1)
proof (cases rule: promote_next_cases)
  case unchanged
  then show ?thesis by simp
next
  case (loop t e row)
  have "seat_free (capacity_of d i) (book_of i d)" if "te_id e = i"
    using loop that held_seats_card [OF wf, of i]
    by (auto simp: seat_free_def capacity_of_def split: option.splits)
  then show ?thesis using members.loop_book [OF loop(9) wf] by blast
qed

text \<open>A member takes a seat while there is one, else joins the queue at its end.\<close>

lemma created_book:
  assumes "create_for sha p e rid now d = Inr (row, d')" and wf: "wf_registrations (t_registrations d)"
    and cap: "te_id e = i \<Longrightarrow> te_capacity e = cap"
  shows "book_steps cap (book_of i d) (book_of i d')"
proof -
  note c = create_for_effect [OF assms(1)]
  have rows: "set (t_registrations d') = insert row (set (t_registrations d))" using c(1) by simp
  have "\<not> row_exists (\<lambda>x. rg_id x = rg_id row) (t_registrations d)"
    using c(2) by (auto simp: registration_constraints_ok row_exists_iff)
  then have new: "rg_id row \<notin> bk_known (book_of i d)" by (auto simp: book_of_def row_exists_iff)
  show ?thesis
  proof (cases "te_id e = i")
    case False
    then have "rg_event_id row \<noteq> i" using c(3) by simp
    then have "tickets i (set (t_registrations d')) = tickets i (set (t_registrations d))"
      by (auto simp: tickets_def rows waiting_for_def)
    then have "book_of i d' = book_of i d"
      using \<open>rg_event_id row \<noteq> i\<close> by (intro book.equality) (auto simp: book_of_def rows)
    then show ?thesis by simp
  next
    case True
    have free: "rg_state row = Waitlisted \<longleftrightarrow> \<not> seat_free cap (book_of i d)"
      using c(6) held_seats_card [OF wf, of i] cap [OF True] True
      by (auto simp: decide_state_def seat_free_def split: option.splits if_splits)
    show ?thesis
    proof (cases "rg_state row = Waitlisted")
      case False
      then have held: "rg_seat_held row" using c(6,7) by (auto simp: decide_state_def split: if_splits)
      have "tickets i (set (t_registrations d')) = tickets i (set (t_registrations d))"
        using False by (auto simp: tickets_def rows waiting_for_def)
      then have "book_of i d' = (book_of i d)\<lparr>bk_known := insert (rg_id row) (bk_known (book_of i d)),
          bk_seats := insert (rg_id row) (bk_seats (book_of i d))\<rparr>"
        using c(3) True held by (intro book.equality) (auto simp: book_of_def rows)
      then show ?thesis using take [OF _ new] free False by (simp add: r_into_rtranclp)
    next
      case waits: True
      let ?t = "tickets i (set (t_registrations d))"
      obtain n where n: "rg_waitlist_sequence row = Some n"
        "\<forall>x \<in> set (t_registrations d). waiting_for (te_id e) x \<longrightarrow>
           (\<forall>k. rg_waitlist_sequence x = Some k \<longrightarrow> k < n)" using c(8) [OF waits] by blast
      have t: "tickets i (set (t_registrations d')) = insert (waiting_key row) ?t"
        using waits c(3) True by (auto simp: tickets_def rows waiting_for_def)
      have late: "k < waiting_key row" if "k \<in> ?t" for k
      proof -
        obtain x where x: "x \<in> set (t_registrations d)" "waiting_for i x" "k = waiting_key x"
          using \<open>k \<in> ?t\<close> by (auto simp: tickets_def)
        then show ?thesis using n True by (cases "rg_waitlist_sequence x") (auto simp: waiting_key_def)
      qed
      then have "waiting_key row \<notin> ?t" by blast
      then have "sorted_list_of_set (insert (waiting_key row) ?t)
          = insort (waiting_key row) (sorted_list_of_set ?t)"
        by (simp add: sorted_list_of_set_insert)
      also have "\<dots> = sorted_list_of_set ?t @ [waiting_key row]"
        by (rule sorted_insort_is_snoc) (use late in \<open>auto intro: less_imp_le\<close>)
      finally have q: "bk_queue (book_of i d') = bk_queue (book_of i d) @ [rg_id row]"
        by (simp add: book_of_def t waiting_key_def)
      have "book_of i d' = (book_of i d)\<lparr>bk_known := insert (rg_id row) (bk_known (book_of i d)),
          bk_queue := bk_queue (book_of i d) @ [rg_id row]\<rparr>"
        by (rule book.equality) (use q waits c(3,7) True in \<open>auto simp: book_of_def rows\<close>)
      then show ?thesis using join [OF _ new] free waits by (simp add: r_into_rtranclp)
    qed
  qed
qed

subsection \<open>The system\<close>

text \<open>
  Every operation of a member, a manager or the expiry worker that commits is a step, in any
  order. Between them other services may change whatever else they like, the capacity of an event
  included: an update of an event asks only for a positive one, so it may go below the seats held
  (\<open>capacity_below_the_seats_held\<close>).
\<close>

definition elsewhere :: "db \<Rightarrow> db \<Rightarrow> bool" where
  "elsewhere d d' \<longleftrightarrow> t_registrations d' = t_registrations d"

inductive registration_step :: "(string \<Rightarrow> string) \<Rightarrow> eligibility_config \<Rightarrow> db \<Rightarrow> db \<Rightarrow> bool"
  for sha cfg where
  register: "register sha cfg p i h rid now d = Inr (res, d') \<Longrightarrow> registration_step sha cfg d d'"
| cancel: "cancel_registration sha (evaluate_user cfg) (p :: principal) i rid now d = Inr (r, d')
    \<Longrightarrow> registration_step sha cfg d d'"
| confirm: "confirm_cash sha (p :: principal) i reg rid now d = Inr (r, d') \<Longrightarrow> registration_step sha cfg d d'"
| expire: "process_expiry sha (evaluate_user cfg) job now d = Inr (b, d') \<Longrightarrow> registration_step sha cfg d d'"
| promotion: "promote_next sha (evaluate_user cfg) i now req d = Inr (res, d') \<Longrightarrow> registration_step sha cfg d d'"
| other: "elsewhere d d' \<Longrightarrow> registration_step sha cfg d d'"

abbreviation registration_steps :: "(string \<Rightarrow> string) \<Rightarrow> eligibility_config \<Rightarrow> db \<Rightarrow> db \<Rightarrow> bool" where
  "registration_steps sha cfg \<equiv> (registration_step sha cfg)\<^sup>*\<^sup>*"

text \<open>A job that ran under the identifier of a known command changes nothing before the promotion.\<close>

lemma expiry_moves:
  assumes "process_expiry sha (evaluate_user cfg) job now d = Inr (b, d')"
    and wf: "wf_registrations (t_registrations d)"
  obtains (stale) "d' = d"
  | (same) j d2 x where "t_registrations d2 = t_registrations d" "member_frame d d2"
      "promote_next sha (evaluate_user cfg) j (Aware now 0) None d2 = Inr (x, d')"
  | (moves) r new j d2 x where "moved r Expired new d d2" "member_frame d d2"
      "promote_next sha (evaluate_user cfg) j (Aware now 0) None d2 = Inr (x, d')"
  using assms(1)
proof (cases rule: process_cases)
  case stale
  then show ?thesis using that(1) by blast
next
  case (expired r t res d1 d2 x)
  have frame: "member_frame d d2"
    using member.trans [OF tx_keepsD [OF transition_member expired(8)]
      tx_keepsD [OF audit_transition_member expired(9)]] .
  have same12: "t_registrations d2 = t_registrations d1"
    using expired(9) by (auto simp: audit_transition_def tx_simps dest!: audit_record_effect)
  from expired(8) show ?thesis
  proof (cases rule: transition_effect)
    case replayed
    then have "t_registrations d2 = t_registrations d" using same12 by simp
    then show ?thesis using same frame expired(10) by blast
  next
    case (applied old c e)
    have "old = r"
      using applied(2) one_or_none_key [of rg_id "t_registrations d" r] expired(4) wf
      by (simp add: wf_registrations_def)
    then have "moved r Expired (tr_registration res) d d2"
      using applied same12 by (simp add: moved_def event_of_def)
    then show ?thesis using moves frame expired(10) by blast
  qed
qed

text \<open>Every step keeps the table well formed and is a sequence of steps of each event's book.\<close>

lemma cancel_book:
  assumes "cancel_registration sha (evaluate_user cfg) p i rid now d = Inr (r, d')"
    and wf: "wf_registrations (t_registrations d)"
  shows "wf_registrations (t_registrations d')" "book_steps (capacity_of d k) (book_of k d) (book_of k d')"
proof -
  from assms(1) obtain t row c d1 where c: "c \<in> set (t_registrations d)"
    and s: "change_state sha ''registration.cancel'' c Cancelled (Some (sb_user_id p))
       Member ''member_cancelled'' t (Some rid) None d = Inr (r, d1)"
    and promote: "if rg_seat_held c
        then \<exists>res. promote_next sha (evaluate_user cfg) i (Aware t 0) (Some rid) d1 = Inr (res, d')
        else d' = d1" by (rule cancel_cases)
  note wf1 = change_state_wf [OF s c wf]
  have cap: "capacity_of d1 k = capacity_of d k"
    by (rule capacity_of_member [OF tx_keepsD [OF change_state_member s]])
  have "book_steps (capacity_of d k) (book_of k d) (book_of k d1)"
    using s c wf
  proof (cases rule: change_state_moves)
    case same
    then show ?thesis by (simp add: book_of_cong [OF same])
  next
    case moves
    show ?thesis by (rule moved_away [OF moves wf]) simp
  qed
  moreover have "book_steps (capacity_of d k) (book_of k d1) (book_of k d')
      \<and> wf_registrations (t_registrations d')"
    using promote promote_next_book [OF _ wf1, of sha cfg i _ _ _ d' k] wf1 promote_next_wf [OF _ wf1]
    unfolding cap by (auto split: if_splits)
  ultimately show "wf_registrations (t_registrations d')"
    "book_steps (capacity_of d k) (book_of k d) (book_of k d')" by (auto intro: rtranclp_trans)
qed

lemma expiry_book:
  assumes "process_expiry sha (evaluate_user cfg) job now d = Inr (b, d')"
    and wf: "wf_registrations (t_registrations d)"
  shows "wf_registrations (t_registrations d')" "book_steps (capacity_of d k) (book_of k d) (book_of k d')"
proof -
  have "wf_registrations (t_registrations d')
    \<and> book_steps (capacity_of d k) (book_of k d) (book_of k d')"
    using assms
  proof (cases rule: expiry_moves)
    case stale
    then show ?thesis using wf by simp
  next
    case (same j d2 x)
    then show ?thesis
      using promote_next_book [OF same(3)] promote_next_wf [OF same(3)] wf capacity_of_member [OF same(2)]
        book_of_cong [OF same(1)] by simp
  next
    case (moves r new j d2 x)
    note wf2 = moved_inv(1) [OF moves(1) wf]
    have "book_steps (capacity_of d k) (book_of k d) (book_of k d2)"
      by (rule moved_away [OF moves(1) wf]) simp
    then show ?thesis
      using promote_next_book [OF moves(3) wf2] promote_next_wf [OF moves(3) wf2] capacity_of_member [OF moves(2)]
      by (auto intro: rtranclp_trans)
  qed
  then show "wf_registrations (t_registrations d')"
    "book_steps (capacity_of d k) (book_of k d) (book_of k d')" by simp_all
qed

lemma registration_step_book:
  assumes "registration_step sha cfg d d'" and wf: "wf_registrations (t_registrations d)"
  shows "wf_registrations (t_registrations d')"
    and "book_steps (capacity_of d k) (book_of k d) (book_of k d')"
proof -
  from assms have "wf_registrations (t_registrations d')
    \<and> book_steps (capacity_of d k) (book_of k d) (book_of k d')"
  proof (induction rule: registration_step.induct)
    case (register p i h rid now d res d')
    from register(1) show ?case
    proof (cases rule: register_cases)
      case existing
      then show ?thesis using register(2) book_of_cong [OF existing(1)] by simp
    next
      case (created e row t d1)
      note wf1 = register(2) [folded created(12)]
      have "te_id e = k \<Longrightarrow> te_capacity e = capacity_of d k"
        using created(2,3,8) by (simp add: capacity_of_def)
      from created_book [OF created(13) wf1 this] book_of_cong [OF created(12)]
      show ?thesis
        using wf_registrations_append create_for_effect(1,2) [OF created(13)] wf1 by simp
    qed
  next
    case (cancel p i rid now d r d')
    then show ?case using cancel_book by blast
  next
    case (confirm p i reg rid now d r d')
    from confirm(1) show ?case
    proof (cases rule: confirm_cases)
      case again
      then show ?thesis using confirm(2) by simp
    next
      case (confirmed e c t x)
      have "row_ok c" using confirmed(2) confirm(2) by (simp add: wf_registrations_def)
      then have held: "rg_seat_held c" using confirmed(5) by (simp add: row_ok_seat)
      show ?thesis
        using confirmed(10,2) confirm(2)
      proof (cases rule: change_state_moves)
        case same
        then show ?thesis using confirm(2) book_of_cong [OF same] by simp
      next
        case moves
        then show ?thesis using moved_within [OF moves confirm(2) _ held] moved_inv(1) [OF moves confirm(2)] by simp
      qed
    qed
  next
    case (expire job now d b d')
    then show ?case using expiry_book by blast
  next
    case (promotion i now req d res d')
    then show ?case using promote_next_book promote_next_wf by blast
  next
    case (other d d')
    then show ?case by (simp add: elsewhere_def book_of_cong [of d' d])
  qed
  then show "wf_registrations (t_registrations d')"
    "book_steps (capacity_of d k) (book_of k d) (book_of k d')" by simp_all
qed

lemma registration_steps_book:
  assumes "registration_steps sha cfg d d'" "wf_registrations (t_registrations d)"
  shows "wf_registrations (t_registrations d')"
  using assms by (induction rule: rtranclp_induct) (auto intro: registration_step_book(1))

subsection \<open>Laws of the book\<close>

inductive_cases book_stepE: "book_step cap b b'"

text \<open>A step gives out a seat only while fewer are taken than the capacity.\<close>

lemma book_step_seats:
  assumes "book_step (Some c) b b'" "finite (bk_seats b)" "int (card (bk_seats b)) \<le> n" "c \<le> n"
  shows "finite (bk_seats b')" "int (card (bk_seats b')) \<le> n"
  using assms
  by (elim book_stepE; auto simp: seat_free_def card_insert_if card_Diff_singleton_if)+

lemma book_steps_seats:
  assumes "book_steps (Some c) b b'" "finite (bk_seats b)" "int (card (bk_seats b)) \<le> n" "c \<le> n"
  shows "finite (bk_seats b') \<and> int (card (bk_seats b')) \<le> n"
  using assms by (induction rule: rtranclp_induct) (auto dest: book_step_seats)

text \<open>\<open>a\<close> stays ahead of \<open>b\<close> in the queue until one of them leaves it; \<open>b\<close> is not seated before.\<close>

definition ahead :: "uuid \<Rightarrow> uuid \<Rightarrow> book \<Rightarrow> bool" where
  "ahead a b x \<longleftrightarrow> a \<in> bk_known x \<and> b \<in> bk_known x \<and> a \<noteq> b \<and>
     ((\<exists>p q r. bk_queue x = p @ a # q @ b # r \<and> b \<notin> bk_seats x) \<or> a \<notin> set (bk_queue x)
      \<or> b \<notin> set (bk_queue x) \<and> b \<notin> bk_seats x)"

lemma ahead_step:
  assumes "book_step cap x y" "ahead a b x" "distinct (bk_queue x)"
  shows "ahead a b y"
  using assms(1)
proof cases
  case (take i)
  then show ?thesis using assms(2) by (auto simp: ahead_def)
next
  case (join i)
  then show ?thesis using assms(2) by (fastforce simp: ahead_def)
next
  case (give_up i)
  then show ?thesis using assms(2) by (auto simp: ahead_def)
next
  case (leave i)
  consider p q r where "bk_queue x = p @ a # q @ b # r" "b \<notin> bk_seats x" | "a \<notin> set (bk_queue x)"
    | "b \<notin> set (bk_queue x)" "b \<notin> bk_seats x" using assms(2) by (auto simp: ahead_def)
  then show ?thesis
  proof cases
    case 1
    consider "i = a" | "i = b" | "i \<noteq> a" "i \<noteq> b" by blast
    then show ?thesis
    proof cases
      case 3
      have "\<exists>p q r. remove1 i (bk_queue x) = p @ a # q @ b # r"
        unfolding 1(1) remove1_append using 3 by (auto simp: remove1_append)
      then show ?thesis using leave 1 assms(2) by (auto simp: ahead_def)
    qed (use leave 1 assms(2,3) in \<open>auto simp: ahead_def remove1_append\<close>)
  qed (use leave assms(2) in \<open>auto simp: ahead_def dest: notin_set_remove1 set_remove1_subset [THEN subsetD]\<close>)
next
  case (promote i q)
  consider p s r where "bk_queue x = p @ a # s @ b # r" "b \<notin> bk_seats x" | "a \<notin> set (bk_queue x)"
    | "b \<notin> set (bk_queue x)" "b \<notin> bk_seats x" using assms(2) by (auto simp: ahead_def)
  then show ?thesis
  proof cases
    case 1
    then show ?thesis using promote assms(2,3) by (cases p) (auto simp: ahead_def)
  qed (use promote assms(2) in \<open>auto simp: ahead_def\<close>)
qed

lemma queue_known: "set (bk_queue (book_of i d)) \<subseteq> bk_known (book_of i d)"
proof
  fix x assume "x \<in> set (bk_queue (book_of i d))"
  then show "x \<in> bk_known (book_of i d)" unfolding in_queue by (auto simp: book_of_def waiting_for_def)
qed

lemma book_step_queue:
  assumes "book_step cap x y" "distinct (bk_queue x)" "set (bk_queue x) \<subseteq> bk_known x"
  shows "distinct (bk_queue y)" "set (bk_queue y) \<subseteq> bk_known y"
  using assms by (elim book_stepE; auto dest: set_remove1_subset [THEN subsetD])+

subsection \<open>Properties of the system\<close>

text \<open>
  C1. Refinement: each committed operation of the registration services (registering, cancelling,
  confirming a payment, expiring a reservation, with the promotions they set off) is, for every
  event, a sequence of steps of the book: a free seat is taken, the end of the queue joined, a seat
  or a place given up, or the head of the queue seated, and nothing else.
\<close>

theorem registrations_refine_the_book:
  assumes "registration_step sha cfg d d'" and "wf_registrations (t_registrations d)"
  shows "(book_step (capacity_of d i))\<^sup>*\<^sup>* (book_of i d) (book_of i d')"
  using assms by (rule registration_step_book(2))

theorem registrations_refine_the_book_witness:
  "\<exists>res d'. register example_sha example_rules (example_principal 5) (example_id 20) None
      (example_id 91) (Aware 10 0) example_db = Inr (res, d')
    \<and> (book_step (Some 1))\<^sup>*\<^sup>* (book_of (example_id 20) example_db) (book_of (example_id 20) d')"
proof -
  obtain res d' where r: "register example_sha example_rules (example_principal 5) (example_id 20) None
      (example_id 91) (Aware 10 0) example_db = Inr (res, d')" by (rule example_register)
  have "capacity_of example_db (example_id 20) = Some 1" by code_simp
  then show ?thesis
    using registrations_refine_the_book [OF registration_step.register [OF r] example_wf, of "example_id 20"] r
    by auto
qed

text \<open>
  C2. No operation oversells an event, whatever the order in which members register and cancel,
  managers confirm payments and change the capacity, and reservations expire: seats are given out
  only while fewer are held than the capacity. So however long the history, the seats held never
  exceed the largest capacity the event has had (or the seats held at the beginning, when those were
  more); while the capacity is not lowered, they never exceed the capacity.
\<close>

definition capacity_within :: "int \<Rightarrow> uuid \<Rightarrow> db \<Rightarrow> bool" where
  "capacity_within n i d \<longleftrightarrow> (\<exists>c. capacity_of d i = Some c \<and> c \<le> n)"

theorem seats_are_never_oversold:
  assumes "(\<lambda>x y. registration_step sha cfg x y \<and> capacity_within n i x)\<^sup>*\<^sup>* d d'"
    and "wf_registrations (t_registrations d)" and "held_seats i (t_registrations d) \<le> n"
  shows "held_seats i (t_registrations d') \<le> n"
proof -
  have "wf_registrations (t_registrations d') \<and> held_seats i (t_registrations d') \<le> n" using assms
  proof (induction rule: rtranclp_induct)
    case (step x y)
    then have wf: "wf_registrations (t_registrations x)" and seats: "held_seats i (t_registrations x) \<le> n"
      and s: "registration_step sha cfg x y" by simp_all
    obtain c where c: "capacity_of x i = Some c" "c \<le> n" using step(2) by (auto simp: capacity_within_def)
    note y = registration_step_book(1) [OF s wf] registration_step_book(2) [OF s wf, of i]
    have "finite (bk_seats (book_of i x))" by (simp add: book_of_def)
    then have "int (card (bk_seats (book_of i y))) \<le> n"
      using book_steps_seats [OF y(2) [unfolded c(1)] _ _ c(2)] seats by (simp add: held_seats_card [OF wf])
    then show ?case using y(1) by (simp add: held_seats_card [OF y(1)])
  qed simp
  then show ?thesis ..
qed

theorem seats_are_never_oversold_witness:
  "\<exists>new d'. cancel_registration example_sha (evaluate_user example_rules) (example_principal 2)
      (example_id 20) (example_id 91) (Aware 10 0) example_db = Inr (new, d')
    \<and> capacity_of example_db (example_id 20) = Some 1
    \<and> held_seats (example_id 20) (t_registrations d') \<le> 1"
proof -
  obtain new d' where c: "cancel_registration example_sha (evaluate_user example_rules)
      (example_principal 2) (example_id 20) (example_id 91) (Aware 10 0) example_db = Inr (new, d')"
    by (rule example_cancellation)
  have cap: "capacity_of example_db (example_id 20) = Some 1" by code_simp
  have "(\<lambda>x y. registration_step example_sha example_rules x y
      \<and> capacity_within 1 (example_id 20) x)\<^sup>*\<^sup>* example_db d'"
    by (rule r_into_rtranclp) (simp add: registration_step.cancel [OF c] capacity_within_def cap)
  moreover have "held_seats (example_id 20) (t_registrations example_db) \<le> 1" by code_simp
  ultimately show ?thesis using seats_are_never_oversold [OF _ example_wf] c cap by blast
qed

text \<open>
  C3. Nobody is overtaken in the queue: of two registrations that wait for the same event, the later
  one has no seat as long as the earlier one still waits.
\<close>

theorem nobody_is_overtaken:
  assumes "(registration_step sha cfg)\<^sup>*\<^sup>* d d'" and "wf_registrations (t_registrations d)"
    and "bk_queue (book_of i d) = p @ a # q @ b # r"
    and "b \<in> bk_seats (book_of i d')"
  shows "a \<notin> set (bk_queue (book_of i d'))"
proof -
  have "b \<notin> bk_seats (book_of i d)" using seats_not_queued [OF assms(2), of b i i] assms(3) by auto
  then have "ahead a b (book_of i d)"
    using assms(3) queue_known [of i d] distinct_queue [OF assms(2), of i] unfolding ahead_def by fastforce
  with assms(1) have "ahead a b (book_of i d') \<and> wf_registrations (t_registrations d')"
  proof (induction rule: rtranclp_induct)
    case base
    then show ?case using assms(2) by simp
  next
    case (step x y)
    then have wf: "wf_registrations (t_registrations x)" and "ahead a b (book_of i x)" by simp_all
    note steps = registration_step_book [OF step(2) wf]
    have "ahead a b z \<and> distinct (bk_queue z) \<and> set (bk_queue z) \<subseteq> bk_known z"
      if "book_steps (capacity_of x i) (book_of i x) z" for z
      using that
    proof (induction rule: rtranclp_induct)
      case base
      show ?case
        using \<open>ahead a b (book_of i x)\<close> distinct_queue [OF wf] queue_known by blast
    next
      case (step v w)
      then show ?case using ahead_step [OF step(2)] book_step_queue [OF step(2)] by blast
    qed
    then show ?case using steps by blast
  qed
  then show ?thesis using assms(4) by (auto simp: ahead_def)
qed

theorem nobody_is_overtaken_witness:
  "\<exists>res d'. promote_next example_sha (evaluate_user example_rules) (example_id 20)
      (Aware 10 0) None example_open_db = Inr (res, d')
    \<and> bk_queue (book_of (example_id 20) example_open_db) = [example_id 51, example_id 52]
    \<and> example_id 52 \<in> bk_seats (book_of (example_id 20) d')
    \<and> example_id 51 \<notin> set (bk_queue (book_of (example_id 20) d'))"
proof -
  obtain r d' where p: "promote_next example_sha (evaluate_user example_rules) (example_id 20)
      (Aware 10 0) None example_open_db = Inr (Some r, d')"
    and "\<exists>x \<in> set (t_registrations d'). rg_event_id x = example_id 20 \<and> rg_seat_held x \<and> rg_id x = example_id 52"
    by (rule example_promotion)
  then have b: "example_id 52 \<in> bk_seats (book_of (example_id 20) d')" by (simp add: in_seats)
  have "registration_steps example_sha example_rules example_open_db d'"
    by (rule r_into_rtranclp) (rule registration_step.promotion [OF p])
  moreover note example_open_ok(1)
  moreover have q: "bk_queue (book_of (example_id 20) example_open_db) = [] @ example_id 51 # [] @ example_id 52 # []"
    by code_simp
  ultimately have "example_id 51 \<notin> set (bk_queue (book_of (example_id 20) d'))"
    using b by (rule nobody_is_overtaken)
  then show ?thesis using b p q by auto
qed

end
