(* ===== verification/Spec2Isabelle.thy ===== *)
theory Spec2Isabelle
  imports Account_Laws Admin_Pages Attendee_Services Audit_Log Authorization Base64
     Cash_Expiry Club_Laws Club_Repository Club_Service Club_Store Eligibility Event_Access
     Event_Laws Event_Model Event_Service Event_Store Example_Data Expiry_Laws Expiry_Worker
     Idempotency Idempotency_Laws Idempotent_Routes Identifiers Identity_Codecs
     Identity_Service Identity_Store Image_Container Media_Laws Media_Service Media_Store
     Membership_Service Membership_Store Moderation_Laws Moderation_Service Moderation_Store
     Notifications Object_Storage Outbox Outbox_Growth Outbox_Worker Platform_Settings
     Prelude Promotion_Laws Py_Text Rate_Limit Regions Registration_Creation
     Registration_Frame Registration_Model Registration_Promotion Registration_Rules
     Registration_Store Registration_System Registration_Transition Schema Session_Laws
     Tx_Errors Tx_Frame Tx_Run Waiting_List Worker_Loop
begin

text \<open>
  \<^bold>\<open>The program.\<close> Talaqi is a modular monolith: a FastAPI service (\<open>src/apps/api/src/talaqi\<close>), a worker
  process (\<open>src/apps/worker/src/talaqi_worker\<close>) and a PostgreSQL schema
  (\<open>src/database/migrations/assets/0001_closed_beta_baseline.sql\<close> and the migrations after it). Members
  register for the events of clubs and organizers, wait for seats, reserve seats they pay in cash, are notified,
  and report abuse. Every request of the API is one database transaction; what has to happen later is a row of
  the outbox, which the worker claims under a lease.

  \<^bold>\<open>How it is modelled.\<close>
  \<^item> The database is the record \<open>db\<close> of \<open>Schema\<close>: one list of rows per table, in insertion order,
    the source of generated identifiers (\<open>entropy_at\<close>) and the clock of the database (\<open>clock_at\<close>). Rows keep
    the columns and the names of the baseline. A table's \<open>CHECK\<close>, key and foreign-key clauses are a list of named conditions
    (\<open>registration_constraints\<close>, \<open>event_checks\<close>, \<open>club_keys\<close>, ...), and the statements that write the table
    raise \<open>IntegrityError\<close> with the first one violated.
  \<^item> An operation is a function \<open>'a txn = db => py_error + 'a * db\<close> (\<open>Prelude\<close>): \<open>Inl\<close> is an
    exception, after which the transaction is rolled back and no state is left; \<open>Inr\<close> commits. \<open>tx_bind\<close>,
    \<open>tx_guard\<close>, \<open>tx_lift\<close>, \<open>tx_query\<close> and \<open>tx_modify\<close> are the combinators, and the guards stand in the
    order of the code. Where the API keeps an effect outside the transaction (the object storage), the state is a pair
    and a failed request keeps the files (\<open>Media_Service\<close>); where the code catches or rolls back
    (\<open>get_db_session\<close>), the request itself is a definition (\<open>request\<close>, \<open>io_request\<close>).
  \<^item> Instants are microseconds since 1970 as \<open>int\<close>; datetimes of callers are a wall clock with an optional offset
    (\<open>Identifiers\<close>), so that the checks for naive datetimes are in the model. UUIDs are \<open>128 word\<close>; Python's
    integers are \<open>int\<close>; strings are lists of characters, of which Python's \<open>strip\<close>, \<open>lower\<close> and \<open>isalpha\<close> are
    modelled in the range of those characters (\<open>Py_Text\<close>).
  \<^item> SHA-256, HMAC, Argon2, Pillow, the e-mail validator and the check of a bracketed host are arguments of the
    definitions that use them.

  \<^bold>\<open>The theories.\<close>
  \<^item> Foundations: \<open>Prelude\<close> (results, transactions, rows), \<open>Tx_Frame\<close> (the locale of what a transaction leaves
    alone, interpreted once per group of tables), \<open>Tx_Run\<close>, \<open>Tx_Errors\<close>, \<open>Py_Text\<close>, \<open>Schema\<close>,
    \<open>Identifiers\<close> (\<open>db/identifiers.py\<close>, \<open>db/time.py\<close>), \<open>Base64\<close>, \<open>Example_Data\<close>.
  \<^item> Shared services: \<open>Audit_Log\<close>, \<open>Outbox\<close> and \<open>Outbox_Growth\<close>, \<open>Rate_Limit\<close>, \<open>Authorization\<close>,
    \<open>Platform_Settings\<close>, \<open>Regions\<close>, \<open>Eligibility\<close>.
  \<^item> Registrations (\<open>registrations/\<close>): \<open>Registration_Model\<close> and \<open>Registration_Store\<close> (the repository),
    \<open>Registration_Transition\<close> (the state machine with its replay), \<open>Registration_Creation\<close>,
    \<open>Registration_Promotion\<close> (the waiting list and cancellation), \<open>Attendee_Services\<close>, \<open>Cash_Expiry\<close> and
    \<open>Expiry_Worker\<close> (the expiry jobs and the worker's loop over them); laws in \<open>Registration_Frame\<close>,
    \<open>Promotion_Laws\<close>, \<open>Waiting_List\<close>, \<open>Expiry_Laws\<close>, and \<open>Registration_Rules\<close>: the services never run into
    the \<open>CHECK\<close> and unique rules of the table.
  \<^item> \<open>Registration_System\<close> composes them: a step relation of every operation, the invariants of its
    reachable states, and its refinement of an abstract book of seats, queue and known members.
  \<^item> Events (\<open>events/\<close>): \<open>Event_Model\<close> (normalisation, patches, publication rules), \<open>Event_Store\<close>,
    \<open>Event_Service\<close>, \<open>Event_Laws\<close> (the life of an event), \<open>Event_Access\<close> (private links and what an audience sees).
  \<^item> Clubs (\<open>clubs/\<close>): \<open>Club_Store\<close>, \<open>Club_Repository\<close>, \<open>Club_Service\<close>, \<open>Membership_Store\<close>,
    \<open>Membership_Service\<close>, \<open>Club_Laws\<close> (ownership and admission as invariants of a step relation).
  \<^item> Identity (\<open>identity/\<close>): \<open>Identity_Codecs\<close>, \<open>Identity_Store\<close>, \<open>Identity_Service\<close>,
    \<open>Session_Laws\<close> (rotation), \<open>Account_Laws\<close> (login and recovery).
  \<^item> Media (\<open>media/\<close>): \<open>Image_Container\<close>, \<open>Media_Store\<close>, \<open>Object_Storage\<close>, \<open>Media_Service\<close>,
    \<open>Media_Laws\<close>.
  \<^item> Moderation (\<open>moderation/\<close>): \<open>Moderation_Store\<close>, \<open>Moderation_Service\<close>, \<open>Moderation_Laws\<close>.
  \<^item> Delivery: \<open>Notifications\<close> (\<open>communications/\<close>), \<open>Worker_Loop\<close> (the locale of a loop that settles each claim),
    \<open>Outbox_Worker\<close> (\<open>talaqi_worker/outbox.py\<close>, \<open>outbox/service.py\<close>).

  \<^item> Requests: \<open>Idempotency\<close> (\<open>platform/idempotency.py\<close>), \<open>Idempotent_Routes\<close> (the pattern of a mutating route, with
    those of registrations and feature flags), \<open>Idempotency_Laws\<close>; \<open>Admin_Pages\<close> (the pages of \<open>moderation/routes.py\<close>).

  \<^bold>\<open>What is shown.\<close> The lemmas of a component say what each statement and service writes (\<open>..._effect\<close>,
  \<open>..._cases\<close>), what it leaves alone (\<open>tx_keeps\<close> for a frame), and what it needs. The properties C1, C2, ... of
  the theories rest on them: the registration system refines the book, gives out seats only while fewer are held than the capacity, never lets
  anybody be overtaken and never runs into the rules of its table (\<open>Registration_Rules\<close>); the state machine of registrations is exact, replays a repeated command and refuses a reused identifier;
  registering, promotion, cancellation, confirmation and expiry do what they announce, down to who gets a seat that
  is given up; who may register is told of the tables alone; every club has one owner and
  only admitted members; the history of a moderation case is complete, suspending cuts private links; events follow
  their life cycle and are published only under the policy of their country's row; private links and venues reach only their audience;
  a login opens one session of exactly 30 days; refresh tokens that are reused end their family; verified media are stored; the outbox is leased exclusively and in
  order, and the workers settle every claim; notifications are delivered once, minimally and to their recipient;
  a request repeated under its key is answered as before and changes nothing.
  Some theorems show defects: failed logins are never counted (\<open>failed_logins_never_lock\<close>), no upload is ever
  quarantined (\<open>uploads_are_never_quarantined\<close>), an account suspended again cannot be restored through the case
  that restored it before (\<open>repeated_action_is_refused\<close>), an export under a used key is answered with the export of another event
  (\<open>export_key_ignores_the_event\<close>), the largest page of the audit log fails (\<open>largest_audit_page_fails\<close>), and a manager
  can lower the capacity of a published event below the seats held (\<open>capacity_below_the_seats_held\<close>), although the
  product documents say that seats never exceed it.

  \<^bold>\<open>Loops and fuel.\<close> The promotion loop takes as fuel one more round than there are waiting members;
  \<open>promotion_terminates\<close> shows that it is never exhausted, because every round but the last takes
  somebody off the list. \<open>business_deadline\<close> is total by a measure on the days left and the distance to Monday.
  Every other loop is structural.

  \<^bold>\<open>Concurrency.\<close> Transactions are atomic steps: the code takes row locks (\<open>FOR UPDATE\<close>, \<open>FOR SHARE\<close>, advisory
  locks) before it decides, and interleavings are sequences of whole transactions. The workers' claims, handlers and
  completions are separate steps. Isolation anomalies of statements that take no lock are outside the model.

  \<^bold>\<open>Not modelled.\<close> HTTP itself: routers, request and response schemas, cookies, headers, CSRF middleware, error rendering, request
  identifiers, OpenAPI and pagination cursors; public discovery and the dashboard, which only read; announcements and
  contact messages (\<open>communications/content*.py\<close>); the S3 storage and the upload endpoint of the local one; reading access tokens
  (so \<open>require_access\<close> and \<open>logout\<close>); replacing a profile; the catalogues of regions; the e-mail worker; localisation,
  configuration, logging, metrics, health checks and process start-up; migrations, seeds and scripts. They are the
  components of the manifest with the status \<open>not_modelled\<close>, each with its reason.
\<close>

end
